(* ===== verification/Prelude.thy ===== *)
theory Prelude
  imports Main "HOL-Library.State_Monad"
begin

section \<open>Prelude: Go strings, the effectful world, and reasoning about it\<close>

text \<open>
  Shared vocabulary of the development.
  \<^item> Go strings are byte strings: \<open>string\<close> is used as a list of bytes.  The functions of
    package \<^verbatim>\<open>strings\<close> that the code uses are defined here on bytes.
  \<^item> Effectful code is a \<open>('s, 'a) state\<close> of \<open>HOL-Library.State_Monad\<close>.  Every world carries
    a list of pending faults (which of the next calls to an outside system fail, and how) and a clock.
  \<^item> \<open>steps R m\<close> says that running \<open>m\<close> relates the state before to the state after by \<open>R\<close>;
    the collection \<open>steps_intro\<close> carries such facts through \<open>do\<close> blocks.
\<close>

named_theorems steps_intro \<open>introduction rules that carry a step relation through a do block\<close>

subsection \<open>Byte strings\<close>

text \<open>
  The runes that \<^verbatim>\<open>unicode.IsSpace\<close> accepts, each as its UTF-8 encoding.  UTF-8 is
  self-synchronising, so a string starts (ends) with such a rune exactly when it starts (ends)
  with these bytes.
\<close>

definition go_spaces :: "string list" where
  "go_spaces =
     [[CHR 0x09], [CHR 0x0A], [CHR 0x0B], [CHR 0x0C], [CHR 0x0D], [CHR 0x20],
      [CHR 0xC2, CHR 0x85], [CHR 0xC2, CHR 0xA0],
      [CHR 0xE1, CHR 0x9A, CHR 0x80],
      [CHR 0xE2, CHR 0x80, CHR 0x80], [CHR 0xE2, CHR 0x80, CHR 0x81],
      [CHR 0xE2, CHR 0x80, CHR 0x82], [CHR 0xE2, CHR 0x80, CHR 0x83],
      [CHR 0xE2, CHR 0x80, CHR 0x84], [CHR 0xE2, CHR 0x80, CHR 0x85],
      [CHR 0xE2, CHR 0x80, CHR 0x86], [CHR 0xE2, CHR 0x80, CHR 0x87],
      [CHR 0xE2, CHR 0x80, CHR 0x88], [CHR 0xE2, CHR 0x80, CHR 0x89],
      [CHR 0xE2, CHR 0x80, CHR 0x8A], [CHR 0xE2, CHR 0x80, CHR 0xA8],
      [CHR 0xE2, CHR 0x80, CHR 0xA9], [CHR 0xE2, CHR 0x80, CHR 0xAF],
      [CHR 0xE2, CHR 0x81, CHR 0x9F], [CHR 0xE3, CHR 0x80, CHR 0x80]]"

definition starts_with :: "'a list \<Rightarrow> 'a list \<Rightarrow> bool" where
  "starts_with p s \<longleftrightarrow> take (length p) s = p"

definition has_prefix :: "string \<Rightarrow> string \<Rightarrow> bool" where
  "has_prefix s p \<longleftrightarrow> starts_with p s"

fun strip_any :: "string list \<Rightarrow> string \<Rightarrow> string" where
  "strip_any ws [] = []"
| "strip_any ws (c # s) =
     (case find (\<lambda>w. starts_with w (c # s)) ws of
        None \<Rightarrow> c # s
      | Some w \<Rightarrow> strip_any ws (drop (length w - 1) s))"

definition trim_space :: "string \<Rightarrow> string" where
  "trim_space s = rev (strip_any (map rev go_spaces) (rev (strip_any go_spaces s)))"

fun contains :: "string \<Rightarrow> string \<Rightarrow> bool" where
  "contains [] p \<longleftrightarrow> p = []"
| "contains (c # s) p \<longleftrightarrow> starts_with p (c # s) \<or> contains s p"

text \<open>
  \<^verbatim>\<open>strings.ToLower\<close>: ASCII letters, and the two non-ASCII runes whose lower case is an ASCII
  letter (U+212A and U+0130).  Other bytes are kept; the code only compares the result with
  ASCII constants, which no other rune can produce.
\<close>

definition lower_char :: "char \<Rightarrow> char" where
  "lower_char c = (let n = (of_char c :: nat) in
     if 65 \<le> n \<and> n \<le> 90 then char_of (n + 32) else c)"

text \<open>The same on the bits of the character, for evaluation.\<close>

lemma lower_char_code [code]: "lower_char (Char b0 b1 b2 b3 b4 b5 b6 b7) =
   (if \<not> b7 \<and> b6 \<and> \<not> b5 \<and> (b0 \<or> b1 \<or> b2 \<or> b3 \<or> b4) \<and> \<not> (b4 \<and> b3 \<and> (b2 \<or> b1 \<and> b0))
    then Char b0 b1 b2 b3 b4 True b6 b7 else Char b0 b1 b2 b3 b4 b5 b6 b7)"
  by (cases b0; cases b1; cases b2; cases b3; cases b4; cases b5; cases b6; cases b7;
      simp add: lower_char_def Let_def of_char_Char char_of_def bit_0)

text \<open>A continuation byte of UTF-8.\<close>

lemma continuation_byte: "((of_char c :: nat) div 64 = 2) = (digit7 c \<and> \<not> digit6 c)"
  by (cases c) (auto simp: of_char_Char)

fun to_lower :: "string \<Rightarrow> string" where
  "to_lower [] = []"
| "to_lower (c # s) =
     (if starts_with [CHR 0xE2, CHR 0x84, CHR 0xAA] (c # s) then CHR ''k'' # to_lower (drop 2 s)
      else if starts_with [CHR 0xC4, CHR 0xB0] (c # s) then CHR ''i'' # to_lower (drop 1 s)
      else lower_char c # to_lower s)"

text \<open>
  \<^verbatim>\<open>strings.EqualFold\<close> against an ASCII constant: letters fold to lower case, U+212A to \<open>k\<close> and
  U+017F to \<open>s\<close>; no other rune folds to an ASCII character.
\<close>

fun fold_case :: "string \<Rightarrow> string" where
  "fold_case [] = []"
| "fold_case (c # s) =
     (if starts_with [CHR 0xE2, CHR 0x84, CHR 0xAA] (c # s) then CHR ''k'' # fold_case (drop 2 s)
      else if starts_with [CHR 0xC5, CHR 0xBF] (c # s) then CHR ''s'' # fold_case (drop 1 s)
      else lower_char c # fold_case s)"

definition equal_fold :: "string \<Rightarrow> string \<Rightarrow> bool" where
  "equal_fold s t \<longleftrightarrow> fold_case s = fold_case t"

text \<open>\<^verbatim>\<open>strconv.Itoa\<close> and \<^verbatim>\<open>%d\<close>.\<close>

fun digits_of_nat :: "nat \<Rightarrow> string" where
  "digits_of_nat n =
     (if n < 10 then [char_of (48 + n)] else digits_of_nat (n div 10) @ [char_of (48 + n mod 10)])"

declare digits_of_nat.simps [simp del]

definition itoa :: "int \<Rightarrow> string" where
  "itoa i = (if i < 0 then CHR ''-'' # digits_of_nat (nat (- i)) else digits_of_nat (nat i))"

text \<open>Digits on binary integers, for evaluation.\<close>

function idigits :: "int \<Rightarrow> string" where
  "idigits n = (if n < 10 then [char_of (48 + nat n)]
     else idigits (n div 10) @ [char_of (48 + nat (n mod 10))])"
  by pat_completeness auto
termination by (relation "measure nat") auto

declare idigits.simps [simp del]

lemma idigits: "digits_of_nat (nat n) = idigits n"
proof (induction n rule: idigits.induct)
  case (1 n)
  show ?case
  proof (cases "n < 10")
    case True
    then have "nat n < 10" by linarith
    with True show ?thesis by (subst idigits.simps, subst digits_of_nat.simps) simp
  next
    case False
    then have "\<not> nat n < 10" "nat n div 10 = nat (n div 10)" "nat n mod 10 = nat (n mod 10)"
      by (simp_all add: nat_div_distrib nat_mod_distrib)
    with 1 False show ?thesis by (subst idigits.simps, subst digits_of_nat.simps) simp
  qed
qed

lemma itoa_code [code]: "itoa i = (if i < 0 then CHR ''-'' # idigits (- i) else idigits i)"
  by (simp add: itoa_def idigits)

text \<open>\<^verbatim>\<open>strconv.Atoi\<close>: an optional sign and decimal digits, in the range of int64.\<close>

definition digit_value :: "char \<Rightarrow> int option" where
  "digit_value c = (let n = (of_char c :: nat) in if 48 \<le> n \<and> n \<le> 57 then Some (int n - 48) else None)"

fun parse_digits :: "int \<Rightarrow> string \<Rightarrow> int option" where
  "parse_digits acc [] = Some acc"
| "parse_digits acc (c # s) = (case digit_value c of None \<Rightarrow> None | Some v \<Rightarrow> parse_digits (10 * acc + v) s)"

definition atoi :: "string \<Rightarrow> int option" where
  "atoi s = (let neg = starts_with ''-'' s; s' = (if neg \<or> starts_with ''+'' s then tl s else s) in
     if s' = [] then None
     else (case parse_digits 0 s' of None \<Rightarrow> None
        | Some v \<Rightarrow> (let n = (if neg then - v else v) in
            if - (2 ^ 63) \<le> n \<and> n < 2 ^ 63 then Some n else None)))"

lemma trim_space_Nil [simp]: "trim_space [] = []"
  by (simp add: trim_space_def)

lemma length_strip_any: "length (strip_any ws s) \<le> length s"
  by (induction ws s rule: strip_any.induct) (auto split: option.splits intro: le_trans)

lemma length_trim_space: "length (trim_space s) \<le> length s"
  using length_strip_any [of "map rev go_spaces" "rev (strip_any go_spaces s)"]
    length_strip_any [of go_spaces s]
  by (simp add: trim_space_def)

definition stripped :: "string list \<Rightarrow> string \<Rightarrow> bool" where
  "stripped ws s \<longleftrightarrow> (\<forall>w \<in> set ws. s \<noteq> [] \<longrightarrow> \<not> starts_with w s)"

lemma strip_any_stripped: "stripped ws (strip_any ws s)"
  by (induction ws s rule: strip_any.induct) (auto simp: stripped_def find_None_iff split: option.split)

lemma strip_any_id: "stripped ws s \<Longrightarrow> strip_any ws s = s"
  by (cases s) (auto simp: stripped_def find_Some_iff split: option.split dest: nth_mem)

lemma strip_any_drop: "\<exists>n. strip_any ws s = drop n s"
proof (induction ws s rule: strip_any.induct)
  case (2 ws c s)
  show ?case
  proof (cases "find (\<lambda>w. starts_with w (c # s)) ws")
    case None
    then show ?thesis by (auto intro: exI [of _ 0])
  next
    case (Some w)
    with 2 obtain n where "strip_any ws (drop (length w - 1) s) = drop n (drop (length w - 1) s)" by blast
    then show ?thesis using Some by (auto intro!: exI [of _ "Suc (n + (length w - 1))"] simp: add.commute)
  qed
qed simp

lemma stripped_take: "stripped ws s \<Longrightarrow> stripped ws (take n s)"
  by (auto simp: stripped_def starts_with_def) (metis min.absorb1 min.cobounded2 length_take take_take)

lemma trim_space_idem [simp]: "trim_space (trim_space s) = trim_space s"
proof -
  define a where "a = strip_any go_spaces s"
  define b where "b = strip_any (map rev go_spaces) (rev a)"
  obtain n where "b = drop n (rev a)" using strip_any_drop b_def by blast
  then have "rev b = take (length a - n) a" by (simp add: rev_drop)
  then have "stripped go_spaces (rev b)"
    using strip_any_stripped [of go_spaces s] by (simp add: a_def stripped_take)
  then have "strip_any go_spaces (rev b) = rev b" by (rule strip_any_id)
  moreover have "strip_any (map rev go_spaces) b = b"
    unfolding b_def by (intro strip_any_id strip_any_stripped)
  ultimately show ?thesis by (simp add: trim_space_def a_def [symmetric] b_def [symmetric])
qed

text \<open>Division and remainder of Go (and of PostgreSQL) truncate toward zero.\<close>

definition go_rem :: "int \<Rightarrow> int \<Rightarrow> int" where
  "go_rem a b = sgn a * (\<bar>a\<bar> mod \<bar>b\<bar>)"

definition go_div :: "int \<Rightarrow> int \<Rightarrow> int" where
  "go_div a b = sgn a * sgn b * (\<bar>a\<bar> div \<bar>b\<bar>)"

subsection \<open>Pointers\<close>

text \<open>A Go pointer that may be nil is an \<open>option\<close>.\<close>

definition deref_or :: "'a \<Rightarrow> 'a option \<Rightarrow> 'a" where
  "deref_or d p = (case p of None \<Rightarrow> d | Some x \<Rightarrow> x)"

lemma deref_or_simps [simp]: "deref_or d None = d" "deref_or d (Some x) = x"
  by (simp_all add: deref_or_def)

subsection \<open>The world: faults and time\<close>

text \<open>
  \<open>faults\<close> is an oracle: its head says what becomes of the next call to the database or to Redis
  (the empty list means that every further call is answered).  A call can fail in two ways, and
  the caller cannot tell them apart: it never took effect, or it took effect and the answer was
  lost.  \<open>ticks\<close> says how much time passes before each reading of the clock.  Theorems quantify
  over both.
\<close>

datatype call_outcome = Answered | NotSent | AnswerLost

record world =
  faults :: "call_outcome list"
  clock :: int
  ticks :: "nat list"

abbreviation ret :: "'a \<Rightarrow> ('s, 'a) state" where
  "ret \<equiv> State_Monad.return"

definition time_now :: "('z world_scheme, int) state" where
  "time_now = State (\<lambda>w. case ticks w of
      [] \<Rightarrow> (clock w, w)
    | d # ds \<Rightarrow> (clock w + int d, w\<lparr>clock := clock w + int d, ticks := ds\<rparr>))"

definition gets :: "('s \<Rightarrow> 'a) \<Rightarrow> ('s, 'a) state" where
  "gets f = State (\<lambda>s. (f s, s))"

definition modify :: "('s \<Rightarrow> 's) \<Rightarrow> ('s, unit) state" where
  "modify f = State (\<lambda>s. ((), f s))"

lemma run_gets [simp]: "run_state (gets f) s = (f s, s)"
  by (simp add: gets_def)

lemma run_modify [simp]: "run_state (modify f) s = ((), f s)"
  by (simp add: modify_def)

lemma run_time_now_clock: "clock w \<le> fst (run_state time_now w)"
  by (auto simp: time_now_def split: list.splits)

lemmas run_ret = State_Monad.run_state_return
lemmas run_bind = State_Monad.run_state_bind

declare State_Monad.run_state_bind [simp del] State_Monad.bind_assoc [simp del]
  State_Monad.bind_left_identity [simp del]

text \<open>Taking a run apart: \<open>run_elims\<close> collects the elimination rules.\<close>

named_theorems run_elims \<open>elimination rules for the run of an effectful program\<close>

lemma run_bindE [run_elims]:
  assumes "run_state (State_Monad.bind m f) s = (b, s'')"
  obtains a s' where "run_state m s = (a, s')" "run_state (f a) s' = (b, s'')"
  using assms by (auto simp: run_bind split: prod.splits)

lemma run_retE [run_elims]:
  assumes "run_state (ret x) s = (b, s')"
  obtains "b = x" "s' = s"
  using assms by simp

lemma run_ifE [run_elims]:
  assumes "run_state (if c then m else n) s = r"
  obtains "c" "run_state m s = r" | "\<not> c" "run_state n s = r"
  using assms by (auto split: if_splits)

lemma run_case_sumE [run_elims]:
  assumes "run_state (case x of Inl e \<Rightarrow> f e | Inr a \<Rightarrow> g a) s = r"
  obtains e where "x = Inl e" "run_state (f e) s = r" | a where "x = Inr a" "run_state (g a) s = r"
  using assms by (auto split: sum.splits)

lemma run_case_optionE [run_elims]:
  assumes "run_state (case x of None \<Rightarrow> f | Some a \<Rightarrow> g a) s = r"
  obtains "x = None" "run_state f s = r" | a where "x = Some a" "run_state (g a) s = r"
  using assms by (auto split: option.splits)

lemma run_case_prodE [run_elims]:
  assumes "run_state (case x of (a, b) \<Rightarrow> f a b) s = r"
  obtains a b where "x = (a, b)" "run_state (f a b) s = r"
  using assms by (auto split: prod.splits)

lemma run_letE [run_elims]:
  assumes "run_state (let x = e in f x) s = r"
  obtains "run_state (f e) s = r"
  using assms by simp

subsection \<open>Step relations of effectful code\<close>

definition steps :: "('s \<Rightarrow> 's \<Rightarrow> bool) \<Rightarrow> ('s, 'a) state \<Rightarrow> bool" where
  "steps R m \<longleftrightarrow> (\<forall>s. R s (snd (run_state m s)))"

lemma stepsI: "(\<And>s. R s (snd (run_state m s))) \<Longrightarrow> steps R m"
  by (simp add: steps_def)

lemma stepsD: "steps R m \<Longrightarrow> run_state m s = (a, s') \<Longrightarrow> R s s'"
  unfolding steps_def by (metis snd_conv)

lemma steps_snd: "steps R m \<Longrightarrow> R s (snd (run_state m s))"
  by (simp add: steps_def)

lemma steps_ret [steps_intro]: "reflp R \<Longrightarrow> steps R (ret x)"
  by (simp add: steps_def reflp_def)

lemma steps_gets [steps_intro]: "reflp R \<Longrightarrow> steps R (gets f)"
  by (simp add: steps_def reflp_def)

lemma steps_bind [steps_intro]:
  "transp R \<Longrightarrow> steps R m \<Longrightarrow> (\<And>x. steps R (f x)) \<Longrightarrow> steps R (State_Monad.bind m f)"
  by (auto simp: steps_def run_bind transp_def split: prod.splits) (metis snd_conv)

lemma steps_modify: "(\<And>s. R s (f s)) \<Longrightarrow> steps R (modify f)"
  by (simp add: steps_def)

lemma steps_if [steps_intro]:
  "(c \<Longrightarrow> steps R a) \<Longrightarrow> (\<not> c \<Longrightarrow> steps R b) \<Longrightarrow> steps R (if c then a else b)"
  by simp

lemma steps_case_sum [steps_intro]:
  "(\<And>e. x = Inl e \<Longrightarrow> steps R (f e)) \<Longrightarrow> (\<And>a. x = Inr a \<Longrightarrow> steps R (g a)) \<Longrightarrow>
   steps R (case x of Inl e \<Rightarrow> f e | Inr a \<Rightarrow> g a)"
  by (cases x) auto

lemma steps_case_option [steps_intro]:
  "(x = None \<Longrightarrow> steps R f) \<Longrightarrow> (\<And>a. x = Some a \<Longrightarrow> steps R (g a)) \<Longrightarrow>
   steps R (case x of None \<Rightarrow> f | Some a \<Rightarrow> g a)"
  by (cases x) auto

lemma steps_case_prod [steps_intro]:
  "(\<And>a b. x = (a, b) \<Longrightarrow> steps R (f a b)) \<Longrightarrow> steps R (case x of (a, b) \<Rightarrow> f a b)"
  by (cases x) auto

lemma steps_case_list [steps_intro]:
  "(x = [] \<Longrightarrow> steps R f) \<Longrightarrow> (\<And>a b. x = a # b \<Longrightarrow> steps R (g a b)) \<Longrightarrow>
   steps R (case x of [] \<Rightarrow> f | a # b \<Rightarrow> g a b)"
  by (cases x) auto

lemma steps_let [steps_intro]: "(\<And>x. x = e \<Longrightarrow> steps R (f x)) \<Longrightarrow> steps R (let x = e in f x)"
  by simp

text \<open>
  A relation that does not look at the oracle and the clock; the relations that the components
  prove of their operations are of this kind.
\<close>

definition timeless :: "('z world_scheme \<Rightarrow> 'z world_scheme \<Rightarrow> bool) \<Rightarrow> bool" where
  "timeless R \<longleftrightarrow>
     (\<forall>w w' fs. R (w\<lparr>faults := fs\<rparr>) w' = R w w' \<and> R w (w'\<lparr>faults := fs\<rparr>) = R w w') \<and>
     (\<forall>w w' c. R w (w'\<lparr>clock := c\<rparr>) = R w w') \<and>
     (\<forall>w w' ts. R w (w'\<lparr>ticks := ts\<rparr>) = R w w')"

lemma steps_time_now [steps_intro]: "timeless R \<Longrightarrow> reflp R \<Longrightarrow> steps R time_now"
  by (auto simp: steps_def time_now_def timeless_def reflp_def split: list.splits)

end
