(* ===== verification/GoErrors.thy ===== *)
theory GoErrors
  imports Prelude
begin

section \<open>Application errors (internal/pkg/errors) and fallible calls\<close>

text \<open>
  The error values of the backend: \<^verbatim>\<open>ApplicationError\<close> (status, reason, message, metadata and a
  cause), sentinel errors made by \<^verbatim>\<open>errors.New\<close>, and errors wrapped by \<^verbatim>\<open>fmt.Errorf("...%w")\<close>.
  A nil error is \<open>None\<close> where the code passes a possibly nil error, and the \<open>Inr\<close> side of a sum
  where a function returns a value or an error.

  Sentinels are compared by identity in Go; each sentinel of the code has its own text, which is
  what the model compares.
\<close>

datatype goerr =
    AppErr (ae_code: int) (ae_reason: string) (ae_message: string)
           (ae_metadata: "(string \<times> string) list option") (ae_cause: "goerr option")
  | PlainErr string
  | WrapErr string goerr

definition UnknownCode :: int where "UnknownCode = 500"

definition to_int32 :: "int \<Rightarrow> int" where
  "to_int32 c = (c + 2147483648) mod 4294967296 - 2147483648"

definition New :: "int \<Rightarrow> string \<Rightarrow> string \<Rightarrow> goerr" where
  "New code reason message = AppErr (to_int32 code) reason message None None"

definition BadRequest :: "string \<Rightarrow> string \<Rightarrow> goerr" where
  "BadRequest reason message = New 400 reason message"

definition TooManyRequests :: "string \<Rightarrow> string \<Rightarrow> goerr" where
  "TooManyRequests reason message = New 429 reason message"

definition Forbidden :: "string \<Rightarrow> string \<Rightarrow> goerr" where
  "Forbidden reason message = New 403 reason message"

definition NotFound :: "string \<Rightarrow> string \<Rightarrow> goerr" where
  "NotFound reason message = New 404 reason message"

definition Conflict :: "string \<Rightarrow> string \<Rightarrow> goerr" where
  "Conflict reason message = New 409 reason message"

definition InternalServer :: "string \<Rightarrow> string \<Rightarrow> goerr" where
  "InternalServer reason message = New 500 reason message"

definition ServiceUnavailable :: "string \<Rightarrow> string \<Rightarrow> goerr" where
  "ServiceUnavailable reason message = New 503 reason message"

text \<open>\<^verbatim>\<open>Clone\<close> copies every field; values are immutable here, so the copy is the value itself.
  \<^verbatim>\<open>WithCause\<close> and \<^verbatim>\<open>WithMetadata\<close> set one field of a copy.\<close>

fun WithCause :: "goerr \<Rightarrow> goerr \<Rightarrow> goerr" where
  "WithCause (AppErr c r m md _) cause = AppErr c r m md (Some cause)"
| "WithCause e cause = e"

fun WithMetadata :: "goerr \<Rightarrow> (string \<times> string) list option \<Rightarrow> goerr" where
  "WithMetadata (AppErr c r m _ cause) md = AppErr c r m md cause"
| "WithMetadata e md = e"

text \<open>\<^verbatim>\<open>errors.As\<close> with an \<^verbatim>\<open>*ApplicationError\<close> target: the first one in the chain.\<close>

fun as_app :: "goerr \<Rightarrow> goerr option" where
  "as_app (AppErr c r m md cause) = Some (AppErr c r m md cause)"
| "as_app (PlainErr s) = None"
| "as_app (WrapErr s e) = as_app e"

text \<open>\<^verbatim>\<open>ApplicationError.Is\<close>, the comparison that \<^verbatim>\<open>errors.Is\<close> asks of each link of the chain.\<close>

fun app_is :: "goerr \<Rightarrow> goerr \<Rightarrow> bool" where
  "app_is (AppErr c r m md cause) target =
     (case as_app target of
        Some (AppErr c' r' m' md' cause') \<Rightarrow> c' = c \<and> r' = r
      | _ \<Rightarrow> False)"
| "app_is e target = False"

text \<open>\<^verbatim>\<open>errors.Is err target\<close>: walk the chain of causes.\<close>

primrec err_is :: "goerr \<Rightarrow> goerr \<Rightarrow> bool" and err_is_opt :: "goerr option \<Rightarrow> goerr \<Rightarrow> bool" where
  "err_is (AppErr c r m md cause) t \<longleftrightarrow>
     AppErr c r m md cause = t \<or> app_is (AppErr c r m md cause) t \<or> err_is_opt cause t"
| "err_is (PlainErr s) t \<longleftrightarrow> PlainErr s = t"
| "err_is (WrapErr s e) t \<longleftrightarrow> WrapErr s e = t \<or> err_is e t"
| "err_is_opt None t \<longleftrightarrow> False"
| "err_is_opt (Some e) t \<longleftrightarrow> err_is e t"

definition FromError :: "goerr option \<Rightarrow> goerr option" where
  "FromError err = (case err of None \<Rightarrow> None
     | Some e \<Rightarrow> (case as_app e of
          Some se \<Rightarrow> Some se
        | None \<Rightarrow> Some (WithCause (New UnknownCode [] ''internal error'') e)))"

definition Code :: "goerr option \<Rightarrow> int" where
  "Code err = (case FromError err of None \<Rightarrow> 200 | Some a \<Rightarrow> ae_code a)"

definition Reason :: "goerr option \<Rightarrow> string" where
  "Reason err = (case FromError err of None \<Rightarrow> [] | Some a \<Rightarrow> ae_reason a)"

definition Message :: "goerr option \<Rightarrow> string" where
  "Message err = (case FromError err of None \<Rightarrow> [] | Some a \<Rightarrow> ae_message a)"

text \<open>The status that \<^verbatim>\<open>ToHTTP\<close> shows to the client.\<close>

record Status =
  st_Code :: int
  st_Reason :: string
  st_Message :: string
  st_Metadata :: "(string \<times> string) list option"

definition ToHTTP :: "goerr option \<Rightarrow> int \<times> Status" where
  "ToHTTP err = (case FromError err of
      None \<Rightarrow> (200, \<lparr>st_Code = 200, st_Reason = [], st_Message = [], st_Metadata = None\<rparr>)
    | Some a \<Rightarrow> (ae_code a, \<lparr>st_Code = ae_code a, st_Reason = ae_reason a,
                           st_Message = ae_message a, st_Metadata = ae_metadata a\<rparr>))"

subsection \<open>Lemmas\<close>

lemma as_app_AppErr: "as_app e = Some a \<Longrightarrow> \<exists>c r m md cause. a = AppErr c r m md cause"
  by (induction e rule: as_app.induct) auto

lemma err_is_refl [simp]: "err_is e e"
  by (cases e) auto

lemma err_is_WithCause [simp]:
  "err_is (WithCause (AppErr c r m md ca) e) (AppErr c r m md' ca')"
  by simp

lemma err_is_WrapErr [simp]: "err_is e t \<Longrightarrow> err_is (WrapErr s e) t"
  by simp

lemma Reason_WithCause [simp]: "Reason (Some (WithCause e cause)) = Reason (Some e)"
  by (cases e) (auto simp: Reason_def FromError_def New_def)

lemma Code_WithCause [simp]: "Code (Some (WithCause e cause)) = Code (Some e)"
  by (cases e) (auto simp: Code_def FromError_def New_def)

lemma Reason_WrapErr [simp]: "Reason (Some (WrapErr s e)) = Reason (Some e)"
proof (cases "as_app e")
  case None
  then show ?thesis by (simp add: Reason_def FromError_def New_def)
next
  case (Some a)
  then show ?thesis by (simp add: Reason_def FromError_def)
qed

subsection \<open>Fallible calls to an outside system\<close>

text \<open>
  A statement sent to PostgreSQL or a command sent to Redis may fail before it takes effect, or
  take effect and lose its answer; the oracle \<open>faults\<close> decides.  The caller sees
  \<open>infra_error\<close> in both cases.
\<close>

definition infra_error :: goerr where
  "infra_error = PlainErr ''connection error''"

definition sql_no_rows :: goerr where
  "sql_no_rows = PlainErr ''sql: no rows in result set''"

definition io :: "('z world_scheme, goerr + 'a) state \<Rightarrow> ('z world_scheme, goerr + 'a) state" where
  "io m = State (\<lambda>w. case faults w of
      [] \<Rightarrow> run_state m w
    | f # fs \<Rightarrow> (case f of
        Answered \<Rightarrow> run_state m (w\<lparr>faults := fs\<rparr>)
      | NotSent \<Rightarrow> (Inl infra_error, w\<lparr>faults := fs\<rparr>)
      | AnswerLost \<Rightarrow> (Inl infra_error, snd (run_state m (w\<lparr>faults := fs\<rparr>)))))"

lemma run_io_ok [simp]: "faults w = [] \<Longrightarrow> run_state (io m) w = run_state m w"
  by (simp add: io_def)

lemma steps_io [steps_intro]: "timeless R \<Longrightarrow> reflp R \<Longrightarrow> steps R m \<Longrightarrow> steps R (io m)"
  unfolding steps_def io_def timeless_def reflp_def
  by (auto split: list.splits call_outcome.splits) (metis (no_types))+

text \<open>
  The three outcomes of a call.
\<close>

lemma run_io_cases:
  assumes "run_state (io m) w = (r, w')"
  obtains (not_sent) fs where "r = Inl infra_error" "w' = w\<lparr>faults := fs\<rparr>"
  | (answer_lost) fs r' where "r = Inl infra_error" "run_state m (w\<lparr>faults := fs\<rparr>) = (r', w')"
  | (answered) fs where "run_state m (w\<lparr>faults := fs\<rparr>) = (r, w')"
  using assms
proof (cases "faults w")
  case Nil
  with assms have "run_state m (w\<lparr>faults := []\<rparr>) = (r, w')"
    by (simp add: io_def) (metis world.surjective world.update_convs(1))
  then show ?thesis by (rule answered)
next
  case (Cons f fs)
  then show ?thesis
    using assms not_sent [of fs] answered [of fs]
      answer_lost [of fs "fst (run_state m (w\<lparr>faults := fs\<rparr>))"]
    by (cases f) (auto simp: io_def)
qed

text \<open>An answered call ran the statement.\<close>

lemma run_io_InrE:
  assumes "run_state (io m) w = (Inr a, w')"
  obtains fs where "run_state m (w\<lparr>faults := fs\<rparr>) = (Inr a, w')"
  using assms by (rule run_io_cases) auto

text \<open>The early return on an error: \<^verbatim>\<open>if err != nil { return ..., err }\<close>.\<close>

definition chain :: "(goerr + 'a) \<Rightarrow> ('a \<Rightarrow> ('s, goerr + 'b) state) \<Rightarrow> ('s, goerr + 'b) state" where
  "chain r k = (case r of Inl err \<Rightarrow> ret (Inl err) | Inr x \<Rightarrow> k x)"

lemma chain_simps [simp]: "chain (Inl e) k = ret (Inl e)" "chain (Inr x) k = k x"
  by (simp_all add: chain_def)

lemma steps_chain [steps_intro]:
  "reflp R \<Longrightarrow> (\<And>x. r = Inr x \<Longrightarrow> steps R (k x)) \<Longrightarrow> steps R (chain r k)"
  by (cases r) (auto intro: steps_ret)

lemma run_chainE [run_elims]:
  assumes "run_state (chain r k) s = t"
  obtains e where "r = Inl e" "t = (Inl e, s)" | x where "r = Inr x" "run_state (k x) s = t"
  using assms by (cases r) auto

lemma run_chain_InrE:
  assumes "run_state (chain r k) s = (Inr y, s')"
  obtains x where "r = Inr x" "run_state (k x) s = (Inr y, s')"
  using assms by (cases r) auto

end
