(* ===== verification/Float64.thy ===== *)
theory Float64
  imports Complex_Main Prelude
begin

section \<open>Go's float64: IEEE 754 binary64 with rounding\<close>

text \<open>
  Money is a \<^verbatim>\<open>float64\<close> in the Go code and a \<^verbatim>\<open>DECIMAL\<close> in the database.  A finite float64 is
  represented by its rational value; every operation computes the exact result and rounds it to
  the nearest representable value, ties to even, with 53 bits of precision, the subnormal range
  and overflow to infinity.  Negative zero is not told apart from zero: no comparison does, and the
  code divides by no float.  \<open>Infty True\<close> is negative infinity.
\<close>

datatype f64 = NaN | Infty bool | Fin rat

fun nbits :: "nat \<Rightarrow> nat" where
  "nbits n = (if n = 0 then 0 else Suc (nbits (n div 2)))"

declare nbits.simps [simp del]

definition pow2 :: "int \<Rightarrow> rat" where
  "pow2 e = (if 0 \<le> e then 2 ^ nat e else 1 / 2 ^ nat (- e))"

definition elog :: "rat \<Rightarrow> int" where
  "elog x = (case quotient_of x of (p, q) \<Rightarrow>
     let k = int (nbits (nat p)) - int (nbits (nat q))
     in if pow2 k \<le> x then k else k - 1)"

definition round_even :: "rat \<Rightarrow> int" where
  "round_even y = (let f = \<lfloor>y\<rfloor>; d = y - of_int f in
     if d < 1/2 then f else if 1/2 < d then f + 1 else if even f then f else f + 1)"

definition ulp_exp :: "rat \<Rightarrow> int" where
  "ulp_exp a = max (elog a - 52) (-1074)"

definition round_pos :: "rat \<Rightarrow> rat" where
  "round_pos a = of_int (round_even (a / pow2 (ulp_exp a))) * pow2 (ulp_exp a)"

definition round64 :: "rat \<Rightarrow> f64" where
  "round64 x =
     (if x = 0 then Fin 0
      else let v = round_pos \<bar>x\<bar> in
        if pow2 1024 \<le> v then Infty (x < 0) else Fin (if x < 0 then - v else v))"

fun f_neg :: "f64 \<Rightarrow> f64" where
  "f_neg NaN = NaN"
| "f_neg (Infty s) = Infty (\<not> s)"
| "f_neg (Fin a) = Fin (- a)"

fun f_add :: "f64 \<Rightarrow> f64 \<Rightarrow> f64" where
  "f_add NaN b = NaN"
| "f_add a NaN = NaN"
| "f_add (Infty s) (Infty t) = (if s = t then Infty s else NaN)"
| "f_add (Infty s) (Fin b) = Infty s"
| "f_add (Fin a) (Infty t) = Infty t"
| "f_add (Fin a) (Fin b) = round64 (a + b)"

definition f_sub :: "f64 \<Rightarrow> f64 \<Rightarrow> f64" where
  "f_sub a b = f_add a (f_neg b)"

fun f_mul :: "f64 \<Rightarrow> f64 \<Rightarrow> f64" where
  "f_mul NaN b = NaN"
| "f_mul a NaN = NaN"
| "f_mul (Infty s) (Infty t) = Infty (s \<noteq> t)"
| "f_mul (Infty s) (Fin b) = (if b = 0 then NaN else Infty (s \<noteq> (b < 0)))"
| "f_mul (Fin a) (Infty t) = (if a = 0 then NaN else Infty ((a < 0) \<noteq> t))"
| "f_mul (Fin a) (Fin b) = round64 (a * b)"

fun f_lt :: "f64 \<Rightarrow> f64 \<Rightarrow> bool" where
  "f_lt NaN b = False"
| "f_lt a NaN = False"
| "f_lt (Infty s) (Infty t) = (s \<and> \<not> t)"
| "f_lt (Infty s) (Fin b) = s"
| "f_lt (Fin a) (Infty t) = (\<not> t)"
| "f_lt (Fin a) (Fin b) = (a < b)"

fun f_eq :: "f64 \<Rightarrow> f64 \<Rightarrow> bool" where
  "f_eq NaN b = False"
| "f_eq a NaN = False"
| "f_eq a b = (a = b)"

definition f_le :: "f64 \<Rightarrow> f64 \<Rightarrow> bool" where
  "f_le a b \<longleftrightarrow> f_lt a b \<or> f_eq a b"

definition f_of_int :: "int \<Rightarrow> f64" where
  "f_of_int i = round64 (of_int i)"

text \<open>\<^verbatim>\<open>math.Min\<close> on values that are not zeros of different sign.\<close>

fun f_min :: "f64 \<Rightarrow> f64 \<Rightarrow> f64" where
  "f_min a b = (if a = Infty True \<or> b = Infty True then Infty True
     else if a = NaN \<or> b = NaN then NaN else if f_lt a b then a else b)"

subsection \<open>Powers of two and the binary exponent\<close>

lemma pow2_pos [simp]: "0 < pow2 e"
  by (simp add: pow2_def)

lemma pow2_neq_0 [simp]: "pow2 e \<noteq> 0"
  using pow2_pos [of e] by linarith

lemma pow2_Suc: "pow2 (e + 1) = 2 * pow2 e"
proof (cases "0 \<le> e")
  case True
  then show ?thesis by (simp add: pow2_def nat_add_distrib)
next
  case False
  then have "nat (- e) = Suc (nat (- (e + 1)))" by linarith
  then show ?thesis using False by (auto simp: pow2_def)
qed

lemma pow2_add_nat: "pow2 (e + int n) = pow2 e * 2 ^ n"
proof (induction n)
  case (Suc n)
  have "pow2 (e + int (Suc n)) = pow2 ((e + int n) + 1)" by (simp add: algebra_simps)
  then show ?case by (simp add: pow2_Suc Suc)
qed simp

lemma pow2_mono: "e \<le> f \<Longrightarrow> pow2 e \<le> pow2 f"
  using pow2_add_nat [of e "nat (f - e)"] less_imp_le [OF pow2_pos [of e]]
    mult_left_mono [of 1 "2 ^ nat (f - e)" "pow2 e"] by simp

lemma pow2_div_int: "e \<le> f \<Longrightarrow> pow2 f / pow2 e = of_int (2 ^ nat (f - e))"
  using pow2_add_nat [of e "nat (f - e)"] by simp

lemma pow2_diff_nat: "pow2 (int a - int b) = 2 ^ a / 2 ^ b"
proof (cases "b \<le> a")
  case True
  then show ?thesis
    by (simp add: pow2_def power_diff nat_diff_distrib flip: of_nat_diff)
next
  case False
  then have "nat (- (int a - int b)) = b - a" by linarith
  with False show ?thesis
    by (simp add: pow2_def power_diff)
qed

lemma nbits_bounds: "0 < n \<Longrightarrow> 2 ^ (nbits n - 1) \<le> n \<and> n < 2 ^ nbits n"
proof (induction n rule: nbits.induct)
  case (1 n)
  show ?case
  proof (cases "n div 2 = 0")
    case True
    with "1.prems" have "n = 1" by linarith
    then show ?thesis by (simp add: nbits.simps)
  next
    case False
    with 1 have IH: "2 ^ (nbits (n div 2) - 1) \<le> n div 2 \<and> n div 2 < 2 ^ nbits (n div 2)"
      by simp
    have pos: "0 < nbits (n div 2)"
      using False by (subst nbits.simps) simp
    have n: "nbits n = Suc (nbits (n div 2))"
      using "1.prems" by (subst nbits.simps) simp
    have "(2::nat) ^ nbits (n div 2) = 2 * 2 ^ (nbits (n div 2) - 1)"
      using pos by (metis Suc_diff_1 power_Suc)
    moreover have "2 * (n div 2) \<le> n" "n < 2 * (n div 2) + 2" by linarith+
    ultimately have "2 ^ nbits (n div 2) \<le> n" "n < 2 * 2 ^ nbits (n div 2)"
      using IH by linarith+
    then show ?thesis using n by simp
  qed
qed

lemma elog_bounds:
  assumes "0 < x"
  shows "pow2 (elog x) \<le> x \<and> x < pow2 (elog x + 1)"
proof -
  obtain p q where pq: "quotient_of x = (p, q)" by (cases "quotient_of x")
  have q: "0 < q" using quotient_of_denom_pos [OF pq] .
  have x: "x = of_int p / of_int q" using quotient_of_div [OF pq] .
  with assms q have p: "0 < p" by (simp add: zero_less_divide_iff)
  define a where "a = nbits (nat p)"
  define b where "b = nbits (nat q)"
  have ap: "2 ^ (a - 1) \<le> nat p" "nat p < 2 ^ a" "0 < a"
    using nbits_bounds [of "nat p"] p by (auto simp: a_def nbits.simps [of "nat p"])
  have bq: "2 ^ (b - 1) \<le> nat q" "nat q < 2 ^ b" "0 < b"
    using nbits_bounds [of "nat q"] q by (auto simp: b_def nbits.simps [of "nat q"])
  have p1: "(2::rat) ^ a \<le> 2 * of_int p" "(of_int p :: rat) < 2 ^ a"
  proof -
    have "(2::nat) ^ a = 2 * 2 ^ (a - 1)" using ap(3) by (metis Suc_diff_1 power_Suc)
    then have "2 ^ a \<le> 2 * nat p" using ap(1) by linarith
    then have "(of_nat (2 ^ a) :: rat) \<le> of_nat (2 * nat p)" by (rule of_nat_mono)
    then show "(2::rat) ^ a \<le> 2 * of_int p" using p by simp
    have "(of_nat (nat p) :: rat) < of_nat (2 ^ a)" using ap(2) by (simp only: of_nat_less_iff)
    then show "(of_int p :: rat) < 2 ^ a" using p by simp
  qed
  have q1: "(2::rat) ^ b \<le> 2 * of_int q" "(of_int q :: rat) < 2 ^ b"
  proof -
    have "(2::nat) ^ b = 2 * 2 ^ (b - 1)" using bq(3) by (metis Suc_diff_1 power_Suc)
    then have "2 ^ b \<le> 2 * nat q" using bq(1) by linarith
    then have "(of_nat (2 ^ b) :: rat) \<le> of_nat (2 * nat q)" by (rule of_nat_mono)
    then show "(2::rat) ^ b \<le> 2 * of_int q" using q by simp
    have "(of_nat (nat q) :: rat) < of_nat (2 ^ b)" using bq(2) by (simp only: of_nat_less_iff)
    then show "(of_int q :: rat) < 2 ^ b" using q by simp
  qed
  define k where "k = int a - int b"
  have pk: "pow2 k = 2 ^ a / 2 ^ b" by (simp add: k_def pow2_diff_nat)
  have up: "x < 2 * pow2 k"
  proof -
    have "of_int p * 2 ^ b < 2 ^ a * (2 * of_int q :: rat)"
      using p1(2) q1(1) p q by (intro mult_less_le_imp_less) simp_all
    then show ?thesis using q by (simp add: x pk field_simps)
  qed
  have lo: "pow2 k / 2 < x"
  proof -
    have "2 ^ a * of_int q < (2 * of_int p :: rat) * 2 ^ b"
      using p1(1) q1(2) p q by (intro mult_le_less_imp_less) simp_all
    then show ?thesis using q by (simp add: x pk field_simps)
  qed
  have half: "pow2 k = 2 * pow2 (k - 1)" using pow2_Suc [of "k - 1"] by simp
  have e: "elog x = (if pow2 k \<le> x then k else k - 1)"
    by (simp add: elog_def pq Let_def k_def a_def b_def)
  show ?thesis
    using up lo half pow2_Suc [of k] by (auto simp: e)
qed

lemma elog_mono:
  assumes "0 < x" "x \<le> y"
  shows "elog x \<le> elog y"
proof (rule ccontr)
  assume "\<not> elog x \<le> elog y"
  then have "pow2 (elog y + 1) \<le> pow2 (elog x)" by (intro pow2_mono) linarith
  with elog_bounds [of x] elog_bounds [of y] assms show False by linarith
qed

subsection \<open>Rounding\<close>

lemma round_even_of_int [simp]: "round_even (of_int i) = i"
  by (simp add: round_even_def Let_def)

lemma round_even_mono: "x \<le> y \<Longrightarrow> round_even x \<le> round_even y"
proof -
  assume le: "x \<le> y"
  have f: "\<lfloor>x\<rfloor> \<le> \<lfloor>y\<rfloor>" using le by (rule floor_mono)
  show ?thesis
  proof (cases "\<lfloor>x\<rfloor> = \<lfloor>y\<rfloor>")
    case True
    with le show ?thesis by (auto simp: round_even_def Let_def)
  next
    case False
    with f have "\<lfloor>x\<rfloor> + 1 \<le> \<lfloor>y\<rfloor>" by linarith
    then show ?thesis by (auto simp: round_even_def Let_def)
  qed
qed

lemma round_even_nonneg: "0 \<le> x \<Longrightarrow> 0 \<le> round_even x"
  using round_even_mono [of 0 x] round_even_of_int [of 0] by simp

lemma round_pos_nonneg: "0 \<le> a \<Longrightarrow> 0 \<le> round_pos a"
  by (simp add: round_pos_def round_even_nonneg less_imp_le)

text \<open>A grid point above (below) the argument bounds the rounded value.\<close>

lemma round_pos_le_grid:
  assumes "0 < a" "a \<le> pow2 f" "ulp_exp a \<le> f"
  shows "round_pos a \<le> pow2 f"
proof -
  have "a / pow2 (ulp_exp a) \<le> pow2 f / pow2 (ulp_exp a)"
    using assms(2) by (simp add: divide_right_mono less_imp_le)
  then have "round_even (a / pow2 (ulp_exp a)) \<le> 2 ^ nat (f - ulp_exp a)"
    using round_even_mono [of "a / pow2 (ulp_exp a)"] pow2_div_int [OF assms(3)]
    by (metis round_even_of_int)
  then have "of_int (round_even (a / pow2 (ulp_exp a))) \<le> (pow2 f / pow2 (ulp_exp a))"
    unfolding pow2_div_int [OF assms(3)] by (simp only: of_int_le_iff)
  then show ?thesis by (simp add: round_pos_def pos_le_divide_eq)
qed

lemma round_pos_ge_grid:
  assumes "pow2 f \<le> a" "ulp_exp a \<le> f"
  shows "pow2 f \<le> round_pos a"
proof -
  have "pow2 f / pow2 (ulp_exp a) \<le> a / pow2 (ulp_exp a)"
    using assms(1) by (simp add: divide_right_mono less_imp_le)
  then have "2 ^ nat (f - ulp_exp a) \<le> round_even (a / pow2 (ulp_exp a))"
    using round_even_mono [of _ "a / pow2 (ulp_exp a)"] pow2_div_int [OF assms(2)]
    by (metis round_even_of_int)
  then have "(pow2 f / pow2 (ulp_exp a)) \<le> of_int (round_even (a / pow2 (ulp_exp a)))"
    unfolding pow2_div_int [OF assms(2)] by (simp only: of_int_le_iff)
  then show ?thesis by (simp add: round_pos_def pos_divide_le_eq)
qed

lemma round_pos_mono:
  assumes "0 < a" "a \<le> b"
  shows "round_pos a \<le> round_pos b"
proof (cases "ulp_exp a = ulp_exp b")
  case True
  have "a / pow2 (ulp_exp b) \<le> b / pow2 (ulp_exp b)"
    using assms(2) by (simp add: divide_right_mono less_imp_le)
  then show ?thesis
    using round_even_mono [of "a / pow2 (ulp_exp b)" "b / pow2 (ulp_exp b)"]
    by (simp add: round_pos_def True)
next
  case False
  have el: "elog a \<le> elog b" using elog_mono assms by blast
  with False have lt: "ulp_exp a < ulp_exp b" "elog a < elog b" "ulp_exp b = elog b - 52"
    by (auto simp: ulp_exp_def)
  have "a < pow2 (elog a + 1)" using elog_bounds assms(1) by blast
  also have "\<dots> \<le> pow2 (elog b)" using lt(2) by (intro pow2_mono) linarith
  finally have "round_pos a \<le> pow2 (elog b)"
    using assms lt by (intro round_pos_le_grid) auto
  also have "\<dots> \<le> round_pos b"
    using elog_bounds [of b] assms lt by (intro round_pos_ge_grid) auto
  finally show ?thesis .
qed

lemma round64_nonneg: "0 \<le> x \<Longrightarrow> (\<exists>v. round64 x = Fin v \<and> 0 \<le> v) \<or> round64 x = Infty False"
  by (auto simp: round64_def Let_def round_pos_nonneg)

lemma round64_0 [simp]: "round64 0 = Fin 0"
  by (simp add: round64_def)

lemma round64_mono_nonneg:
  assumes "0 \<le> x" "x \<le> y"
  shows "f_le (round64 x) (round64 y)"
proof (cases "x = 0")
  case True
  then show ?thesis
    using round64_nonneg [of y] assms by (auto simp: f_le_def)
next
  case False
  with assms have "0 < x" "0 < y" by auto
  with assms round_pos_mono [of x y] show ?thesis
    by (auto simp: round64_def Let_def f_le_def not_le)
qed

subsection \<open>Order facts about the operations\<close>

definition f_nonneg :: "f64 \<Rightarrow> bool" where
  "f_nonneg a \<longleftrightarrow> f_le (Fin 0) a"

lemma f_nonneg_simps [simp]:
  "f_nonneg (Fin v) \<longleftrightarrow> 0 \<le> v" "f_nonneg (Infty s) \<longleftrightarrow> \<not> s" "\<not> f_nonneg NaN"
  by (auto simp: f_nonneg_def f_le_def)

lemma f_nonneg_round64: "0 \<le> x \<Longrightarrow> f_nonneg (round64 x)"
  using round64_nonneg [of x] by auto

lemma f_le_trans: "f_le a b \<Longrightarrow> f_le b c \<Longrightarrow> f_le a c"
  by (cases a; cases b; cases c) (auto simp: f_le_def)

lemma f_le_refl: "a \<noteq> NaN \<Longrightarrow> f_le a a"
  by (cases a) (auto simp: f_le_def)

lemma not_f_lt: "a \<noteq> NaN \<Longrightarrow> b \<noteq> NaN \<Longrightarrow> \<not> f_lt a b \<longleftrightarrow> f_le b a"
  by (cases a; cases b) (auto simp: f_le_def)

text \<open>Multiplication by a non-negative float keeps the order, unless it is \<open>0 * \<infinity>\<close>.\<close>

lemma f_mul_mono:
  assumes "f_nonneg c" "f_nonneg a" "f_le a b" "f_mul c a \<noteq> NaN" "f_mul c b \<noteq> NaN"
  shows "f_le (f_mul c a) (f_mul c b)"
  using assms
  by (cases a; cases b; cases c)
     (auto simp: f_le_def [of "Fin _" "Fin _"] f_le_def [of "Fin _" "Infty _"]
        f_le_def [of "Infty _" "Fin _"] f_le_def [of "Infty _" "Infty _"]
        f_le_def [of "round64 _" "Infty _"] mult_left_mono
        intro: round64_mono_nonneg dest: round64_nonneg [OF mult_nonneg_nonneg] split: if_splits)

lemma f_mul_nonneg: "f_nonneg a \<Longrightarrow> f_nonneg b \<Longrightarrow> f_mul a b \<noteq> NaN \<Longrightarrow> f_nonneg (f_mul a b)"
  by (cases a; cases b) (auto intro: f_nonneg_round64 split: if_splits)

lemma f_mul_comm: "f_mul a b = f_mul b a"
  by (cases a; cases b) (auto simp: mult.commute)

lemma f_le_Infty: "r \<noteq> NaN \<Longrightarrow> f_le r (Infty False)"
  by (cases r) (auto simp: f_le_def)

lemma f_mul_mono2:
  assumes "f_nonneg a" "f_nonneg b" "f_le a a'" "f_le b b'" "f_mul a b \<noteq> NaN" "f_mul a' b' \<noteq> NaN"
  shows "f_le (f_mul a b) (f_mul a' b')"
proof -
  have *: "f_le (f_mul (Fin x) (Fin y)) (f_mul (Fin x') (Fin y'))"
    if "0 \<le> x" "0 \<le> y" "x \<le> x'" "y \<le> y'" for x y x' y'
    using that by (auto intro!: round64_mono_nonneg mult_mono)
  show ?thesis
    using assms *
    by (cases a; cases b; cases a'; cases b')
      (auto simp: f_le_def [of "Fin _" "Fin _"] f_le_def [of "Fin _" "Infty _"] f_le_def [of "Infty _" "Fin _"]
        f_le_def [of "Infty _" "Infty _"] intro: f_le_Infty split: if_splits)
qed

lemma round64_uminus: "round64 (- x) = f_neg (round64 x)"
  by (simp add: round64_def Let_def)

lemma round64_nonpos: "x \<le> 0 \<Longrightarrow> (\<exists>v. round64 x = Fin v \<and> v \<le> 0) \<or> round64 x = Infty True"
  using round64_nonneg [of "- x"] round64_uminus [of "- x"] by auto

text \<open>The difference of an amount and a larger one never exceeds a non-negative tolerance.\<close>

lemma f_sub_within: "a \<le> h \<Longrightarrow> 0 \<le> e \<Longrightarrow> \<not> f_lt (round64 e) (f_sub (Fin a) (Fin h))"
  using round64_nonpos [of "a - h"] round64_nonneg [of e] by (auto simp: f_sub_def)

subsection \<open>Fast evaluation\<close>

text \<open>Code equations on binary integers, so that concrete inputs evaluate in the kernel.\<close>

function ibits :: "int \<Rightarrow> int" where
  "ibits n = (if n \<le> 0 then 0 else 1 + ibits (n div 2))"
  by pat_completeness auto
termination by (relation "measure nat") auto
declare ibits.simps [simp del]

lemma ibits_nbits: "int (nbits (nat n)) = ibits n"
proof (induction n rule: ibits.induct)
  case (1 n)
  show ?case
  proof (cases "n \<le> 0")
    case True then show ?thesis by (subst ibits.simps, subst nbits.simps) simp
  next
    case False
    then have "nat n \<noteq> 0" "nat n div 2 = nat (n div 2)" by (simp_all add: nat_div_distrib)
    with 1 False show ?thesis by (subst ibits.simps, subst nbits.simps) simp
  qed
qed

lemma elog_code [code]: "elog x = (case quotient_of x of (p, q) \<Rightarrow>
     let k = ibits p - ibits q in if pow2 k \<le> x then k else k - 1)"
  by (simp add: elog_def ibits_nbits)

function ipow2 :: "int \<Rightarrow> int" where
  "ipow2 n = (if n \<le> 0 then 1 else
     let h = ipow2 (n div 2) in if even n then h * h else 2 * (h * h))"
  by pat_completeness auto
termination by (relation "measure nat") auto
declare ipow2.simps [simp del]

lemma ipow2: "ipow2 n = 2 ^ nat n"
proof (induction n rule: ipow2.induct)
  case (1 n)
  show ?case
  proof (cases "n \<le> 0")
    case True then show ?thesis by (subst ipow2.simps) simp
  next
    case False
    then have h: "ipow2 (n div 2) = 2 ^ nat (n div 2)" using 1 by simp
    have "nat n = nat (n div 2) + nat (n div 2) + (if even n then 0 else 1)"
      using False by (auto elim!: evenE oddE simp: nat_add_distrib)
    then show ?thesis using False by (subst ipow2.simps) (simp add: h Let_def power_add)
  qed
qed

lemma pow2_code [code]: "pow2 e = (if 0 \<le> e then of_int (ipow2 e) else 1 / of_int (ipow2 (- e)))"
  by (simp add: pow2_def ipow2)

lemma round64_epsilon: "round64 (1 / 10 ^ 8) = Fin (3022314549036573 / 302231454903657293676544)"
  by code_simp

text \<open>\<^verbatim>\<open>int64(v)\<close> truncates; out of range, amd64 gives the least integer.\<close>

fun f_to_int64 :: "f64 \<Rightarrow> int" where
  "f_to_int64 (Fin v) = (let t = (if 0 \<le> v then \<lfloor>v\<rfloor> else - \<lfloor>- v\<rfloor>) in
     if - (2 ^ 63) \<le> t \<and> t < 2 ^ 63 then t else - (2 ^ 63))"
| "f_to_int64 _ = - (2 ^ 63)"

end
