(* ===== verification/Database.thy ===== *)
theory Database
  imports GoErrors Float64
begin

section \<open>PostgreSQL as the repositories use it\<close>

text \<open>
  Transactions, numeric and varchar columns, and the parameters that stand for code outside the
  repository: the SQL driver's conversion between float64 and NUMERIC, PostgreSQL's time zone
  database, and SHA-256.

  A statement is one atomic step on the tables; a transaction is a sequence of statements whose
  effect is undone unless the commit goes through.  Isolation is modelled by running a transaction
  as one step: every decision that the code's transactions take is taken by a row-locking
  statement (\<^verbatim>\<open>INSERT ... ON CONFLICT\<close>, \<^verbatim>\<open>UPDATE ... WHERE\<close>, \<^verbatim>\<open>SELECT ... FOR UPDATE\<close>).
  Columns that no modelled code reads (\<^verbatim>\<open>updated_at\<close> of most tables) are left out.
\<close>

record driver =
  to_numeric :: "f64 \<Rightarrow> rat option"
  of_numeric :: "rat \<Rightarrow> f64"
  tz_local :: "string \<Rightarrow> int \<Rightarrow> int"
  tz_utc :: "string \<Rightarrow> int \<Rightarrow> int"
  sha256_hex :: "string \<Rightarrow> string"

text \<open>Instants and durations are in nanoseconds, as in package \<^verbatim>\<open>time\<close>.\<close>

definition second :: int where "second = 1000000000"
definition minute :: int where "minute = 60 * second"
definition hour :: int where "hour = 60 * minute"
definition day :: int where "day = 24 * hour"

subsection \<open>Numeric and varchar columns\<close>

text \<open>
  Assignment to a \<^verbatim>\<open>DECIMAL(p,s)\<close> column rounds to \<open>s\<close> digits, halves away from zero, and fails when
  the integer part does not fit.
\<close>

definition round_half_away :: "rat \<Rightarrow> int" where
  "round_half_away x = (if 0 \<le> x then \<lfloor>x + 1/2\<rfloor> else - \<lfloor>1/2 - x\<rfloor>)"

definition dec_round :: "nat \<Rightarrow> rat \<Rightarrow> rat" where
  "dec_round s x = of_int (round_half_away (x * 10 ^ s)) / 10 ^ s"

definition sql_overflow :: goerr where
  "sql_overflow = PlainErr ''pq: numeric field overflow''"

definition store_dec :: "nat \<Rightarrow> nat \<Rightarrow> rat \<Rightarrow> goerr + rat" where
  "store_dec p s x = (let v = dec_round s x in
     if \<bar>v\<bar> < 10 ^ (p - s) then Inr v else Inl sql_overflow)"

definition on_grid :: "nat \<Rightarrow> rat \<Rightarrow> bool" where
  "on_grid s x \<longleftrightarrow> dec_round s x = x"

text \<open>\<^verbatim>\<open>VARCHAR(n)\<close> counts characters: the bytes of valid UTF-8 that are not continuation bytes.\<close>

definition rune_count :: "string \<Rightarrow> nat" where
  "rune_count s = length (filter (\<lambda>c. (of_char c :: nat) div 64 \<noteq> 2) s)"

lemma rune_count_code [code]: "rune_count s = length (filter (\<lambda>c. \<not> (digit7 c \<and> \<not> digit6 c)) s)"
  by (simp add: rune_count_def continuation_byte)

definition varchar_fits :: "nat \<Rightarrow> string \<Rightarrow> bool" where
  "varchar_fits n s \<longleftrightarrow> rune_count s \<le> n"

definition sql_too_long :: goerr where
  "sql_too_long = PlainErr ''pq: value too long for type character varying''"

text \<open>
  \<^verbatim>\<open>fmt.Sprintf("%0.10f", x)\<close>: the exact value rounded to ten decimals, ties to even.
\<close>

definition pad_left :: "nat \<Rightarrow> string \<Rightarrow> string" where
  "pad_left n s = replicate (n - length s) CHR ''0'' @ s"

fun fmt_f10 :: "f64 \<Rightarrow> string" where
  "fmt_f10 NaN = ''NaN''"
| "fmt_f10 (Infty True) = ''-Inf''"
| "fmt_f10 (Infty False) = ''+Inf''"
| "fmt_f10 (Fin v) = (let n = round_even (\<bar>v\<bar> * 10 ^ 10) in
     (if v < 0 then ''-'' else []) @ itoa (n div 10 ^ 10) @ ''.'' @ pad_left 10 (itoa (n mod 10 ^ 10)))"

lemma on_grid_int: "on_grid s (of_int n / 10 ^ s)"
proof -
  have "\<lfloor>of_int n + 1/2 :: rat\<rfloor> = n" "\<lfloor>1/2 - of_int n :: rat\<rfloor> = - n"
    by (simp_all add: floor_eq_iff)
  then have "round_half_away (of_int n) = n" by (simp add: round_half_away_def)
  then show ?thesis by (simp add: on_grid_def dec_round_def)
qed

lemma on_gridE:
  assumes "on_grid s x"
  obtains n where "x = of_int n / 10 ^ s"
  using assms by (metis dec_round_def on_grid_def)

lemma on_grid_add: "on_grid s x \<Longrightarrow> on_grid s y \<Longrightarrow> on_grid s (x + y)"
proof -
  assume "on_grid s x" "on_grid s y"
  then obtain m n where "x = of_int m / 10 ^ s" "y = of_int n / 10 ^ s"
    by (meson on_gridE)
  then have "x + y = of_int (m + n) / 10 ^ s" by (simp add: add_divide_distrib)
  then show ?thesis by (metis on_grid_int)
qed

lemma on_grid_uminus: "on_grid s x \<Longrightarrow> on_grid s (- x)"
proof -
  assume "on_grid s x"
  then obtain m where "x = of_int m / 10 ^ s" by (rule on_gridE)
  then have "- x = of_int (- m) / 10 ^ s" by simp
  then show ?thesis by (metis on_grid_int)
qed

lemma on_grid_diff: "on_grid s x \<Longrightarrow> on_grid s y \<Longrightarrow> on_grid s (x - y)"
  using on_grid_add [of s x "- y"] on_grid_uminus [of s y] by simp

lemma on_grid_0 [simp]: "on_grid s 0"
  using on_grid_int [of s 0] by simp

lemma on_grid_dec_round [simp]: "on_grid s (dec_round s x)"
  by (simp add: dec_round_def on_grid_int)

lemma store_dec_InrD: "store_dec p s x = Inr v \<Longrightarrow> v = dec_round s x \<and> \<bar>v\<bar> < 10 ^ (p - s)"
  by (auto simp: store_dec_def Let_def split: if_splits)

lemma store_dec_grid: "on_grid s x \<Longrightarrow> store_dec p s x = Inr v \<Longrightarrow> v = x"
  by (auto dest: store_dec_InrD simp: on_grid_def)

lemma round_half_away_mono: "x \<le> y \<Longrightarrow> round_half_away x \<le> round_half_away y"
proof -
  assume le: "x \<le> y"
  consider "0 \<le> x" | "x < 0" "0 \<le> y" | "y < 0" using le by linarith
  then show ?thesis
  proof cases
    case 1
    then show ?thesis using le by (simp add: round_half_away_def floor_mono)
  next
    case 2
    then have "0 \<le> 1/2 - x" "0 \<le> y + 1/2" by simp_all
    then have "0 \<le> \<lfloor>1/2 - x\<rfloor>" "0 \<le> \<lfloor>y + 1/2\<rfloor>" by (simp_all only: zero_le_floor)
    then have "- \<lfloor>1/2 - x\<rfloor> \<le> \<lfloor>y + 1/2\<rfloor>" by linarith
    with 2 show ?thesis by (simp add: round_half_away_def del: floor_add2)
  next
    case 3
    with le have "\<lfloor>1/2 - y\<rfloor> \<le> \<lfloor>1/2 - x\<rfloor>" by (intro floor_mono) simp
    with 3 le show ?thesis by (simp add: round_half_away_def)
  qed
qed

lemma dec_round_mono: "x \<le> y \<Longrightarrow> dec_round s x \<le> dec_round s y"
  by (simp add: dec_round_def divide_right_mono round_half_away_mono mult_right_mono)

lemma dec_round_nonneg: "0 \<le> x \<Longrightarrow> 0 \<le> dec_round s x"
  using dec_round_mono [of 0 x s] on_grid_0 [of s] by (simp add: on_grid_def)

subsection \<open>Transactions\<close>

text \<open>
  \<open>rollback w0 w\<close> restores the tables of \<open>w0\<close>; calls made and time passed are not undone.
  \<open>same_db\<close> says that two worlds differ in nothing else.
\<close>

definition rollback :: "'z world_scheme \<Rightarrow> 'z world_scheme \<Rightarrow> 'z world_scheme" where
  "rollback w0 w = w0\<lparr>faults := faults w, clock := clock w, ticks := ticks w\<rparr>"

definition same_db :: "'z world_scheme \<Rightarrow> 'z world_scheme \<Rightarrow> bool" where
  "same_db w w' \<longleftrightarrow> world.more w = world.more w'"

text \<open>
  \<^verbatim>\<open>BeginTx\<close>, the body, and \<^verbatim>\<open>Commit\<close> when the body asks for it; every other way out is the
  deferred \<^verbatim>\<open>Rollback\<close>.  A commit whose answer is lost did commit.
\<close>

definition with_tx :: "('z world_scheme, goerr + 'a \<times> bool) state \<Rightarrow> ('z world_scheme, goerr + 'a) state"
where
  "with_tx body = State (\<lambda>w0. case run_state (io (ret (Inr ()))) w0 of
      (Inl e, w) \<Rightarrow> (Inl e, w)
    | (Inr _, w) \<Rightarrow> (case run_state body w of
        (Inl e, w') \<Rightarrow> (Inl e, rollback w w')
      | (Inr (x, commit), w') \<Rightarrow>
          if \<not> commit then (Inr x, rollback w w')
          else (case faults w' of
              [] \<Rightarrow> (Inr x, w')
            | f # fs \<Rightarrow> (case f of
                Answered \<Rightarrow> (Inr x, w'\<lparr>faults := fs\<rparr>)
              | NotSent \<Rightarrow> (Inl infra_error, rollback w (w'\<lparr>faults := fs\<rparr>))
              | AnswerLost \<Rightarrow> (Inl infra_error, w'\<lparr>faults := fs\<rparr>)))))"

lemma rollback_simps [simp]:
  "faults (rollback w0 w) = faults w" "clock (rollback w0 w) = clock w"
  "ticks (rollback w0 w) = ticks w"
  by (simp_all add: rollback_def)

lemma same_db_simps [simp]:
  "same_db w w" "same_db w (rollback w0 w') = same_db w w0"
  "same_db (w\<lparr>faults := fs\<rparr>) w' = same_db w w'" "same_db w (w'\<lparr>faults := fs\<rparr>) = same_db w w'"
  "same_db w (w'\<lparr>clock := c\<rparr>) = same_db w w'" "same_db w (w'\<lparr>ticks := ts\<rparr>) = same_db w w'"
  by (simp_all add: same_db_def rollback_def)

lemma same_db_sym: "same_db w w' \<Longrightarrow> same_db w' w"
  by (simp add: same_db_def)

lemma same_db_trans: "same_db w w' \<Longrightarrow> same_db w' w'' \<Longrightarrow> same_db w w''"
  by (simp add: same_db_def)

lemma same_db_props [simp]: "reflp same_db" "transp same_db" "timeless same_db"
  by (auto simp: reflp_def transp_def timeless_def same_db_def)

lemma rollback_same:
  assumes "faults w' = faults w" "ticks w' = ticks w" "clock w' = clock w"
  shows "rollback w w' = w"
  unfolding rollback_def assms by simp

lemma rollback_self [simp]: "rollback w w = w"
  by (simp add: rollback_same)

lemma same_dbE:
  assumes "same_db w w'"
  obtains "w' = w\<lparr>faults := faults w', clock := clock w', ticks := ticks w'\<rparr>"
  using assms by (simp add: same_db_def)

lemma run_begin:
  assumes "run_state (io (ret (Inr ()))) w = (b, w1)"
  obtains fs where "w1 = w\<lparr>faults := fs\<rparr>"
  using assms by (rule run_io_cases) auto

lemma with_tx_cases:
  assumes run: "run_state (with_tx body) w = (r, w')"
  obtains (rolled_back) "same_db w w'" "\<And>x. r = Inr x \<Longrightarrow>
      \<exists>fs w2. run_state body (w\<lparr>faults := fs\<rparr>) = (Inr (x, False), w2)"
  | (committed) fs w2 x fs' where "run_state body (w\<lparr>faults := fs\<rparr>) = (Inr (x, True), w2)"
      "w' = w2\<lparr>faults := fs'\<rparr>" "r = Inr x \<or> r = Inl infra_error"
proof -
  obtain b w1 where b: "run_state (io (ret (Inr ()))) w = (b, w1)" by fastforce
  then obtain fs where w1: "w1 = w\<lparr>faults := fs\<rparr>" by (rule run_begin)
  obtain y w2 where y: "run_state body w1 = (y, w2)" by fastforce
  consider "\<exists>e. b = Inl e" | e where "b = Inr ()" "y = Inl e"
    | x where "b = Inr ()" "y = Inr (x, False)" | x where "b = Inr ()" "y = Inr (x, True)"
    by (metis (full_types) old.unit.exhaust surj_pair sum.exhaust)
  then show ?thesis
  proof cases
    case 1
    then show ?thesis using run b w1 by (intro rolled_back) (auto simp: with_tx_def)
  next
    case 2
    then show ?thesis using run b w1 y by (intro rolled_back) (auto simp: with_tx_def)
  next
    case (3 x)
    then show ?thesis using run b w1 y by (intro rolled_back) (auto simp: with_tx_def)
  next
    case (4 x)
    show ?thesis
    proof (cases "faults w2")
      case Nil
      then have "w' = w2" "r = Inr x" using run b w1 y 4 by (auto simp: with_tx_def)
      moreover have "w2 = w2\<lparr>faults := []\<rparr>" using Nil by (metis world.surjective world.update_convs(1))
      ultimately show ?thesis using committed [of fs x w2 "[]"] y w1 4 by simp
    next
      case (Cons f gs)
      then show ?thesis
        using run b w1 y 4 committed [of fs x w2 gs] rolled_back
        by (cases f) (auto simp: with_tx_def)
    qed
  qed
qed

end
