(* ===== verification/UsageBilling.thy ===== *)
theory UsageBilling
  imports Database
begin

section \<open>Usage billing: the ledger and its idempotency keys\<close>

text \<open>
  \<^verbatim>\<open>service/usage_billing.go\<close> and \<^verbatim>\<open>repository/usage_billing_repo.go\<close>.  One billable request, one
  balance hold, one capture or one release is a command with a request id; the table
  \<^verbatim>\<open>usage_billing_dedup\<close> (and its archive) holds the ids that have been applied.  The state is the
  world extended by the tables that the repository touches.
\<close>

record user_row =
  u_balance :: rat
  u_frozen :: rat
  u_deleted :: bool

record subscription_row =
  s_daily_usage :: rat
  s_weekly_usage :: rat
  s_monthly_usage :: rat
  s_group_id :: int
  s_deleted :: bool

record api_key_row =
  k_status :: string
  k_quota :: rat
  k_quota_used :: rat
  k_usage_5h :: rat
  k_usage_1d :: rat
  k_usage_7d :: rat
  k_window_5h_start :: "int option"
  k_window_1d_start :: "int option"
  k_window_7d_start :: "int option"
  k_deleted :: bool

text \<open>The keys of \<^verbatim>\<open>accounts.extra\<close> (a JSON object) that the quota statement reads or writes.\<close>

record account_row =
  x_quota_used :: "rat option"
  x_quota_limit :: "rat option"
  x_daily_limit :: "rat option"
  x_daily_used :: "rat option"
  x_daily_start :: "int option"
  x_daily_reset_mode :: "string option"
  x_daily_reset_hour :: "int option"
  x_daily_reset_at :: "int option"
  x_weekly_limit :: "rat option"
  x_weekly_used :: "rat option"
  x_weekly_start :: "int option"
  x_weekly_reset_mode :: "string option"
  x_weekly_reset_hour :: "int option"
  x_weekly_reset_day :: "int option"
  x_weekly_reset_at :: "int option"
  x_reset_timezone :: "string option"
  x_deleted :: bool

record billing = world +
  users :: "int \<Rightarrow> user_row option"
  subscriptions :: "int \<Rightarrow> subscription_row option"
  live_groups :: "int \<Rightarrow> bool"
  api_keys :: "int \<Rightarrow> api_key_row option"
  accounts :: "int \<Rightarrow> account_row option"
  dedup :: "string \<times> int \<Rightarrow> string option"
  dedup_archive :: "string \<times> int \<Rightarrow> string option"
  scheduler_outbox :: "string list"

subsection \<open>Commands\<close>

record UsageBillingCommand =
  ub_RequestID :: string
  ub_APIKeyID :: int
  ub_RequestFingerprint :: string
  ub_RequestPayloadHash :: string
  ub_UserID :: int
  ub_AccountID :: int
  ub_SubscriptionID :: "int option"
  ub_AccountType :: string
  ub_Model :: string
  ub_ServiceTier :: string
  ub_ReasoningEffort :: string
  ub_BillingType :: int
  ub_InputTokens :: int
  ub_OutputTokens :: int
  ub_CacheCreationTokens :: int
  ub_CacheReadTokens :: int
  ub_ImageCount :: int
  ub_MediaType :: string
  ub_BalanceCost :: f64
  ub_SubscriptionCost :: f64
  ub_APIKeyQuotaCost :: f64
  ub_APIKeyRateLimitCost :: f64
  ub_AccountQuotaCost :: f64

record AccountQuotaState =
  q_TotalUsed :: f64
  q_TotalLimit :: f64
  q_DailyUsed :: f64
  q_DailyLimit :: f64
  q_WeeklyUsed :: f64
  q_WeeklyLimit :: f64

record UsageBillingApplyResult =
  ar_Applied :: bool
  ar_APIKeyQuotaExhausted :: bool
  ar_NewBalance :: "f64 option"
  ar_BalanceOverdrafted :: bool
  ar_QuotaState :: "AccountQuotaState option"

record BatchImageBalanceHoldCommand =
  bh_RequestID :: string
  bh_APIKeyID :: int
  bh_RequestFingerprint :: string
  bh_RequestPayloadHash :: string
  bh_UserID :: int
  bh_BatchID :: string
  bh_HoldAmount :: f64
  bh_ActualAmount :: f64

record BatchImageBalanceHoldResult =
  hr_Applied :: bool
  hr_NewBalance :: "f64 option"
  hr_FrozenBalance :: "f64 option"

definition ErrUsageBillingRequestIDRequired :: goerr where
  "ErrUsageBillingRequestIDRequired = PlainErr ''usage billing request_id is required''"

definition ErrUsageBillingRequestConflict :: goerr where
  "ErrUsageBillingRequestConflict = PlainErr ''usage billing request fingerprint conflict''"

definition ErrSubscriptionNotFound :: goerr where
  "ErrSubscriptionNotFound = NotFound ''SUBSCRIPTION_NOT_FOUND'' ''subscription not found''"

definition ErrUserNotFound :: goerr where
  "ErrUserNotFound = NotFound ''USER_NOT_FOUND'' ''user not found''"

definition ErrAPIKeyNotFound :: goerr where
  "ErrAPIKeyNotFound = NotFound ''API_KEY_NOT_FOUND'' ''api key not found''"

definition ErrAccountNotFound :: goerr where
  "ErrAccountNotFound = NotFound ''ACCOUNT_NOT_FOUND'' ''account not found''"

definition ErrBatchImageSettlementCostExceedsHold :: goerr where
  "ErrBatchImageSettlementCostExceedsHold = New 409 ''BATCH_IMAGE_SETTLEMENT_COST_EXCEEDS_HOLD''
     ''batch image settlement cost exceeds held balance''"

definition ErrBatchImageInsufficientBalance :: goerr where
  "ErrBatchImageInsufficientBalance = New 402 ''BATCH_IMAGE_INSUFFICIENT_BALANCE''
     ''insufficient balance for batch image hold''"

definition ErrFrozenInsufficient :: goerr where
  "ErrFrozenInsufficient = PlainErr ''batch image frozen balance is insufficient''"

fun join :: "string \<Rightarrow> string list \<Rightarrow> string" where
  "join sep [] = []"
| "join sep [s] = s"
| "join sep (s # t # ts) = s @ sep @ join sep (t # ts)"

definition valueOrZero :: "int option \<Rightarrow> int" where
  "valueOrZero v = deref_or 0 v"

definition with_payload_hash :: "string \<Rightarrow> string \<Rightarrow> string" where
  "with_payload_hash raw h = (if trim_space h \<noteq> [] then raw @ ''|'' @ trim_space h else raw)"

definition buildUsageBillingFingerprint :: "'e driver_scheme \<Rightarrow> UsageBillingCommand \<Rightarrow> string" where
  "buildUsageBillingFingerprint env c = sha256_hex env (with_payload_hash (join ''|''
     [itoa (ub_UserID c), itoa (ub_AccountID c), itoa (ub_APIKeyID c),
      trim_space (ub_AccountType c), trim_space (ub_Model c), trim_space (ub_ServiceTier c),
      trim_space (ub_ReasoningEffort c), itoa (ub_BillingType c), itoa (ub_InputTokens c),
      itoa (ub_OutputTokens c), itoa (ub_CacheCreationTokens c), itoa (ub_CacheReadTokens c),
      itoa (ub_ImageCount c), trim_space (ub_MediaType c), itoa (valueOrZero (ub_SubscriptionID c)),
      fmt_f10 (ub_BalanceCost c), fmt_f10 (ub_SubscriptionCost c), fmt_f10 (ub_APIKeyQuotaCost c),
      fmt_f10 (ub_APIKeyRateLimitCost c), fmt_f10 (ub_AccountQuotaCost c)])
     (ub_RequestPayloadHash c))"

definition Normalize :: "'e driver_scheme \<Rightarrow> UsageBillingCommand \<Rightarrow> UsageBillingCommand" where
  "Normalize env c0 = (let c = c0\<lparr>ub_RequestID := trim_space (ub_RequestID c0)\<rparr> in
     if trim_space (ub_RequestFingerprint c) = []
     then c\<lparr>ub_RequestFingerprint := buildUsageBillingFingerprint env c\<rparr> else c)"

definition HashUsageRequestPayload :: "'e driver_scheme \<Rightarrow> string \<Rightarrow> string" where
  "HashUsageRequestPayload env payload = (if payload = [] then [] else sha256_hex env payload)"

definition buildBatchImageBalanceHoldFingerprint ::
  "'e driver_scheme \<Rightarrow> BatchImageBalanceHoldCommand \<Rightarrow> string" where
  "buildBatchImageBalanceHoldFingerprint env c = sha256_hex env (with_payload_hash (join ''|''
     [itoa (bh_UserID c), itoa (bh_APIKeyID c), trim_space (bh_BatchID c),
      fmt_f10 (bh_HoldAmount c), fmt_f10 (bh_ActualAmount c)]) (bh_RequestPayloadHash c))"

definition NormalizeHold ::
  "'e driver_scheme \<Rightarrow> BatchImageBalanceHoldCommand \<Rightarrow> BatchImageBalanceHoldCommand" where
  "NormalizeHold env c0 = (let c = c0\<lparr>bh_RequestID := trim_space (bh_RequestID c0),
                                    bh_BatchID := trim_space (bh_BatchID c0)\<rparr> in
     if trim_space (bh_RequestFingerprint c) = []
     then c\<lparr>bh_RequestFingerprint := buildBatchImageBalanceHoldFingerprint env c\<rparr> else c)"

definition BatchImageHoldRequestID :: "string \<Rightarrow> string" where
  "BatchImageHoldRequestID batchID = ''batch_image_hold:'' @ trim_space batchID"

definition BatchImageCaptureRequestID :: "string \<Rightarrow> string" where
  "BatchImageCaptureRequestID batchID = ''batch_image_capture:'' @ trim_space batchID"

definition BatchImageReleaseRequestID :: "string \<Rightarrow> string" where
  "BatchImageReleaseRequestID batchID = ''batch_image_release:'' @ trim_space batchID"

subsection \<open>Statements\<close>

text \<open>
  Each SQL statement is a step \<open>stmt\<close>: it looks at the tables, answers, and leaves new tables.
  A float parameter that has no finite NUMERIC value is larger than every column value in a
  comparison (as PostgreSQL orders infinity and NaN) and cannot be stored.
\<close>

definition stmt :: "('z billing_scheme \<Rightarrow> (goerr + 'a) \<times> 'z billing_scheme) \<Rightarrow>
    ('z billing_scheme, goerr + 'a) state" where
  "stmt f = io (State f)"

definition num_le :: "rat option \<Rightarrow> rat \<Rightarrow> bool" where
  "num_le q c = (case q of None \<Rightarrow> False | Some v \<Rightarrow> v \<le> c)"

definition num_plus :: "nat \<Rightarrow> rat \<Rightarrow> rat option \<Rightarrow> goerr + rat" where
  "num_plus s c q = (case q of None \<Rightarrow> Inl sql_overflow | Some v \<Rightarrow> store_dec 20 s (c + v))"

definition num_minus :: "nat \<Rightarrow> rat \<Rightarrow> rat option \<Rightarrow> goerr + rat" where
  "num_minus s c q = (case q of None \<Rightarrow> Inl sql_overflow | Some v \<Rightarrow> store_dec 20 s (c - v))"

text \<open>Applying a fallible row update: the row that the statement addresses, or no row.\<close>

definition update_row :: "('r \<Rightarrow> bool) \<Rightarrow> ('r \<Rightarrow> goerr + 'r) \<Rightarrow> (int \<Rightarrow> 'r option) \<Rightarrow> int \<Rightarrow>
    goerr + (int \<Rightarrow> 'r option) \<times> 'r" where
  "update_row p f t i = (case t i of
      None \<Rightarrow> Inl sql_no_rows
    | Some r \<Rightarrow> if \<not> p r then Inl sql_no_rows
        else (case f r of Inl e \<Rightarrow> Inl e | Inr r' \<Rightarrow> Inr (t(i := Some r'), r')))"

definition update_users :: "(user_row \<Rightarrow> bool) \<Rightarrow> (user_row \<Rightarrow> goerr + user_row) \<Rightarrow> int \<Rightarrow>
    ('z billing_scheme, goerr + user_row) state" where
  "update_users p f i = stmt (\<lambda>w. case update_row p f (users w) i of
      Inl e \<Rightarrow> (Inl e, w) | Inr (t, r) \<Rightarrow> (Inr r, w\<lparr>users := t\<rparr>))"

definition update_api_keys :: "(api_key_row \<Rightarrow> bool) \<Rightarrow> (api_key_row \<Rightarrow> goerr + api_key_row) \<Rightarrow> int \<Rightarrow>
    ('z billing_scheme, goerr + api_key_row) state" where
  "update_api_keys p f i = stmt (\<lambda>w. case update_row p f (api_keys w) i of
      Inl e \<Rightarrow> (Inl e, w) | Inr (t, r) \<Rightarrow> (Inr r, w\<lparr>api_keys := t\<rparr>))"

definition update_accounts :: "(account_row \<Rightarrow> bool) \<Rightarrow> (account_row \<Rightarrow> goerr + account_row) \<Rightarrow> int \<Rightarrow>
    ('z billing_scheme, goerr + account_row) state" where
  "update_accounts p f i = stmt (\<lambda>w. case update_row p f (accounts w) i of
      Inl e \<Rightarrow> (Inl e, w) | Inr (t, r) \<Rightarrow> (Inr r, w\<lparr>accounts := t\<rparr>))"

text \<open>The claim: \<^verbatim>\<open>INSERT ... ON CONFLICT DO NOTHING RETURNING id\<close>, then the archive.\<close>

definition insert_dedup :: "string \<Rightarrow> int \<Rightarrow> string \<Rightarrow> ('z billing_scheme, goerr + unit) state" where
  "insert_dedup requestID apiKeyID fp = stmt (\<lambda>w.
     if \<not> (varchar_fits 255 requestID \<and> varchar_fits 64 fp) then (Inl sql_too_long, w)
     else if dedup w (requestID, apiKeyID) \<noteq> None then (Inl sql_no_rows, w)
     else (Inr (), w\<lparr>dedup := (dedup w)((requestID, apiKeyID) \<mapsto> fp)\<rparr>))"

definition select_dedup :: "string \<Rightarrow> int \<Rightarrow> ('z billing_scheme, goerr + string) state" where
  "select_dedup requestID apiKeyID = stmt (\<lambda>w. (case dedup w (requestID, apiKeyID) of
      None \<Rightarrow> Inl sql_no_rows | Some fp \<Rightarrow> Inr fp, w))"

definition select_archive :: "string \<Rightarrow> int \<Rightarrow> ('z billing_scheme, goerr + string) state" where
  "select_archive requestID apiKeyID = stmt (\<lambda>w. (case dedup_archive w (requestID, apiKeyID) of
      None \<Rightarrow> Inl sql_no_rows | Some fp \<Rightarrow> Inr fp, w))"

definition claimUsageBillingRequest ::
  "string \<Rightarrow> int \<Rightarrow> string \<Rightarrow> ('z billing_scheme, goerr + bool) state" where
  "claimUsageBillingRequest requestID apiKeyID fp = do {
     r \<leftarrow> insert_dedup requestID apiKeyID fp;
     case r of
       Inl err \<Rightarrow>
         if err_is err sql_no_rows then do {
           q \<leftarrow> select_dedup requestID apiKeyID;
           ret (case q of
             Inl err \<Rightarrow> Inl err
           | Inr existing \<Rightarrow>
               if trim_space existing \<noteq> trim_space fp then Inl ErrUsageBillingRequestConflict
               else Inr False)
         } else ret (Inl err)
     | Inr _ \<Rightarrow> do {
         q \<leftarrow> select_archive requestID apiKeyID;
         ret (case q of
           Inr archived \<Rightarrow>
             if trim_space archived \<noteq> trim_space fp then Inl ErrUsageBillingRequestConflict
             else Inr False
         | Inl err \<Rightarrow> if \<not> err_is err sql_no_rows then Inl err else Inr True)
       }
   }"

definition claimUsageBillingKey :: "UsageBillingCommand \<Rightarrow> ('z billing_scheme, goerr + bool) state" where
  "claimUsageBillingKey cmd =
     claimUsageBillingRequest (ub_RequestID cmd) (ub_APIKeyID cmd) (ub_RequestFingerprint cmd)"

subsection \<open>Effects of a usage command\<close>

definition incrementUsageBillingSubscription ::
  "'e driver_scheme \<Rightarrow> int \<Rightarrow> f64 \<Rightarrow> ('z billing_scheme, goerr + unit) state" where
  "incrementUsageBillingSubscription env sid cost = do {
     res \<leftarrow> stmt (\<lambda>w.
       case update_row (\<lambda>s. \<not> s_deleted s \<and> live_groups w (s_group_id s))
         (\<lambda>s. case (num_plus 10 (s_daily_usage s) (to_numeric env cost),
                    num_plus 10 (s_weekly_usage s) (to_numeric env cost),
                    num_plus 10 (s_monthly_usage s) (to_numeric env cost)) of
            (Inr d, Inr wk, Inr m) \<Rightarrow>
              Inr (s\<lparr>s_daily_usage := d, s_weekly_usage := wk, s_monthly_usage := m\<rparr>)
          | _ \<Rightarrow> Inl sql_overflow)
         (subscriptions w) sid of
       Inl e \<Rightarrow> (if e = sql_no_rows then Inr (0::int) else Inl e, w)
     | Inr (t, _) \<Rightarrow> (Inr 1, w\<lparr>subscriptions := t\<rparr>));
     ret (case res of
       Inl err \<Rightarrow> Inl err
     | Inr affected \<Rightarrow> if 0 < affected then Inr () else Inl ErrSubscriptionNotFound)
   }"

definition deduct_balance :: "'e driver_scheme \<Rightarrow> f64 \<Rightarrow> user_row \<Rightarrow> goerr + user_row" where
  "deduct_balance env amount u = (case num_minus 8 (u_balance u) (to_numeric env amount) of
      Inl e \<Rightarrow> Inl e | Inr b \<Rightarrow> Inr (u\<lparr>u_balance := b\<rparr>))"

definition deductUsageBillingBalance ::
  "'e driver_scheme \<Rightarrow> int \<Rightarrow> f64 \<Rightarrow> ('z billing_scheme, goerr + f64 \<times> bool) state" where
  "deductUsageBillingBalance env userID amount = do {
     r \<leftarrow> update_users (\<lambda>u. \<not> u_deleted u \<and> num_le (to_numeric env amount) (u_balance u))
           (deduct_balance env amount) userID;
     case r of
       Inr u \<Rightarrow> ret (Inr (of_numeric env (u_balance u), True))
     | Inl err \<Rightarrow>
         if \<not> err_is err sql_no_rows then ret (Inl err)
         else do {
           q \<leftarrow> update_users (\<lambda>u. \<not> u_deleted u) (deduct_balance env amount) userID;
           ret (case q of
             Inl err \<Rightarrow> if err_is err sql_no_rows then Inl ErrUserNotFound else Inl err
           | Inr u \<Rightarrow> Inr (of_numeric env (u_balance u), False))
         }
   }"

definition StatusAPIKeyActive :: string where "StatusAPIKeyActive = ''active''"
definition StatusAPIKeyQuotaExhausted :: string where
  "StatusAPIKeyQuotaExhausted = ''quota_exhausted''"
definition AccountTypeAPIKey :: string where "AccountTypeAPIKey = ''apikey''"
definition AccountTypeBedrock :: string where "AccountTypeBedrock = ''bedrock''"

definition add_key_quota :: "'e driver_scheme \<Rightarrow> f64 \<Rightarrow> api_key_row \<Rightarrow> goerr + api_key_row" where
  "add_key_quota env amount k = (case to_numeric env amount of
      None \<Rightarrow> Inl sql_overflow
    | Some a \<Rightarrow> (case store_dec 20 8 (k_quota_used k + a) of
        Inl e \<Rightarrow> Inl e
      | Inr used \<Rightarrow> Inr (k\<lparr>k_quota_used := used,
          k_status := (if 0 < k_quota k \<and> k_status k = StatusAPIKeyActive
                          \<and> k_quota_used k < k_quota k \<and> k_quota k \<le> k_quota_used k + a
                       then StatusAPIKeyQuotaExhausted else k_status k)\<rparr>)))"

definition incrementUsageBillingAPIKeyQuota ::
  "'e driver_scheme \<Rightarrow> int \<Rightarrow> f64 \<Rightarrow> ('z billing_scheme, goerr + bool) state" where
  "incrementUsageBillingAPIKeyQuota env apiKeyID amount = do {
     r \<leftarrow> update_api_keys (\<lambda>k. \<not> k_deleted k) (add_key_quota env amount) apiKeyID;
     ret (case r of
       Inl err \<Rightarrow> if err_is err sql_no_rows then Inl ErrAPIKeyNotFound else Inl err
     | Inr k \<Rightarrow> Inr (0 < k_quota k \<and> k_quota k \<le> k_quota_used k
         \<and> k_quota_used k - deref_or 0 (to_numeric env amount) < k_quota k))
   }"

text \<open>
  The three windows of the key's rate limit.  \<open>expired\<close> is the CASE of the usage columns,
  \<open>restart\<close> the CASE of the start columns; \<^verbatim>\<open>date_trunc('day', NOW())\<close> is taken in the
  time zone of the database session, which the parameters know as the empty name.
\<close>

definition expired :: "int \<Rightarrow> int option \<Rightarrow> int \<Rightarrow> bool" where
  "expired now start len = (case start of None \<Rightarrow> False | Some t \<Rightarrow> t + len \<le> now)"

definition restart :: "int \<Rightarrow> int option \<Rightarrow> int \<Rightarrow> bool" where
  "restart now start len = (case start of None \<Rightarrow> True | Some t \<Rightarrow> t + len \<le> now)"

definition trunc_day :: "'e driver_scheme \<Rightarrow> string \<Rightarrow> int \<Rightarrow> int" where
  "trunc_day env tz now = tz_utc env tz (tz_local env tz now - tz_local env tz now mod day)"

definition bump_window :: "int \<Rightarrow> int option \<Rightarrow> int \<Rightarrow> rat \<Rightarrow> rat option \<Rightarrow> goerr + rat" where
  "bump_window now start len used a =
     (if expired now start len then num_plus 8 0 a else num_plus 8 used a)"

definition add_key_rate_limit ::
  "'e driver_scheme \<Rightarrow> int \<Rightarrow> f64 \<Rightarrow> api_key_row \<Rightarrow> goerr + api_key_row" where
  "add_key_rate_limit env now cost k =
     (case (bump_window now (k_window_5h_start k) (5 * hour) (k_usage_5h k) (to_numeric env cost),
            bump_window now (k_window_1d_start k) (24 * hour) (k_usage_1d k) (to_numeric env cost),
            bump_window now (k_window_7d_start k) (7 * day) (k_usage_7d k) (to_numeric env cost)) of
        (Inr a, Inr b, Inr c) \<Rightarrow> Inr (k\<lparr>k_usage_5h := a, k_usage_1d := b, k_usage_7d := c,
          k_window_5h_start := (if restart now (k_window_5h_start k) (5 * hour)
                                then Some now else k_window_5h_start k),
          k_window_1d_start := (if restart now (k_window_1d_start k) (24 * hour)
                                then Some (trunc_day env [] now) else k_window_1d_start k),
          k_window_7d_start := (if restart now (k_window_7d_start k) (7 * day)
                                then Some (trunc_day env [] now) else k_window_7d_start k)\<rparr>)
      | _ \<Rightarrow> Inl sql_overflow)"

definition incrementUsageBillingAPIKeyRateLimit ::
  "'e driver_scheme \<Rightarrow> int \<Rightarrow> int \<Rightarrow> f64 \<Rightarrow> ('z billing_scheme, goerr + unit) state" where
  "incrementUsageBillingAPIKeyRateLimit env now apiKeyID cost = do {
     r \<leftarrow> update_api_keys (\<lambda>k. \<not> k_deleted k) (add_key_rate_limit env now cost) apiKeyID;
     ret (case r of
       Inl err \<Rightarrow> if err = sql_no_rows then Inl ErrAPIKeyNotFound else Inl err
     | Inr _ \<Rightarrow> Inr ())
   }"

text \<open>
  The account's quota.  \<open>daily_expired\<close>, \<open>weekly_expired\<close>, \<open>next_daily_reset\<close> and
  \<open>next_weekly_reset\<close> are the SQL expressions of the same name in
  \<^verbatim>\<open>repository/account_repo.go\<close>.  A local time is a number of nanoseconds since
  1970-01-01 00:00 local, which was a Thursday.
\<close>

definition daily_expired :: "int \<Rightarrow> account_row \<Rightarrow> bool" where
  "daily_expired now a =
     (if deref_or ''rolling'' (x_daily_reset_mode a) = ''fixed''
      then deref_or 0 (x_daily_reset_at a) \<le> now
      else deref_or 0 (x_daily_start a) + 24 * hour \<le> now)"

definition weekly_expired :: "int \<Rightarrow> account_row \<Rightarrow> bool" where
  "weekly_expired now a =
     (if deref_or ''rolling'' (x_weekly_reset_mode a) = ''fixed''
      then deref_or 0 (x_weekly_reset_at a) \<le> now
      else deref_or 0 (x_weekly_start a) + 168 * hour \<le> now)"

definition next_daily_reset :: "'e driver_scheme \<Rightarrow> int \<Rightarrow> account_row \<Rightarrow> int option" where
  "next_daily_reset env now a =
     (if deref_or ''rolling'' (x_daily_reset_mode a) = ''fixed'' then
        (let tz = deref_or ''UTC'' (x_reset_timezone a); l = tz_local env tz now;
             point = (l - l mod day) + deref_or 0 (x_daily_reset_hour a) * hour in
         Some (if tz_utc env tz point \<le> now then tz_utc env tz (point + day)
               else tz_utc env tz point))
      else None)"

definition next_weekly_reset :: "'e driver_scheme \<Rightarrow> int \<Rightarrow> account_row \<Rightarrow> int option" where
  "next_weekly_reset env now a =
     (if deref_or ''rolling'' (x_weekly_reset_mode a) = ''fixed'' then
        (let tz = deref_or ''UTC'' (x_reset_timezone a); l = tz_local env tz now;
             point = (l - l mod day) + deref_or 0 (x_weekly_reset_hour a) * hour;
             dow = (l div day + 4) mod 7;
             fwd = go_rem (deref_or 1 (x_weekly_reset_day a) - dow + 7) 7 in
         Some (if fwd = 0 \<and> tz_utc env tz point \<le> now then tz_utc env tz (point + 7 * day)
               else tz_utc env tz (point + fwd * day)))
      else None)"

definition add_account_quota ::
  "'e driver_scheme \<Rightarrow> int \<Rightarrow> rat \<Rightarrow> account_row \<Rightarrow> account_row" where
  "add_account_quota env now amount x = (let
     x1 = x\<lparr>x_quota_used := Some (deref_or 0 (x_quota_used x) + amount)\<rparr>;
     x2 = (if 0 < deref_or 0 (x_daily_limit x) then
             x1\<lparr>x_daily_used := Some (if daily_expired now x then amount
                                     else deref_or 0 (x_daily_used x) + amount),
                x_daily_start := Some (if daily_expired now x then now
                                      else deref_or now (x_daily_start x)),
                x_daily_reset_at := (if daily_expired now x \<and> next_daily_reset env now x \<noteq> None
                                     then next_daily_reset env now x else x_daily_reset_at x)\<rparr>
           else x1);
     x3 = (if 0 < deref_or 0 (x_weekly_limit x) then
             x2\<lparr>x_weekly_used := Some (if weekly_expired now x then amount
                                      else deref_or 0 (x_weekly_used x) + amount),
                x_weekly_start := Some (if weekly_expired now x then now
                                       else deref_or now (x_weekly_start x)),
                x_weekly_reset_at := (if weekly_expired now x \<and> next_weekly_reset env now x \<noteq> None
                                      then next_weekly_reset env now x else x_weekly_reset_at x)\<rparr>
           else x2)
     in x3)"

text \<open>\<^verbatim>\<open>enqueueSchedulerOutbox\<close> for this event: a row keyed by its hash, kept once.\<close>

definition schedulerOutboxDedupKey :: "'e driver_scheme \<Rightarrow> string \<Rightarrow> int option \<Rightarrow> int option \<Rightarrow> string \<Rightarrow> string" where
  "schedulerOutboxDedupKey env eventType accountID groupID payload =
     ''scheduler_outbox:'' @ sha256_hex env (eventType @ [CHR 0x00]
       @ (case accountID of None \<Rightarrow> [] | Some a \<Rightarrow> itoa a) @ [CHR 0x00]
       @ (case groupID of None \<Rightarrow> [] | Some g \<Rightarrow> itoa g) @ [CHR 0x00] @ payload)"

definition enqueueAccountChanged ::
  "'e driver_scheme \<Rightarrow> int \<Rightarrow> ('z billing_scheme, goerr + unit) state" where
  "enqueueAccountChanged env accountID = stmt (\<lambda>w.
     let key = schedulerOutboxDedupKey env ''account_changed'' (Some accountID) None [] in
     (Inr (), if key \<in> set (scheduler_outbox w) then w
              else w\<lparr>scheduler_outbox := scheduler_outbox w @ [key]\<rparr>))"

definition quota_state :: "'e driver_scheme \<Rightarrow> account_row \<Rightarrow> AccountQuotaState" where
  "quota_state env x = \<lparr>
     q_TotalUsed = of_numeric env (deref_or 0 (x_quota_used x)),
     q_TotalLimit = of_numeric env (deref_or 0 (x_quota_limit x)),
     q_DailyUsed = of_numeric env (deref_or 0 (x_daily_used x)),
     q_DailyLimit = of_numeric env (deref_or 0 (x_daily_limit x)),
     q_WeeklyUsed = of_numeric env (deref_or 0 (x_weekly_used x)),
     q_WeeklyLimit = of_numeric env (deref_or 0 (x_weekly_limit x))\<rparr>"

definition crossed :: "f64 \<Rightarrow> f64 \<Rightarrow> f64 \<Rightarrow> bool" where
  "crossed limit used amount \<longleftrightarrow>
     f_lt (Fin 0) limit \<and> f_le limit used \<and> f_lt (f_sub used amount) limit"

definition incrementUsageBillingAccountQuota ::
  "'e driver_scheme \<Rightarrow> int \<Rightarrow> int \<Rightarrow> f64 \<Rightarrow> ('z billing_scheme, goerr + AccountQuotaState) state" where
  "incrementUsageBillingAccountQuota env now accountID amount = do {
     r \<leftarrow> update_accounts (\<lambda>x. \<not> x_deleted x)
           (\<lambda>x. case to_numeric env amount of
              None \<Rightarrow> Inl sql_overflow | Some a \<Rightarrow> Inr (add_account_quota env now a x)) accountID;
     case r of
       Inl err \<Rightarrow> ret (if err = sql_no_rows then Inl ErrAccountNotFound else Inl err)
     | Inr x \<Rightarrow> let s = quota_state env x in
         if crossed (q_TotalLimit s) (q_TotalUsed s) amount
            \<or> crossed (q_DailyLimit s) (q_DailyUsed s) amount
            \<or> crossed (q_WeeklyLimit s) (q_WeeklyUsed s) amount
         then do {
           q \<leftarrow> enqueueAccountChanged env accountID;
           ret (case q of Inl err \<Rightarrow> Inl err | Inr _ \<Rightarrow> Inr s)
         } else ret (Inr s)
   }"

text \<open>\<^verbatim>\<open>applyUsageBillingEffects\<close>, cut at its second and third \<^verbatim>\<open>if\<close>.\<close>

definition chargeSubscription ::
  "'e driver_scheme \<Rightarrow> UsageBillingCommand \<Rightarrow> ('z billing_scheme, goerr + unit) state" where
  "chargeSubscription env cmd = (case ub_SubscriptionID cmd of
      Some sid \<Rightarrow> if f_lt (Fin 0) (ub_SubscriptionCost cmd)
         then incrementUsageBillingSubscription env sid (ub_SubscriptionCost cmd)
         else ret (Inr ())
    | None \<Rightarrow> ret (Inr ()))"

definition chargeBalance ::
  "'e driver_scheme \<Rightarrow> UsageBillingCommand \<Rightarrow> UsageBillingApplyResult \<Rightarrow>
   ('z billing_scheme, goerr + UsageBillingApplyResult) state" where
  "chargeBalance env cmd result =
     (if f_lt (Fin 0) (ub_BalanceCost cmd) then do {
        d \<leftarrow> deductUsageBillingBalance env (ub_UserID cmd) (ub_BalanceCost cmd);
        chain d (\<lambda>(newBalance, sufficient). ret (Inr (result\<lparr>ar_NewBalance := Some newBalance,
                                                   ar_BalanceOverdrafted := \<not> sufficient\<rparr>))) }
      else ret (Inr result))"

definition chargeQuotas ::
  "'e driver_scheme \<Rightarrow> int \<Rightarrow> UsageBillingCommand \<Rightarrow> UsageBillingApplyResult \<Rightarrow>
   ('z billing_scheme, goerr + UsageBillingApplyResult) state" where
  "chargeQuotas env now cmd result = do {
     r3 \<leftarrow> (if f_lt (Fin 0) (ub_APIKeyQuotaCost cmd) then do {
          x \<leftarrow> incrementUsageBillingAPIKeyQuota env (ub_APIKeyID cmd) (ub_APIKeyQuotaCost cmd);
          chain x (\<lambda>exhausted. ret (Inr (result\<lparr>ar_APIKeyQuotaExhausted := exhausted\<rparr>))) }
        else ret (Inr result));
     chain r3 (\<lambda>result2. do {
     r4 \<leftarrow> (if f_lt (Fin 0) (ub_APIKeyRateLimitCost cmd)
        then incrementUsageBillingAPIKeyRateLimit env now (ub_APIKeyID cmd) (ub_APIKeyRateLimitCost cmd)
        else ret (Inr ()));
     chain r4 (\<lambda>_.
     if f_lt (Fin 0) (ub_AccountQuotaCost cmd)
        \<and> (equal_fold (ub_AccountType cmd) AccountTypeAPIKey
           \<or> equal_fold (ub_AccountType cmd) AccountTypeBedrock)
     then do {
       q \<leftarrow> incrementUsageBillingAccountQuota env now (ub_AccountID cmd) (ub_AccountQuotaCost cmd);
       chain q (\<lambda>s. ret (Inr (result2\<lparr>ar_QuotaState := Some s\<rparr>))) }
     else ret (Inr result2)) }) }"

definition applyUsageBillingEffects ::
  "'e driver_scheme \<Rightarrow> int \<Rightarrow> UsageBillingCommand \<Rightarrow> UsageBillingApplyResult \<Rightarrow>
   ('z billing_scheme, goerr + UsageBillingApplyResult) state" where
  "applyUsageBillingEffects env now cmd result = do {
     r1 \<leftarrow> chargeSubscription env cmd;
     chain r1 (\<lambda>_. do {
       r2 \<leftarrow> chargeBalance env cmd result;
       chain r2 (chargeQuotas env now cmd) }) }"

text \<open>
  \<^verbatim>\<open>Apply\<close>.  A nil command is \<open>None\<close>.  \<^verbatim>\<open>NOW()\<close> is the start of the transaction.
\<close>

definition no_apply_result :: UsageBillingApplyResult where
  "no_apply_result = \<lparr>ar_Applied = False, ar_APIKeyQuotaExhausted = False, ar_NewBalance = None,
     ar_BalanceOverdrafted = False, ar_QuotaState = None\<rparr>"

definition apply_tx :: "'e driver_scheme \<Rightarrow> UsageBillingCommand \<Rightarrow>
    ('z billing_scheme, goerr + UsageBillingApplyResult \<times> bool) state" where
  "apply_tx env cmd = do {
     now \<leftarrow> time_now;
     applied \<leftarrow> claimUsageBillingKey cmd;
     chain applied (\<lambda>applied.
       if \<not> applied then ret (Inr (no_apply_result, False))
       else do {
         r \<leftarrow> applyUsageBillingEffects env now cmd (no_apply_result\<lparr>ar_Applied := True\<rparr>);
         chain r (\<lambda>result. ret (Inr (result, True)))
       })
   }"

definition Apply :: "'e driver_scheme \<Rightarrow> UsageBillingCommand option \<Rightarrow>
    ('z billing_scheme, goerr + UsageBillingApplyResult) state" where
  "Apply env cmd0 = (case cmd0 of
      None \<Rightarrow> ret (Inr no_apply_result)
    | Some c \<Rightarrow> let cmd = Normalize env c in
        if ub_RequestID cmd = [] then ret (Inl ErrUsageBillingRequestIDRequired)
        else with_tx (apply_tx env cmd))"

subsection \<open>Balance holds of batch jobs\<close>

definition no_hold_result :: BatchImageBalanceHoldResult where
  "no_hold_result = \<lparr>hr_Applied = False, hr_NewBalance = None, hr_FrozenBalance = None\<rparr>"

definition hold_result :: "'e driver_scheme \<Rightarrow> user_row \<Rightarrow> BatchImageBalanceHoldResult" where
  "hold_result env u = \<lparr>hr_Applied = False, hr_NewBalance = Some (of_numeric env (u_balance u)),
     hr_FrozenBalance = Some (of_numeric env (u_frozen u))\<rparr>"

definition userExistsForBilling :: "int \<Rightarrow> ('z billing_scheme, goerr + bool) state" where
  "userExistsForBilling userID = do {
     r \<leftarrow> stmt (\<lambda>w. (case users w userID of
         None \<Rightarrow> Inl sql_no_rows | Some u \<Rightarrow> if u_deleted u then Inl sql_no_rows else Inr (1::int), w));
     ret (case r of
       Inl err \<Rightarrow> if err_is err sql_no_rows then Inr False else Inl err
     | Inr _ \<Rightarrow> Inr True)
   }"

definition batchImageHoldClaimExists :: "string \<Rightarrow> int \<Rightarrow> ('z billing_scheme, goerr + bool) state" where
  "batchImageHoldClaimExists holdRequestID apiKeyID = do {
     r \<leftarrow> select_dedup holdRequestID apiKeyID;
     case r of
       Inr _ \<Rightarrow> ret (Inr True)
     | Inl err \<Rightarrow>
         if \<not> err_is err sql_no_rows then ret (Inl err)
         else do {
           q \<leftarrow> select_archive holdRequestID apiKeyID;
           ret (case q of
             Inr _ \<Rightarrow> Inr True
           | Inl err \<Rightarrow> if err_is err sql_no_rows then Inr False else Inl err)
         }
   }"

text \<open>What the three statements do when they find no row to update.\<close>

definition no_row_updated ::
  "int \<Rightarrow> goerr \<Rightarrow> goerr \<Rightarrow> ('z billing_scheme, goerr + BatchImageBalanceHoldResult) state" where
  "no_row_updated userID insufficient err =
     (if \<not> err_is err sql_no_rows then ret (Inl err)
      else do {
        e \<leftarrow> userExistsForBilling userID;
        ret (case e of
          Inl existsErr \<Rightarrow> Inl existsErr
        | Inr ex \<Rightarrow> if \<not> ex then Inl ErrUserNotFound else Inl insufficient)
      })"

definition move_money :: "(rat \<Rightarrow> rat) \<Rightarrow> (rat \<Rightarrow> rat) \<Rightarrow> user_row \<Rightarrow> goerr + user_row" where
  "move_money f g u = (case (store_dec 20 8 (f (u_balance u)), store_dec 20 8 (g (u_frozen u))) of
      (Inr b, Inr fr) \<Rightarrow> Inr (u\<lparr>u_balance := b, u_frozen := fr\<rparr>)
    | _ \<Rightarrow> Inl sql_overflow)"

definition reserveUsageBillingBatchImageBalance ::
  "'e driver_scheme \<Rightarrow> BatchImageBalanceHoldCommand \<Rightarrow>
   ('z billing_scheme, goerr + BatchImageBalanceHoldResult) state" where
  "reserveUsageBillingBatchImageBalance env cmd =
     (if f_le (bh_HoldAmount cmd) (Fin 0) then ret (Inr no_hold_result)
      else do {
        r \<leftarrow> update_users
              (\<lambda>u. \<not> u_deleted u \<and> num_le (to_numeric env (bh_HoldAmount cmd)) (u_balance u))
              (\<lambda>u. case to_numeric env (bh_HoldAmount cmd) of
                 None \<Rightarrow> Inl sql_overflow
               | Some h \<Rightarrow> move_money (\<lambda>b. b - h) (\<lambda>f. f + h) u)
              (bh_UserID cmd);
        case r of
          Inr u \<Rightarrow> ret (Inr (hold_result env u))
        | Inl err \<Rightarrow> no_row_updated (bh_UserID cmd) ErrBatchImageInsufficientBalance err
      })"

definition captureUsageBillingBatchImageBalance ::
  "'e driver_scheme \<Rightarrow> BatchImageBalanceHoldCommand \<Rightarrow>
   ('z billing_scheme, goerr + BatchImageBalanceHoldResult) state" where
  "captureUsageBillingBatchImageBalance env cmd =
     (if f_le (bh_HoldAmount cmd) (Fin 0) \<and> f_le (bh_ActualAmount cmd) (Fin 0)
      then ret (Inr no_hold_result)
      else if f_lt (round64 (1 / 10 ^ 8)) (f_sub (bh_ActualAmount cmd) (bh_HoldAmount cmd))
      then ret (Inl ErrBatchImageSettlementCostExceedsHold)
      else do {
        r \<leftarrow> update_users
              (\<lambda>u. \<not> u_deleted u \<and> num_le (to_numeric env (bh_HoldAmount cmd)) (u_frozen u))
              (\<lambda>u. case (to_numeric env (bh_HoldAmount cmd), to_numeric env (bh_ActualAmount cmd)) of
                 (Some h, Some a) \<Rightarrow> move_money
                    (\<lambda>b. b + (if a < h then h - a else 0) - (if h < a then a - h else 0))
                    (\<lambda>f. f - h) u
               | _ \<Rightarrow> Inl sql_overflow)
              (bh_UserID cmd);
        case r of
          Inr u \<Rightarrow> ret (Inr (hold_result env u))
        | Inl err \<Rightarrow> no_row_updated (bh_UserID cmd) ErrFrozenInsufficient err
      })"

definition releaseUsageBillingBatchImageBalance ::
  "'e driver_scheme \<Rightarrow> BatchImageBalanceHoldCommand \<Rightarrow>
   ('z billing_scheme, goerr + BatchImageBalanceHoldResult) state" where
  "releaseUsageBillingBatchImageBalance env cmd =
     (if f_le (bh_HoldAmount cmd) (Fin 0) then ret (Inr no_hold_result)
      else do {
        held \<leftarrow> batchImageHoldClaimExists (BatchImageHoldRequestID (bh_BatchID cmd)) (bh_APIKeyID cmd);
        chain held (\<lambda>held.
          if \<not> held then ret (Inr no_hold_result)
          else do {
            r \<leftarrow> update_users
                  (\<lambda>u. \<not> u_deleted u \<and> num_le (to_numeric env (bh_HoldAmount cmd)) (u_frozen u))
                  (\<lambda>u. case to_numeric env (bh_HoldAmount cmd) of
                     None \<Rightarrow> Inl sql_overflow
                   | Some h \<Rightarrow> move_money (\<lambda>b. b + h) (\<lambda>f. f - h) u)
                  (bh_UserID cmd);
            case r of
              Inr u \<Rightarrow> ret (Inr (hold_result env u))
            | Inl err \<Rightarrow> no_row_updated (bh_UserID cmd) ErrFrozenInsufficient err
          })
      })"

definition hold_tx ::
  "(BatchImageBalanceHoldCommand \<Rightarrow> ('z billing_scheme, goerr + BatchImageBalanceHoldResult) state) \<Rightarrow>
   BatchImageBalanceHoldCommand \<Rightarrow>
   ('z billing_scheme, goerr + BatchImageBalanceHoldResult \<times> bool) state" where
  "hold_tx app cmd = do {
     applied \<leftarrow> claimUsageBillingRequest (bh_RequestID cmd) (bh_APIKeyID cmd) (bh_RequestFingerprint cmd);
     chain applied (\<lambda>applied.
       if \<not> applied then ret (Inr (no_hold_result, False))
       else do {
         r \<leftarrow> app cmd;
         chain r (\<lambda>result. ret (Inr (result\<lparr>hr_Applied := True\<rparr>, True)))
       })
   }"

definition applyBatchImageBalanceHold ::
  "'e driver_scheme \<Rightarrow>
   (BatchImageBalanceHoldCommand \<Rightarrow> ('z billing_scheme, goerr + BatchImageBalanceHoldResult) state) \<Rightarrow>
   BatchImageBalanceHoldCommand option \<Rightarrow>
   ('z billing_scheme, goerr + BatchImageBalanceHoldResult) state" where
  "applyBatchImageBalanceHold env app cmd0 = (case cmd0 of
      None \<Rightarrow> ret (Inr no_hold_result)
    | Some c \<Rightarrow> let cmd = NormalizeHold env c in
        if bh_RequestID cmd = [] then ret (Inl ErrUsageBillingRequestIDRequired)
        else with_tx (hold_tx app cmd))"

definition ReserveBatchImageBalance where
  "ReserveBatchImageBalance env cmd =
     applyBatchImageBalanceHold env (reserveUsageBillingBatchImageBalance env) cmd"

definition CaptureBatchImageBalance where
  "CaptureBatchImageBalance env cmd =
     applyBatchImageBalanceHold env (captureUsageBillingBatchImageBalance env) cmd"

definition ReleaseBatchImageBalance where
  "ReleaseBatchImageBalance env cmd =
     applyBatchImageBalanceHold env (releaseUsageBillingBatchImageBalance env) cmd"

subsection \<open>Archiving old keys\<close>

text \<open>
  The statement of \<^verbatim>\<open>CleanupUsageBillingDedup\<close> (\<^verbatim>\<open>repository/dashboard_aggregation_repo.go\<close>): the
  rows it picks (old ones, at most a batch) move to the archive.  Which rows are picked is left
  open, so every theorem holds for any retention.
\<close>

definition archive_victims :: "(string \<times> int) list \<Rightarrow> ('z billing_scheme, goerr + unit) state" where
  "archive_victims victims = stmt (\<lambda>w. (Inr (), w\<lparr>
     dedup_archive := (\<lambda>k. if k \<in> set victims \<and> dedup_archive w k = None then dedup w k
                           else dedup_archive w k),
     dedup := (\<lambda>k. if k \<in> set victims then None else dedup w k)\<rparr>))"

subsection \<open>Claims\<close>

definition claimed :: "'z billing_scheme \<Rightarrow> string \<times> int \<Rightarrow> bool" where
  "claimed w k \<longleftrightarrow> dedup w k \<noteq> None \<or> dedup_archive w k \<noteq> None"

text \<open>The tables that hold money or quota, and the outbox.\<close>

definition ledger where
  "ledger w = (users w, subscriptions w, api_keys w, accounts w, scheduler_outbox w)"

definition keeps_claims :: "'z billing_scheme \<Rightarrow> 'z billing_scheme \<Rightarrow> bool" where
  "keeps_claims w w' \<longleftrightarrow> dedup w' = dedup w \<and> dedup_archive w' = dedup_archive w
     \<and> live_groups w' = live_groups w"

lemma keeps_claims_props [simp]:
  "reflp keeps_claims" "transp keeps_claims" "timeless keeps_claims"
  by (auto simp: reflp_def transp_def timeless_def keeps_claims_def)

lemma steps_stmt: "timeless R \<Longrightarrow> reflp R \<Longrightarrow> (\<And>w. R w (snd (f w))) \<Longrightarrow> steps R (stmt f)"
  unfolding stmt_def by (rule steps_io) (simp_all add: steps_def)

lemma steps_update [steps_intro]:
  "steps keeps_claims (update_users p f i)"
  "steps keeps_claims (update_api_keys p' g i)"
  "steps keeps_claims (update_accounts p'' h i)"
  unfolding update_users_def update_api_keys_def update_accounts_def
  by (rule steps_stmt; simp add: keeps_claims_def split: sum.splits prod.splits)+

lemma steps_select [steps_intro]:
  assumes "reflp R" "timeless R"
  shows "steps R (select_dedup r k)" "steps R (select_archive r k)"
  using assms unfolding select_dedup_def select_archive_def
  by (auto intro!: steps_stmt dest: reflpD)

lemmas effect_defs =
  incrementUsageBillingSubscription_def deductUsageBillingBalance_def
  incrementUsageBillingAPIKeyQuota_def incrementUsageBillingAPIKeyRateLimit_def
  incrementUsageBillingAccountQuota_def enqueueAccountChanged_def
  userExistsForBilling_def batchImageHoldClaimExists_def no_row_updated_def

lemma steps_effects [steps_intro]:
  "steps keeps_claims (incrementUsageBillingSubscription env sid c)"
  "steps keeps_claims (deductUsageBillingBalance env uid c)"
  "steps keeps_claims (incrementUsageBillingAPIKeyQuota env kid c)"
  "steps keeps_claims (incrementUsageBillingAPIKeyRateLimit env now kid c)"
  "steps keeps_claims (incrementUsageBillingAccountQuota env now aid c)"
  "steps keeps_claims (userExistsForBilling uid)"
  "steps keeps_claims (batchImageHoldClaimExists rid kid)"
  "steps keeps_claims (no_row_updated uid e1 e2)"
  unfolding effect_defs
  by (auto intro!: steps_intro steps_stmt simp: keeps_claims_def Let_def
      split: sum.splits option.splits)

lemma steps_applyUsageBillingEffects:
  "steps keeps_claims (applyUsageBillingEffects env now cmd res)"
  unfolding applyUsageBillingEffects_def chargeSubscription_def chargeBalance_def chargeQuotas_def
  by (intro steps_intro; simp)

lemma steps_hold_effects:
  "steps keeps_claims (reserveUsageBillingBatchImageBalance env cmd)"
  "steps keeps_claims (captureUsageBillingBatchImageBalance env cmd)"
  "steps keeps_claims (releaseUsageBillingBatchImageBalance env cmd)"
  unfolding reserveUsageBillingBatchImageBalance_def captureUsageBillingBatchImageBalance_def
    releaseUsageBillingBatchImageBalance_def
  by (auto intro!: steps_intro)

lemma stmt_cases:
  assumes "run_state (stmt f) w = (r, w')"
  obtains (not_sent) fs where "r = Inl infra_error" "w' = w\<lparr>faults := fs\<rparr>"
  | (lost) fs where "r = Inl infra_error" "w' = snd (f (w\<lparr>faults := fs\<rparr>))"
  | (answered) fs where "f (w\<lparr>faults := fs\<rparr>) = (r, w')"
  using assms unfolding stmt_def
  by (rule run_io_cases) (auto, metis snd_conv)

lemma stmt_InrE [consumes 1]:
  assumes "run_state (stmt f) w = (Inr x, w')"
  obtains fs where "f (w\<lparr>faults := fs\<rparr>) = (Inr x, w')"
  using assms by (rule stmt_cases) auto

lemma infra_not_no_rows [simp]: "\<not> err_is infra_error sql_no_rows" "infra_error \<noteq> sql_no_rows"
  "\<not> err_is sql_overflow sql_no_rows" "\<not> err_is sql_too_long sql_no_rows"
  by (simp_all add: infra_error_def sql_no_rows_def sql_overflow_def sql_too_long_def)

text \<open>A statement that found no row did not change the tables.\<close>

lemma stmt_no_rowsE:
  assumes "run_state (stmt f) w = (Inl err, w')" "err_is err sql_no_rows"
  obtains fs where "f (w\<lparr>faults := fs\<rparr>) = (Inl err, w')"
  using assms by (auto elim: stmt_cases)

lemma select_InrD:
  "run_state (select_dedup r k) w = (Inr x, w') \<Longrightarrow> dedup w (r, k) = Some x \<and> (\<exists>fs. w' = w\<lparr>faults := fs\<rparr>)"
  "run_state (select_archive r k) w = (Inr x, w') \<Longrightarrow> dedup_archive w (r, k) = Some x"
  unfolding select_dedup_def select_archive_def
  by (auto elim!: stmt_InrE split: option.splits)

lemma select_no_rowsD:
  "run_state (select_dedup r k) w = (Inl err, w') \<Longrightarrow> err_is err sql_no_rows \<Longrightarrow>
     dedup w (r, k) = None \<and> (\<exists>fs. w' = w\<lparr>faults := fs\<rparr>)"
  "run_state (select_archive r k) w = (Inl err, w') \<Longrightarrow> err_is err sql_no_rows \<Longrightarrow>
     dedup_archive w (r, k) = None \<and> (\<exists>fs. w' = w\<lparr>faults := fs\<rparr>)"
  unfolding select_dedup_def select_archive_def
  by (auto elim!: stmt_no_rowsE split: option.splits)

definition claims_key ::
  "string \<times> int \<Rightarrow> string \<Rightarrow> 'z billing_scheme \<Rightarrow> 'z billing_scheme \<Rightarrow> bool" where
  "claims_key k fp w w' \<longleftrightarrow> dedup w' = (dedup w)(k \<mapsto> fp) \<and> dedup_archive w' = dedup_archive w
     \<and> ledger w' = ledger w \<and> live_groups w' = live_groups w \<and> billing.more w' = billing.more w"

lemma claims_key_faults [simp]:
  "claims_key k fp w (w'\<lparr>faults := fs\<rparr>) = claims_key k fp w w'"
  "claims_key k fp (w\<lparr>faults := fs\<rparr>) w' = claims_key k fp w w'"
  "claims_key k fp (w\<lparr>clock := c\<rparr>) w' = claims_key k fp w w'"
  "claims_key k fp (w\<lparr>ticks := ts\<rparr>) w' = claims_key k fp w w'"
  by (simp_all add: claims_key_def ledger_def)

lemma insert_dedup_InrD:
  assumes "run_state (insert_dedup r k fp) w = (Inr x, w')"
  shows "dedup w (r, k) = None \<and> claims_key (r, k) fp w w'"
  using assms unfolding insert_dedup_def
  by (auto simp: claims_key_def ledger_def elim!: stmt_InrE split: if_splits)

text \<open>A successful claim: the key was free in both tables, and the claim is the only change.\<close>

lemma claim_TrueD:
  assumes "run_state (claimUsageBillingRequest r k fp) w = (Inr True, w')"
  shows "\<not> claimed w (r, k) \<and> claims_key (r, k) fp w w'"
  using assms unfolding claimUsageBillingRequest_def
  by (auto simp: claimed_def elim!: run_elims split: sum.splits if_splits
      dest!: insert_dedup_InrD select_no_rowsD) (simp add: claims_key_def)

lemma hold_tx_committedD:
  assumes "run_state (hold_tx app cmd) w = (Inr (x, True), w')"
  obtains w1 res where "\<not> claimed w (bh_RequestID cmd, bh_APIKeyID cmd)"
    "claims_key (bh_RequestID cmd, bh_APIKeyID cmd) (bh_RequestFingerprint cmd) w w1"
    "run_state (app cmd) w1 = (Inr res, w')" "x = res\<lparr>hr_Applied := True\<rparr>"
  using assms unfolding hold_tx_def
  by (auto elim!: run_elims dest!: claim_TrueD) blast

lemma run_time_now_eq:
  assumes "run_state time_now w = (t, w')"
  obtains c ts where "w' = w\<lparr>clock := c, ticks := ts\<rparr>"
proof (cases "ticks w")
  case Nil
  then have "w' = w\<lparr>clock := clock w, ticks := ticks w\<rparr>" using assms by (simp add: time_now_def)
  then show ?thesis by (rule that)
next
  case (Cons d ds)
  then have "w' = w\<lparr>clock := clock w + int d, ticks := ds\<rparr>" using assms by (auto simp: time_now_def)
  then show ?thesis by (rule that)
qed

lemma apply_tx_committedD:
  assumes "run_state (apply_tx env cmd) w = (Inr (x, True), w')"
  obtains w1 now where "\<not> claimed w (ub_RequestID cmd, ub_APIKeyID cmd)"
    "claims_key (ub_RequestID cmd, ub_APIKeyID cmd) (ub_RequestFingerprint cmd) w w1"
    "run_state (applyUsageBillingEffects env now cmd (no_apply_result\<lparr>ar_Applied := True\<rparr>)) w1 = (Inr x, w')"
proof -
  obtain now w1 where t: "run_state time_now w = (now, w1)" by fastforce
  then obtain c ts where w1: "w1 = w\<lparr>clock := c, ticks := ts\<rparr>" by (rule run_time_now_eq)
  from assms t obtain w2 where
    c: "run_state (claimUsageBillingKey cmd) w1 = (Inr True, w2)" and
    e: "run_state (applyUsageBillingEffects env now cmd (no_apply_result\<lparr>ar_Applied := True\<rparr>)) w2 = (Inr x, w')"
    unfolding apply_tx_def by (auto elim!: run_elims)
  from c w1 have "\<not> claimed w (ub_RequestID cmd, ub_APIKeyID cmd)"
    "claims_key (ub_RequestID cmd, ub_APIKeyID cmd) (ub_RequestFingerprint cmd) w w2"
    unfolding claimUsageBillingKey_def by (auto simp: claimed_def dest!: claim_TrueD)
  with e show ?thesis by (intro that)
qed

subsection \<open>At most once\<close>

text \<open>
  The contract of a ledger whose operations are keyed: claims are never lost, an operation on a
  claimed key moves no money, and an operation that moves money claims its key.
\<close>

fun effects :: "('o \<Rightarrow> 'w \<Rightarrow> 'w) \<Rightarrow> ('o \<Rightarrow> 'k option) \<Rightarrow> ('w \<Rightarrow> 'm) \<Rightarrow> 'k \<Rightarrow> 'w \<Rightarrow> 'o list \<Rightarrow> nat" where
  "effects exec key money k w [] = 0"
| "effects exec key money k w (op # ops) =
     (if key op = Some k \<and> money (exec op w) \<noteq> money w then 1 else 0)
     + effects exec key money k (exec op w) ops"

locale keyed_ledger =
  fixes is_claimed :: "'w \<Rightarrow> 'k \<Rightarrow> bool"
    and exec :: "'o \<Rightarrow> 'w \<Rightarrow> 'w"
    and key :: "'o \<Rightarrow> 'k option"
    and money :: "'w \<Rightarrow> 'm"
  assumes claims_persist: "is_claimed w k \<Longrightarrow> is_claimed (exec op w) k"
    and claimed_moves_nothing: "key op = Some k \<Longrightarrow> is_claimed w k \<Longrightarrow> money (exec op w) = money w"
    and moving_claims: "money (exec op w) \<noteq> money w \<Longrightarrow> \<exists>k. key op = Some k \<and> is_claimed (exec op w) k"
begin

lemma claimed_effects_0: "is_claimed w k \<Longrightarrow> effects exec key money k w ops = 0"
  by (induction ops arbitrary: w) (auto simp: claimed_moves_nothing claims_persist)

lemma effects_le_1: "effects exec key money k w ops \<le> 1"
proof (induction ops arbitrary: w)
  case (Cons op ops)
  show ?case
  proof (cases "key op = Some k \<and> money (exec op w) \<noteq> money w")
    case True
    with moving_claims [of op w] have "is_claimed (exec op w) k" by auto
    with claimed_effects_0 True show ?thesis by simp
  qed (use Cons in auto)
qed simp

lemma claimed_fold: "is_claimed w k \<Longrightarrow> is_claimed (fold exec ops w) k"
  by (induction ops arbitrary: w) (auto simp: claims_persist)

end

datatype billing_op =
    OpApply UsageBillingCommand
  | OpReserve BatchImageBalanceHoldCommand
  | OpCapture BatchImageBalanceHoldCommand
  | OpRelease BatchImageBalanceHoldCommand
  | OpArchive "(string \<times> int) list"

definition hold_key :: "BatchImageBalanceHoldCommand \<Rightarrow> string \<times> int" where
  "hold_key c = (trim_space (bh_RequestID c), bh_APIKeyID c)"

fun op_key :: "billing_op \<Rightarrow> (string \<times> int) option" where
  "op_key (OpApply c) = Some (trim_space (ub_RequestID c), ub_APIKeyID c)"
| "op_key (OpReserve c) = Some (hold_key c)"
| "op_key (OpCapture c) = Some (hold_key c)"
| "op_key (OpRelease c) = Some (hold_key c)"
| "op_key (OpArchive ks) = None"

fun exec_op :: "'e driver_scheme \<Rightarrow> billing_op \<Rightarrow> 'z billing_scheme \<Rightarrow> 'z billing_scheme" where
  "exec_op env (OpApply c) w = snd (run_state (Apply env (Some c)) w)"
| "exec_op env (OpReserve c) w = snd (run_state (ReserveBatchImageBalance env (Some c)) w)"
| "exec_op env (OpCapture c) w = snd (run_state (CaptureBatchImageBalance env (Some c)) w)"
| "exec_op env (OpRelease c) w = snd (run_state (ReleaseBatchImageBalance env (Some c)) w)"
| "exec_op env (OpArchive ks) w = snd (run_state (archive_victims ks) w)"

lemma Normalize_key [simp]:
  "ub_RequestID (Normalize env c) = trim_space (ub_RequestID c)"
  "ub_APIKeyID (Normalize env c) = ub_APIKeyID c"
  "bh_RequestID (NormalizeHold env h) = trim_space (bh_RequestID h)"
  "bh_APIKeyID (NormalizeHold env h) = bh_APIKeyID h"
  by (simp_all add: Normalize_def NormalizeHold_def Let_def)

text \<open>The three ways in which an operation with key \<open>k\<close> leaves the tables.\<close>

definition unchanged_or_claims :: "string \<times> int \<Rightarrow> 'z billing_scheme \<Rightarrow> 'z billing_scheme \<Rightarrow> bool" where
  "unchanged_or_claims k w w' \<longleftrightarrow>
     same_db w w' \<or> \<not> claimed w k \<and> claimed w' k \<and> (\<forall>k'. claimed w k' \<longrightarrow> claimed w' k')"

lemma same_db_fields:
  assumes "same_db w w'"
  shows "ledger w' = ledger w" "dedup w' = dedup w" "dedup_archive w' = dedup_archive w"
    "live_groups w' = live_groups w" "claimed w' k = claimed w k" "users w' = users w"
    "billing.more w' = billing.more w"
proof -
  from assms have w': "w' = w\<lparr>faults := faults w', clock := clock w', ticks := ticks w'\<rparr>"
    by (elim same_dbE)
  have "ledger x = ledger w \<and> dedup x = dedup w \<and> dedup_archive x = dedup_archive w
    \<and> live_groups x = live_groups w \<and> users x = users w \<and> billing.more x = billing.more w"
    if "x = w\<lparr>faults := f, clock := c, ticks := t\<rparr>" for x f c t
    using that by (simp add: ledger_def)
  from this [OF w'] have "ledger w' = ledger w \<and> dedup w' = dedup w \<and> dedup_archive w' = dedup_archive w
    \<and> live_groups w' = live_groups w \<and> users w' = users w \<and> billing.more w' = billing.more w" .
  then show "ledger w' = ledger w" "dedup w' = dedup w" "dedup_archive w' = dedup_archive w"
    "live_groups w' = live_groups w" "claimed w' k = claimed w k" "users w' = users w"
    "billing.more w' = billing.more w"
    by (simp_all add: claimed_def)
qed

lemma unchanged_or_claims_commit:
  assumes "\<not> claimed w k" "claims_key k fp w w1" "keeps_claims w1 w2"
  shows "unchanged_or_claims k w (w2\<lparr>faults := fs\<rparr>)"
  using assms by (auto simp: unchanged_or_claims_def claims_key_def keeps_claims_def claimed_def)

lemma unchanged_or_claims_refl: "same_db w w' \<Longrightarrow> unchanged_or_claims k w w'"
  by (simp add: unchanged_or_claims_def)

lemma hold_unchanged_or_claims:
  assumes "\<And>c. steps keeps_claims (app c)"
  shows "unchanged_or_claims (hold_key c) w (snd (run_state (applyBatchImageBalanceHold env app (Some c)) w))"
proof -
  let ?c = "NormalizeHold env c"
  obtain r w' where run: "run_state (with_tx (hold_tx app ?c)) w = (r, w')" by fastforce
  have "unchanged_or_claims (hold_key c) w w'"
    using run
  proof (cases rule: with_tx_cases)
    case rolled_back
    then show ?thesis by (simp add: unchanged_or_claims_refl)
  next
    case (committed fs w2 x fs')
    then show ?thesis
      using assms [of ?c]
      by (auto elim!: hold_tx_committedD intro!: unchanged_or_claims_commit dest!: stepsD
          simp: hold_key_def claimed_def)
  qed
  with run show ?thesis
    by (auto simp: applyBatchImageBalanceHold_def Let_def unchanged_or_claims_refl)
qed

lemma apply_unchanged_or_claims:
  "unchanged_or_claims (trim_space (ub_RequestID c), ub_APIKeyID c) w
     (snd (run_state (Apply env (Some c)) w))"
proof -
  let ?c = "Normalize env c"
  obtain r w' where run: "run_state (with_tx (apply_tx env ?c)) w = (r, w')" by fastforce
  have "unchanged_or_claims (trim_space (ub_RequestID c), ub_APIKeyID c) w w'"
    using run
  proof (cases rule: with_tx_cases)
    case rolled_back
    then show ?thesis by (simp add: unchanged_or_claims_refl)
  next
    case (committed fs w2 x fs')
    then show ?thesis
      by (auto elim!: apply_tx_committedD intro!: unchanged_or_claims_commit
          dest!: stepsD [OF steps_applyUsageBillingEffects] simp: claimed_def)
  qed
  with run show ?thesis
    by (auto simp: Apply_def Let_def unchanged_or_claims_refl)
qed

lemma exec_unchanged_or_claims:
  "op_key op = Some k \<Longrightarrow> unchanged_or_claims k w (exec_op env op w)"
  by (cases op)
     (auto simp: apply_unchanged_or_claims hold_unchanged_or_claims steps_hold_effects
       ReserveBatchImageBalance_def CaptureBatchImageBalance_def ReleaseBatchImageBalance_def)

lemma archive_keeps:
  "ledger (snd (run_state (archive_victims ks) w)) = ledger w"
  "claimed (snd (run_state (archive_victims ks) w)) k = claimed w k"
proof -
  obtain r w' where run: "run_state (archive_victims ks) w = (r, w')" by fastforce
  then have "ledger w' = ledger w \<and> claimed w' k = claimed w k"
    unfolding archive_victims_def
    by (cases rule: stmt_cases) (auto simp: ledger_def claimed_def split: if_splits)
  with run show "ledger (snd (run_state (archive_victims ks) w)) = ledger w"
    "claimed (snd (run_state (archive_victims ks) w)) k = claimed w k" by simp_all
qed

interpretation billing_ledger: keyed_ledger claimed "exec_op env" op_key ledger
proof unfold_locales
  fix w :: "'a billing_scheme" and k op
  assume "claimed w k"
  then show "claimed (exec_op env op w) k"
    using exec_unchanged_or_claims [of op _ w env]
    by (cases op; cases k) (auto simp: archive_keeps unchanged_or_claims_def same_db_fields)
next
  fix op k and w :: "'a billing_scheme"
  assume "op_key op = Some k" "claimed w k"
  then show "ledger (exec_op env op w) = ledger w"
    using exec_unchanged_or_claims [of op k w env] by (auto simp: unchanged_or_claims_def same_db_fields)
next
  fix op and w :: "'a billing_scheme"
  assume ne: "ledger (exec_op env op w) \<noteq> ledger w"
  then obtain k where "op_key op = Some k"
    by (cases op) (auto simp: archive_keeps)
  with ne exec_unchanged_or_claims [of op k w env]
  show "\<exists>k. op_key op = Some k \<and> claimed (exec_op env op w) k"
    by (auto simp: unchanged_or_claims_def same_db_fields)
qed

subsection \<open>The wallet of a user\<close>

text \<open>
  The abstract wallet: an available and a frozen amount, and the events that move money.  A hold
  moves money from available to frozen only when it is covered, a capture takes the actual cost and
  returns the rest of the hold, a release returns the hold, and a usage charge may overdraw.
\<close>

datatype wallet_event = WReserve rat | WCapture rat rat | WRelease rat | WCharge rat

inductive wallet_step :: "wallet_event \<Rightarrow> rat \<times> rat \<Rightarrow> rat \<times> rat \<Rightarrow> bool" where
  reserve: "h \<le> b \<Longrightarrow> wallet_step (WReserve h) (b, f) (b - h, f + h)"
| capture: "h \<le> f \<Longrightarrow> wallet_step (WCapture h a) (b, f) (b + h - a, f - h)"
| release: "h \<le> f \<Longrightarrow> wallet_step (WRelease h) (b, f) (b + h, f - h)"
| charge: "wallet_step (WCharge c) (b, f) (b - c, f)"

inductive_cases wallet_reserveE: "wallet_step (WReserve h) p q"
inductive_cases wallet_captureE: "wallet_step (WCapture h a) p q"
inductive_cases wallet_releaseE: "wallet_step (WRelease h) p q"
inductive_cases wallet_chargeE: "wallet_step (WCharge c) p q"

lemmas wallet_elims = wallet_reserveE wallet_captureE wallet_releaseE wallet_chargeE

definition purse :: "user_row \<Rightarrow> rat \<times> rat" where
  "purse u = (u_balance u, u_frozen u)"

fun op_user :: "billing_op \<Rightarrow> int" where
  "op_user (OpApply c) = ub_UserID c"
| "op_user (OpReserve c) = bh_UserID c"
| "op_user (OpCapture c) = bh_UserID c"
| "op_user (OpRelease c) = bh_UserID c"
| "op_user (OpArchive ks) = 0"

fun op_event :: "'e driver_scheme \<Rightarrow> billing_op \<Rightarrow> wallet_event option" where
  "op_event env (OpApply c) = map_option WCharge (to_numeric env (ub_BalanceCost c))"
| "op_event env (OpReserve c) = map_option WReserve (to_numeric env (bh_HoldAmount c))"
| "op_event env (OpCapture c) =
     (case (to_numeric env (bh_HoldAmount c), to_numeric env (bh_ActualAmount c)) of
        (Some h, Some a) \<Rightarrow> Some (WCapture h a) | _ \<Rightarrow> None)"
| "op_event env (OpRelease c) = map_option WRelease (to_numeric env (bh_HoldAmount c))"
| "op_event env (OpArchive ks) = None"

fun event_on_grid :: "wallet_event \<Rightarrow> bool" where
  "event_on_grid (WReserve h) = on_grid 8 h"
| "event_on_grid (WCapture h a) = (on_grid 8 h \<and> on_grid 8 a)"
| "event_on_grid (WRelease h) = on_grid 8 h"
| "event_on_grid (WCharge c) = on_grid 8 c"

definition grid_users :: "'z billing_scheme \<Rightarrow> bool" where
  "grid_users w \<longleftrightarrow> (\<forall>i u. users w i = Some u \<longrightarrow> on_grid 8 (u_balance u) \<and> on_grid 8 (u_frozen u))"

text \<open>What a statement on the users table can do: update one row, or leave the table alone.\<close>

lemma update_users_InrD:
  assumes "run_state (update_users p f i) w = (Inr u', w')"
  obtains u where "users w i = Some u" "p u" "f u = Inr u'" "users w' = (users w)(i \<mapsto> u')"
  using assms unfolding update_users_def
  by (auto elim!: stmt_InrE simp: update_row_def split: option.splits if_splits sum.splits)

lemma update_users_no_rowsD:
  assumes "run_state (update_users p f i) w = (Inl err, w')" "err_is err sql_no_rows"
  shows "users w' = users w"
  using assms unfolding update_users_def
  by (auto elim!: stmt_no_rowsE split: option.splits if_splits sum.splits)

definition keeps_users :: "'z billing_scheme \<Rightarrow> 'z billing_scheme \<Rightarrow> bool" where
  "keeps_users w w' \<longleftrightarrow> users w' = users w"

lemma keeps_users_props [simp]: "reflp keeps_users" "transp keeps_users" "timeless keeps_users"
  by (auto simp: reflp_def transp_def timeless_def keeps_users_def)

lemma steps_keep_users [steps_intro]:
  "steps keeps_users (update_api_keys p' g i)"
  "steps keeps_users (update_accounts p'' h i)"
  "steps keeps_users (enqueueAccountChanged env aid)"
  unfolding update_api_keys_def update_accounts_def enqueueAccountChanged_def
  by (rule steps_stmt; simp add: keeps_users_def Let_def split: sum.splits prod.splits)+

lemma steps_keep_users_effects [steps_intro]:
  "steps keeps_users (incrementUsageBillingSubscription env sid c)"
  "steps keeps_users (incrementUsageBillingAPIKeyQuota env kid c)"
  "steps keeps_users (incrementUsageBillingAPIKeyRateLimit env now kid c)"
  "steps keeps_users (incrementUsageBillingAccountQuota env now aid c)"
  "steps keeps_users (userExistsForBilling uid)"
  "steps keeps_users (batchImageHoldClaimExists rid kid)"
  "steps keeps_users (no_row_updated uid e1 e2)"
  unfolding incrementUsageBillingSubscription_def incrementUsageBillingAPIKeyQuota_def
    incrementUsageBillingAPIKeyRateLimit_def incrementUsageBillingAccountQuota_def
    userExistsForBilling_def batchImageHoldClaimExists_def no_row_updated_def
  by (auto intro!: steps_intro steps_stmt simp: keeps_users_def Let_def
      split: sum.splits option.splits)

lemma no_row_updated_not_Inr: "run_state (no_row_updated uid e1 e2) w = (Inr r, w') \<Longrightarrow> False"
  unfolding no_row_updated_def by (auto elim!: run_elims split: sum.splits if_splits)

text \<open>\<open>row_moves g w w'\<close>: at most one row of the users table changed, as \<open>g\<close> says.\<close>

definition row_moves :: "int \<Rightarrow> (user_row \<Rightarrow> user_row \<Rightarrow> bool) \<Rightarrow> 'z billing_scheme \<Rightarrow> 'z billing_scheme \<Rightarrow> bool" where
  "row_moves i g w w' \<longleftrightarrow> users w' = users w
     \<or> (\<exists>u u'. users w i = Some u \<and> g u u' \<and> users w' = (users w)(i \<mapsto> u'))"

lemma row_moves_keeps: "keeps_users w w' \<Longrightarrow> row_moves i g w w'"
  by (simp add: row_moves_def keeps_users_def)

lemma row_moves_keeps_left: "keeps_users w w1 \<Longrightarrow> row_moves i g w1 w' \<Longrightarrow> row_moves i g w w'"
  by (simp add: row_moves_def keeps_users_def)

lemma row_moves_keeps_right: "row_moves i g w w1 \<Longrightarrow> keeps_users w1 w' \<Longrightarrow> row_moves i g w w'"
  by (auto simp: row_moves_def keeps_users_def)

definition moves_money :: "(rat \<Rightarrow> rat) \<Rightarrow> (rat \<Rightarrow> rat) \<Rightarrow> user_row \<Rightarrow> user_row \<Rightarrow> bool" where
  "moves_money f g u u' \<longleftrightarrow> u_balance u' = dec_round 8 (f (u_balance u))
     \<and> u_frozen u' = dec_round 8 (g (u_frozen u)) \<and> u_deleted u' = u_deleted u"

lemma move_money_InrD: "move_money f g u = Inr u' \<Longrightarrow> moves_money f g u u'"
  by (auto simp: move_money_def moves_money_def split: sum.splits dest!: store_dec_InrD)

lemma reserve_moves:
  assumes "run_state (reserveUsageBillingBatchImageBalance env c) w = (Inr r, w')"
  shows "row_moves (bh_UserID c) (\<lambda>u u'. \<exists>h. to_numeric env (bh_HoldAmount c) = Some h
    \<and> \<not> f_le (bh_HoldAmount c) (Fin 0) \<and> h \<le> u_balance u \<and> moves_money (\<lambda>b. b - h) (\<lambda>f. f + h) u u') w w'"
  using assms unfolding reserveUsageBillingBatchImageBalance_def
  by (auto elim!: run_elims update_users_InrD dest!: move_money_InrD no_row_updated_not_Inr
      simp: row_moves_def num_le_def split: option.splits)

lemma capture_moves:
  assumes "run_state (captureUsageBillingBatchImageBalance env c) w = (Inr r, w')"
  shows "row_moves (bh_UserID c) (\<lambda>u u'. \<exists>h a. to_numeric env (bh_HoldAmount c) = Some h
    \<and> to_numeric env (bh_ActualAmount c) = Some a \<and> h \<le> u_frozen u
    \<and> moves_money (\<lambda>b. b + h - a) (\<lambda>f. f - h) u u') w w'"
proof -
  have eq: "(\<lambda>b. b + (if a < h then h - a else 0) - (if h < a then a - h else 0)) = (\<lambda>b. b + h - a)"
    for a h :: rat by auto
  show ?thesis
    using assms unfolding captureUsageBillingBatchImageBalance_def eq
    by (auto elim!: run_elims update_users_InrD dest!: move_money_InrD no_row_updated_not_Inr
        simp: row_moves_def num_le_def split: option.splits)
qed

lemma release_moves:
  assumes "run_state (releaseUsageBillingBatchImageBalance env c) w = (Inr r, w')"
  shows "row_moves (bh_UserID c) (\<lambda>u u'. \<exists>h. to_numeric env (bh_HoldAmount c) = Some h
    \<and> h \<le> u_frozen u \<and> moves_money (\<lambda>b. b + h) (\<lambda>f. f - h) u u') w w'"
proof -
  have held: "keeps_users w w1"
    if "run_state (batchImageHoldClaimExists rid kid) w = (x, w1)" for rid kid x w1
    using that steps_keep_users_effects(6) by (blast dest: stepsD)
  show ?thesis
    using assms unfolding releaseUsageBillingBatchImageBalance_def
    by (auto elim!: run_elims update_users_InrD dest!: move_money_InrD no_row_updated_not_Inr held
        simp: row_moves_def num_le_def keeps_users_def split: option.splits)
qed

lemma deduct_moves:
  assumes "run_state (deductUsageBillingBalance env uid c) w = (Inr r, w')"
  shows "row_moves uid (\<lambda>u u'. \<exists>a. to_numeric env c = Some a
    \<and> u' = u\<lparr>u_balance := dec_round 8 (u_balance u - a)\<rparr>) w w'"
proof -
  have f: "\<exists>a. to_numeric env c = Some a \<and> u' = u\<lparr>u_balance := dec_round 8 (u_balance u - a)\<rparr>"
    if "deduct_balance env c u = Inr u'" for u u'
    using that by (auto simp: deduct_balance_def num_minus_def split: sum.splits option.splits
        dest!: store_dec_InrD)
  show ?thesis
    using assms unfolding deductUsageBillingBalance_def
    by (auto elim!: run_elims update_users_InrD dest!: f update_users_no_rowsD
        simp: row_moves_def split: sum.splits if_splits)
qed

lemma steps_charges:
  "steps keeps_users (chargeSubscription env c)" "steps keeps_users (chargeQuotas env now c res)"
  unfolding chargeSubscription_def chargeQuotas_def by (intro steps_intro; simp)+

lemma chargeBalance_moves:
  assumes "run_state (chargeBalance env c res) w = (Inr r, w')"
  shows "row_moves (ub_UserID c) (\<lambda>u u'. \<exists>a. to_numeric env (ub_BalanceCost c) = Some a
    \<and> u' = u\<lparr>u_balance := dec_round 8 (u_balance u - a)\<rparr>) w w'"
  using assms unfolding chargeBalance_def
  by (auto elim!: run_elims dest!: deduct_moves simp: row_moves_keeps keeps_users_def)

lemma apply_effects_moves:
  assumes run: "run_state (applyUsageBillingEffects env now c res) w = (Inr r, w')"
  shows "row_moves (ub_UserID c) (\<lambda>u u'. \<exists>a. to_numeric env (ub_BalanceCost c) = Some a
    \<and> u' = u\<lparr>u_balance := dec_round 8 (u_balance u - a)\<rparr>) w w'"
proof -
  from run obtain x1 w1 x2 w2 where
    "run_state (chargeSubscription env c) w = (x1, w1)"
    "run_state (chargeBalance env c res) w1 = (Inr x2, w2)"
    "run_state (chargeQuotas env now c x2) w2 = (Inr r, w')"
    unfolding applyUsageBillingEffects_def by (auto elim!: run_elims)
  then show ?thesis
    by (blast dest: stepsD [OF steps_charges(1)] stepsD [OF steps_charges(2)] chargeBalance_moves
        intro: row_moves_keeps_left row_moves_keeps_right)
qed

text \<open>Every billing operation, with every answer and every fault: how it may change a user's row.\<close>

fun op_moves :: "'e driver_scheme \<Rightarrow> billing_op \<Rightarrow> user_row \<Rightarrow> user_row \<Rightarrow> bool" where
  "op_moves env (OpApply c) u u' = (\<exists>a. to_numeric env (ub_BalanceCost c) = Some a
     \<and> u' = u\<lparr>u_balance := dec_round 8 (u_balance u - a)\<rparr>)"
| "op_moves env (OpReserve c) u u' = (\<exists>h. to_numeric env (bh_HoldAmount c) = Some h
     \<and> \<not> f_le (bh_HoldAmount c) (Fin 0) \<and> h \<le> u_balance u \<and> moves_money (\<lambda>b. b - h) (\<lambda>f. f + h) u u')"
| "op_moves env (OpCapture c) u u' = (\<exists>h a. to_numeric env (bh_HoldAmount c) = Some h
     \<and> to_numeric env (bh_ActualAmount c) = Some a \<and> h \<le> u_frozen u
     \<and> moves_money (\<lambda>b. b + h - a) (\<lambda>f. f - h) u u')"
| "op_moves env (OpRelease c) u u' = (\<exists>h. to_numeric env (bh_HoldAmount c) = Some h
     \<and> h \<le> u_frozen u \<and> moves_money (\<lambda>b. b + h) (\<lambda>f. f - h) u u')"
| "op_moves env (OpArchive ks) u u' = False"

lemma op_moves_eqs:
  "op_moves env (OpApply c) = (\<lambda>u u'. \<exists>a. to_numeric env (ub_BalanceCost c) = Some a
     \<and> u' = u\<lparr>u_balance := dec_round 8 (u_balance u - a)\<rparr>)"
  "op_moves env (OpReserve h) = (\<lambda>u u'. \<exists>x. to_numeric env (bh_HoldAmount h) = Some x
     \<and> \<not> f_le (bh_HoldAmount h) (Fin 0) \<and> x \<le> u_balance u \<and> moves_money (\<lambda>b. b - x) (\<lambda>f. f + x) u u')"
  "op_moves env (OpCapture h) = (\<lambda>u u'. \<exists>x a. to_numeric env (bh_HoldAmount h) = Some x
     \<and> to_numeric env (bh_ActualAmount h) = Some a \<and> x \<le> u_frozen u
     \<and> moves_money (\<lambda>b. b + x - a) (\<lambda>f. f - x) u u')"
  "op_moves env (OpRelease h) = (\<lambda>u u'. \<exists>x. to_numeric env (bh_HoldAmount h) = Some x
     \<and> x \<le> u_frozen u \<and> moves_money (\<lambda>b. b + x) (\<lambda>f. f - x) u u')"
  by (intro ext; simp)+

lemma NormalizeHold_simps [simp]:
  "bh_UserID (NormalizeHold env c) = bh_UserID c"
  "bh_HoldAmount (NormalizeHold env c) = bh_HoldAmount c"
  "bh_ActualAmount (NormalizeHold env c) = bh_ActualAmount c"
  "ub_UserID (Normalize env d) = ub_UserID d"
  "ub_BalanceCost (Normalize env d) = ub_BalanceCost d"
  by (simp_all add: NormalizeHold_def Normalize_def Let_def)

lemma row_moves_same_db: "same_db w w' \<Longrightarrow> row_moves i g w w'"
  by (simp add: row_moves_def same_db_fields)

lemma claims_key_users: "claims_key k fp w w' \<Longrightarrow> keeps_users w w'"
  by (simp add: claims_key_def keeps_users_def ledger_def)

lemma hold_row_moves:
  assumes app: "\<And>c w r w'. run_state (app c) w = (Inr r, w') \<Longrightarrow> row_moves (bh_UserID c) (g c) w w'"
    and g: "g (NormalizeHold env c) = g c"
  shows "row_moves (bh_UserID c) (g c) w (snd (run_state (applyBatchImageBalanceHold env app (Some c)) w))"
proof -
  let ?c = "NormalizeHold env c"
  obtain r w' where run: "run_state (with_tx (hold_tx app ?c)) w = (r, w')" by fastforce
  have "row_moves (bh_UserID c) (g c) w w'"
    using run
  proof (cases rule: with_tx_cases)
    case rolled_back
    then show ?thesis by (simp add: row_moves_same_db)
  next
    case (committed fs w2 x fs')
    from committed(1) obtain w1 res where "keeps_users (w\<lparr>faults := fs\<rparr>) w1"
      "run_state (app ?c) w1 = (Inr res, w2)"
      by (auto elim!: hold_tx_committedD dest!: claims_key_users)
    with app [of ?c w1 res w2] g have "row_moves (bh_UserID c) (g c) (w\<lparr>faults := fs\<rparr>) w2"
      by (auto intro: row_moves_keeps_left)
    with committed(2) show ?thesis by (simp add: row_moves_def)
  qed
  with run show ?thesis
    by (auto simp: applyBatchImageBalanceHold_def Let_def row_moves_same_db)
qed

lemma apply_row_moves:
  "row_moves (ub_UserID c) (op_moves env (OpApply c)) w (snd (run_state (Apply env (Some c)) w))"
proof -
  let ?c = "Normalize env c"
  obtain r w' where run: "run_state (with_tx (apply_tx env ?c)) w = (r, w')" by fastforce
  have "row_moves (ub_UserID c) (op_moves env (OpApply c)) w w'"
    using run
  proof (cases rule: with_tx_cases)
    case rolled_back
    then show ?thesis by (simp add: row_moves_same_db)
  next
    case (committed fs w2 x fs')
    from committed(1) obtain w1 now where "keeps_users (w\<lparr>faults := fs\<rparr>) w1"
      "run_state (applyUsageBillingEffects env now ?c (no_apply_result\<lparr>ar_Applied := True\<rparr>)) w1 = (Inr x, w2)"
      by (auto elim!: apply_tx_committedD dest!: claims_key_users)
    then have "row_moves (ub_UserID c) (op_moves env (OpApply c)) (w\<lparr>faults := fs\<rparr>) w2"
      unfolding op_moves_eqs by (auto dest!: apply_effects_moves intro: row_moves_keeps_left)
    with committed(2) show ?thesis by (simp add: row_moves_def)
  qed
  with run show ?thesis by (auto simp: Apply_def Let_def row_moves_same_db)
qed

lemma exec_row_moves: "row_moves (op_user op) (op_moves env op) w (exec_op env op w)"
proof (cases op)
  case (OpReserve c)
  then show ?thesis
    using hold_row_moves [of "reserveUsageBillingBatchImageBalance env" "\<lambda>c. op_moves env (OpReserve c)",
        OF reserve_moves [folded op_moves_eqs]] by (simp add: ReserveBatchImageBalance_def op_moves_eqs)
next
  case (OpCapture c)
  then show ?thesis
    using hold_row_moves [of "captureUsageBillingBatchImageBalance env" "\<lambda>c. op_moves env (OpCapture c)",
        OF capture_moves [folded op_moves_eqs]] by (simp add: CaptureBatchImageBalance_def op_moves_eqs)
next
  case (OpRelease c)
  then show ?thesis
    using hold_row_moves [of "releaseUsageBillingBatchImageBalance env" "\<lambda>c. op_moves env (OpRelease c)",
        OF release_moves [folded op_moves_eqs]] by (simp add: ReleaseBatchImageBalance_def op_moves_eqs)
next
  case (OpArchive ks)
  then show ?thesis using archive_keeps(1) [of ks w] by (simp add: row_moves_def ledger_def)
qed (use apply_row_moves in simp)

subsection \<open>What the driver is relied on for\<close>

text \<open>
  \<^verbatim>\<open>lib/pq\<close> sends a float64 as its shortest decimal text, which keeps the sign; a NaN has no
  finite NUMERIC value.
\<close>

definition numeric_sign :: "'e driver_scheme \<Rightarrow> bool" where
  "numeric_sign env \<longleftrightarrow>
     (\<forall>x q. to_numeric env x = Some q \<longrightarrow> \<not> f_le x (Fin 0) \<longrightarrow> 0 \<le> q)"

definition solvent :: "'z billing_scheme \<Rightarrow> bool" where
  "solvent w \<longleftrightarrow> (\<forall>i u. users w i = Some u \<longrightarrow> 0 \<le> u_frozen u)"

lemma solvent_exec_op:
  assumes "numeric_sign env" "solvent w"
  shows "solvent (exec_op env op w)"
proof -
  have "0 \<le> u_frozen u'" if "op_moves env op u u'" "0 \<le> u_frozen u" for u u'
    using that assms(1)
    by (cases op) (auto simp: moves_money_def numeric_sign_def intro!: dec_round_nonneg)
  with exec_row_moves [of op env w] assms(2) show ?thesis
    by (auto simp: row_moves_def solvent_def split: if_splits)
qed

lemma moves_money_grid:
  "moves_money f g u u' \<Longrightarrow> on_grid 8 (f (u_balance u)) \<Longrightarrow> on_grid 8 (g (u_frozen u)) \<Longrightarrow>
   purse u' = (f (u_balance u), g (u_frozen u))"
  by (simp add: moves_money_def purse_def on_grid_def)

text \<open>On amounts with at most eight decimals, a change of a row is a step of the wallet.\<close>

lemma op_moves_wallet_step:
  assumes "op_moves env op u u'" "on_grid 8 (u_balance u)" "on_grid 8 (u_frozen u)"
    and "\<And>ev. op_event env op = Some ev \<Longrightarrow> event_on_grid ev"
  shows "\<exists>ev. op_event env op = Some ev \<and> wallet_step ev (purse u) (purse u')"
proof (cases op)
  case (OpApply c)
  with assms obtain a where "to_numeric env (ub_BalanceCost c) = Some a" "on_grid 8 a"
    "u' = u\<lparr>u_balance := dec_round 8 (u_balance u - a)\<rparr>" by auto
  then show ?thesis
    using OpApply assms(2) on_grid_diff [of 8 "u_balance u" a]
    by (auto simp: purse_def on_grid_def [of 8 "_ - _"] intro: wallet_step.charge)
next
  case (OpReserve c)
  with assms obtain h where h: "to_numeric env (bh_HoldAmount c) = Some h" "on_grid 8 h"
    "h \<le> u_balance u" "moves_money (\<lambda>b. b - h) (\<lambda>f. f + h) u u'" by auto
  then have "purse u' = (u_balance u - h, u_frozen u + h)"
    using assms(2,3) by (auto dest!: moves_money_grid simp: on_grid_add on_grid_diff)
  with h OpReserve show ?thesis by (auto simp: purse_def intro: wallet_step.reserve)
next
  case (OpCapture c)
  with assms obtain h a where h: "to_numeric env (bh_HoldAmount c) = Some h" "on_grid 8 h"
    "to_numeric env (bh_ActualAmount c) = Some a" "on_grid 8 a"
    "h \<le> u_frozen u" "moves_money (\<lambda>b. b + h - a) (\<lambda>f. f - h) u u'" by auto
  then have "purse u' = (u_balance u + h - a, u_frozen u - h)"
    using assms(2,3) by (auto dest!: moves_money_grid simp: on_grid_add on_grid_diff)
  with h OpCapture show ?thesis by (auto simp: purse_def intro: wallet_step.capture)
next
  case (OpRelease c)
  with assms obtain h where h: "to_numeric env (bh_HoldAmount c) = Some h" "on_grid 8 h"
    "h \<le> u_frozen u" "moves_money (\<lambda>b. b + h) (\<lambda>f. f - h) u u'" by auto
  then have "purse u' = (u_balance u + h, u_frozen u - h)"
    using assms(2,3) by (auto dest!: moves_money_grid simp: on_grid_add on_grid_diff)
  with h OpRelease show ?thesis by (auto simp: purse_def intro: wallet_step.release)
qed (use assms in simp)

lemma exec_wallet_step:
  assumes "grid_users w" "users w i = Some u" "users (exec_op env op w) i = Some u'"
    and "\<And>ev. op_event env op = Some ev \<Longrightarrow> event_on_grid ev"
  shows "u' = u \<or> i = op_user op \<and> (\<exists>ev. op_event env op = Some ev \<and> wallet_step ev (purse u) (purse u'))"
proof -
  from exec_row_moves [of op env w] consider "users (exec_op env op w) = users w"
    | v v' where "users w (op_user op) = Some v" "op_moves env op v v'"
        "users (exec_op env op w) = (users w)(op_user op \<mapsto> v')"
    by (auto simp: row_moves_def)
  then show ?thesis
  proof cases
    case 1
    with assms show ?thesis by simp
  next
    case (2 v v')
    then show ?thesis
    proof (cases "i = op_user op")
      case True
      with 2 assms have "v = u" "v' = u'" by simp_all
      moreover from this have "on_grid 8 (u_balance u)" "on_grid 8 (u_frozen u)"
        using assms(1,2) by (auto simp: grid_users_def)
      ultimately show ?thesis using op_moves_wallet_step 2 assms(4) True by blast
    qed (use 2 assms in simp)
  qed
qed

subsection \<open>Runs without faults\<close>

lemma run_stmt_ok: "faults w = [] \<Longrightarrow> run_state (stmt f) w = f w"
  by (simp add: stmt_def)

text \<open>\<open>calm w\<close>: every call is answered and no time passes.\<close>

definition calm :: "'z world_scheme \<Rightarrow> bool" where
  "calm w \<longleftrightarrow> faults w = [] \<and> ticks w = []"

lemma calmD [simp]: "calm w \<Longrightarrow> faults w = []" "calm w \<Longrightarrow> ticks w = []"
  by (simp_all add: calm_def)

lemma run_time_now_calm [simp]: "calm w \<Longrightarrow> run_state time_now w = (clock w, w)"
  by (simp add: time_now_def)

lemma with_tx_calm: "calm w \<Longrightarrow> run_state (with_tx body) w = (case run_state body w of
      (Inl e, w') \<Rightarrow> (Inl e, rollback w w')
    | (Inr (x, False), w') \<Rightarrow> (Inr x, rollback w w')
    | (Inr (x, True), w') \<Rightarrow> (case faults w' of
              [] \<Rightarrow> (Inr x, w')
            | f # fs \<Rightarrow> (case f of
                Answered \<Rightarrow> (Inr x, w'\<lparr>faults := fs\<rparr>)
              | NotSent \<Rightarrow> (Inl infra_error, rollback w (w'\<lparr>faults := fs\<rparr>))
              | AnswerLost \<Rightarrow> (Inl infra_error, w'\<lparr>faults := fs\<rparr>))))"
  by (auto simp: with_tx_def split: prod.splits sum.splits bool.splits)

lemmas fault_free_defs = claimUsageBillingRequest_def insert_dedup_def select_dedup_def
  select_archive_def run_bind run_stmt_ok

lemma sql_no_rows_is [simp]: "err_is sql_no_rows sql_no_rows"
  by simp

text \<open>The claim when every call is answered.\<close>

lemma claim_calm_dedup:
  assumes "calm w" "varchar_fits 255 r" "varchar_fits 64 fp" "dedup w (r, k) = Some old"
  shows "run_state (claimUsageBillingRequest r k fp) w =
    (if trim_space old \<noteq> trim_space fp then Inl ErrUsageBillingRequestConflict else Inr False, w)"
  using assms by (simp add: fault_free_defs)

lemma claim_calm_new:
  assumes "calm w" "varchar_fits 255 r" "varchar_fits 64 fp" "\<not> claimed w (r, k)"
  shows "run_state (claimUsageBillingRequest r k fp) w =
    (Inr True, w\<lparr>dedup := (dedup w)((r, k) \<mapsto> fp)\<rparr>)"
  using assms by (simp add: fault_free_defs claimed_def)

subsection \<open>A concrete ledger\<close>

text \<open>
  A driver whose conversions are exact, a ledger with one user, and a hold command: the inputs at
  which the properties below are instantiated.
\<close>

definition exact_driver :: driver where
  "exact_driver = \<lparr>to_numeric = (\<lambda>x. case x of Fin v \<Rightarrow> Some v | _ \<Rightarrow> None), of_numeric = Fin,
     tz_local = (\<lambda>_ t. t), tz_utc = (\<lambda>_ t. t), sha256_hex = (\<lambda>s. replicate 64 CHR ''0'')\<rparr>"

definition demo_world :: billing where
  "demo_world = \<lparr>faults = [], clock = 0, ticks = [],
     users = (\<lambda>i. if i = 1 then Some \<lparr>u_balance = 10, u_frozen = 0, u_deleted = False\<rparr> else None),
     subscriptions = (\<lambda>i. None), live_groups = (\<lambda>i. False), api_keys = (\<lambda>i. None),
     accounts = (\<lambda>i. None), dedup = (\<lambda>k. None), dedup_archive = (\<lambda>k. None), scheduler_outbox = []\<rparr>"

definition demo_hold :: "string \<Rightarrow> f64 \<Rightarrow> f64 \<Rightarrow> BatchImageBalanceHoldCommand" where
  "demo_hold rid x a = \<lparr>bh_RequestID = rid, bh_APIKeyID = 7, bh_RequestFingerprint = ''fp'',
     bh_RequestPayloadHash = [], bh_UserID = 1, bh_BatchID = ''b1'', bh_HoldAmount = x,
     bh_ActualAmount = a\<rparr>"

definition demo_charge :: "f64 \<Rightarrow> UsageBillingCommand" where
  "demo_charge x = \<lparr>ub_RequestID = ''r1'', ub_APIKeyID = 7, ub_RequestFingerprint = ''fp'',
     ub_RequestPayloadHash = [], ub_UserID = 1, ub_AccountID = 2, ub_SubscriptionID = None,
     ub_AccountType = ''apikey'', ub_Model = ''m'', ub_ServiceTier = [], ub_ReasoningEffort = [],
     ub_BillingType = 0, ub_InputTokens = 5, ub_OutputTokens = 6, ub_CacheCreationTokens = 0,
     ub_CacheReadTokens = 0, ub_ImageCount = 0, ub_MediaType = [], ub_BalanceCost = x,
     ub_SubscriptionCost = Fin 0, ub_APIKeyQuotaCost = Fin 0, ub_APIKeyRateLimitCost = Fin 0,
     ub_AccountQuotaCost = Fin 0\<rparr>"

definition held_world :: billing where
  "held_world = exec_op exact_driver
     (OpReserve (demo_hold ''batch_image_hold:b1'' (Fin 4) (Fin 0))) demo_world"

lemma demo_simps [simp]:
  "to_numeric exact_driver (Fin v) = Some v" "of_numeric exact_driver v = Fin v"
  "users demo_world 1 = Some \<lparr>u_balance = 10, u_frozen = 0, u_deleted = False\<rparr>"
  "calm demo_world"
  by (simp_all add: exact_driver_def demo_world_def calm_def del: calmD)

lemma exact_driver_sign: "numeric_sign exact_driver"
  by (auto simp: numeric_sign_def exact_driver_def f_le_def split: f64.splits)

lemma demo_grid: "grid_users demo_world"
  using on_grid_int [of 8 1000000000] by (auto simp: grid_users_def demo_world_def)

subsection \<open>Properties\<close>

text \<open>
  C1: Whatever sequence of usage charges, holds, captures, releases and archive runs is
  executed, with whatever calls failing or losing their answers and whatever is retried, the
  operations that carry one idempotency key change the tables of money and quota at most once
  between them.
\<close>

theorem billing_at_most_once: "effects (exec_op env) op_key ledger k w ops \<le> 1"
  by (rule billing_ledger.effects_le_1)

text \<open>
  C2: Refinement. When amounts have at most eight decimals, every billing operation either leaves
  a user's row alone or takes one step of the abstract wallet with the operation's own amounts, and
  only on the operation's own user.
\<close>

theorem billing_refines_wallet:
  assumes "grid_users w" "users w i = Some u" "users (exec_op env op w) i = Some u'"
    and "\<And>ev. op_event env op = Some ev \<Longrightarrow> event_on_grid ev"
  shows "u' = u \<or> i = op_user op \<and> (\<exists>ev. op_event env op = Some ev \<and> wallet_step ev (purse u) (purse u'))"
  using assms by (rule exec_wallet_step)

lemma billing_refines_wallet_witness:
  "wallet_step (WReserve 4) (10, 0) (6, 4)"
proof -
  let ?op = "OpReserve (demo_hold ''batch_image_hold:b1'' (Fin 4) (Fin 0))"
  have u: "users demo_world 1 = Some \<lparr>u_balance = 10, u_frozen = 0, u_deleted = False\<rparr>"
    by (simp add: demo_world_def)
  have u': "users (exec_op exact_driver ?op demo_world) 1
      = Some \<lparr>u_balance = 6, u_frozen = 4, u_deleted = False\<rparr>"
    by code_simp
  have ev: "op_event exact_driver ?op = Some (WReserve 4)"
    by (simp add: exact_driver_def demo_hold_def)
  have "event_on_grid (WReserve 4)" using on_grid_int [of 8 400000000] by simp
  with billing_refines_wallet [OF demo_grid u u'] ev show ?thesis
    by (auto simp: purse_def)
qed

text \<open>
  C3: The frozen balance of a user never becomes negative, in any sequence of operations with any
  faults.
\<close>

theorem frozen_never_negative:
  assumes "numeric_sign env" "solvent w"
  shows "solvent (fold (exec_op env) ops w)"
  using assms(2) by (induction ops arbitrary: w) (auto intro: solvent_exec_op [OF assms(1)])

lemma frozen_never_negative_witness:
  "solvent (fold (exec_op exact_driver)
     [OpReserve (demo_hold ''h'' (Fin 4) (Fin 0)), OpCapture (demo_hold ''c'' (Fin 4) (Fin 3)),
      OpRelease (demo_hold ''r'' (Fin 4) (Fin 0))] demo_world)"
  by (rule frozen_never_negative [OF exact_driver_sign]) (simp add: solvent_def demo_world_def)

text \<open>
  A request id that is already recorded: the same fingerprint is answered as "not applied",
  another one is rejected as a conflict; both leave the database as it was.
\<close>

theorem Apply_replay:
  assumes "calm w" "trim_space (ub_RequestID c) \<noteq> []"
    and "varchar_fits 255 (trim_space (ub_RequestID c))"
    and "varchar_fits 64 (ub_RequestFingerprint (Normalize env c))"
    and "dedup w (trim_space (ub_RequestID c), ub_APIKeyID c) = Some old"
  shows "run_state (Apply env (Some c)) w =
    (if trim_space old \<noteq> trim_space (ub_RequestFingerprint (Normalize env c))
     then Inl ErrUsageBillingRequestConflict else Inr no_apply_result, w)"
  using assms
  by (simp add: Apply_def Let_def with_tx_calm apply_tx_def claimUsageBillingKey_def run_bind
      claim_calm_dedup)

lemma Apply_replay_witness:
  "run_state (Apply exact_driver (Some (demo_charge (Fin 1))))
     (demo_world\<lparr>dedup := [(''r1'', 7) \<mapsto> ''other'']\<rparr>)
   = (Inl ErrUsageBillingRequestConflict, demo_world\<lparr>dedup := [(''r1'', 7) \<mapsto> ''other'']\<rparr>)"
proof -
  let ?w = "demo_world\<lparr>dedup := [(''r1'', 7) \<mapsto> ''other'']\<rparr>" and ?c = "demo_charge (Fin 1)"
  have r: "trim_space (ub_RequestID ?c) = ''r1''" by code_simp
  have f: "ub_RequestFingerprint (Normalize exact_driver ?c) = ''fp''" by code_simp
  have t: "trim_space ''other'' = ''other''" "trim_space ''fp'' = ''fp''"
    "varchar_fits 255 ''r1''" "varchar_fits 64 ''fp''"
    by (code_simp+)
  have "calm ?w" by (simp add: calm_def demo_world_def del: calmD)
  with Apply_replay [of ?w ?c exact_driver "''other''"] show ?thesis
    by (simp add: r f t) (simp add: demo_charge_def)
qed

text \<open>
  The balance charge, on every branch: an unknown or deleted user is an error and nothing
  changes; a known user is charged the full cost, and the flag says whether the balance covered it.
\<close>

theorem deductUsageBillingBalance_spec:
  assumes "calm w" "to_numeric env amount = Some a"
  shows "run_state (deductUsageBillingBalance env uid amount) w =
    (case users w uid of
       None \<Rightarrow> (Inl ErrUserNotFound, w)
     | Some u \<Rightarrow>
         if u_deleted u then (Inl ErrUserNotFound, w)
         else (case store_dec 20 8 (u_balance u - a) of
             Inl e \<Rightarrow> (Inl e, w)
           | Inr b \<Rightarrow> (Inr (of_numeric env b, a \<le> u_balance u),
                       w\<lparr>users := (users w)(uid \<mapsto> u\<lparr>u_balance := b\<rparr>)\<rparr>)))"
  using assms
  by (auto simp: deductUsageBillingBalance_def run_bind update_users_def run_stmt_ok update_row_def
      deduct_balance_def num_minus_def num_le_def store_dec_def Let_def
      split: option.splits sum.splits)

lemma deductUsageBillingBalance_spec_witness:
  "run_state (deductUsageBillingBalance exact_driver 1 (Fin 12)) demo_world
   = (Inr (Fin (-2), False),
      demo_world\<lparr>users := (users demo_world)(1 \<mapsto> \<lparr>u_balance = -2, u_frozen = 0, u_deleted = False\<rparr>)\<rparr>)"
proof -
  have s: "store_dec 20 8 (10 - 12) = Inr (-2)" by code_simp
  show ?thesis
    using deductUsageBillingBalance_spec [of demo_world exact_driver "Fin 12" 12 1] s by simp
qed

definition hold_ok :: "'e driver_scheme \<Rightarrow> BatchImageBalanceHoldCommand \<Rightarrow> 'z billing_scheme \<Rightarrow> bool" where
  "hold_ok env c w \<longleftrightarrow> calm w \<and> trim_space (bh_RequestID c) \<noteq> []
     \<and> varchar_fits 255 (trim_space (bh_RequestID c))
     \<and> varchar_fits 64 (bh_RequestFingerprint (NormalizeHold env c))
     \<and> \<not> claimed w (hold_key c)"

definition claim_hold :: "'e driver_scheme \<Rightarrow> BatchImageBalanceHoldCommand \<Rightarrow> 'z billing_scheme \<Rightarrow> 'z billing_scheme" where
  "claim_hold env c w =
     w\<lparr>dedup := (dedup w)(hold_key c \<mapsto> bh_RequestFingerprint (NormalizeHold env c))\<rparr>"

lemma calm_dedup [simp]: "calm (w\<lparr>dedup := d\<rparr>) = calm w" "calm (w\<lparr>users := u\<rparr>) = calm w"
  by (simp_all add: calm_def del: calmD)

lemma rollback_calm: "calm w \<Longrightarrow> calm w' \<Longrightarrow> clock w' = clock w \<Longrightarrow> rollback w w' = w"
  by (rule rollback_same) simp_all

lemma claim_hold_simps [simp]:
  "users (claim_hold env c w) = users w" "calm (claim_hold env c w) = calm w"
  "clock (claim_hold env c w) = clock w" "faults (claim_hold env c w) = faults w"
  by (simp_all add: claim_hold_def)

lemma applyHold_calm:
  assumes "hold_ok env c w"
  shows "run_state (applyBatchImageBalanceHold env app (Some c)) w =
    (case run_state (app (NormalizeHold env c)) (claim_hold env c w) of
       (Inl e, w') \<Rightarrow> (Inl e, rollback w w')
     | (Inr r, w') \<Rightarrow> (case faults w' of
              [] \<Rightarrow> (Inr (r\<lparr>hr_Applied := True\<rparr>), w')
            | f # fs \<Rightarrow> (case f of
                Answered \<Rightarrow> (Inr (r\<lparr>hr_Applied := True\<rparr>), w'\<lparr>faults := fs\<rparr>)
              | NotSent \<Rightarrow> (Inl infra_error, rollback w (w'\<lparr>faults := fs\<rparr>))
              | AnswerLost \<Rightarrow> (Inl infra_error, w'\<lparr>faults := fs\<rparr>))))"
  using assms
  by (auto simp: hold_ok_def applyBatchImageBalanceHold_def Let_def with_tx_calm hold_tx_def run_bind
      claim_calm_new hold_key_def claim_hold_def split: prod.splits sum.splits)

text \<open>How a row update without faults ends.\<close>

lemma update_users_calm:
  "calm w \<Longrightarrow> run_state (update_users p f i) w = (case update_row p f (users w) i of
      Inl e \<Rightarrow> (Inl e, w) | Inr (t, r) \<Rightarrow> (Inr r, w\<lparr>users := t\<rparr>))"
  by (simp add: update_users_def run_stmt_ok)

lemma no_row_updated_calm:
  "calm w \<Longrightarrow> run_state (no_row_updated uid e sql_no_rows) w =
     (case users w uid of
        None \<Rightarrow> (Inl ErrUserNotFound, w)
      | Some u \<Rightarrow> (if u_deleted u then Inl ErrUserNotFound else Inl e, w))"
  by (auto simp: no_row_updated_def userExistsForBilling_def run_bind run_stmt_ok split: option.splits)

text \<open>
  Reserving a new hold: it needs an existing user whose balance covers the hold, otherwise
  nothing changes and the error says which; a reserved hold has moved from balance to frozen balance
  (each rounded to its column) and its request id is recorded.
\<close>

theorem ReserveBatchImageBalance_spec:
  assumes "hold_ok env c w" "\<not> f_le (bh_HoldAmount c) (Fin 0)" "to_numeric env (bh_HoldAmount c) = Some h"
  shows "run_state (ReserveBatchImageBalance env (Some c)) w =
    (case users w (bh_UserID c) of
       None \<Rightarrow> (Inl ErrUserNotFound, w)
     | Some u \<Rightarrow>
         if u_deleted u then (Inl ErrUserNotFound, w)
         else if u_balance u < h then (Inl ErrBatchImageInsufficientBalance, w)
         else (case move_money (\<lambda>b. b - h) (\<lambda>f. f + h) u of
             Inl e \<Rightarrow> (Inl e, w)
           | Inr u' \<Rightarrow> (Inr ((hold_result env u')\<lparr>hr_Applied := True\<rparr>),
                (claim_hold env c w)\<lparr>users := (users w)(bh_UserID c \<mapsto> u')\<rparr>)))"
proof -
  have c: "calm w" using assms(1) by (simp add: hold_ok_def)
  then have cc: "calm (claim_hold env c w)" by simp
  have rb: "rollback w (claim_hold env c w) = w" using c by (simp add: rollback_calm)
  have m: "move_money f g u = Inl e \<Longrightarrow> e = sql_overflow" for f g u e
    by (auto simp: move_money_def split: sum.splits)
  have o: "no_row_updated i e sql_overflow = ret (Inl sql_overflow)" for i e
    by (simp add: no_row_updated_def)
  show ?thesis
    using assms(2,3) c
    by (auto simp: ReserveBatchImageBalance_def applyHold_calm [OF assms(1)] run_bind
        reserveUsageBillingBatchImageBalance_def update_users_calm [OF cc]
        no_row_updated_calm [OF cc] update_row_def num_le_def rb o not_less
        split: option.splits sum.splits prod.splits dest!: m)
qed

lemma ReserveBatchImageBalance_spec_witness:
  "fst (run_state (ReserveBatchImageBalance exact_driver
      (Some (demo_hold ''batch_image_hold:b1'' (Fin 12) (Fin 0)))) demo_world)
   = Inl ErrBatchImageInsufficientBalance"
proof -
  let ?c = "demo_hold ''batch_image_hold:b1'' (Fin 12) (Fin 0)"
  have "hold_ok exact_driver ?c demo_world" by code_simp
  moreover have "\<not> f_le (bh_HoldAmount ?c) (Fin 0)" "to_numeric exact_driver (bh_HoldAmount ?c) = Some 12"
    "bh_UserID ?c = 1"
    by (simp_all add: demo_hold_def f_le_def)
  ultimately show ?thesis using ReserveBatchImageBalance_spec [of exact_driver ?c demo_world 12] by simp
qed

lemma move_money_Inl: "move_money f g u = Inl e \<Longrightarrow> e = sql_overflow"
  by (auto simp: move_money_def split: sum.splits)

lemma no_row_updated_overflow: "no_row_updated i e sql_overflow = ret (Inl sql_overflow)"
  by (simp add: no_row_updated_def)

lemma hold_ok_calm: "hold_ok env c w \<Longrightarrow> calm w"
  by (simp add: hold_ok_def)

lemma rollback_claim_hold: "calm w \<Longrightarrow> rollback w (claim_hold env c w) = w"
  by (simp add: rollback_calm)

lemma held_calm: "calm w \<Longrightarrow> run_state (batchImageHoldClaimExists r k) w = (Inr (claimed w (r, k)), w)"
  by (auto simp: batchImageHoldClaimExists_def fault_free_defs claimed_def split: option.splits)

text \<open>
  Capturing a hold: a cost above the hold is refused; otherwise the user's frozen balance must
  cover the hold, and the capture moves the whole hold out of it, keeping the actual cost and
  returning the rest to the balance.
\<close>

theorem CaptureBatchImageBalance_spec:
  assumes "hold_ok env c w" "\<not> (f_le (bh_HoldAmount c) (Fin 0) \<and> f_le (bh_ActualAmount c) (Fin 0))"
    and "to_numeric env (bh_HoldAmount c) = Some h" "to_numeric env (bh_ActualAmount c) = Some a"
  shows "run_state (CaptureBatchImageBalance env (Some c)) w =
    (if f_lt (round64 (1 / 10 ^ 8)) (f_sub (bh_ActualAmount c) (bh_HoldAmount c))
     then (Inl ErrBatchImageSettlementCostExceedsHold, w)
     else (case users w (bh_UserID c) of
       None \<Rightarrow> (Inl ErrUserNotFound, w)
     | Some u \<Rightarrow>
         if u_deleted u then (Inl ErrUserNotFound, w)
         else if u_frozen u < h then (Inl ErrFrozenInsufficient, w)
         else (case move_money (\<lambda>b. b + h - a) (\<lambda>f. f - h) u of
             Inl e \<Rightarrow> (Inl e, w)
           | Inr u' \<Rightarrow> (Inr ((hold_result env u')\<lparr>hr_Applied := True\<rparr>),
                (claim_hold env c w)\<lparr>users := (users w)(bh_UserID c \<mapsto> u')\<rparr>))))"
proof -
  have eq: "(\<lambda>b. b + (if y < x then x - y else 0) - (if x < y then y - x else 0)) = (\<lambda>b. b + x - y)"
    for x y :: rat by auto
  have c: "calm w" using assms(1) by (rule hold_ok_calm)
  then have cc: "calm (claim_hold env c w)" by simp
  show ?thesis
    using assms(2,3,4) c
    by (auto simp: CaptureBatchImageBalance_def applyHold_calm [OF assms(1)] run_bind
        captureUsageBillingBatchImageBalance_def update_users_calm [OF cc] eq
        no_row_updated_calm [OF cc] update_row_def num_le_def rollback_claim_hold [OF c]
        no_row_updated_overflow not_less
        split: option.splits sum.splits prod.splits dest!: move_money_Inl)
qed

lemma CaptureBatchImageBalance_spec_witness:
  "users (snd (run_state (CaptureBatchImageBalance exact_driver
      (Some (demo_hold ''batch_image_capture:b1'' (Fin 4) (Fin 3)))) held_world)) 1
   = Some \<lparr>u_balance = 7, u_frozen = 0, u_deleted = False\<rparr>"
proof -
  let ?c = "demo_hold ''batch_image_capture:b1'' (Fin 4) (Fin 3)"
  have u: "users held_world 1 = Some \<lparr>u_balance = 6, u_frozen = 4, u_deleted = False\<rparr>"
    by code_simp
  have ok: "hold_ok exact_driver ?c held_world" by code_simp
  have n: "\<not> f_lt (round64 (1 / 10 ^ 8)) (f_sub (Fin 3) (Fin 4))"
    by (rule f_sub_within) simp_all
  have m: "move_money (\<lambda>b. b + 4 - 3) (\<lambda>f. f - 4) \<lparr>u_balance = 6, u_frozen = 4, u_deleted = False\<rparr>
    = Inr \<lparr>u_balance = 7, u_frozen = 0, u_deleted = False\<rparr>"
    by code_simp
  have c: "bh_HoldAmount ?c = Fin 4" "bh_ActualAmount ?c = Fin 3" "bh_UserID ?c = 1"
    by (simp_all add: demo_hold_def)
  show ?thesis
    using CaptureBatchImageBalance_spec [OF ok, of 4 3] n m by (simp add: c u f_le_def)
qed

text \<open>
  Releasing a hold: without a recorded hold of the batch nothing is moved (and the release is
  recorded); otherwise the frozen balance must cover the hold, and the whole hold returns to the
  balance.
\<close>

theorem ReleaseBatchImageBalance_spec:
  assumes "hold_ok env c w" "\<not> f_le (bh_HoldAmount c) (Fin 0)" "to_numeric env (bh_HoldAmount c) = Some h"
    and "trim_space (bh_RequestID c) \<noteq> BatchImageHoldRequestID (trim_space (bh_BatchID c))"
  shows "run_state (ReleaseBatchImageBalance env (Some c)) w =
    (if \<not> claimed w (BatchImageHoldRequestID (trim_space (bh_BatchID c)), bh_APIKeyID c)
     then (Inr (no_hold_result\<lparr>hr_Applied := True\<rparr>), claim_hold env c w)
     else (case users w (bh_UserID c) of
       None \<Rightarrow> (Inl ErrUserNotFound, w)
     | Some u \<Rightarrow>
         if u_deleted u then (Inl ErrUserNotFound, w)
         else if u_frozen u < h then (Inl ErrFrozenInsufficient, w)
         else (case move_money (\<lambda>b. b + h) (\<lambda>f. f - h) u of
             Inl e \<Rightarrow> (Inl e, w)
           | Inr u' \<Rightarrow> (Inr ((hold_result env u')\<lparr>hr_Applied := True\<rparr>),
                (claim_hold env c w)\<lparr>users := (users w)(bh_UserID c \<mapsto> u')\<rparr>))))"
proof -
  have c: "calm w" using assms(1) by (rule hold_ok_calm)
  then have cc: "calm (claim_hold env c w)" by simp
  have b: "bh_BatchID (NormalizeHold env c) = trim_space (bh_BatchID c)"
    by (simp add: NormalizeHold_def Let_def)
  have cl: "claimed (claim_hold env c w) (r, k) = (claimed w (r, k) \<or> hold_key c = (r, k))" for r k
    by (auto simp: claim_hold_def claimed_def)
  have k: "hold_key c \<noteq> (BatchImageHoldRequestID (trim_space (bh_BatchID c)), bh_APIKeyID c)"
    using assms(4) by (simp add: hold_key_def)
  show ?thesis
    using assms(2,3) c k
    by (auto simp: ReleaseBatchImageBalance_def applyHold_calm [OF assms(1)] run_bind
        releaseUsageBillingBatchImageBalance_def update_users_calm [OF cc] held_calm [OF cc] b cl
        no_row_updated_calm [OF cc] update_row_def num_le_def rollback_claim_hold [OF c]
        no_row_updated_overflow not_less
        split: option.splits sum.splits prod.splits dest!: move_money_Inl)
qed

lemma ReleaseBatchImageBalance_spec_witness:
  "users (snd (run_state (ReleaseBatchImageBalance exact_driver
      (Some (demo_hold ''batch_image_release:b1'' (Fin 4) (Fin 0)))) held_world)) 1
   = Some \<lparr>u_balance = 10, u_frozen = 0, u_deleted = False\<rparr>"
proof -
  let ?c = "demo_hold ''batch_image_release:b1'' (Fin 4) (Fin 0)"
  have u: "users held_world 1 = Some \<lparr>u_balance = 6, u_frozen = 4, u_deleted = False\<rparr>"
    by code_simp
  have ok: "hold_ok exact_driver ?c held_world" by code_simp
  have ne: "trim_space (bh_RequestID ?c) \<noteq> BatchImageHoldRequestID (trim_space (bh_BatchID ?c))"
    by code_simp
  have cl: "claimed held_world (BatchImageHoldRequestID (trim_space (bh_BatchID ?c)), bh_APIKeyID ?c)"
    by code_simp
  have m: "move_money (\<lambda>b. b + 4) (\<lambda>f. f - 4) \<lparr>u_balance = 6, u_frozen = 4, u_deleted = False\<rparr>
    = Inr \<lparr>u_balance = 10, u_frozen = 0, u_deleted = False\<rparr>"
    by code_simp
  have c: "bh_HoldAmount ?c = Fin 4" "bh_UserID ?c = 1" by (simp_all add: demo_hold_def)
  show ?thesis
    using ReleaseBatchImageBalance_spec [OF ok _ _ ne, of 4] cl m by (simp add: c u f_le_def)
qed

text \<open>Taking a hold out of a frozen balance that does not cover it.\<close>

lemma uncovered_hold:
  assumes "calm w" "users w (bh_UserID c) = Some u" "\<not> u_deleted u"
    and "to_numeric env (bh_HoldAmount c) = Some h" "\<not> f_le (bh_HoldAmount c) (Fin 0)" "u_frozen u < h"
  shows "claimed w (BatchImageHoldRequestID (bh_BatchID c), bh_APIKeyID c) \<Longrightarrow>
      run_state (releaseUsageBillingBatchImageBalance env c) w = (Inl ErrFrozenInsufficient, w)"
    and "\<not> f_lt (round64 (1 / 10 ^ 8)) (f_sub (bh_ActualAmount c) (bh_HoldAmount c)) \<Longrightarrow>
      run_state (captureUsageBillingBatchImageBalance env c) w = (Inl ErrFrozenInsufficient, w)"
  using assms
  by (simp_all add: releaseUsageBillingBatchImageBalance_def captureUsageBillingBatchImageBalance_def
      run_bind held_calm update_users_calm update_row_def num_le_def no_row_updated_calm)

lemma claimed_claim_hold: "claimed w k \<Longrightarrow> claimed (claim_hold env c w) k"
  by (auto simp: claim_hold_def claimed_def)

text \<open>
  A hold whose amount the frozen balance column rounds down cannot be taken out again: when it
  is the user's only hold, both its release and its capture fail for want of frozen balance.
  (\<^verbatim>\<open>batch_image_jobs.hold_amount\<close> has ten decimals, \<^verbatim>\<open>users.frozen_balance\<close> eight.)
\<close>

theorem hold_rounded_down_is_stuck:
  assumes "hold_ok env c w" "to_numeric env (bh_HoldAmount c) = Some h" "\<not> f_le (bh_HoldAmount c) (Fin 0)"
    and "dec_round 8 h < h"
    and "users w (bh_UserID c) = Some u" "\<not> u_deleted u"
    and "u_frozen u0 = 0" "move_money (\<lambda>b. b - h) (\<lambda>f. f + h) u0 = Inr u"
    and "claimed w (BatchImageHoldRequestID (trim_space (bh_BatchID c)), bh_APIKeyID c)"
    and "\<not> f_lt (round64 (1 / 10 ^ 8)) (f_sub (bh_ActualAmount c) (bh_HoldAmount c))"
  shows "run_state (ReleaseBatchImageBalance env (Some c)) w = (Inl ErrFrozenInsufficient, w)
       \<and> run_state (CaptureBatchImageBalance env (Some c)) w = (Inl ErrFrozenInsufficient, w)"
proof -
  have c: "calm w" using assms(1) by (rule hold_ok_calm)
  have b: "bh_BatchID (NormalizeHold env c) = trim_space (bh_BatchID c)"
    by (simp add: NormalizeHold_def Let_def)
  have t: "BatchImageHoldRequestID (trim_space s) = BatchImageHoldRequestID s'"
    if "s' = trim_space s" for s s' using that by simp
  have "u_frozen u = dec_round 8 h"
    using move_money_InrD [OF assms(8)] assms(7) by (simp add: moves_money_def)
  with assms(4) have "u_frozen u < h" by simp
  then show ?thesis
    using assms c claimed_claim_hold [OF assms(9), of env c]
      uncovered_hold [of "claim_hold env c w" "NormalizeHold env c" u env h]
    by (simp add: ReleaseBatchImageBalance_def CaptureBatchImageBalance_def applyHold_calm b
        rollback_claim_hold)
qed

text \<open>The ledger after a hold of 4.000000004 was reserved.\<close>

definition stuck_world :: billing where
  "stuck_world = demo_world\<lparr>
     users := [1 \<mapsto> \<lparr>u_balance = 6, u_frozen = 4, u_deleted = False\<rparr>],
     dedup := [(''batch_image_hold:b1'', 7) \<mapsto> ''fp'']\<rparr>"

lemma hold_rounded_down_is_stuck_witness:
  "fst (run_state (ReleaseBatchImageBalance exact_driver
      (Some (demo_hold ''batch_image_release:b1'' (Fin (4000000004 / 10 ^ 9)) (Fin 0)))) stuck_world)
   = Inl ErrFrozenInsufficient"
proof -
  let ?h = "4000000004 / 10 ^ 9 :: rat" and ?w = stuck_world
  let ?c = "demo_hold ''batch_image_release:b1'' (Fin ?h) (Fin 0)"
  let ?u = "\<lparr>u_balance = 6, u_frozen = 4, u_deleted = False\<rparr>"
  have "users ?w (bh_UserID ?c) = Some ?u" by (simp add: stuck_world_def demo_hold_def)
  moreover have "move_money (\<lambda>b. b - ?h) (\<lambda>f. f + ?h) (?u\<lparr>u_balance := 10, u_frozen := 0\<rparr>) = Inr ?u"
    by code_simp
  moreover have "hold_ok exact_driver ?c ?w" by code_simp
  moreover have "dec_round 8 ?h < ?h" by code_simp
  moreover have "claimed ?w (BatchImageHoldRequestID (trim_space (bh_BatchID ?c)), bh_APIKeyID ?c)"
    by code_simp
  moreover have "to_numeric exact_driver (bh_HoldAmount ?c) = Some ?h" "\<not> f_le (bh_HoldAmount ?c) (Fin 0)"
    by (simp_all add: demo_hold_def f_le_def)
  moreover have "\<not> f_lt (round64 (1 / 10 ^ 8)) (f_sub (Fin 0) (Fin ?h))"
    by (rule f_sub_within) simp_all
  then have "\<not> f_lt (round64 (1 / 10 ^ 8)) (f_sub (bh_ActualAmount ?c) (bh_HoldAmount ?c))"
    by (simp add: demo_hold_def)
  ultimately show ?thesis
    using hold_rounded_down_is_stuck [of exact_driver ?c ?w ?h ?u "?u\<lparr>u_balance := 10, u_frozen := 0\<rparr>"]
    by simp
qed

end
