(* ===== verification/BatchImageJob.thy ===== *)
theory BatchImageJob
  imports UsageBilling
begin

section \<open>Batch image jobs: data and life cycle\<close>

text \<open>
  \<^verbatim>\<open>service/batch_image.go\<close>: the job and its items, the statuses, and the relation
  \<open>CanTransitionBatchImageJob\<close>.  The money fields have a type parameter: \<open>f64\<close> in memory, \<open>rat\<close>
  (a DECIMAL) in the table.  Times are nanoseconds; a nil \<^verbatim>\<open>*time.Time\<close> is \<open>None\<close>.
\<close>

abbreviation BatchImageProviderGeminiAPI :: string where "BatchImageProviderGeminiAPI \<equiv> ''gemini_api''"
abbreviation BatchImageProviderVertex :: string where "BatchImageProviderVertex \<equiv> ''vertex''"
abbreviation BatchImageJobStatusCreated :: string where "BatchImageJobStatusCreated \<equiv> ''created''"
abbreviation BatchImageJobStatusUploading :: string where "BatchImageJobStatusUploading \<equiv> ''uploading''"
abbreviation BatchImageJobStatusSubmitted :: string where "BatchImageJobStatusSubmitted \<equiv> ''submitted''"
abbreviation BatchImageJobStatusRunning :: string where "BatchImageJobStatusRunning \<equiv> ''running''"
abbreviation BatchImageJobStatusIndexing :: string where "BatchImageJobStatusIndexing \<equiv> ''indexing''"
abbreviation BatchImageJobStatusSettling :: string where "BatchImageJobStatusSettling \<equiv> ''settling''"
abbreviation BatchImageJobStatusCompleted :: string where "BatchImageJobStatusCompleted \<equiv> ''completed''"
abbreviation BatchImageJobStatusFailed :: string where "BatchImageJobStatusFailed \<equiv> ''failed''"
abbreviation BatchImageJobStatusCancelled :: string where "BatchImageJobStatusCancelled \<equiv> ''cancelled''"
abbreviation BatchImageJobStatusOutputDeleted :: string where "BatchImageJobStatusOutputDeleted \<equiv> ''output_deleted''"
abbreviation BatchImageItemStatusPending :: string where "BatchImageItemStatusPending \<equiv> ''pending''"
abbreviation BatchImageItemStatusSuccess :: string where "BatchImageItemStatusSuccess \<equiv> ''success''"
abbreviation BatchImageItemStatusFailed :: string where "BatchImageItemStatusFailed \<equiv> ''failed''"
abbreviation BatchImageItemStatusCancelled :: string where "BatchImageItemStatusCancelled \<equiv> ''cancelled''"

record 'm BatchImageJob =
  jb_ID :: int
  jb_BatchID :: string
  jb_UserID :: int
  jb_APIKeyID :: "int option"
  jb_AccountID :: "int option"
  jb_Provider :: string
  jb_Model :: string
  jb_TaskName :: string
  jb_ParentBatchID :: "string option"
  jb_Status :: string
  jb_ProviderJobName :: "string option"
  jb_ProviderInputRef :: "string option"
  jb_ProviderOutputRef :: "string option"
  jb_GCSInputURI :: "string option"
  jb_GCSOutputURI :: "string option"
  jb_ItemCount :: int
  jb_SuccessCount :: int
  jb_FailCount :: int
  jb_CancelledCount :: int
  jb_EstimatedCost :: 'm
  jb_HoldAmount :: "'m option"
  jb_ActualCost :: "'m option"
  jb_BaseUnitPrice :: 'm
  jb_GroupRateMultiplier :: 'm
  jb_AccountRateMultiplier :: 'm
  jb_BatchDiscountMultiplier :: 'm
  jb_HoldMultiplier :: 'm
  jb_BillableUnitPrice :: 'm
  jb_HoldUnitPrice :: 'm
  jb_PricingSnapshotVersion :: int
  jb_Currency :: string
  jb_HoldID :: "string option"
  jb_IdempotencyKey :: "string option"
  jb_RequestHash :: "string option"
  jb_ManifestHash :: "string option"
  jb_RetryCount :: int
  jb_Version :: int
  jb_OutputExpiresAt :: "int option"
  jb_InputDeletedAt :: "int option"
  jb_OutputDeletedAt :: "int option"
  jb_DownloadedAt :: "int option"
  jb_UserDeletedAt :: "int option"
  jb_LastErrorCode :: "string option"
  jb_LastErrorMessage :: "string option"
  jb_CreatedAt :: int
  jb_UpdatedAt :: int
  jb_SubmittedAt :: "int option"
  jb_StartedAt :: "int option"
  jb_FinishedAt :: "int option"
  jb_SettledAt :: "int option"

record CreateBatchImageJobParams =
  cj_BatchID :: string
  cj_UserID :: int
  cj_APIKeyID :: "int option"
  cj_AccountID :: "int option"
  cj_Provider :: string
  cj_Model :: string
  cj_TaskName :: string
  cj_ParentBatchID :: "string option"
  cj_Status :: string
  cj_ProviderJobName :: "string option"
  cj_ProviderInputRef :: "string option"
  cj_ProviderOutputRef :: "string option"
  cj_GCSInputURI :: "string option"
  cj_GCSOutputURI :: "string option"
  cj_ItemCount :: int
  cj_SuccessCount :: int
  cj_FailCount :: int
  cj_CancelledCount :: int
  cj_EstimatedCost :: f64
  cj_HoldAmount :: "f64 option"
  cj_ActualCost :: "f64 option"
  cj_BaseUnitPrice :: f64
  cj_GroupRateMultiplier :: f64
  cj_AccountRateMultiplier :: f64
  cj_BatchDiscountMultiplier :: f64
  cj_HoldMultiplier :: f64
  cj_BillableUnitPrice :: f64
  cj_HoldUnitPrice :: f64
  cj_PricingSnapshotVersion :: int
  cj_Currency :: string
  cj_HoldID :: "string option"
  cj_IdempotencyKey :: "string option"
  cj_RequestHash :: "string option"
  cj_ManifestHash :: "string option"
  cj_RetryCount :: int
  cj_OutputExpiresAt :: "int option"

record 'm BatchImageItem =
  it_ID :: int
  it_JobID :: string
  it_CustomID :: string
  it_Status :: string
  it_RequestHash :: "string option"
  it_PromptPreview :: "string option"
  it_ProviderSourceObject :: "string option"
  it_SourceLineNumber :: "int option"
  it_SourceByteOffset :: "int option"
  it_SourceByteLength :: "int option"
  it_MimeType :: "string option"
  it_FileExtension :: "string option"
  it_ImageCount :: int
  it_ErrorCode :: "string option"
  it_ErrorMessage :: "string option"
  it_BilledAmount :: "'m option"
  it_CreatedAt :: int
  it_IndexedAt :: "int option"

record CreateBatchImageItemParams =
  ci_JobID :: string
  ci_CustomID :: string
  ci_Status :: string
  ci_RequestHash :: "string option"
  ci_PromptPreview :: "string option"
  ci_ProviderSourceObject :: "string option"
  ci_SourceLineNumber :: "int option"
  ci_SourceByteOffset :: "int option"
  ci_SourceByteLength :: "int option"
  ci_MimeType :: "string option"
  ci_FileExtension :: "string option"
  ci_ImageCount :: int
  ci_ErrorCode :: "string option"
  ci_ErrorMessage :: "string option"
  ci_BilledAmount :: "f64 option"
  ci_IndexedAt :: "int option"

record BatchImageItemFilter =
  itf_Status :: string
  itf_Limit :: int
  itf_Offset :: int

record BatchImageJobFilter =
  jf_Status :: string
  jf_TaskNameLike :: string
  jf_Downloaded :: "bool option"
  jf_CreatedAfter :: "int option"
  jf_CreatedBefore :: "int option"
  jf_ExcludeDeleted :: bool
  jf_Limit :: int
  jf_Offset :: int

text \<open>Event payloads, as \<^verbatim>\<open>json.Marshal\<close> sees them; it rejects NaN and the infinities.\<close>

datatype jval = JStr string | JInt int | JNum f64

type_synonym payload = "(string \<times> jval) list"

definition marshal_ok :: "payload \<Rightarrow> bool" where
  "marshal_ok p \<longleftrightarrow> (\<forall>v \<in> set (map snd p). case v of JNum (Fin _) \<Rightarrow> True | JNum _ \<Rightarrow> False | _ \<Rightarrow> True)"

record BatchImageTransitionOptions =
  to_EventType :: string
  to_EventPayload :: "payload option"
  to_ErrorCode :: "string option"
  to_ErrorMessage :: "string option"
  to_Now :: "int option"

record MarkBatchImageJobSettledParams =
  ms_BatchID :: string
  ms_ActualCost :: f64
  ms_ManifestHash :: string
  ms_EventPayload :: "payload option"
  ms_Now :: "int option"
  ms_OutputExpiresAt :: "int option"

record UpdateBatchImageJobProviderSubmitParams =
  ps_BatchID :: string
  ps_ProviderJobName :: string
  ps_ProviderInputRef :: string
  ps_ProviderOutputRef :: string
  ps_GCSInputURI :: string
  ps_GCSOutputURI :: string
  ps_EventPayload :: "payload option"

definition IsSupportedBatchImageProvider :: "string \<Rightarrow> bool" where
  "IsSupportedBatchImageProvider provider \<longleftrightarrow>
     provider = BatchImageProviderGeminiAPI \<or> provider = BatchImageProviderVertex"

definition IsTerminalBatchImageJobStatus :: "string \<Rightarrow> bool" where
  "IsTerminalBatchImageJobStatus status \<longleftrightarrow>
     status \<in> {BatchImageJobStatusCompleted, BatchImageJobStatusFailed,
               BatchImageJobStatusCancelled, BatchImageJobStatusOutputDeleted}"

definition allowed_transitions :: "(string \<times> string list) list" where
  "allowed_transitions =
     [(BatchImageJobStatusCreated,
        [BatchImageJobStatusUploading, BatchImageJobStatusSubmitted, BatchImageJobStatusCancelled]),
      (BatchImageJobStatusUploading, [BatchImageJobStatusSubmitted, BatchImageJobStatusCancelled]),
      (BatchImageJobStatusSubmitted,
        [BatchImageJobStatusRunning, BatchImageJobStatusIndexing, BatchImageJobStatusFailed,
         BatchImageJobStatusCancelled]),
      (BatchImageJobStatusRunning,
        [BatchImageJobStatusRunning, BatchImageJobStatusIndexing, BatchImageJobStatusFailed,
         BatchImageJobStatusCancelled]),
      (BatchImageJobStatusIndexing, [BatchImageJobStatusSettling, BatchImageJobStatusFailed]),
      (BatchImageJobStatusSettling, [BatchImageJobStatusCompleted])]"

definition CanTransitionBatchImageJob :: "string \<Rightarrow> string \<Rightarrow> bool" where
  "CanTransitionBatchImageJob src dst \<longleftrightarrow>
     (if src = [] \<or> dst = [] then False
      else if IsTerminalBatchImageJobStatus src then
        dst = BatchImageJobStatusOutputDeleted \<and> src \<noteq> BatchImageJobStatusOutputDeleted \<and>
        (src = BatchImageJobStatusCompleted \<or> src = BatchImageJobStatusFailed
          \<or> src = BatchImageJobStatusCancelled)
      else if dst = BatchImageJobStatusFailed then True
      else (case map_of allowed_transitions src of
              None \<Rightarrow> False | Some tos \<Rightarrow> dst \<in> set tos))"

definition ErrBatchImageJobNotFound :: goerr where
  "ErrBatchImageJobNotFound = New 404 ''BATCH_IMAGE_JOB_NOT_FOUND'' ''batch image job not found''"

definition ErrBatchImageJobExists :: goerr where
  "ErrBatchImageJobExists = New 409 ''BATCH_IMAGE_JOB_EXISTS'' ''batch image job already exists''"

definition ErrBatchImageItemExists :: goerr where
  "ErrBatchImageItemExists = New 409 ''BATCH_IMAGE_ITEM_EXISTS'' ''batch image item already exists''"

definition ErrBatchImageInvalidTransition :: goerr where
  "ErrBatchImageInvalidTransition = New 400 ''BATCH_IMAGE_INVALID_TRANSITION'' ''invalid batch image job status transition''"

definition ErrBatchImageInvalidProvider :: goerr where
  "ErrBatchImageInvalidProvider = New 400 ''BATCH_IMAGE_INVALID_PROVIDER'' ''invalid batch image provider''"

definition ErrBatchImageMissingProviderJobName :: goerr where
  "ErrBatchImageMissingProviderJobName = New 400 ''BATCH_IMAGE_MISSING_PROVIDER_JOB_NAME'' ''batch image provider job name is missing''"

definition ErrBatchImageMissingAccountID :: goerr where
  "ErrBatchImageMissingAccountID = New 400 ''BATCH_IMAGE_MISSING_ACCOUNT_ID'' ''batch image account id is missing''"

definition ErrBatchImageUnsupportedProvider :: goerr where
  "ErrBatchImageUnsupportedProvider = New 400 ''BATCH_IMAGE_UNSUPPORTED_PROVIDER'' ''unsupported batch image provider''"

definition ErrBatchImageIndexOutputMissing :: goerr where
  "ErrBatchImageIndexOutputMissing = New 502 ''BATCH_IMAGE_INDEX_OUTPUT_MISSING'' ''batch image provider output is missing''"

definition ErrBatchImageIndexParseFailed :: goerr where
  "ErrBatchImageIndexParseFailed = New 502 ''BATCH_IMAGE_INDEX_PARSE_FAILED'' ''batch image provider output parse failed''"

definition ErrBatchImageIndexNoResultLines :: goerr where
  "ErrBatchImageIndexNoResultLines = New 502 ''BATCH_IMAGE_INDEX_NO_RESULT_LINES'' ''batch image provider output has no result lines''"

definition ErrBatchImageDuplicateCustomID :: goerr where
  "ErrBatchImageDuplicateCustomID = New 502 ''DUPLICATE_CUSTOM_ID_IN_OUTPUT'' ''batch image provider output contains duplicate custom id''"

definition ErrBatchImageIndexStateConflict :: goerr where
  "ErrBatchImageIndexStateConflict = New 409 ''BATCH_IMAGE_INDEX_STATE_CONFLICT'' ''batch image job is no longer in indexing state''"

definition ErrBatchImageSettlementInvalidStatus :: goerr where
  "ErrBatchImageSettlementInvalidStatus = New 400 ''BATCH_IMAGE_SETTLEMENT_INVALID_STATUS'' ''batch image job is not ready for settlement''"

definition ErrBatchImageSettlementManifestConflict :: goerr where
  "ErrBatchImageSettlementManifestConflict = New 409 ''BATCH_IMAGE_SETTLEMENT_MANIFEST_CONFLICT'' ''batch image settlement manifest hash conflict''"

definition ErrBatchImageSettlementPricingMissing :: goerr where
  "ErrBatchImageSettlementPricingMissing = New 400 ''BATCH_IMAGE_SETTLEMENT_PRICING_MISSING'' ''batch image settlement pricing is missing''"

definition ErrBatchImageSettlementBillingFailed :: goerr where
  "ErrBatchImageSettlementBillingFailed = New 502 ''BATCH_IMAGE_SETTLEMENT_BILLING_FAILED'' ''batch image settlement billing failed''"

definition ErrBatchImageAlreadySettled :: goerr where
  "ErrBatchImageAlreadySettled = New 409 ''BATCH_IMAGE_ALREADY_SETTLED'' ''batch image job is already settled''"

definition ErrBatchImageSettlementMissingAPIKeyID :: goerr where
  "ErrBatchImageSettlementMissingAPIKeyID = New 400 ''BATCH_IMAGE_SETTLEMENT_MISSING_API_KEY_ID'' ''batch image settlement api key id is missing''"

definition ErrBatchImageSettlementMissingAccountID :: goerr where
  "ErrBatchImageSettlementMissingAccountID = New 400 ''BATCH_IMAGE_SETTLEMENT_MISSING_ACCOUNT_ID'' ''batch image settlement account id is missing''"

definition ErrBatchImageSettlementInvalidCounts :: goerr where
  "ErrBatchImageSettlementInvalidCounts = New 400 ''BATCH_IMAGE_SETTLEMENT_INVALID_COUNTS'' ''batch image settlement counts are invalid''"

definition ErrBatchImageBillingHoldFailed :: goerr where
  "ErrBatchImageBillingHoldFailed = New 502 ''BATCH_IMAGE_BILLING_HOLD_FAILED'' ''batch image balance hold failed''"

definition ErrBatchImageItemNotFound :: goerr where
  "ErrBatchImageItemNotFound = New 404 ''BATCH_IMAGE_ITEM_NOT_FOUND'' ''batch image item not found''"

definition ErrBatchImageRecordDeleteNotReady :: goerr where
  "ErrBatchImageRecordDeleteNotReady = New 409 ''BATCH_IMAGE_RECORD_DELETE_NOT_READY'' ''batch image record can only be deleted after the job finishes''"

end
