(* ===== verification/BatchImageRepo.thy ===== *)
theory BatchImageRepo
  imports BatchImageJob
begin

section \<open>The batch image tables\<close>

text \<open>
  \<^verbatim>\<open>repository/batch_image_repo.go\<close>: jobs, items and events, each statement as one step and each
  transaction as in \<open>Database\<close>.  A table is the list of its rows in the order of their ids.  The
  world also carries what the batch image services leave behind outside these tables: usage
  log entries, invalidations of the auth cache, and random bytes for new ids.
\<close>

record usage_log =
  ul_UserID :: int
  ul_APIKeyID :: int
  ul_AccountID :: int
  ul_RequestID :: string
  ul_Model :: string
  ul_ImageCount :: int
  ul_ActualCost :: f64
  ul_RateMultiplier :: f64
  ul_AccountRateMultiplier :: f64
  ul_CreatedAt :: int

record batch_db = billing +
  jobs :: "rat BatchImageJob list"
  items :: "rat BatchImageItem list"
  events :: "(string \<times> string \<times> payload option) list"
  next_job_id :: int
  next_item_id :: int
  usage_logs :: "usage_log list"
  invalidated :: "int list"
  entropy :: "string list"

subsection \<open>Columns and constraints\<close>

definition sum_bind :: "'e + 'a \<Rightarrow> ('a \<Rightarrow> 'e + 'b) \<Rightarrow> 'e + 'b" where
  "sum_bind r k = (case r of Inl e \<Rightarrow> Inl e | Inr x \<Rightarrow> k x)"

definition to_dec :: "'e driver_scheme \<Rightarrow> nat \<Rightarrow> nat \<Rightarrow> f64 \<Rightarrow> goerr + rat" where
  "to_dec env p s x = (case to_numeric env x of None \<Rightarrow> Inl sql_overflow | Some q \<Rightarrow> store_dec p s q)"

definition to_dec_opt :: "'e driver_scheme \<Rightarrow> nat \<Rightarrow> nat \<Rightarrow> f64 option \<Rightarrow> goerr + rat option" where
  "to_dec_opt env p s x = (case x of None \<Rightarrow> Inr None
     | Some v \<Rightarrow> (case to_dec env p s v of Inl e \<Rightarrow> Inl e | Inr q \<Rightarrow> Inr (Some q)))"

definition sql_unique :: goerr where
  "sql_unique = PlainErr ''pq: duplicate key value violates unique constraint''"

definition sql_foreign_key :: goerr where
  "sql_foreign_key = PlainErr ''pq: insert or update violates foreign key constraint''"

definition json_unsupported :: goerr where
  "json_unsupported = PlainErr ''json: unsupported value''"

definition isUniqueConstraintViolation :: "goerr \<Rightarrow> bool" where
  "isUniqueConstraintViolation err \<longleftrightarrow> err = sql_unique"

definition translatePersistenceError :: "goerr \<Rightarrow> goerr option \<Rightarrow> goerr option \<Rightarrow> goerr" where
  "translatePersistenceError err notFound conflict =
     (case notFound of
        Some nf \<Rightarrow> if err_is err sql_no_rows then WithCause nf err
          else (case conflict of
             Some cf \<Rightarrow> if isUniqueConstraintViolation err then WithCause cf err else err
           | None \<Rightarrow> err)
      | None \<Rightarrow> (case conflict of
             Some cf \<Rightarrow> if isUniqueConstraintViolation err then WithCause cf err else err
           | None \<Rightarrow> err))"

text \<open>\<^verbatim>\<open>NULLIF(x, '')\<close>.\<close>

definition nullif_empty :: "string \<Rightarrow> string option" where
  "nullif_empty s = (if s = [] then None else Some s)"

definition coalesce :: "'a option \<Rightarrow> 'a \<Rightarrow> 'a option" where
  "coalesce v d = (case v of None \<Rightarrow> Some d | Some x \<Rightarrow> Some x)"

definition scanBatchImageJob :: "'e driver_scheme \<Rightarrow> rat BatchImageJob \<Rightarrow> f64 BatchImageJob" where
  "scanBatchImageJob env r = \<lparr>
     jb_ID = jb_ID r,
     jb_BatchID = jb_BatchID r,
     jb_UserID = jb_UserID r,
     jb_APIKeyID = jb_APIKeyID r,
     jb_AccountID = jb_AccountID r,
     jb_Provider = jb_Provider r,
     jb_Model = jb_Model r,
     jb_TaskName = jb_TaskName r,
     jb_ParentBatchID = jb_ParentBatchID r,
     jb_Status = jb_Status r,
     jb_ProviderJobName = jb_ProviderJobName r,
     jb_ProviderInputRef = jb_ProviderInputRef r,
     jb_ProviderOutputRef = jb_ProviderOutputRef r,
     jb_GCSInputURI = jb_GCSInputURI r,
     jb_GCSOutputURI = jb_GCSOutputURI r,
     jb_ItemCount = jb_ItemCount r,
     jb_SuccessCount = jb_SuccessCount r,
     jb_FailCount = jb_FailCount r,
     jb_CancelledCount = jb_CancelledCount r,
     jb_EstimatedCost = of_numeric env (jb_EstimatedCost r),
     jb_HoldAmount = map_option (of_numeric env) (jb_HoldAmount r),
     jb_ActualCost = map_option (of_numeric env) (jb_ActualCost r),
     jb_BaseUnitPrice = of_numeric env (jb_BaseUnitPrice r),
     jb_GroupRateMultiplier = of_numeric env (jb_GroupRateMultiplier r),
     jb_AccountRateMultiplier = of_numeric env (jb_AccountRateMultiplier r),
     jb_BatchDiscountMultiplier = of_numeric env (jb_BatchDiscountMultiplier r),
     jb_HoldMultiplier = of_numeric env (jb_HoldMultiplier r),
     jb_BillableUnitPrice = of_numeric env (jb_BillableUnitPrice r),
     jb_HoldUnitPrice = of_numeric env (jb_HoldUnitPrice r),
     jb_PricingSnapshotVersion = jb_PricingSnapshotVersion r,
     jb_Currency = jb_Currency r,
     jb_HoldID = jb_HoldID r,
     jb_IdempotencyKey = jb_IdempotencyKey r,
     jb_RequestHash = jb_RequestHash r,
     jb_ManifestHash = jb_ManifestHash r,
     jb_RetryCount = jb_RetryCount r,
     jb_Version = jb_Version r,
     jb_OutputExpiresAt = jb_OutputExpiresAt r,
     jb_InputDeletedAt = jb_InputDeletedAt r,
     jb_OutputDeletedAt = jb_OutputDeletedAt r,
     jb_DownloadedAt = jb_DownloadedAt r,
     jb_UserDeletedAt = jb_UserDeletedAt r,
     jb_LastErrorCode = jb_LastErrorCode r,
     jb_LastErrorMessage = jb_LastErrorMessage r,
     jb_CreatedAt = jb_CreatedAt r,
     jb_UpdatedAt = jb_UpdatedAt r,
     jb_SubmittedAt = jb_SubmittedAt r,
     jb_StartedAt = jb_StartedAt r,
     jb_FinishedAt = jb_FinishedAt r,
     jb_SettledAt = jb_SettledAt r\<rparr>"

definition job_row :: "'e driver_scheme \<Rightarrow> int \<Rightarrow> int \<Rightarrow> CreateBatchImageJobParams \<Rightarrow> goerr + rat BatchImageJob" where
  "job_row env now next_id p =
     sum_bind (to_dec env 20 10 (cj_EstimatedCost p)) (\<lambda>m_EstimatedCost.
     sum_bind (to_dec_opt env 20 10 (cj_HoldAmount p)) (\<lambda>m_HoldAmount.
     sum_bind (to_dec_opt env 20 10 (cj_ActualCost p)) (\<lambda>m_ActualCost.
     sum_bind (to_dec env 20 10 (cj_BaseUnitPrice p)) (\<lambda>m_BaseUnitPrice.
     sum_bind (to_dec env 10 4 (cj_GroupRateMultiplier p)) (\<lambda>m_GroupRateMultiplier.
     sum_bind (to_dec env 10 4 (cj_AccountRateMultiplier p)) (\<lambda>m_AccountRateMultiplier.
     sum_bind (to_dec env 10 4 (cj_BatchDiscountMultiplier p)) (\<lambda>m_BatchDiscountMultiplier.
     sum_bind (to_dec env 10 4 (cj_HoldMultiplier p)) (\<lambda>m_HoldMultiplier.
     sum_bind (to_dec env 20 10 (cj_BillableUnitPrice p)) (\<lambda>m_BillableUnitPrice.
     sum_bind (to_dec env 20 10 (cj_HoldUnitPrice p)) (\<lambda>m_HoldUnitPrice.
     Inr \<lparr>
       jb_ID = next_id,
       jb_BatchID = cj_BatchID p,
       jb_UserID = cj_UserID p,
       jb_APIKeyID = cj_APIKeyID p,
       jb_AccountID = cj_AccountID p,
       jb_Provider = cj_Provider p,
       jb_Model = cj_Model p,
       jb_TaskName = cj_TaskName p,
       jb_ParentBatchID = cj_ParentBatchID p,
       jb_Status = cj_Status p,
       jb_ProviderJobName = cj_ProviderJobName p,
       jb_ProviderInputRef = cj_ProviderInputRef p,
       jb_ProviderOutputRef = cj_ProviderOutputRef p,
       jb_GCSInputURI = cj_GCSInputURI p,
       jb_GCSOutputURI = cj_GCSOutputURI p,
       jb_ItemCount = cj_ItemCount p,
       jb_SuccessCount = cj_SuccessCount p,
       jb_FailCount = cj_FailCount p,
       jb_CancelledCount = cj_CancelledCount p,
       jb_EstimatedCost = m_EstimatedCost,
       jb_HoldAmount = m_HoldAmount,
       jb_ActualCost = m_ActualCost,
       jb_BaseUnitPrice = m_BaseUnitPrice,
       jb_GroupRateMultiplier = m_GroupRateMultiplier,
       jb_AccountRateMultiplier = m_AccountRateMultiplier,
       jb_BatchDiscountMultiplier = m_BatchDiscountMultiplier,
       jb_HoldMultiplier = m_HoldMultiplier,
       jb_BillableUnitPrice = m_BillableUnitPrice,
       jb_HoldUnitPrice = m_HoldUnitPrice,
       jb_PricingSnapshotVersion = cj_PricingSnapshotVersion p,
       jb_Currency = cj_Currency p,
       jb_HoldID = cj_HoldID p,
       jb_IdempotencyKey = cj_IdempotencyKey p,
       jb_RequestHash = cj_RequestHash p,
       jb_ManifestHash = cj_ManifestHash p,
       jb_RetryCount = cj_RetryCount p,
       jb_Version = 0,
       jb_OutputExpiresAt = cj_OutputExpiresAt p,
       jb_InputDeletedAt = None,
       jb_OutputDeletedAt = None,
       jb_DownloadedAt = None,
       jb_UserDeletedAt = None,
       jb_LastErrorCode = None,
       jb_LastErrorMessage = None,
       jb_CreatedAt = now,
       jb_UpdatedAt = now,
       jb_SubmittedAt = None,
       jb_StartedAt = None,
       jb_FinishedAt = None,
       jb_SettledAt = None\<rparr>))))))))))"

definition scanBatchImageItem :: "'e driver_scheme \<Rightarrow> rat BatchImageItem \<Rightarrow> f64 BatchImageItem" where
  "scanBatchImageItem env r = \<lparr>
     it_ID = it_ID r,
     it_JobID = it_JobID r,
     it_CustomID = it_CustomID r,
     it_Status = it_Status r,
     it_RequestHash = it_RequestHash r,
     it_PromptPreview = it_PromptPreview r,
     it_ProviderSourceObject = it_ProviderSourceObject r,
     it_SourceLineNumber = it_SourceLineNumber r,
     it_SourceByteOffset = it_SourceByteOffset r,
     it_SourceByteLength = it_SourceByteLength r,
     it_MimeType = it_MimeType r,
     it_FileExtension = it_FileExtension r,
     it_ImageCount = it_ImageCount r,
     it_ErrorCode = it_ErrorCode r,
     it_ErrorMessage = it_ErrorMessage r,
     it_BilledAmount = map_option (of_numeric env) (it_BilledAmount r),
     it_CreatedAt = it_CreatedAt r,
     it_IndexedAt = it_IndexedAt r\<rparr>"

definition item_row :: "'e driver_scheme \<Rightarrow> int \<Rightarrow> int \<Rightarrow> CreateBatchImageItemParams \<Rightarrow> goerr + rat BatchImageItem" where
  "item_row env now next_id p =
     sum_bind (to_dec_opt env 20 10 (ci_BilledAmount p)) (\<lambda>m_BilledAmount.
     Inr \<lparr>
       it_ID = next_id,
       it_JobID = ci_JobID p,
       it_CustomID = ci_CustomID p,
       it_Status = ci_Status p,
       it_RequestHash = ci_RequestHash p,
       it_PromptPreview = ci_PromptPreview p,
       it_ProviderSourceObject = ci_ProviderSourceObject p,
       it_SourceLineNumber = ci_SourceLineNumber p,
       it_SourceByteOffset = ci_SourceByteOffset p,
       it_SourceByteLength = ci_SourceByteLength p,
       it_MimeType = ci_MimeType p,
       it_FileExtension = ci_FileExtension p,
       it_ImageCount = ci_ImageCount p,
       it_ErrorCode = ci_ErrorCode p,
       it_ErrorMessage = ci_ErrorMessage p,
       it_BilledAmount = m_BilledAmount,
       it_CreatedAt = now,
       it_IndexedAt = ci_IndexedAt p\<rparr>)"

subsection \<open>Statements on jobs\<close>

definition find_job :: "'z batch_db_scheme \<Rightarrow> string \<Rightarrow> rat BatchImageJob option" where
  "find_job w b = find (\<lambda>j. jb_BatchID j = b) (jobs w)"

definition put_job :: "rat BatchImageJob \<Rightarrow> 'z batch_db_scheme \<Rightarrow> 'z batch_db_scheme" where
  "put_job j' w = w\<lparr>jobs := map (\<lambda>j. if jb_BatchID j = jb_BatchID j' then j' else j) (jobs w)\<rparr>"

text \<open>
  \<open>exec_job b p f\<close> is \<^verbatim>\<open>UPDATE batch_image_jobs SET ... WHERE batch_id = b AND p\<close> and answers the
  number of affected rows; \<open>f\<close> is the SET list, which fails where a column does.
\<close>

definition exec_job :: "string \<Rightarrow> (rat BatchImageJob \<Rightarrow> bool) \<Rightarrow>
    (rat BatchImageJob \<Rightarrow> goerr + rat BatchImageJob) \<Rightarrow> ('z batch_db_scheme, goerr + int) state" where
  "exec_job b p f = stmt (\<lambda>w. case find_job w b of
      None \<Rightarrow> (Inr 0, w)
    | Some j \<Rightarrow> if \<not> p j then (Inr 0, w)
        else (case f j of Inl e \<Rightarrow> (Inl e, w) | Inr j' \<Rightarrow> (Inr 1, put_job j' w)))"

definition select_job :: "(rat BatchImageJob \<Rightarrow> bool) \<Rightarrow> ('z batch_db_scheme, goerr + rat BatchImageJob) state" where
  "select_job p = stmt (\<lambda>w. (case find p (jobs w) of None \<Rightarrow> Inl sql_no_rows | Some j \<Rightarrow> Inr j, w))"

definition select_jobs :: "(rat BatchImageJob list \<Rightarrow> rat BatchImageJob list) \<Rightarrow>
    ('z batch_db_scheme, goerr + rat BatchImageJob list) state" where
  "select_jobs q = stmt (\<lambda>w. (Inr (q (jobs w)), w))"

definition touch :: "int \<Rightarrow> rat BatchImageJob \<Rightarrow> rat BatchImageJob" where
  "touch now j = j\<lparr>jb_UpdatedAt := now, jb_Version := jb_Version j + 1\<rparr>"

text \<open>\<^verbatim>\<open>last_error_code\<close> is a \<^verbatim>\<open>VARCHAR(128)\<close>.\<close>

definition set_error :: "string option \<Rightarrow> string option \<Rightarrow> rat BatchImageJob \<Rightarrow> goerr + rat BatchImageJob" where
  "set_error code msg j = (case code of
      Some c \<Rightarrow> if varchar_fits 128 c then Inr (j\<lparr>jb_LastErrorCode := code, jb_LastErrorMessage := msg\<rparr>)
        else Inl sql_too_long
    | None \<Rightarrow> Inr (j\<lparr>jb_LastErrorCode := None, jb_LastErrorMessage := msg\<rparr>))"

definition appendBatchImageEventWithSQL ::
  "string \<Rightarrow> string \<Rightarrow> payload option \<Rightarrow> ('z batch_db_scheme, goerr + unit) state" where
  "appendBatchImageEventWithSQL batchID eventType payload =
     (if (case payload of Some p \<Rightarrow> \<not> marshal_ok p | None \<Rightarrow> False) then ret (Inl json_unsupported)
      else stmt (\<lambda>w. if find_job w batchID = None then (Inl sql_foreign_key, w)
                     else (Inr (), w\<lparr>events := events w @ [(batchID, eventType, payload)]\<rparr>)))"

text \<open>A statement whose effect must hit a row, followed by the event it logs.\<close>

definition require_row :: "goerr \<Rightarrow> goerr + int \<Rightarrow> ('s, goerr + 'a) state \<Rightarrow> ('s, goerr + 'a) state" where
  "require_row none res k = chain res (\<lambda>affected. if affected = 0 then ret (Inl none) else k)"

definition in_tx :: "('z world_scheme, goerr + unit) state \<Rightarrow> ('z world_scheme, goerr + unit) state" where
  "in_tx body = with_tx (do { r \<leftarrow> body; chain r (\<lambda>_. ret (Inr ((), True))) })"

subsection \<open>Creating and reading jobs\<close>

definition NewBatchImageID :: "('z batch_db_scheme, goerr + string) state" where
  "NewBatchImageID = State (\<lambda>w. case entropy w of
      [] \<Rightarrow> (Inl (PlainErr ''rand: read failed''), w)
    | h # hs \<Rightarrow> (Inr (''imgbatch_'' @ h), w\<lparr>entropy := hs\<rparr>))"

definition job_columns_fit :: "CreateBatchImageJobParams \<Rightarrow> bool" where
  "job_columns_fit p \<longleftrightarrow> varchar_fits 64 (cj_BatchID p) \<and> varchar_fits 32 (cj_Provider p)
     \<and> varchar_fits 128 (cj_Model p) \<and> varchar_fits 255 (cj_TaskName p)
     \<and> varchar_fits 32 (cj_Status p) \<and> varchar_fits 16 (cj_Currency p)
     \<and> varchar_fits 255 (deref_or [] (cj_IdempotencyKey p))
     \<and> varchar_fits 128 (deref_or [] (cj_RequestHash p))"

definition createBatchImageJobWithSQL :: "'e driver_scheme \<Rightarrow> CreateBatchImageJobParams \<Rightarrow>
    ('z batch_db_scheme, goerr + f64 BatchImageJob) state" where
  "createBatchImageJobWithSQL env p = do {
     now \<leftarrow> time_now;
     stmt (\<lambda>w. case job_row env now (next_job_id w) p of
         Inl e \<Rightarrow> (Inl e, w)
       | Inr j \<Rightarrow>
           if \<not> job_columns_fit p then (Inl sql_too_long, w)
           else if find_job w (cj_BatchID p) \<noteq> None
              \<or> deref_or [] (cj_ManifestHash p) \<noteq> []
                \<and> (\<exists>j \<in> set (jobs w). jb_ManifestHash j = cj_ManifestHash p)
           then (Inl sql_unique, w)
           else (Inr (scanBatchImageJob env j),
                 w\<lparr>jobs := jobs w @ [j], next_job_id := next_job_id w + 1\<rparr>)) }"

definition CreateBatchImageJob :: "'e driver_scheme \<Rightarrow> CreateBatchImageJobParams \<Rightarrow>
    ('z batch_db_scheme, goerr + f64 BatchImageJob) state" where
  "CreateBatchImageJob env p0 =
     (if \<not> IsSupportedBatchImageProvider (cj_Provider p0) then ret (Inl ErrBatchImageInvalidProvider)
      else do {
        idr \<leftarrow> (if cj_BatchID p0 = [] then NewBatchImageID else ret (Inr (cj_BatchID p0)));
        chain idr (\<lambda>batchID. do {
          let p = p0\<lparr>cj_BatchID := batchID,
             cj_Status := (if cj_Status p0 = [] then BatchImageJobStatusCreated else cj_Status p0),
             cj_Currency := (if cj_Currency p0 = [] then ''USD'' else cj_Currency p0)\<rparr>;
          r \<leftarrow> createBatchImageJobWithSQL env p;
          ret (case r of
            Inl err \<Rightarrow> Inl (translatePersistenceError err None (Some ErrBatchImageJobExists))
          | Inr job \<Rightarrow> Inr job) }) })"

definition read_job :: "'e driver_scheme \<Rightarrow> (rat BatchImageJob \<Rightarrow> bool) \<Rightarrow>
    ('z batch_db_scheme, goerr + f64 BatchImageJob) state" where
  "read_job env p = do {
     r \<leftarrow> select_job p;
     ret (case r of
       Inl err \<Rightarrow> Inl (translatePersistenceError err (Some ErrBatchImageJobNotFound) None)
     | Inr j \<Rightarrow> Inr (scanBatchImageJob env j)) }"

definition GetBatchImageJobByBatchID :: "'e driver_scheme \<Rightarrow> string \<Rightarrow>
    ('z batch_db_scheme, goerr + f64 BatchImageJob) state" where
  "GetBatchImageJobByBatchID env batchID = read_job env (\<lambda>j. jb_BatchID j = batchID)"

definition GetBatchImageJobByBatchIDForOwner :: "'e driver_scheme \<Rightarrow> int \<Rightarrow> int \<Rightarrow> string \<Rightarrow>
    ('z batch_db_scheme, goerr + f64 BatchImageJob) state" where
  "GetBatchImageJobByBatchIDForOwner env userID apiKeyID batchID = read_job env (\<lambda>j.
     jb_BatchID j = batchID \<and> jb_UserID j = userID \<and> jb_APIKeyID j = Some apiKeyID
     \<and> jb_UserDeletedAt j = None)"

definition GetBatchImageJobByID :: "'e driver_scheme \<Rightarrow> int \<Rightarrow>
    ('z batch_db_scheme, goerr + f64 BatchImageJob) state" where
  "GetBatchImageJobByID env i = read_job env (\<lambda>j. jb_ID j = i)"

text \<open>\<^verbatim>\<open>ORDER BY id DESC LIMIT 1\<close>: the last row that matches.\<close>

definition GetBatchImageJobByIdempotencyKey :: "'e driver_scheme \<Rightarrow> int \<Rightarrow> int \<Rightarrow> string \<Rightarrow>
    ('z batch_db_scheme, goerr + f64 BatchImageJob) state" where
  "GetBatchImageJobByIdempotencyKey env userID apiKeyID key = do {
     r \<leftarrow> stmt (\<lambda>w. (case find (\<lambda>j. jb_UserID j = userID \<and> jb_APIKeyID j = Some apiKeyID
                                 \<and> jb_IdempotencyKey j = Some key) (rev (jobs w)) of
            None \<Rightarrow> Inl sql_no_rows | Some j \<Rightarrow> Inr j, w));
     ret (case r of
       Inl err \<Rightarrow> Inl (translatePersistenceError err (Some ErrBatchImageJobNotFound) None)
     | Inr j \<Rightarrow> Inr (scanBatchImageJob env j)) }"

text \<open>
  \<^verbatim>\<open>ILIKE\<close>: \<open>%\<close> any text, \<open>_\<close> one character, a backslash quotes the next character; letters are
  compared without case (ASCII letters only here).
\<close>

definition utf8_cont :: "char \<Rightarrow> bool" where
  "utf8_cont c \<longleftrightarrow> (of_char c :: nat) div 64 = 2"

lemma utf8_cont_code [code]: "utf8_cont c = (digit7 c \<and> \<not> digit6 c)"
  by (simp add: utf8_cont_def continuation_byte)

fun ilike_suffixes :: "(string \<Rightarrow> bool) \<Rightarrow> string \<Rightarrow> bool" where
  "ilike_suffixes k [] = k []"
| "ilike_suffixes k (c # s) = (k (c # s) \<or> ilike_suffixes k s)"

fun ilike :: "string \<Rightarrow> string \<Rightarrow> bool" where
  "ilike [] s \<longleftrightarrow> s = []"
| "ilike (p # ps) s \<longleftrightarrow>
     (if p = CHR ''%'' then ilike_suffixes (ilike ps) s
      else if p = CHR ''_'' then (case s of [] \<Rightarrow> False | c # r \<Rightarrow> ilike ps (dropWhile utf8_cont r))
      else if p = CHR 0x5C \<and> ps \<noteq> [] then
        (case s of [] \<Rightarrow> False | c # r \<Rightarrow> lower_char c = lower_char (hd ps) \<and> ilike (tl ps) r)
      else (case s of [] \<Rightarrow> False | c # r \<Rightarrow> lower_char c = lower_char p \<and> ilike ps r))"

definition job_matches :: "BatchImageJobFilter \<Rightarrow> rat BatchImageJob \<Rightarrow> bool" where
  "job_matches f j \<longleftrightarrow>
     (jf_ExcludeDeleted f \<longrightarrow> jb_UserDeletedAt j = None)
     \<and> (jf_Status f \<noteq> [] \<longrightarrow> jb_Status j = jf_Status f)
     \<and> (jf_TaskNameLike f \<noteq> [] \<longrightarrow> ilike (''%'' @ jf_TaskNameLike f @ ''%'') (jb_TaskName j))
     \<and> (case jf_Downloaded f of None \<Rightarrow> True
        | Some d \<Rightarrow> if d then jb_DownloadedAt j \<noteq> None else jb_DownloadedAt j = None)
     \<and> (case jf_CreatedAfter f of None \<Rightarrow> True | Some t \<Rightarrow> t \<le> jb_CreatedAt j)
     \<and> (case jf_CreatedBefore f of None \<Rightarrow> True | Some t \<Rightarrow> jb_CreatedAt j < t)"

definition clamp_limit :: "int \<Rightarrow> int \<Rightarrow> int \<Rightarrow> nat" where
  "clamp_limit limit upper dflt = nat (if limit \<le> 0 \<or> upper < limit then dflt else limit)"

definition clamp_offset :: "int \<Rightarrow> nat" where
  "clamp_offset offset = nat (if offset < 0 then 0 else offset)"

text \<open>\<^verbatim>\<open>ORDER BY created_at DESC, id DESC\<close>: the rows by descending id, stably sorted by time.\<close>

definition ListBatchImageJobsForOwner :: "'e driver_scheme \<Rightarrow> int \<Rightarrow> int \<Rightarrow> BatchImageJobFilter \<Rightarrow>
    ('z batch_db_scheme, goerr + f64 BatchImageJob list) state" where
  "ListBatchImageJobsForOwner env userID apiKeyID f = do {
     r \<leftarrow> select_jobs (\<lambda>js. take (clamp_limit (jf_Limit f) 100 20) (drop (clamp_offset (jf_Offset f))
       (sort_key (\<lambda>j. - jb_CreatedAt j) (rev (filter (\<lambda>j. jb_UserID j = userID
          \<and> jb_APIKeyID j = Some apiKeyID \<and> job_matches f j) js)))));
     ret (case r of Inl err \<Rightarrow> Inl err | Inr js \<Rightarrow> Inr (map (scanBatchImageJob env) js)) }"

subsection \<open>Status changes\<close>

definition select_status_for_update :: "string \<Rightarrow> ('z batch_db_scheme, goerr + string) state" where
  "select_status_for_update batchID = stmt (\<lambda>w. (case find_job w batchID of
      None \<Rightarrow> Inl (WithCause ErrBatchImageJobNotFound sql_no_rows) | Some j \<Rightarrow> Inr (jb_Status j), w))"

definition set_status :: "int \<Rightarrow> string \<Rightarrow> string option \<Rightarrow> string option \<Rightarrow>
    rat BatchImageJob \<Rightarrow> goerr + rat BatchImageJob" where
  "set_status now toStatus code msg j =
     sum_bind (if toStatus = BatchImageJobStatusFailed then set_error code msg j else Inr j) (\<lambda>j1.
     Inr ((touch now j1)\<lparr>
       jb_Status := toStatus,
       jb_SubmittedAt := (if toStatus = BatchImageJobStatusSubmitted
                          then coalesce (jb_SubmittedAt j) now else jb_SubmittedAt j),
       jb_StartedAt := (if toStatus = BatchImageJobStatusRunning
                        then coalesce (jb_StartedAt j) now else jb_StartedAt j),
       jb_FinishedAt := (if toStatus \<in> {BatchImageJobStatusCompleted, BatchImageJobStatusFailed,
                                        BatchImageJobStatusCancelled}
                         then coalesce (jb_FinishedAt j) now else jb_FinishedAt j),
       jb_SettledAt := (if toStatus = BatchImageJobStatusCompleted
                        then coalesce (jb_SettledAt j) now else jb_SettledAt j),
       jb_OutputDeletedAt := (if toStatus = BatchImageJobStatusOutputDeleted
                              then coalesce (jb_OutputDeletedAt j) now else jb_OutputDeletedAt j)\<rparr>))"

definition transitionBatchImageJobStatusWithSQL ::
  "string \<Rightarrow> string \<Rightarrow> BatchImageTransitionOptions \<Rightarrow> ('z batch_db_scheme, goerr + unit) state" where
  "transitionBatchImageJobStatusWithSQL batchID toStatus opts = do {
     current \<leftarrow> select_status_for_update batchID;
     chain current (\<lambda>current.
       if \<not> CanTransitionBatchImageJob current toStatus then ret (Inl ErrBatchImageInvalidTransition)
       else do {
         t \<leftarrow> time_now;
         let now = deref_or t (to_Now opts);
         r \<leftarrow> exec_job batchID (\<lambda>_. True)
               (set_status now toStatus (to_ErrorCode opts) (to_ErrorMessage opts));
         chain r (\<lambda>_.
           if to_EventType opts \<noteq> []
           then appendBatchImageEventWithSQL batchID (to_EventType opts) (to_EventPayload opts)
           else ret (Inr ())) }) }"

definition TransitionBatchImageJobStatus ::
  "string \<Rightarrow> string \<Rightarrow> BatchImageTransitionOptions \<Rightarrow> ('z batch_db_scheme, goerr + unit) state" where
  "TransitionBatchImageJobStatus batchID toStatus opts =
     in_tx (transitionBatchImageJobStatusWithSQL batchID toStatus opts)"

definition unsubmitted :: "string \<Rightarrow> bool" where
  "unsubmitted s \<longleftrightarrow> s \<in> {BatchImageJobStatusCreated, BatchImageJobStatusUploading}"

definition TouchBatchImageJobSubmitting :: "string \<Rightarrow> ('z batch_db_scheme, goerr + unit) state" where
  "TouchBatchImageJobSubmitting batchID = do {
     now \<leftarrow> time_now;
     r \<leftarrow> exec_job batchID (\<lambda>j. unsubmitted (jb_Status j)) (\<lambda>j. Inr (j\<lparr>jb_UpdatedAt := now\<rparr>));
     chain r (\<lambda>_. ret (Inr ())) }"

text \<open>The answer is Go's pair of a flag and an error: the flag is set even when the event fails.\<close>

definition FailStaleUnsubmittedBatchImageJob ::
  "string \<Rightarrow> int \<Rightarrow> string \<Rightarrow> string \<Rightarrow> ('z batch_db_scheme, bool \<times> goerr option) state" where
  "FailStaleUnsubmittedBatchImageJob batchID cutoff code message = do {
     now \<leftarrow> time_now;
     r \<leftarrow> exec_job batchID
           (\<lambda>j. unsubmitted (jb_Status j) \<and> jb_ProviderJobName j = None \<and> jb_UpdatedAt j \<le> cutoff)
           (\<lambda>j. sum_bind (set_error (Some code) (Some message) j) (\<lambda>j1.
              Inr ((touch now j1)\<lparr>jb_Status := BatchImageJobStatusFailed,
                     jb_FinishedAt := coalesce (jb_FinishedAt j) now\<rparr>)));
     case r of
       Inl err \<Rightarrow> ret (False, Some err)
     | Inr affected \<Rightarrow>
         if affected = 0 then ret (False, None)
         else do {
           e \<leftarrow> appendBatchImageEventWithSQL batchID ''billing_hold_recovery_failed_unsubmitted''
                 (Some [(''batch_id'', JStr batchID), (''error_code'', JStr code)]);
           ret (True, case e of Inl err \<Rightarrow> Some err | Inr _ \<Rightarrow> None) } }"

definition UpdateBatchImageJobProviderOutputRef ::
  "string \<Rightarrow> string \<Rightarrow> ('z batch_db_scheme, goerr + unit) state" where
  "UpdateBatchImageJobProviderOutputRef batchID ref = do {
     now \<leftarrow> time_now;
     r \<leftarrow> exec_job batchID (\<lambda>_. True) (\<lambda>j.
            if \<not> varchar_fits 1024 ref then Inl sql_too_long
            else Inr (j\<lparr>jb_ProviderOutputRef := Some ref, jb_UpdatedAt := now\<rparr>));
     case r of
       Inl err \<Rightarrow> ret (Inl (translatePersistenceError err (Some ErrBatchImageJobNotFound) None))
     | Inr affected \<Rightarrow> ret (if affected = 0 then Inl ErrBatchImageJobNotFound else Inr ()) }"

definition set_submitted :: "int \<Rightarrow> UpdateBatchImageJobProviderSubmitParams \<Rightarrow>
    rat BatchImageJob \<Rightarrow> goerr + rat BatchImageJob" where
  "set_submitted now p j =
     (if \<not> (varchar_fits 512 (ps_ProviderJobName p) \<and> varchar_fits 1024 (ps_ProviderInputRef p)
            \<and> varchar_fits 1024 (ps_ProviderOutputRef p) \<and> varchar_fits 1024 (ps_GCSInputURI p)
            \<and> varchar_fits 1024 (ps_GCSOutputURI p)) then Inl sql_too_long
      else Inr ((touch now j)\<lparr>jb_Status := BatchImageJobStatusSubmitted,
        jb_ProviderJobName := Some (ps_ProviderJobName p),
        jb_ProviderInputRef := nullif_empty (ps_ProviderInputRef p),
        jb_ProviderOutputRef := nullif_empty (ps_ProviderOutputRef p),
        jb_GCSInputURI := nullif_empty (ps_GCSInputURI p),
        jb_GCSOutputURI := nullif_empty (ps_GCSOutputURI p),
        jb_SubmittedAt := coalesce (jb_SubmittedAt j) now\<rparr>))"

definition updateBatchImageJobProviderSubmitWithSQL ::
  "UpdateBatchImageJobProviderSubmitParams \<Rightarrow> ('z batch_db_scheme, goerr + unit) state" where
  "updateBatchImageJobProviderSubmitWithSQL p = do {
     current \<leftarrow> select_status_for_update (ps_BatchID p);
     chain current (\<lambda>current.
       if \<not> CanTransitionBatchImageJob current BatchImageJobStatusSubmitted
       then ret (Inl ErrBatchImageInvalidTransition)
       else do {
         now \<leftarrow> time_now;
         r \<leftarrow> exec_job (ps_BatchID p) (\<lambda>_. True) (set_submitted now p);
         chain r (\<lambda>_. appendBatchImageEventWithSQL (ps_BatchID p) ''provider_submitted'' (ps_EventPayload p)) }) }"

definition UpdateBatchImageJobProviderSubmit ::
  "UpdateBatchImageJobProviderSubmitParams \<Rightarrow> ('z batch_db_scheme, goerr + unit) state" where
  "UpdateBatchImageJobProviderSubmit p = in_tx (updateBatchImageJobProviderSubmitWithSQL p)"

definition RecordBatchImageJobSubmitFailure ::
  "string \<Rightarrow> string \<Rightarrow> string \<Rightarrow> bool \<Rightarrow> ('z batch_db_scheme, goerr + unit) state" where
  "RecordBatchImageJobSubmitFailure batchID code message markFailed = do {
     now \<leftarrow> time_now;
     r \<leftarrow> exec_job batchID (\<lambda>_. True) (\<lambda>j.
            let status = (if markFailed then BatchImageJobStatusFailed else jb_Status j) in
            sum_bind (set_error (Some code) (Some message) j) (\<lambda>j1.
            Inr ((touch now j1)\<lparr>jb_Status := status,
              jb_FinishedAt := (if status = BatchImageJobStatusFailed
                                then coalesce (jb_FinishedAt j) now else jb_FinishedAt j)\<rparr>)));
     chain r (\<lambda>_. appendBatchImageEventWithSQL batchID
        (if markFailed then ''submit_failed'' else ''queue_failed'') (Some [(''error_code'', JStr code)])) }"

definition settle_row :: "'e driver_scheme \<Rightarrow> int \<Rightarrow> MarkBatchImageJobSettledParams \<Rightarrow>
    rat BatchImageJob \<Rightarrow> goerr + rat BatchImageJob" where
  "settle_row env now p j = sum_bind (to_dec env 20 10 (ms_ActualCost p)) (\<lambda>cost.
     if \<not> varchar_fits 128 (ms_ManifestHash p) then Inl sql_too_long
     else Inr ((touch now j)\<lparr>jb_Status := BatchImageJobStatusCompleted,
       jb_ActualCost := Some cost,
       jb_ManifestHash := Some (ms_ManifestHash p),
       jb_SettledAt := coalesce (jb_SettledAt j) now,
       jb_FinishedAt := coalesce (jb_FinishedAt j) now,
       jb_OutputExpiresAt := (if jb_OutputExpiresAt j = None then ms_OutputExpiresAt p
                              else jb_OutputExpiresAt j)\<rparr>))"

text \<open>The unique index on \<^verbatim>\<open>manifest_hash\<close> (migration 159) covers every job.\<close>

definition manifest_taken :: "'z batch_db_scheme \<Rightarrow> string \<Rightarrow> string \<Rightarrow> bool" where
  "manifest_taken w batchID h \<longleftrightarrow> h \<noteq> [] \<and>
     (\<exists>j \<in> set (jobs w). jb_BatchID j \<noteq> batchID \<and> jb_ManifestHash j = Some h)"

definition markBatchImageJobSettledWithSQL ::
  "'e driver_scheme \<Rightarrow> MarkBatchImageJobSettledParams \<Rightarrow> ('z batch_db_scheme, goerr + unit) state" where
  "markBatchImageJobSettledWithSQL env p = do {
     t \<leftarrow> time_now;
     let now = deref_or t (ms_Now p);
     r \<leftarrow> stmt (\<lambda>w. case find_job w (ms_BatchID p) of
            None \<Rightarrow> (Inr (0::int), w)
          | Some j \<Rightarrow>
              if \<not> (jb_Status j = BatchImageJobStatusSettling
                     \<and> (deref_or [] (jb_ManifestHash j) = []
                        \<or> jb_ManifestHash j = Some (ms_ManifestHash p)))
              then (Inr 0, w)
              else if manifest_taken w (ms_BatchID p) (ms_ManifestHash p) then (Inl sql_unique, w)
              else (case settle_row env now p j of
                 Inl e \<Rightarrow> (Inl e, w) | Inr j' \<Rightarrow> (Inr 1, put_job j' w)));
     chain r (\<lambda>affected.
       if affected = 0 then do {
         g \<leftarrow> select_job (\<lambda>j. jb_BatchID j = ms_BatchID p);
         ret (case g of
           Inl e \<Rightarrow> Inl (translatePersistenceError e (Some ErrBatchImageJobNotFound) None)
         | Inr job \<Rightarrow>
             if jb_Status job \<noteq> BatchImageJobStatusSettling then
               (if jb_Status job = BatchImageJobStatusCompleted then Inl ErrBatchImageAlreadySettled
                else Inl ErrBatchImageSettlementInvalidStatus)
             else Inl ErrBatchImageSettlementManifestConflict)
       } else appendBatchImageEventWithSQL (ms_BatchID p) ''settlement_completed'' (ms_EventPayload p)) }"

definition MarkBatchImageJobSettled ::
  "'e driver_scheme \<Rightarrow> MarkBatchImageJobSettledParams \<Rightarrow> ('z batch_db_scheme, goerr + unit) state" where
  "MarkBatchImageJobSettled env p = in_tx (markBatchImageJobSettledWithSQL env p)"

text \<open>Go answers the retry count together with the error of the event, if any.\<close>

definition SetBatchImageJobSettlementFailed ::
  "string \<Rightarrow> string \<Rightarrow> string \<Rightarrow> ('z batch_db_scheme, int \<times> goerr option) state" where
  "SetBatchImageJobSettlementFailed batchID code message = do {
     now \<leftarrow> time_now;
     r \<leftarrow> stmt (\<lambda>w. case find_job w batchID of
            None \<Rightarrow> (Inl sql_no_rows, w)
          | Some j \<Rightarrow> (case set_error (Some code) (Some message) j of
               Inl e \<Rightarrow> (Inl e, w)
             | Inr j1 \<Rightarrow> (Inr (jb_RetryCount j + 1),
                  put_job (j1\<lparr>jb_RetryCount := jb_RetryCount j + 1, jb_UpdatedAt := now\<rparr>) w)));
     case r of
       Inl err \<Rightarrow> ret (0, Some (translatePersistenceError err (Some ErrBatchImageJobNotFound) None))
     | Inr retryCount \<Rightarrow> do {
         e \<leftarrow> appendBatchImageEventWithSQL batchID ''settlement_failed'' (Some [(''error_code'', JStr code)]);
         ret (retryCount, case e of Inl err \<Rightarrow> Some err | Inr _ \<Rightarrow> None) } }"

subsection \<open>Items\<close>

record BatchImageCounts =
  bc_SuccessCount :: int
  bc_FailCount :: int

definition createBatchImageItemWithSQL :: "'e driver_scheme \<Rightarrow> CreateBatchImageItemParams \<Rightarrow>
    ('z batch_db_scheme, goerr + f64 BatchImageItem) state" where
  "createBatchImageItemWithSQL env p = do {
     now \<leftarrow> time_now;
     stmt (\<lambda>w. case item_row env now (next_item_id w) p of
         Inl e \<Rightarrow> (Inl e, w)
       | Inr it \<Rightarrow>
           if \<not> (varchar_fits 255 (ci_CustomID p) \<and> varchar_fits 32 (ci_Status p)) then (Inl sql_too_long, w)
           else if find_job w (ci_JobID p) = None then (Inl sql_foreign_key, w)
           else if \<exists>i \<in> set (items w). it_JobID i = ci_JobID p \<and> it_CustomID i = ci_CustomID p
           then (Inl sql_unique, w)
           else (Inr (scanBatchImageItem env it),
                 w\<lparr>items := items w @ [it], next_item_id := next_item_id w + 1\<rparr>)) }"

definition CreateBatchImageItem :: "'e driver_scheme \<Rightarrow> CreateBatchImageItemParams \<Rightarrow>
    ('z batch_db_scheme, goerr + f64 BatchImageItem) state" where
  "CreateBatchImageItem env p = do {
     r \<leftarrow> createBatchImageItemWithSQL env p;
     ret (case r of
       Inl err \<Rightarrow> Inl (translatePersistenceError err None (Some ErrBatchImageItemExists))
     | Inr item \<Rightarrow> Inr item) }"

text \<open>The loops that insert items one by one and stop at the first error.\<close>

fun insert_items :: "'e driver_scheme \<Rightarrow> CreateBatchImageItemParams list \<Rightarrow>
    ('z batch_db_scheme, goerr + unit) state" where
  "insert_items env [] = ret (Inr ())"
| "insert_items env (p # ps) = do {
     r \<leftarrow> CreateBatchImageItem env p;
     chain r (\<lambda>_. insert_items env ps) }"

definition BulkCreateBatchImageItems :: "'e driver_scheme \<Rightarrow> CreateBatchImageItemParams list \<Rightarrow>
    ('z batch_db_scheme, goerr + unit) state" where
  "BulkCreateBatchImageItems env ps =
     (if ps = [] then ret (Inr ()) else in_tx (insert_items env ps))"

definition batchImageItemPromptPreviews :: "string \<Rightarrow>
    ('z batch_db_scheme, goerr + (string \<times> string) list) state" where
  "batchImageItemPromptPreviews batchID = stmt (\<lambda>w. (Inr
     [(it_CustomID i, the (it_PromptPreview i)). i \<leftarrow> items w,
        it_JobID i = batchID \<and> deref_or [] (it_PromptPreview i) \<noteq> []], w))"

definition with_preview :: "(string \<times> string) list \<Rightarrow> string \<Rightarrow> CreateBatchImageItemParams \<Rightarrow>
    CreateBatchImageItemParams" where
  "with_preview previews batchID p0 = (let p = p0\<lparr>ci_JobID := batchID\<rparr> in
     if ci_PromptPreview p = None then
       (case map_of previews (ci_CustomID p) of
          Some s \<Rightarrow> if s \<noteq> [] then p\<lparr>ci_PromptPreview := Some s\<rparr> else p
        | None \<Rightarrow> p)
     else p)"

definition replaceBatchImageItemsForJobWithSQL ::
  "'e driver_scheme \<Rightarrow> string \<Rightarrow> CreateBatchImageItemParams list \<Rightarrow> BatchImageCounts \<Rightarrow>
   ('z batch_db_scheme, goerr + unit) state" where
  "replaceBatchImageItemsForJobWithSQL env batchID ps counts = do {
     status \<leftarrow> select_status_for_update batchID;
     chain status (\<lambda>status.
       if status \<noteq> BatchImageJobStatusIndexing then ret (Inl ErrBatchImageIndexStateConflict)
       else do {
         previews \<leftarrow> batchImageItemPromptPreviews batchID;
         chain previews (\<lambda>previews. do {
           d \<leftarrow> stmt (\<lambda>w. (Inr (), w\<lparr>items := filter (\<lambda>i. it_JobID i \<noteq> batchID) (items w)\<rparr>));
           chain d (\<lambda>_. do {
             ins \<leftarrow> insert_items env (map (with_preview previews batchID) ps);
             chain ins (\<lambda>_. do {
               now \<leftarrow> time_now;
               u \<leftarrow> exec_job batchID (\<lambda>_. True) (\<lambda>j. Inr (j\<lparr>jb_SuccessCount := bc_SuccessCount counts,
                     jb_FailCount := bc_FailCount counts, jb_UpdatedAt := now\<rparr>));
               chain u (\<lambda>_. ret (Inr ())) }) }) }) }) }"

definition ReplaceBatchImageItemsForJob ::
  "'e driver_scheme \<Rightarrow> string \<Rightarrow> CreateBatchImageItemParams list \<Rightarrow> BatchImageCounts \<Rightarrow>
   ('z batch_db_scheme, goerr + unit) state" where
  "ReplaceBatchImageItemsForJob env batchID ps counts =
     in_tx (replaceBatchImageItemsForJobWithSQL env batchID ps counts)"

definition ListBatchImageItems :: "'e driver_scheme \<Rightarrow> string \<Rightarrow> BatchImageItemFilter \<Rightarrow>
    ('z batch_db_scheme, goerr + f64 BatchImageItem list) state" where
  "ListBatchImageItems env batchID f = stmt (\<lambda>w. (Inr (map (scanBatchImageItem env)
     (take (clamp_limit (itf_Limit f) 500 100) (drop (clamp_offset (itf_Offset f))
        (filter (\<lambda>i. it_JobID i = batchID \<and> (itf_Status f \<noteq> [] \<longrightarrow> it_Status i = itf_Status f))
           (items w))))), w))"

definition ListBatchImageItemsForOwner :: "'e driver_scheme \<Rightarrow> int \<Rightarrow> int \<Rightarrow> string \<Rightarrow>
    BatchImageItemFilter \<Rightarrow> ('z batch_db_scheme, goerr + f64 BatchImageItem list) state" where
  "ListBatchImageItemsForOwner env userID apiKeyID batchID f = do {
     r \<leftarrow> GetBatchImageJobByBatchIDForOwner env userID apiKeyID batchID;
     chain r (\<lambda>_. ListBatchImageItems env batchID f) }"

definition GetBatchImageItemForDownload :: "'e driver_scheme \<Rightarrow> string \<Rightarrow> string \<Rightarrow>
    ('z batch_db_scheme, goerr + f64 BatchImageItem) state" where
  "GetBatchImageItemForDownload env batchID customID = do {
     r \<leftarrow> stmt (\<lambda>w. (case find (\<lambda>i. it_JobID i = batchID \<and> it_CustomID i = customID) (items w) of
            None \<Rightarrow> Inl sql_no_rows | Some i \<Rightarrow> Inr i, w));
     ret (case r of
       Inl err \<Rightarrow> Inl (translatePersistenceError err (Some ErrBatchImageItemNotFound) None)
     | Inr i \<Rightarrow> Inr (scanBatchImageItem env i)) }"

definition ListBatchImageItemsForDownload :: "'e driver_scheme \<Rightarrow> string \<Rightarrow> string \<Rightarrow> int \<Rightarrow>
    ('z batch_db_scheme, goerr + f64 BatchImageItem list) state" where
  "ListBatchImageItemsForDownload env batchID status limit =
     ListBatchImageItems env batchID \<lparr>itf_Status = status, itf_Limit = limit, itf_Offset = 0\<rparr>"

subsection \<open>Cleanup and bookkeeping\<close>

definition terminal_statuses :: "string list" where
  "terminal_statuses = [BatchImageJobStatusCompleted, BatchImageJobStatusFailed,
     BatchImageJobStatusCancelled, BatchImageJobStatusOutputDeleted]"

definition list_jobs :: "'e driver_scheme \<Rightarrow> (rat BatchImageJob list \<Rightarrow> rat BatchImageJob list) \<Rightarrow>
    ('z batch_db_scheme, goerr + f64 BatchImageJob list) state" where
  "list_jobs env q = do {
     r \<leftarrow> select_jobs q;
     ret (case r of Inl err \<Rightarrow> Inl err | Inr js \<Rightarrow> Inr (map (scanBatchImageJob env) js)) }"

definition ListBatchImageJobsDueForInputCleanup :: "'e driver_scheme \<Rightarrow> int \<Rightarrow> int \<Rightarrow>
    ('z batch_db_scheme, goerr + f64 BatchImageJob list) state" where
  "ListBatchImageJobsDueForInputCleanup env cutoff limit = list_jobs env (\<lambda>js.
     take (clamp_limit limit 1000 100) (filter (\<lambda>j.
        jb_InputDeletedAt j = None \<and> jb_ProviderInputRef j \<noteq> None
        \<and> jb_Status j \<in> set terminal_statuses
        \<and> deref_or (deref_or (jb_UpdatedAt j) (jb_SettledAt j)) (jb_FinishedAt j) \<le> cutoff) js))"

definition ListBatchImageJobsDueForOutputCleanup :: "'e driver_scheme \<Rightarrow> int \<Rightarrow> int \<Rightarrow>
    ('z batch_db_scheme, goerr + f64 BatchImageJob list) state" where
  "ListBatchImageJobsDueForOutputCleanup env now limit = list_jobs env (\<lambda>js.
     take (clamp_limit limit 1000 100) (sort_key (\<lambda>j. deref_or 0 (jb_OutputExpiresAt j)) (filter (\<lambda>j.
        jb_OutputDeletedAt j = None \<and> jb_ProviderOutputRef j \<noteq> None
        \<and> jb_Status j = BatchImageJobStatusCompleted
        \<and> (case jb_OutputExpiresAt j of None \<Rightarrow> False | Some t \<Rightarrow> t \<le> now)) js)))"

definition ListStaleUnsubmittedBatchImageJobs :: "'e driver_scheme \<Rightarrow> int \<Rightarrow> int \<Rightarrow>
    ('z batch_db_scheme, goerr + f64 BatchImageJob list) state" where
  "ListStaleUnsubmittedBatchImageJobs env cutoff limit = list_jobs env (\<lambda>js.
     take (clamp_limit limit 1000 100) (sort_key jb_UpdatedAt (filter (\<lambda>j.
        unsubmitted (jb_Status j) \<and> jb_ProviderJobName j = None
        \<and> 0 < deref_or (jb_EstimatedCost j) (jb_HoldAmount j) \<and> jb_UpdatedAt j \<le> cutoff) js)))"

definition rfc3339 :: "int \<Rightarrow> jval" where "rfc3339 t = JInt t"

definition MarkBatchImageInputDeleted :: "string \<Rightarrow> int \<Rightarrow> ('z batch_db_scheme, goerr + unit) state" where
  "MarkBatchImageInputDeleted batchID deletedAt = do {
     r \<leftarrow> exec_job batchID (\<lambda>_. True) (\<lambda>j.
            Inr ((touch deletedAt j)\<lparr>jb_InputDeletedAt := coalesce (jb_InputDeletedAt j) deletedAt\<rparr>));
     require_row ErrBatchImageJobNotFound r
       (appendBatchImageEventWithSQL batchID ''input_cleanup_completed''
          (Some [(''batch_id'', JStr batchID), (''cleanup_target'', JStr ''input''),
                 (''deleted_at'', rfc3339 deletedAt)])) }"

definition MarkBatchImageOutputDeleted :: "string \<Rightarrow> int \<Rightarrow> ('z batch_db_scheme, goerr + unit) state" where
  "MarkBatchImageOutputDeleted batchID deletedAt = do {
     r \<leftarrow> exec_job batchID (\<lambda>_. True) (\<lambda>j. Inr ((touch deletedAt j)\<lparr>
            jb_Status := (if jb_Status j = BatchImageJobStatusCompleted
                          then BatchImageJobStatusOutputDeleted else jb_Status j),
            jb_OutputDeletedAt := coalesce (jb_OutputDeletedAt j) deletedAt,
            jb_FinishedAt := (if jb_Status j = BatchImageJobStatusCompleted
                              then coalesce (jb_FinishedAt j) deletedAt else jb_FinishedAt j)\<rparr>));
     require_row ErrBatchImageJobNotFound r
       (appendBatchImageEventWithSQL batchID ''output_cleanup_completed''
          (Some [(''batch_id'', JStr batchID), (''cleanup_target'', JStr ''output''),
                 (''deleted_at'', rfc3339 deletedAt)])) }"

definition MarkBatchImageDownloaded :: "string \<Rightarrow> int \<Rightarrow> ('z batch_db_scheme, goerr + unit) state" where
  "MarkBatchImageDownloaded batchID downloadedAt = do {
     r \<leftarrow> exec_job batchID (\<lambda>_. True) (\<lambda>j. Inr (j\<lparr>
            jb_DownloadedAt := coalesce (jb_DownloadedAt j) downloadedAt, jb_UpdatedAt := downloadedAt\<rparr>));
     require_row ErrBatchImageJobNotFound r
       (appendBatchImageEventWithSQL batchID ''download_completed''
          (Some [(''batch_id'', JStr batchID), (''downloaded_at'', rfc3339 downloadedAt)])) }"

definition MarkBatchImageJobUserDeleted ::
  "int \<Rightarrow> int \<Rightarrow> string \<Rightarrow> int \<Rightarrow> ('z batch_db_scheme, goerr + unit) state" where
  "MarkBatchImageJobUserDeleted userID apiKeyID batchID deletedAt = do {
     r \<leftarrow> exec_job batchID
            (\<lambda>j. jb_UserID j = userID \<and> jb_APIKeyID j = Some apiKeyID \<and> jb_UserDeletedAt j = None
                 \<and> jb_Status j \<in> set terminal_statuses)
            (\<lambda>j. Inr (j\<lparr>jb_UserDeletedAt := Some deletedAt, jb_UpdatedAt := deletedAt\<rparr>));
     require_row ErrBatchImageRecordDeleteNotReady r
       (appendBatchImageEventWithSQL batchID ''user_record_deleted''
          (Some [(''batch_id'', JStr batchID), (''deleted_at'', rfc3339 deletedAt),
                 (''user_id'', JInt userID), (''api_key_id'', JInt apiKeyID)])) }"

definition SetBatchImageOutputExpiresAt :: "string \<Rightarrow> int \<Rightarrow> ('z batch_db_scheme, goerr + unit) state" where
  "SetBatchImageOutputExpiresAt batchID expiresAt = do {
     now \<leftarrow> time_now;
     r \<leftarrow> exec_job batchID (\<lambda>_. True) (\<lambda>j. Inr (j\<lparr>
            jb_OutputExpiresAt := coalesce (jb_OutputExpiresAt j) expiresAt, jb_UpdatedAt := now\<rparr>));
     require_row ErrBatchImageJobNotFound r (ret (Inr ())) }"

definition RecordBatchImageCleanupFailure ::
  "string \<Rightarrow> string \<Rightarrow> string \<Rightarrow> ('z batch_db_scheme, goerr + unit) state" where
  "RecordBatchImageCleanupFailure batchID code message = do {
     now \<leftarrow> time_now;
     r \<leftarrow> exec_job batchID (\<lambda>_. True) (\<lambda>j. sum_bind (set_error (Some code) (Some message) j) (\<lambda>j1.
            Inr (j1\<lparr>jb_RetryCount := jb_RetryCount j + 1, jb_UpdatedAt := now\<rparr>)));
     chain r (\<lambda>_. appendBatchImageEventWithSQL batchID ''output_cleanup_failed''
        (Some [(''error_code'', JStr code)])) }"

definition AppendBatchImageEvent ::
  "string \<Rightarrow> string \<Rightarrow> payload option \<Rightarrow> ('z batch_db_scheme, goerr + unit) state" where
  "AppendBatchImageEvent batchID eventType payload = appendBatchImageEventWithSQL batchID eventType payload"

subsection \<open>Operations of the repository that write\<close>

datatype repo_op =
    RCreate CreateBatchImageJobParams
  | RTransition string string BatchImageTransitionOptions
  | RTouch string
  | RFailStale string int string string
  | ROutputRef string string
  | RProviderSubmit UpdateBatchImageJobProviderSubmitParams
  | RSubmitFailure string string string bool
  | RSettled MarkBatchImageJobSettledParams
  | RSettlementFailed string string string
  | RReplaceItems string "CreateBatchImageItemParams list" BatchImageCounts
  | RCreateItems "CreateBatchImageItemParams list"
  | RInputDeleted string int
  | ROutputDeleted string int
  | RDownloaded string int
  | RUserDeleted int int string int
  | RExpiresAt string int
  | RCleanupFailure string string string
  | REvent string string "payload option"

fun exec_repo :: "'e driver_scheme \<Rightarrow> repo_op \<Rightarrow> 'z batch_db_scheme \<Rightarrow> 'z batch_db_scheme" where
  "exec_repo env (RCreate p) w = snd (run_state (CreateBatchImageJob env p) w)"
| "exec_repo env (RTransition b s t) w = snd (run_state (TransitionBatchImageJobStatus b s t) w)"
| "exec_repo env (RTouch b) w = snd (run_state (TouchBatchImageJobSubmitting b) w)"
| "exec_repo env (RFailStale b c x y) w = snd (run_state (FailStaleUnsubmittedBatchImageJob b c x y) w)"
| "exec_repo env (ROutputRef b r) w = snd (run_state (UpdateBatchImageJobProviderOutputRef b r) w)"
| "exec_repo env (RProviderSubmit p) w = snd (run_state (UpdateBatchImageJobProviderSubmit p) w)"
| "exec_repo env (RSubmitFailure b c m f) w = snd (run_state (RecordBatchImageJobSubmitFailure b c m f) w)"
| "exec_repo env (RSettled p) w = snd (run_state (MarkBatchImageJobSettled env p) w)"
| "exec_repo env (RSettlementFailed b c m) w = snd (run_state (SetBatchImageJobSettlementFailed b c m) w)"
| "exec_repo env (RReplaceItems b ps n) w = snd (run_state (ReplaceBatchImageItemsForJob env b ps n) w)"
| "exec_repo env (RCreateItems ps) w = snd (run_state (BulkCreateBatchImageItems env ps) w)"
| "exec_repo env (RInputDeleted b t) w = snd (run_state (MarkBatchImageInputDeleted b t) w)"
| "exec_repo env (ROutputDeleted b t) w = snd (run_state (MarkBatchImageOutputDeleted b t) w)"
| "exec_repo env (RDownloaded b t) w = snd (run_state (MarkBatchImageDownloaded b t) w)"
| "exec_repo env (RUserDeleted u k b t) w = snd (run_state (MarkBatchImageJobUserDeleted u k b t) w)"
| "exec_repo env (RExpiresAt b t) w = snd (run_state (SetBatchImageOutputExpiresAt b t) w)"
| "exec_repo env (RCleanupFailure b c m) w = snd (run_state (RecordBatchImageCleanupFailure b c m) w)"
| "exec_repo env (REvent b t p) w = snd (run_state (AppendBatchImageEvent b t p) w)"

subsection \<open>The life cycle of a job\<close>

text \<open>
  What a job may become: its status moves along the edges of \<open>CanTransitionBatchImageJob\<close>, and who
  owns it and what was held for it never changes.
\<close>

abbreviation reaches :: "string \<Rightarrow> string \<Rightarrow> bool" where
  "reaches \<equiv> CanTransitionBatchImageJob\<^sup>*\<^sup>*"

definition job_identity where
  "job_identity j = (jb_ID j, jb_BatchID j, jb_UserID j, jb_APIKeyID j, jb_AccountID j, jb_Provider j,
     jb_EstimatedCost j, jb_HoldAmount j, jb_RequestHash j, jb_IdempotencyKey j)"

definition job_evolves :: "rat BatchImageJob \<Rightarrow> rat BatchImageJob \<Rightarrow> bool" where
  "job_evolves j j' \<longleftrightarrow> job_identity j' = job_identity j \<and> reaches (jb_Status j) (jb_Status j')"

definition lifecycle :: "'z batch_db_scheme \<Rightarrow> 'z batch_db_scheme \<Rightarrow> bool" where
  "lifecycle w w' \<longleftrightarrow>
     (\<forall>b j. find_job w b = Some j \<longrightarrow> (\<exists>j'. find_job w' b = Some j' \<and> job_evolves j j'))"

lemma job_evolves_refl [simp]: "job_evolves j j"
  by (simp add: job_evolves_def)

lemma job_evolves_trans: "job_evolves a b \<Longrightarrow> job_evolves b c \<Longrightarrow> job_evolves a c"
  by (auto simp: job_evolves_def)

lemma lifecycle_props [simp]: "reflp lifecycle" "transp lifecycle" "timeless lifecycle"
proof -
  show "reflp lifecycle" by (auto simp: reflp_def lifecycle_def)
  show "transp lifecycle"
    unfolding transp_def lifecycle_def by (meson job_evolves_trans)
  show "timeless lifecycle" by (simp add: timeless_def lifecycle_def find_job_def)
qed

lemma find_map_id:
  "find (\<lambda>j. jb_BatchID j = b) (map (\<lambda>j. if jb_BatchID j = jb_BatchID j' then j' else j) xs) =
    (if b = jb_BatchID j' then map_option (\<lambda>_. j') (find (\<lambda>j. jb_BatchID j = b) xs)
     else find (\<lambda>j. jb_BatchID j = b) xs)"
  by (induction xs) auto

lemma find_put_job: "find_job (put_job j' w) b =
    (if b = jb_BatchID j' then map_option (\<lambda>_. j') (find_job w b) else find_job w b)"
  by (simp add: find_job_def put_job_def find_map_id)

lemma find_job_faults [simp]:
  "find_job (w\<lparr>faults := fs\<rparr>) b = find_job w b" "find_job (w\<lparr>clock := c\<rparr>) b = find_job w b"
  "find_job (w\<lparr>ticks := ts\<rparr>) b = find_job w b" "find_job (w\<lparr>events := ev\<rparr>) b = find_job w b"
  "find_job (w\<lparr>items := is\<rparr>) b = find_job w b" "find_job (w\<lparr>next_item_id := n\<rparr>) b = find_job w b"
  "find_job (w\<lparr>next_job_id := n\<rparr>) b = find_job w b" "find_job (w\<lparr>entropy := en\<rparr>) b = find_job w b"
  by (simp_all add: find_job_def)

lemma find_job_id: "find_job w b = Some j \<Longrightarrow> jb_BatchID j = b"
  by (auto simp: find_job_def find_Some_iff)

lemma lifecycleD: "lifecycle w w' \<Longrightarrow> find_job w b = Some j \<Longrightarrow>
    \<exists>j'. find_job w' b = Some j' \<and> job_identity j' = job_identity j \<and> reaches (jb_Status j) (jb_Status j')"
  by (auto simp: lifecycle_def job_evolves_def)

lemma lifecycle_put:
  assumes "find_job w b = Some j" "job_evolves j j'"
  shows "lifecycle w (put_job j' w)"
proof -
  have "jb_BatchID j' = b"
    using assms by (auto dest: find_job_id simp: job_evolves_def job_identity_def)
  then show ?thesis using assms by (auto simp: lifecycle_def find_put_job)
qed

lemma lifecycle_put_faults:
  "find_job w b = Some j \<Longrightarrow> job_evolves j j' \<Longrightarrow> lifecycle w (put_job j' (w\<lparr>faults := fs\<rparr>))"
  using lifecycle_put [of "w\<lparr>faults := fs\<rparr>" b j j'] by (simp add: lifecycle_def)

text \<open>An update keeps the life cycle when its SET list does, on the rows that it selects.\<close>

lemma steps_exec_job:
  assumes "\<And>j j'. jb_BatchID j = b \<Longrightarrow> p j \<Longrightarrow> f j = Inr j' \<Longrightarrow> job_evolves j j'"
  shows "steps lifecycle (exec_job b p f)"
proof -
  have "lifecycle w w" for w :: "'a batch_db_scheme" using lifecycle_props(1) by (rule reflpD)
  then show ?thesis
    unfolding exec_job_def using assms
    by (intro steps_stmt) (auto split: option.splits sum.splits, metis find_job_id lifecycle_put)
qed

lemma sum_bind_Inr: "sum_bind r k = Inr x \<longleftrightarrow> (\<exists>y. r = Inr y \<and> k y = Inr x)"
  by (cases r) (auto simp: sum_bind_def)

lemma set_error_evolves: "set_error c m j = Inr j' \<Longrightarrow>
    job_identity j' = job_identity j \<and> jb_Status j' = jb_Status j"
  by (auto simp: set_error_def job_identity_def split: option.splits if_splits)

lemma identity_updates [simp]:
  "job_identity (j\<lparr>jb_Status := s\<rparr>) = job_identity j" "job_identity (touch now j) = job_identity j"
  "job_identity (j\<lparr>jb_UpdatedAt := t\<rparr>) = job_identity j"
  "job_identity (j\<lparr>jb_SubmittedAt := a\<rparr>) = job_identity j"
  "job_identity (j\<lparr>jb_StartedAt := a\<rparr>) = job_identity j"
  "job_identity (j\<lparr>jb_FinishedAt := a\<rparr>) = job_identity j"
  "job_identity (j\<lparr>jb_SettledAt := a\<rparr>) = job_identity j"
  "job_identity (j\<lparr>jb_OutputDeletedAt := a\<rparr>) = job_identity j"
  "job_identity (j\<lparr>jb_InputDeletedAt := a\<rparr>) = job_identity j"
  "job_identity (j\<lparr>jb_DownloadedAt := a\<rparr>) = job_identity j"
  "job_identity (j\<lparr>jb_UserDeletedAt := a\<rparr>) = job_identity j"
  "job_identity (j\<lparr>jb_OutputExpiresAt := a\<rparr>) = job_identity j"
  "job_identity (j\<lparr>jb_RetryCount := n\<rparr>) = job_identity j"
  "job_identity (j\<lparr>jb_SuccessCount := n\<rparr>) = job_identity j"
  "job_identity (j\<lparr>jb_FailCount := n\<rparr>) = job_identity j"
  "job_identity (j\<lparr>jb_ActualCost := x\<rparr>) = job_identity j"
  "job_identity (j\<lparr>jb_ManifestHash := h\<rparr>) = job_identity j"
  "job_identity (j\<lparr>jb_ProviderJobName := h\<rparr>) = job_identity j"
  "job_identity (j\<lparr>jb_ProviderInputRef := h\<rparr>) = job_identity j"
  "job_identity (j\<lparr>jb_ProviderOutputRef := h\<rparr>) = job_identity j"
  "job_identity (j\<lparr>jb_GCSInputURI := h\<rparr>) = job_identity j"
  "job_identity (j\<lparr>jb_GCSOutputURI := h\<rparr>) = job_identity j"
  by (simp_all add: job_identity_def touch_def)

lemma status_touch [simp]: "jb_Status (touch now j) = jb_Status j" "jb_BatchID (touch now j) = jb_BatchID j"
  by (simp_all add: touch_def)

lemma lifecycle_refl [simp]: "lifecycle w w"
  using lifecycle_props(1) by (rule reflpD)

lemma lifecycle_same_jobs: "jobs w' = jobs w \<Longrightarrow> lifecycle w w'"
  by (simp add: lifecycle_def find_job_def)

lemma steps_append_event [steps_intro]: "steps lifecycle (appendBatchImageEventWithSQL b t p)"
  unfolding appendBatchImageEventWithSQL_def
  by (intro steps_if steps_ret steps_stmt) (auto intro: lifecycle_same_jobs)

lemma steps_select_job [steps_intro]: "steps lifecycle (select_job p)"
  "steps lifecycle (select_jobs q)" "steps lifecycle (select_status_for_update b)"
  unfolding select_job_def select_jobs_def select_status_for_update_def
  by (intro steps_stmt; simp)+

lemma steps_require_row [steps_intro]: "steps lifecycle k \<Longrightarrow> steps lifecycle (require_row e r k)"
  unfolding require_row_def by (intro steps_intro) auto

text \<open>Transactions keep what their bodies keep.\<close>

lemma steps_with_tx:
  assumes "steps R body" "reflp R" "timeless R"
  shows "steps R (with_tx body)"
proof (rule stepsI)
  fix w
  obtain r w' where run: "run_state (with_tx body) w = (r, w')" by fastforce
  have "R w w'"
    using run
  proof (cases rule: with_tx_cases)
    case rolled_back
    then have "w' = w\<lparr>faults := faults w', clock := clock w', ticks := ticks w'\<rparr>" by (elim same_dbE)
    moreover have "R w (w\<lparr>faults := a, clock := b, ticks := c\<rparr>)" for a b c
      using assms(2,3) by (simp add: timeless_def reflp_def)
    ultimately show ?thesis by metis
  next
    case (committed fs w2 x fs')
    have "R (w\<lparr>faults := fs\<rparr>) w2" using stepsD [OF assms(1) committed(1)] .
    with committed(2) assms(3) show ?thesis by (simp add: timeless_def)
  qed
  with run show "R w (snd (run_state (with_tx body) w))" by simp
qed

lemma steps_in_tx [steps_intro]: "steps lifecycle body \<Longrightarrow> steps lifecycle (in_tx body)"
  unfolding in_tx_def by (intro steps_with_tx steps_intro) auto

lemma select_statusD:
  assumes "run_state (select_status_for_update b) w = (Inr s, w')"
  obtains j fs where "find_job w b = Some j" "jb_Status j = s" "w' = w\<lparr>faults := fs\<rparr>"
  using assms unfolding select_status_for_update_def
  by (auto elim!: stmt_InrE split: option.splits)

text \<open>
  \<^verbatim>\<open>SELECT ... FOR UPDATE\<close> followed by an update of the same row: the update may rely on the status
  that was read.
\<close>

lemma exec_job_known:
  assumes "run_state (exec_job b p f) w = (r, w')" "find_job w b = Some j"
    and "\<And>j'. f j = Inr j' \<Longrightarrow> job_evolves j j'"
  shows "lifecycle w w'"
  using assms(1) unfolding exec_job_def
  by (cases rule: stmt_cases)
     (use assms(2,3) in \<open>auto simp: lifecycle_same_jobs split: if_splits sum.splits
        intro: lifecycle_put_faults\<close>)

lemma set_status_evolves:
  assumes "set_status now s c m j = Inr j'" "CanTransitionBatchImageJob (jb_Status j) s"
  shows "job_evolves j j'"
  using assms by (auto simp: set_status_def sum_bind_Inr job_evolves_def dest!: set_error_evolves split: if_splits)

lemma set_submitted_evolves:
  assumes "set_submitted now p j = Inr j'" "CanTransitionBatchImageJob (jb_Status j) BatchImageJobStatusSubmitted"
  shows "job_evolves j j'"
  using assms by (auto simp: set_submitted_def job_evolves_def split: if_splits)

lemma lifecycle_world [simp]:
  "lifecycle (w\<lparr>faults := fs\<rparr>) w' = lifecycle w w'" "lifecycle (w\<lparr>clock := c\<rparr>) w' = lifecycle w w'"
  "lifecycle (w\<lparr>ticks := ts\<rparr>) w' = lifecycle w w'"
  by (simp_all add: lifecycle_def)

lemma lifecycle_trans: "lifecycle w w1 \<Longrightarrow> lifecycle w1 w2 \<Longrightarrow> lifecycle w w2"
  using lifecycle_props(2) by (rule transpD)

lemma time_now_find_job: "run_state time_now w = (t, w') \<Longrightarrow> find_job w' b = find_job w b \<and> lifecycle w w'"
  by (auto elim!: run_time_now_eq intro: lifecycle_same_jobs)

text \<open>The shape that both guarded updates have.\<close>

lemma steps_guarded_update:
  assumes F: "\<And>cur t j j'. ok cur \<Longrightarrow> jb_Status j = cur \<Longrightarrow> F t j = Inr j' \<Longrightarrow> job_evolves j j'"
    and K: "\<And>y. steps lifecycle (K y)"
  shows "steps lifecycle (do {
     current \<leftarrow> select_status_for_update b;
     chain current (\<lambda>cur. if \<not> ok cur then ret (Inl e) else do {
       t \<leftarrow> time_now;
       r \<leftarrow> exec_job b (\<lambda>_. True) (F t);
       K r }) })" (is "steps lifecycle ?m")
proof (rule stepsI)
  fix w :: "'a batch_db_scheme"
  obtain x w1 where sel: "run_state (select_status_for_update b) w = (x, w1)" by fastforce
  then have l1: "lifecycle w w1" by (rule stepsD [OF steps_select_job(3)])
  show "lifecycle w (snd (run_state ?m w))"
  proof (cases "\<exists>cur. x = Inr cur \<and> ok cur")
    case False
    with sel l1 show ?thesis by (cases x) (auto simp: run_bind)
  next
    case True
    then obtain cur where cur: "x = Inr cur" "ok cur" by blast
    with sel obtain j fs where j: "find_job w b = Some j" "jb_Status j = cur" "w1 = w\<lparr>faults := fs\<rparr>"
      by (auto elim: select_statusD)
    obtain t w2 where t: "run_state time_now w1 = (t, w2)" by fastforce
    obtain y w3 where u: "run_state (exec_job b (\<lambda>_. True) (F t)) w2 = (y, w3)" by fastforce
    obtain z w4 where k: "run_state (K y) w3 = (z, w4)" by fastforce
    have "find_job w2 b = Some j" using time_now_find_job [OF t, of b] j by simp
    with u have "lifecycle w2 w3" by (elim exec_job_known) (auto intro: F cur(2) j(2))
    moreover have "lifecycle w1 w2" using time_now_find_job [OF t] by blast
    moreover have "lifecycle w3 w4" using stepsD [OF K k] .
    ultimately have "lifecycle w w4" using l1 lifecycle_trans by blast
    with sel cur t u k show ?thesis by (simp add: run_bind)
  qed
qed

lemma steps_transitionWithSQL [steps_intro]:
  "steps lifecycle (transitionBatchImageJobStatusWithSQL b s opts)"
  unfolding transitionBatchImageJobStatusWithSQL_def Let_def
  by (intro steps_guarded_update steps_intro) (auto intro: set_status_evolves)

lemma steps_providerSubmitWithSQL [steps_intro]:
  "steps lifecycle (updateBatchImageJobProviderSubmitWithSQL p)"
  unfolding updateBatchImageJobProviderSubmitWithSQL_def
  by (intro steps_guarded_update steps_intro) (auto intro: set_submitted_evolves)

lemma unsubmitted_to_failed: "unsubmitted s \<Longrightarrow> reaches s BatchImageJobStatusFailed"
  by (intro r_into_rtranclp)
     (auto simp: unsubmitted_def CanTransitionBatchImageJob_def IsTerminalBatchImageJobStatus_def)

lemma settling_to_completed: "reaches BatchImageJobStatusSettling BatchImageJobStatusCompleted"
  by (intro r_into_rtranclp) code_simp

lemma completed_to_output_deleted: "reaches BatchImageJobStatusCompleted BatchImageJobStatusOutputDeleted"
  by (intro r_into_rtranclp) code_simp

lemma settle_row_evolves:
  "settle_row env now p j = Inr j' \<Longrightarrow> jb_Status j = BatchImageJobStatusSettling \<Longrightarrow> job_evolves j j'"
  by (auto simp: settle_row_def sum_bind_Inr job_evolves_def settling_to_completed split: if_splits)

lemma steps_markSettled [steps_intro]:
  "steps lifecycle (markBatchImageJobSettledWithSQL env p)"
  unfolding markBatchImageJobSettledWithSQL_def Let_def
  by (intro steps_intro steps_stmt)
     (auto split: option.splits sum.splits intro: lifecycle_put settle_row_evolves)

lemma find_Some_append: "find p xs = Some x \<Longrightarrow> find p (xs @ ys) = Some x"
  by (induction xs) (auto split: if_splits)

text \<open>Inserting a job leaves every existing job where it is found.\<close>

lemma lifecycle_insert: "jobs w' = jobs w @ js \<Longrightarrow> lifecycle w w'"
  by (auto simp: lifecycle_def find_job_def find_Some_append)

lemma steps_createJob [steps_intro]: "steps lifecycle (createBatchImageJobWithSQL env p)"
  unfolding createBatchImageJobWithSQL_def
  by (intro steps_intro steps_stmt) (auto split: sum.splits intro: lifecycle_insert)

lemma steps_newID [steps_intro]: "steps lifecycle NewBatchImageID"
  unfolding NewBatchImageID_def by (rule stepsI) (auto split: list.splits intro: lifecycle_same_jobs)

lemma steps_createItem [steps_intro]: "steps lifecycle (createBatchImageItemWithSQL env p)"
  unfolding createBatchImageItemWithSQL_def
  by (intro steps_intro steps_stmt) (auto split: sum.splits intro: lifecycle_same_jobs)

lemma steps_insert_items [steps_intro]: "steps lifecycle (insert_items env ps)"
  by (induction ps) (auto simp: CreateBatchImageItem_def intro!: steps_intro)

lemma steps_replaceItemsWithSQL [steps_intro]:
  "steps lifecycle (replaceBatchImageItemsForJobWithSQL env b ps n)"
  unfolding replaceBatchImageItemsForJobWithSQL_def batchImageItemPromptPreviews_def
  by (intro steps_intro steps_stmt steps_exec_job)
     (auto intro: lifecycle_same_jobs simp: job_evolves_def)

lemma set_settlement_failed_evolves:
  "set_error c m j = Inr j1 \<Longrightarrow> job_evolves j (j1\<lparr>jb_RetryCount := n, jb_UpdatedAt := t\<rparr>)"
  by (auto dest: set_error_evolves simp: job_evolves_def)

lemma steps_settlementFailed [steps_intro]:
  "steps lifecycle (SetBatchImageJobSettlementFailed b c m)"
  unfolding SetBatchImageJobSettlementFailed_def
  by (intro steps_intro steps_stmt)
     (auto split: option.splits sum.splits intro!: lifecycle_put set_settlement_failed_evolves)

lemma submit_failure_evolves:
  assumes "\<not> (markFailed \<and> IsTerminalBatchImageJobStatus (jb_Status j))" "jb_Status j \<noteq> []"
  shows "reaches (jb_Status j) (if markFailed then BatchImageJobStatusFailed else jb_Status j)"
  using assms by (auto intro!: r_into_rtranclp simp: CanTransitionBatchImageJob_def)

lemma steps_createJob_op [steps_intro]: "steps lifecycle (CreateBatchImageJob env p)"
  unfolding CreateBatchImageJob_def by (intro steps_intro) auto

lemma steps_touch_op [steps_intro]: "steps lifecycle (TouchBatchImageJobSubmitting b)"
  unfolding TouchBatchImageJobSubmitting_def
  by (intro steps_intro steps_exec_job) (auto simp: job_evolves_def)

lemma steps_failStale_op [steps_intro]: "steps lifecycle (FailStaleUnsubmittedBatchImageJob b c x y)"
  unfolding FailStaleUnsubmittedBatchImageJob_def
  by (intro steps_intro steps_exec_job)
     (auto simp: job_evolves_def sum_bind_Inr intro: unsubmitted_to_failed dest!: set_error_evolves)

lemma steps_outputRef_op [steps_intro]: "steps lifecycle (UpdateBatchImageJobProviderOutputRef b r)"
  unfolding UpdateBatchImageJobProviderOutputRef_def
  by (intro steps_intro steps_exec_job) (auto simp: job_evolves_def split: if_splits)

lemma steps_submitFailure_op [steps_intro]:
  "steps lifecycle (RecordBatchImageJobSubmitFailure b c m False)"
  unfolding RecordBatchImageJobSubmitFailure_def Let_def
  by (intro steps_intro steps_exec_job)
     (auto simp: job_evolves_def sum_bind_Inr dest!: set_error_evolves)

lemma steps_deleted_ops [steps_intro]:
  "steps lifecycle (MarkBatchImageInputDeleted b t)" "steps lifecycle (MarkBatchImageOutputDeleted b t)"
  "steps lifecycle (MarkBatchImageDownloaded b t)" "steps lifecycle (MarkBatchImageJobUserDeleted u k b t)"
  "steps lifecycle (SetBatchImageOutputExpiresAt b t)" "steps lifecycle (AppendBatchImageEvent b e p)"
  unfolding MarkBatchImageInputDeleted_def MarkBatchImageOutputDeleted_def MarkBatchImageDownloaded_def
    MarkBatchImageJobUserDeleted_def SetBatchImageOutputExpiresAt_def AppendBatchImageEvent_def
  by (intro steps_intro steps_exec_job; auto simp: job_evolves_def completed_to_output_deleted)+

lemma steps_cleanupFailure_op [steps_intro]: "steps lifecycle (RecordBatchImageCleanupFailure b c m)"
  unfolding RecordBatchImageCleanupFailure_def
  by (intro steps_intro steps_exec_job)
     (auto simp: job_evolves_def sum_bind_Inr dest!: set_error_evolves)

lemma steps_tx_ops [steps_intro]:
  "steps lifecycle (TransitionBatchImageJobStatus b s opts)"
  "steps lifecycle (UpdateBatchImageJobProviderSubmit ps)"
  "steps lifecycle (MarkBatchImageJobSettled env ms)"
  "steps lifecycle (ReplaceBatchImageItemsForJob env b its n)"
  "steps lifecycle (BulkCreateBatchImageItems env its)"
  unfolding TransitionBatchImageJobStatus_def UpdateBatchImageJobProviderSubmit_def
    MarkBatchImageJobSettled_def ReplaceBatchImageItemsForJob_def BulkCreateBatchImageItems_def
  by (intro steps_intro; simp)+

text \<open>Every write of the repository but one keeps the life cycle, whatever fails.\<close>

lemma exec_repo_lifecycle:
  assumes "\<And>b c m. op \<noteq> RSubmitFailure b c m True"
  shows "lifecycle w (exec_repo env op w)"
  using assms by (cases op) (simp_all add: steps_snd steps_createJob_op steps_touch_op steps_failStale_op
      steps_outputRef_op steps_submitFailure_op steps_deleted_ops steps_cleanupFailure_op steps_tx_ops
      steps_settlementFailed)

lemma run_in_tx_calm: "calm w \<Longrightarrow> run_state body w = (Inr (), w') \<Longrightarrow> calm w' \<Longrightarrow>
    run_state (in_tx body) w = (Inr (), w')"
  by (simp add: in_tx_def with_tx_calm run_bind)

lemma run_in_tx_error: "calm w \<Longrightarrow> run_state body w = (Inl e, w') \<Longrightarrow>
    run_state (in_tx body) w = (Inl e, rollback w w')"
  by (simp add: in_tx_def with_tx_calm run_bind)

lemma exec_job_calm: "calm w \<Longrightarrow> run_state (exec_job b p f) w = (case find_job w b of
      None \<Rightarrow> (Inr 0, w)
    | Some j \<Rightarrow> if \<not> p j then (Inr 0, w)
        else (case f j of Inl e \<Rightarrow> (Inl e, w) | Inr j' \<Rightarrow> (Inr 1, put_job j' w)))"
  by (simp add: exec_job_def run_stmt_ok)

lemma calm_batch [simp]: "calm (put_job j w) = calm w" "calm (w\<lparr>events := ev\<rparr>) = calm w"
  "calm (w\<lparr>items := its\<rparr>) = calm w" "calm (w\<lparr>next_item_id := n\<rparr>) = calm w"
  by (simp_all add: calm_def put_job_def del: calmD)

lemma clock_batch [simp]: "clock (put_job j w) = clock w"
  by (simp add: put_job_def)

subsection \<open>Properties\<close>

text \<open>Ranks of the statuses: every transition but \<^verbatim>\<open>running \<rightarrow> running\<close> goes up.\<close>

definition rank_table :: "(string \<times> nat) list" where
  "rank_table = [(BatchImageJobStatusCreated, 1), (BatchImageJobStatusUploading, 2),
     (BatchImageJobStatusSubmitted, 3), (BatchImageJobStatusRunning, 4), (BatchImageJobStatusIndexing, 5),
     (BatchImageJobStatusSettling, 6), (BatchImageJobStatusCompleted, 7), (BatchImageJobStatusFailed, 7),
     (BatchImageJobStatusCancelled, 7), (BatchImageJobStatusOutputDeleted, 8)]"

definition status_rank :: "string \<Rightarrow> nat" where
  "status_rank s = (case map_of rank_table s of None \<Rightarrow> 0 | Some n \<Rightarrow> n)"

lemma rank_facts:
  "\<forall>e \<in> set rank_table. snd e < 7 \<or> IsTerminalBatchImageJobStatus (fst e)"
  "\<forall>e \<in> set allowed_transitions. \<forall>t \<in> set (snd e). fst e = t \<or> status_rank (fst e) < status_rank t"
  "status_rank BatchImageJobStatusFailed = 7" "status_rank BatchImageJobStatusCompleted = 7"
  "status_rank BatchImageJobStatusCancelled = 7" "status_rank BatchImageJobStatusOutputDeleted = 8"
  by (code_simp+)

lemma nonterminal_rank: "\<not> IsTerminalBatchImageJobStatus s \<Longrightarrow> status_rank s < 7"
  using rank_facts(1) by (auto simp: status_rank_def split: option.splits dest!: map_of_SomeD)

lemma transition_rank:
  assumes "CanTransitionBatchImageJob s t"
  shows "s = t \<or> status_rank s < status_rank t"
proof (cases "IsTerminalBatchImageJobStatus s")
  case True
  then show ?thesis
    using assms rank_facts(3-6) by (auto simp: CanTransitionBatchImageJob_def split: if_splits)
next
  case False
  show ?thesis
  proof (cases "t = BatchImageJobStatusFailed")
    case True
    with nonterminal_rank [OF False] rank_facts(3) show ?thesis by simp
  next
    case notFailed: False
    with assms False obtain tos where "map_of allowed_transitions s = Some tos" "t \<in> set tos"
      by (auto simp: CanTransitionBatchImageJob_def split: if_splits option.splits)
    then show ?thesis using rank_facts(2) by (fastforce dest: map_of_SomeD)
  qed
qed

lemma reaches_rank: "reaches s t \<Longrightarrow> s = t \<or> status_rank s < status_rank t"
  by (induction rule: rtranclp_induct) (auto dest!: transition_rank)

lemma terminal_step:
  "CanTransitionBatchImageJob s t \<Longrightarrow> IsTerminalBatchImageJobStatus s \<Longrightarrow>
   t = BatchImageJobStatusOutputDeleted \<and> s \<noteq> BatchImageJobStatusOutputDeleted"
  by (simp add: CanTransitionBatchImageJob_def split: if_splits)

lemma reaches_terminal:
  "reaches s t \<Longrightarrow> IsTerminalBatchImageJobStatus s \<Longrightarrow> t = s \<or> t = BatchImageJobStatusOutputDeleted"
proof (induction rule: rtranclp_induct)
  case (step t u)
  moreover have "IsTerminalBatchImageJobStatus BatchImageJobStatusOutputDeleted"
    by (simp add: IsTerminalBatchImageJobStatus_def)
  ultimately show ?case by (metis terminal_step)
qed simp

text \<open>
  The life cycle of a job has no way back: a status that was left is never reached again, and
  a finished job can only have its output deleted.
\<close>

theorem job_lifecycle_no_return:
  assumes "reaches s t"
  shows "(reaches t s \<longrightarrow> t = s)
       \<and> (IsTerminalBatchImageJobStatus s \<longrightarrow> t = s \<or> t = BatchImageJobStatusOutputDeleted)"
  using assms reaches_rank [of s t] reaches_rank [of t s] reaches_terminal [of s t] by auto

lemma job_lifecycle_no_return_witness:
  "\<not> reaches BatchImageJobStatusCompleted BatchImageJobStatusSettling"
proof -
  have "reaches BatchImageJobStatusSettling BatchImageJobStatusCompleted" by (rule settling_to_completed)
  from job_lifecycle_no_return [OF this] show ?thesis by auto
qed

text \<open>
  C6: However the writes of the repository are ordered and whichever of them fail or lose their
  answers, every job keeps its identity, its owner and its hold, and its status only moves along
  \<open>CanTransitionBatchImageJob\<close> -- provided no submit failure is recorded as final.
\<close>

theorem repo_keeps_lifecycle:
  assumes "\<And>b c m. RSubmitFailure b c m True \<notin> set ops"
  shows "lifecycle w (fold (exec_repo env) ops w)"
  using assms
proof (induction ops arbitrary: w)
  case (Cons op ops)
  then have "lifecycle w (exec_repo env op w)" by (intro exec_repo_lifecycle) auto
  with Cons show ?case by (auto intro: lifecycle_trans)
qed simp

text \<open>A job row for the concrete inputs.\<close>

definition demo_job :: "string \<Rightarrow> string \<Rightarrow> rat BatchImageJob" where
  "demo_job b s = \<lparr>jb_ID = 1, jb_BatchID = b, jb_UserID = 1, jb_APIKeyID = Some 7, jb_AccountID = Some 2,
     jb_Provider = BatchImageProviderVertex, jb_Model = ''m'', jb_TaskName = [], jb_ParentBatchID = None,
     jb_Status = s, jb_ProviderJobName = None, jb_ProviderInputRef = None, jb_ProviderOutputRef = None,
     jb_GCSInputURI = None, jb_GCSOutputURI = None, jb_ItemCount = 2, jb_SuccessCount = 2, jb_FailCount = 0,
     jb_CancelledCount = 0, jb_EstimatedCost = 4, jb_HoldAmount = Some 4, jb_ActualCost = None,
     jb_BaseUnitPrice = 2, jb_GroupRateMultiplier = 1, jb_AccountRateMultiplier = 1,
     jb_BatchDiscountMultiplier = 1, jb_HoldMultiplier = 1, jb_BillableUnitPrice = 2, jb_HoldUnitPrice = 2,
     jb_PricingSnapshotVersion = 1, jb_Currency = ''USD'', jb_HoldID = None, jb_IdempotencyKey = None,
     jb_RequestHash = Some ''rh'', jb_ManifestHash = None, jb_RetryCount = 0, jb_Version = 0,
     jb_OutputExpiresAt = None, jb_InputDeletedAt = None, jb_OutputDeletedAt = None,
     jb_DownloadedAt = None, jb_UserDeletedAt = None, jb_LastErrorCode = None,
     jb_LastErrorMessage = None, jb_CreatedAt = 0, jb_UpdatedAt = 0, jb_SubmittedAt = None,
     jb_StartedAt = None, jb_FinishedAt = None, jb_SettledAt = None\<rparr>"

definition batch_world :: "billing \<Rightarrow> rat BatchImageJob list \<Rightarrow> batch_db" where
  "batch_world w js = billing.extend w (batch_db.fields js [] [] (int (length js) + 1) 1 [] [] [''0a'', ''0b''])"

lemma repo_keeps_lifecycle_witness:
  "lifecycle (batch_world demo_world [demo_job ''b1'' ''running''])
     (fold (exec_repo exact_driver)
        [RTransition ''b1'' ''indexing'' \<lparr>to_EventType = [], to_EventPayload = None, to_ErrorCode = None,
           to_ErrorMessage = None, to_Now = None\<rparr>, ROutputDeleted ''b1'' 5]
        (batch_world demo_world [demo_job ''b1'' ''running'']))"
  by (rule repo_keeps_lifecycle) simp

text \<open>
  Recording a submit failure as final has no guard on the status: whatever the job was, it
  becomes failed, even a cancelled or completed one.
\<close>

theorem submit_failure_overwrites_any_status:
  assumes "calm w" "find_job w b = Some j" "varchar_fits 128 code"
  shows "\<exists>j'. find_job (snd (run_state (RecordBatchImageJobSubmitFailure b code msg True) w)) b = Some j'
     \<and> jb_Status j' = BatchImageJobStatusFailed"
proof -
  have "jb_BatchID j = b" using assms(2) by (rule find_job_id)
  with assms show ?thesis
    by (auto simp: RecordBatchImageJobSubmitFailure_def run_bind exec_job_calm sum_bind_def set_error_def
        appendBatchImageEventWithSQL_def run_stmt_ok find_put_job marshal_ok_def Let_def)
qed

lemma submit_failure_overwrites_any_status_witness:
  "\<exists>j'. find_job (snd (run_state (RecordBatchImageJobSubmitFailure ''b1'' ''C'' [] True)
     (batch_world demo_world [demo_job ''b1'' ''completed'']))) ''b1'' = Some j'
     \<and> jb_Status j' = BatchImageJobStatusFailed"
proof (rule submit_failure_overwrites_any_status)
  show "calm (batch_world demo_world [demo_job ''b1'' ''completed''])" by code_simp
  show "find_job (batch_world demo_world [demo_job ''b1'' ''completed'']) ''b1''
      = Some (demo_job ''b1'' ''completed'')" by code_simp
  show "varchar_fits 128 ''C''" by code_simp
qed

lemma exec_job_InrD:
  assumes "run_state (exec_job b p f) w = (Inr n, w')" "n \<noteq> 0"
  obtains j j' fs where "find_job w b = Some j" "p j" "f j = Inr j'" "w' = put_job j' (w\<lparr>faults := fs\<rparr>)"
  using assms unfolding exec_job_def
  by (auto elim!: stmt_InrE split: option.splits if_splits sum.splits)

text \<open>A terminal job cannot be submitted, whatever calls fail.\<close>

lemma submit_of_terminal_fails:
  assumes "find_job w (ps_BatchID p) = Some j" "IsTerminalBatchImageJobStatus (jb_Status j)"
    and "run_state (UpdateBatchImageJobProviderSubmit p) w = (r, w')"
  shows "\<exists>e. r = Inl e \<and> same_db w w'"
proof -
  have no: "\<not> CanTransitionBatchImageJob (jb_Status j) BatchImageJobStatusSubmitted"
    using terminal_step [OF _ assms(2), of BatchImageJobStatusSubmitted] by auto
  have body: "\<exists>e. x = Inl e" if "run_state (updateBatchImageJobProviderSubmitWithSQL p) (w\<lparr>faults := fs\<rparr>) = (x, w2)"
    for x w2 fs
    using that no assms(1) unfolding updateBatchImageJobProviderSubmitWithSQL_def
    by (auto elim!: run_elims elim: select_statusD)
  from assms(3) show ?thesis
    unfolding UpdateBatchImageJobProviderSubmit_def in_tx_def
  proof (cases rule: with_tx_cases)
    case rolled_back
    show ?thesis
    proof (cases r)
      case (Inr x)
      with rolled_back(2) show ?thesis by (auto elim!: run_elims dest!: body)
    qed (use rolled_back(1) in simp)
  next
    case (committed fs w2 x fs')
    then show ?thesis by (auto elim!: run_elims dest!: body)
  qed
qed

lemma failStale_True:
  assumes "run_state (FailStaleUnsubmittedBatchImageJob b cutoff c m) w = ((True, e), w')"
  obtains j j' where "find_job w b = Some j" "unsubmitted (jb_Status j)" "jb_ProviderJobName j = None"
    "jb_UpdatedAt j \<le> cutoff" "find_job w' b = Some j'" "jb_Status j' = BatchImageJobStatusFailed"
proof -
  from assms obtain t w1 n w2 y where
    t: "run_state time_now w = (t, w1)" and
    u: "run_state (exec_job b
           (\<lambda>j. unsubmitted (jb_Status j) \<and> jb_ProviderJobName j = None \<and> jb_UpdatedAt j \<le> cutoff)
           (\<lambda>j. sum_bind (set_error (Some c) (Some m) j) (\<lambda>j1.
              Inr ((touch t j1)\<lparr>jb_Status := BatchImageJobStatusFailed,
                     jb_FinishedAt := coalesce (jb_FinishedAt j) t\<rparr>)))) w1 = (Inr n, w2)" and
    n: "n \<noteq> 0" and
    ev: "run_state (appendBatchImageEventWithSQL b ''billing_hold_recovery_failed_unsubmitted''
                 (Some [(''batch_id'', JStr b), (''error_code'', JStr c)])) w2 = (y, w')"
    unfolding FailStaleUnsubmittedBatchImageJob_def by (auto elim!: run_elims)
  from u n obtain j j1 fs where j: "find_job w1 b = Some j" "unsubmitted (jb_Status j)"
    "jb_ProviderJobName j = None" "jb_UpdatedAt j \<le> cutoff"
    and e1: "set_error (Some c) (Some m) j = Inr j1"
    and w2: "w2 = put_job ((touch t j1)\<lparr>jb_Status := BatchImageJobStatusFailed,
                     jb_FinishedAt := coalesce (jb_FinishedAt j) t\<rparr>) (w1\<lparr>faults := fs\<rparr>)"
    by (elim exec_job_InrD) (auto simp: sum_bind_Inr)
  have "jb_BatchID j1 = b"
    using set_error_evolves [OF e1] find_job_id [OF j(1)] by (simp add: job_identity_def)
  with w2 j(1) have "find_job w2 b = Some ((touch t j1)\<lparr>jb_Status := BatchImageJobStatusFailed,
                     jb_FinishedAt := coalesce (jb_FinishedAt j) t\<rparr>)"
    by (simp add: find_put_job)
  moreover have "find_job w' b = find_job w2 b"
    using ev unfolding appendBatchImageEventWithSQL_def
    by (auto elim!: run_elims stmt_cases split: if_splits)
  ultimately show ?thesis
    using that j time_now_find_job [OF t, of b] by auto
qed

text \<open>
  A job that the stale scan has failed (and whose hold is refunded) is never submitted
  afterwards, whatever other writes that keep the life cycle come in between: the scan and a slow
  submission cannot both win.
\<close>

theorem stale_failure_excludes_submission:
  assumes "run_state (FailStaleUnsubmittedBatchImageJob b cutoff c m) w = ((True, e), w1)"
    and "lifecycle w1 w2" "ps_BatchID p = b"
  shows "\<exists>err w3. run_state (UpdateBatchImageJobProviderSubmit p) w2 = (Inl err, w3) \<and> same_db w2 w3"
proof -
  obtain j where j: "find_job w1 b = Some j" "jb_Status j = BatchImageJobStatusFailed"
    using assms(1) by (rule failStale_True)
  with assms(2) obtain j2 where j2: "find_job w2 b = Some j2" "reaches (jb_Status j) (jb_Status j2)"
    by (blast dest: lifecycleD)
  then have "IsTerminalBatchImageJobStatus (jb_Status j2)"
    using reaches_terminal [of "jb_Status j" "jb_Status j2"] j(2)
    by (auto simp: IsTerminalBatchImageJobStatus_def)
  with j2(1) assms(3) submit_of_terminal_fails [of w2 p j2] show ?thesis
    by (metis surj_pair)
qed

definition demo_submit :: "string \<Rightarrow> UpdateBatchImageJobProviderSubmitParams" where
  "demo_submit b = \<lparr>ps_BatchID = b, ps_ProviderJobName = ''p'', ps_ProviderInputRef = [],
     ps_ProviderOutputRef = [], ps_GCSInputURI = [], ps_GCSOutputURI = [], ps_EventPayload = None\<rparr>"

lemma stale_failure_excludes_submission_witness:
  "\<exists>err w3. run_state (UpdateBatchImageJobProviderSubmit (demo_submit ''b1''))
     (snd (run_state (FailStaleUnsubmittedBatchImageJob ''b1'' 5 ''S'' [])
        (batch_world demo_world [demo_job ''b1'' ''uploading'']))) = (Inl err, w3)"
proof -
  let ?w = "batch_world demo_world [demo_job ''b1'' ''uploading'']"
  have "fst (run_state (FailStaleUnsubmittedBatchImageJob ''b1'' 5 ''S'' []) ?w) = (True, None)"
    by code_simp
  then have "run_state (FailStaleUnsubmittedBatchImageJob ''b1'' 5 ''S'' []) ?w
      = ((True, None), snd (run_state (FailStaleUnsubmittedBatchImageJob ''b1'' 5 ''S'' []) ?w))"
    by (metis prod.collapse)
  from stale_failure_excludes_submission [OF this lifecycle_refl, of "demo_submit ''b1''"]
  show ?thesis by (auto simp: demo_submit_def)
qed

lemma settle_row_InrD: "settle_row env now p j = Inr j' \<Longrightarrow>
    jb_Status j' = BatchImageJobStatusCompleted \<and> jb_BatchID j' = jb_BatchID j
    \<and> (\<exists>q. to_numeric env (ms_ActualCost p) = Some q \<and> jb_ActualCost j' = Some (dec_round 10 q))
    \<and> jb_ManifestHash j' = Some (ms_ManifestHash p)"
  by (auto simp: settle_row_def sum_bind_Inr to_dec_def split: if_splits option.splits dest!: store_dec_InrD)

lemma event_keeps_jobs:
  assumes "run_state (appendBatchImageEventWithSQL b t p) w = (r, w')"
  shows "find_job w' b' = find_job w b'" "jobs w' = jobs w"
  using assms unfolding appendBatchImageEventWithSQL_def
  by (auto elim!: run_elims stmt_cases split: if_splits)

lemma markSettled_InrD:
  assumes "run_state (MarkBatchImageJobSettled env p) w = (Inr (), w')"
  obtains j j' now where "find_job w (ms_BatchID p) = Some j" "jb_Status j = BatchImageJobStatusSettling"
    "settle_row env now p j = Inr j'" "find_job w' (ms_BatchID p) = Some j'"
proof -
  let ?b = "ms_BatchID p"
  from assms obtain fs w2 fs' where
    body: "run_state (markBatchImageJobSettledWithSQL env p) (w\<lparr>faults := fs\<rparr>) = (Inr (), w2)" and
    w': "w' = w2\<lparr>faults := fs'\<rparr>"
    unfolding MarkBatchImageJobSettled_def in_tx_def
    by (cases rule: with_tx_cases) (auto elim!: run_elims)
  from body obtain t w1 where t: "run_state time_now (w\<lparr>faults := fs\<rparr>) = (t, w1)"
    unfolding markBatchImageJobSettledWithSQL_def by (auto elim!: run_elims)
  let ?now = "deref_or t (ms_Now p)"
  from body t obtain j j' gs where
    j: "find_job w1 ?b = Some j" "jb_Status j = BatchImageJobStatusSettling"
      "settle_row env ?now p j = Inr j'" and
    ev: "run_state (appendBatchImageEventWithSQL ?b ''settlement_completed'' (ms_EventPayload p))
           (put_job j' (w1\<lparr>faults := gs\<rparr>)) = (Inr (), w2)"
    unfolding markBatchImageJobSettledWithSQL_def Let_def
    by (auto elim!: run_elims stmt_InrE split: option.splits if_splits sum.splits)
  have w3: "find_job (put_job j' (w1\<lparr>faults := gs\<rparr>)) ?b = Some j'"
    using j(1) settle_row_InrD [OF j(3)] find_job_id [OF j(1)] by (simp add: find_put_job)
  have "find_job w ?b = Some j" using j(1) time_now_find_job [OF t, of ?b] by simp
  moreover have "find_job w' ?b = Some j'" using w3 event_keeps_jobs(1) [OF ev] w' by simp
  ultimately show ?thesis using that j by blast
qed

text \<open>
  C11: A job is settled once: a successful settlement found it settling and leaves it completed
  with the rounded actual cost and the manifest; settling it again is answered as already settled.
\<close>

theorem settle_once:
  assumes "run_state (MarkBatchImageJobSettled env p) w = (Inr (), w1)"
    and "calm w1" "ms_BatchID q = ms_BatchID p"
  shows "(\<exists>j j1 a. find_job w (ms_BatchID p) = Some j \<and> jb_Status j = BatchImageJobStatusSettling
      \<and> find_job w1 (ms_BatchID p) = Some j1 \<and> jb_Status j1 = BatchImageJobStatusCompleted
      \<and> to_numeric env (ms_ActualCost p) = Some a \<and> jb_ActualCost j1 = Some (dec_round 10 a)
      \<and> jb_ManifestHash j1 = Some (ms_ManifestHash p))
    \<and> run_state (MarkBatchImageJobSettled env q) w1 = (Inl ErrBatchImageAlreadySettled, w1)"
proof -
  obtain j j1 now where j: "find_job w (ms_BatchID p) = Some j" "jb_Status j = BatchImageJobStatusSettling"
    "settle_row env now p j = Inr j1" "find_job w1 (ms_BatchID p) = Some j1"
    using assms(1) by (rule markSettled_InrD)
  note j1 = settle_row_InrD [OF j(3)]
  have "find (\<lambda>j. jb_BatchID j = ms_BatchID p) (jobs w1) = Some j1"
    using j(4) by (simp add: find_job_def)
  then have "run_state (markBatchImageJobSettledWithSQL env q) w1 = (Inl ErrBatchImageAlreadySettled, w1)"
    using j(4) j1 assms(2,3)
    by (simp add: markBatchImageJobSettledWithSQL_def run_bind run_stmt_ok select_job_def Let_def)
  from run_in_tx_error [OF assms(2) this] have
    "run_state (MarkBatchImageJobSettled env q) w1 = (Inl ErrBatchImageAlreadySettled, w1)"
    by (simp add: MarkBatchImageJobSettled_def)
  with j j1 show ?thesis by auto
qed

definition demo_settle :: "string \<Rightarrow> MarkBatchImageJobSettledParams" where
  "demo_settle b = \<lparr>ms_BatchID = b, ms_ActualCost = Fin 3, ms_ManifestHash = ''mh'',
     ms_EventPayload = None, ms_Now = None, ms_OutputExpiresAt = Some 9\<rparr>"

lemma settle_once_witness:
  "fst (run_state (MarkBatchImageJobSettled exact_driver (demo_settle ''b1''))
     (snd (run_state (MarkBatchImageJobSettled exact_driver (demo_settle ''b1''))
        (batch_world demo_world [demo_job ''b1'' ''settling'']))))
   = Inl ErrBatchImageAlreadySettled"
proof -
  let ?m = "MarkBatchImageJobSettled exact_driver (demo_settle ''b1'')"
  let ?w = "batch_world demo_world [demo_job ''b1'' ''settling'']"
  have "fst (run_state ?m ?w) = Inr ()" by code_simp
  then have "run_state ?m ?w = (Inr (), snd (run_state ?m ?w))" by (metis prod.collapse)
  moreover have "calm (snd (run_state ?m ?w))" by code_simp
  ultimately show ?thesis using settle_once [of exact_driver _ ?w _ "demo_settle ''b1''"] by simp
qed

text \<open>What one accepted item insertion does.\<close>

lemma insert_item_InrD:
  assumes "run_state (createBatchImageItemWithSQL env p) w = (Inr x, w')"
  obtains it where "items w' = items w @ [it]" "it_JobID it = ci_JobID p" "it_CustomID it = ci_CustomID p"
    "it_Status it = ci_Status p" "jobs w' = jobs w"
    "\<And>i. i \<in> set (items w) \<Longrightarrow> \<not> (it_JobID i = ci_JobID p \<and> it_CustomID i = ci_CustomID p)"
proof -
  from assms obtain t w1 fs where t: "run_state time_now w = (t, w1)" and
    ins: "(case item_row env t (next_item_id (w1\<lparr>faults := fs\<rparr>)) p of
         Inl e \<Rightarrow> (Inl e, w1\<lparr>faults := fs\<rparr>)
       | Inr it \<Rightarrow>
           if \<not> (varchar_fits 255 (ci_CustomID p) \<and> varchar_fits 32 (ci_Status p))
           then (Inl sql_too_long, w1\<lparr>faults := fs\<rparr>)
           else if find_job (w1\<lparr>faults := fs\<rparr>) (ci_JobID p) = None then (Inl sql_foreign_key, w1\<lparr>faults := fs\<rparr>)
           else if \<exists>i \<in> set (items (w1\<lparr>faults := fs\<rparr>)). it_JobID i = ci_JobID p \<and> it_CustomID i = ci_CustomID p
           then (Inl sql_unique, w1\<lparr>faults := fs\<rparr>)
           else (Inr (scanBatchImageItem env it),
                 (w1\<lparr>faults := fs\<rparr>)\<lparr>items := items (w1\<lparr>faults := fs\<rparr>) @ [it],
                    next_item_id := next_item_id (w1\<lparr>faults := fs\<rparr>) + 1\<rparr>)) = (Inr x, w')"
    unfolding createBatchImageItemWithSQL_def by (auto elim!: run_bindE stmt_InrE)
  from t obtain c ts where w1: "w1 = w\<lparr>clock := c, ticks := ts\<rparr>" by (rule run_time_now_eq)
  from ins w1 obtain it where "item_row env t (next_item_id w) p = Inr it"
    "items w' = items w @ [it]" "jobs w' = jobs w"
    "\<not> (\<exists>i \<in> set (items w). it_JobID i = ci_JobID p \<and> it_CustomID i = ci_CustomID p)"
    by (auto split: sum.splits if_splits)
  then show ?thesis
    using that by (auto simp: item_row_def sum_bind_Inr)
qed

lemma insert_items_InrD:
  assumes "run_state (insert_items env ps) w = (Inr (), w')"
  shows "jobs w' = jobs w \<and> (\<exists>new. items w' = items w @ new
    \<and> map (\<lambda>i. (it_JobID i, it_CustomID i, it_Status i)) new
      = map (\<lambda>p. (ci_JobID p, ci_CustomID p, ci_Status p)) ps
    \<and> (distinct (map (\<lambda>i. (it_JobID i, it_CustomID i)) (items w))
       \<longrightarrow> distinct (map (\<lambda>i. (it_JobID i, it_CustomID i)) (items w'))))"
  using assms
proof (induction ps arbitrary: w)
  case (Cons p ps)
  then obtain x w1 where i: "run_state (createBatchImageItemWithSQL env p) w = (Inr x, w1)"
    and r: "run_state (insert_items env ps) w1 = (Inr (), w')"
    by (auto elim!: run_elims simp: CreateBatchImageItem_def split: sum.splits)
  from i obtain it where it: "items w1 = items w @ [it]" "it_JobID it = ci_JobID p"
    "it_CustomID it = ci_CustomID p" "it_Status it = ci_Status p" "jobs w1 = jobs w"
    "\<And>i. i \<in> set (items w) \<Longrightarrow> \<not> (it_JobID i = ci_JobID p \<and> it_CustomID i = ci_CustomID p)"
    by (rule insert_item_InrD) blast
  from Cons.IH [OF r] obtain new where new: "jobs w' = jobs w1" "items w' = items w1 @ new"
    "map (\<lambda>i. (it_JobID i, it_CustomID i, it_Status i)) new
      = map (\<lambda>p. (ci_JobID p, ci_CustomID p, ci_Status p)) ps"
    "distinct (map (\<lambda>i. (it_JobID i, it_CustomID i)) (items w1))
       \<longrightarrow> distinct (map (\<lambda>i. (it_JobID i, it_CustomID i)) (items w'))"
    by blast
  have d: "distinct (map (\<lambda>i. (it_JobID i, it_CustomID i)) (items w))
       \<longrightarrow> distinct (map (\<lambda>i. (it_JobID i, it_CustomID i)) (items w1))"
    using it(1-3) it(6) by (auto simp: eq_commute)
  have a: "items w' = items w @ (it # new)" using it(1) new(2) by simp
  have m: "map (\<lambda>i. (it_JobID i, it_CustomID i, it_Status i)) (it # new)
      = map (\<lambda>p. (ci_JobID p, ci_CustomID p, ci_Status p)) (p # ps)"
    using it new(3) by simp
  have "jobs w' = jobs w" using new(1) it(5) by simp
  moreover have "distinct (map (\<lambda>i. (it_JobID i, it_CustomID i)) (items w))
       \<longrightarrow> distinct (map (\<lambda>i. (it_JobID i, it_CustomID i)) (items w'))"
    using d new(4) by blast
  ultimately show ?case using a m by blast
qed simp

lemma replace_items_InrD:
  assumes "run_state (ReplaceBatchImageItemsForJob env b ps n) w = (Inr (), w')"
    and "distinct (map (\<lambda>i. (it_JobID i, it_CustomID i)) (items w))"
  shows "(\<exists>j. find_job w b = Some j \<and> jb_Status j = BatchImageJobStatusIndexing)
    \<and> (\<exists>j'. find_job w' b = Some j' \<and> jb_SuccessCount j' = bc_SuccessCount n \<and> jb_FailCount j' = bc_FailCount n)
    \<and> map (\<lambda>i. (it_CustomID i, it_Status i)) (filter (\<lambda>i. it_JobID i = b) (items w'))
       = map (\<lambda>p. (ci_CustomID p, ci_Status p)) ps
    \<and> distinct (map ci_CustomID ps)"
proof -
  from assms(1) obtain fs w2 fs' where
    body: "run_state (replaceBatchImageItemsForJobWithSQL env b ps n) (w\<lparr>faults := fs\<rparr>) = (Inr (), w2)" and
    w': "w' = w2\<lparr>faults := fs'\<rparr>"
    unfolding ReplaceBatchImageItemsForJob_def in_tx_def
    by (cases rule: with_tx_cases) (auto elim!: run_elims)
  from body obtain pre w3 w4 t w6 w7 m fs3 where
    sel: "run_state (select_status_for_update b) (w\<lparr>faults := fs\<rparr>) = (Inr BatchImageJobStatusIndexing, w3)" and
    pre: "run_state (batchImageItemPromptPreviews b) w3 = (Inr pre, w4)" and
    ins: "run_state (insert_items env (map (with_preview pre b) ps))
       (w4\<lparr>faults := fs3, items := filter (\<lambda>i. it_JobID i \<noteq> b) (items w4)\<rparr>) = (Inr (), w6)" and
    t: "run_state time_now w6 = (t, w7)" and
    upd: "run_state (exec_job b (\<lambda>_. True) (\<lambda>j. Inr (j\<lparr>jb_SuccessCount := bc_SuccessCount n,
                     jb_FailCount := bc_FailCount n, jb_UpdatedAt := t\<rparr>))) w7 = (Inr m, w2)"
    unfolding replaceBatchImageItemsForJobWithSQL_def
    by (auto elim!: run_elims stmt_InrE) blast
  let ?w5 = "w4\<lparr>faults := fs3, items := filter (\<lambda>i. it_JobID i \<noteq> b) (items w4)\<rparr>"
  from sel obtain j gs where j: "find_job w b = Some j" "jb_Status j = BatchImageJobStatusIndexing"
    "w3 = w\<lparr>faults := gs\<rparr>"
    by (elim select_statusD) auto
  from pre j(3) obtain hs where w4: "w4 = w\<lparr>faults := hs\<rparr>"
    unfolding batchImageItemPromptPreviews_def by (auto elim!: stmt_InrE)
  have wp: "ci_JobID (with_preview pre b p) = b" "ci_CustomID (with_preview pre b p) = ci_CustomID p"
    "ci_Status (with_preview pre b p) = ci_Status p" for p
    by (auto simp: with_preview_def Let_def split: option.splits)
  have w5: "items ?w5 = filter (\<lambda>i. it_JobID i \<noteq> b) (items w)" "jobs ?w5 = jobs w" using w4 by simp_all
  from insert_items_InrD [OF ins] obtain new where new: "jobs w6 = jobs ?w5" "items w6 = items ?w5 @ new"
    "map (\<lambda>i. (it_JobID i, it_CustomID i, it_Status i)) new = map (\<lambda>p. (b, ci_CustomID p, ci_Status p)) ps"
    "distinct (map (\<lambda>i. (it_JobID i, it_CustomID i)) (items ?w5))
      \<longrightarrow> distinct (map (\<lambda>i. (it_JobID i, it_CustomID i)) (items w6))"
    by (auto simp: wp comp_def)
  have j7: "find_job w7 b = Some j"
    using time_now_find_job [OF t, of b] new(1) w5(2) j(1) by (simp add: find_job_def)
  let ?j' = "j\<lparr>jb_SuccessCount := bc_SuccessCount n, jb_FailCount := bc_FailCount n, jb_UpdatedAt := t\<rparr>"
  from upd j7 obtain ks where w2: "w2 = put_job ?j' (w7\<lparr>faults := ks\<rparr>)"
    unfolding exec_job_def by (auto elim!: stmt_InrE)
  have "find_job w' b = Some ?j'"
    using w2 w' j7 find_job_id [OF j7] by (simp add: find_put_job)
  moreover have its: "items w' = filter (\<lambda>i. it_JobID i \<noteq> b) (items w) @ new"
    using w2 w' new(2) w5(1) t by (auto simp: put_job_def elim!: run_time_now_eq)
  have nb: "\<forall>i \<in> set new. it_JobID i = b"
    using arg_cong [OF new(3), of "\<lambda>xs. fst ` set xs"] by (auto simp: image_image)
  have m: "map (\<lambda>i. (it_CustomID i, it_Status i)) new = map (\<lambda>p. (ci_CustomID p, ci_Status p)) ps"
    using arg_cong [OF new(3), of "map snd"] by (simp add: comp_def)
  have "distinct (map (\<lambda>i. (it_JobID i, it_CustomID i)) new)"
    using new(2,4) w5(1) assms(2) by (simp add: distinct_map_filter)
  with nb have "distinct (map it_CustomID new)"
    by (auto simp: distinct_map inj_on_def)
  moreover have "map it_CustomID new = map ci_CustomID ps"
    using arg_cong [OF m, of "map fst"] by (simp add: comp_def)
  moreover have "filter (\<lambda>i. it_JobID i = b) (items w') = new"
    using its nb by (simp add: filter_empty_conv)
  ultimately show ?thesis using j m by simp
qed

text \<open>
  Rebuilding the items of a job is all or nothing: it succeeds only on an indexing job, and
  then the job has exactly the given items, with no custom id twice, and the given counts; otherwise
  the tables are as before (an answer lost at the commit aside).
\<close>

theorem ReplaceBatchImageItems_spec:
  assumes "run_state (ReplaceBatchImageItemsForJob env b ps n) w = (Inr (), w')"
    and "distinct (map (\<lambda>i. (it_JobID i, it_CustomID i)) (items w))"
  shows "(\<exists>j. find_job w b = Some j \<and> jb_Status j = BatchImageJobStatusIndexing)
    \<and> (\<exists>j'. find_job w' b = Some j' \<and> jb_SuccessCount j' = bc_SuccessCount n \<and> jb_FailCount j' = bc_FailCount n)
    \<and> map (\<lambda>i. (it_CustomID i, it_Status i)) (filter (\<lambda>i. it_JobID i = b) (items w'))
       = map (\<lambda>p. (ci_CustomID p, ci_Status p)) ps
    \<and> distinct (map ci_CustomID ps)"
  using assms by (rule replace_items_InrD)

definition demo_item :: "string \<Rightarrow> string \<Rightarrow> CreateBatchImageItemParams" where
  "demo_item c s = \<lparr>ci_JobID = [], ci_CustomID = c, ci_Status = s, ci_RequestHash = None,
     ci_PromptPreview = None, ci_ProviderSourceObject = None, ci_SourceLineNumber = None,
     ci_SourceByteOffset = None, ci_SourceByteLength = None, ci_MimeType = None,
     ci_FileExtension = None, ci_ImageCount = 1, ci_ErrorCode = None, ci_ErrorMessage = None,
     ci_BilledAmount = None, ci_IndexedAt = None\<rparr>"

lemma ReplaceBatchImageItems_spec_witness:
  "distinct (map ci_CustomID [demo_item ''a'' ''success'', demo_item ''b'' ''failed''])
   \<and> (\<exists>j'. find_job (snd (run_state (ReplaceBatchImageItemsForJob exact_driver ''b1''
          [demo_item ''a'' ''success'', demo_item ''b'' ''failed''] \<lparr>bc_SuccessCount = 1, bc_FailCount = 1\<rparr>)
        (batch_world demo_world [demo_job ''b1'' ''indexing'']))) ''b1'' = Some j' \<and> jb_FailCount j' = 1)"
proof -
  let ?w = "batch_world demo_world [demo_job ''b1'' ''indexing'']"
  let ?m = "ReplaceBatchImageItemsForJob exact_driver ''b1''
     [demo_item ''a'' ''success'', demo_item ''b'' ''failed''] \<lparr>bc_SuccessCount = 1, bc_FailCount = 1\<rparr>"
  have "fst (run_state ?m ?w) = Inr ()" by code_simp
  then have "run_state ?m ?w = (Inr (), snd (run_state ?m ?w))" by (metis prod.collapse)
  moreover have "distinct (map (\<lambda>i. (it_JobID i, it_CustomID i)) (items ?w))" by code_simp
  ultimately show ?thesis using ReplaceBatchImageItems_spec [of exact_driver] by fastforce
qed

end
