(* ===== verification/BatchImageWorker.thy ===== *)
theory BatchImageWorker
  imports Database
begin

section \<open>The batch image worker and the queue it relies on\<close>

text \<open>
  \<^verbatim>\<open>service/batch_image_queue.go\<close> and \<^verbatim>\<open>service/batch_image_worker.go\<close>.  The interfaces
  \<^verbatim>\<open>BatchImageQueue\<close> and \<^verbatim>\<open>BatchImageJobLock\<close> are records of operations over any state; their
  laws are the locales \<open>job_queue\<close> and \<open>accountable_queue\<close>, in which the worker's lemmas are proved.
  \<open>BatchImageQueue\<close> interprets both on the Redis implementation.

  The heartbeat goroutine runs while \<^verbatim>\<open>Process\<close> runs: the model takes the number of its ticks
  before and after the effects of \<^verbatim>\<open>Process\<close>.  The endless loops (\<^verbatim>\<open>Run\<close>, \<^verbatim>\<open>RunDelayedMover\<close>,
  \<^verbatim>\<open>RunStaleActiveRecovery\<close>) only repeat the steps modelled here.
\<close>

subsection \<open>Interfaces\<close>

definition ErrBatchImageQueueEmpty :: goerr where
  "ErrBatchImageQueueEmpty = New 404 ''BATCH_IMAGE_QUEUE_EMPTY'' ''batch image queue is empty''"

definition ErrBatchImageAlreadyQueued :: goerr where
  "ErrBatchImageAlreadyQueued = New 409 ''BATCH_IMAGE_ALREADY_QUEUED'' ''batch image job is already queued''"

definition ErrInvalidBatchImageQueuePayload :: goerr where
  "ErrInvalidBatchImageQueuePayload =
     New 400 ''BATCH_IMAGE_QUEUE_INVALID_PAYLOAD'' ''invalid batch image queue payload''"

definition IsValidBatchImageID :: "string \<Rightarrow> bool" where
  "IsValidBatchImageID batchID \<longleftrightarrow>
     has_prefix batchID ''imgbatch_'' \<and> length ''imgbatch_'' < length batchID"

text \<open>\<open>lk_Refresh\<close> is the optional interface \<^verbatim>\<open>BatchImageJobLockRefresher\<close>.\<close>

record 's BatchImageJobLock =
  lk_Release :: "('s, goerr + unit) state"
  lk_Refresh :: "(int \<Rightarrow> ('s, goerr + unit) state) option"

record 's BatchImageQueue =
  q_Enqueue :: "string \<Rightarrow> ('s, goerr + unit) state"
  q_Reserve :: "int \<Rightarrow> ('s, goerr + string) state"
  q_RequeueAfter :: "string \<Rightarrow> int \<Rightarrow> ('s, goerr + unit) state"
  q_Ack :: "string \<Rightarrow> ('s, goerr + unit) state"
  q_Heartbeat :: "string \<Rightarrow> ('s, goerr + unit) state"
  q_MoveDueDelayedToReady :: "int \<Rightarrow> ('s, goerr + int) state"
  q_RecoverStaleActive :: "int \<Rightarrow> int \<Rightarrow> ('s, goerr + int) state"
  q_TryAcquireJobLock :: "string \<Rightarrow> int \<Rightarrow> ('s, goerr + 's BatchImageJobLock option) state"

record BatchImageProcessResult =
  pr_RequeueAfter :: int
  pr_Terminal :: bool

definition no_process_result :: BatchImageProcessResult where
  "no_process_result = \<lparr>pr_RequeueAfter = 0, pr_Terminal = False\<rparr>"

definition terminal_result :: BatchImageProcessResult where
  "terminal_result = \<lparr>pr_RequeueAfter = 0, pr_Terminal = True\<rparr>"

definition requeue_result :: "int \<Rightarrow> BatchImageProcessResult" where
  "requeue_result d = \<lparr>pr_RequeueAfter = d, pr_Terminal = False\<rparr>"

subsection \<open>Options\<close>

record BatchImageWorkerOptions =
  wo_ReserveBlockTimeout :: int
  wo_JobLockTTL :: int
  wo_LockConflictDelay :: int
  wo_DefaultRequeueDelay :: int
  wo_ErrorRetryDelay :: int
  wo_ErrorBackoff :: int
  wo_DelayedPollInterval :: int
  wo_RecoveryInterval :: int
  wo_StaleActiveAfter :: int
  wo_DelayedMoveLimit :: int
  wo_RecoverLimit :: int

definition positive_or :: "int \<Rightarrow> int \<Rightarrow> int" where
  "positive_or d x = (if x \<le> 0 then d else x)"

definition normalizeBatchImageWorkerOptions :: "BatchImageWorkerOptions \<Rightarrow> BatchImageWorkerOptions" where
  "normalizeBatchImageWorkerOptions opts = \<lparr>
     wo_ReserveBlockTimeout = positive_or (5 * second) (wo_ReserveBlockTimeout opts),
     wo_JobLockTTL = positive_or (5 * minute) (wo_JobLockTTL opts),
     wo_LockConflictDelay = positive_or (5 * second) (wo_LockConflictDelay opts),
     wo_DefaultRequeueDelay = positive_or (30 * second) (wo_DefaultRequeueDelay opts),
     wo_ErrorRetryDelay = positive_or minute (wo_ErrorRetryDelay opts),
     wo_ErrorBackoff = positive_or second (wo_ErrorBackoff opts),
     wo_DelayedPollInterval = positive_or (5 * second) (wo_DelayedPollInterval opts),
     wo_RecoveryInterval = positive_or (5 * minute) (wo_RecoveryInterval opts),
     wo_StaleActiveAfter = positive_or (10 * minute) (wo_StaleActiveAfter opts),
     wo_DelayedMoveLimit = positive_or 100 (wo_DelayedMoveLimit opts),
     wo_RecoverLimit = positive_or 100 (wo_RecoverLimit opts)\<rparr>"

text \<open>The part of \<^verbatim>\<open>config.BatchImage\<close> that the worker reads.\<close>

record BatchImageWorkerConfig =
  bw_JobLockTTLSeconds :: int
  bw_LockConflictDelaySeconds :: int
  bw_DefaultRequeueDelaySeconds :: int
  bw_ErrorRetryDelaySeconds :: int
  bw_DelayedMoverIntervalSeconds :: int
  bw_RecoveryIntervalSeconds :: int
  bw_StaleActiveAfterSeconds :: int
  bw_DelayedMoveLimit :: int
  bw_RecoverLimit :: int

definition zero_worker_options :: BatchImageWorkerOptions where
  "zero_worker_options = \<lparr>wo_ReserveBlockTimeout = 0, wo_JobLockTTL = 0, wo_LockConflictDelay = 0,
     wo_DefaultRequeueDelay = 0, wo_ErrorRetryDelay = 0, wo_ErrorBackoff = 0,
     wo_DelayedPollInterval = 0, wo_RecoveryInterval = 0, wo_StaleActiveAfter = 0,
     wo_DelayedMoveLimit = 0, wo_RecoverLimit = 0\<rparr>"

definition NewBatchImageWorkerOptionsFromConfig :: "BatchImageWorkerConfig option \<Rightarrow> BatchImageWorkerOptions"
where
  "NewBatchImageWorkerOptionsFromConfig cfg = normalizeBatchImageWorkerOptions (case cfg of
      None \<Rightarrow> zero_worker_options
    | Some c \<Rightarrow> zero_worker_options\<lparr>
        wo_JobLockTTL := bw_JobLockTTLSeconds c * second,
        wo_LockConflictDelay := bw_LockConflictDelaySeconds c * second,
        wo_DefaultRequeueDelay := bw_DefaultRequeueDelaySeconds c * second,
        wo_ErrorRetryDelay := bw_ErrorRetryDelaySeconds c * second,
        wo_DelayedPollInterval := bw_DelayedMoverIntervalSeconds c * second,
        wo_RecoveryInterval := bw_RecoveryIntervalSeconds c * second,
        wo_StaleActiveAfter := bw_StaleActiveAfterSeconds c * second,
        wo_DelayedMoveLimit := bw_DelayedMoveLimit c,
        wo_RecoverLimit := bw_RecoverLimit c\<rparr>)"

definition heartbeatInterval :: "BatchImageWorkerOptions \<Rightarrow> int" where
  "heartbeatInterval opts =
     (let interval = (if wo_StaleActiveAfter opts < wo_JobLockTTL opts then wo_StaleActiveAfter opts
                      else wo_JobLockTTL opts);
          third = go_div interval 3
      in if third < second then second else third)"

subsection \<open>One round of the worker\<close>

text \<open>One tick of \<^verbatim>\<open>runJobHeartbeat\<close>; failures are only logged.\<close>

definition heartbeat_tick :: "'s BatchImageQueue \<Rightarrow> BatchImageWorkerOptions \<Rightarrow> string \<Rightarrow>
    's BatchImageJobLock \<Rightarrow> ('s, unit) state" where
  "heartbeat_tick q opts batchID lock = do {
     h \<leftarrow> q_Heartbeat q batchID;
     case lk_Refresh lock of
       None \<Rightarrow> ret ()
     | Some refresh \<Rightarrow> do { r \<leftarrow> refresh (wo_JobLockTTL opts); ret () } }"

fun runJobHeartbeat :: "'s BatchImageQueue \<Rightarrow> BatchImageWorkerOptions \<Rightarrow> string \<Rightarrow>
    's BatchImageJobLock \<Rightarrow> nat \<Rightarrow> ('s, unit) state" where
  "runJobHeartbeat q opts batchID lock 0 = ret ()"
| "runJobHeartbeat q opts batchID lock (Suc n) = do {
     t \<leftarrow> heartbeat_tick q opts batchID lock;
     runJobHeartbeat q opts batchID lock n }"

text \<open>What happens under the lock: heartbeats, \<^verbatim>\<open>Process\<close>, and the answer to the queue.\<close>

definition process_reserved :: "'s BatchImageQueue \<Rightarrow> (string \<Rightarrow> ('s, goerr + BatchImageProcessResult) state) \<Rightarrow>
    BatchImageWorkerOptions \<Rightarrow> nat \<times> nat \<Rightarrow> string \<Rightarrow> 's BatchImageJobLock \<Rightarrow> ('s, goerr + unit) state" where
  "process_reserved q process opts beats batchID lock = do {
     b1 \<leftarrow> runJobHeartbeat q opts batchID lock (fst beats);
     result \<leftarrow> process batchID;
     b2 \<leftarrow> runJobHeartbeat q opts batchID lock (snd beats);
     case result of
       Inl err \<Rightarrow> q_RequeueAfter q batchID (wo_ErrorRetryDelay opts)
     | Inr result \<Rightarrow>
         if pr_Terminal result then q_Ack q batchID
         else q_RequeueAfter q batchID
                (if pr_RequeueAfter result \<le> 0 then wo_DefaultRequeueDelay opts
                 else pr_RequeueAfter result) }"

definition RunOnce :: "'s BatchImageQueue \<Rightarrow> (string \<Rightarrow> ('s, goerr + BatchImageProcessResult) state) \<Rightarrow>
    BatchImageWorkerOptions \<Rightarrow> nat \<times> nat \<Rightarrow> ('s, goerr + unit) state" where
  "RunOnce q process opts beats = do {
     reserved \<leftarrow> q_Reserve q (wo_ReserveBlockTimeout opts);
     case reserved of
       Inl err \<Rightarrow> ret (if err_is err ErrBatchImageQueueEmpty then Inr () else Inl err)
     | Inr batchID \<Rightarrow> do {
         l \<leftarrow> q_TryAcquireJobLock q batchID (wo_JobLockTTL opts);
         case l of
           Inl err \<Rightarrow> do {
             r \<leftarrow> q_RequeueAfter q batchID (wo_LockConflictDelay opts);
             ret (case r of Inl requeueErr \<Rightarrow> Inl requeueErr | Inr _ \<Rightarrow> Inl err) }
         | Inr None \<Rightarrow> q_RequeueAfter q batchID (wo_LockConflictDelay opts)
         | Inr (Some lock) \<Rightarrow> do {
             answer \<leftarrow> process_reserved q process opts beats batchID lock;
             rel \<leftarrow> lk_Release lock;
             ret answer } } }"

definition MoveDueDelayedOnce :: "'s BatchImageQueue \<Rightarrow> BatchImageWorkerOptions \<Rightarrow> ('s, goerr + int) state" where
  "MoveDueDelayedOnce q opts = q_MoveDueDelayedToReady q (wo_DelayedMoveLimit opts)"

definition RecoverStaleActiveOnce :: "'s BatchImageQueue \<Rightarrow> BatchImageWorkerOptions \<Rightarrow> ('s, goerr + int) state" where
  "RecoverStaleActiveOnce q opts = q_RecoverStaleActive q (wo_StaleActiveAfter opts) (wo_RecoverLimit opts)"

definition EnqueueBatchImageJob :: "'s BatchImageQueue \<Rightarrow> (string \<Rightarrow> ('s, goerr + 'j) state) \<Rightarrow> string \<Rightarrow>
    ('s, goerr + unit) state" where
  "EnqueueBatchImageJob q get_job batchID =
     (if \<not> IsValidBatchImageID batchID then ret (Inl ErrInvalidBatchImageQueuePayload)
      else do { j \<leftarrow> get_job batchID; chain j (\<lambda>_. q_Enqueue q batchID) })"

subsection \<open>The contract of the queue\<close>

text \<open>
  Every operation of the queue, and of the locks it gives out, moves the state along a preorder \<open>R\<close>.
\<close>

locale job_queue =
  fixes q :: "'s BatchImageQueue" and R :: "'s \<Rightarrow> 's \<Rightarrow> bool"
  assumes R_refl: "reflp R" and R_trans: "transp R"
    and enqueue: "steps R (q_Enqueue q b)"
    and reserve: "steps R (q_Reserve q d)"
    and requeue: "steps R (q_RequeueAfter q b d)"
    and ack: "steps R (q_Ack q b)"
    and heartbeat: "steps R (q_Heartbeat q b)"
    and move_due: "steps R (q_MoveDueDelayedToReady q n)"
    and recover: "steps R (q_RecoverStaleActive q d n)"
    and acquire: "steps R (q_TryAcquireJobLock q b d)"
    and lock_release: "fst (run_state (q_TryAcquireJobLock q b d) s) = Inr (Some l) \<Longrightarrow> steps R (lk_Release l)"
    and lock_refresh: "fst (run_state (q_TryAcquireJobLock q b d) s) = Inr (Some l) \<Longrightarrow>
      lk_Refresh l = Some f \<Longrightarrow> steps R (f t)"
begin

lemmas queue_steps = enqueue reserve requeue ack heartbeat move_due recover acquire

lemma steps_heartbeats:
  assumes "fst (run_state (q_TryAcquireJobLock q b d) s) = Inr (Some l)"
  shows "steps R (runJobHeartbeat q opts b' l n)"
proof (induction n)
  case (Suc n)
  have "steps R (heartbeat_tick q opts b' l)"
    unfolding heartbeat_tick_def
    by (intro steps_intro queue_steps R_refl R_trans) (rule lock_refresh [OF assms])
  with Suc show ?case by (auto intro!: steps_bind R_trans)
qed (simp add: steps_ret R_refl)

lemma steps_process_reserved:
  assumes "fst (run_state (q_TryAcquireJobLock q b d) s) = Inr (Some l)" "\<And>b. steps R (process b)"
  shows "steps R (process_reserved q process opts beats b' l)"
  unfolding process_reserved_def
  by (intro steps_intro queue_steps R_refl R_trans steps_heartbeats [OF assms(1)] assms(2))

lemma steps_RunOnce:
  assumes "\<And>b. steps R (process b)"
  shows "steps R (RunOnce q process opts beats)"
proof (rule stepsI)
  fix s
  obtain x s1 where x: "run_state (q_Reserve q (wo_ReserveBlockTimeout opts)) s = (x, s1)" by fastforce
  have s1: "R s s1" using reserve x by (rule stepsD)
  show "R s (snd (run_state (RunOnce q process opts beats) s))"
  proof (cases x)
    case (Inl e)
    then show ?thesis using x s1 by (simp add: RunOnce_def run_bind)
  next
    case (Inr b)
    obtain y s2 where y: "run_state (q_TryAcquireJobLock q b (wo_JobLockTTL opts)) s1 = (y, s2)" by fastforce
    have s2: "R s s2" using s1 stepsD [OF acquire y] R_trans by (meson transpD)
    show ?thesis
    proof (cases "\<exists>l. y = Inr (Some l)")
      case True
      then obtain l where l: "y = Inr (Some l)" by blast
      then have got: "fst (run_state (q_TryAcquireJobLock q b (wo_JobLockTTL opts)) s1) = Inr (Some l)"
        using y by simp
      obtain a s3 where a: "run_state (process_reserved q process opts beats b l) s2 = (a, s3)" by fastforce
      obtain c s4 where c: "run_state (lk_Release l) s3 = (c, s4)" by fastforce
      have "R s2 s3" using steps_process_reserved [OF got assms] a by (rule stepsD)
      moreover have "R s3 s4" using lock_release [OF got] c by (rule stepsD)
      ultimately have "R s s4" using s2 R_trans by (meson transpD)
      then show ?thesis using x y Inr l a c by (simp add: RunOnce_def run_bind)
    next
      case False
      obtain a s3 where a: "run_state (q_RequeueAfter q b (wo_LockConflictDelay opts)) s2 = (a, s3)" by fastforce
      have "R s s3" using s2 stepsD [OF requeue a] R_trans by (meson transpD)
      then show ?thesis using x y Inr False a
        by (cases y) (auto simp: RunOnce_def run_bind split: option.splits)
    qed
  qed
qed

end

text \<open>
  A queue that can say which jobs it holds.  Handing a job back makes the queue hold it, and
  releasing a lock takes nothing out of the queue; then the worker never ends a round with a job in its
  hands: it is back in the queue, or \<^verbatim>\<open>Process\<close> declared it terminal, or the queue failed.
\<close>

locale accountable_queue = job_queue +
  fixes holds :: "'a \<Rightarrow> string \<Rightarrow> bool"
  assumes requeue_holds: "run_state (q_RequeueAfter q b d) s = (Inr (), s') \<Longrightarrow> holds s' b"
    and release_holds: "fst (run_state (q_TryAcquireJobLock q b d) s0) = Inr (Some l) \<Longrightarrow>
      holds s b' \<Longrightarrow> holds (snd (run_state (lk_Release l) s)) b'"
begin

text \<open>More generally: what a terminal answer of \<^verbatim>\<open>Process\<close> guarantees, and the queue keeps, holds at the end.\<close>

lemma RunOnce_accounts:
  assumes run: "run_state (RunOnce q process opts beats) s = (Inr (), s')"
    and reserved: "fst (run_state (q_Reserve q (wo_ReserveBlockTimeout opts)) s) = Inr b"
    and terminal: "\<And>s r s'. run_state (process b) s = (Inr r, s') \<Longrightarrow> pr_Terminal r \<Longrightarrow> P s'"
    and stable: "\<And>s s'. P s \<Longrightarrow> R s s' \<Longrightarrow> P s'"
  shows "holds s' b \<or> P s'"
proof -
  obtain s1 where x: "run_state (q_Reserve q (wo_ReserveBlockTimeout opts)) s = (Inr b, s1)"
    using reserved by (metis prod.collapse)
  obtain y s2 where y: "run_state (q_TryAcquireJobLock q b (wo_JobLockTTL opts)) s1 = (y, s2)" by fastforce
  show ?thesis
  proof (cases "\<exists>l. y = Inr (Some l)")
    case True
    then obtain l where l: "y = Inr (Some l)" by blast
    then have got: "fst (run_state (q_TryAcquireJobLock q b (wo_JobLockTTL opts)) s1) = Inr (Some l)"
      using y by simp
    obtain a s3 where a: "run_state (process_reserved q process opts beats b l) s2 = (a, s3)" by fastforce
    have s': "s' = snd (run_state (lk_Release l) s3)" and a_ok: "a = Inr ()"
      using run x y l a by (auto simp: RunOnce_def run_bind split: prod.splits)
    obtain s21 where b1: "run_state (runJobHeartbeat q opts b l (fst beats)) s2 = ((), s21)"
      by (metis (full_types) old.unit.exhaust surj_pair)
    obtain r s22 where p: "run_state (process b) s21 = (r, s22)" by fastforce
    obtain s23 where b2: "run_state (runJobHeartbeat q opts b l (snd beats)) s22 = ((), s23)"
      by (metis (full_types) old.unit.exhaust surj_pair)
    consider (requeued) d where "run_state (q_RequeueAfter q b d) s23 = (Inr (), s3)"
      | (acked) x where "r = Inr x" "pr_Terminal x" "run_state (q_Ack q b) s23 = (Inr (), s3)"
      using a a_ok b1 p b2 by (cases r) (auto simp: process_reserved_def run_bind split: if_splits)
    then show ?thesis
    proof cases
      case requeued
      then have "holds s3 b" by (rule requeue_holds)
      then show ?thesis using s' release_holds [OF got] by simp
    next
      case acked
      then have "P s22" using terminal p by blast
      moreover have "R s22 s23" using steps_heartbeats [OF got] b2 by (rule stepsD)
      moreover have "R s23 s3" using ack acked(3) by (rule stepsD)
      moreover have "R s3 s'" unfolding s' using lock_release [OF got] by (rule steps_snd)
      ultimately show ?thesis using stable by blast
    qed
  next
    case False
    obtain a s3 where a: "run_state (q_RequeueAfter q b (wo_LockConflictDelay opts)) s2 = (a, s3)" by fastforce
    have "s' = s3" "a = Inr ()"
      using run x y False a by (cases y; auto simp: RunOnce_def run_bind split: option.splits sum.splits)+
    then show ?thesis using a requeue_holds by blast
  qed
qed

lemma RunOnce_hands_back:
  assumes "run_state (RunOnce q process opts beats) s = (Inr (), s')"
    and "fst (run_state (q_Reserve q (wo_ReserveBlockTimeout opts)) s) = Inr b"
    and "\<And>s r. fst (run_state (process b) s) = Inr r \<Longrightarrow> \<not> pr_Terminal r"
  shows "holds s' b"
proof -
  have "holds s' b \<or> False"
    by (rule RunOnce_accounts [OF assms(1,2)]) (metis assms(3) fst_conv)+
  then show ?thesis by simp
qed

end

end
