(* ===== verification/BatchImageQueue.thy ===== *)
theory BatchImageQueue
  imports BatchImageRepo BatchImageWorker "HOL-Library.Char_ord" "HOL-Library.List_Lexorder"
begin

section \<open>The batch image queue in Redis\<close>

text \<open>
  \<^verbatim>\<open>repository/batch_image_queue.go\<close>: the ready list (LPUSH at the head, RPOP at the end), the
  delayed and active sorted sets (member and score), the in-flight keys and the locks with their
  expiry.  Each Lua script and each \<^verbatim>\<open>MULTI\<close> pipeline is one step, as Redis runs it.  The Redis
  keys of the three structures and the two prefixes are assumed to be different keys, as the
  defaults are.  Redis and the backend read the same clock.  Contexts are never cancelled: a
  cancelled call is a call that fails.
\<close>

record batch_sys = batch_db +
  ready :: "string list"
  delayed :: "(string \<times> int) list"
  active :: "(string \<times> int) list"
  inflight :: "string \<Rightarrow> int option"
  locks :: "string \<Rightarrow> (string \<times> int) option"

definition millisecond :: int where "millisecond = 1000000"

definition unix_milli :: "int \<Rightarrow> int" where
  "unix_milli t = t div millisecond"

text \<open>\<^verbatim>\<open>Duration.Milliseconds\<close>, which truncates.\<close>

definition to_millis :: "int \<Rightarrow> int" where
  "to_millis d = go_div d millisecond"

definition redis_invalid_expire :: goerr where
  "redis_invalid_expire = PlainErr ''ERR invalid expire time''"

subsection \<open>Sorted sets\<close>

definition zrem :: "string \<Rightarrow> (string \<times> int) list \<Rightarrow> (string \<times> int) list" where
  "zrem m z = filter (\<lambda>e. fst e \<noteq> m) z"

definition zadd :: "int \<Rightarrow> string \<Rightarrow> (string \<times> int) list \<Rightarrow> (string \<times> int) list" where
  "zadd score m z = zrem m z @ [(m, score)]"

definition zadd_xx :: "int \<Rightarrow> string \<Rightarrow> (string \<times> int) list \<Rightarrow> (string \<times> int) list" where
  "zadd_xx score m z = map (\<lambda>e. if fst e = m then (m, score) else e) z"

text \<open>\<^verbatim>\<open>ZRANGEBYSCORE key -inf upper LIMIT 0 n\<close>: by score, then by member.\<close>

definition zrange_upto :: "int \<Rightarrow> nat \<Rightarrow> (string \<times> int) list \<Rightarrow> string list" where
  "zrange_upto upper n z =
     take n (map fst (sort_key snd (sort_key fst (filter (\<lambda>e. snd e \<le> upper) z))))"

subsection \<open>Options\<close>

record batchImageQueueOptions =
  qo_ReadyKey :: string
  qo_DelayedKey :: string
  qo_ActiveKey :: string
  qo_InflightPrefix :: string
  qo_LockPrefix :: string
  qo_InflightTTL :: int
  qo_LockTTL :: int

definition or_default :: "string \<Rightarrow> string \<Rightarrow> string" where
  "or_default d s = (if s = [] then d else s)"

definition normalizeBatchImageQueueOptions :: "batchImageQueueOptions \<Rightarrow> batchImageQueueOptions" where
  "normalizeBatchImageQueueOptions opts = \<lparr>
     qo_ReadyKey = or_default ''batch_image:queue:ready'' (qo_ReadyKey opts),
     qo_DelayedKey = or_default ''batch_image:queue:delayed'' (qo_DelayedKey opts),
     qo_ActiveKey = or_default ''batch_image:queue:active'' (qo_ActiveKey opts),
     qo_InflightPrefix = or_default ''batch_image:queue:inflight:'' (qo_InflightPrefix opts),
     qo_LockPrefix = or_default ''batch_image:queue:lock:'' (qo_LockPrefix opts),
     qo_InflightTTL = positive_or (7 * 24 * hour) (qo_InflightTTL opts),
     qo_LockTTL = positive_or (5 * minute) (qo_LockTTL opts)\<rparr>"

definition default_queue_options :: batchImageQueueOptions where
  "default_queue_options = normalizeBatchImageQueueOptions \<lparr>qo_ReadyKey = [], qo_DelayedKey = [],
     qo_ActiveKey = [], qo_InflightPrefix = [], qo_LockPrefix = [], qo_InflightTTL = 0, qo_LockTTL = 0\<rparr>"

subsection \<open>Operations\<close>

text \<open>\<open>SET key value NX PX ttl\<close> takes the key when it is absent or has expired.\<close>

definition expired_at :: "int \<Rightarrow> int option \<Rightarrow> bool" where
  "expired_at now e = (case e of None \<Rightarrow> True | Some t \<Rightarrow> t \<le> now)"

definition Enqueue :: "batchImageQueueOptions \<Rightarrow> string \<Rightarrow> ('z batch_sys_scheme, goerr + unit) state" where
  "Enqueue opts batchID =
     (if \<not> IsValidBatchImageID batchID then ret (Inl ErrInvalidBatchImageQueuePayload)
      else do {
        applied \<leftarrow> stmt (\<lambda>w.
          if to_millis (qo_InflightTTL opts) \<le> 0 then (Inl redis_invalid_expire, w)
          else if expired_at (clock w) (inflight w batchID)
          then (Inr (1::int), w\<lparr>inflight := (inflight w)(batchID \<mapsto>
                   clock w + to_millis (qo_InflightTTL opts) * millisecond),
                 ready := batchID # ready w\<rparr>)
          else (Inr 0, w));
        chain applied (\<lambda>applied.
          ret (if applied = 0 then Inl ErrBatchImageAlreadyQueued else Inr ())) })"

definition reserve_script :: "int \<Rightarrow> ('z batch_sys_scheme, goerr + string option) state" where
  "reserve_script score = stmt (\<lambda>w.
     if ready w = [] then (Inr None, w)
     else (let job = last (ready w) in
       (Inr (Some job), w\<lparr>ready := butlast (ready w), active := zadd score job (active w)\<rparr>)))"

definition reserveOnce :: "('z batch_sys_scheme, goerr + string) state" where
  "reserveOnce = do {
     now \<leftarrow> time_now;
     raw \<leftarrow> reserve_script (unix_milli now);
     case raw of
       Inl err \<Rightarrow> ret (Inl err)
     | Inr None \<Rightarrow> ret (Inl ErrBatchImageQueueEmpty)
     | Inr (Some batchID) \<Rightarrow>
         if \<not> IsValidBatchImageID batchID then
           (if batchID \<noteq> [] then do {
              z \<leftarrow> stmt (\<lambda>w. (Inr (), w\<lparr>active := zrem batchID (active w)\<rparr>));
              ret (Inl ErrInvalidBatchImageQueuePayload) }
            else ret (Inl ErrInvalidBatchImageQueuePayload))
         else ret (Inr batchID) }"

definition RequeueAfter :: "string \<Rightarrow> int \<Rightarrow> ('z batch_sys_scheme, goerr + unit) state" where
  "RequeueAfter batchID delay =
     (if \<not> IsValidBatchImageID batchID then ret (Inl ErrInvalidBatchImageQueuePayload)
      else if delay \<le> 0 then
        stmt (\<lambda>w. (Inr (), w\<lparr>active := zrem batchID (active w), delayed := zrem batchID (delayed w),
                           ready := batchID # ready w\<rparr>))
      else do {
        now \<leftarrow> time_now;
        stmt (\<lambda>w. (Inr (), w\<lparr>active := zrem batchID (active w),
          delayed := zadd (unix_milli (now + delay)) batchID (zrem batchID (delayed w))\<rparr>)) })"

definition Ack :: "string \<Rightarrow> ('z batch_sys_scheme, goerr + unit) state" where
  "Ack batchID =
     (if \<not> IsValidBatchImageID batchID then ret (Inl ErrInvalidBatchImageQueuePayload)
      else stmt (\<lambda>w. (Inr (), w\<lparr>active := zrem batchID (active w), delayed := zrem batchID (delayed w),
                             inflight := (inflight w)(batchID := None)\<rparr>)))"

definition Heartbeat :: "string \<Rightarrow> ('z batch_sys_scheme, goerr + unit) state" where
  "Heartbeat batchID =
     (if \<not> IsValidBatchImageID batchID then ret (Inl ErrInvalidBatchImageQueuePayload)
      else do {
        now \<leftarrow> time_now;
        stmt (\<lambda>w. (Inr (), w\<lparr>active := zadd_xx (unix_milli now) batchID (active w)\<rparr>)) })"

definition clamp_positive :: "int \<Rightarrow> nat" where
  "clamp_positive limit = nat (if limit \<le> 0 then 100 else limit)"

text \<open>The two scripts are the same text on different keys: each job moved is pushed at the head.\<close>

definition move_script :: "((string \<times> int) list \<Rightarrow> (string \<times> int) list \<times> string list)
    \<Rightarrow> (string \<times> int) list \<Rightarrow> string list \<Rightarrow> int \<times> (string \<times> int) list \<times> string list" where
  "move_script pick z rd = (let (z', js) = pick z in (int (length js), z', rev js @ rd))"

definition pick_upto :: "int \<Rightarrow> nat \<Rightarrow> (string \<times> int) list \<Rightarrow> (string \<times> int) list \<times> string list" where
  "pick_upto upper n z = (let js = zrange_upto upper n z in (filter (\<lambda>e. fst e \<notin> set js) z, js))"

definition MoveDueDelayedToReady :: "int \<Rightarrow> ('z batch_sys_scheme, goerr + int) state" where
  "MoveDueDelayedToReady limit = do {
     now \<leftarrow> time_now;
     stmt (\<lambda>w. case move_script (pick_upto (unix_milli now) (clamp_positive limit)) (delayed w) (ready w) of
        (n, d, r) \<Rightarrow> (Inr n, w\<lparr>delayed := d, ready := r\<rparr>)) }"

definition RecoverStaleActive :: "int \<Rightarrow> int \<Rightarrow> ('z batch_sys_scheme, goerr + int) state" where
  "RecoverStaleActive staleAfter limit =
     (if staleAfter \<le> 0 then ret (Inl ErrInvalidBatchImageQueuePayload)
      else do {
        now \<leftarrow> time_now;
        stmt (\<lambda>w. case move_script (pick_upto (unix_milli (now - staleAfter)) (clamp_positive limit))
                          (active w) (ready w) of
           (n, a, r) \<Rightarrow> (Inr n, w\<lparr>active := a, ready := r\<rparr>)) })"

subsection \<open>Locks\<close>

definition lock_expired :: "int \<Rightarrow> (string \<times> int) option \<Rightarrow> bool" where
  "lock_expired now l = expired_at now (map_option snd l)"

text \<open>The value that \<^verbatim>\<open>GET\<close> answers.\<close>

definition lock_token :: "'z batch_sys_scheme \<Rightarrow> string \<Rightarrow> string option" where
  "lock_token w batchID =
     (if lock_expired (clock w) (locks w batchID) then None else map_option fst (locks w batchID))"

definition lock_Release :: "string \<Rightarrow> string \<Rightarrow> ('z batch_sys_scheme, goerr + unit) state" where
  "lock_Release batchID token = stmt (\<lambda>w. (Inr (),
     if lock_token w batchID = Some token then w\<lparr>locks := (locks w)(batchID := None)\<rparr> else w))"

text \<open>\<^verbatim>\<open>PEXPIRE\<close> with a time that is not positive deletes the key.\<close>

definition lock_Refresh :: "string \<Rightarrow> string \<Rightarrow> int \<Rightarrow> ('z batch_sys_scheme, goerr + unit) state" where
  "lock_Refresh batchID token ttl0 = (let ttl = positive_or (5 * minute) ttl0 in
     stmt (\<lambda>w. (Inr (),
       if lock_token w batchID = Some token then w\<lparr>locks := (locks w)(batchID :=
            (if to_millis ttl \<le> 0 then None else Some (token, clock w + to_millis ttl * millisecond)))\<rparr>
       else w)))"

definition newBatchImageLockToken :: "('z batch_sys_scheme, goerr + string) state" where
  "newBatchImageLockToken = State (\<lambda>w. case entropy w of
      [] \<Rightarrow> (Inl (PlainErr ''rand: read failed''), w)
    | h # hs \<Rightarrow> (Inr h, w\<lparr>entropy := hs\<rparr>))"

definition redis_lock :: "string \<Rightarrow> string \<Rightarrow> 'z batch_sys_scheme BatchImageJobLock" where
  "redis_lock batchID token =
     \<lparr>lk_Release = lock_Release batchID token, lk_Refresh = Some (lock_Refresh batchID token)\<rparr>"

definition TryAcquireJobLock :: "batchImageQueueOptions \<Rightarrow> string \<Rightarrow> int \<Rightarrow>
    ('z batch_sys_scheme, goerr + 'z batch_sys_scheme BatchImageJobLock option) state" where
  "TryAcquireJobLock opts batchID ttl0 =
     (if \<not> IsValidBatchImageID batchID then ret (Inl ErrInvalidBatchImageQueuePayload)
      else do {
        let ttl = (if ttl0 \<le> 0 then qo_LockTTL opts else ttl0);
        tok \<leftarrow> newBatchImageLockToken;
        chain tok (\<lambda>token. do {
          ok \<leftarrow> stmt (\<lambda>w. if lock_expired (clock w) (locks w batchID)
                 then (Inr True, w\<lparr>locks := (locks w)(batchID \<mapsto> (token, clock w + ttl))\<rparr>)
                 else (Inr False, w));
          chain ok (\<lambda>ok. ret (Inr (if ok then Some (redis_lock batchID token) else None))) }) })"

subsection \<open>Reserve: polling until the deadline\<close>

text \<open>Time never runs backwards; the deadline loop ends because each round waits.\<close>

definition later :: "'z world_scheme \<Rightarrow> 'z world_scheme \<Rightarrow> bool" where
  "later w w' \<longleftrightarrow> clock w \<le> clock w'"

lemma later_props [simp]: "reflp later" "transp later"
  by (auto simp: reflp_def transp_def later_def)

lemma later_time_now [steps_intro]: "steps later time_now"
  by (auto simp: steps_def later_def time_now_def split: list.splits)

lemma later_stmt: "(\<And>w. clock (snd (f w)) = clock w) \<Longrightarrow> steps later (stmt f)"
  unfolding steps_def later_def stmt_def io_def
  by (auto split: list.splits call_outcome.splits)

lemma later_reserveOnce: "steps later reserveOnce"
  unfolding reserveOnce_def reserve_script_def
  by (intro steps_intro later_props later_stmt) (auto simp: Let_def)

definition batchImageReservePollInterval :: int where "batchImageReservePollInterval = second"

function (sequential) reserve_loop ::
  "int \<Rightarrow> 'z batch_sys_scheme \<Rightarrow> (goerr + string) \<times> 'z batch_sys_scheme" where
  "reserve_loop deadline w =
     (case run_state reserveOnce w of
        (Inr batchID, w1) \<Rightarrow> (Inr batchID, w1)
      | (Inl err, w1) \<Rightarrow>
          if \<not> err_is err ErrBatchImageQueueEmpty then (Inl err, w1)
          else (case run_state time_now w1 of (now, w2) \<Rightarrow>
            if deadline - now \<le> 0 then (Inl ErrBatchImageQueueEmpty, w2)
            else reserve_loop deadline
              (w2\<lparr>clock := clock w2 + min (deadline - now) batchImageReservePollInterval\<rparr>)))"
  by pat_completeness auto

lemma time_now_clock: "run_state time_now w = (now, w') \<Longrightarrow> now = clock w' \<and> clock w \<le> clock w'"
  by (auto simp: time_now_def split: list.splits)

termination reserve_loop
proof (relation "measure (\<lambda>(deadline, w). nat (deadline - clock w))")
  fix deadline :: int and w w1 w2 :: "'z batch_sys_scheme" and r err now
  assume x: "(r, w1) = run_state reserveOnce w" "r = Inl err"
    and y: "(now, w2) = run_state time_now w1" and rem: "\<not> deadline - now \<le> 0"
  have "clock w \<le> clock w1"
    using stepsD [OF later_reserveOnce x(1) [symmetric]] by (simp add: later_def)
  moreover have "now = clock w2" "clock w1 \<le> clock w2" using time_now_clock y by metis+
  ultimately show "((deadline, w2\<lparr>clock := clock w2 + min (deadline - now) batchImageReservePollInterval\<rparr>),
      deadline, w) \<in> measure (\<lambda>(deadline, w). nat (deadline - clock w))"
    using rem by (auto simp: batchImageReservePollInterval_def second_def)
qed simp

declare reserve_loop.simps [simp del]

definition Reserve :: "int \<Rightarrow> ('z batch_sys_scheme, goerr + string) state" where
  "Reserve blockTimeout = do {
     now \<leftarrow> time_now;
     State (reserve_loop (now + blockTimeout)) }"

definition redis_queue :: "batchImageQueueOptions \<Rightarrow> 'z batch_sys_scheme BatchImageQueue" where
  "redis_queue opts = \<lparr>
     q_Enqueue = Enqueue opts,
     q_Reserve = Reserve,
     q_RequeueAfter = RequeueAfter,
     q_Ack = Ack,
     q_Heartbeat = Heartbeat,
     q_MoveDueDelayedToReady = MoveDueDelayedToReady,
     q_RecoverStaleActive = RecoverStaleActive,
     q_TryAcquireJobLock = TryAcquireJobLock opts\<rparr>"

subsection \<open>No job is lost\<close>

text \<open>
  The in-flight key keeps a job from being queued again, so a job with the key must be in one of
  the three structures.
\<close>

definition queued :: "'z batch_sys_scheme \<Rightarrow> string set" where
  "queued w = set (ready w) \<union> fst ` set (delayed w) \<union> fst ` set (active w)"

definition tracked :: "'z batch_sys_scheme \<Rightarrow> bool" where
  "tracked w \<longleftrightarrow> (\<forall>b. inflight w b \<noteq> None \<longrightarrow> IsValidBatchImageID b \<and> b \<in> queued w)"

definition keeps_tracked :: "'z batch_sys_scheme \<Rightarrow> 'z batch_sys_scheme \<Rightarrow> bool" where
  "keeps_tracked w w' \<longleftrightarrow> (tracked w \<longrightarrow> tracked w')"

lemma tracked_world [simp]:
  "tracked (w\<lparr>faults := fs\<rparr>) = tracked w" "tracked (w\<lparr>clock := c\<rparr>) = tracked w"
  "tracked (w\<lparr>ticks := ts\<rparr>) = tracked w" "tracked (w\<lparr>entropy := es\<rparr>) = tracked w"
  "tracked (w\<lparr>locks := ls\<rparr>) = tracked w"
  by (simp_all add: tracked_def queued_def)

lemma keeps_tracked_props [simp]: "reflp keeps_tracked" "transp keeps_tracked" "timeless keeps_tracked"
  by (auto simp: reflp_def transp_def timeless_def keeps_tracked_def)

lemma set_zrem [simp]: "fst ` set (zrem m z) = fst ` set z - {m}"
  by (auto simp: zrem_def)

lemma set_zadd [simp]: "fst ` set (zadd s m z) = insert m (fst ` set z)"
  by (auto simp: zadd_def)

lemma set_zadd_xx [simp]: "fst ` set (zadd_xx s m z) = fst ` set z"
  unfolding zadd_xx_def set_map image_image by (rule image_cong) auto

lemma set_move_script: "move_script (pick_upto u n) z rd = (k, z', rd') \<Longrightarrow>
   set rd' \<union> fst ` set z' = set rd \<union> fst ` set z"
proof -
  assume m: "move_script (pick_upto u n) z rd = (k, z', rd')"
  have js: "set (zrange_upto u n z) \<subseteq> fst ` set z"
    unfolding zrange_upto_def by (rule order_trans [OF set_take_subset]) auto
  have "fst ` set (filter (\<lambda>e. fst e \<notin> A) z) = fst ` set z - A" for A by auto
  with m js show ?thesis by (auto simp: move_script_def pick_upto_def Let_def)
qed

lemma steps_tracked_stmt: "(\<And>w. tracked w \<Longrightarrow> tracked (snd (f w))) \<Longrightarrow> steps keeps_tracked (stmt f)"
  by (intro steps_stmt keeps_tracked_props) (simp add: keeps_tracked_def)

lemma tracked_queue_ops:
  "steps keeps_tracked (Enqueue opts b)" "steps keeps_tracked (RequeueAfter b d)"
  "steps keeps_tracked (Ack b)" "steps keeps_tracked (Heartbeat b)"
  unfolding Enqueue_def RequeueAfter_def Ack_def Heartbeat_def
  by (intro steps_intro keeps_tracked_props steps_tracked_stmt;
      auto simp: tracked_def queued_def)+

lemma tracked_moves:
  "steps keeps_tracked (MoveDueDelayedToReady n)" "steps keeps_tracked (RecoverStaleActive d n)"
proof -
  have "tracked (w\<lparr>delayed := z, ready := r\<rparr>)"
    if "tracked w" "move_script (pick_upto u k) (delayed w) (ready w) = (i, z, r)" for w :: "'z batch_sys_scheme" and u k i z r
    using that(1) set_move_script [OF that(2)] unfolding tracked_def queued_def
    by (simp add: Un_commute Un_left_commute)
  then show "steps keeps_tracked (MoveDueDelayedToReady n)"
    unfolding MoveDueDelayedToReady_def
    by (intro steps_intro keeps_tracked_props steps_tracked_stmt) (auto split: prod.splits)
  have "tracked (w\<lparr>active := z, ready := r\<rparr>)"
    if "tracked w" "move_script (pick_upto u k) (active w) (ready w) = (i, z, r)" for w :: "'z batch_sys_scheme" and u k i z r
    using that(1) set_move_script [OF that(2)] unfolding tracked_def queued_def
    by (simp add: Un_commute Un_left_commute) blast
  then show "steps keeps_tracked (RecoverStaleActive d n)"
    unfolding RecoverStaleActive_def
    by (intro steps_intro keeps_tracked_props steps_tracked_stmt) (auto split: prod.splits)
qed

lemma tracked_reserveOnce: "steps keeps_tracked reserveOnce"
proof -
  have *: "set (ready w) = insert (last (ready w)) (set (butlast (ready w)))" if "ready w \<noteq> []"
    for w :: "'z batch_sys_scheme"
    using that by (metis Un_insert_right append_butlast_last_id list.simps(15) set_append sup_bot.right_neutral list.set(1))
  show ?thesis
    unfolding reserveOnce_def reserve_script_def
    by (intro steps_intro keeps_tracked_props steps_tracked_stmt)
      (auto simp: tracked_def queued_def Let_def dest: *)
qed

lemma tracked_locks:
  "steps keeps_tracked (lock_Release b t)" "steps keeps_tracked (lock_Refresh b t ttl)"
  "steps keeps_tracked newBatchImageLockToken" "steps keeps_tracked (TryAcquireJobLock opts b ttl)"
proof -
  show tok: "steps keeps_tracked newBatchImageLockToken"
    by (auto simp: steps_def newBatchImageLockToken_def keeps_tracked_def split: list.splits)
  show "steps keeps_tracked (lock_Release b t)" "steps keeps_tracked (lock_Refresh b t ttl)"
    unfolding lock_Release_def lock_Refresh_def Let_def
    by (intro steps_tracked_stmt; auto)+
  show "steps keeps_tracked (TryAcquireJobLock opts b ttl)"
    unfolding TryAcquireJobLock_def
    by (intro steps_intro keeps_tracked_props steps_tracked_stmt tok) auto
qed

lemma tracked_reserve_loop: "tracked w \<Longrightarrow> tracked (snd (reserve_loop deadline w))"
proof (induction deadline w rule: reserve_loop.induct)
  case (1 deadline w)
  obtain r w1 where r: "run_state reserveOnce w = (r, w1)" by fastforce
  have w1: "tracked w1" using stepsD [OF tracked_reserveOnce r] 1 by (simp add: keeps_tracked_def)
  show ?case
  proof (cases "\<exists>err. r = Inl err \<and> err_is err ErrBatchImageQueueEmpty")
    case True
    then obtain err where err: "r = Inl err" "err_is err ErrBatchImageQueueEmpty" by blast
    obtain now w2 where now: "run_state time_now w1 = (now, w2)" by fastforce
    have w2: "tracked w2"
      using w1 now by (auto simp: time_now_def split: list.splits)
    show ?thesis
      using 1(1) [OF r [symmetric] err(1) _ now [symmetric]] err r now w2
      by (subst reserve_loop.simps) (simp add: r)
  next
    case False
    then show ?thesis using r w1 by (subst reserve_loop.simps) (auto split: sum.splits)
  qed
qed

lemma tracked_Reserve: "steps keeps_tracked (Reserve d)"
  unfolding Reserve_def
  by (intro steps_bind keeps_tracked_props steps_time_now)
    (simp add: steps_def keeps_tracked_def tracked_reserve_loop)

subsection \<open>The queue meets the worker's contract\<close>

lemma acquired_lock:
  "fst (run_state (TryAcquireJobLock opts b ttl) w) = Inr (Some l) \<Longrightarrow> \<exists>t. l = redis_lock b t"
  unfolding TryAcquireJobLock_def
  by (cases "run_state (TryAcquireJobLock opts b ttl) w")
    (auto simp: TryAcquireJobLock_def Let_def elim!: run_elims split: if_splits)

lemma RequeueAfter_queues:
  assumes "run_state (RequeueAfter b d) w = (Inr (), w')"
  shows "b \<in> queued w'"
  using assms unfolding RequeueAfter_def
  by (auto simp: queued_def elim!: run_elims stmt_InrE split: if_splits)

lemma release_keeps_queued [simp]: "queued (snd (run_state (lock_Release b t) w)) = queued w"
proof -
  obtain r w' where r: "run_state (lock_Release b t) w = (r, w')" by fastforce
  then have "queued w' = queued w"
    unfolding lock_Release_def by (cases rule: stmt_cases) (auto simp: queued_def split: if_splits)
  with r show ?thesis by simp
qed

interpretation redis: accountable_queue "redis_queue opts" keeps_tracked "\<lambda>w b. b \<in> queued w"
proof
  fix b d s and l :: "'a batch_sys_scheme BatchImageJobLock" and f t
  assume "fst (run_state (q_TryAcquireJobLock (redis_queue opts) b d) s) = Inr (Some l)"
  then obtain tok where l: "l = redis_lock b tok" using acquired_lock by (fastforce simp: redis_queue_def)
  then show "steps keeps_tracked (lk_Release l)" by (simp add: redis_lock_def tracked_locks)
  show "lk_Refresh l = Some f \<Longrightarrow> steps keeps_tracked (f t)"
    using l by (auto simp: redis_lock_def tracked_locks)
next
  fix b d s0 and l :: "'a batch_sys_scheme BatchImageJobLock" and s b'
  assume "fst (run_state (q_TryAcquireJobLock (redis_queue opts) b d) s0) = Inr (Some l)"
  then obtain tok where l: "l = redis_lock b tok" using acquired_lock by (fastforce simp: redis_queue_def)
  then show "b' \<in> queued s \<Longrightarrow> b' \<in> queued (snd (run_state (lk_Release l) s))"
    by (simp add: redis_lock_def)
qed (auto simp: redis_queue_def tracked_queue_ops tracked_moves tracked_locks tracked_Reserve
      intro: RequeueAfter_queues)

subsection \<open>All interleavings\<close>

datatype queue_op =
    QEnqueue string | QReserve int | QRequeue string int | QAck string | QHeartbeat string
  | QMoveDue int | QRecover int int | QAcquire string int | QRelease string string
  | QRefresh string string int

fun exec_queue :: "batchImageQueueOptions \<Rightarrow> queue_op \<Rightarrow> 'z batch_sys_scheme \<Rightarrow> 'z batch_sys_scheme" where
  "exec_queue opts (QEnqueue b) w = snd (run_state (Enqueue opts b) w)"
| "exec_queue opts (QReserve d) w = snd (run_state (Reserve d) w)"
| "exec_queue opts (QRequeue b d) w = snd (run_state (RequeueAfter b d) w)"
| "exec_queue opts (QAck b) w = snd (run_state (Ack b) w)"
| "exec_queue opts (QHeartbeat b) w = snd (run_state (Heartbeat b) w)"
| "exec_queue opts (QMoveDue n) w = snd (run_state (MoveDueDelayedToReady n) w)"
| "exec_queue opts (QRecover d n) w = snd (run_state (RecoverStaleActive d n) w)"
| "exec_queue opts (QAcquire b ttl) w = snd (run_state (TryAcquireJobLock opts b ttl) w)"
| "exec_queue opts (QRelease b t) w = snd (run_state (lock_Release b t) w)"
| "exec_queue opts (QRefresh b t ttl) w = snd (run_state (lock_Refresh b t ttl) w)"

text \<open>
  A step of the system: one operation of any client in any order (what a crashed worker leaves
  behind is a prefix of its operations), a whole round of a worker, or a change of the oracle.
\<close>

inductive queue_step :: "batchImageQueueOptions \<Rightarrow> 'z batch_sys_scheme \<Rightarrow> 'z batch_sys_scheme \<Rightarrow> bool"
  for opts where
  op: "queue_step opts w (exec_queue opts oper w)"
| worker_round: "(\<And>b. steps keeps_tracked (process b)) \<Longrightarrow>
    queue_step opts w (snd (run_state (RunOnce (redis_queue opts) process wopts beats) w))"
| pass: "queue_step opts w (w\<lparr>faults := fs, ticks := ts, entropy := es\<rparr>)"

inductive_cases queue_stepE: "queue_step opts w w'"

lemma exec_queue_tracked: "tracked w \<Longrightarrow> tracked (exec_queue opts oper w)"
  by (cases oper; simp)
    (metis keeps_tracked_def steps_def tracked_queue_ops tracked_moves tracked_locks tracked_Reserve)+

lemma queue_step_tracked: "queue_step opts w w' \<Longrightarrow> tracked w \<Longrightarrow> tracked w'"
proof (erule queue_stepE)
  fix process wopts beats
  assume w: "tracked w" and w': "w' = snd (run_state (RunOnce (redis_queue opts) process wopts beats) w)"
    and process: "\<And>b. steps keeps_tracked (process b)"
  show "tracked w'"
  proof -
    have "steps keeps_tracked (RunOnce (redis_queue opts) process wopts beats)"
      by (rule redis.steps_RunOnce) (rule process)
    from steps_snd [OF this, of w] show ?thesis using w w' by (simp add: keeps_tracked_def)
  qed
qed (simp_all add: exec_queue_tracked)

definition empty_queue :: "'z batch_sys_scheme \<Rightarrow> bool" where
  "empty_queue w \<longleftrightarrow> ready w = [] \<and> delayed w = [] \<and> active w = [] \<and> inflight w = Map.empty"

lemma reachable_tracked: "(queue_step opts)\<^sup>*\<^sup>* w0 w \<Longrightarrow> empty_queue w0 \<Longrightarrow> tracked w"
  by (induction rule: rtranclp_induct) (auto simp: empty_queue_def tracked_def dest: queue_step_tracked)

subsection \<open>Locks are exclusive\<close>

definition keeps_lock :: "string \<Rightarrow> string \<times> int \<Rightarrow> 'z batch_sys_scheme \<Rightarrow> 'z batch_sys_scheme \<Rightarrow> bool" where
  "keeps_lock b l w w' \<longleftrightarrow> later w w' \<and>
     (locks w b = Some l \<longrightarrow> clock w' < snd l \<longrightarrow> locks w' b = Some l)"

lemma keeps_lock_props [simp]: "reflp (keeps_lock b l)" "transp (keeps_lock b l)"
  by (auto simp: reflp_def transp_def keeps_lock_def later_def)

lemma keeps_lock_stmt:
  "(\<And>w. clock (snd (f w)) = clock w) \<Longrightarrow>
   (\<And>w. locks w b = Some l \<Longrightarrow> clock w < snd l \<Longrightarrow> locks (snd (f w)) b = Some l) \<Longrightarrow>
   steps (keeps_lock b l) (stmt f)"
  unfolding steps_def keeps_lock_def later_def stmt_def io_def
  by (auto split: list.splits call_outcome.splits)

lemma keeps_lock_time_now [steps_intro]: "steps (keeps_lock b l) time_now"
  by (auto simp: steps_def keeps_lock_def later_def time_now_def split: list.splits)

lemma keeps_lock_ops:
  "steps (keeps_lock b l) (Enqueue opts b')" "steps (keeps_lock b l) (RequeueAfter b' d)"
  "steps (keeps_lock b l) (Ack b')" "steps (keeps_lock b l) (Heartbeat b')"
  "steps (keeps_lock b l) (MoveDueDelayedToReady n)" "steps (keeps_lock b l) (RecoverStaleActive d n)"
  "steps (keeps_lock b l) reserveOnce"
  unfolding Enqueue_def RequeueAfter_def Ack_def Heartbeat_def MoveDueDelayedToReady_def
    RecoverStaleActive_def reserveOnce_def reserve_script_def
  by (intro steps_intro keeps_lock_props keeps_lock_stmt; auto simp: Let_def split: prod.splits)+

lemma keeps_lock_reserve_loop: "keeps_lock b l w (snd (reserve_loop deadline w))"
proof (induction deadline w rule: reserve_loop.induct)
  case (1 deadline w)
  obtain r w1 where r: "run_state reserveOnce w = (r, w1)" by fastforce
  have w1: "keeps_lock b l w w1" using keeps_lock_ops(7) r by (rule stepsD)
  show ?case
  proof (cases "\<exists>err. r = Inl err \<and> err_is err ErrBatchImageQueueEmpty")
    case True
    then obtain err where err: "r = Inl err" "err_is err ErrBatchImageQueueEmpty" by blast
    obtain now w2 where now: "run_state time_now w1 = (now, w2)" by fastforce
    have w2: "keeps_lock b l w w2"
      using w1 stepsD [OF keeps_lock_time_now now] keeps_lock_props(2) by (meson transpD)
    let ?d = "min (deadline - now) batchImageReservePollInterval"
    show ?thesis
    proof (cases "deadline - now \<le> 0")
      case True
      then show ?thesis using r err now w2 by (subst reserve_loop.simps) simp
    next
      case False
      then have "0 \<le> ?d" by (simp add: batchImageReservePollInterval_def second_def)
      then have "keeps_lock b l w (w2\<lparr>clock := clock w2 + ?d\<rparr>)"
        using w2 by (auto simp: keeps_lock_def later_def)
      then have "keeps_lock b l w (snd (reserve_loop deadline (w2\<lparr>clock := clock w2 + ?d\<rparr>)))"
        using 1 [OF r [symmetric] err(1) _ now [symmetric] False] err keeps_lock_props(2)
        by (meson transpD)
      then show ?thesis using err r now False by (subst reserve_loop.simps) simp
    qed
  next
    case False
    then show ?thesis using r w1 by (subst reserve_loop.simps) (auto split: sum.splits)
  qed
qed

lemma keeps_lock_Reserve: "steps (keeps_lock b l) (Reserve d)"
  unfolding Reserve_def
  by (intro steps_bind keeps_lock_props keeps_lock_time_now) (simp add: steps_def keeps_lock_reserve_loop)

lemma keeps_lock_foreign:
  "b' \<noteq> b \<or> t \<noteq> fst l \<Longrightarrow> steps (keeps_lock b l) (lock_Release b' t)"
  "b' \<noteq> b \<or> t \<noteq> fst l \<Longrightarrow> steps (keeps_lock b l) (lock_Refresh b' t ttl)"
  "steps (keeps_lock b l) (TryAcquireJobLock opts b' ttl)"
proof -
  have tok: "steps (keeps_lock b l) newBatchImageLockToken"
    by (auto simp: steps_def newBatchImageLockToken_def keeps_lock_def later_def split: list.splits)
  show "b' \<noteq> b \<or> t \<noteq> fst l \<Longrightarrow> steps (keeps_lock b l) (lock_Release b' t)"
    "b' \<noteq> b \<or> t \<noteq> fst l \<Longrightarrow> steps (keeps_lock b l) (lock_Refresh b' t ttl)"
    unfolding lock_Release_def lock_Refresh_def Let_def
    by (intro keeps_lock_stmt; auto simp: lock_token_def lock_expired_def expired_at_def)+
  show "steps (keeps_lock b l) (TryAcquireJobLock opts b' ttl)"
    unfolding TryAcquireJobLock_def
    by (intro steps_intro keeps_lock_props keeps_lock_stmt tok)
      (auto simp: lock_expired_def expired_at_def)
qed

fun own_lock_op :: "string \<Rightarrow> string \<Rightarrow> queue_op \<Rightarrow> bool" where
  "own_lock_op b t (QRelease b' t') \<longleftrightarrow> b' = b \<and> t' = t"
| "own_lock_op b t (QRefresh b' t' ttl) \<longleftrightarrow> b' = b \<and> t' = t"
| "own_lock_op b t _ \<longleftrightarrow> False"

lemma exec_keeps_lock:
  assumes "\<not> own_lock_op b t oper"
  shows "keeps_lock b (t, e) w (exec_queue opts oper w)"
proof (cases oper)
  case (QRelease b' t')
  then show ?thesis using assms keeps_lock_foreign(1) [of b' b t' "(t, e)", THEN steps_snd] by auto
next
  case (QRefresh b' t' ttl)
  then show ?thesis using assms keeps_lock_foreign(2) [of b' b t' "(t, e)", THEN steps_snd] by auto
qed (simp_all add: keeps_lock_ops keeps_lock_Reserve keeps_lock_foreign(3) steps_snd)

lemma fold_keeps_lock:
  "\<forall>oper \<in> set ops. \<not> own_lock_op b t oper \<Longrightarrow> keeps_lock b (t, e) w (fold (exec_queue opts) ops w)"
proof (induction ops arbitrary: w)
  case Nil
  then show ?case using keeps_lock_props(1) by (metis fold_simps(1) reflpD)
next
  case (Cons oper ops)
  then show ?case using exec_keeps_lock [of b t oper e w opts] keeps_lock_props(2)
    by (metis fold_simps(2) list.set_intros transpD)
qed

lemma acquire_live_lock:
  assumes "locks w b = Some (t, e)" "clock w < e"
  shows "fst (run_state (TryAcquireJobLock opts b ttl) w) \<noteq> Inr (Some l)"
proof
  assume got: "fst (run_state (TryAcquireJobLock opts b ttl) w) = Inr (Some l)"
  then obtain w' where "run_state (TryAcquireJobLock opts b ttl) w = (Inr (Some l), w')"
    by (metis prod.collapse)
  then show False
    using assms unfolding TryAcquireJobLock_def
    by (auto simp: newBatchImageLockToken_def lock_expired_def expired_at_def Let_def
        elim!: run_elims stmt_InrE split: if_splits list.splits)
qed

subsection \<open>Properties of the queue\<close>

text \<open>A system with one job and an empty queue.\<close>

definition batch_system :: "batch_db \<Rightarrow> batch_sys" where
  "batch_system w = batch_db.extend w (batch_sys.fields [] [] [] Map.empty Map.empty)"

definition demo_system :: batch_sys where
  "demo_system = batch_system (batch_world demo_world [demo_job ''imgbatch_b1'' ''running''])"

text \<open>
  C14: No job is lost by the queue.  Whatever clients, movers, recovery passes and whole worker
  rounds run in whatever order, with calls failing or losing their answers and workers stopping
  half-way, a job whose in-flight key is set (so that nothing can queue it again) is in the
  ready list, in the delayed set or in the active set.
\<close>

theorem queue_never_loses_a_job:
  assumes "(queue_step opts)\<^sup>*\<^sup>* w0 w" "empty_queue w0" "inflight w b \<noteq> None"
  shows "b \<in> queued w"
  using reachable_tracked [OF assms(1,2)] assms(3) by (simp add: tracked_def)

lemma queue_never_loses_a_job_witness:
  "''imgbatch_b1'' \<in> queued (exec_queue default_queue_options (QReserve 0)
     (exec_queue default_queue_options (QEnqueue ''imgbatch_b1'') demo_system))"
proof (rule queue_never_loses_a_job [where opts = default_queue_options and ?w0.0 = demo_system])
  show "(queue_step default_queue_options)\<^sup>*\<^sup>* demo_system (exec_queue default_queue_options (QReserve 0)
     (exec_queue default_queue_options (QEnqueue ''imgbatch_b1'') demo_system))"
    by (meson queue_step.op rtranclp.rtrancl_refl rtranclp.rtrancl_into_rtrancl)
  show "empty_queue demo_system"
    by (simp add: empty_queue_def demo_system_def batch_system_def batch_db.defs batch_sys.defs)
  show "inflight (exec_queue default_queue_options (QReserve 0)
     (exec_queue default_queue_options (QEnqueue ''imgbatch_b1'') demo_system)) ''imgbatch_b1'' \<noteq> None"
    by code_simp
qed

text \<open>
  C15: A worker that ends a round without an error has handed its job back: unless \<^verbatim>\<open>Process\<close>
  declared the job terminal, the job it reserved is in the queue again, also when the lock was
  taken by another worker and when \<^verbatim>\<open>Process\<close> failed.
\<close>

theorem worker_hands_jobs_back:
  assumes "run_state (RunOnce (redis_queue opts) process wopts beats) w = (Inr (), w')"
    "fst (run_state (Reserve (wo_ReserveBlockTimeout wopts)) w) = Inr b"
    "\<And>s r. fst (run_state (process b) s) = Inr r \<Longrightarrow> \<not> pr_Terminal r"
  shows "b \<in> queued w'"
  by (rule redis.RunOnce_hands_back [OF assms(1) _ assms(3)]) (simp_all add: redis_queue_def assms(2))

lemma worker_hands_jobs_back_witness:
  "''imgbatch_b1'' \<in> queued (snd (run_state (RunOnce (redis_queue default_queue_options)
       (\<lambda>b. ret (Inr (requeue_result 5))) (NewBatchImageWorkerOptionsFromConfig None) (1, 0))
     (exec_queue default_queue_options (QEnqueue ''imgbatch_b1'') demo_system)))"
proof (rule worker_hands_jobs_back [where b = "''imgbatch_b1''"])
  let ?w = "exec_queue default_queue_options (QEnqueue ''imgbatch_b1'') demo_system"
  let ?m = "RunOnce (redis_queue default_queue_options) (\<lambda>b. ret (Inr (requeue_result 5)))
    (NewBatchImageWorkerOptionsFromConfig None) (1, 0)"
  have "fst (run_state ?m ?w) = Inr ()" by code_simp
  then show "run_state ?m ?w = (Inr (), snd (run_state ?m ?w))" by (metis prod.collapse)
  show "fst (run_state (Reserve (wo_ReserveBlockTimeout (NewBatchImageWorkerOptionsFromConfig None))) ?w)
      = Inr ''imgbatch_b1''"
    by code_simp
qed (auto simp: requeue_result_def)

text \<open>
  C16: A job lock excludes every other worker until it expires: whatever operations others run,
  as long as they do not use the holder's own token, the lock stays with its holder, and no
  acquisition succeeds.
\<close>

theorem job_lock_exclusive:
  assumes "locks w b = Some (t, e)" "\<forall>oper \<in> set ops. \<not> own_lock_op b t oper"
    "clock (fold (exec_queue opts) ops w) < e"
  shows "lock_token (fold (exec_queue opts) ops w) b = Some t
    \<and> fst (run_state (TryAcquireJobLock opts b ttl) (fold (exec_queue opts) ops w)) \<noteq> Inr (Some l)"
proof -
  let ?w = "fold (exec_queue opts) ops w"
  have held: "locks ?w b = Some (t, e)"
    using fold_keeps_lock [OF assms(2), of e w opts] assms(1,3) by (simp add: keeps_lock_def)
  then have "lock_token ?w b = Some t"
    using assms(3) by (simp add: lock_token_def lock_expired_def expired_at_def)
  moreover have "fst (run_state (TryAcquireJobLock opts b ttl) ?w) \<noteq> Inr (Some l)"
    using held assms(3) by (rule acquire_live_lock)
  ultimately show ?thesis by blast
qed

lemma job_lock_exclusive_witness:
  "lock_token (fold (exec_queue default_queue_options)
      [QEnqueue ''imgbatch_b1'', QRelease ''imgbatch_b1'' ''zz'', QAcquire ''imgbatch_b1'' 7]
      (exec_queue default_queue_options (QAcquire ''imgbatch_b1'' 100) demo_system)) ''imgbatch_b1''
    = Some ''0a''"
proof (rule job_lock_exclusive [where e = 100 and ttl = 7 and l = undefined, THEN conjunct1])
  show "locks (exec_queue default_queue_options (QAcquire ''imgbatch_b1'' 100) demo_system) ''imgbatch_b1''
     = Some (''0a'', 100)" by code_simp
  show "clock (fold (exec_queue default_queue_options)
      [QEnqueue ''imgbatch_b1'', QRelease ''imgbatch_b1'' ''zz'', QAcquire ''imgbatch_b1'' 7]
      (exec_queue default_queue_options (QAcquire ''imgbatch_b1'' 100) demo_system)) < 100"
    by code_simp
qed simp

text \<open>
  C17: A job that a worker took and never answered for comes back: once its last sign of life is
  \<open>staleAfter\<close> old, a recovery pass whose limit covers the stale jobs puts it in the ready list.
\<close>

theorem stale_job_comes_back:
  assumes "calm w" "0 < staleAfter" "(b, s) \<in> set (active w)"
    "s \<le> unix_milli (clock w - staleAfter)"
    "length (filter (\<lambda>e. snd e \<le> unix_milli (clock w - staleAfter)) (active w)) \<le> clamp_positive limit"
  shows "b \<in> set (ready (snd (run_state (RecoverStaleActive staleAfter limit) w)))"
proof -
  let ?u = "unix_milli (clock w - staleAfter)"
  have "zrange_upto ?u (clamp_positive limit) (active w)
      = map fst (sort_key snd (sort_key fst (filter (\<lambda>e. snd e \<le> ?u) (active w))))"
    using assms(5) by (simp add: zrange_upto_def)
  then have "b \<in> set (zrange_upto ?u (clamp_positive limit) (active w))"
    using assms(3,4) by force
  then show ?thesis
    using assms(1,2)
    by (simp add: RecoverStaleActive_def run_bind run_stmt_ok move_script_def pick_upto_def Let_def)
qed

lemma stale_job_comes_back_witness:
  "''imgbatch_b1'' \<in> set (ready (snd (run_state (RecoverStaleActive 600000000000 0)
     (demo_system\<lparr>clock := 700000000000, active := [(''imgbatch_b1'', 5)]\<rparr>))))"
  by (rule stale_job_comes_back [where s = 5]; code_simp)

end
