(* ===== verification/ServiceFrames.thy ===== *)
theory ServiceFrames
  imports BatchImageQueue
begin

section \<open>What the two repositories leave alone\<close>

text \<open>
  The billing repository writes the tables of money and request ids, the batch image repository
  the tables of jobs.  \<open>billing_frame\<close> and \<open>job_frame\<close> are the contracts of relations that do not look
  at the one or the other; every operation of the repository keeps every such relation.  The
  services are then analysed by composing these facts.
\<close>

named_theorems frame_steps \<open>step relations kept by the operations of the repositories\<close>

subsection \<open>Billing operations\<close>

locale billing_frame =
  fixes R :: "'z batch_db_scheme \<Rightarrow> 'z batch_db_scheme \<Rightarrow> bool"
  assumes props: "reflp R" "transp R" "timeless R"
    and users: "R w (w\<lparr>users := u\<rparr>)" and dedup: "R w (w\<lparr>dedup := d\<rparr>)"
begin

lemma refl: "R w w"
  using props(1) by (rule reflpD)

lemma users_stmt: "steps R (update_users p f i)"
  unfolding update_users_def
  by (intro steps_stmt props) (auto simp: refl users split: sum.splits prod.splits)

lemma claim_request: "steps R (claimUsageBillingRequest r k fp)"
  unfolding claimUsageBillingRequest_def insert_dedup_def
  by (intro steps_intro steps_stmt props) (auto simp: refl dedup)

lemma reads: "steps R (userExistsForBilling uid)" "steps R (batchImageHoldClaimExists rid kid)"
  "steps R (no_row_updated uid e1 e2)"
  unfolding no_row_updated_def userExistsForBilling_def batchImageHoldClaimExists_def
  by (intro steps_intro steps_stmt props; simp add: refl)+

lemma hold_bodies: "steps R (reserveUsageBillingBatchImageBalance env c)"
  "steps R (captureUsageBillingBatchImageBalance env c)"
  "steps R (releaseUsageBillingBatchImageBalance env c)"
  unfolding reserveUsageBillingBatchImageBalance_def captureUsageBillingBatchImageBalance_def
    releaseUsageBillingBatchImageBalance_def
  by (intro steps_intro props users_stmt reads)+

lemma apply_hold: "(\<And>c. steps R (app c)) \<Longrightarrow> steps R (applyBatchImageBalanceHold env app c)"
  unfolding applyBatchImageBalanceHold_def hold_tx_def Let_def
  by (intro steps_intro steps_with_tx props claim_request)

lemma hold_operations [frame_steps]: "steps R (ReserveBatchImageBalance env c)"
  "steps R (CaptureBatchImageBalance env c)" "steps R (ReleaseBatchImageBalance env c)"
  unfolding ReserveBatchImageBalance_def CaptureBatchImageBalance_def ReleaseBatchImageBalance_def
  by (intro apply_hold hold_bodies)+

end

subsection \<open>Operations on jobs\<close>

locale job_frame =
  fixes R :: "'z batch_db_scheme \<Rightarrow> 'z batch_db_scheme \<Rightarrow> bool"
  assumes props: "reflp R" "transp R" "timeless R"
    and jobs: "R w (w\<lparr>jobs := j\<rparr>)" and items: "R w (w\<lparr>items := i\<rparr>)" and events: "R w (w\<lparr>events := e\<rparr>)"
    and ids: "R w (w\<lparr>next_job_id := n\<rparr>)" "R w (w\<lparr>next_item_id := n\<rparr>)"
    and logs: "R w (w\<lparr>usage_logs := l\<rparr>)" "R w (w\<lparr>invalidated := v\<rparr>)" "R w (w\<lparr>entropy := y\<rparr>)"
begin

lemma refl: "R w w"
  using props(1) by (rule reflpD)

lemma trans: "R a b \<Longrightarrow> R b c \<Longrightarrow> R a c"
  using props(2) by (rule transpD)

lemma put: "R w (put_job j w)"
  by (simp add: put_job_def jobs)

lemma insert_job: "R w (w\<lparr>jobs := j, next_job_id := n\<rparr>)"
  using trans [OF jobs ids(1)] by simp

lemma insert_item: "R w (w\<lparr>items := i, next_item_id := n\<rparr>)"
  using trans [OF items ids(2)] by simp

lemma event: "steps R (appendBatchImageEventWithSQL b t p)"
  unfolding appendBatchImageEventWithSQL_def
  by (intro steps_intro steps_stmt props) (auto simp: refl events)

lemma exec: "steps R (exec_job b p f)"
  unfolding exec_job_def
  by (intro steps_stmt props) (auto simp: refl put split: option.splits sum.splits)

lemma selects: "steps R (select_job p')" "steps R (select_jobs q)" "steps R (select_status_for_update b)"
  unfolding select_job_def select_jobs_def select_status_for_update_def
  by (intro steps_stmt props; simp add: refl)+

lemma row: "steps R k \<Longrightarrow> steps R (require_row e r k)"
  unfolding require_row_def by (intro steps_intro props)

lemma tx: "steps R body \<Longrightarrow> steps R (in_tx body)"
  unfolding in_tx_def by (intro steps_with_tx steps_intro props)

lemma reads [frame_steps]: "steps R (GetBatchImageJobByBatchID env b)" "steps R (GetBatchImageJobByBatchIDForOwner env u k b)"
  "steps R (GetBatchImageJobByIdempotencyKey env u k b)" "steps R (list_jobs env q)"
  "steps R (ListBatchImageItems env b f)" "steps R (ListStaleUnsubmittedBatchImageJobs env c n)"
  unfolding GetBatchImageJobByBatchID_def GetBatchImageJobByBatchIDForOwner_def read_job_def
    GetBatchImageJobByIdempotencyKey_def list_jobs_def ListBatchImageItems_def
    ListStaleUnsubmittedBatchImageJobs_def
  by (intro steps_intro steps_stmt selects props; simp add: refl)+

lemma create [frame_steps]: "steps R (CreateBatchImageJob env p)"
proof -
  have "steps R NewBatchImageID"
    by (auto simp: steps_def NewBatchImageID_def refl logs split: list.splits)
  moreover have "steps R (createBatchImageJobWithSQL env p')" for p'
    unfolding createBatchImageJobWithSQL_def
    by (intro steps_intro steps_stmt props) (auto simp: refl insert_job split: sum.splits)
  ultimately show ?thesis
    unfolding CreateBatchImageJob_def by (intro steps_intro props)
qed

lemma items_ops [frame_steps]: "steps R (BulkCreateBatchImageItems env ps)"
  "steps R (ReplaceBatchImageItemsForJob env b ps n)"
proof -
  have one: "steps R (createBatchImageItemWithSQL env p)" for p
    unfolding createBatchImageItemWithSQL_def
    by (intro steps_intro steps_stmt props) (auto simp: refl insert_item split: sum.splits)
  have all: "steps R (insert_items env ps)" for ps
    by (induction ps) (auto simp: CreateBatchImageItem_def intro!: steps_intro props one)
  show "steps R (BulkCreateBatchImageItems env ps)"
    unfolding BulkCreateBatchImageItems_def by (intro steps_intro tx all props)
  show "steps R (ReplaceBatchImageItemsForJob env b ps n)"
    unfolding ReplaceBatchImageItemsForJob_def replaceBatchImageItemsForJobWithSQL_def
      batchImageItemPromptPreviews_def
    by (intro steps_intro tx all selects exec steps_stmt props; simp add: refl items)
qed

lemma status_ops [frame_steps]: "steps R (TransitionBatchImageJobStatus b s opts)"
  "steps R (UpdateBatchImageJobProviderSubmit ps)" "steps R (MarkBatchImageJobSettled env ms)"
proof -
  show "steps R (TransitionBatchImageJobStatus b s opts)" "steps R (UpdateBatchImageJobProviderSubmit ps)"
    unfolding TransitionBatchImageJobStatus_def transitionBatchImageJobStatusWithSQL_def Let_def
      UpdateBatchImageJobProviderSubmit_def updateBatchImageJobProviderSubmitWithSQL_def
    by (intro steps_intro tx selects exec event props)+
  show "steps R (MarkBatchImageJobSettled env ms)"
    unfolding MarkBatchImageJobSettled_def markBatchImageJobSettledWithSQL_def Let_def
    by (intro steps_intro tx selects event steps_stmt props)
      (auto simp: refl put split: option.splits sum.splits)
qed

lemma failure_ops [frame_steps]: "steps R (SetBatchImageJobSettlementFailed b c m)"
  "steps R (FailStaleUnsubmittedBatchImageJob b t c m)" "steps R (RecordBatchImageJobSubmitFailure b c m k)"
  "steps R (TouchBatchImageJobSubmitting b)" "steps R (UpdateBatchImageJobProviderOutputRef b r)"
  unfolding SetBatchImageJobSettlementFailed_def FailStaleUnsubmittedBatchImageJob_def
    RecordBatchImageJobSubmitFailure_def TouchBatchImageJobSubmitting_def
    UpdateBatchImageJobProviderOutputRef_def
  by (intro steps_intro exec event steps_stmt props;
      auto simp: refl put split: option.splits sum.splits)+

lemma cleanup_ops [frame_steps]: "steps R (MarkBatchImageInputDeleted b t)" "steps R (MarkBatchImageOutputDeleted b t)"
  "steps R (MarkBatchImageDownloaded b t)" "steps R (MarkBatchImageJobUserDeleted u k b t)"
  "steps R (SetBatchImageOutputExpiresAt b t)" "steps R (AppendBatchImageEvent b e p)"
  "steps R (RecordBatchImageCleanupFailure b c m)"
  unfolding MarkBatchImageInputDeleted_def MarkBatchImageOutputDeleted_def MarkBatchImageDownloaded_def
    MarkBatchImageJobUserDeleted_def SetBatchImageOutputExpiresAt_def AppendBatchImageEvent_def
    RecordBatchImageCleanupFailure_def
  by (intro steps_intro exec event row props)+

end

subsection \<open>The relations of interest\<close>

text \<open>The tables of the billing repository are as before.\<close>

definition keeps_billing :: "'z batch_db_scheme \<Rightarrow> 'z batch_db_scheme \<Rightarrow> bool" where
  "keeps_billing w w' \<longleftrightarrow> ledger w' = ledger w \<and> dedup w' = dedup w \<and> dedup_archive w' = dedup_archive w"

text \<open>The tables of jobs, items and events are as before.\<close>

definition keeps_jobs :: "'z batch_db_scheme \<Rightarrow> 'z batch_db_scheme \<Rightarrow> bool" where
  "keeps_jobs w w' \<longleftrightarrow> jobs w' = jobs w \<and> items w' = items w \<and> events w' = events w"

interpretation billing_of_jobs: job_frame keeps_billing
  by unfold_locales
    (auto simp: keeps_billing_def reflp_def transp_def timeless_def ledger_def)

interpretation jobs_of_billing: billing_frame keeps_jobs
  by unfold_locales (auto simp: keeps_jobs_def reflp_def transp_def timeless_def)

interpretation lifecycle_of_billing: billing_frame lifecycle
  by unfold_locales (auto intro: lifecycle_same_jobs)

interpretation queue_of_jobs: job_frame keeps_tracked
  by unfold_locales (auto simp: keeps_tracked_def tracked_def queued_def)

interpretation queue_of_billing: billing_frame keeps_tracked
  by unfold_locales (auto simp: keeps_tracked_def tracked_def queued_def)


subsection \<open>Queue operations leave the tables alone\<close>

locale queue_frame =
  fixes R :: "'z batch_sys_scheme \<Rightarrow> 'z batch_sys_scheme \<Rightarrow> bool"
  assumes props: "reflp R" "transp R" "timeless R"
    and ready: "R w (w\<lparr>ready := r\<rparr>)" and delayed: "R w (w\<lparr>delayed := d\<rparr>)" and active: "R w (w\<lparr>active := a\<rparr>)"
    and inflight: "R w (w\<lparr>inflight := i\<rparr>)" and locks: "R w (w\<lparr>locks := l\<rparr>)" and entropy: "R w (w\<lparr>entropy := y\<rparr>)"
begin

lemma refl: "R w w"
  using props(1) by (rule reflpD)

lemma trans: "R a b \<Longrightarrow> R b c \<Longrightarrow> R a c"
  using props(2) by (rule transpD)

lemma two: "R w (w\<lparr>ready := r, active := a\<rparr>)" "R w (w\<lparr>active := a, delayed := d\<rparr>)"
  "R w (w\<lparr>inflight := i, ready := r\<rparr>)" "R w (w\<lparr>delayed := d, ready := r\<rparr>)" "R w (w\<lparr>active := a, ready := r\<rparr>)"
  using trans [OF ready active] trans [OF active delayed] trans [OF inflight ready]
    trans [OF delayed ready] trans [OF active ready] by simp_all

lemma three: "R w (w\<lparr>active := a, delayed := d, ready := r\<rparr>)" "R w (w\<lparr>active := a, delayed := d, inflight := i\<rparr>)"
  using trans [OF two(2) ready] trans [OF two(2) inflight] by simp_all

lemmas writes = refl ready delayed active inflight locks entropy two three

lemma simple_ops: "steps R (Enqueue opts b)" "steps R (RequeueAfter b d)" "steps R (Ack b)" "steps R (Heartbeat b)"
  "steps R (MoveDueDelayedToReady n)" "steps R (RecoverStaleActive d n)"
  unfolding Enqueue_def RequeueAfter_def Ack_def Heartbeat_def MoveDueDelayedToReady_def RecoverStaleActive_def
  by (intro steps_intro steps_stmt props; auto intro: writes split: prod.splits)+

lemma reserve_once: "steps R reserveOnce"
  unfolding reserveOnce_def reserve_script_def
  by (intro steps_intro steps_stmt props) (auto simp: Let_def intro: writes)

lemma reserve_op: "steps R (Reserve d)"
proof -
  have "R w (snd (reserve_loop deadline w))" for deadline w
  proof (induction deadline w rule: reserve_loop.induct)
    case (1 deadline w)
    obtain r w1 where r: "run_state reserveOnce w = (r, w1)" by fastforce
    have w1: "R w w1" using reserve_once r by (rule stepsD)
    obtain now w2 where now: "run_state time_now w1 = (now, w2)" by fastforce
    have w2: "R w w2" using steps_time_now [OF props(3,1)] now w1 by (blast dest: stepsD intro: trans)
    have tick: "R w (w2\<lparr>clock := c\<rparr>)" for c using w2 props(3) by (simp add: timeless_def)
    show ?case
      using 1 [OF r [symmetric] _ _ now [symmetric]] r now w1 w2 tick
      by (subst reserve_loop.simps) (auto split: sum.splits intro: trans)
  qed
  then show ?thesis
    unfolding Reserve_def by (intro steps_bind props steps_time_now) (simp add: steps_def)
qed

lemma lock_ops: "steps R (lock_Release b t)" "steps R (lock_Refresh b t ttl)" "steps R (TryAcquireJobLock opts b ttl)"
proof -
  have tok: "steps R newBatchImageLockToken"
    by (auto simp: steps_def newBatchImageLockToken_def intro: writes split: list.splits)
  show "steps R (lock_Release b t)" "steps R (lock_Refresh b t ttl)"
    unfolding lock_Release_def lock_Refresh_def Let_def
    by (intro steps_stmt props; auto intro: writes)+
  show "steps R (TryAcquireJobLock opts b ttl)"
    unfolding TryAcquireJobLock_def
    by (intro steps_intro steps_stmt props tok) (auto intro: writes)
qed

end

text \<open>The tables of both repositories are as before.\<close>

definition keeps_tables :: "'z batch_db_scheme \<Rightarrow> 'z batch_db_scheme \<Rightarrow> bool" where
  "keeps_tables w w' \<longleftrightarrow> keeps_jobs w w' \<and> keeps_billing w w'"

interpretation tables: queue_frame keeps_tables
  by unfold_locales
    (auto simp: keeps_tables_def keeps_jobs_def keeps_billing_def ledger_def reflp_def transp_def timeless_def)

interpretation redis_tables: accountable_queue "redis_queue opts" keeps_tables "\<lambda>w b. b \<in> queued w"
proof
  fix b d s and l :: "'a batch_sys_scheme BatchImageJobLock" and f t
  assume "fst (run_state (q_TryAcquireJobLock (redis_queue opts) b d) s) = Inr (Some l)"
  then obtain tok where l: "l = redis_lock b tok" using acquired_lock by (fastforce simp: redis_queue_def)
  then show "steps keeps_tables (lk_Release l)" by (simp add: redis_lock_def tables.lock_ops)
  show "lk_Refresh l = Some f \<Longrightarrow> steps keeps_tables (f t)"
    using l by (auto simp: redis_lock_def tables.lock_ops)
qed (auto simp: redis_queue_def tables.simple_ops tables.reserve_op tables.lock_ops tables.props
    intro: redis.requeue_holds redis.release_holds [of opts] simp del: release_keeps_queued)

end
