(* ===== verification/BatchImageSettlement.thy ===== *)
theory BatchImageSettlement
  imports ServiceFrames
begin

section \<open>Holding, settling and giving back money for batch image jobs\<close>

text \<open>
  \<^verbatim>\<open>service/batch_image_billing_hold.go\<close>, \<^verbatim>\<open>service/batch_image_settlement.go\<close> and
  \<^verbatim>\<open>service/batch_image_billing_recovery.go\<close>.  The repositories are those of \<open>UsageBilling\<close> and
  \<open>BatchImageRepo\<close>; the optional collaborators of the service (usage log, auth cache, configuration)
  are fields of \<open>BatchImageSettlementService\<close>, and so is the pricing resolver.  Log lines are left out.
\<close>

subsection \<open>Texts\<close>

text \<open>
  \<^verbatim>\<open>ApplicationError.Error\<close>.  \<^verbatim>\<open>%q\<close> leaves printable characters (here: every byte of a multi-byte
  character) and escapes the others; \<^verbatim>\<open>%v\<close> prints a map by ascending key.
\<close>

definition hex_digit :: "nat \<Rightarrow> char" where
  "hex_digit n = (if n < 10 then char_of (48 + n) else char_of (87 + n))"

definition control_char :: "char \<Rightarrow> bool" where
  "control_char c \<longleftrightarrow> \<not> digit7 c \<and> \<not> digit6 c \<and> \<not> digit5 c \<or> c = CHR 0x7F"

definition quote_char :: "char \<Rightarrow> string" where
  "quote_char c =
     (if c = CHR 0x22 \<or> c = CHR 0x5C then [CHR 0x5C, c]
      else if \<not> control_char c then [c]
      else (let n = (of_char c :: nat) in
        if n = 7 then [CHR 0x5C, CHR ''a''] else if n = 8 then [CHR 0x5C, CHR ''b'']
        else if n = 9 then [CHR 0x5C, CHR ''t''] else if n = 10 then [CHR 0x5C, CHR ''n'']
        else if n = 11 then [CHR 0x5C, CHR ''v''] else if n = 12 then [CHR 0x5C, CHR ''f'']
        else if n = 13 then [CHR 0x5C, CHR ''r'']
        else [CHR 0x5C, CHR ''x'', hex_digit (n div 16), hex_digit (n mod 16)]))"

definition go_quote :: "string \<Rightarrow> string" where
  "go_quote s = CHR 0x22 # concat (map quote_char s) @ [CHR 0x22]"

definition metadata_text :: "(string \<times> string) list option \<Rightarrow> string" where
  "metadata_text md = ''map['' @ join '' '' (map (\<lambda>(k, v). k @ '':'' @ v) (sort_key fst (deref_or [] md))) @ '']''"

primrec error_text :: "goerr \<Rightarrow> string" and cause_text :: "goerr option \<Rightarrow> string" where
  "error_text (AppErr c r m md cause) = ''error: code='' @ itoa c @ '' reason='' @ go_quote r
     @ '' message='' @ go_quote m @ '' metadata='' @ metadata_text md @ cause_text cause"
| "error_text (PlainErr s) = s"
| "error_text (WrapErr s e) = s @ '': '' @ error_text e"
| "cause_text None = []"
| "cause_text (Some e) = '' cause='' @ error_text e"

definition batchImageDerefString :: "string option \<Rightarrow> string" where
  "batchImageDerefString v = (case v of None \<Rightarrow> [] | Some s \<Rightarrow> trim_space s)"

definition batchImageOptionalStringPtr :: "string \<Rightarrow> string option" where
  "batchImageOptionalStringPtr v0 = (let v = trim_space v0 in if v = [] then None else Some v)"

definition truncateBatchImageMessage :: "string \<Rightarrow> int \<Rightarrow> string" where
  "truncateBatchImageMessage message0 limit = (let message = trim_space message0 in
     if limit \<le> 0 \<or> int (length message) \<le> limit then message else take (nat limit) message)"

definition batchImageMaxErrorMessageLength :: int where "batchImageMaxErrorMessageLength = 1000"

subsection \<open>Holds\<close>

definition buildBatchImageHoldCommand :: "f64 BatchImageJob \<Rightarrow> string \<Rightarrow> f64 \<Rightarrow> string \<Rightarrow>
    goerr + BatchImageBalanceHoldCommand" where
  "buildBatchImageHoldCommand job requestID actualAmount payloadHash =
     (case jb_APIKeyID job of
        None \<Rightarrow> Inl ErrBatchImageSettlementMissingAPIKeyID
      | Some key \<Rightarrow>
          if key \<le> 0 then Inl ErrBatchImageSettlementMissingAPIKeyID
          else (let holdAmount = deref_or (jb_EstimatedCost job) (jb_HoldAmount job) in
            Inr \<lparr>bh_RequestID = requestID, bh_APIKeyID = key, bh_RequestFingerprint = [],
                 bh_RequestPayloadHash = trim_space payloadHash, bh_UserID = jb_UserID job,
                 bh_BatchID = jb_BatchID job,
                 bh_HoldAmount = (if f_lt holdAmount (Fin 0) then Fin 0 else holdAmount),
                 bh_ActualAmount = (if f_lt actualAmount (Fin 0) then Fin 0 else actualAmount)\<rparr>))"

definition reserveBatchImageBalanceHold :: "'e driver_scheme \<Rightarrow> f64 BatchImageJob \<Rightarrow> string \<Rightarrow>
    ('z billing_scheme, goerr + unit) state" where
  "reserveBatchImageBalanceHold env job payloadHash =
     chain (buildBatchImageHoldCommand job (BatchImageHoldRequestID (jb_BatchID job)) (Fin 0) payloadHash)
       (\<lambda>cmd. if f_le (bh_HoldAmount cmd) (Fin 0) then ret (Inr ())
        else do {
          r \<leftarrow> ReserveBatchImageBalance env (Some cmd);
          ret (case r of
            Inl err \<Rightarrow> Inl (if err_is err ErrBatchImageInsufficientBalance
                           then ErrBatchImageInsufficientBalance
                           else WithCause ErrBatchImageBillingHoldFailed err)
          | Inr _ \<Rightarrow> Inr ()) })"

definition captureBatchImageBalanceHold :: "'e driver_scheme \<Rightarrow> f64 BatchImageJob \<Rightarrow> f64 \<Rightarrow> string \<Rightarrow>
    ('z billing_scheme, goerr + unit) state" where
  "captureBatchImageBalanceHold env job actualAmount payloadHash =
     chain (buildBatchImageHoldCommand job (BatchImageCaptureRequestID (jb_BatchID job)) actualAmount payloadHash)
       (\<lambda>cmd. do {
          r \<leftarrow> CaptureBatchImageBalance env (Some cmd);
          ret (case r of
            Inl err \<Rightarrow> Inl (WithCause ErrBatchImageSettlementBillingFailed err)
          | Inr _ \<Rightarrow> Inr ()) })"

definition releaseBatchImageBalanceHold :: "'e driver_scheme \<Rightarrow> f64 BatchImageJob \<Rightarrow> string \<Rightarrow>
    ('z billing_scheme, goerr + unit) state" where
  "releaseBatchImageBalanceHold env job payloadHash =
     chain (buildBatchImageHoldCommand job (BatchImageReleaseRequestID (jb_BatchID job)) (Fin 0) payloadHash)
       (\<lambda>cmd. if f_le (bh_HoldAmount cmd) (Fin 0) then ret (Inr ())
        else do {
          r \<leftarrow> ReleaseBatchImageBalance env (Some cmd);
          ret (case r of
            Inl err \<Rightarrow> if err_is err ErrUsageBillingRequestConflict then Inr ()
                      else Inl (WithCause ErrBatchImageBillingHoldFailed err)
          | Inr _ \<Rightarrow> Inr ()) })"

subsection \<open>Prices\<close>

record PricingInterval =
  ri_PerRequestPrice :: "f64 option"

record BasePricing =
  bp_ImageOutputPriceExplicit :: bool
  bp_ImageOutputPricePerToken :: f64

record ResolvedPricing =
  rp_Mode :: string
  rp_DefaultPerRequestPrice :: f64
  rp_RequestTiers :: "PricingInterval list"
  rp_BasePricing :: "BasePricing option"

abbreviation BillingModeToken :: string where "BillingModeToken \<equiv> ''token''"
abbreviation BillingModePerRequest :: string where "BillingModePerRequest \<equiv> ''per_request''"
abbreviation BillingModeImage :: string where "BillingModeImage \<equiv> ''image''"

text \<open>\<open>resolve\<close> is \<^verbatim>\<open>ModelPricingResolver.Resolve\<close> on a model name.\<close>

definition BatchImageUnitPrice :: "(string \<Rightarrow> ResolvedPricing option) \<Rightarrow> string \<Rightarrow> goerr + f64" where
  "BatchImageUnitPrice resolve model =
     (if trim_space model = [] then Inl ErrBatchImageSettlementPricingMissing
      else (case resolve model of
        None \<Rightarrow> Inl ErrBatchImageSettlementPricingMissing
      | Some resolved \<Rightarrow>
          if rp_Mode resolved = BillingModeImage \<or> rp_Mode resolved = BillingModePerRequest then
            (if f_lt (Fin 0) (rp_DefaultPerRequestPrice resolved) then Inr (rp_DefaultPerRequestPrice resolved)
             else (case rp_RequestTiers resolved of
                 [t] \<Rightarrow> (case ri_PerRequestPrice t of
                    Some p \<Rightarrow> if f_le (Fin 0) p then Inr p else Inl ErrBatchImageSettlementPricingMissing
                  | None \<Rightarrow> Inl ErrBatchImageSettlementPricingMissing)
               | _ \<Rightarrow> Inl ErrBatchImageSettlementPricingMissing))
          else if rp_Mode resolved = BillingModeToken then
            (case rp_BasePricing resolved of
               Some bp \<Rightarrow> if bp_ImageOutputPriceExplicit bp \<or> f_lt (Fin 0) (bp_ImageOutputPricePerToken bp)
                 then Inr (bp_ImageOutputPricePerToken bp) else Inl ErrBatchImageSettlementPricingMissing
             | None \<Rightarrow> Inl ErrBatchImageSettlementPricingMissing)
          else Inl ErrBatchImageSettlementPricingMissing))"

subsection \<open>Settlement\<close>

record BatchImageSettlementService =
  ss_Pricing :: "f64 BatchImageJob \<Rightarrow> goerr + f64"
  ss_UsageLog :: bool
  ss_AuthCache :: bool
  ss_RetentionHours :: "int option"

record BatchImageSettlementResult =
  sr_BatchID :: string
  sr_SuccessCount :: int
  sr_FailCount :: int
  sr_ActualCost :: f64
  sr_ManifestHash :: string
  sr_RequestID :: string
  sr_AlreadySettled :: bool

definition batchImageSettlementMaxRetries :: int where "batchImageSettlementMaxRetries = 5"
definition batchImageCostEpsilon :: f64 where "batchImageCostEpsilon = round64 (1 / 10 ^ 8)"
definition batchImageSettlementRetryDelay :: int where "batchImageSettlementRetryDelay = minute"

definition BatchImageSettlementRequestID :: "string \<Rightarrow> string" where
  "BatchImageSettlementRequestID batchID = ''batch_image_settlement:'' @ trim_space batchID"

definition BuildBatchImageSettlementManifestHash :: "'e driver_scheme \<Rightarrow> f64 BatchImageJob \<Rightarrow> string" where
  "BuildBatchImageSettlementManifestHash env job = sha256_hex env (join [CHR 0x00]
     [trim_space (jb_BatchID job), trim_space (jb_Provider job), trim_space (jb_Model job),
      batchImageDerefString (jb_ProviderJobName job), batchImageDerefString (jb_ProviderOutputRef job),
      itoa (jb_SuccessCount job), itoa (jb_FailCount job), itoa (jb_ItemCount job)])"

definition settlementUnitPrice :: "BatchImageSettlementService \<Rightarrow> f64 BatchImageJob \<Rightarrow> goerr + f64" where
  "settlementUnitPrice s job =
     (if 1 \<le> jb_PricingSnapshotVersion job then
        (if f_lt (jb_BillableUnitPrice job) (Fin 0) then Inl ErrBatchImageSettlementPricingMissing
         else Inr (jb_BillableUnitPrice job))
      else ss_Pricing s job)"

definition outputRetentionAfterTerminal :: "BatchImageSettlementService \<Rightarrow> int" where
  "outputRetentionAfterTerminal s = (case ss_RetentionHours s of
      Some h \<Rightarrow> if 0 < h then h * hour else 72 * hour
    | None \<Rightarrow> 72 * hour)"

definition isBatchImageSettlementRetryExhausted :: "f64 BatchImageJob \<Rightarrow> bool" where
  "isBatchImageSettlementRetryExhausted job \<longleftrightarrow>
     jb_Status job = BatchImageJobStatusSettling
     \<and> batchImageSettlementMaxRetries \<le> jb_RetryCount job
     \<and> has_prefix (batchImageDerefString (jb_LastErrorCode job)) ''SETTLEMENT_''"

definition InvalidateAuthCacheByUserID :: "int \<Rightarrow> ('z batch_db_scheme, unit) state" where
  "InvalidateAuthCacheByUserID userID = modify (\<lambda>w. w\<lparr>invalidated := invalidated w @ [userID]\<rparr>)"

definition invalidateAuthCache :: "bool \<Rightarrow> int \<Rightarrow> ('z batch_db_scheme, unit) state" where
  "invalidateAuthCache has_cache userID =
     (if has_cache \<and> 0 < userID then InvalidateAuthCacheByUserID userID else ret ())"

text \<open>
  The usage log entry: one row for a request id and API key (\<^verbatim>\<open>ON CONFLICT DO NOTHING\<close>).  A failed
  insertion is tried once more, then given up.  The fields of the entry that are constants of the
  code are left out.
\<close>

definition insert_usage_log :: "usage_log \<Rightarrow> ('z batch_db_scheme, goerr + unit) state" where
  "insert_usage_log l = stmt (\<lambda>w. (Inr (),
     if \<exists>x \<in> set (usage_logs w). ul_RequestID x = ul_RequestID l \<and> ul_APIKeyID x = ul_APIKeyID l then w
     else w\<lparr>usage_logs := usage_logs w @ [l]\<rparr>))"

definition writeUsageLogBestEffort :: "usage_log \<Rightarrow> ('z batch_db_scheme, unit) state" where
  "writeUsageLogBestEffort l = do {
     r \<leftarrow> insert_usage_log l;
     case r of
       Inr _ \<Rightarrow> ret ()
     | Inl _ \<Rightarrow> do { r2 \<leftarrow> insert_usage_log l; ret () } }"

definition recordUsageLog :: "BatchImageSettlementService \<Rightarrow> f64 BatchImageJob \<Rightarrow> f64 \<Rightarrow> string \<Rightarrow> int \<Rightarrow>
    ('z batch_db_scheme, unit) state" where
  "recordUsageLog s job actualCost requestID createdAt =
     (if \<not> ss_UsageLog s then ret ()
      else (case (jb_APIKeyID job, jb_AccountID job) of
        (Some key, Some account) \<Rightarrow> writeUsageLogBestEffort \<lparr>
          ul_UserID = jb_UserID job,
          ul_APIKeyID = key,
          ul_AccountID = account,
          ul_RequestID = trim_space requestID,
          ul_Model = jb_Model job,
          ul_ImageCount = jb_SuccessCount job,
          ul_ActualCost = actualCost,
          ul_RateMultiplier = f_mul (jb_GroupRateMultiplier job) (jb_BatchDiscountMultiplier job),
          ul_AccountRateMultiplier = jb_AccountRateMultiplier job,
          ul_CreatedAt = createdAt\<rparr>
      | _ \<Rightarrow> ret ()))"

definition failExhaustedSettlement :: "'e driver_scheme \<Rightarrow> BatchImageSettlementService \<Rightarrow>
    f64 BatchImageJob \<Rightarrow> string \<Rightarrow> ('z batch_db_scheme, goerr) state" where
  "failExhaustedSettlement env s job message = do {
     r \<leftarrow> releaseBatchImageBalanceHold env job (batchImageDerefString (jb_RequestHash job));
     case r of
       Inl err \<Rightarrow> do {
         let msg = truncateBatchImageMessage (error_text err) batchImageMaxErrorMessageLength;
         f \<leftarrow> SetBatchImageJobSettlementFailed (jb_BatchID job) ''SETTLEMENT_RELEASE_FAILED'' msg;
         ret (WithCause ErrBatchImageSettlementBillingFailed err) }
     | Inr _ \<Rightarrow> do {
         i \<leftarrow> invalidateAuthCache (ss_AuthCache s) (jb_UserID job);
         let msg = (if trim_space message = [] then ''settlement billing retry limit reached''
                    else trim_space message);
         t \<leftarrow> TransitionBatchImageJobStatus (jb_BatchID job) BatchImageJobStatusFailed
                \<lparr>to_EventType = ''settlement_retry_exhausted'',
                 to_EventPayload = Some [(''batch_id'', JStr (jb_BatchID job)),
                                         (''retry_count'', JInt (jb_RetryCount job))],
                 to_ErrorCode = Some ''SETTLEMENT_BILLING_RETRY_EXHAUSTED'',
                 to_ErrorMessage = Some msg, to_Now = None\<rparr>;
         ret (case t of Inl err \<Rightarrow> err | Inr _ \<Rightarrow> ErrBatchImageSettlementBillingFailed) } }"

text \<open>\<open>None\<close> is the nil error.\<close>

definition recordSettlementFailure :: "'e driver_scheme \<Rightarrow> BatchImageSettlementService \<Rightarrow>
    f64 BatchImageJob \<Rightarrow> string \<Rightarrow> string \<Rightarrow> ('z batch_db_scheme, goerr option) state" where
  "recordSettlementFailure env s job code message = do {
     rc \<leftarrow> SetBatchImageJobSettlementFailed (jb_BatchID job) code
             (truncateBatchImageMessage message batchImageMaxErrorMessageLength);
     case rc of (retryCount, recordErr) \<Rightarrow>
       if recordErr \<noteq> None then ret None
       else if batchImageSettlementMaxRetries \<le> retryCount then do {
         e \<leftarrow> failExhaustedSettlement env s
                (job\<lparr>jb_RetryCount := retryCount, jb_LastErrorCode := Some code\<rparr>) message;
         ret (Some e) }
       else ret None }"

text \<open>Record the failure, and answer its error instead of \<open>err\<close> when it has one.\<close>

definition settlement_fails :: "'e driver_scheme \<Rightarrow> BatchImageSettlementService \<Rightarrow> f64 BatchImageJob \<Rightarrow>
    string \<Rightarrow> string \<Rightarrow> goerr \<Rightarrow> ('z batch_db_scheme, goerr + 'a) state" where
  "settlement_fails env s job code message err = do {
     failErr \<leftarrow> recordSettlementFailure env s job code message;
     ret (Inl (case failErr of Some e \<Rightarrow> e | None \<Rightarrow> err)) }"

definition settlement_result :: "'e driver_scheme \<Rightarrow> f64 BatchImageJob \<Rightarrow> BatchImageSettlementResult" where
  "settlement_result env job = \<lparr>
     sr_BatchID = jb_BatchID job, sr_SuccessCount = jb_SuccessCount job, sr_FailCount = jb_FailCount job,
     sr_ActualCost = deref_or (Fin 0) (jb_ActualCost job),
     sr_ManifestHash = BuildBatchImageSettlementManifestHash env job,
     sr_RequestID = BatchImageCaptureRequestID (jb_BatchID job), sr_AlreadySettled = False\<rparr>"

text \<open>From the capture to the end.\<close>

definition settle_capture :: "'e driver_scheme \<Rightarrow> BatchImageSettlementService \<Rightarrow> f64 BatchImageJob \<Rightarrow>
    f64 \<Rightarrow> ('z batch_db_scheme, goerr + BatchImageSettlementResult) state" where
  "settle_capture env s job actualCost = (let result = settlement_result env job in do {
     c \<leftarrow> captureBatchImageBalanceHold env job actualCost (sr_ManifestHash result);
     case c of
       Inl err \<Rightarrow> settlement_fails env s job ''SETTLEMENT_BILLING_FAILED''
                  (truncateBatchImageMessage (error_text err) batchImageMaxErrorMessageLength) err
     | Inr _ \<Rightarrow> do {
         i \<leftarrow> invalidateAuthCache (ss_AuthCache s) (jb_UserID job);
         now \<leftarrow> time_now;
         m \<leftarrow> MarkBatchImageJobSettled env \<lparr>
                ms_BatchID = jb_BatchID job, ms_ActualCost = actualCost,
                ms_ManifestHash = sr_ManifestHash result,
                ms_EventPayload = Some [(''batch_id'', JStr (jb_BatchID job)),
                  (''request_id'', JStr (sr_RequestID result)),
                  (''success_count'', JInt (jb_SuccessCount job)),
                  (''fail_count'', JInt (jb_FailCount job)),
                  (''actual_cost'', JNum actualCost),
                  (''manifest_hash'', JStr (sr_ManifestHash result))],
                ms_Now = Some now,
                ms_OutputExpiresAt = Some (now + outputRetentionAfterTerminal s)\<rparr>;
         chain m (\<lambda>_. do {
           u \<leftarrow> recordUsageLog s job actualCost (sr_RequestID result) now;
           ret (Inr (result\<lparr>sr_ActualCost := actualCost\<rparr>)) }) } })"

text \<open>The price, and the check against the hold.\<close>

definition settle_priced :: "'e driver_scheme \<Rightarrow> BatchImageSettlementService \<Rightarrow> f64 BatchImageJob \<Rightarrow>
    ('z batch_db_scheme, goerr + BatchImageSettlementResult) state" where
  "settle_priced env s job =
     (case (case settlementUnitPrice s job of
              Inl e \<Rightarrow> Inl e
            | Inr p \<Rightarrow> if f_lt p (Fin 0) then Inl ErrBatchImageSettlementPricingMissing else Inr p) of
        Inl err \<Rightarrow> settlement_fails env s job ''SETTLEMENT_PRICING_MISSING'' (error_text err) err
      | Inr unitPrice \<Rightarrow>
          let actualCost = f_mul (f_of_int (jb_SuccessCount job)) unitPrice;
              holdAmount = deref_or (jb_EstimatedCost job) (jb_HoldAmount job)
          in if f_lt batchImageCostEpsilon (f_sub actualCost holdAmount) then
               settlement_fails env s job ''SETTLEMENT_COST_EXCEEDS_HOLD''
                 (''actual cost '' @ fmt_f10 actualCost @ '' exceeds held amount '' @ fmt_f10 holdAmount)
                 ErrBatchImageSettlementCostExceedsHold
             else settle_capture env s job actualCost)"

definition counts_invalid :: "'m BatchImageJob \<Rightarrow> bool" where
  "counts_invalid job \<longleftrightarrow> jb_SuccessCount job < 0 \<or> jb_FailCount job < 0 \<or> jb_ItemCount job < 0
     \<or> jb_ItemCount job < jb_SuccessCount job + jb_FailCount job"

definition Settle :: "'e driver_scheme \<Rightarrow> BatchImageSettlementService \<Rightarrow> string \<Rightarrow>
    ('z batch_db_scheme, goerr + BatchImageSettlementResult) state" where
  "Settle env s batchID = do {
     r \<leftarrow> GetBatchImageJobByBatchID env batchID;
     chain r (\<lambda>job.
       if jb_Status job = BatchImageJobStatusCompleted then
         ret (Inr ((settlement_result env job)\<lparr>sr_AlreadySettled := True\<rparr>))
       else if jb_Status job \<noteq> BatchImageJobStatusSettling then
         ret (Inl ErrBatchImageSettlementInvalidStatus)
       else if deref_or 0 (jb_APIKeyID job) \<le> 0 then ret (Inl ErrBatchImageSettlementMissingAPIKeyID)
       else if deref_or 0 (jb_AccountID job) \<le> 0 then ret (Inl ErrBatchImageSettlementMissingAccountID)
       else if isBatchImageSettlementRetryExhausted job then do {
         e \<leftarrow> failExhaustedSettlement env s job
                (''settlement retry limit reached: '' @ batchImageDerefString (jb_LastErrorCode job));
         ret (Inl e) }
       else if counts_invalid job then
         settlement_fails env s job ''SETTLEMENT_INVALID_COUNTS''
           (''success='' @ itoa (jb_SuccessCount job) @ '' fail='' @ itoa (jb_FailCount job)
             @ '' item_count='' @ itoa (jb_ItemCount job)) ErrBatchImageSettlementInvalidCounts
       else if batchImageDerefString (jb_ManifestHash job) \<noteq> []
          \<and> batchImageDerefString (jb_ManifestHash job) \<noteq> BuildBatchImageSettlementManifestHash env job then
         settlement_fails env s job ''SETTLEMENT_MANIFEST_CONFLICT'' ''manifest hash conflict''
           ErrBatchImageSettlementManifestConflict
       else settle_priced env s job) }"

text \<open>\<^verbatim>\<open>BatchImageSettlementResult.String\<close>.\<close>

definition settlement_string :: "BatchImageSettlementResult \<Rightarrow> string" where
  "settlement_string r = ''batch_id='' @ sr_BatchID r @ '' success='' @ itoa (sr_SuccessCount r)
     @ '' fail='' @ itoa (sr_FailCount r) @ '' actual_cost='' @ fmt_f10 (sr_ActualCost r)
     @ '' already_settled='' @ (if sr_AlreadySettled r then ''true'' else ''false'')"

subsection \<open>Recovery of holds that were never submitted\<close>

record BatchImageBillingRecoveryService =
  rs_AuthCache :: bool
  rs_Queue :: bool
  rs_StaleAfter :: int
  rs_Limit :: int

definition enqueueReleaseRetry :: "batchImageQueueOptions \<Rightarrow> BatchImageBillingRecoveryService \<Rightarrow> string \<Rightarrow>
    ('z batch_sys_scheme, unit) state" where
  "enqueueReleaseRetry qo s batchID =
     (if rs_Queue s then do { r \<leftarrow> Enqueue qo batchID; ret () } else ret ())"

text \<open>The loop over the stale jobs: the number released and the last error.\<close>

fun release_stale :: "'e driver_scheme \<Rightarrow> batchImageQueueOptions \<Rightarrow> BatchImageBillingRecoveryService \<Rightarrow> int \<Rightarrow>
    f64 BatchImageJob list \<Rightarrow> int \<times> goerr option \<Rightarrow> ('z batch_sys_scheme, int \<times> goerr option) state" where
  "release_stale env qo s cutoff [] acc = ret acc"
| "release_stale env qo s cutoff (job # js) (released, lastErr) = do {
     f \<leftarrow> FailStaleUnsubmittedBatchImageJob (jb_BatchID job) cutoff ''SUBMIT_STALE_BEFORE_PROVIDER''
            ''batch image submission did not reach provider before recovery cutoff'';
     case f of (applied, err) \<Rightarrow>
       if \<not> applied then
         release_stale env qo s cutoff js (released, if err \<noteq> None then err else lastErr)
       else do {
         r \<leftarrow> releaseBatchImageBalanceHold env (job\<lparr>jb_Status := BatchImageJobStatusFailed\<rparr>)
                (batchImageDerefString (jb_RequestHash job));
         case r of
           Inl e \<Rightarrow> do {
             q \<leftarrow> enqueueReleaseRetry qo s (jb_BatchID job);
             release_stale env qo s cutoff js (released, Some e) }
         | Inr _ \<Rightarrow> do {
             i \<leftarrow> invalidateAuthCache (rs_AuthCache s) (jb_UserID job);
             release_stale env qo s cutoff js (released + 1, lastErr) } } }"

definition ReleaseStaleUnsubmittedOnce :: "'e driver_scheme \<Rightarrow> batchImageQueueOptions \<Rightarrow>
    BatchImageBillingRecoveryService \<Rightarrow> ('z batch_sys_scheme, int \<times> goerr option) state" where
  "ReleaseStaleUnsubmittedOnce env qo s = do {
     let staleAfter = positive_or (10 * minute) (rs_StaleAfter s);
     let limit = positive_or 100 (rs_Limit s);
     now \<leftarrow> time_now;
     let cutoff = now - staleAfter;
     r \<leftarrow> ListStaleUnsubmittedBatchImageJobs env cutoff limit;
     case r of
       Inl err \<Rightarrow> ret (0, Some err)
     | Inr js \<Rightarrow> release_stale env qo s cutoff js (0, None) }"

subsection \<open>What the services change\<close>

context job_frame begin

lemma side_effects [frame_steps]: "steps R (invalidateAuthCache c u)" "steps R (recordUsageLog s job a r t)"
proof -
  show "steps R (invalidateAuthCache c u)"
    unfolding invalidateAuthCache_def InvalidateAuthCacheByUserID_def
    by (intro steps_intro steps_modify logs props)
  have "steps R (insert_usage_log l)" for l
    unfolding insert_usage_log_def by (intro steps_stmt props) (simp add: refl logs)
  then show "steps R (recordUsageLog s job a r t)"
    unfolding recordUsageLog_def writeUsageLogBestEffort_def by (intro steps_intro props)
qed

end

text \<open>The steps of the settlement service keep every relation that both repositories keep.\<close>

locale service_frame = billing_frame R + job_frame R
  for R :: "'z batch_db_scheme \<Rightarrow> 'z batch_db_scheme \<Rightarrow> bool"
begin

lemma holds [frame_steps]: "steps R (reserveBatchImageBalanceHold env job h)"
  "steps R (captureBatchImageBalanceHold env job a h)" "steps R (releaseBatchImageBalanceHold env job h)"
  unfolding reserveBatchImageBalanceHold_def captureBatchImageBalanceHold_def releaseBatchImageBalanceHold_def
  by (intro steps_intro hold_operations props)+

lemma failures: "steps R (failExhaustedSettlement env s job m)" "steps R (recordSettlementFailure env s job c m)"
  "steps R (settlement_fails env s job c m e)"
  unfolding settlement_fails_def recordSettlementFailure_def failExhaustedSettlement_def Let_def
  by (intro steps_intro frame_steps props)+

lemma settle [frame_steps]: "steps R (Settle env s b)"
  unfolding Settle_def settle_priced_def settle_capture_def Let_def
  by (intro steps_intro frame_steps failures props)

end

interpretation queue_of_services: service_frame keeps_tracked ..

text \<open>The services move jobs along the life cycle.\<close>

lemma lifecycle_reads [frame_steps]: "steps lifecycle (GetBatchImageJobByBatchID env b)"
  "steps lifecycle (ListBatchImageItems env b f)" "steps lifecycle (list_jobs env q)"
  unfolding GetBatchImageJobByBatchID_def read_job_def ListBatchImageItems_def list_jobs_def
  by (intro steps_intro steps_stmt; simp)+

lemma lifecycle_holds [frame_steps]: "steps lifecycle (reserveBatchImageBalanceHold env job h)"
  "steps lifecycle (captureBatchImageBalanceHold env job a h)"
  "steps lifecycle (releaseBatchImageBalanceHold env job h)"
  unfolding reserveBatchImageBalanceHold_def captureBatchImageBalanceHold_def releaseBatchImageBalanceHold_def
  by (intro steps_intro frame_steps lifecycle_props)+

lemma lifecycle_side_effects [frame_steps]: "steps lifecycle (invalidateAuthCache c u)"
  "steps lifecycle (recordUsageLog s job a r t)"
proof -
  show "steps lifecycle (invalidateAuthCache c u)"
    unfolding invalidateAuthCache_def InvalidateAuthCacheByUserID_def
    by (intro steps_intro steps_modify lifecycle_props) (simp add: lifecycle_same_jobs)
  have "steps lifecycle (insert_usage_log l)" for l
    unfolding insert_usage_log_def by (intro steps_stmt) (auto intro: lifecycle_same_jobs)
  then show "steps lifecycle (recordUsageLog s job a r t)"
    unfolding recordUsageLog_def writeUsageLogBestEffort_def by (intro steps_intro lifecycle_props)
qed

lemma lifecycle_settle [frame_steps]: "steps lifecycle (Settle env s b)"
  unfolding Settle_def settle_priced_def settle_capture_def Let_def settlement_fails_def
    recordSettlementFailure_def failExhaustedSettlement_def
  by (intro steps_intro frame_steps lifecycle_props)

subsection \<open>Successful settlements\<close>

lemma read_job_InrD:
  assumes "run_state (GetBatchImageJobByBatchID env b) w = (Inr job, w')"
  obtains j fs where "find_job w b = Some j" "job = scanBatchImageJob env j" "w' = w\<lparr>faults := fs\<rparr>"
  using assms unfolding GetBatchImageJobByBatchID_def read_job_def select_job_def
  by (auto elim!: run_elims stmt_InrE split: sum.splits option.splits simp: find_job_def)

lemma insert_dedup_no_rowsD:
  "run_state (insert_dedup r k fp) w = (Inl err, w') \<Longrightarrow> err_is err sql_no_rows \<Longrightarrow> dedup w (r, k) \<noteq> None"
  unfolding insert_dedup_def by (auto elim!: stmt_no_rowsE split: if_splits)

lemma claim_FalseD:
  assumes "run_state (claimUsageBillingRequest r k fp) w = (Inr False, w')"
  shows "claimed w (r, k)"
  using assms unfolding claimUsageBillingRequest_def
  by (auto simp: claimed_def claims_key_def elim!: run_elims split: sum.splits if_splits
      dest: insert_dedup_no_rowsD dest!: select_InrD insert_dedup_InrD)

text \<open>A hold operation that answers without an error leaves its request id recorded.\<close>

lemma hold_operation_claims:
  assumes run: "run_state (applyBatchImageBalanceHold env app (Some c)) w = (Inr r, w')"
    and app: "\<And>c. steps keeps_claims (app c)"
  shows "claimed w' (hold_key c)"
proof -
  let ?c = "NormalizeHold env c"
  from run have tx: "run_state (with_tx (hold_tx app ?c)) w = (Inr r, w')"
    by (auto simp: applyBatchImageBalanceHold_def Let_def split: if_splits)
  then show ?thesis
  proof (cases rule: with_tx_cases)
    case rolled_back
    then obtain fs w2 where "run_state (hold_tx app ?c) (w\<lparr>faults := fs\<rparr>) = (Inr (r, False), w2)" by blast
    then have "claimed w (hold_key c)"
      unfolding hold_tx_def by (auto elim!: run_elims dest!: claim_FalseD simp: hold_key_def claimed_def)
    with rolled_back(1) show ?thesis by (simp add: same_db_fields)
  next
    case (committed fs w2 x fs')
    then obtain w1 res where "claims_key (hold_key c) (bh_RequestFingerprint ?c) (w\<lparr>faults := fs\<rparr>) w1"
      "run_state (app ?c) w1 = (Inr res, w2)"
      by (auto elim!: hold_tx_committedD simp: hold_key_def)
    with stepsD [OF app this(2)] committed(2) show ?thesis
      by (auto simp: claims_key_def keeps_claims_def claimed_def)
  qed
qed

lemma settlement_fails_Inl: "run_state (settlement_fails env s job c m e) w = (Inr r, w') \<Longrightarrow> False"
  unfolding settlement_fails_def by (auto elim!: run_elims)

text \<open>The request ids of a job, as the billing repository records them.\<close>

definition capture_key :: "'m BatchImageJob \<Rightarrow> string \<times> int" where
  "capture_key job = (trim_space (BatchImageCaptureRequestID (jb_BatchID job)), deref_or 0 (jb_APIKeyID job))"

definition release_key :: "'m BatchImageJob \<Rightarrow> string \<times> int" where
  "release_key job = (trim_space (BatchImageReleaseRequestID (jb_BatchID job)), deref_or 0 (jb_APIKeyID job))"

lemma build_hold_InrD:
  assumes "buildBatchImageHoldCommand job rid a h = Inr cmd"
  shows "hold_key cmd = (trim_space rid, deref_or 0 (jb_APIKeyID job))" "bh_UserID cmd = jb_UserID job"
    "0 < deref_or 0 (jb_APIKeyID job)"
  using assms by (auto simp: buildBatchImageHoldCommand_def hold_key_def Let_def split: option.splits if_splits)

lemma capture_hold_InrD:
  assumes "run_state (captureBatchImageBalanceHold env job a h) w = (Inr (), w')"
  shows "claimed w' (capture_key job)" and "keeps_jobs w w'"
proof -
  from assms obtain cmd r where
    cmd: "buildBatchImageHoldCommand job (BatchImageCaptureRequestID (jb_BatchID job)) a h = Inr cmd"
    and run: "run_state (CaptureBatchImageBalance env (Some cmd)) w = (Inr r, w')"
    unfolding captureBatchImageBalanceHold_def by (auto elim!: run_elims split: sum.splits)
  show "claimed w' (capture_key job)"
    using hold_operation_claims [OF run [unfolded CaptureBatchImageBalance_def] steps_hold_effects(2)]
      build_hold_InrD(1) [OF cmd] by (simp add: capture_key_def)
  show "keeps_jobs w w'"
    using run jobs_of_billing.hold_operations(2) by (blast dest: stepsD)
qed

lemma usage_log_keeps_jobs: "steps keeps_jobs (recordUsageLog s job a r t)"
    "steps keeps_jobs (invalidateAuthCache c u)"
proof -
  have "steps keeps_jobs (insert_usage_log l)" for l
    unfolding insert_usage_log_def by (intro steps_stmt jobs_of_billing.props) (simp add: keeps_jobs_def)
  then show "steps keeps_jobs (recordUsageLog s job a r t)"
    unfolding recordUsageLog_def writeUsageLogBestEffort_def by (intro steps_intro jobs_of_billing.props)
  show "steps keeps_jobs (invalidateAuthCache c u)"
    unfolding invalidateAuthCache_def InvalidateAuthCacheByUserID_def
    by (intro steps_intro steps_modify jobs_of_billing.props) (simp add: keeps_jobs_def)
qed

lemma keeps_jobs_find: "keeps_jobs w w' \<Longrightarrow> find_job w' b = find_job w b"
  by (simp add: keeps_jobs_def find_job_def)

lemma keeps_billing_claimed: "keeps_billing w w' \<Longrightarrow> claimed w' k = claimed w k"
  by (simp add: keeps_billing_def claimed_def)

lemma settle_capture_InrD:
  assumes "run_state (settle_capture env s job a) w = (Inr res, w')"
  shows "claimed w' (capture_key job)" "\<not> sr_AlreadySettled res" "sr_ActualCost res = a"
    "\<exists>j' q. find_job w' (jb_BatchID job) = Some j' \<and> jb_Status j' = BatchImageJobStatusCompleted
       \<and> to_numeric env a = Some q \<and> jb_ActualCost j' = Some (dec_round 10 q)"
proof -
  let ?h = "sr_ManifestHash (settlement_result env job)"
  from assms obtain w1 w2 now w3 m w4 where
    c: "run_state (captureBatchImageBalanceHold env job a ?h) w = (Inr (), w1)" and
    i: "run_state (invalidateAuthCache (ss_AuthCache s) (jb_UserID job)) w1 = ((), w2)" and
    t: "run_state time_now w2 = (now, w3)" and
    m: "run_state (MarkBatchImageJobSettled env m) w3 = (Inr (), w4)" "ms_BatchID m = jb_BatchID job"
       "ms_ActualCost m = a" and
    u: "run_state (recordUsageLog s job a (sr_RequestID (settlement_result env job)) now) w4 = ((), w')" and
    res: "res = (settlement_result env job)\<lparr>sr_ActualCost := a\<rparr>"
    unfolding settle_capture_def Let_def
    by (auto elim!: run_elims dest: settlement_fails_Inl)
  show "\<not> sr_AlreadySettled res" "sr_ActualCost res = a"
    using res by (simp_all add: settlement_result_def)
  have "keeps_billing w1 w2" using billing_of_jobs.side_effects(1) i by (rule stepsD)
  moreover have "keeps_billing w2 w3"
    using steps_time_now [OF billing_of_jobs.props(3,1)] t by (rule stepsD)
  moreover have "keeps_billing w3 w4" using billing_of_jobs.status_ops(3) m(1) by (rule stepsD)
  moreover have "keeps_billing w4 w'" using billing_of_jobs.side_effects(2) u by (rule stepsD)
  ultimately show "claimed w' (capture_key job)"
    using capture_hold_InrD(1) [OF c] by (simp add: keeps_billing_claimed)
  have "find_job w' (jb_BatchID job) = find_job w4 (jb_BatchID job)"
    using stepsD [OF usage_log_keeps_jobs(1) u] by (rule keeps_jobs_find)
  then show "\<exists>j' q. find_job w' (jb_BatchID job) = Some j' \<and> jb_Status j' = BatchImageJobStatusCompleted
       \<and> to_numeric env a = Some q \<and> jb_ActualCost j' = Some (dec_round 10 q)"
    using m by (auto elim!: markSettled_InrD dest!: settle_row_InrD)
qed

subsection \<open>Giving up\<close>

text \<open>The hold of a job is out of the user's frozen balance, or there was none.\<close>

definition hold_amount :: "f64 BatchImageJob \<Rightarrow> f64" where
  "hold_amount job = deref_or (jb_EstimatedCost job) (jb_HoldAmount job)"

definition hold_returned :: "'e driver_scheme \<Rightarrow> 'z batch_db_scheme \<Rightarrow> rat BatchImageJob \<Rightarrow> bool" where
  "hold_returned env w j \<longleftrightarrow> claimed w (release_key j) \<or> f_le (hold_amount (scanBatchImageJob env j)) (Fin 0)"

lemma conflict_only_from_claim:
  "\<not> err_is infra_error ErrUsageBillingRequestConflict" "\<not> err_is sql_overflow ErrUsageBillingRequestConflict"
  "\<not> err_is sql_no_rows ErrUsageBillingRequestConflict" "\<not> err_is sql_too_long ErrUsageBillingRequestConflict"
  "\<not> err_is ErrUserNotFound ErrUsageBillingRequestConflict"
  "\<not> err_is ErrFrozenInsufficient ErrUsageBillingRequestConflict"
  by code_simp+

lemma update_users_Inl: "run_state (update_users p f i) w = (Inl e, w') \<Longrightarrow>
   (\<And>u e. f u = Inl e \<Longrightarrow> e = sql_overflow) \<Longrightarrow> e \<in> {infra_error, sql_no_rows, sql_overflow}"
  unfolding update_users_def
  by (auto elim!: stmt_cases simp: update_row_def split: option.splits if_splits sum.splits)

lemma no_row_updated_Inl: "run_state (no_row_updated i e1 e2) w = (Inl e, w') \<Longrightarrow>
   e \<in> {e1, e2, infra_error, ErrUserNotFound}"
  unfolding no_row_updated_def userExistsForBilling_def
  by (auto elim!: run_elims stmt_cases split: option.splits if_splits sum.splits)

lemma select_Inl: "run_state (select_dedup r k) w = (Inl e, w') \<Longrightarrow> e \<in> {infra_error, sql_no_rows}"
  "run_state (select_archive r k) w = (Inl e, w') \<Longrightarrow> e \<in> {infra_error, sql_no_rows}"
  unfolding select_dedup_def select_archive_def by (auto elim!: stmt_cases split: option.splits)

lemma with_tx_InlE:
  assumes run: "run_state (with_tx body) w = (Inl e, w')" and ne: "e \<noteq> infra_error"
  obtains fs w2 where "run_state body (w\<lparr>faults := fs\<rparr>) = (Inl e, w2)"
proof -
  obtain b w1 where b: "run_state (io (ret (Inr ()))) w = (b, w1)" by fastforce
  then obtain fs where w1: "w1 = w\<lparr>faults := fs\<rparr>" by (rule run_begin)
  have "b = Inl infra_error \<or> b = Inr ()" using b by (cases rule: run_io_cases) auto
  then have "b = Inr ()" using b run ne by (auto simp: with_tx_def)
  then have "\<exists>w2. run_state body w1 = (Inl e, w2)"
    using run b ne by (auto simp: with_tx_def split: prod.splits sum.splits list.splits
        call_outcome.splits if_splits)
  then show ?thesis using that w1 by blast
qed

lemma release_body_errors:
  assumes "run_state (releaseUsageBillingBatchImageBalance env c) w = (Inl e, w')"
  shows "\<not> err_is e ErrUsageBillingRequestConflict"
proof -
  have f: "(case to_numeric env (bh_HoldAmount c) of None \<Rightarrow> Inl sql_overflow
      | Some h \<Rightarrow> move_money (\<lambda>b. b + h) (\<lambda>f. f - h) u) = Inl e \<Longrightarrow> e = sql_overflow" for u e
    by (auto split: option.splits dest: move_money_Inl)
  have held: "run_state (batchImageHoldClaimExists r k) w = (Inl e, w') \<Longrightarrow> e \<in> {infra_error, sql_no_rows}"
    for r k w w' e
    unfolding batchImageHoldClaimExists_def
    by (auto elim!: run_elims split: if_splits sum.splits dest!: select_Inl)
  have "e \<in> {infra_error, sql_no_rows, sql_overflow, ErrUserNotFound, ErrFrozenInsufficient}"
    using assms unfolding releaseUsageBillingBatchImageBalance_def
    by (auto elim!: run_elims dest!: no_row_updated_Inl update_users_Inl [OF _ f] held)
  then show ?thesis using conflict_only_from_claim by auto
qed

lemma claim_conflict_claimed:
  assumes "run_state (claimUsageBillingRequest r k fp) w = (Inl e, w')" "err_is e ErrUsageBillingRequestConflict"
  shows "claimed w (r, k)"
proof -
  have ins: "run_state (insert_dedup r k fp) w = (Inl e, w') \<Longrightarrow> e \<in> {infra_error, sql_no_rows, sql_too_long}" for w'
    unfolding insert_dedup_def by (auto elim!: stmt_cases split: if_splits)
  show ?thesis
    using assms conflict_only_from_claim unfolding claimUsageBillingRequest_def
    by (auto simp: claimed_def claims_key_def elim!: run_elims split: sum.splits if_splits
        dest: ins insert_dedup_no_rowsD dest!: select_InrD select_Inl insert_dedup_InrD)
qed

text \<open>A release that the service takes as done is recorded, also when it was answered as a conflict.\<close>

lemma release_conflict_claimed:
  assumes run: "run_state (ReleaseBatchImageBalance env (Some c)) w = (Inl e, w')"
    and e: "err_is e ErrUsageBillingRequestConflict"
  shows "claimed w' (hold_key c)"
proof -
  let ?c = "NormalizeHold env c"
  have ne: "e \<noteq> infra_error" using e conflict_only_from_claim by auto
  have "e \<noteq> ErrUsageBillingRequestIDRequired"
    using e by (auto simp: ErrUsageBillingRequestIDRequired_def ErrUsageBillingRequestConflict_def New_def)
  with run have tx: "run_state (with_tx (hold_tx (releaseUsageBillingBatchImageBalance env) ?c)) w = (Inl e, w')"
    by (auto simp: ReleaseBatchImageBalance_def applyBatchImageBalanceHold_def Let_def split: if_splits)
  then have same: "same_db w w'" using ne by (cases rule: with_tx_cases) auto
  from tx ne obtain fs w2 where
    "run_state (hold_tx (releaseUsageBillingBatchImageBalance env) ?c) (w\<lparr>faults := fs\<rparr>) = (Inl e, w2)"
    by (rule with_tx_InlE)
  then have "claimed w (hold_key c)"
    using e unfolding hold_tx_def
    by (auto elim!: run_elims dest!: claim_conflict_claimed release_body_errors simp: hold_key_def claimed_def)
  with same show ?thesis by (simp add: same_db_fields)
qed

lemma release_hold_InrD:
  assumes "run_state (releaseBatchImageBalanceHold env job h) w = (Inr (), w')"
  shows "claimed w' (release_key job) \<or> f_le (hold_amount job) (Fin 0)"
proof -
  from assms obtain cmd where
    cmd: "buildBatchImageHoldCommand job (BatchImageReleaseRequestID (jb_BatchID job)) (Fin 0) h = Inr cmd"
    unfolding releaseBatchImageBalanceHold_def by (auto elim!: run_elims)
  have key: "hold_key cmd = release_key job" using build_hold_InrD(1) [OF cmd] by (simp add: release_key_def)
  have amount: "f_le (bh_HoldAmount cmd) (Fin 0) \<Longrightarrow> f_le (hold_amount job) (Fin 0)"
    using cmd by (auto simp: buildBatchImageHoldCommand_def hold_amount_def Let_def f_le_def
        split: option.splits if_splits)
  have ok: "claimed w' (release_key job)"
    if "run_state (ReleaseBatchImageBalance env (Some cmd)) w = (Inr r, w')" for r
    using hold_operation_claims [OF that [unfolded ReleaseBatchImageBalance_def] steps_hold_effects(3)] key
    by simp
  have conflict: "claimed w' (release_key job)"
    if "run_state (ReleaseBatchImageBalance env (Some cmd)) w = (Inl e, w')"
      "err_is e ErrUsageBillingRequestConflict" for e
    using release_conflict_claimed [OF that] key by simp
  show ?thesis
    using assms cmd amount unfolding releaseBatchImageBalanceHold_def
    by (auto elim!: run_elims split: sum.splits if_splits dest: ok conflict)
qed

text \<open>
  \<open>gives_up_last env w w'\<close>: a job that became failed had its hold returned first, and a hold that was
  returned stays so.
\<close>

definition gives_up_last :: "'e driver_scheme \<Rightarrow> 'z batch_db_scheme \<Rightarrow> 'z batch_db_scheme \<Rightarrow> bool" where
  "gives_up_last env w w' \<longleftrightarrow> (\<forall>b j. find_job w b = Some j \<longrightarrow>
     (\<exists>j'. find_job w' b = Some j' \<and> job_identity j' = job_identity j
        \<and> (hold_returned env w j \<longrightarrow> hold_returned env w' j)
        \<and> (jb_Status j' = BatchImageJobStatusFailed \<longrightarrow>
             jb_Status j = BatchImageJobStatusFailed \<or> hold_returned env w' j)))"

lemma gives_up_lastD: "gives_up_last env w w' \<Longrightarrow> find_job w b = Some j \<Longrightarrow>
    \<exists>j'. find_job w' b = Some j' \<and> job_identity j' = job_identity j"
  unfolding gives_up_last_def by blast

lemma hold_returned_identity: "job_identity j' = job_identity j \<Longrightarrow> hold_returned env w j' = hold_returned env w j"
  by (simp add: hold_returned_def job_identity_def release_key_def hold_amount_def scanBatchImageJob_def)

lemma gives_up_last_trans:
  assumes uv: "gives_up_last env u v" and vw: "gives_up_last env v w"
  shows "gives_up_last env u w"
  unfolding gives_up_last_def
proof (intro allI impI)
  fix b x assume "find_job u b = Some x"
  with uv obtain y where y: "find_job v b = Some y" "job_identity y = job_identity x"
    "hold_returned env u x \<longrightarrow> hold_returned env v x"
    "jb_Status y = BatchImageJobStatusFailed \<longrightarrow> jb_Status x = BatchImageJobStatusFailed \<or> hold_returned env v x"
    unfolding gives_up_last_def by blast
  with vw obtain z where z: "find_job w b = Some z" "job_identity z = job_identity y"
    "hold_returned env v y \<longrightarrow> hold_returned env w y"
    "jb_Status z = BatchImageJobStatusFailed \<longrightarrow> jb_Status y = BatchImageJobStatusFailed \<or> hold_returned env w y"
    unfolding gives_up_last_def by blast
  show "\<exists>z. find_job w b = Some z \<and> job_identity z = job_identity x
      \<and> (hold_returned env u x \<longrightarrow> hold_returned env w x)
      \<and> (jb_Status z = BatchImageJobStatusFailed \<longrightarrow>
           jb_Status x = BatchImageJobStatusFailed \<or> hold_returned env w x)"
    using y z hold_returned_identity [OF y(2)] by (intro exI [of _ z]) auto
qed

lemma gives_up_last_props [simp]: "reflp (gives_up_last env)" "transp (gives_up_last env)" "timeless (gives_up_last env)"
proof -
  show "reflp (gives_up_last env)" by (auto simp: reflp_def gives_up_last_def)
  show "timeless (gives_up_last env)"
    by (simp add: timeless_def gives_up_last_def hold_returned_def claimed_def find_job_def)
  show "transp (gives_up_last env)" by (rule transpI) (rule gives_up_last_trans)
qed

lemma gives_up_last_frame:
  assumes "keeps_jobs w w'" "\<And>k. claimed w k \<Longrightarrow> claimed w' k"
  shows "gives_up_last env w w'"
  using assms(2) keeps_jobs_find [OF assms(1)] by (auto simp: gives_up_last_def hold_returned_def)

text \<open>A row update that keeps the status, or completes the job.\<close>

lemma gives_up_last_put:
  assumes "find_job w b = Some j" "job_identity j' = job_identity j"
    "jb_Status j' \<in> {jb_Status j, BatchImageJobStatusCompleted}"
  shows "gives_up_last env w (put_job j' w)"
  unfolding gives_up_last_def
proof (intro allI impI)
  fix b' x assume x: "find_job w b' = Some x"
  have id: "jb_BatchID j' = b" using assms(1,2) by (auto dest: find_job_id simp: job_identity_def)
  have ret: "hold_returned env (put_job j' w) y = hold_returned env w y" for y
    by (simp add: hold_returned_def claimed_def put_job_def)
  show "\<exists>x'. find_job (put_job j' w) b' = Some x' \<and> job_identity x' = job_identity x
      \<and> (hold_returned env w x \<longrightarrow> hold_returned env (put_job j' w) x)
      \<and> (jb_Status x' = BatchImageJobStatusFailed \<longrightarrow>
           jb_Status x = BatchImageJobStatusFailed \<or> hold_returned env (put_job j' w) x)"
    using x assms id by (auto simp: find_put_job ret)
qed

lemma gives_up_last_refl: "gives_up_last env w w"
  using gives_up_last_props(1) by (rule reflpD)

lemma gives_up_last_events: "steps (gives_up_last env) (appendBatchImageEventWithSQL b t p)"
  unfolding appendBatchImageEventWithSQL_def
  by (intro steps_intro steps_stmt gives_up_last_props)
    (auto simp: gives_up_last_def hold_returned_def claimed_def find_job_def)

lemma gives_up_last_marks: "steps (gives_up_last env) (SetBatchImageJobSettlementFailed b c m)"
  "steps (gives_up_last env) (MarkBatchImageJobSettled env ms)"
proof -
  show "steps (gives_up_last env) (SetBatchImageJobSettlementFailed b c m)"
    unfolding SetBatchImageJobSettlementFailed_def
    by (intro steps_intro steps_stmt gives_up_last_events gives_up_last_props)
      (auto simp: gives_up_last_refl split: option.splits sum.splits
        intro!: gives_up_last_put dest: set_error_evolves)
  have row: "job_identity j' = job_identity j \<and> jb_Status j' = BatchImageJobStatusCompleted"
    if "settle_row env now p j = Inr j'" for now p j j'
    using that by (auto simp: settle_row_def sum_bind_Inr split: if_splits)
  show "steps (gives_up_last env) (MarkBatchImageJobSettled env ms)"
    unfolding MarkBatchImageJobSettled_def in_tx_def markBatchImageJobSettledWithSQL_def Let_def select_job_def
    by (intro steps_with_tx steps_intro steps_stmt gives_up_last_events gives_up_last_props)
      (auto simp: gives_up_last_refl split: option.splits sum.splits
        intro: gives_up_last_put dest!: row)
qed

lemma hold_op_gives_up_last:
  assumes "\<And>c. steps keeps_claims (app c)" "\<And>c. steps keeps_jobs (app c)"
  shows "steps (gives_up_last env) (applyBatchImageBalanceHold env app (Some c))"
proof (rule stepsI)
  fix w
  let ?w = "snd (run_state (applyBatchImageBalanceHold env app (Some c)) w)"
  have "unchanged_or_claims (hold_key c) w ?w" using assms(1) by (rule hold_unchanged_or_claims)
  then have "claimed w k \<Longrightarrow> claimed ?w k" for k
    unfolding unchanged_or_claims_def using same_db_fields(5) by blast
  moreover have "keeps_jobs w ?w" using jobs_of_billing.apply_hold [OF assms(2)] by (rule steps_snd)
  ultimately show "gives_up_last env w ?w" by (intro gives_up_last_frame)
qed

lemma gives_up_last_holds: "steps (gives_up_last env) (captureBatchImageBalanceHold env job a h)"
  "steps (gives_up_last env) (releaseBatchImageBalanceHold env job h)"
  unfolding captureBatchImageBalanceHold_def releaseBatchImageBalanceHold_def
    CaptureBatchImageBalance_def ReleaseBatchImageBalance_def
  by (intro steps_intro hold_op_gives_up_last steps_hold_effects jobs_of_billing.hold_bodies gives_up_last_props)+

lemma gives_up_last_both:
  assumes "steps keeps_jobs m" "steps keeps_billing m"
  shows "steps (gives_up_last env) m"
proof (rule stepsI)
  fix w
  have "claimed (snd (run_state m w)) k = claimed w k" for k
    by (rule keeps_billing_claimed [OF steps_snd [OF assms(2)]])
  then show "gives_up_last env w (snd (run_state m w))"
    by (intro gives_up_last_frame steps_snd [OF assms(1)]) simp
qed

lemma gives_up_last_side_effects: "steps (gives_up_last env) (invalidateAuthCache c u)"
  "steps (gives_up_last env) (recordUsageLog s job a r t)"
  by (intro gives_up_last_both usage_log_keeps_jobs billing_of_jobs.side_effects)+

lemma find_job_TransitionD:
  assumes "run_state (TransitionBatchImageJobStatus b s opts) w = (r, w')" "find_job w b' = Some j"
  obtains j' where "find_job w' b' = Some j'" "job_identity j' = job_identity j"
  using stepsD [OF steps_tx_ops(1) assms(1)] assms(2) by (auto simp: lifecycle_def job_evolves_def)

lemma status_of_others:
  assumes "run_state (TransitionBatchImageJobStatus b s opts) w = (r, w')" "b' \<noteq> b"
  shows "find_job w' b' = find_job w b'"
proof -
  define R :: "'a batch_db_scheme \<Rightarrow> 'a batch_db_scheme \<Rightarrow> bool"
    where "R = (\<lambda>w w'. find_job w' b' = find_job w b')"
  have props: "reflp R" "transp R" "timeless R"
    by (auto simp: R_def reflp_def transp_def timeless_def find_job_def)
  have "steps R (exec_job b p f)" if "\<And>j j'. jb_BatchID j = b \<Longrightarrow> f j = Inr j' \<Longrightarrow> jb_BatchID j' = b" for p f
    unfolding exec_job_def using that assms(2)
    by (intro steps_stmt props) (auto simp: R_def find_put_job split: option.splits sum.splits dest: find_job_id)
  moreover have "jb_BatchID j' = jb_BatchID j" if "set_status now s' c m j = Inr j'" for now s' c m j j'
    using that by (auto simp: set_status_def sum_bind_Inr touch_def set_error_def split: if_splits option.splits)
  moreover have "steps R (appendBatchImageEventWithSQL b t p)" for t p
    unfolding appendBatchImageEventWithSQL_def
    by (intro steps_intro steps_stmt props) (auto simp: R_def find_job_def)
  moreover have "steps R (select_status_for_update b)"
    unfolding select_status_for_update_def by (intro steps_stmt props) (simp add: R_def)
  ultimately have "steps R (TransitionBatchImageJobStatus b s opts)"
    unfolding TransitionBatchImageJobStatus_def transitionBatchImageJobStatusWithSQL_def in_tx_def Let_def
    by (intro steps_with_tx steps_intro props) auto
  then show ?thesis using assms(1) by (auto dest: stepsD simp: R_def)
qed

definition same_hold :: "'e driver_scheme \<Rightarrow> f64 BatchImageJob \<Rightarrow> rat BatchImageJob \<Rightarrow> bool" where
  "same_hold env job j \<longleftrightarrow> jb_BatchID job = jb_BatchID j \<and> jb_APIKeyID job = jb_APIKeyID j
     \<and> hold_amount job = hold_amount (scanBatchImageJob env j)"

lemma same_hold_identity: "same_hold env job j \<Longrightarrow> job_identity j' = job_identity j \<Longrightarrow> same_hold env job j'"
  by (simp add: same_hold_def job_identity_def hold_amount_def scanBatchImageJob_def)

text \<open>The hold is released before the job is marked failed.\<close>

lemma failExhausted_gives_up_last:
  assumes run: "run_state (failExhaustedSettlement env s job m) w = (e, w')"
    and j: "find_job w (jb_BatchID job) = Some j" "same_hold env job j"
  shows "gives_up_last env w w'"
proof -
  let ?rel = "releaseBatchImageBalanceHold env job (batchImageDerefString (jb_RequestHash job))"
  obtain r w1 where r: "run_state ?rel w = (r, w1)" by fastforce
  have w1: "gives_up_last env w w1" using gives_up_last_holds(2) r by (rule stepsD)
  show ?thesis
  proof (cases r)
    case (Inl err)
    obtain x w2 where x: "run_state (SetBatchImageJobSettlementFailed (jb_BatchID job) ''SETTLEMENT_RELEASE_FAILED''
        (truncateBatchImageMessage (error_text err) batchImageMaxErrorMessageLength)) w1 = (x, w2)" by fastforce
    then have "w' = w2" using run r Inl by (simp add: failExhaustedSettlement_def run_bind Let_def)
    with stepsD [OF gives_up_last_marks(1) x] w1 show ?thesis by (blast intro: gives_up_last_trans)
  next
    case (Inr u)
    with r have returned: "hold_returned env w1 j"
      using release_hold_InrD [of env job _ w w1] j(2)
      by (auto simp: hold_returned_def same_hold_def release_key_def)
    from run r Inr obtain w2 opts t where
      i: "run_state (invalidateAuthCache (ss_AuthCache s) (jb_UserID job)) w1 = ((), w2)" and
      t: "run_state (TransitionBatchImageJobStatus (jb_BatchID job) BatchImageJobStatusFailed opts) w2 = (t, w')"
      by (auto simp: failExhaustedSettlement_def Let_def elim!: run_elims)
    have w2: "gives_up_last env w1 w2" using gives_up_last_side_effects(1) i by (rule stepsD)
    have bill: "keeps_billing w2 w'" using billing_of_jobs.status_ops(1) t by (rule stepsD)
    have keep: "hold_returned env w2 x \<Longrightarrow> hold_returned env w' x" for x
      using keeps_billing_claimed [OF bill] by (simp add: hold_returned_def)
    have mine: "hold_returned env w' j"
      using returned stepsD [OF billing_of_jobs.side_effects(1) i] keep
      by (simp add: hold_returned_def keeps_billing_claimed)
    have "gives_up_last env w2 w'"
      unfolding gives_up_last_def
    proof (intro allI impI)
      fix b x assume x: "find_job w2 b = Some x"
      obtain y where y: "find_job w' b = Some y" "job_identity y = job_identity x"
        using find_job_TransitionD [OF t x] .
      have "jb_Status y = jb_Status x \<or> hold_returned env w' x"
      proof (cases "b = jb_BatchID job")
        case True
        obtain x' where "find_job w2 b = Some x'" "job_identity x' = job_identity j"
          using gives_up_lastD [OF gives_up_last_trans [OF w1 w2] j(1)] True by blast
        with x mine show ?thesis using hold_returned_identity [of x' j env w'] by simp
      next
        case False
        then show ?thesis using status_of_others [OF t] x y(1) by simp
      qed
      then have "jb_Status y = BatchImageJobStatusFailed \<Longrightarrow>
          jb_Status x = BatchImageJobStatusFailed \<or> hold_returned env w' x" by metis
      then show "\<exists>y. find_job w' b = Some y \<and> job_identity y = job_identity x
          \<and> (hold_returned env w2 x \<longrightarrow> hold_returned env w' x)
          \<and> (jb_Status y = BatchImageJobStatusFailed \<longrightarrow>
               jb_Status x = BatchImageJobStatusFailed \<or> hold_returned env w' x)"
        using y keep [of x] by blast
    qed
    with w1 w2 show ?thesis by (blast intro: gives_up_last_trans)
  qed
qed

lemma settlement_fails_gives_up_last:
  assumes run: "run_state (settlement_fails env s job c m e) w = (r, w')"
    and j: "find_job w (jb_BatchID job) = Some j" "same_hold env job j"
  shows "gives_up_last env w w'"
proof -
  from run obtain x where run: "run_state (recordSettlementFailure env s job c m) w = (x, w')"
    unfolding settlement_fails_def by (auto elim!: run_elims)
  let ?m = "truncateBatchImageMessage m batchImageMaxErrorMessageLength"
  obtain n err w1 where s: "run_state (SetBatchImageJobSettlementFailed (jb_BatchID job) c ?m) w = ((n, err), w1)"
    by (metis surj_pair)
  have w1: "gives_up_last env w w1" using gives_up_last_marks(1) s by (rule stepsD)
  then obtain j1 where j1: "find_job w1 (jb_BatchID job) = Some j1" "job_identity j1 = job_identity j"
    using gives_up_lastD [OF _ j(1)] by blast
  let ?job = "job\<lparr>jb_RetryCount := n, jb_LastErrorCode := Some c\<rparr>"
  have "same_hold env ?job j1"
    using same_hold_identity [OF j(2) j1(2)] by (simp add: same_hold_def hold_amount_def)
  then have "gives_up_last env w1 w2" if "run_state (failExhaustedSettlement env s ?job m) w1 = (y, w2)" for y w2
    using failExhausted_gives_up_last [OF that] j1(1) by simp
  then show ?thesis
    using run s w1 unfolding recordSettlementFailure_def
    by (auto elim!: run_elims intro: gives_up_last_trans)
qed

lemma settle_priced_gives_up_last:
  assumes run: "run_state (settle_priced env s job) w = (r, w')"
    and j: "find_job w (jb_BatchID job) = Some j" "same_hold env job j"
  shows "gives_up_last env w w'"
proof -
  have capture: "gives_up_last env w w'" if run: "run_state (settle_capture env s job a) w = (r, w')" for a
  proof -
    let ?h = "sr_ManifestHash (settlement_result env job)"
    obtain c w1 where c: "run_state (captureBatchImageBalanceHold env job a ?h) w = (c, w1)" by fastforce
    have w1: "gives_up_last env w w1" using gives_up_last_holds(1) c by (rule stepsD)
    show ?thesis
    proof (cases c)
      case (Inl err)
      obtain j1 where j1: "find_job w1 (jb_BatchID job) = Some j1" "job_identity j1 = job_identity j"
        using gives_up_lastD [OF w1 j(1)] by blast
      have "run_state (settlement_fails env s job ''SETTLEMENT_BILLING_FAILED''
          (truncateBatchImageMessage (error_text err) batchImageMaxErrorMessageLength) err) w1 = (r, w')"
        using run c Inl by (simp add: settle_capture_def Let_def run_bind)
      from settlement_fails_gives_up_last [OF this j1(1) same_hold_identity [OF j(2) j1(2)]] w1
      show ?thesis by (rule gives_up_last_trans [rotated])
    next
      case (Inr u)
      have "gives_up_last env w1 (snd (run_state (settle_capture env s job a) w))"
        unfolding settle_capture_def Let_def run_bind [of "captureBatchImageBalanceHold _ _ _ _"]
          c Inr prod.case sum.case
        by (rule steps_snd)
          (intro steps_intro gives_up_last_side_effects gives_up_last_marks gives_up_last_props)
      then have "gives_up_last env w1 w'" using run by simp
      with w1 show ?thesis by (rule gives_up_last_trans)
    qed
  qed
  show ?thesis
    using run capture settlement_fails_gives_up_last [OF _ j] unfolding settle_priced_def Let_def
    by (auto split: sum.splits if_splits)
qed

lemma gives_up_last_reads: "steps (gives_up_last env) (GetBatchImageJobByBatchID env' b)"
  unfolding GetBatchImageJobByBatchID_def read_job_def select_job_def
  by (intro steps_intro steps_stmt gives_up_last_props) (simp add: gives_up_last_refl)

lemma Settle_gives_up_last: "steps (gives_up_last env) (Settle env s b)"
proof (rule stepsI)
  fix w
  obtain x w1 where x: "run_state (GetBatchImageJobByBatchID env b) w = (x, w1)" by fastforce
  have w1: "gives_up_last env w w1" using gives_up_last_reads x by (rule stepsD)
  show "gives_up_last env w (snd (run_state (Settle env s b) w))"
  proof (cases x)
    case (Inl e)
    then show ?thesis using x w1 by (simp add: Settle_def run_bind)
  next
    case (Inr job)
    with x obtain j fs where j: "find_job w b = Some j" "job = scanBatchImageJob env j" "w1 = w\<lparr>faults := fs\<rparr>"
      by (auto elim: read_job_InrD)
    then have found: "find_job w1 (jb_BatchID job) = Some j" "same_hold env job j"
      using find_job_id [OF j(1)] by (simp_all add: same_hold_def scanBatchImageJob_def hold_amount_def)
    obtain r w' where r: "run_state (Settle env s b) w = (r, w')" by fastforce
    have fails: "run_state (do { e \<leftarrow> failExhaustedSettlement env s job m; ret (Inl e) }) w1 = (r, w')
        \<Longrightarrow> gives_up_last env w1 w'" for m
      using failExhausted_gives_up_last [OF _ found] by (auto elim!: run_elims)
    have "gives_up_last env w1 w'"
      using r x Inr settle_priced_gives_up_last [OF _ found] settlement_fails_gives_up_last [OF _ found] fails
      unfolding Settle_def
      by (auto simp: run_bind [of "GetBatchImageJobByBatchID env b"] gives_up_last_refl split: if_splits)
    with r w1 show ?thesis by (simp add: gives_up_last_trans)
  qed
qed

lemma Settle_InrD:
  assumes "run_state (Settle env s b) w = (Inr res, w')"
  shows "\<exists>j. find_job w b = Some j \<and>
    (jb_Status j = BatchImageJobStatusCompleted \<and> sr_AlreadySettled res \<and> same_db w w'
     \<or> jb_Status j = BatchImageJobStatusSettling \<and> \<not> sr_AlreadySettled res \<and>
       (\<exists>p q j'. settlementUnitPrice s (scanBatchImageJob env j) = Inr p
          \<and> sr_ActualCost res = f_mul (f_of_int (jb_SuccessCount j)) p
          \<and> \<not> f_lt batchImageCostEpsilon (f_sub (sr_ActualCost res) (hold_amount (scanBatchImageJob env j)))
          \<and> claimed w' (capture_key j)
          \<and> find_job w' b = Some j' \<and> jb_Status j' = BatchImageJobStatusCompleted
          \<and> to_numeric env (sr_ActualCost res) = Some q \<and> jb_ActualCost j' = Some (dec_round 10 q)))"
proof -
  from assms obtain job w1 where r: "run_state (GetBatchImageJobByBatchID env b) w = (Inr job, w1)"
    unfolding Settle_def by (auto elim!: run_elims)
  then obtain j fs where j: "find_job w b = Some j" "job = scanBatchImageJob env j" "w1 = w\<lparr>faults := fs\<rparr>"
    by (rule read_job_InrD)
  have scan: "jb_Status job = jb_Status j" "jb_SuccessCount job = jb_SuccessCount j"
    "jb_BatchID job = b" "capture_key job = capture_key j"
    using j(2) find_job_id [OF j(1)] by (simp_all add: scanBatchImageJob_def capture_key_def)
  show ?thesis
  proof (cases "jb_Status job = BatchImageJobStatusCompleted")
    case True
    then have "sr_AlreadySettled res" "w' = w1"
      using assms r by (auto simp: Settle_def run_bind)
    then show ?thesis using True j scan by (auto simp: same_db_def)
  next
    case False
    then have settling: "jb_Status job = BatchImageJobStatusSettling"
      and run: "run_state (settle_priced env s job) w1 = (Inr res, w')"
      using assms r unfolding Settle_def
      by (auto simp: run_bind [of "GetBatchImageJobByBatchID env b"] elim!: run_elims
          dest: settlement_fails_Inl split: if_splits)
    from run obtain p where p: "settlementUnitPrice s job = Inr p"
      and cost: "\<not> f_lt batchImageCostEpsilon
          (f_sub (f_mul (f_of_int (jb_SuccessCount job)) p) (hold_amount job))"
      and run: "run_state (settle_capture env s job (f_mul (f_of_int (jb_SuccessCount job)) p)) w1 = (Inr res, w')"
      unfolding settle_priced_def Let_def hold_amount_def
      by (auto split: sum.splits if_splits dest: settlement_fails_Inl)
    from settle_capture_InrD [OF run] show ?thesis
      using j p cost settling scan by auto
  qed
qed

end
