(* ===== verification/SettlementProperties.thy ===== *)
theory SettlementProperties
  imports BatchImageSettlement
begin

section \<open>What settlement and recovery guarantee\<close>

text \<open>
  The claims about \<open>Settle\<close> and \<open>ReleaseStaleUnsubmittedOnce\<close>: successful settlements, giving up, and
  what the recovery pass leaves alone.  Two concrete runs show where a lost answer of the database
  makes the books wrong.
\<close>

subsection \<open>Properties of the settlement\<close>

definition demo_service :: BatchImageSettlementService where
  "demo_service = \<lparr>ss_Pricing = (\<lambda>_. Inl ErrBatchImageSettlementPricingMissing), ss_UsageLog = True,
     ss_AuthCache = True, ss_RetentionHours = None\<rparr>"

definition settle_world :: batch_db where
  "settle_world = batch_world held_world [demo_job ''b1'' ''settling'']"



text \<open>
  C10: Giving up never loses held money: in whatever way calls fail, a settlement that leaves a job
  failed has returned its hold (its release is recorded, or nothing was held); if the release
  fails, the job stays in settlement.
\<close>

theorem Settle_releases_before_failing:
  "gives_up_last env w (snd (run_state (Settle env s b) w))"
  using Settle_gives_up_last by (rule steps_snd)

text \<open>
  The release does not look whether the hold was captured: when the fifth attempt captures the hold
  but the answer to the commit is lost, the hold is released as well, out of another hold of the user.
\<close>

definition settling_job :: "rat BatchImageJob" where
  "settling_job = (demo_job ''b1'' ''settling'')\<lparr>jb_RetryCount := 4,
     jb_LastErrorCode := Some ''SETTLEMENT_BILLING_FAILED''\<rparr>"

definition two_holds_world :: batch_db where
  "two_holds_world = batch_world (held_world\<lparr>
     users := [1 \<mapsto> \<lparr>u_balance = 2, u_frozen = 8, u_deleted = False\<rparr>],
     faults := replicate 5 Answered @ [AnswerLost]\<rparr>) [settling_job]"

lemma lost_capture_answer_refunds_twice:
  "users (snd (run_state (Settle exact_driver demo_service ''b1'') two_holds_world)) 1
     = Some \<lparr>u_balance = 6, u_frozen = 0, u_deleted = False\<rparr>"
  by code_simp

subsection \<open>The recovery of holds only touches what was never submitted\<close>

definition stale_job :: "'m BatchImageJob \<Rightarrow> bool" where
  "stale_job j \<longleftrightarrow> unsubmitted (jb_Status j) \<and> jb_ProviderJobName j = None"

definition spares_submitted :: "'z batch_db_scheme \<Rightarrow> 'z batch_db_scheme \<Rightarrow> bool" where
  "spares_submitted w w' \<longleftrightarrow>
     (\<forall>b j. find_job w b = Some j \<and> \<not> stale_job j \<longrightarrow> find_job w' b = Some j)"

lemma spares_submitted_props: "reflp spares_submitted" "transp spares_submitted" "timeless spares_submitted"
  by (auto simp: reflp_def transp_def timeless_def spares_submitted_def)

lemma spares_submitted_frame: "keeps_jobs w w' \<Longrightarrow> spares_submitted w w'"
  by (simp add: spares_submitted_def keeps_jobs_find)

lemma spares_submitted_keeps: "steps keeps_jobs m \<Longrightarrow> steps spares_submitted m"
  by (simp add: steps_def spares_submitted_frame)

lemma spares_submitted_put:
  assumes "find_job w b = Some j" "stale_job j" "jb_BatchID j' = jb_BatchID j"
  shows "spares_submitted w (put_job j' w)"
  using assms find_job_id [OF assms(1)] by (auto simp: spares_submitted_def find_put_job)

lemma failStale_pieces:
  "steps spares_submitted (appendBatchImageEventWithSQL b t p)"
  "(\<And>j j'. f j = Inr j' \<Longrightarrow> jb_BatchID j' = jb_BatchID j) \<Longrightarrow> steps spares_submitted (exec_job b
     (\<lambda>j. unsubmitted (jb_Status j) \<and> jb_ProviderJobName j = None \<and> jb_UpdatedAt j \<le> c) f)"
  unfolding appendBatchImageEventWithSQL_def exec_job_def
  by (intro steps_intro steps_stmt spares_submitted_props; auto simp: spares_submitted_def; fail)
    (intro steps_stmt spares_submitted_props;
     auto simp: stale_job_def reflpD [OF spares_submitted_props(1)] split: option.splits sum.splits
       intro: spares_submitted_put)

lemma failStale_spares: "steps spares_submitted (FailStaleUnsubmittedBatchImageJob b c x y)"
  unfolding FailStaleUnsubmittedBatchImageJob_def
  by (intro steps_intro spares_submitted_props failStale_pieces)
    (auto simp: sum_bind_Inr job_identity_def touch_def dest!: set_error_evolves)

lemma keeps_jobs_release: "steps keeps_jobs (releaseBatchImageBalanceHold env job h)"
  unfolding releaseBatchImageBalanceHold_def
  by (intro steps_intro jobs_of_billing.hold_operations jobs_of_billing.props)

lemma keeps_enqueue: "steps keeps_jobs (Enqueue qo b)" "steps keeps_billing (Enqueue qo b)"
  unfolding Enqueue_def
  by (intro steps_intro steps_stmt jobs_of_billing.props billing_of_jobs.props;
      auto simp: keeps_jobs_def keeps_billing_def ledger_def)+

lemma release_stale_spares: "steps spares_submitted (release_stale env qo s cutoff js acc)"
proof (induction env qo s cutoff js acc rule: release_stale.induct)
  case (2 env qo s cutoff job js released lastErr)
  have "steps keeps_jobs (enqueueReleaseRetry qo s (jb_BatchID job))"
    unfolding enqueueReleaseRetry_def by (intro steps_intro keeps_enqueue jobs_of_billing.props)
  then show ?case
    unfolding release_stale.simps
    by (intro steps_intro spares_submitted_props failStale_spares spares_submitted_keeps
        keeps_jobs_release usage_log_keeps_jobs 2)
qed (simp add: steps_ret spares_submitted_props)

text \<open>The release of a hold changes no other user's money.\<close>

definition keeps_user :: "int \<Rightarrow> 'z batch_db_scheme \<Rightarrow> 'z batch_db_scheme \<Rightarrow> bool" where
  "keeps_user u w w' \<longleftrightarrow> users w' u = users w u"

lemma keeps_user_props: "reflp (keeps_user u)" "transp (keeps_user u)" "timeless (keeps_user u)"
  by (auto simp: reflp_def transp_def timeless_def keeps_user_def)

lemma keeps_user_billing: "steps keeps_billing m \<Longrightarrow> steps (keeps_user u) m"
  by (simp add: steps_def keeps_user_def keeps_billing_def ledger_def)

lemma keeps_user_release:
  assumes "jb_UserID job \<noteq> u"
  shows "steps (keeps_user u) (releaseBatchImageBalanceHold env job h)"
proof -
  have "keeps_user u w (exec_op env (OpRelease c) w)" if "bh_UserID c \<noteq> u" for c and w :: "'a batch_db_scheme"
    using exec_row_moves [of "OpRelease c" env w] that by (auto simp: row_moves_def keeps_user_def same_db_fields)
  then show ?thesis
    unfolding releaseBatchImageBalanceHold_def
    using assms by (intro steps_intro keeps_user_props) (auto simp: steps_def dest!: build_hold_InrD(2))
qed

lemma release_stale_keeps_user:
  assumes "\<forall>job \<in> set js. jb_UserID job \<noteq> u"
  shows "steps (keeps_user u) (release_stale env qo s cutoff js acc)"
  using assms
proof (induction env qo s cutoff js acc rule: release_stale.induct)
  case (2 env qo s cutoff job js released lastErr)
  have "steps keeps_billing (enqueueReleaseRetry qo s (jb_BatchID job))"
    unfolding enqueueReleaseRetry_def by (intro steps_intro keeps_enqueue billing_of_jobs.props)
  then show ?case using 2
    unfolding release_stale.simps
    by (intro steps_intro keeps_user_props keeps_user_billing [OF billing_of_jobs.failure_ops(2)]
        keeps_user_release keeps_user_billing [OF billing_of_jobs.side_effects(1)])
     (auto intro: keeps_user_billing)
qed (simp add: steps_ret keeps_user_props)


lemma recovery_cases:
  assumes refl: "reflp R" and trans: "transp R" and time: "timeless R"
    and loop: "\<And>js cutoff. set js \<subseteq> scanBatchImageJob env ` {j \<in> set (jobs w). stale_job j} \<Longrightarrow>
      steps R (release_stale env qo s cutoff js (0, None))"
  shows "R w (snd (run_state (ReleaseStaleUnsubmittedOnce env qo s) w))"
proof -
  obtain now w1 where t: "run_state time_now w = (now, w1)" by fastforce
  have w1: "R w w1" using steps_time_now [OF time refl] t by (rule stepsD)
  have same: "jobs w1 = jobs w" using t by (auto simp: time_now_def split: list.splits)
  let ?c = "now - positive_or (10 * minute) (rs_StaleAfter s)"
  obtain r w2 where r: "run_state (ListStaleUnsubmittedBatchImageJobs env ?c (positive_or 100 (rs_Limit s))) w1 = (r, w2)"
    by fastforce
  have "\<exists>fs. w2 = w1\<lparr>faults := fs\<rparr>"
    using r unfolding ListStaleUnsubmittedBatchImageJobs_def list_jobs_def select_jobs_def
    by (auto elim!: run_elims stmt_cases)
  then obtain fs where w2: "w2 = w1\<lparr>faults := fs\<rparr>" ..
  have js: "set l \<subseteq> scanBatchImageJob env ` {j \<in> set (jobs w). stale_job j}" if "r = Inr l" for l
    using r that unfolding ListStaleUnsubmittedBatchImageJobs_def list_jobs_def select_jobs_def
    by (auto elim!: run_elims stmt_InrE simp: stale_job_def same dest!: in_set_takeD split: sum.splits)
  have "R w w2" using w1 time by (simp add: w2 timeless_def)
  then show ?thesis
    using t r steps_snd [OF loop [where cutoff = ?c, OF js], of _ w2] trans
    by (cases r) (auto simp: ReleaseStaleUnsubmittedOnce_def run_bind Let_def dest: transpD)
qed

text \<open>
  C18: The recovery pass only touches what was never submitted: whatever calls fail, a job that has a
  provider job or is further along keeps its row, and a user all of whose jobs are so keeps their money.
\<close>

theorem recovery_spares_submitted:
  shows "(find_job w b = Some j \<and> \<not> stale_job j \<longrightarrow>
      find_job (snd (run_state (ReleaseStaleUnsubmittedOnce env qo s) w)) b = Some j)
    \<and> ((\<forall>j \<in> set (jobs w). jb_UserID j = u \<longrightarrow> \<not> stale_job j) \<longrightarrow>
      users (snd (run_state (ReleaseStaleUnsubmittedOnce env qo s) w)) u = users w u)"
proof -
  have "spares_submitted w (snd (run_state (ReleaseStaleUnsubmittedOnce env qo s) w))"
    by (rule recovery_cases) (simp_all add: spares_submitted_props release_stale_spares)
  moreover have "keeps_user u w (snd (run_state (ReleaseStaleUnsubmittedOnce env qo s) w))"
    if "\<forall>j \<in> set (jobs w). jb_UserID j = u \<longrightarrow> \<not> stale_job j"
    by (rule recovery_cases)
      (use that in \<open>auto simp: keeps_user_props scanBatchImageJob_def intro!: release_stale_keeps_user\<close>)
  ultimately show ?thesis by (simp add: spares_submitted_def keeps_user_def)
qed

lemma recovery_spares_submitted_witness:
  "find_job (snd (run_state (ReleaseStaleUnsubmittedOnce exact_driver default_queue_options
       \<lparr>rs_AuthCache = True, rs_Queue = True, rs_StaleAfter = 0, rs_Limit = 0\<rparr>) demo_system)) ''imgbatch_b1''
     = Some (demo_job ''imgbatch_b1'' ''running'')"
proof -
  have "find_job demo_system ''imgbatch_b1'' = Some (demo_job ''imgbatch_b1'' ''running'')" by code_simp
  moreover have "\<not> stale_job (demo_job ''imgbatch_b1'' ''running'')" by code_simp
  ultimately show ?thesis using recovery_spares_submitted by blast
qed

text \<open>
  A lost answer to the recovery's update leaves the job failed, out of every later scan, and its
  hold in place.
\<close>

definition lost_recovery_system :: batch_sys where
  "lost_recovery_system = batch_system ((batch_world held_world [demo_job ''b1'' ''created''])\<lparr>
     clock := hour, faults := [Answered, AnswerLost]\<rparr>)"

definition after_lost_recovery :: batch_sys where
  "after_lost_recovery = snd (run_state (ReleaseStaleUnsubmittedOnce exact_driver default_queue_options
     \<lparr>rs_AuthCache = True, rs_Queue = True, rs_StaleAfter = 0, rs_Limit = 0\<rparr>) lost_recovery_system)"

lemma lost_recovery_answer_leaks_hold:
  "map jb_Status (jobs after_lost_recovery) = [''failed''] \<and> ready after_lost_recovery = []
   \<and> users after_lost_recovery 1 = Some \<lparr>u_balance = 6, u_frozen = 4, u_deleted = False\<rparr>"
  by code_simp

end
