(* ===== verification/GoJson.thy ===== *)
theory GoJson
  imports GoErrors Float64
begin

section \<open>JSON values\<close>

text \<open>
  \<open>json\<close> is the value that \<^verbatim>\<open>encoding/json\<close> stores in an \<^verbatim>\<open>any\<close> (an object is a map: the first
  binding of a key counts), and the redaction of \<^verbatim>\<open>util/logredact/redact.go\<close>, which the idempotency
  store applies to what it keeps.  Encoder and decoder are parameters of the code that uses them.
\<close>

datatype json =
    JsonNull
  | JsonBool bool
  | JsonNumber f64
  | JsonString string
  | JsonArray "json list"
  | JsonObject "(string \<times> json) list"

type_synonym json_object = "(string \<times> json) list"

text \<open>\<^verbatim>\<open>m[key]\<close>: nil when the key is missing.\<close>

definition obj_get :: "json_object \<Rightarrow> string \<Rightarrow> json" where
  "obj_get m key = (case map_of m key of None \<Rightarrow> JsonNull | Some v \<Rightarrow> v)"

subsection \<open>Redaction\<close>

definition maxRedactDepth :: nat where "maxRedactDepth = 32"

definition defaultSensitiveKeys :: "string list" where
  "defaultSensitiveKeys = [''authorization_code'', ''code'', ''code_verifier'', ''access_token'',
     ''refresh_token'', ''id_token'', ''client_secret'', ''password'']"

definition normalizeKey :: "string \<Rightarrow> string" where
  "normalizeKey key = to_lower (trim_space key)"

definition isSensitiveKey :: "string \<Rightarrow> bool" where
  "isSensitiveKey key \<longleftrightarrow> normalizeKey key \<in> set defaultSensitiveKeys"

fun redactValueWithDepth :: "json \<Rightarrow> nat \<Rightarrow> json" where
  "redactValueWithDepth (JsonObject m) depth =
     (if maxRedactDepth < depth then JsonString ''<depth limit exceeded>''
      else JsonObject (map (\<lambda>kv. (fst kv, if isSensitiveKey (fst kv) then JsonString ''***''
              else redactValueWithDepth (snd kv) (depth + 1))) m))"
| "redactValueWithDepth (JsonArray vs) depth =
     (if maxRedactDepth < depth then JsonString ''<depth limit exceeded>''
      else JsonArray (map (\<lambda>v. redactValueWithDepth v (depth + 1)) vs))"
| "redactValueWithDepth v depth =
     (if maxRedactDepth < depth then JsonString ''<depth limit exceeded>'' else v)"

text \<open>
  \<^verbatim>\<open>encoding/json\<close> and the regular expressions that \<^verbatim>\<open>RedactText\<close> applies to text which is not JSON.
\<close>

record json_codec =
  jc_marshal :: "json \<Rightarrow> goerr + string"
  jc_unmarshal :: "string \<Rightarrow> goerr + json"
  jc_valid :: "string \<Rightarrow> bool"
  jc_redact_plain :: "string \<Rightarrow> string"

definition RedactJSON :: "json_codec \<Rightarrow> string \<Rightarrow> string" where
  "RedactJSON jc raw =
     (if raw = [] then []
      else (case jc_unmarshal jc raw of
          Inl err \<Rightarrow> ''<non-json payload redacted>''
        | Inr value \<Rightarrow> (case jc_marshal jc (redactValueWithDepth value 0) of
              Inl err \<Rightarrow> ''<redacted>''
            | Inr encoded \<Rightarrow> encoded)))"

definition RedactText :: "json_codec \<Rightarrow> string \<Rightarrow> string" where
  "RedactText jc inp =
     (let input = trim_space inp in
      if input = [] then []
      else if jc_valid jc input then RedactJSON jc input
      else jc_redact_plain jc input)"

text \<open>A value without sensitive keys, nested at most \<open>n\<close> deep.\<close>

fun clean_json :: "nat \<Rightarrow> json \<Rightarrow> bool" where
  "clean_json n (JsonObject m) \<longleftrightarrow> (case n of 0 \<Rightarrow> m = []
     | Suc k \<Rightarrow> (\<forall>kv \<in> set m. \<not> isSensitiveKey (fst kv) \<and> clean_json k (snd kv)))"
| "clean_json n (JsonArray vs) \<longleftrightarrow> (case n of 0 \<Rightarrow> vs = [] | Suc k \<Rightarrow> (\<forall>v \<in> set vs. clean_json k v))"
| "clean_json n v \<longleftrightarrow> True"

lemma redact_clean: "clean_json n v \<Longrightarrow> n + depth \<le> maxRedactDepth \<Longrightarrow> redactValueWithDepth v depth = v"
proof (induction n v arbitrary: depth rule: clean_json.induct)
  case (1 n m)
  then show ?case
    by (cases n) (auto simp: intro!: map_idI)
next
  case (2 n vs)
  then show ?case
    by (cases n) (auto intro!: map_idI)
qed simp_all

text \<open>Redaction hides nothing twice and leaves no sensitive key with a value of its own.\<close>

fun redacted_json :: "json \<Rightarrow> bool" where
  "redacted_json (JsonObject m) \<longleftrightarrow>
     (\<forall>kv \<in> set m. (isSensitiveKey (fst kv) \<longrightarrow> snd kv = JsonString ''***'') \<and> redacted_json (snd kv))"
| "redacted_json (JsonArray vs) \<longleftrightarrow> (\<forall>v \<in> set vs. redacted_json v)"
| "redacted_json v \<longleftrightarrow> True"

lemma redacts: "redacted_json (redactValueWithDepth v depth)"
  by (induction v depth rule: redactValueWithDepth.induct) auto

lemma redact_twice: "redactValueWithDepth (redactValueWithDepth v depth) depth = redactValueWithDepth v depth"
  by (induction v depth rule: redactValueWithDepth.induct) auto

end
