(* ===== verification/BatchImageResults.thy ===== *)
theory BatchImageResults
  imports BatchImageSettlement GoJson
begin

section \<open>Reading the result lines of a provider\<close>

text \<open>
  \<^verbatim>\<open>ParseBatchImageResultLine\<close> and its helpers in \<^verbatim>\<open>service/batch_image_processor.go\<close>.  Values are those
  of theory \<open>GoJson\<close>; the decoder is the parameter \<open>unmarshal\<close>.  \<^verbatim>\<open>json.Number\<close> does not occur, since the code does not
  ask the decoder for it.
\<close>

definition batchImageMapString :: "json_object \<Rightarrow> string \<Rightarrow> string" where
  "batchImageMapString m key = (case obj_get m key of
      JsonString v \<Rightarrow> trim_space v
    | JsonNumber v \<Rightarrow> itoa (f_to_int64 v)
    | _ \<Rightarrow> [])"

fun nested_any :: "json \<Rightarrow> string list \<Rightarrow> json" where
  "nested_any current [] = current"
| "nested_any (JsonObject cm) (key # keys) = nested_any (obj_get cm key) keys"
| "nested_any _ (key # keys) = JsonNull"

definition batchImageNestedAny :: "json_object \<Rightarrow> string list \<Rightarrow> json" where
  "batchImageNestedAny m keys = nested_any (JsonObject m) keys"

definition batchImageNestedString :: "json_object \<Rightarrow> string list \<Rightarrow> string" where
  "batchImageNestedString m keys = (case batchImageNestedAny m keys of
      JsonString v \<Rightarrow> trim_space v | _ \<Rightarrow> [])"

fun firstMap :: "json list \<Rightarrow> json_object option" where
  "firstMap [] = None"
| "firstMap (JsonObject m # vs) = Some m"
| "firstMap (_ # vs) = firstMap vs"

fun batchImageFirstNonEmptyString :: "string list \<Rightarrow> string" where
  "batchImageFirstNonEmptyString [] = []"
| "batchImageFirstNonEmptyString (v # vs) =
     (if trim_space v \<noteq> [] then trim_space v else batchImageFirstNonEmptyString vs)"

subsection \<open>Images in a result\<close>

text \<open>The body of the innermost loop: the MIME type of a part that counts as an image.\<close>

definition inline_image :: "json \<Rightarrow> string option" where
  "inline_image partRaw = (case partRaw of
      JsonObject part \<Rightarrow> (case firstMap [obj_get part ''inlineData'', obj_get part ''inline_data''] of
          None \<Rightarrow> None
        | Some inline \<Rightarrow>
            let data = trim_space (batchImageMapString inline ''data'');
                mime = batchImageFirstNonEmptyString
                  [batchImageMapString inline ''mimeType'', batchImageMapString inline ''mime_type'']
            in if data = [] \<or> \<not> has_prefix (to_lower (trim_space mime)) ''image/'' then None
               else Some (trim_space mime))
    | _ \<Rightarrow> None)"

definition count_part :: "int \<times> string \<Rightarrow> json \<Rightarrow> int \<times> string" where
  "count_part acc partRaw = (case inline_image partRaw of
      None \<Rightarrow> acc
    | Some mime \<Rightarrow> (fst acc + 1, if snd acc = [] then mime else snd acc))"

definition count_candidate :: "int \<times> string \<Rightarrow> json \<Rightarrow> int \<times> string" where
  "count_candidate acc candidateRaw = (case candidateRaw of
      JsonObject candidate \<Rightarrow> (case batchImageNestedAny candidate [''content'', ''parts''] of
          JsonArray parts \<Rightarrow> foldl count_part acc parts
        | _ \<Rightarrow> acc)
    | _ \<Rightarrow> acc)"

definition batchImageFindImagePartsInCandidates :: "json \<Rightarrow> int \<times> string" where
  "batchImageFindImagePartsInCandidates raw = (case raw of
      JsonArray candidates \<Rightarrow> foldl count_candidate (0, []) candidates
    | _ \<Rightarrow> (0, []))"

definition batchImageFindImageParts :: "json_object \<Rightarrow> int \<times> string" where
  "batchImageFindImageParts obj =
     (let r = batchImageFindImagePartsInCandidates (batchImageNestedAny obj [''response'', ''candidates''])
      in if 0 < fst r then r else batchImageFindImagePartsInCandidates (obj_get obj ''candidates''))"

definition batchImageHasCandidates :: "json_object \<Rightarrow> bool" where
  "batchImageHasCandidates obj \<longleftrightarrow> map_of obj ''candidates'' \<noteq> None
     \<or> (case batchImageNestedAny obj [''response'', ''candidates''] of JsonArray _ \<Rightarrow> True | _ \<Rightarrow> False)"

definition batchImageFileExtension :: "string \<Rightarrow> string" where
  "batchImageFileExtension mimeType = (let m = to_lower (trim_space mimeType) in
     if m = ''image/png'' then ''png''
     else if m = ''image/jpeg'' \<or> m = ''image/jpg'' then ''jpg''
     else if m = ''image/webp'' then ''webp'' else [])"

subsection \<open>Failures in a result\<close>

definition batchImageMapFailureCode :: "string \<Rightarrow> string \<Rightarrow> string" where
  "batchImageMapFailureCode code message = (let t = to_lower (trim_space (code @ '' '' @ message)) in
     if contains t ''safety'' \<or> contains t ''policy'' \<or> contains t ''blocked'' \<or> contains t ''prohibited''
     then ''SAFETY_BLOCKED''
     else if contains t ''invalid_argument'' \<or> contains t ''invalid argument'' \<or> contains t ''bad request''
     then ''INVALID_ARGUMENT''
     else if contains t ''quota'' \<or> contains t ''rate'' \<or> contains t ''resource_exhausted''
        \<or> contains t ''too many requests''
     then ''PROVIDER_RATE_LIMITED''
     else ''PROVIDER_ITEM_FAILED'')"

definition failure_fields :: "json_object \<Rightarrow> string \<times> string" where
  "failure_fields e = (let
      message = batchImageFirstNonEmptyString [batchImageMapString e ''message'', batchImageMapString e ''details''];
      code = batchImageFirstNonEmptyString [batchImageMapString e ''code'', batchImageMapString e ''status'']
    in (batchImageMapFailureCode code message, message))"

definition batchImageFailureFromProviderFields :: "json_object \<Rightarrow> (string \<times> string) option" where
  "batchImageFailureFromProviderFields obj = (case obj_get obj ''status'' of
      JsonObject status \<Rightarrow> Some (failure_fields status)
    | _ \<Rightarrow> (case obj_get obj ''error'' of
        JsonObject errObj \<Rightarrow> Some (failure_fields errObj)
      | _ \<Rightarrow> None))"

subsection \<open>A result line\<close>

abbreviation BatchImageParsedStatusSucceeded :: string where
  "BatchImageParsedStatusSucceeded \<equiv> ''succeeded''"
abbreviation BatchImageParsedStatusFailed :: string where
  "BatchImageParsedStatusFailed \<equiv> ''failed''"

record ParsedBatchImageResult =
  pb_CustomID :: string
  pb_Status :: string
  pb_MimeType :: string
  pb_FileExtension :: string
  pb_ImageCount :: int
  pb_ErrorCode :: string
  pb_ErrorMessage :: string
  pb_SourceLineNumber :: int

definition line_error :: "int \<Rightarrow> string" where
  "line_error lineNumber = ''line '' @ itoa lineNumber"

definition result_custom_id :: "json_object \<Rightarrow> string" where
  "result_custom_id obj = batchImageFirstNonEmptyString
     [batchImageMapString obj ''key'', batchImageMapString obj ''custom_id'',
      batchImageMapString obj ''customId'', batchImageNestedString obj [''request'', ''key'']]"

definition failed_result :: "string \<Rightarrow> int \<Rightarrow> string \<Rightarrow> string \<Rightarrow> ParsedBatchImageResult" where
  "failed_result customID lineNumber code message = \<lparr>pb_CustomID = customID,
     pb_Status = BatchImageParsedStatusFailed, pb_MimeType = [], pb_FileExtension = [], pb_ImageCount = 0,
     pb_ErrorCode = code, pb_ErrorMessage = message, pb_SourceLineNumber = lineNumber\<rparr>"

definition parse_object :: "json_object \<Rightarrow> int \<Rightarrow> goerr + ParsedBatchImageResult" where
  "parse_object obj lineNumber = (let customID = result_custom_id obj in
     if customID = [] then
       Inl (WithCause ErrBatchImageIndexParseFailed (PlainErr (line_error lineNumber @ '': missing custom id'')))
     else (case batchImageFindImageParts obj of (imageCount, mimeType) \<Rightarrow>
       if 0 < imageCount then
         Inr \<lparr>pb_CustomID = customID, pb_Status = BatchImageParsedStatusSucceeded, pb_MimeType = mimeType,
              pb_FileExtension = batchImageFileExtension mimeType, pb_ImageCount = imageCount,
              pb_ErrorCode = [], pb_ErrorMessage = [], pb_SourceLineNumber = lineNumber\<rparr>
       else (case batchImageFailureFromProviderFields obj of
           Some (code, message) \<Rightarrow> Inr (failed_result customID lineNumber code
             (truncateBatchImageMessage message batchImageMaxErrorMessageLength))
         | None \<Rightarrow>
             if map_of obj ''response'' \<noteq> None \<or> batchImageHasCandidates obj then
               Inr (failed_result customID lineNumber ''EMPTY_IMAGE_OUTPUT''
                 ''provider response contained no image output'')
             else Inr (failed_result customID lineNumber ''PROVIDER_ITEM_FAILED''
                 ''provider result line contained no image output''))))"

definition ParseBatchImageResultLine :: "(string \<Rightarrow> goerr + json_object) \<Rightarrow> string \<Rightarrow> int \<Rightarrow>
    goerr + ParsedBatchImageResult" where
  "ParseBatchImageResultLine unmarshal line lineNumber = (case unmarshal line of
      Inl err \<Rightarrow> Inl (WithCause ErrBatchImageIndexParseFailed (WrapErr (line_error lineNumber) err))
    | Inr obj \<Rightarrow> parse_object obj lineNumber)"

subsection \<open>The loops against a comprehension\<close>

text \<open>The MIME types of all images of a list of candidates, in order.\<close>

definition candidate_images :: "json \<Rightarrow> string list" where
  "candidate_images c = (case c of
      JsonObject candidate \<Rightarrow> (case batchImageNestedAny candidate [''content'', ''parts''] of
          JsonArray parts \<Rightarrow> List.map_filter inline_image parts | _ \<Rightarrow> [])
    | _ \<Rightarrow> [])"

definition images :: "json \<Rightarrow> string list" where
  "images raw = (case raw of JsonArray cs \<Rightarrow> concat (map candidate_images cs) | _ \<Rightarrow> [])"

definition note_image :: "int \<times> string \<Rightarrow> string \<Rightarrow> int \<times> string" where
  "note_image acc m = (fst acc + 1, if snd acc = [] then m else snd acc)"

lemma foldl_count_part: "foldl count_part acc ps = foldl note_image acc (List.map_filter inline_image ps)"
  by (induction ps arbitrary: acc)
    (simp_all add: count_part_def note_image_def map_filter_simps split: option.split)

lemma count_candidate_images: "count_candidate acc c = foldl note_image acc (candidate_images c)"
  by (simp add: count_candidate_def candidate_images_def foldl_count_part split: json.split)

lemma foldl_count_candidate: "foldl count_candidate acc cs = foldl note_image acc (concat (map candidate_images cs))"
  by (induction cs arbitrary: acc) (simp_all add: count_candidate_images)

lemma foldl_note_image: "snd acc \<noteq> [] \<Longrightarrow> foldl note_image acc ms = (fst acc + int (length ms), snd acc)"
  by (induction ms arbitrary: acc) (simp_all add: note_image_def)

lemma inline_image_Some:
  assumes "inline_image p = Some m"
  shows "has_prefix (to_lower m) ''image/''" "m \<noteq> []"
proof -
  show pre: "has_prefix (to_lower m) ''image/''"
    using assms by (auto simp: inline_image_def Let_def split: json.splits option.splits if_splits)
  show "m \<noteq> []" using pre by (auto simp: has_prefix_def starts_with_def)
qed

lemma image_ne: "m \<in> set (images raw) \<Longrightarrow> has_prefix (to_lower m) ''image/'' \<and> m \<noteq> []"
  by (auto simp: images_def candidate_images_def List.map_filter_def split: json.splits
      dest: inline_image_Some)

lemma foldl_note_image_start:
  "(\<forall>m \<in> set ms. m \<noteq> []) \<Longrightarrow> foldl note_image (0, []) ms
     = (int (length ms), case ms of [] \<Rightarrow> [] | m # _ \<Rightarrow> m)"
  by (cases ms) (simp_all add: note_image_def foldl_note_image)

lemma FindImageParts:
  "batchImageFindImagePartsInCandidates raw =
     (int (length (images raw)), case images raw of [] \<Rightarrow> [] | m # _ \<Rightarrow> m)"
proof (cases raw)
  case (JsonArray cs)
  have "\<forall>m \<in> set (concat (map candidate_images cs)). m \<noteq> []"
    using image_ne [of _ raw] JsonArray by (simp add: images_def)
  then show ?thesis
    using JsonArray
    by (simp add: batchImageFindImagePartsInCandidates_def images_def foldl_count_candidate
        foldl_note_image_start)
qed (simp_all add: batchImageFindImagePartsInCandidates_def images_def)


text \<open>
  The nested loops that count the images of a result compute what the comprehension says: the
  number of all inline images of all candidates, and the MIME type of the first one.
\<close>

theorem FindImageParts_equiv:
  "batchImageFindImagePartsInCandidates raw =
     (int (length (images raw)), case images raw of [] \<Rightarrow> [] | m # _ \<Rightarrow> m)"
  by (rule FindImageParts)

subsection \<open>The shape of a parsed line\<close>

lemma first_nonempty_trimmed: "trim_space (batchImageFirstNonEmptyString vs) = batchImageFirstNonEmptyString vs"
  by (induction vs) auto

lemma FindImageParts_mime:
  assumes "batchImageFindImageParts obj = (n, m)" "0 < n"
  shows "has_prefix (to_lower m) ''image/''"
proof -
  have "has_prefix (to_lower (snd (batchImageFindImagePartsInCandidates raw))) ''image/''"
    if "0 < fst (batchImageFindImagePartsInCandidates raw)" for raw
    using that image_ne [of "hd (images raw)" raw]
    by (cases "images raw") (auto simp: FindImageParts)
  then show ?thesis
    using assms by (auto simp: batchImageFindImageParts_def Let_def split: if_splits) (metis fst_conv snd_conv)+
qed

lemma truncate_length: "0 < limit \<Longrightarrow> int (length (truncateBatchImageMessage m limit)) \<le> limit"
  by (simp add: truncateBatchImageMessage_def Let_def)

definition failure_codes :: "string set" where
  "failure_codes = {''SAFETY_BLOCKED'', ''INVALID_ARGUMENT'', ''PROVIDER_RATE_LIMITED'',
     ''PROVIDER_ITEM_FAILED'', ''EMPTY_IMAGE_OUTPUT''}"

lemma if_same_in: "a \<in> S \<Longrightarrow> b \<in> S \<Longrightarrow> (if c then a else b) \<in> S"
  by simp

lemma failure_code: "batchImageMapFailureCode c m \<in> failure_codes"
  unfolding batchImageMapFailureCode_def Let_def failure_codes_def by (intro if_same_in) simp_all

lemma failure_fields_code: "failure_fields e = (c, m) \<Longrightarrow> c \<in> failure_codes"
  unfolding failure_fields_def Let_def using failure_code by blast

text \<open>The records that the parser builds.\<close>

inductive well_formed_result :: "int \<Rightarrow> ParsedBatchImageResult \<Rightarrow> bool" for n where
  succeeded: "trim_space i = i \<Longrightarrow> i \<noteq> [] \<Longrightarrow> 0 < k \<Longrightarrow> has_prefix (to_lower m) ''image/'' \<Longrightarrow>
    x \<in> {''png'', ''jpg'', ''webp'', []} \<Longrightarrow>
    well_formed_result n \<lparr>pb_CustomID = i, pb_Status = BatchImageParsedStatusSucceeded, pb_MimeType = m,
      pb_FileExtension = x, pb_ImageCount = k, pb_ErrorCode = [], pb_ErrorMessage = [], pb_SourceLineNumber = n\<rparr>"
| failed: "trim_space i = i \<Longrightarrow> i \<noteq> [] \<Longrightarrow> c \<in> failure_codes \<Longrightarrow> length m \<le> 1000 \<Longrightarrow>
    well_formed_result n \<lparr>pb_CustomID = i, pb_Status = BatchImageParsedStatusFailed, pb_MimeType = [],
      pb_FileExtension = [], pb_ImageCount = 0, pb_ErrorCode = c, pb_ErrorMessage = m, pb_SourceLineNumber = n\<rparr>"

inductive_simps well_formed_result_iff: "well_formed_result n r"

lemma parse_object_wf:
  assumes "parse_object obj n = Inr r"
  shows "well_formed_result n r"
proof -
  have ext: "batchImageFileExtension m \<in> {''png'', ''jpg'', ''webp'', []}" for m
    by (simp add: batchImageFileExtension_def Let_def)
  have msg: "length (truncateBatchImageMessage m batchImageMaxErrorMessageLength) \<le> 1000" for m
    using truncate_length [of 1000 m] by (simp add: batchImageMaxErrorMessageLength_def)
  have code: "c \<in> failure_codes" if "batchImageFailureFromProviderFields obj = Some (c, m)" for c m
    using that by (auto simp: batchImageFailureFromProviderFields_def split: json.splits
        dest: failure_fields_code)
  define i where "i = result_custom_id obj"
  obtain k m where km: "batchImageFindImageParts obj = (k, m)" by fastforce
  have i: "trim_space i = i" by (simp only: i_def result_custom_id_def first_nonempty_trimmed)
  have ne: "i \<noteq> []" using assms by (auto simp: parse_object_def i_def Let_def)
  have failed: "c \<in> failure_codes \<Longrightarrow> length x \<le> 1000 \<Longrightarrow> well_formed_result n (failed_result i n c x)" for c x
    unfolding failed_result_def using i ne by (rule well_formed_result.failed)
  note r = assms [unfolded parse_object_def Let_def i_def [symmetric] km prod.case]
  show ?thesis
  proof (cases "0 < k")
    case True
    then have "r = \<lparr>pb_CustomID = i, pb_Status = BatchImageParsedStatusSucceeded, pb_MimeType = m,
        pb_FileExtension = batchImageFileExtension m, pb_ImageCount = k, pb_ErrorCode = [],
        pb_ErrorMessage = [], pb_SourceLineNumber = n\<rparr>"
      using r ne by simp
    then show ?thesis
      using i ne True FindImageParts_mime [OF km True] ext well_formed_result.succeeded by blast
  next
    case False
    then show ?thesis
      using r ne code msg
      by (auto intro!: failed simp: failure_codes_def split: option.splits if_splits)
  qed
qed

text \<open>
  Every line that is accepted gives a well-formed record: a trimmed non-empty custom id, and
  either a success with at least one image and an image MIME type and no error, or a failure with
  no image, one of five codes and a message of at most 1000 bytes.
\<close>

theorem ParseBatchImageResultLine_type:
  assumes "ParseBatchImageResultLine unmarshal line n = Inr r"
  shows "well_formed_result n r"
  using assms parse_object_wf by (auto simp: ParseBatchImageResultLine_def split: sum.splits)

definition demo_line :: json_object where
  "demo_line = [(''key'', JsonString '' item-1 ''), (''response'', JsonObject [(''candidates'', JsonArray
     [JsonObject [(''content'', JsonObject [(''parts'', JsonArray
       [JsonObject [(''inlineData'', JsonObject [(''mimeType'', JsonString ''image/PNG''),
          (''data'', JsonString ''aGk='')])]])])]])])]"

lemma ParseBatchImageResultLine_type_witness:
  "well_formed_result 3 \<lparr>pb_CustomID = ''item-1'', pb_Status = ''succeeded'', pb_MimeType = ''image/PNG'',
     pb_FileExtension = ''png'', pb_ImageCount = 1, pb_ErrorCode = [], pb_ErrorMessage = [],
     pb_SourceLineNumber = 3\<rparr>"
  by (rule ParseBatchImageResultLine_type [where unmarshal = "\<lambda>_. Inr demo_line" and line = "[]"]) code_simp

end
