(* ===== verification/BatchImageIndexer.thy ===== *)
theory BatchImageIndexer
  imports BatchImageResults
begin

section \<open>Providers, and indexing their output\<close>

text \<open>
  \<^verbatim>\<open>service/batch_image_provider.go\<close> (the interface of a provider and the registry) and
  \<^verbatim>\<open>BatchImageResultIndexer\<close> of \<^verbatim>\<open>service/batch_image_processor.go\<close>.  A provider talks to another system: its
  operations are functions that give the answer of this call; they do not touch the tables.  Accounts are
  a type parameter.
\<close>

subsection \<open>Providers\<close>

record BatchProviderJob =
  pj_ProviderJobName :: string
  pj_ProviderInputRef :: string
  pj_ProviderOutputRef :: string
  pj_RawState :: string

abbreviation BatchProviderStateQueued :: string where "BatchProviderStateQueued \<equiv> ''queued''"
abbreviation BatchProviderStateRunning :: string where "BatchProviderStateRunning \<equiv> ''running''"
abbreviation BatchProviderStateSucceeded :: string where "BatchProviderStateSucceeded \<equiv> ''succeeded''"
abbreviation BatchProviderStateFailed :: string where "BatchProviderStateFailed \<equiv> ''failed''"
abbreviation BatchProviderStateCancelled :: string where "BatchProviderStateCancelled \<equiv> ''cancelled''"
abbreviation BatchProviderStateExpired :: string where "BatchProviderStateExpired \<equiv> ''expired''"

record BatchProviderStatus =
  ps_RawState :: string
  ps_InternalState :: string
  ps_ProviderOutputRef :: string
  ps_ErrorCode :: string
  ps_ErrorMessage :: string
  ps_SuggestedRequeueAfter :: int

text \<open>A reader: the bytes it delivers, and the error (other than end of file) it ends with.\<close>

record result_stream =
  rd_Content :: string
  rd_Err :: "goerr option"

record BatchImageReference =
  br_ID :: string
  br_Type :: string
  br_MimeType :: string
  br_Data :: string
  br_FileURI :: string

record BatchImageInputItem =
  bi_CustomID :: string
  bi_Prompt :: string
  bi_ReferenceImages :: "BatchImageReference list"

record BatchImageInput =
  bn_BatchID :: string
  bn_Model :: string
  bn_DisplayName :: string
  bn_Items :: "BatchImageInputItem list"
  bn_ResponseMimeType :: string
  bn_AspectRatio :: string
  bn_ImageSize :: string
  bn_Metadata :: "(string \<times> string) list"

abbreviation CleanupTargetInput :: string where "CleanupTargetInput \<equiv> ''input''"
abbreviation CleanupTargetOutput :: string where "CleanupTargetOutput \<equiv> ''output''"
abbreviation CleanupTargetAll :: string where "CleanupTargetAll \<equiv> ''all''"

record 'a BatchImageProvider =
  pv_Name :: string
  pv_SupportsAccount :: "'a \<Rightarrow> bool"
  pv_Submit :: "f64 BatchImageJob \<Rightarrow> 'a \<Rightarrow> BatchImageInput \<Rightarrow> goerr + BatchProviderJob option"
  pv_Get :: "f64 BatchImageJob \<Rightarrow> 'a \<Rightarrow> goerr + BatchProviderStatus option"
  pv_Cancel :: "f64 BatchImageJob \<Rightarrow> 'a \<Rightarrow> goerr + unit"
  pv_OpenResult :: "f64 BatchImageJob \<Rightarrow> 'a \<Rightarrow> goerr + result_stream"
  pv_Cleanup :: "f64 BatchImageJob \<Rightarrow> 'a \<Rightarrow> string \<Rightarrow> goerr + unit"

definition ErrBatchImageProviderUnsupportedAccount :: goerr where
  "ErrBatchImageProviderUnsupportedAccount = New 400 ''BATCH_IMAGE_PROVIDER_UNSUPPORTED_ACCOUNT''
     ''batch image provider does not support this account''"

type_synonym 'a BatchImageProviderRegistry = "string \<Rightarrow> 'a BatchImageProvider option"

definition NewBatchImageProviderRegistry :: "'a BatchImageProvider list \<Rightarrow> 'a BatchImageProviderRegistry" where
  "NewBatchImageProviderRegistry providers = foldl (\<lambda>r p.
     if trim_space (pv_Name p) = [] then r else r(pv_Name p \<mapsto> p)) Map.empty providers"

text \<open>\<^verbatim>\<open>Get\<close> of the registry is application; \<^verbatim>\<open>MustGet\<close> turns a missing provider into an error.\<close>

definition MustGet :: "'a BatchImageProviderRegistry \<Rightarrow> string \<Rightarrow> goerr + 'a BatchImageProvider" where
  "MustGet r provider = (case r provider of None \<Rightarrow> Inl ErrBatchImageInvalidProvider | Some p \<Rightarrow> Inr p)"

subsection \<open>The scanner\<close>

text \<open>
  \<^verbatim>\<open>bufio.Scanner\<close> with \<^verbatim>\<open>ScanLines\<close>: the pieces between newlines, the last one only when it is not empty,
  without a trailing carriage return.  A line that fills the buffer ends the scan with an error; an
  error of the reader comes after the last piece.
\<close>

fun split_lines :: "string \<Rightarrow> string list" where
  "split_lines [] = []"
| "split_lines (c # s) = (if c = CHR 0x0A then [] # split_lines s
     else (case split_lines s of
        [] \<Rightarrow> [[c]]
      | l # ls \<Rightarrow> (c # l) # ls))"

definition drop_cr :: "string \<Rightarrow> string" where
  "drop_cr l = (if l \<noteq> [] \<and> last l = CHR 0x0D then butlast l else l)"

definition max_token_size :: int where "max_token_size = 16 * 1024 * 1024"

definition bufio_too_long :: goerr where "bufio_too_long = PlainErr ''bufio.Scanner: token too long''"

definition io_unexpected_eof :: goerr where "io_unexpected_eof = PlainErr ''unexpected EOF''"

definition scan_tokens :: "result_stream \<Rightarrow> string list \<times> goerr option" where
  "scan_tokens r = (let ls = split_lines (rd_Content r);
                        ok = takeWhile (\<lambda>l. int (length l) < max_token_size) ls
     in (map drop_cr ok, if length ok < length ls then Some bufio_too_long else rd_Err r))"

subsection \<open>The loop over the lines\<close>

record BatchImageIndexResult =
  ir_SuccessCount :: int
  ir_FailCount :: int
  ir_TotalCount :: int

record index_state =
  is_seen :: "(string \<times> int) list"
  is_unknown :: int
  is_items :: "CreateBatchImageItemParams list"
  is_result :: BatchImageIndexResult

definition index_start :: index_state where
  "index_start = \<lparr>is_seen = [], is_unknown = 0, is_items = [],
     is_result = \<lparr>ir_SuccessCount = 0, ir_FailCount = 0, ir_TotalCount = 0\<rparr>\<rparr>"

definition failed_item :: "string \<Rightarrow> string \<Rightarrow> string \<Rightarrow> int \<Rightarrow> CreateBatchImageItemParams" where
  "failed_item job customID sourceObject now = \<lparr>ci_JobID = job, ci_CustomID = customID,
     ci_Status = BatchImageItemStatusFailed, ci_RequestHash = None, ci_PromptPreview = None,
     ci_ProviderSourceObject = batchImageOptionalStringPtr sourceObject, ci_SourceLineNumber = None,
     ci_SourceByteOffset = None, ci_SourceByteLength = None, ci_MimeType = None, ci_FileExtension = None,
     ci_ImageCount = 0, ci_ErrorCode = None, ci_ErrorMessage = None, ci_BilledAmount = None,
     ci_IndexedAt = Some now\<rparr>"

definition index_item :: "string \<Rightarrow> string \<Rightarrow> int \<Rightarrow> ParsedBatchImageResult \<Rightarrow> CreateBatchImageItemParams" where
  "index_item job sourceObject now parsed = (let item = (failed_item job (pb_CustomID parsed) sourceObject now)
       \<lparr>ci_SourceLineNumber := Some (pb_SourceLineNumber parsed), ci_ImageCount := pb_ImageCount parsed\<rparr>
     in if pb_Status parsed = BatchImageParsedStatusSucceeded then
          item\<lparr>ci_Status := BatchImageItemStatusSuccess,
               ci_MimeType := batchImageOptionalStringPtr (pb_MimeType parsed),
               ci_FileExtension := batchImageOptionalStringPtr (pb_FileExtension parsed)\<rparr>
        else item\<lparr>ci_ErrorCode := batchImageOptionalStringPtr (pb_ErrorCode parsed),
               ci_ErrorMessage := batchImageOptionalStringPtr (pb_ErrorMessage parsed)\<rparr>)"

definition count_item :: "bool \<Rightarrow> BatchImageIndexResult \<Rightarrow> BatchImageIndexResult" where
  "count_item ok r = (if ok then r\<lparr>ir_SuccessCount := ir_SuccessCount r + 1\<rparr>
       else r\<lparr>ir_FailCount := ir_FailCount r + 1\<rparr>)\<lparr>ir_TotalCount := ir_TotalCount r + 1\<rparr>"

definition duplicate_error :: "string \<Rightarrow> int \<Rightarrow> int \<Rightarrow> goerr" where
  "duplicate_error customID firstLine lineNumber = WithCause ErrBatchImageDuplicateCustomID
     (PlainErr (''custom id '' @ go_quote customID @ '' duplicated at lines '' @ itoa firstLine
        @ '' and '' @ itoa lineNumber))"

text \<open>One line that was parsed.\<close>

definition index_parsed :: "string list \<Rightarrow> string \<Rightarrow> string \<Rightarrow> int \<Rightarrow> int \<Rightarrow> ParsedBatchImageResult \<Rightarrow>
    index_state \<Rightarrow> goerr + index_state" where
  "index_parsed expected job sourceObject now lineNumber parsed st =
     (if expected \<noteq> [] \<and> pb_CustomID parsed \<notin> set expected then Inr (st\<lparr>is_unknown := is_unknown st + 1\<rparr>)
      else (case map_of (is_seen st) (pb_CustomID parsed) of
          Some firstLine \<Rightarrow> Inl (duplicate_error (pb_CustomID parsed) firstLine lineNumber)
        | None \<Rightarrow> Inr (st\<lparr>is_seen := (pb_CustomID parsed, lineNumber) # is_seen st,
              is_items := is_items st @ [index_item job sourceObject now parsed],
              is_result := count_item (pb_Status parsed = BatchImageParsedStatusSucceeded) (is_result st)\<rparr>)))"

fun index_lines :: "(string \<Rightarrow> goerr + json_object) \<Rightarrow> string list \<Rightarrow> string \<Rightarrow> string \<Rightarrow> int \<Rightarrow> int \<Rightarrow>
    string list \<Rightarrow> index_state \<Rightarrow> goerr + index_state" where
  "index_lines um expected job src now n [] st = Inr st"
| "index_lines um expected job src now n (text # ls) st =
     (let line = trim_space text in
      if line = [] then index_lines um expected job src now (n + 1) ls st
      else (case ParseBatchImageResultLine um line (n + 1) of
          Inl err \<Rightarrow> Inl err
        | Inr parsed \<Rightarrow> (case index_parsed expected job src now (n + 1) parsed st of
            Inl err \<Rightarrow> Inl err
          | Inr st1 \<Rightarrow> index_lines um expected job src now (n + 1) ls st1)))"

text \<open>The items that the output left out, by ascending custom id.\<close>

definition missing_ids :: "string list \<Rightarrow> index_state \<Rightarrow> string list" where
  "missing_ids expected st = sort (filter (\<lambda>c. map_of (is_seen st) c = None) expected)"

definition missing_item :: "string \<Rightarrow> string \<Rightarrow> int \<Rightarrow> string \<Rightarrow> CreateBatchImageItemParams" where
  "missing_item job src now customID = (failed_item job customID src now)
     \<lparr>ci_ErrorCode := Some ''PROVIDER_RESULT_MISSING'',
      ci_ErrorMessage := Some ''provider output did not include a result for this item''\<rparr>"

definition add_missing :: "string list \<Rightarrow> string \<Rightarrow> string \<Rightarrow> int \<Rightarrow> index_state \<Rightarrow> index_state" where
  "add_missing expected job src now st = foldl (\<lambda>st c. st\<lparr>is_items := is_items st @ [missing_item job src now c],
     is_result := count_item False (is_result st)\<rparr>) st (missing_ids expected st)"

text \<open>Everything between opening the result and writing the items.\<close>

definition index_stream :: "(string \<Rightarrow> goerr + json_object) \<Rightarrow> string list \<Rightarrow> string \<Rightarrow> string \<Rightarrow> int \<Rightarrow>
    result_stream \<Rightarrow> goerr + index_state" where
  "index_stream um expected job src now stream = (case scan_tokens stream of (tokens, scanErr) \<Rightarrow>
     (case index_lines um expected job src now 0 tokens index_start of
        Inl err \<Rightarrow> Inl err
      | Inr st \<Rightarrow> (case scanErr of
          Some err \<Rightarrow> Inl (if err_is err io_unexpected_eof then WithCause ErrBatchImageIndexParseFailed err else err)
        | None \<Rightarrow> (let st1 = add_missing expected job src now st in
            if ir_TotalCount (is_result st1) = 0 then Inl ErrBatchImageIndexNoResultLines else Inr st1))))"

subsection \<open>The indexer\<close>

function listExpectedCustomIDs :: "'e driver_scheme \<Rightarrow> string \<Rightarrow> string list \<Rightarrow> int \<Rightarrow> 'z batch_db_scheme \<Rightarrow>
    (goerr + string list) \<times> 'z batch_db_scheme" where
  "listExpectedCustomIDs env batchID expected offset w =
     (case run_state (ListBatchImageItems env batchID \<lparr>itf_Status = [], itf_Limit = 500, itf_Offset = offset\<rparr>) w of
        (Inl err, w1) \<Rightarrow> (Inl err, w1)
      | (Inr page, w1) \<Rightarrow>
          (let expected1 = fold List.insert (map it_CustomID page) expected in
           if length page < 500 then (Inr expected1, w1)
           else listExpectedCustomIDs env batchID expected1 (offset + int (length page)) w1))"
  by pat_completeness auto

lemma item_page:
  assumes "run_state (ListBatchImageItems env b \<lparr>itf_Status = [], itf_Limit = 500, itf_Offset = off\<rparr>) w = (Inr page, w1)"
  obtains fs where "w1 = w\<lparr>faults := fs\<rparr>" "page = map (scanBatchImageItem env)
     (take 500 (drop (nat off) (filter (\<lambda>i. it_JobID i = b) (items w))))"
  using assms unfolding ListBatchImageItems_def
  by (auto elim!: stmt_InrE simp: clamp_limit_def clamp_offset_def split: if_splits)

termination listExpectedCustomIDs
proof (relation "measure (\<lambda>(env, b, expected, off, w). nat (int (length (items w)) - off))")
  fix env :: "'e driver_scheme" and b expected off and w w1 :: "'z batch_db_scheme" and r page e1
  assume r: "(r, w1) = run_state (ListBatchImageItems env b
      \<lparr>itf_Status = [], itf_Limit = 500, itf_Offset = off\<rparr>) w" "r = Inr page" and n: "\<not> length page < 500"
  then obtain fs where w1: "w1 = w\<lparr>faults := fs\<rparr>" and page: "page = map (scanBatchImageItem env)
     (take 500 (drop (nat off) (filter (\<lambda>i. it_JobID i = b) (items w))))"
    by (metis item_page)
  have "nat off < length (filter (\<lambda>i. it_JobID i = b) (items w))" using n page by auto
  then have "nat off < length (items w)" by (rule less_le_trans) simp
  then show "((env, b, e1, off + int (length page), w1), env, b, expected, off, w)
      \<in> measure (\<lambda>(env, b, expected, off, w). nat (int (length (items w)) - off))"
    using n w1 by auto
qed simp

declare listExpectedCustomIDs.simps [simp del]

definition Index :: "'e driver_scheme \<Rightarrow> (string \<Rightarrow> goerr + json_object) \<Rightarrow> 'a BatchImageProvider \<Rightarrow>
    f64 BatchImageJob \<Rightarrow> 'a \<Rightarrow> ('z batch_db_scheme, goerr + BatchImageIndexResult) state" where
  "Index env um provider job account = do {
     e \<leftarrow> State (listExpectedCustomIDs env (jb_BatchID job) [] 0);
     chain e (\<lambda>expected.
       case pv_OpenResult provider job account of
         Inl err \<Rightarrow> ret (Inl (WithCause ErrBatchImageIndexOutputMissing err))
       | Inr stream \<Rightarrow> do {
           now \<leftarrow> time_now;
           let sourceObject = (if batchImageDerefString (jb_ProviderOutputRef job) = []
                               then batchImageDerefString (jb_ProviderJobName job)
                               else batchImageDerefString (jb_ProviderOutputRef job));
           case index_stream um expected (jb_BatchID job) sourceObject now stream of
             Inl err \<Rightarrow> ret (Inl err)
           | Inr st \<Rightarrow> do {
               let missing = int (length (missing_ids expected st));
               ev \<leftarrow> (if 0 < is_unknown st \<or> 0 < missing then
                       AppendBatchImageEvent (jb_BatchID job) ''index_reconciled''
                         (Some [(''batch_id'', JStr (jb_BatchID job)),
                                (''unknown_custom_ids'', JInt (is_unknown st)),
                                (''missing_custom_ids'', JInt missing)])
                     else ret (Inr ()));
               r \<leftarrow> ReplaceBatchImageItemsForJob env (jb_BatchID job) (is_items st)
                     \<lparr>bc_SuccessCount = ir_SuccessCount (is_result st), bc_FailCount = ir_FailCount (is_result st)\<rparr>;
               chain r (\<lambda>_. ret (Inr (is_result st))) } }) }"


subsection \<open>Paging reads every item\<close>

lemma listExpected_InrD:
  assumes "listExpectedCustomIDs env b expected off w = (Inr e, w')" "0 \<le> off"
  shows "set e = set expected \<union> it_CustomID ` set (drop (nat off) (filter (\<lambda>i. it_JobID i = b) (items w)))
    \<and> (distinct expected \<longrightarrow> distinct e) \<and> (\<exists>fs. w' = w\<lparr>faults := fs\<rparr>)"
  using assms
proof (induction env b expected off w rule: listExpectedCustomIDs.induct)
  case (1 env b expected off w)
  let ?row = "filter (\<lambda>i. it_JobID i = b) (items w)"
  obtain r w1 where r: "run_state (ListBatchImageItems env b \<lparr>itf_Status = [], itf_Limit = 500, itf_Offset = off\<rparr>) w
      = (r, w1)" by fastforce
  with "1.prems" obtain page where page: "r = Inr page"
    by (cases r) (simp_all add: listExpectedCustomIDs.simps [of env b expected off w])
  from r page obtain fs where w1: "w1 = w\<lparr>faults := fs\<rparr>"
    and p: "page = map (scanBatchImageItem env) (take 500 (drop (nat off) ?row))"
    by (metis item_page)
  let ?e = "fold List.insert (map it_CustomID page) expected"
  have id: "it_CustomID (scanBatchImageItem env i) = it_CustomID i" for i
    by (simp add: scanBatchImageItem_def)
  have set_insert: "set (fold List.insert xs ys) = set ys \<union> set xs"
    and dist: "distinct ys \<longrightarrow> distinct (fold List.insert xs ys)" for xs ys :: "string list"
    by (induction xs arbitrary: ys) auto
  have e: "set ?e = set expected \<union> it_CustomID ` set (take 500 (drop (nat off) ?row))"
    "distinct expected \<longrightarrow> distinct ?e"
    using dist by (auto simp: set_insert p id image_image)
  show ?case
  proof (cases "length page < 500")
    case True
    then have "take 500 (drop (nat off) ?row) = drop (nat off) ?row" using p by simp
    then show ?thesis
      using "1.prems" r page True e w1
      by (simp add: listExpectedCustomIDs.simps [of env b expected off w] Let_def) auto
  next
    case False
    then have n: "length page = 500" "nat (off + int (length page)) = 500 + nat off"
      using p "1.prems"(2) by auto
    have "listExpectedCustomIDs env b ?e (off + int (length page)) w1 = (Inr e, w')"
      using "1.prems"(1) r page False
      by (simp add: listExpectedCustomIDs.simps [of env b expected off w] Let_def)
    from "1.IH" [OF r [symmetric] page refl False this] "1.prems"(2)
    have "set e = set ?e \<union> it_CustomID ` set (drop 500 (drop (nat off) ?row))" "distinct ?e \<longrightarrow> distinct e"
      "\<exists>fs. w' = w1\<lparr>faults := fs\<rparr>"
      using w1 n by (simp_all add: add.commute)
    moreover have "set (drop (nat off) ?row) = set (take 500 (drop (nat off) ?row)) \<union> set (drop 500 (drop (nat off) ?row))"
      by (metis append_take_drop_id set_append)
    ultimately show ?thesis using e w1 by (auto simp: image_Un)
  qed
qed

lemma listExpected_calm: "faults w = [] \<Longrightarrow> \<exists>e. listExpectedCustomIDs env b expected off w = (Inr e, w)"
proof (induction env b expected off w rule: listExpectedCustomIDs.induct)
  case (1 env b expected off w)
  define page where "page = map (scanBatchImageItem env) (take 500 (drop (nat off)
     (filter (\<lambda>i. it_JobID i = b) (items w))))"
  have run: "run_state (ListBatchImageItems env b \<lparr>itf_Status = [], itf_Limit = 500, itf_Offset = off\<rparr>) w
      = (Inr page, w)"
    using "1.prems"
    by (auto simp: ListBatchImageItems_def run_stmt_ok page_def clamp_limit_def clamp_offset_def)
  show ?case
  proof (cases "length page < 500")
    case True
    then show ?thesis by (simp add: listExpectedCustomIDs.simps [of env b expected off w] run Let_def)
  next
    case False
    with "1.IH" [OF run [symmetric] refl refl False "1.prems"] show ?thesis
      by (simp add: listExpectedCustomIDs.simps [of env b expected off w] run Let_def)
  qed
qed

text \<open>
  C25: The paging loop ends, and when no call fails it answers with the custom ids of all items of
  the job, each once, however many pages there are.
\<close>

theorem listExpectedCustomIDs_complete:
  assumes "faults w = []"
  shows "\<exists>e. listExpectedCustomIDs env b [] 0 w = (Inr e, w) \<and> distinct e
    \<and> set e = it_CustomID ` {i \<in> set (items w). it_JobID i = b}"
proof -
  obtain e where "listExpectedCustomIDs env b [] 0 w = (Inr e, w)" using listExpected_calm [OF assms] by blast
  with listExpected_InrD [OF this] show ?thesis by auto
qed


subsection \<open>Reconciliation\<close>

definition item_ok :: "CreateBatchImageItemParams \<Rightarrow> bool" where
  "item_ok p \<longleftrightarrow> ci_Status p = BatchImageItemStatusSuccess"

text \<open>What the loop keeps: one item per id seen, only expected ids, and counts that add up.\<close>

definition index_inv :: "string list \<Rightarrow> index_state \<Rightarrow> bool" where
  "index_inv expected st \<longleftrightarrow> distinct (map ci_CustomID (is_items st))
     \<and> map fst (is_seen st) = rev (map ci_CustomID (is_items st))
     \<and> (expected \<noteq> [] \<longrightarrow> fst ` set (is_seen st) \<subseteq> set expected)"

definition counts_match :: "index_state \<Rightarrow> bool" where
  "counts_match st \<longleftrightarrow>
     ir_SuccessCount (is_result st) = int (length (filter item_ok (is_items st)))
     \<and> ir_FailCount (is_result st) = int (length (filter (\<lambda>p. \<not> item_ok p) (is_items st)))
     \<and> ir_TotalCount (is_result st) = int (length (is_items st))"

lemma index_item_simps [simp]: "ci_CustomID (index_item job src now p) = pb_CustomID p"
  "item_ok (index_item job src now p) = (pb_Status p = BatchImageParsedStatusSucceeded)"
  "ci_CustomID (missing_item job src now c) = c" "\<not> item_ok (missing_item job src now c)"
  by (auto simp: index_item_def failed_item_def missing_item_def item_ok_def Let_def)

lemma counts_match_add:
  "counts_match st \<Longrightarrow> ok = item_ok p \<Longrightarrow>
   counts_match (st\<lparr>is_items := is_items st @ [p], is_result := count_item ok (is_result st)\<rparr>)"
  by (auto simp: counts_match_def count_item_def)

lemma index_parsed_inv:
  assumes "index_parsed expected job src now n parsed st = Inr st'" "index_inv expected st" "counts_match st"
  shows "index_inv expected st' \<and> counts_match st'"
proof (cases "expected \<noteq> [] \<and> pb_CustomID parsed \<notin> set expected")
  case True
  then show ?thesis
    using assms by (simp add: index_parsed_def) (drule sym, simp add: index_inv_def counts_match_def)
next
  case False
  let ?st = "st\<lparr>is_items := is_items st @ [index_item job src now parsed],
     is_result := count_item (pb_Status parsed = BatchImageParsedStatusSucceeded) (is_result st)\<rparr>"
  from False assms(1) have fresh: "pb_CustomID parsed \<notin> fst ` set (is_seen st)"
    and st': "st' = ?st\<lparr>is_seen := (pb_CustomID parsed, n) # is_seen st\<rparr>"
    by (auto simp: index_parsed_def map_of_eq_None_iff split: if_splits option.splits)
  have "set (map fst (is_seen st)) = set (map ci_CustomID (is_items st))"
    using assms(2) by (simp add: index_inv_def)
  with fresh have "pb_CustomID parsed \<notin> ci_CustomID ` set (is_items st)" by simp
  with assms(2) False have "index_inv expected st'"
    by (auto simp: st' index_inv_def)
  moreover have "counts_match ?st" using assms(3) by (rule counts_match_add) simp
  then have "counts_match st'" by (simp add: st' counts_match_def)
  ultimately show ?thesis ..
qed

lemma index_lines_inv:
  "index_lines um expected job src now n ls st = Inr st' \<Longrightarrow> index_inv expected st \<Longrightarrow> counts_match st \<Longrightarrow>
   index_inv expected st' \<and> counts_match st'"
proof (induction um expected job src now n ls st rule: index_lines.induct)
  case (2 um expected job src now n line ls st)
  then show ?case
    by (auto simp: Let_def split: if_splits sum.splits dest: index_parsed_inv)
qed simp

lemma add_missing_fold:
  "is_items (foldl (\<lambda>st c. st\<lparr>is_items := is_items st @ [missing_item job src now c],
      is_result := count_item False (is_result st)\<rparr>) st cs) = is_items st @ map (missing_item job src now) cs"
  "counts_match st \<Longrightarrow> counts_match (foldl (\<lambda>st c. st\<lparr>is_items := is_items st @ [missing_item job src now c],
      is_result := count_item False (is_result st)\<rparr>) st cs)"
  by (induction cs arbitrary: st) (simp_all add: counts_match_add)

lemma index_stream_InrD:
  assumes "index_stream um expected job src now stream = Inr st" "distinct expected"
  shows "distinct (map ci_CustomID (is_items st)) \<and> counts_match st
    \<and> (expected \<noteq> [] \<longrightarrow> ci_CustomID ` set (is_items st) = set expected)"
proof -
  obtain tokens err where tok: "scan_tokens stream = (tokens, err)" by fastforce
  from assms(1) obtain st0 where lines: "index_lines um expected job src now 0 tokens index_start = Inr st0"
    and st: "st = add_missing expected job src now st0"
    by (auto simp: index_stream_def tok Let_def split: sum.splits option.splits if_splits)
  have "index_inv expected index_start" "counts_match index_start"
    by (simp_all add: index_inv_def counts_match_def index_start_def)
  with index_lines_inv [OF lines] have inv: "index_inv expected st0" and counts: "counts_match st0" by blast+
  have items: "map ci_CustomID (is_items st) = map ci_CustomID (is_items st0) @ missing_ids expected st0"
    by (simp add: st add_missing_def add_missing_fold(1) comp_def)
  have seen: "set (map ci_CustomID (is_items st0)) = fst ` set (is_seen st0)"
    using inv unfolding index_inv_def by (metis list.set_map set_rev)
  have miss: "set (missing_ids expected st0) = set expected - fst ` set (is_seen st0)"
    "distinct (missing_ids expected st0)"
    using assms(2) by (auto simp: missing_ids_def map_of_eq_None_iff)
  have "distinct (map ci_CustomID (is_items st))"
    unfolding items using inv miss seen by (auto simp: index_inv_def)
  moreover have "ci_CustomID ` set (is_items st) = set expected" if "expected \<noteq> []"
  proof -
    have "set (map ci_CustomID (is_items st)) = fst ` set (is_seen st0) \<union> (set expected - fst ` set (is_seen st0))"
      unfolding items using seen miss by simp
    then show ?thesis using inv that by (auto simp: index_inv_def)
  qed
  moreover have "counts_match st"
    unfolding st add_missing_def using counts by (rule add_missing_fold(2))
  ultimately show ?thesis by blast
qed

lemma Index_InrD:
  assumes run: "run_state (Index env um provider job account) w = (Inr res, w')"
    and uniq: "distinct (map (\<lambda>i. (it_JobID i, it_CustomID i)) (items w))"
  defines "b \<equiv> jb_BatchID job"
  defines "old \<equiv> filter (\<lambda>i. it_JobID i = b) (items w)" and "new \<equiv> filter (\<lambda>i. it_JobID i = b) (items w')"
  shows "(\<exists>j. find_job w b = Some j \<and> jb_Status j = BatchImageJobStatusIndexing)
    \<and> distinct (map it_CustomID new)
    \<and> (old \<noteq> [] \<longrightarrow> it_CustomID ` set new = it_CustomID ` set old)
    \<and> (\<exists>j'. find_job w' b = Some j'
        \<and> jb_SuccessCount j' = int (length (filter (\<lambda>i. it_Status i = BatchImageItemStatusSuccess) new))
        \<and> jb_FailCount j' = int (length (filter (\<lambda>i. it_Status i \<noteq> BatchImageItemStatusSuccess) new))
        \<and> jb_SuccessCount j' + jb_FailCount j' = ir_TotalCount res)"
proof -
  obtain e w1 where e: "listExpectedCustomIDs env b [] 0 w = (e, w1)" by fastforce
  with run obtain expected where exp: "e = Inr expected"
    by (cases e) (auto simp: Index_def b_def run_bind)
  from listExpected_InrD [OF e [unfolded exp]] obtain fs where
    expected: "set expected = it_CustomID ` set old" "distinct expected" and w1: "w1 = w\<lparr>faults := fs\<rparr>"
    by (auto simp: old_def)
  from run e exp obtain stream where opened: "pv_OpenResult provider job account = Inr stream"
    by (auto simp: Index_def b_def run_bind split: sum.splits)
  define src where "src = (if batchImageDerefString (jb_ProviderOutputRef job) = []
      then batchImageDerefString (jb_ProviderJobName job) else batchImageDerefString (jb_ProviderOutputRef job))"
  obtain now w2 where t: "run_state time_now w1 = (now, w2)" by fastforce
  from run e exp opened t obtain st where st: "index_stream um expected b src now stream = Inr st"
    by (auto simp: Index_def b_def run_bind src_def [symmetric] Let_def split: sum.splits)
  obtain ev w3 p where ev: "run_state (if p then AppendBatchImageEvent b ''index_reconciled''
         (Some [(''batch_id'', JStr b), (''unknown_custom_ids'', JInt (is_unknown st)),
                (''missing_custom_ids'', JInt (int (length (missing_ids expected st))))]) else ret (Inr ())) w2 = (ev, w3)"
    and rep: "run_state (ReplaceBatchImageItemsForJob env b (is_items st)
       \<lparr>bc_SuccessCount = ir_SuccessCount (is_result st), bc_FailCount = ir_FailCount (is_result st)\<rparr>) w3 = (Inr (), w')"
    and res: "res = is_result st"
    using run e exp opened t st unfolding Index_def b_def [symmetric] src_def [symmetric] Let_def
    by (auto simp: run_bind [of "State _"] run_bind [of time_now] elim!: run_bindE run_chainE run_retE)
  have same2: "jobs w2 = jobs w" "items w2 = items w"
    using t w1 by (auto simp: time_now_def split: list.splits)
  have "jobs w3 = jobs w2 \<and> items w3 = items w2"
    using ev unfolding AppendBatchImageEvent_def appendBatchImageEventWithSQL_def
    by (auto elim!: run_elims stmt_cases split: if_splits)
  with same2 have same: "jobs w3 = jobs w" "items w3 = items w" by simp_all
  then have find: "find_job w3 b = find_job w b" by (simp add: find_job_def)
  from replace_items_InrD [OF rep] uniq same
  have indexing: "\<exists>j. find_job w b = Some j \<and> jb_Status j = BatchImageJobStatusIndexing"
    and rows: "map (\<lambda>i. (it_CustomID i, it_Status i)) new = map (\<lambda>p. (ci_CustomID p, ci_Status p)) (is_items st)"
    and "\<exists>j'. find_job w' b = Some j' \<and> jb_SuccessCount j' = ir_SuccessCount (is_result st)
       \<and> jb_FailCount j' = ir_FailCount (is_result st)"
    by (simp_all add: find new_def)
  then obtain j' where j': "find_job w' b = Some j'" "jb_SuccessCount j' = ir_SuccessCount (is_result st)"
    "jb_FailCount j' = ir_FailCount (is_result st)" by blast
  from index_stream_InrD [OF st expected(2)]
  have dist: "distinct (map ci_CustomID (is_items st))" and counts: "counts_match st"
    and ids: "expected \<noteq> [] \<Longrightarrow> ci_CustomID ` set (is_items st) = it_CustomID ` set old"
    using expected(1) by blast+
  have custom: "map it_CustomID new = map ci_CustomID (is_items st)"
    using arg_cong [OF rows, of "map fst"] by (simp add: comp_def)
  have by_status: "length (filter (\<lambda>i. P (it_Status i)) new) = length (filter (\<lambda>p. P (ci_Status p)) (is_items st))" for P
    using arg_cong [OF rows, of "\<lambda>xs. length (filter (\<lambda>x. P (snd x)) xs)"] by (simp add: filter_map comp_def)
  have "jb_SuccessCount j' = int (length (filter (\<lambda>i. it_Status i = BatchImageItemStatusSuccess) new))"
    "jb_FailCount j' = int (length (filter (\<lambda>i. it_Status i \<noteq> BatchImageItemStatusSuccess) new))"
    unfolding by_status [of "\<lambda>s. s = BatchImageItemStatusSuccess"] by_status [of "\<lambda>s. s \<noteq> BatchImageItemStatusSuccess"]
    using j' counts by (simp_all only: counts_match_def item_ok_def [abs_def])
  moreover have "jb_SuccessCount j' + jb_FailCount j' = ir_TotalCount res"
    using j' counts res sum_length_filter_compl [of item_ok "is_items st"]
    by (simp add: counts_match_def flip: of_nat_add)
  moreover have "distinct (map it_CustomID new)" using dist custom by simp
  moreover have "it_CustomID ` set new = it_CustomID ` set old" if "old \<noteq> []"
  proof -
    have "expected \<noteq> []" using that expected(1) by auto
    with ids arg_cong [OF custom, of set] show ?thesis by simp
  qed
  ultimately show ?thesis using indexing j'(1) by blast
qed


definition demo_provider :: "string \<Rightarrow> unit BatchImageProvider" where
  "demo_provider content = \<lparr>pv_Name = ''vertex'', pv_SupportsAccount = (\<lambda>_. True),
     pv_Submit = (\<lambda>_ _ _. Inr None), pv_Get = (\<lambda>_ _. Inr None), pv_Cancel = (\<lambda>_ _. Inr ()),
     pv_OpenResult = (\<lambda>_ _. Inr \<lparr>rd_Content = content, rd_Err = None\<rparr>), pv_Cleanup = (\<lambda>_ _ _. Inr ())\<rparr>"

definition indexing_world :: batch_db where
  "indexing_world = snd (run_state (ReplaceBatchImageItemsForJob exact_driver ''b1''
     [demo_item ''item-1'' ''pending'', demo_item ''item-2'' ''pending'']
     \<lparr>bc_SuccessCount = 0, bc_FailCount = 0\<rparr>)
     (batch_world demo_world [demo_job ''b1'' ''indexing'']))"


lemma listExpectedCustomIDs_complete_witness:
  "\<exists>e. listExpectedCustomIDs exact_driver ''b1'' [] 0 indexing_world = (Inr e, indexing_world)
     \<and> set e = {''item-1'', ''item-2''}"
proof -
  have ids: "map it_CustomID (filter (\<lambda>i. it_JobID i = ''b1'') (items indexing_world)) = [''item-1'', ''item-2'']"
    by code_simp
  have "faults indexing_world = []" by code_simp
  from listExpectedCustomIDs_complete [OF this, of exact_driver "''b1''"] show ?thesis
    using arg_cong [OF ids, of set] by auto
qed

end
