(* ===== verification/BatchImageProcessor.thy ===== *)
theory BatchImageProcessor
  imports BatchImageIndexer
begin

section \<open>Processing a batch image job\<close>

text \<open>
  \<^verbatim>\<open>BatchImageProviderProcessor\<close> of \<^verbatim>\<open>service/batch_image_processor.go\<close> and \<^verbatim>\<open>BatchImagePipelineProcessor\<close> of
  \<^verbatim>\<open>service/batch_image_settlement.go\<close>: what the worker does with a job it reserved.  The account
  resolver is a parameter of the processor.
\<close>

record ('a) BatchImageProviderProcessor =
  pp_Registry :: "'a BatchImageProviderRegistry"
  pp_ResolveAccount :: "int \<Rightarrow> goerr + 'a"
  pp_Unmarshal :: "string \<Rightarrow> goerr + json_object"
  pp_AuthCache :: bool
  pp_DefaultRequeue :: int

definition defaultBatchImageProcessorRequeue :: int where "defaultBatchImageProcessorRequeue = 30 * second"
definition batchImageProviderErrorRequeue :: int where "batchImageProviderErrorRequeue = minute"

definition requeueDelay :: "'a BatchImageProviderProcessor \<Rightarrow> int \<Rightarrow> int" where
  "requeueDelay p suggested = (if 0 < suggested then suggested
     else if 0 < pp_DefaultRequeue p then pp_DefaultRequeue p else defaultBatchImageProcessorRequeue)"

definition isBatchImageProcessorDoneStatus :: "string \<Rightarrow> bool" where
  "isBatchImageProcessorDoneStatus status \<longleftrightarrow>
     status = BatchImageJobStatusSettling \<or> IsTerminalBatchImageJobStatus status"

definition releaseTerminalHold :: "'e driver_scheme \<Rightarrow> 'a BatchImageProviderProcessor \<Rightarrow> f64 BatchImageJob \<Rightarrow>
    ('z batch_db_scheme, goerr + unit) state" where
  "releaseTerminalHold env p job =
     (if jb_Status job \<noteq> BatchImageJobStatusFailed \<and> jb_Status job \<noteq> BatchImageJobStatusCancelled
      then ret (Inr ())
      else do {
        r \<leftarrow> releaseBatchImageBalanceHold env job (batchImageDerefString (jb_RequestHash job));
        chain r (\<lambda>_. do {
          i \<leftarrow> invalidateAuthCache (pp_AuthCache p) (jb_UserID job);
          ret (Inr ()) }) })"

definition persistProviderOutputRef :: "f64 BatchImageJob \<Rightarrow> string \<Rightarrow>
    ('z batch_db_scheme, goerr + f64 BatchImageJob) state" where
  "persistProviderOutputRef job ref0 = (let ref = trim_space ref0 in
     if ref = [] \<or> batchImageDerefString (jb_ProviderOutputRef job) = ref then ret (Inr job)
     else do {
       r \<leftarrow> UpdateBatchImageJobProviderOutputRef (jb_BatchID job) ref;
       chain r (\<lambda>_. ret (Inr (job\<lparr>jb_ProviderOutputRef := Some ref\<rparr>))) })"

text \<open>A transition, then the release of the hold of the job that is now failed or cancelled.\<close>

definition end_job :: "'e driver_scheme \<Rightarrow> 'a BatchImageProviderProcessor \<Rightarrow> f64 BatchImageJob \<Rightarrow> string \<Rightarrow>
    BatchImageTransitionOptions \<Rightarrow> ('z batch_db_scheme, goerr + BatchImageProcessResult) state" where
  "end_job env p job status opts = do {
     t \<leftarrow> TransitionBatchImageJobStatus (jb_BatchID job) status opts;
     chain t (\<lambda>_. do {
       r \<leftarrow> releaseTerminalHold env p (job\<lparr>jb_Status := status\<rparr>);
       chain r (\<lambda>_. ret (Inr terminal_result)) }) }"

definition no_options :: "string \<Rightarrow> (string \<times> jval) list \<Rightarrow> BatchImageTransitionOptions" where
  "no_options event payload = \<lparr>to_EventType = event, to_EventPayload = Some payload, to_ErrorCode = None,
     to_ErrorMessage = None, to_Now = None\<rparr>"

definition indexAndSettle :: "'e driver_scheme \<Rightarrow> 'a BatchImageProviderProcessor \<Rightarrow> f64 BatchImageJob \<Rightarrow>
    'a BatchImageProvider \<Rightarrow> 'a \<Rightarrow> ('z batch_db_scheme, goerr + BatchImageProcessResult) state" where
  "indexAndSettle env p job provider account = do {
     r \<leftarrow> Index env (pp_Unmarshal p) provider job account;
     case r of
       Inl err \<Rightarrow>
         if err_is err ErrBatchImageIndexOutputMissing then ret (Inl err)
         else if err_is err ErrBatchImageIndexStateConflict then ret (Inr (requeue_result millisecond))
         else (let code = (if err_is err ErrBatchImageDuplicateCustomID then ''DUPLICATE_CUSTOM_ID_IN_OUTPUT''
                           else ''INDEX_PARSE_FAILED'');
                   msg = truncateBatchImageMessage (error_text err) batchImageMaxErrorMessageLength
           in end_job env p job BatchImageJobStatusFailed
                ((no_options ''indexing_failed'' [(''error_code'', JStr code)])
                   \<lparr>to_ErrorCode := Some code, to_ErrorMessage := batchImageOptionalStringPtr msg\<rparr>))
     | Inr result \<Rightarrow> do {
         t \<leftarrow> TransitionBatchImageJobStatus (jb_BatchID job) BatchImageJobStatusSettling
               (no_options ''indexing_completed'' [(''success_count'', JInt (ir_SuccessCount result)),
                  (''fail_count'', JInt (ir_FailCount result)), (''total_count'', JInt (ir_TotalCount result))]);
         chain t (\<lambda>_. ret (Inr (requeue_result millisecond))) } }"

text \<open>The state that the provider reports, once its output reference is stored.\<close>

definition handle_status :: "'e driver_scheme \<Rightarrow> 'a BatchImageProviderProcessor \<Rightarrow> f64 BatchImageJob \<Rightarrow>
    'a BatchImageProvider \<Rightarrow> 'a \<Rightarrow> BatchProviderStatus \<Rightarrow>
    ('z batch_db_scheme, goerr + BatchImageProcessResult) state" where
  "handle_status env p job provider account status = (let
      state = ps_InternalState status;
      raw = (''provider_state'', JStr (ps_RawState status));
      later = ret (Inr (requeue_result (requeueDelay p (ps_SuggestedRequeueAfter status))))
    in if state = BatchProviderStateQueued then later
     else if state = BatchProviderStateRunning then
       (if jb_Status job \<noteq> BatchImageJobStatusRunning then do {
          t \<leftarrow> TransitionBatchImageJobStatus (jb_BatchID job) BatchImageJobStatusRunning
                (no_options ''provider_status_checked'' [raw]);
          chain t (\<lambda>_. later) }
        else later)
     else if state = BatchProviderStateSucceeded then
       (if jb_Status job \<noteq> BatchImageJobStatusIndexing then do {
          t \<leftarrow> TransitionBatchImageJobStatus (jb_BatchID job) BatchImageJobStatusIndexing
                (no_options ''indexing_started'' [raw]);
          chain t (\<lambda>_. indexAndSettle env p (job\<lparr>jb_Status := BatchImageJobStatusIndexing\<rparr>) provider account) }
        else indexAndSettle env p job provider account)
     else if state = BatchProviderStateFailed \<or> state = BatchProviderStateExpired then
       (let given = trim_space (ps_ErrorCode status);
            code = (if given \<noteq> [] then given
                    else if state = BatchProviderStateExpired then ''PROVIDER_BATCH_EXPIRED''
                    else ''PROVIDER_BATCH_FAILED'');
            msg = truncateBatchImageMessage (ps_ErrorMessage status) batchImageMaxErrorMessageLength
        in end_job env p job BatchImageJobStatusFailed
             ((no_options ''job_failed'' [raw, (''error_code'', JStr code)])
                \<lparr>to_ErrorCode := Some code, to_ErrorMessage := batchImageOptionalStringPtr msg\<rparr>))
     else if state = BatchProviderStateCancelled then
       end_job env p job BatchImageJobStatusCancelled
         (no_options ''job_failed'' [raw, (''error_code'', JStr ''PROVIDER_BATCH_CANCELLED'')])
     else later)"

text \<open>From the call of the provider to the end.\<close>

definition check_provider :: "'e driver_scheme \<Rightarrow> 'a BatchImageProviderProcessor \<Rightarrow> f64 BatchImageJob \<Rightarrow>
    'a BatchImageProvider \<Rightarrow> 'a \<Rightarrow> ('z batch_db_scheme, goerr + BatchImageProcessResult) state" where
  "check_provider env p job provider account = (case pv_Get provider job account of
      Inl err \<Rightarrow> ret (Inr (requeue_result batchImageProviderErrorRequeue))
    | Inr None \<Rightarrow> ret (Inr (requeue_result (requeueDelay p 0)))
    | Inr (Some status) \<Rightarrow> do {
        r \<leftarrow> persistProviderOutputRef job (ps_ProviderOutputRef status);
        chain r (\<lambda>job1. handle_status env p job1 provider account status) })"

definition Process :: "'e driver_scheme \<Rightarrow> 'a BatchImageProviderProcessor \<Rightarrow> string \<Rightarrow>
    ('z batch_db_scheme, goerr + BatchImageProcessResult) state" where
  "Process env p batchID = do {
     r \<leftarrow> GetBatchImageJobByBatchID env batchID;
     chain r (\<lambda>job.
       if isBatchImageProcessorDoneStatus (jb_Status job) then do {
         rel \<leftarrow> releaseTerminalHold env p job;
         chain rel (\<lambda>_. ret (Inr terminal_result)) }
       else (case pp_Registry p (jb_Provider job) of
           None \<Rightarrow> ret (Inl ErrBatchImageUnsupportedProvider)
         | Some provider \<Rightarrow>
             if deref_or 0 (jb_AccountID job) \<le> 0 then ret (Inl ErrBatchImageMissingAccountID)
             else chain (pp_ResolveAccount p (deref_or 0 (jb_AccountID job))) (\<lambda>account.
               if \<not> pv_SupportsAccount provider account then ret (Inl ErrBatchImageProviderUnsupportedAccount)
               else if batchImageDerefString (jb_ProviderJobName job) = [] then
                 ret (Inl ErrBatchImageMissingProviderJobName)
               else if jb_Status job = BatchImageJobStatusIndexing then indexAndSettle env p job provider account
               else check_provider env p job provider account))) }"

subsection \<open>The pipeline\<close>

text \<open>\<open>settlement\<close> is None when no settlement service is configured.\<close>

definition pipeline_Process :: "'e driver_scheme \<Rightarrow> 'a BatchImageProviderProcessor \<Rightarrow>
    BatchImageSettlementService option \<Rightarrow> int \<Rightarrow> string \<Rightarrow>
    ('z batch_db_scheme, goerr + BatchImageProcessResult) state" where
  "pipeline_Process env p settlement retryDelay batchID = do {
     r \<leftarrow> GetBatchImageJobByBatchID env batchID;
     chain r (\<lambda>job.
       if jb_Status job = BatchImageJobStatusSettling then
         (case settlement of
            None \<Rightarrow> ret (Inr terminal_result)
          | Some s \<Rightarrow> do {
              x \<leftarrow> Settle env s batchID;
              case x of
                Inl err \<Rightarrow>
                  if err_is err ErrBatchImageSettlementBillingFailed then do {
                    u \<leftarrow> GetBatchImageJobByBatchID env batchID;
                    ret (Inr (case u of
                        Inr updated \<Rightarrow> if IsTerminalBatchImageJobStatus (jb_Status updated) then terminal_result
                          else requeue_result (positive_or batchImageSettlementRetryDelay retryDelay)
                      | Inl _ \<Rightarrow> requeue_result (positive_or batchImageSettlementRetryDelay retryDelay))) }
                  else ret (Inl err)
              | Inr _ \<Rightarrow> ret (Inr terminal_result) })
       else Process env p batchID) }"


subsection \<open>A job that leaves the queue\<close>

lemma Transition_InrD:
  assumes "run_state (TransitionBatchImageJobStatus b s opts) w = (Inr (), w')"
  obtains j j' where "find_job w b = Some j" "find_job w' b = Some j'" "jb_Status j' = s"
    "job_identity j' = job_identity j"
proof -
  from assms obtain fs w2 fs' where
    body: "run_state (transitionBatchImageJobStatusWithSQL b s opts) (w\<lparr>faults := fs\<rparr>) = (Inr (), w2)" and
    w': "w' = w2\<lparr>faults := fs'\<rparr>"
    unfolding TransitionBatchImageJobStatus_def in_tx_def
    by (cases rule: with_tx_cases) (auto elim!: run_elims)
  from body obtain current w3 t w4 n w5 where
    sel: "run_state (select_status_for_update b) (w\<lparr>faults := fs\<rparr>) = (Inr current, w3)" and
    t: "run_state time_now w3 = (t, w4)" and
    upd: "run_state (exec_job b (\<lambda>_. True)
       (set_status (deref_or t (to_Now opts)) s (to_ErrorCode opts) (to_ErrorMessage opts))) w4 = (Inr n, w5)" and
    ev: "w2 = w5 \<or> run_state (appendBatchImageEventWithSQL b (to_EventType opts) (to_EventPayload opts)) w5 = (Inr (), w2)"
    unfolding transitionBatchImageJobStatusWithSQL_def Let_def
    by (auto elim!: run_elims split: if_splits) blast+
  from sel obtain j gs where j: "find_job w b = Some j" "w3 = w\<lparr>faults := gs\<rparr>"
    by (elim select_statusD) auto
  have w4: "find_job w4 b = Some j" using time_now_find_job [OF t, of b] j by simp
  from upd w4 obtain j' hs where
    j': "set_status (deref_or t (to_Now opts)) s (to_ErrorCode opts) (to_ErrorMessage opts) j = Inr j'"
    and w5: "w5 = put_job j' (w4\<lparr>faults := hs\<rparr>)"
    unfolding exec_job_def by (auto elim!: stmt_InrE split: sum.splits)
  have row: "jb_Status j' = s" "job_identity j' = job_identity j"
    using j' by (auto simp: set_status_def sum_bind_Inr touch_def job_identity_def
        dest!: set_error_evolves split: if_splits)
  then have "find_job w5 b = Some j'"
    using w4 w5 find_job_id [OF w4] by (simp add: find_put_job job_identity_def)
  then have "find_job w' b = Some j'" using ev w' by (auto dest: event_keeps_jobs(1) [where b' = b])
  with j row show ?thesis using that by blast
qed

text \<open>Done with a job: its row is terminal, and the hold of a failed or cancelled job is returned.\<close>

definition closed_job :: "'e driver_scheme \<Rightarrow> 'z batch_db_scheme \<Rightarrow> string \<Rightarrow> bool" where
  "closed_job env w b \<longleftrightarrow> (\<exists>j. find_job w b = Some j \<and> IsTerminalBatchImageJobStatus (jb_Status j)
     \<and> (jb_Status j \<in> {BatchImageJobStatusFailed, BatchImageJobStatusCancelled} \<longrightarrow> hold_returned env w j))"

lemma releaseTerminalHold_InrD:
  assumes "run_state (releaseTerminalHold env p job) w = (Inr (), w')"
  shows "keeps_jobs w w'"
    and "jb_Status job \<in> {BatchImageJobStatusFailed, BatchImageJobStatusCancelled} \<Longrightarrow> same_hold env job j \<Longrightarrow>
      hold_returned env w' j"
proof -
  have release: "steps keeps_jobs (releaseBatchImageBalanceHold env job h)" for h
    unfolding releaseBatchImageBalanceHold_def
    by (intro steps_intro jobs_of_billing.hold_operations jobs_of_billing.props)
  have "steps keeps_jobs (releaseTerminalHold env p job)"
    unfolding releaseTerminalHold_def
    by (intro steps_intro jobs_of_billing.props release usage_log_keeps_jobs)
  with assms show "keeps_jobs w w'" by (blast dest: stepsD)
  assume st: "jb_Status job \<in> {BatchImageJobStatusFailed, BatchImageJobStatusCancelled}" and "same_hold env job j"
  then obtain w1 where
    r: "run_state (releaseBatchImageBalanceHold env job (batchImageDerefString (jb_RequestHash job))) w = (Inr (), w1)"
    and i: "run_state (invalidateAuthCache (pp_AuthCache p) (jb_UserID job)) w1 = ((), w')"
    using assms unfolding releaseTerminalHold_def by (auto elim!: run_elims split: if_splits)
  have "hold_returned env w1 j"
    using release_hold_InrD [OF r] \<open>same_hold env job j\<close>
    by (auto simp: hold_returned_def same_hold_def release_key_def)
  then show "hold_returned env w' j"
    using keeps_billing_claimed [OF stepsD [OF billing_of_jobs.side_effects(1) i]] by (simp add: hold_returned_def)
qed

lemma end_job_closed:
  assumes run: "run_state (end_job env p job s opts) w = (Inr r, w')"
    and s: "s \<in> {BatchImageJobStatusFailed, BatchImageJobStatusCancelled}"
    and j: "find_job w (jb_BatchID job) = Some j" "same_hold env job j"
  shows "closed_job env w' (jb_BatchID job)"
proof -
  from run obtain w1 where t: "run_state (TransitionBatchImageJobStatus (jb_BatchID job) s opts) w = (Inr (), w1)"
    and rel: "run_state (releaseTerminalHold env p (job\<lparr>jb_Status := s\<rparr>)) w1 = (Inr (), w')"
    unfolding end_job_def by (auto elim!: run_elims)
  from t j(1) obtain j' where j': "find_job w1 (jb_BatchID job) = Some j'" "jb_Status j' = s"
    "job_identity j' = job_identity j"
    by (elim Transition_InrD) auto
  have "same_hold env (job\<lparr>jb_Status := s\<rparr>) j'"
    using same_hold_identity [OF j(2) j'(3)] by (simp add: same_hold_def hold_amount_def)
  then have "hold_returned env w' j'" using releaseTerminalHold_InrD(2) [OF rel] s by simp
  then show ?thesis
    using j' s keeps_jobs_find [OF releaseTerminalHold_InrD(1) [OF rel]]
    by (auto simp: closed_job_def IsTerminalBatchImageJobStatus_def)
qed

lemma terminal_result_simps [simp]: "pr_Terminal terminal_result" "\<not> pr_Terminal (requeue_result d)"
  by (simp_all add: terminal_result_def requeue_result_def)

text \<open>Indexing is a terminal step only when it fails the job.\<close>

lemma Index_lifecycle: "steps lifecycle (Index env um provider job account)"
proof -
  have pages: "steps lifecycle (State (listExpectedCustomIDs env b e off))" for b e off
  proof (rule stepsI)
    fix w
    show "lifecycle w (snd (run_state (State (listExpectedCustomIDs env b e off)) w))"
    proof (induction env b e off w rule: listExpectedCustomIDs.induct)
      case (1 env b e off w)
      obtain r w1 where r: "run_state (ListBatchImageItems env b \<lparr>itf_Status = [], itf_Limit = 500, itf_Offset = off\<rparr>) w
          = (r, w1)" by fastforce
      have w1: "lifecycle w w1" using lifecycle_reads(2) r by (rule stepsD)
      show ?case
        using 1 [OF r [symmetric]] r w1
        by (cases r) (auto simp: listExpectedCustomIDs.simps [of env b e off w] Let_def intro: lifecycle_trans)
    qed
  qed
  show ?thesis
    unfolding Index_def Let_def by (intro steps_intro frame_steps pages lifecycle_props)
qed


lemma lifecycle_row:
  assumes "lifecycle w w'" "find_job w b = Some j" "same_hold env job j"
  obtains j' where "find_job w' b = Some j'" "same_hold env job j'" "reaches (jb_Status j) (jb_Status j')"
  using lifecycleD [OF assms(1,2)] same_hold_identity [OF assms(3)] that by blast

lemma indexAndSettle_terminal:
  assumes run: "run_state (indexAndSettle env p job provider account) w = (Inr r, w')" "pr_Terminal r"
    and j: "find_job w (jb_BatchID job) = Some j" "same_hold env job j"
  shows "closed_job env w' (jb_BatchID job)"
proof -
  obtain x w1 where x: "run_state (Index env (pp_Unmarshal p) provider job account) w = (x, w1)" by fastforce
  have "lifecycle w w1" using Index_lifecycle x by (rule stepsD)
  then obtain j1 where j1: "find_job w1 (jb_BatchID job) = Some j1" "same_hold env job j1"
    using j by (rule lifecycle_row)
  from run x obtain opts where "run_state (end_job env p job BatchImageJobStatusFailed opts) w1 = (Inr r, w')"
    unfolding indexAndSettle_def Let_def
    by (auto simp: run_bind [of "Index _ _ _ _ _"] elim!: run_elims split: sum.splits if_splits)
  then show ?thesis by (rule end_job_closed [OF _ _ j1]) simp
qed

lemma handle_status_terminal:
  assumes run: "run_state (handle_status env p job provider account status) w = (Inr r, w')" "pr_Terminal r"
    and j: "find_job w (jb_BatchID job) = Some j" "same_hold env job j"
  shows "closed_job env w' (jb_BatchID job)"
proof -
  have ended: "closed_job env w' (jb_BatchID job)"
    if "run_state (end_job env p job s opts) w = (Inr r, w')"
      "s \<in> {BatchImageJobStatusFailed, BatchImageJobStatusCancelled}" for s opts
    using that j by (rule end_job_closed)
  have indexed: "closed_job env w' (jb_BatchID job)"
    if "run_state (TransitionBatchImageJobStatus (jb_BatchID job) BatchImageJobStatusIndexing opts) w = (Inr (), w1)"
      "run_state (indexAndSettle env p (job\<lparr>jb_Status := BatchImageJobStatusIndexing\<rparr>) provider account) w1 = (Inr r, w')"
    for opts w1
  proof -
    from that(1) obtain j0 j1 where "find_job w (jb_BatchID job) = Some j0"
      "find_job w1 (jb_BatchID job) = Some j1" "job_identity j1 = job_identity j0" by (rule Transition_InrD)
    with j have j1: "find_job w1 (jb_BatchID job) = Some j1" "same_hold env job j1"
      using same_hold_identity [OF j(2)] by simp_all
    then have "same_hold env (job\<lparr>jb_Status := BatchImageJobStatusIndexing\<rparr>) j1"
      by (simp add: same_hold_def hold_amount_def)
    with indexAndSettle_terminal [OF that(2) run(2)] j1(1) show ?thesis by simp
  qed
  have "BatchImageJobStatusFailed \<in> {BatchImageJobStatusFailed, BatchImageJobStatusCancelled}"
    "BatchImageJobStatusCancelled \<in> {BatchImageJobStatusFailed, BatchImageJobStatusCancelled}" by simp_all
  then show ?thesis
    using run indexAndSettle_terminal [OF _ run(2) j] unfolding handle_status_def Let_def
    by (auto elim!: run_elims dest: ended indexed simp del: insert_iff split: if_splits)
qed

lemma persist_InrD:
  assumes "run_state (persistProviderOutputRef job ref) w = (Inr job1, w')"
    and j: "find_job w (jb_BatchID job) = Some j" "same_hold env job j"
  obtains j' where "find_job w' (jb_BatchID job1) = Some j'" "same_hold env job1 j'" "jb_BatchID job1 = jb_BatchID job"
proof -
  have "steps lifecycle (persistProviderOutputRef job ref)"
    unfolding persistProviderOutputRef_def Let_def by (intro steps_intro lifecycle_props)
  then have "lifecycle w w'" using assms(1) by (rule stepsD)
  then obtain j' where "find_job w' (jb_BatchID job) = Some j'" "same_hold env job j'"
    using j by (rule lifecycle_row)
  moreover have "job1 = job \<or> (\<exists>r. job1 = job\<lparr>jb_ProviderOutputRef := r\<rparr>)"
    using assms(1) by (auto simp: persistProviderOutputRef_def Let_def elim!: run_elims)
  ultimately show ?thesis using that by (auto simp: same_hold_def hold_amount_def)
qed

lemma check_provider_terminal:
  assumes run: "run_state (check_provider env p job provider account) w = (Inr r, w')" "pr_Terminal r"
    and j: "find_job w (jb_BatchID job) = Some j" "same_hold env job j"
  shows "closed_job env w' (jb_BatchID job)"
proof -
  from run obtain ref job1 w1 status where
    "run_state (persistProviderOutputRef job ref) w = (Inr job1, w1)"
    and h: "run_state (handle_status env p job1 provider account status) w1 = (Inr r, w')"
    by (auto simp: check_provider_def elim!: run_elims split: sum.splits option.splits)
  then obtain j1 where "find_job w1 (jb_BatchID job1) = Some j1" "same_hold env job1 j1"
    "jb_BatchID job1 = jb_BatchID job"
    using j by (elim persist_InrD) auto
  with handle_status_terminal [OF h run(2)] show ?thesis by simp
qed

lemma Process_terminal:
  assumes run: "run_state (Process env p b) w = (Inr r, w')" and fin: "pr_Terminal r"
  shows "closed_job env w' b
    \<or> (\<exists>j. find_job w b = Some j \<and> find_job w' b = Some j \<and> jb_Status j = BatchImageJobStatusSettling)"
proof -
  from run obtain job w1 where r: "run_state (GetBatchImageJobByBatchID env b) w = (Inr job, w1)"
    unfolding Process_def by (auto elim!: run_elims)
  then obtain j fs where j: "find_job w b = Some j" "job = scanBatchImageJob env j" "w1 = w\<lparr>faults := fs\<rparr>"
    by (rule read_job_InrD)
  then have found: "find_job w1 (jb_BatchID job) = Some j" "same_hold env job j" "jb_BatchID job = b"
    "jb_Status job = jb_Status j"
    using find_job_id [OF j(1)] by (simp_all add: same_hold_def scanBatchImageJob_def hold_amount_def)
  show ?thesis
  proof (cases "isBatchImageProcessorDoneStatus (jb_Status job)")
    case True
    then have rel: "run_state (releaseTerminalHold env p job) w1 = (Inr (), w')"
      using run r unfolding Process_def
      by (auto simp: run_bind [of "GetBatchImageJobByBatchID env b"] elim!: run_elims)
    then have row: "find_job w' b = Some j"
      using keeps_jobs_find [OF releaseTerminalHold_InrD(1) [OF rel]] found by simp
    then show ?thesis
      using True releaseTerminalHold_InrD(2) [OF rel _ found(2)] found(4) j(1)
      by (auto simp: isBatchImageProcessorDoneStatus_def closed_job_def)
  next
    case False
    then obtain provider account where
      "run_state (indexAndSettle env p job provider account) w1 = (Inr r, w')
       \<or> run_state (check_provider env p job provider account) w1 = (Inr r, w')"
      using run r unfolding Process_def
      by (auto simp: run_bind [of "GetBatchImageJobByBatchID env b"] elim!: run_elims split: if_splits option.splits)
    then have "closed_job env w' (jb_BatchID job)"
      by (elim disjE) (erule indexAndSettle_terminal [OF _ fin found(1,2)] check_provider_terminal [OF _ fin found(1,2)])+
    then show ?thesis using found(3) by simp
  qed
qed


lemma reaches_settling:
  "reaches BatchImageJobStatusSettling s \<Longrightarrow> s \<in> {BatchImageJobStatusSettling, BatchImageJobStatusCompleted,
     BatchImageJobStatusFailed, BatchImageJobStatusOutputDeleted}"
proof (induction rule: rtranclp_induct)
  case (step s t)
  then show ?case
    by (auto simp: CanTransitionBatchImageJob_def IsTerminalBatchImageJobStatus_def allowed_transitions_def
        split: if_splits)
qed simp

lemma pipeline_terminal:
  assumes run: "run_state (pipeline_Process env p (Some s) d b) w = (Inr r, w')" and fin: "pr_Terminal r"
  shows "closed_job env w' b"
proof -
  from run obtain job w1 where r: "run_state (GetBatchImageJobByBatchID env b) w = (Inr job, w1)"
    unfolding pipeline_Process_def by (auto elim!: run_elims)
  then obtain j fs where j: "find_job w b = Some j" "job = scanBatchImageJob env j" "w1 = w\<lparr>faults := fs\<rparr>"
    by (rule read_job_InrD)
  then have found: "find_job w1 b = Some j" "jb_Status job = jb_Status j"
    by (simp_all add: scanBatchImageJob_def)
  show ?thesis
  proof (cases "jb_Status j = BatchImageJobStatusSettling")
    case False
    then have "run_state (Process env p b) w1 = (Inr r, w')"
      using run r found unfolding pipeline_Process_def
      by (auto simp: run_bind [of "GetBatchImageJobByBatchID env b"] elim!: run_elims)
    from Process_terminal [OF this fin] False found(1) show ?thesis by auto
  next
    case True
    then have settle: "run_state (do {
        x \<leftarrow> Settle env s b;
        case x of
          Inl err \<Rightarrow>
            if err_is err ErrBatchImageSettlementBillingFailed then do {
              u \<leftarrow> GetBatchImageJobByBatchID env b;
              ret (Inr (case u of
                  Inr updated \<Rightarrow> if IsTerminalBatchImageJobStatus (jb_Status updated) then terminal_result
                    else requeue_result (positive_or batchImageSettlementRetryDelay d)
                | Inl _ \<Rightarrow> requeue_result (positive_or batchImageSettlementRetryDelay d))) }
            else ret (Inl err)
        | Inr _ \<Rightarrow> ret (Inr terminal_result) }) w1 = (Inr r, w')"
      using run r found unfolding pipeline_Process_def
      by (simp add: run_bind [of "GetBatchImageJobByBatchID env b"])
    obtain x w2 where x: "run_state (Settle env s b) w1 = (x, w2)" by fastforce
    show ?thesis
    proof (cases x)
      case (Inr res)
      then have "w' = w2" using settle x by (simp add: run_bind)
      with Settle_InrD [OF x [unfolded Inr]] found(1) True show ?thesis
        by (auto simp: closed_job_def IsTerminalBatchImageJobStatus_def)
    next
      case (Inl err)
      with settle x fin obtain updated where
        u: "run_state (GetBatchImageJobByBatchID env b) w2 = (Inr updated, w')"
        and t: "IsTerminalBatchImageJobStatus (jb_Status updated)"
        by (auto simp: run_bind [of "Settle env s b"] elim!: run_elims split: if_splits sum.splits)
      from u obtain j2 gs where j2: "find_job w2 b = Some j2" "updated = scanBatchImageJob env j2"
        "w' = w2\<lparr>faults := gs\<rparr>" by (rule read_job_InrD)
      have "lifecycle w1 w2" using lifecycle_settle x by (rule stepsD)
      then have "reaches BatchImageJobStatusSettling (jb_Status j2)"
        using lifecycleD [of w1 w2 b j] found(1) True j2(1) by auto
      then have st: "jb_Status j2 \<in> {BatchImageJobStatusSettling, BatchImageJobStatusCompleted,
          BatchImageJobStatusFailed, BatchImageJobStatusOutputDeleted}" by (rule reaches_settling)
      have "gives_up_last env w1 w2" using Settle_gives_up_last x by (rule stepsD)
      then have "jb_Status j2 = BatchImageJobStatusFailed \<Longrightarrow> hold_returned env w2 j"
        and id: "job_identity j2 = job_identity j"
        using found(1) True j2(1) unfolding gives_up_last_def by fastforce+
      then have "jb_Status j2 = BatchImageJobStatusFailed \<Longrightarrow> hold_returned env w' j2"
        using j2(3) by (simp add: hold_returned_identity [OF id]) (simp add: hold_returned_def claimed_def)
      then show ?thesis
        using t st j2 by (auto simp: closed_job_def scanBatchImageJob_def)
    qed
  qed
qed

lemma closed_job_tables: "closed_job env w b \<Longrightarrow> keeps_tables w w' \<Longrightarrow> closed_job env w' b"
  by (auto simp: closed_job_def keeps_tables_def hold_returned_def keeps_jobs_find keeps_billing_claimed)

text \<open>
  C5: The worker, the queue, the processor and the settlement together: a round of the worker that ends
  without an error either leaves the job it took in the queue, or the job is terminal and, when it
  failed or was cancelled, its hold has been returned; whatever the provider answers and whatever calls fail.
\<close>

theorem job_leaves_queue_closed:
  assumes "run_state (RunOnce (redis_queue opts) (pipeline_Process env p (Some s) d) wopts beats) w = (Inr (), w')"
    and "fst (run_state (Reserve (wo_ReserveBlockTimeout wopts)) w) = Inr b"
  shows "b \<in> queued w' \<or> closed_job env w' b"
  by (rule redis_tables.RunOnce_accounts [OF assms(1)])
    (use assms(2) in \<open>auto simp: redis_queue_def intro: pipeline_terminal closed_job_tables\<close>)


definition demo_processor :: "unit BatchImageProviderProcessor" where
  "demo_processor = \<lparr>pp_Registry = NewBatchImageProviderRegistry [demo_provider ''{}''],
     pp_ResolveAccount = (\<lambda>_. Inr ()), pp_Unmarshal = (\<lambda>_. Inr demo_line), pp_AuthCache = True,
     pp_DefaultRequeue = 0\<rparr>"

definition done_service :: BatchImageSettlementService where
  "done_service = \<lparr>ss_Pricing = (\<lambda>_. Inl ErrBatchImageSettlementPricingMissing), ss_UsageLog = True,
     ss_AuthCache = True, ss_RetentionHours = None\<rparr>"

definition done_system :: batch_sys where
  "done_system = exec_queue default_queue_options (QEnqueue ''imgbatch_b1'')
     (batch_system (batch_world demo_world [demo_job ''imgbatch_b1'' ''completed'']))"

lemma job_leaves_queue_closed_witness:
  "closed_job exact_driver (snd (run_state (RunOnce (redis_queue default_queue_options)
      (pipeline_Process exact_driver demo_processor (Some done_service) 0)
      (NewBatchImageWorkerOptionsFromConfig None) (1, 0)) done_system)) ''imgbatch_b1''"
proof -
  let ?run = "run_state (RunOnce (redis_queue default_queue_options)
      (pipeline_Process exact_driver demo_processor (Some done_service) 0)
      (NewBatchImageWorkerOptionsFromConfig None) (1, 0)) done_system"
  have all: "fst ?run = Inr () \<and> ready (snd ?run) = [] \<and> delayed (snd ?run) = [] \<and> active (snd ?run) = []"
    by code_simp
  then have run: "?run = (Inr (), snd ?run)" by (metis prod.collapse)
  have gone: "''imgbatch_b1'' \<notin> queued (snd ?run)" unfolding queued_def using all by simp
  have "fst (run_state (Reserve (wo_ReserveBlockTimeout (NewBatchImageWorkerOptionsFromConfig None))) done_system)
      = Inr ''imgbatch_b1''" by code_simp
  from job_leaves_queue_closed [OF run this] gone show ?thesis by blast
qed

end
