(* ===== verification/Idempotency.thy ===== *)
theory Idempotency
  imports Database GoJson
begin

section \<open>Idempotent execution of write requests\<close>

text \<open>
  \<^verbatim>\<open>service/idempotency.go\<close>, its repository \<^verbatim>\<open>repository/idempotency_repo.go\<close> and the cleanup of
  \<^verbatim>\<open>service/idempotency_cleanup_service.go\<close>, on the table of migration 057.  The table is a list of
  rows; a statement is one atomic step.  SHA-256 and \<^verbatim>\<open>encoding/json\<close> are parameters.  The request
  handler that \<^verbatim>\<open>Execute\<close> guards is an arbitrary effectful program.  Audit log lines and counters
  are left out.
\<close>

subsection \<open>The table\<close>

record IdempotencyRecord =
  id_ID :: int
  id_Scope :: string
  id_KeyHash :: string
  id_Fingerprint :: string
  id_Status :: string
  id_ResponseStatus :: "int option"
  id_ResponseBody :: "string option"
  id_ErrorReason :: "string option"
  id_LockedUntil :: "int option"
  id_ExpiresAt :: int

record idem_db = world +
  idem_rows :: "IdempotencyRecord list"
  next_idem_id :: int

definition IdempotencyStatusProcessing :: string where
  "IdempotencyStatusProcessing = ''processing''"
definition IdempotencyStatusSucceeded :: string where
  "IdempotencyStatusSucceeded = ''succeeded''"
definition IdempotencyStatusFailedRetryable :: string where
  "IdempotencyStatusFailedRetryable = ''failed_retryable''"

definition idem_stmt :: "('z idem_db_scheme \<Rightarrow> (goerr + 'a) \<times> 'z idem_db_scheme) \<Rightarrow>
    ('z idem_db_scheme, goerr + 'a) state" where
  "idem_stmt f = io (State f)"

definition same_key :: "string \<Rightarrow> string \<Rightarrow> IdempotencyRecord \<Rightarrow> bool" where
  "same_key scope keyHash r \<longleftrightarrow> id_Scope r = scope \<and> id_KeyHash r = keyHash"

text \<open>
  \<^verbatim>\<open>INSERT ... ON CONFLICT DO NOTHING RETURNING id\<close>: the id comes from the sequence, which advances
  even when the row is not inserted.  \<open>None\<close> is \<^verbatim>\<open>false\<close>, \<open>Some\<close> carries the id that the code stores in
  the record.
\<close>

definition CreateProcessing :: "IdempotencyRecord \<Rightarrow> ('z idem_db_scheme, goerr + int option) state" where
  "CreateProcessing r = idem_stmt (\<lambda>w.
     let rid = next_idem_id w; w = w\<lparr>next_idem_id := rid + 1\<rparr> in
     if \<not> (varchar_fits 128 (id_Scope r) \<and> varchar_fits 64 (id_KeyHash r) \<and>
          varchar_fits 64 (id_Fingerprint r) \<and> varchar_fits 32 (id_Status r)) then (Inl sql_too_long, w)
     else if list_ex (same_key (id_Scope r) (id_KeyHash r)) (idem_rows w) then (Inr None, w)
     else (Inr (Some rid), w\<lparr>idem_rows := idem_rows w @ [r\<lparr>id_ID := rid, id_ResponseStatus := None,
             id_ResponseBody := None, id_ErrorReason := None\<rparr>]\<rparr>))"

definition GetByScopeAndKeyHash ::
  "string \<Rightarrow> string \<Rightarrow> ('z idem_db_scheme, goerr + IdempotencyRecord option) state" where
  "GetByScopeAndKeyHash scope keyHash = idem_stmt (\<lambda>w. (Inr (find (same_key scope keyHash) (idem_rows w)), w))"

text \<open>\<^verbatim>\<open>UPDATE ... WHERE\<close>: the answer says whether a row was affected.\<close>

definition update_records ::
  "(IdempotencyRecord \<Rightarrow> bool) \<Rightarrow> (IdempotencyRecord \<Rightarrow> IdempotencyRecord) \<Rightarrow>
   ('z idem_db_scheme, goerr + bool) state" where
  "update_records c f = idem_stmt (\<lambda>w. (Inr (list_ex c (idem_rows w)),
     w\<lparr>idem_rows := map (\<lambda>r. if c r then f r else r) (idem_rows w)\<rparr>))"

definition TryReclaim ::
  "int \<Rightarrow> string \<Rightarrow> int \<Rightarrow> int \<Rightarrow> int \<Rightarrow> ('z idem_db_scheme, goerr + bool) state" where
  "TryReclaim i fromStatus now newLockedUntil newExpiresAt =
     update_records
       (\<lambda>r. id_ID r = i \<and> id_Status r = fromStatus \<and>
            (case id_LockedUntil r of None \<Rightarrow> True | Some l \<Rightarrow> l \<le> now))
       (\<lambda>r. r\<lparr>id_Status := IdempotencyStatusProcessing, id_LockedUntil := Some newLockedUntil,
              id_ErrorReason := None, id_ExpiresAt := newExpiresAt\<rparr>)"

definition ExtendProcessingLock ::
  "int \<Rightarrow> string \<Rightarrow> int \<Rightarrow> int \<Rightarrow> ('z idem_db_scheme, goerr + bool) state" where
  "ExtendProcessingLock i requestFingerprint newLockedUntil newExpiresAt =
     update_records
       (\<lambda>r. id_ID r = i \<and> id_Status r = IdempotencyStatusProcessing \<and> id_Fingerprint r = requestFingerprint)
       (\<lambda>r. r\<lparr>id_LockedUntil := Some newLockedUntil, id_ExpiresAt := newExpiresAt\<rparr>)"

definition MarkSucceeded :: "int \<Rightarrow> int \<Rightarrow> string \<Rightarrow> int \<Rightarrow> ('z idem_db_scheme, goerr + bool) state" where
  "MarkSucceeded i responseStatus responseBody expiresAt =
     update_records (\<lambda>r. id_ID r = i)
       (\<lambda>r. r\<lparr>id_Status := IdempotencyStatusSucceeded, id_ResponseStatus := Some responseStatus,
              id_ResponseBody := Some responseBody, id_ErrorReason := None, id_LockedUntil := None,
              id_ExpiresAt := expiresAt\<rparr>)"

text \<open>\<^verbatim>\<open>error_reason\<close> is \<^verbatim>\<open>VARCHAR(128)\<close>: a longer reason fails the statement when a row matches.\<close>

definition MarkFailedRetryable :: "int \<Rightarrow> string \<Rightarrow> int \<Rightarrow> int \<Rightarrow> ('z idem_db_scheme, goerr + bool) state" where
  "MarkFailedRetryable i errorReason lockedUntil expiresAt =
     (if varchar_fits 128 errorReason
      then update_records (\<lambda>r. id_ID r = i)
        (\<lambda>r. r\<lparr>id_Status := IdempotencyStatusFailedRetryable, id_ErrorReason := Some errorReason,
               id_LockedUntil := Some lockedUntil, id_ExpiresAt := expiresAt\<rparr>)
      else idem_stmt (\<lambda>w. (if list_ex (\<lambda>r. id_ID r = i) (idem_rows w) then Inl sql_too_long else Inr False, w)))"

text \<open>The victims are the expired rows that expired first; ties are broken by the order of the rows.\<close>

definition DeleteExpired :: "int \<Rightarrow> int \<Rightarrow> ('z idem_db_scheme, goerr + int) state" where
  "DeleteExpired now limit = idem_stmt (\<lambda>w.
     let limit = (if limit \<le> 0 then 500 else limit);
         victims = map id_ID (take (nat limit)
           (sort_key id_ExpiresAt (filter (\<lambda>r. id_ExpiresAt r \<le> now) (idem_rows w))));
         kept = filter (\<lambda>r. id_ID r \<notin> set victims) (idem_rows w) in
     (Inr (int (length (idem_rows w)) - int (length kept)), w\<lparr>idem_rows := kept\<rparr>))"

subsection \<open>Keys and fingerprints\<close>

record IdempotencyConfig =
  DefaultTTL :: int
  SystemOperationTTL :: int
  ProcessingTimeout :: int
  FailedRetryBackoff :: int
  MaxStoredResponseLen :: int
  ObserveOnly :: bool

definition DefaultIdempotencyConfig :: IdempotencyConfig where
  "DefaultIdempotencyConfig = \<lparr>DefaultTTL = 24 * hour, SystemOperationTTL = 1 * hour,
     ProcessingTimeout = 30 * second, FailedRetryBackoff = 5 * second,
     MaxStoredResponseLen = 64 * 1024, ObserveOnly = True\<rparr>"

text \<open>The coordinator: \<open>ic_repo\<close> says that the repository is not nil.\<close>

record IdempotencyCoordinator =
  ic_repo :: bool
  ic_cfg :: IdempotencyConfig

definition DefaultWriteIdempotencyTTL :: "IdempotencyCoordinator option \<Rightarrow> int" where
  "DefaultWriteIdempotencyTTL svc = (case svc of
      Some c \<Rightarrow> if 0 < DefaultTTL (ic_cfg c) then DefaultTTL (ic_cfg c) else DefaultTTL DefaultIdempotencyConfig
    | None \<Rightarrow> DefaultTTL DefaultIdempotencyConfig)"

definition DefaultSystemOperationIdempotencyTTL :: "IdempotencyCoordinator option \<Rightarrow> int" where
  "DefaultSystemOperationIdempotencyTTL svc = (case svc of
      Some c \<Rightarrow> if 0 < SystemOperationTTL (ic_cfg c) then SystemOperationTTL (ic_cfg c)
               else SystemOperationTTL DefaultIdempotencyConfig
    | None \<Rightarrow> SystemOperationTTL DefaultIdempotencyConfig)"

record IdempotencyExecuteOptions =
  op_Scope :: string
  op_ActorScope :: string
  op_Method :: string
  op_Route :: string
  op_IdempotencyKey :: string
  op_Payload :: json
  op_TTL :: int
  op_RequireKey :: bool

record IdempotencyExecuteResult =
  er_Data :: json
  er_Replayed :: bool

definition ErrIdempotencyKeyRequired :: goerr where
  "ErrIdempotencyKeyRequired = BadRequest ''IDEMPOTENCY_KEY_REQUIRED'' ''idempotency key is required''"
definition ErrIdempotencyKeyInvalid :: goerr where
  "ErrIdempotencyKeyInvalid = BadRequest ''IDEMPOTENCY_KEY_INVALID'' ''idempotency key is invalid''"
definition ErrIdempotencyKeyConflict :: goerr where
  "ErrIdempotencyKeyConflict =
     Conflict ''IDEMPOTENCY_KEY_CONFLICT'' ''idempotency key reused with different payload''"
definition ErrIdempotencyInProgress :: goerr where
  "ErrIdempotencyInProgress = Conflict ''IDEMPOTENCY_IN_PROGRESS'' ''idempotent request is still processing''"
definition ErrIdempotencyRetryBackoff :: goerr where
  "ErrIdempotencyRetryBackoff =
     Conflict ''IDEMPOTENCY_RETRY_BACKOFF'' ''idempotent request is in retry backoff window''"
definition ErrIdempotencyStoreUnavail :: goerr where
  "ErrIdempotencyStoreUnavail =
     ServiceUnavailable ''IDEMPOTENCY_STORE_UNAVAILABLE'' ''idempotency store unavailable''"
definition ErrIdempotencyInvalidPayload :: goerr where
  "ErrIdempotencyInvalidPayload =
     BadRequest ''IDEMPOTENCY_PAYLOAD_INVALID'' ''failed to normalize request payload''"

text \<open>
  A byte above 126 belongs to a rune above 126 or to the replacement rune, so the loop over the
  runes accepts exactly the bytes from 33 to 126.
\<close>

definition key_char :: "char \<Rightarrow> bool" where
  "key_char c \<longleftrightarrow> 33 \<le> (of_char c :: nat) \<and> (of_char c :: nat) \<le> 126"

definition NormalizeIdempotencyKey :: "string \<Rightarrow> goerr + string" where
  "NormalizeIdempotencyKey raw =
     (let key = trim_space raw in
      if key = [] then Inr []
      else if 128 < length key then Inl ErrIdempotencyKeyInvalid
      else if \<not> list_all key_char key then Inl ErrIdempotencyKeyInvalid
      else Inr key)"

definition HashIdempotencyKey :: "'e driver_scheme \<Rightarrow> string \<Rightarrow> string" where
  "HashIdempotencyKey d key = sha256_hex d key"

text \<open>\<^verbatim>\<open>strings.ToUpper\<close> on an HTTP method, which is an ASCII token.\<close>

definition upper_char :: "char \<Rightarrow> char" where
  "upper_char c = (let n = (of_char c :: nat) in if 97 \<le> n \<and> n \<le> 122 then char_of (n - 32) else c)"

definition BuildIdempotencyFingerprint ::
  "'e driver_scheme \<Rightarrow> json_codec \<Rightarrow> string \<Rightarrow> string \<Rightarrow> string \<Rightarrow> json \<Rightarrow> goerr + string" where
  "BuildIdempotencyFingerprint d jc method route actorScope payload =
     (let method = (if method = [] then ''POST'' else method);
          route = (if route = [] then ''/'' else route);
          actorScope = (if actorScope = [] then ''anonymous'' else actorScope) in
      case jc_marshal jc payload of
        Inl err \<Rightarrow> Inl (WithCause ErrIdempotencyInvalidPayload err)
      | Inr raw \<Rightarrow> Inr (sha256_hex d (map upper_char method @ [CHR 0x0A] @ route @ [CHR 0x0A] @
                      actorScope @ [CHR 0x0A] @ raw)))"

definition RetryAfterSecondsFromError :: "goerr \<Rightarrow> int" where
  "RetryAfterSecondsFromError err =
     (case as_app err of None \<Rightarrow> 0
      | Some appErr \<Rightarrow> (case ae_metadata appErr of None \<Rightarrow> 0
        | Some md \<Rightarrow> (let v = trim_space (deref_or [] (map_of md ''retry_after'')) in
            if v = [] then 0
            else (case atoi v of None \<Rightarrow> 0 | Some seconds \<Rightarrow> if seconds \<le> 0 then 0 else seconds))))"

text \<open>\<^verbatim>\<open>int(lockedUntil.Sub(now).Seconds())\<close> drops the fraction of a second.\<close>

definition conflictWithRetryAfter :: "goerr \<Rightarrow> int option \<Rightarrow> int \<Rightarrow> goerr" where
  "conflictWithRetryAfter base lockedUntil now =
     (case lockedUntil of None \<Rightarrow> base
      | Some l \<Rightarrow> (let sec = go_div (l - now) second; sec = (if sec \<le> 0 then 1 else sec) in
          WithMetadata base (Some [(''retry_after'', itoa sec)])))"

subsection \<open>The stored response\<close>

text \<open>\<^verbatim>\<open>utf8.ValidString\<close>, on the values of the bytes.\<close>

definition cont :: "nat \<Rightarrow> bool" where "cont b \<longleftrightarrow> 128 \<le> b \<and> b \<le> 191"

fun valid_bytes :: "nat list \<Rightarrow> bool" where
  "valid_bytes [] = True"
| "valid_bytes (b # bs) =
     (if b < 128 then valid_bytes bs
      else if 194 \<le> b \<and> b \<le> 223 then
        (case bs of c1 # s \<Rightarrow> cont c1 \<and> valid_bytes s | _ \<Rightarrow> False)
      else if 224 \<le> b \<and> b \<le> 239 then
        (case bs of c1 # c2 # s \<Rightarrow>
           cont c1 \<and> (b = 224 \<longrightarrow> 160 \<le> c1) \<and> (b = 237 \<longrightarrow> c1 \<le> 159) \<and> cont c2 \<and> valid_bytes s | _ \<Rightarrow> False)
      else if 240 \<le> b \<and> b \<le> 244 then
        (case bs of c1 # c2 # c3 # s \<Rightarrow>
           cont c1 \<and> (b = 240 \<longrightarrow> 144 \<le> c1) \<and> (b = 244 \<longrightarrow> c1 \<le> 143) \<and> cont c2 \<and> cont c3 \<and> valid_bytes s
         | _ \<Rightarrow> False)
      else False)"

definition valid_utf8 :: "string \<Rightarrow> bool" where
  "valid_utf8 s \<longleftrightarrow> valid_bytes (map of_char s)"

fun back_off :: "string \<Rightarrow> nat \<Rightarrow> nat" where
  "back_off s 0 = 0"
| "back_off s (Suc n) = (if valid_utf8 (take (Suc n) s) then Suc n else back_off s n)"

definition truncateUTF8 :: "string \<Rightarrow> int \<Rightarrow> string" where
  "truncateUTF8 s maxBytes =
     (if maxBytes \<le> 0 \<or> int (length s) \<le> maxBytes then s else take (back_off s (nat maxBytes)) s)"

definition marshalStoredResponse :: "IdempotencyConfig \<Rightarrow> json_codec \<Rightarrow> json \<Rightarrow> goerr + string" where
  "marshalStoredResponse cfg jc data =
     (case jc_marshal jc data of Inl err \<Rightarrow> Inl err
      | Inr raw \<Rightarrow> (let redacted = RedactText jc raw in
          Inr (if 0 < MaxStoredResponseLen cfg \<and> MaxStoredResponseLen cfg < int (length redacted)
               then truncateUTF8 redacted (MaxStoredResponseLen cfg) @ ''...(truncated)'' else redacted)))"

definition decodeStoredResponse :: "json_codec \<Rightarrow> string option \<Rightarrow> goerr + json" where
  "decodeStoredResponse jc stored =
     (case stored of None \<Rightarrow> Inr (JsonObject [])
      | Some s \<Rightarrow> if trim_space s = [] then Inr (JsonObject [])
          else (case jc_unmarshal jc s of
              Inl err \<Rightarrow> Inl (WrapErr ''decode stored response'' err)
            | Inr out \<Rightarrow> Inr out))"

subsection \<open>Execute\<close>

definition unavailable :: "goerr \<Rightarrow> goerr" where
  "unavailable err = WithCause ErrIdempotencyStoreUnavail err"

text \<open>\<open>GetByScopeAndKeyHash\<close> with the checks that follow each of its two uses.\<close>

definition load_existing ::
  "string \<Rightarrow> string \<Rightarrow> string \<Rightarrow> ('z idem_db_scheme, goerr + IdempotencyRecord) state" where
  "load_existing scope keyHash fingerprint = do {
     g \<leftarrow> GetByScopeAndKeyHash scope keyHash;
     ret (case g of
         Inl getErr \<Rightarrow> Inl (unavailable getErr)
       | Inr None \<Rightarrow> Inl ErrIdempotencyStoreUnavail
       | Inr (Some existing) \<Rightarrow>
           if id_Fingerprint existing \<noteq> fingerprint then Inl ErrIdempotencyKeyConflict else Inr existing) }"

text \<open>What becomes of the request: it owns the record with this id, or the stored answer is replayed.\<close>

datatype claim = Owned int | Replay json

text \<open>The switch over the status of a record that was not taken over because it expired.\<close>

definition by_status ::
  "json_codec \<Rightarrow> IdempotencyRecord \<Rightarrow> int \<Rightarrow> int \<Rightarrow> int \<Rightarrow> ('z idem_db_scheme, goerr + claim) state" where
  "by_status jc existing now lockedUntil expiresAt =
     (if id_Status existing = IdempotencyStatusSucceeded then
        ret (case decodeStoredResponse jc (id_ResponseBody existing) of
            Inl parseErr \<Rightarrow> Inl (unavailable parseErr)
          | Inr data \<Rightarrow> Inr (Replay data))
      else if id_Status existing = IdempotencyStatusProcessing then
        ret (Inl (conflictWithRetryAfter ErrIdempotencyInProgress (id_LockedUntil existing) now))
      else if id_Status existing = IdempotencyStatusFailedRetryable then
        (if (case id_LockedUntil existing of None \<Rightarrow> False | Some l \<Rightarrow> now < l) then
           ret (Inl (conflictWithRetryAfter ErrIdempotencyRetryBackoff (id_LockedUntil existing) now))
         else do {
           t \<leftarrow> TryReclaim (id_ID existing) IdempotencyStatusFailedRetryable now lockedUntil expiresAt;
           ret (case t of
               Inl reclaimErr \<Rightarrow> Inl (unavailable reclaimErr)
             | Inr taken \<Rightarrow>
                 if taken then Inr (Owned (id_ID existing))
                 else Inl (conflictWithRetryAfter ErrIdempotencyInProgress (id_LockedUntil existing) now)) })
      else ret (Inl ErrIdempotencyKeyConflict))"

definition claim_existing ::
  "json_codec \<Rightarrow> string \<Rightarrow> string \<Rightarrow> string \<Rightarrow> int \<Rightarrow> int \<Rightarrow> int \<Rightarrow> ('z idem_db_scheme, goerr + claim) state" where
  "claim_existing jc scope keyHash fingerprint now lockedUntil expiresAt = do {
     g \<leftarrow> load_existing scope keyHash fingerprint;
     chain g (\<lambda>existing.
       if \<not> (now < id_ExpiresAt existing) then do {
         t \<leftarrow> TryReclaim (id_ID existing) (id_Status existing) now lockedUntil expiresAt;
         (case t of
             Inl reclaimErr \<Rightarrow> ret (Inl (unavailable reclaimErr))
           | Inr taken \<Rightarrow>
               if taken then ret (Inr (Owned (id_ID existing)))
               else do {
                 l \<leftarrow> load_existing scope keyHash fingerprint;
                 chain l (\<lambda>latest. by_status jc latest now lockedUntil expiresAt) })
       } else by_status jc existing now lockedUntil expiresAt) }"

definition claim_record ::
  "json_codec \<Rightarrow> string \<Rightarrow> string \<Rightarrow> string \<Rightarrow> int \<Rightarrow> int \<Rightarrow> int \<Rightarrow> ('z idem_db_scheme, goerr + claim) state" where
  "claim_record jc scope keyHash fingerprint now lockedUntil expiresAt = do {
     owner \<leftarrow> CreateProcessing \<lparr>id_ID = 0, id_Scope = scope, id_KeyHash = keyHash,
        id_Fingerprint = fingerprint, id_Status = IdempotencyStatusProcessing, id_ResponseStatus = None,
        id_ResponseBody = None, id_ErrorReason = None, id_LockedUntil = Some lockedUntil,
        id_ExpiresAt = expiresAt\<rparr>;
     (case owner of
         Inl err \<Rightarrow> ret (Inl (unavailable err))
       | Inr (Some rid) \<Rightarrow> ret (Inr (Owned rid))
       | Inr None \<Rightarrow> claim_existing jc scope keyHash fingerprint now lockedUntil expiresAt) }"

text \<open>The owner runs the request and records how it ended; \<^verbatim>\<open>return\<close> comes after the mark.\<close>

definition run_owned ::
  "IdempotencyConfig \<Rightarrow> json_codec \<Rightarrow> int \<Rightarrow> int \<Rightarrow> ('z idem_db_scheme, goerr + json) state \<Rightarrow>
   ('z idem_db_scheme, goerr + IdempotencyExecuteResult) state" where
  "run_owned cfg jc rid expiresAt execute = do {
     execStart \<leftarrow> time_now;
     r \<leftarrow> execute;
     (case r of
         Inl execErr \<Rightarrow> do {
           t \<leftarrow> time_now;
           _ \<leftarrow> MarkFailedRetryable rid
                 (let reason = Reason (Some execErr) in if reason = [] then ''EXECUTION_FAILED'' else reason)
                 (t + FailedRetryBackoff cfg) expiresAt;
           ret (Inl execErr) }
       | Inr data \<Rightarrow> (case marshalStoredResponse cfg jc data of
             Inl marshalErr \<Rightarrow> ret (Inl (unavailable marshalErr))
           | Inr storedBody \<Rightarrow> do {
               m \<leftarrow> MarkSucceeded rid 200 storedBody expiresAt;
               ret (case m of
                   Inl markErr \<Rightarrow> Inl (unavailable markErr)
                 | Inr _ \<Rightarrow> Inr \<lparr>er_Data = data, er_Replayed = False\<rparr>) })) }"

definition Execute ::
  "'e driver_scheme \<Rightarrow> json_codec \<Rightarrow> IdempotencyCoordinator \<Rightarrow> IdempotencyExecuteOptions \<Rightarrow>
   ('z idem_db_scheme, goerr + json) state option \<Rightarrow>
   ('z idem_db_scheme, goerr + IdempotencyExecuteResult) state" where
  "Execute d jc c opts executor =
     (case executor of
        None \<Rightarrow> ret (Inl (InternalServer ''IDEMPOTENCY_EXECUTOR_NIL'' ''idempotency executor is nil''))
      | Some execute \<Rightarrow> chain (NormalizeIdempotencyKey (op_IdempotencyKey opts)) (\<lambda>key.
          if key = [] then
            (if op_RequireKey opts \<and> \<not> ObserveOnly (ic_cfg c) then ret (Inl ErrIdempotencyKeyRequired)
             else do {
               r \<leftarrow> execute;
               chain r (\<lambda>data. ret (Inr \<lparr>er_Data = data, er_Replayed = False\<rparr>)) })
          else if \<not> ic_repo c then ret (Inl ErrIdempotencyStoreUnavail)
          else if op_Scope opts = [] then
            ret (Inl (BadRequest ''IDEMPOTENCY_SCOPE_REQUIRED'' ''idempotency scope is required''))
          else chain (BuildIdempotencyFingerprint d jc (op_Method opts) (op_Route opts) (op_ActorScope opts)
                 (op_Payload opts)) (\<lambda>fingerprint. do {
            now \<leftarrow> time_now;
            let expiresAt = now + (if op_TTL opts \<le> 0 then DefaultTTL (ic_cfg c) else op_TTL opts);
            cl \<leftarrow> claim_record jc (op_Scope opts) (HashIdempotencyKey d key) fingerprint now
                   (now + ProcessingTimeout (ic_cfg c)) expiresAt;
            chain cl (\<lambda>x. case x of
                Replay data \<Rightarrow> ret (Inr \<lparr>er_Data = data, er_Replayed = True\<rparr>)
              | Owned rid \<Rightarrow>
                  if rid = 0 then ret (Inl ErrIdempotencyStoreUnavail)
                  else run_owned (ic_cfg c) jc rid expiresAt execute) })))"

subsection \<open>Cleanup\<close>

text \<open>The interval and the batch size of the cleanup service, and one of its rounds.\<close>

definition NewIdempotencyCleanupService :: "(int \<times> int) option \<Rightarrow> int \<times> int" where
  "NewIdempotencyCleanupService cfg = (case cfg of
      None \<Rightarrow> (60 * second, 500)
    | Some (intervalSeconds, batchSize) \<Rightarrow>
        (if 0 < intervalSeconds then intervalSeconds * second else 60 * second,
         if 0 < batchSize then batchSize else 500))"

definition cleanupOnce :: "int \<Rightarrow> ('z idem_db_scheme, unit) state" where
  "cleanupOnce batch = do {
     now \<leftarrow> time_now;
     _ \<leftarrow> DeleteExpired now batch;
     ret () }"

end
