(* ===== verification/IdempotencyProperties.thy ===== *)
theory IdempotencyProperties
  imports Idempotency
begin

section \<open>What the idempotency store guarantees\<close>

text \<open>
  The invariant of the table and its preservation by \<^verbatim>\<open>Execute\<close> (through the interface
  \<open>record_store\<close>), exclusive ownership of a claimed record, and the round trip of the stored response.
\<close>

subsection \<open>The invariant of the table\<close>

definition record_key :: "IdempotencyRecord \<Rightarrow> string \<times> string" where
  "record_key r = (id_Scope r, id_KeyHash r)"

definition columns_fit :: "IdempotencyRecord \<Rightarrow> bool" where
  "columns_fit r \<longleftrightarrow> varchar_fits 128 (id_Scope r) \<and> varchar_fits 64 (id_KeyHash r) \<and>
     varchar_fits 64 (id_Fingerprint r)"

definition idem_ok :: "'z idem_db_scheme \<Rightarrow> bool" where
  "idem_ok w \<longleftrightarrow> distinct (map id_ID (idem_rows w)) \<and> distinct (map record_key (idem_rows w)) \<and>
     0 < next_idem_id w \<and> (\<forall>r \<in> set (idem_rows w). 0 < id_ID r \<and> id_ID r < next_idem_id w \<and> columns_fit r)"

lemma same_key_record_key: "same_key s k r \<longleftrightarrow> record_key r = (s, k)"
  by (auto simp: same_key_def record_key_def)

text \<open>What an update by \<open>update_records\<close> must keep, for the invariant to hold.\<close>

lemma map_if_key: "(\<And>r. g (f r) = g r) \<Longrightarrow> map (g \<circ> (\<lambda>r. if c r then f r else r)) rs = map g rs"
  by (induction rs) auto

lemma run_idem_stmt:
  assumes "run_state (idem_stmt f) w = (x, w')"
  obtains (not_sent) fs where "x = Inl infra_error" "w' = w\<lparr>faults := fs\<rparr>"
  | (answer_lost) fs where "x = Inl infra_error" "w' = snd (f (w\<lparr>faults := fs\<rparr>))"
  | (answered) fs where "f (w\<lparr>faults := fs\<rparr>) = (x, w')"
  using assms unfolding idem_stmt_def
  by (rule run_io_cases) (simp_all, metis snd_conv)

lemma steps_idem_stmt:
  "timeless R \<Longrightarrow> reflp R \<Longrightarrow> (\<And>w. R w (snd (f w))) \<Longrightarrow> steps R (idem_stmt f)"
  unfolding idem_stmt_def by (rule steps_io) (auto simp: steps_def)

lemma steps_case_claim:
  "(\<And>i. x = Owned i \<Longrightarrow> steps R (f i)) \<Longrightarrow> (\<And>v. x = Replay v \<Longrightarrow> steps R (g v)) \<Longrightarrow>
   steps R (case x of Owned i \<Rightarrow> f i | Replay v \<Rightarrow> g v)"
  by (cases x) auto

text \<open>
  The interface of the store: a relation that every statement of \<^verbatim>\<open>Execute\<close> and of the cleanup
  respects.  The client lemma is that \<^verbatim>\<open>Execute\<close> respects it, when the guarded request does.
\<close>

locale record_store =
  fixes R :: "'z idem_db_scheme \<Rightarrow> 'z idem_db_scheme \<Rightarrow> bool"
  assumes R_refl: "reflp R" and R_trans: "transp R" and R_timeless: "timeless R"
    and create: "id_Status r = IdempotencyStatusProcessing \<Longrightarrow> steps R (CreateProcessing r)"
    and reclaim: "steps R (TryReclaim i s now l e)"
    and get: "steps R (GetByScopeAndKeyHash sc k)"
    and succeeded: "steps R (MarkSucceeded i st body e)"
    and failed: "steps R (MarkFailedRetryable i reason l e)"
    and delete: "steps R (DeleteExpired now limit)"
begin

lemmas rules = R_refl R_trans R_timeless create reclaim get succeeded failed delete
  steps_ret steps_bind steps_if steps_case_sum steps_case_option steps_chain steps_time_now steps_case_claim

lemma load_existing_steps: "steps R (load_existing scope keyHash fp)"
  unfolding load_existing_def by (intro rules)

lemma by_status_steps: "steps R (by_status jc r now l e)"
  unfolding by_status_def by (intro rules)

lemma claim_record_steps: "steps R (claim_record jc scope keyHash fp now l e)"
  unfolding claim_record_def claim_existing_def
  by (intro rules load_existing_steps by_status_steps) (auto intro: rules)

lemma run_owned_steps: "steps R f \<Longrightarrow> steps R (run_owned cfg jc rid e f)"
  unfolding run_owned_def by (intro rules)

lemma Execute_steps:
  assumes "\<And>f. ex = Some f \<Longrightarrow> steps R f"
  shows "steps R (Execute d jc c opts ex)"
  unfolding Execute_def Let_def
  by (intro rules claim_record_steps run_owned_steps assms)

lemma cleanupOnce_steps: "steps R (cleanupOnce batch)"
  unfolding cleanupOnce_def by (intro rules)

end

text \<open>The invariant is such a relation.\<close>

definition keeps_ok :: "'z idem_db_scheme \<Rightarrow> 'z idem_db_scheme \<Rightarrow> bool" where
  "keeps_ok w w' \<longleftrightarrow> (idem_ok w \<longrightarrow> idem_ok w')"

lemma idem_ok_frame [simp]:
  "idem_ok (w\<lparr>faults := fs\<rparr>) = idem_ok w" "idem_ok (w\<lparr>clock := t\<rparr>) = idem_ok w"
  "idem_ok (w\<lparr>ticks := ts\<rparr>) = idem_ok w"
  by (simp_all add: idem_ok_def)

lemma keeps_ok_props: "reflp keeps_ok" "transp keeps_ok" "timeless keeps_ok"
  by (simp_all add: reflp_def transp_def timeless_def keeps_ok_def)

lemma update_records_ok:
  assumes "\<And>r. id_ID (f r) = id_ID r" "\<And>r. record_key (f r) = record_key r"
    "\<And>r. id_Fingerprint (f r) = id_Fingerprint r"
  shows "steps keeps_ok (update_records c f)"
  unfolding update_records_def
proof (intro steps_idem_stmt keeps_ok_props)
  fix w :: "'a idem_db_scheme"
  show "keeps_ok w (snd (Inr (list_ex c (idem_rows w)),
      w\<lparr>idem_rows := map (\<lambda>r. if c r then f r else r) (idem_rows w)\<rparr>))"
    using assms by (auto simp: keeps_ok_def idem_ok_def map_if_key columns_fit_def record_key_def)
qed

lemma record_key_update [simp]:
  "record_key (r\<lparr>id_Status := s\<rparr>) = record_key r" "record_key (r\<lparr>id_LockedUntil := l\<rparr>) = record_key r"
  "record_key (r\<lparr>id_ErrorReason := x\<rparr>) = record_key r" "record_key (r\<lparr>id_ExpiresAt := e\<rparr>) = record_key r"
  "record_key (r\<lparr>id_ResponseStatus := y\<rparr>) = record_key r" "record_key (r\<lparr>id_ResponseBody := b\<rparr>) = record_key r"
  "record_key (r\<lparr>id_ID := i\<rparr>) = record_key r"
  by (simp_all add: record_key_def)

lemma CreateProcessing_ok: "steps keeps_ok (CreateProcessing r)"
  unfolding CreateProcessing_def
  by (intro steps_idem_stmt keeps_ok_props)
    (auto simp: keeps_ok_def idem_ok_def Let_def list_ex_iff same_key_record_key record_key_def columns_fit_def)

lemma DeleteExpired_ok: "steps keeps_ok (DeleteExpired now limit)"
  unfolding DeleteExpired_def
  by (intro steps_idem_stmt keeps_ok_props)
    (auto simp: keeps_ok_def idem_ok_def Let_def distinct_map_filter)

lemma MarkFailedRetryable_ok: "steps keeps_ok (MarkFailedRetryable i reason l e)"
  unfolding MarkFailedRetryable_def
  by (intro steps_if update_records_ok steps_idem_stmt keeps_ok_props) (simp_all add: keeps_ok_def)

interpretation idem_table: record_store keeps_ok
proof
  show "steps keeps_ok (GetByScopeAndKeyHash sc k)" for sc k
    unfolding GetByScopeAndKeyHash_def by (intro steps_idem_stmt keeps_ok_props) (simp add: keeps_ok_def)
qed (simp_all add: keeps_ok_props CreateProcessing_ok DeleteExpired_ok MarkFailedRetryable_ok
    TryReclaim_def MarkSucceeded_def update_records_ok)

text \<open>
  The table of idempotency records keeps its keys and ids unique: \<^verbatim>\<open>Execute\<close> with any options and
  any request that does so itself, whatever calls fail or lose their answers, leaves a table in which no
  two records have the same scope and key hash or the same id.
\<close>

theorem Execute_keeps_keys_unique:
  assumes "idem_ok w" "\<And>w. idem_ok w \<Longrightarrow> idem_ok (snd (run_state f w))"
    and "run_state (Execute d jc c opts (Some f)) w = (r, w')"
  shows "idem_ok w'"
proof -
  have "steps keeps_ok f" using assms(2) by (simp add: steps_def keeps_ok_def)
  then have "steps keeps_ok (Execute d jc c opts (Some f))"
    by (intro idem_table.Execute_steps) auto
  from stepsD [OF this assms(3)] assms(1) show ?thesis by (simp add: keeps_ok_def)
qed

subsection \<open>A live record blocks the request\<close>

text \<open>
  A record blocks a request at \<open>now\<close> when it was made by another payload, or has not expired and is
  not a failure whose backoff is over.
\<close>

definition record_blocks :: "string \<Rightarrow> int \<Rightarrow> IdempotencyRecord \<Rightarrow> bool" where
  "record_blocks fp now r \<longleftrightarrow> id_Fingerprint r \<noteq> fp \<or>
     now < id_ExpiresAt r \<and> (id_Status r = IdempotencyStatusFailedRetryable \<longrightarrow>
       (case id_LockedUntil r of None \<Rightarrow> False | Some l \<Rightarrow> now < l))"

lemma run_create_existing:
  assumes "run_state (CreateProcessing r) w = (x, w')"
    and "find (same_key (id_Scope r) (id_KeyHash r)) (idem_rows w) = Some r'"
  shows "idem_rows w' = idem_rows w" "x \<noteq> Inr (Some i)"
proof -
  have "list_ex (same_key (id_Scope r) (id_KeyHash r)) (idem_rows w)"
    using assms(2) by (auto simp: list_ex_iff find_Some_iff)
  then show "idem_rows w' = idem_rows w" "x \<noteq> Inr (Some i)"
    using assms(1) unfolding CreateProcessing_def
    by (auto elim!: run_idem_stmt simp: Let_def split: if_splits)
qed

lemma run_load_existing:
  assumes "run_state (load_existing scope keyHash fp) w = (x, w')"
  shows "idem_rows w' = idem_rows w"
    and "x = Inr r \<Longrightarrow> find (same_key scope keyHash) (idem_rows w) = Some r \<and> id_Fingerprint r = fp"
  using assms unfolding load_existing_def GetByScopeAndKeyHash_def
  by (auto elim!: run_bindE run_retE run_idem_stmt split: sum.splits option.splits if_splits)

lemma by_status_blocked:
  assumes "run_state (by_status jc r now l e) w = (x, w')" "record_blocks fp now r" "id_Fingerprint r = fp"
  shows "w' = w" "x \<noteq> Inr (Owned i)"
  using assms by (auto simp: by_status_def record_blocks_def split: if_splits sum.splits option.splits)

lemma claim_existing_blocked:
  assumes "run_state (claim_existing jc scope keyHash fp now l e) w = (x, w')"
    and "find (same_key scope keyHash) (idem_rows w) = Some r" "record_blocks fp now r"
  shows "idem_rows w' = idem_rows w \<and> x \<noteq> Inr (Owned i)"
  using assms(1) unfolding claim_existing_def
proof (elim run_bindE run_chainE)
  fix g s'
  assume g: "run_state (load_existing scope keyHash fp) w = (g, s')"
  note rows = run_load_existing [OF g]
  {
    fix existing
    assume ex: "g = Inr existing"
      and k: "run_state (if \<not> (now < id_ExpiresAt existing) then do {
         t \<leftarrow> TryReclaim (id_ID existing) (id_Status existing) now l e;
         (case t of
             Inl reclaimErr \<Rightarrow> ret (Inl (unavailable reclaimErr))
           | Inr taken \<Rightarrow>
               if taken then ret (Inr (Owned (id_ID existing)))
               else do {
                 l' \<leftarrow> load_existing scope keyHash fp;
                 chain l' (\<lambda>latest. by_status jc latest now l e) })
       } else by_status jc existing now l e) s' = (x, w')"
    from rows(2) [OF ex] assms(2) have "existing = r" "id_Fingerprint r = fp" by auto
    with assms(3) have "now < id_ExpiresAt existing" by (simp add: record_blocks_def)
    with k have "run_state (by_status jc r now l e) s' = (x, w')" using \<open>existing = r\<close> by simp
    from by_status_blocked [OF this assms(3) \<open>id_Fingerprint r = fp\<close>] rows(1)
    show ?thesis by simp
  next
    fix err
    assume "(x, w') = (Inl err, s')"
    then show ?thesis using rows(1) by simp
  }
qed

lemma claim_record_blocked:
  assumes "run_state (claim_record jc scope keyHash fp now l e) w = (x, w')"
    and "find (same_key scope keyHash) (idem_rows w) = Some r" "record_blocks fp now r"
  shows "idem_rows w' = idem_rows w \<and> x \<noteq> Inr (Owned i)"
  using assms(1) unfolding claim_record_def
proof (elim run_bindE)
  fix y s'
  assume create: "run_state (CreateProcessing \<lparr>id_ID = 0, id_Scope = scope, id_KeyHash = keyHash,
        id_Fingerprint = fp, id_Status = IdempotencyStatusProcessing, id_ResponseStatus = None,
        id_ResponseBody = None, id_ErrorReason = None, id_LockedUntil = Some l, id_ExpiresAt = e\<rparr>) w = (y, s')"
    and k: "run_state (case y of
         Inl err \<Rightarrow> ret (Inl (unavailable err))
       | Inr None \<Rightarrow> claim_existing jc scope keyHash fp now l e
       | Inr (Some rid) \<Rightarrow> ret (Inr (Owned rid))) s' = (x, w')"
  note c = run_create_existing [OF create, simplified, OF assms(2)]
  show ?thesis
  proof (cases y)
    case (Inl err)
    then show ?thesis using k c(1) by auto
  next
    case (Inr o')
    then have "y = Inr None" using c(2) by (cases o') auto
    with k have "run_state (claim_existing jc scope keyHash fp now l e) s' = (x, w')" by simp
    from claim_existing_blocked [OF this _ assms(3)] assms(2) c(1) show ?thesis by simp
  qed
qed

lemma run_time_now_rows [simp]: "idem_rows (snd (run_state time_now w)) = idem_rows w"
  by (simp add: time_now_def split: list.splits)

lemma idem_ok_time_now [simp]: "idem_ok (snd (run_state time_now w)) = idem_ok w"
  by (simp add: time_now_def split: list.splits)

text \<open>The options select the key, the scope and the fingerprint of the request.\<close>

definition identified :: "'e driver_scheme \<Rightarrow> json_codec \<Rightarrow> IdempotencyCoordinator \<Rightarrow>
    IdempotencyExecuteOptions \<Rightarrow> string \<Rightarrow> string \<Rightarrow> bool" where
  "identified d jc c opts keyHash fp \<longleftrightarrow> ic_repo c \<and> op_Scope opts \<noteq> [] \<and>
     (\<exists>key. NormalizeIdempotencyKey (op_IdempotencyKey opts) = Inr key \<and> key \<noteq> [] \<and>
            keyHash = HashIdempotencyKey d key) \<and>
     BuildIdempotencyFingerprint d jc (op_Method opts) (op_Route opts) (op_ActorScope opts)
       (op_Payload opts) = Inr fp"

definition op_expiry :: "IdempotencyCoordinator \<Rightarrow> IdempotencyExecuteOptions \<Rightarrow> int \<Rightarrow> int" where
  "op_expiry c opts now = now + (if op_TTL opts \<le> 0 then DefaultTTL (ic_cfg c) else op_TTL opts)"

lemma run_Execute_identified:
  assumes "identified d jc c opts keyHash fp"
    and "run_state time_now w = (now, w0)"
    and "run_state (claim_record jc (op_Scope opts) keyHash fp now (now + ProcessingTimeout (ic_cfg c))
           (op_expiry c opts now)) w0 = (cl, w1)"
  shows "run_state (Execute d jc c opts (Some f)) w =
     (case cl of Inl err \<Rightarrow> (Inl err, w1)
      | Inr (Replay data) \<Rightarrow> (Inr \<lparr>er_Data = data, er_Replayed = True\<rparr>, w1)
      | Inr (Owned rid) \<Rightarrow> if rid = 0 then (Inl ErrIdempotencyStoreUnavail, w1)
          else run_state (run_owned (ic_cfg c) jc rid (op_expiry c opts now) f) w1)"
proof -
  obtain key where key: "NormalizeIdempotencyKey (op_IdempotencyKey opts) = Inr key" "key \<noteq> []"
      "keyHash = HashIdempotencyKey d key"
    and rest: "ic_repo c" "op_Scope opts \<noteq> []"
      "BuildIdempotencyFingerprint d jc (op_Method opts) (op_Route opts) (op_ActorScope opts)
       (op_Payload opts) = Inr fp"
    using assms(1) unfolding identified_def by blast
  show ?thesis
    unfolding Execute_def using key rest assms(2,3)
    by (simp add: run_bind Let_def op_expiry_def split: sum.split claim.split)
qed

text \<open>
  While a record for the key is live (processing, or succeeded, or in its backoff window, and not
  expired) or was made for another payload, \<^verbatim>\<open>Execute\<close> does not run the request: outcome and final state do
  not depend on it, no fresh result is returned and no record changes, whatever calls fail.
\<close>

theorem live_record_blocks:
  assumes "identified d jc c opts keyHash fp"
    and "find (same_key (op_Scope opts) keyHash) (idem_rows w) = Some r"
    and "record_blocks fp (fst (run_state time_now w)) r"
    and "run_state (Execute d jc c opts (Some f)) w = (x, w')"
  shows "run_state (Execute d jc c opts (Some g)) w = (x, w') \<and> idem_rows w' = idem_rows w \<and>
     (\<forall>res. x = Inr res \<longrightarrow> er_Replayed res)"
proof -
  obtain now w0 where now: "run_state time_now w = (now, w0)" by fastforce
  obtain cl w1 where cl: "run_state (claim_record jc (op_Scope opts) keyHash fp now
      (now + ProcessingTimeout (ic_cfg c)) (op_expiry c opts now)) w0 = (cl, w1)" by fastforce
  have "idem_rows w0 = idem_rows w" using now by (metis run_time_now_rows snd_conv)
  with claim_record_blocked [OF cl] assms(2,3) now
  have rows: "idem_rows w1 = idem_rows w" and no: "\<And>i. cl \<noteq> Inr (Owned i)" by auto
  then show ?thesis
    using assms(4) run_Execute_identified [OF assms(1) now cl]
    by (auto split: sum.splits claim.splits)
qed

subsection \<open>The round trip of the stored response\<close>

lemma idem_lookup:
  assumes "idem_ok w"
  shows "find (same_key s k) (idem_rows w) = Some r \<longleftrightarrow> r \<in> set (idem_rows w) \<and> record_key r = (s, k)"
proof
  assume "find (same_key s k) (idem_rows w) = Some r"
  then show "r \<in> set (idem_rows w) \<and> record_key r = (s, k)"
    by (auto simp: find_Some_iff same_key_record_key)
next
  assume r: "r \<in> set (idem_rows w) \<and> record_key r = (s, k)"
  then obtain r' where r': "find (same_key s k) (idem_rows w) = Some r'"
    by (metis find_None_iff not_Some_eq same_key_record_key)
  then have "r' \<in> set (idem_rows w)" "record_key r' = record_key r"
    using r by (auto simp: find_Some_iff same_key_record_key)
  moreover have "inj_on record_key (set (idem_rows w))"
    using assms by (simp add: idem_ok_def distinct_map)
  ultimately show "find (same_key s k) (idem_rows w) = Some r" using r r' by (metis inj_onD)
qed

text \<open>An owned claim has a record with the id, the key and the fingerprint of the request.\<close>

definition has_record :: "int \<Rightarrow> string \<Rightarrow> string \<Rightarrow> string \<Rightarrow> 'z idem_db_scheme \<Rightarrow> bool" where
  "has_record i s k fp w \<longleftrightarrow>
     (\<exists>r \<in> set (idem_rows w). id_ID r = i \<and> record_key r = (s, k) \<and> id_Fingerprint r = fp)"

lemma run_update_records:
  assumes "run_state (update_records c f) w = (x, w')"
  shows "idem_rows w' = idem_rows w \<and> x = Inl infra_error \<or>
    idem_rows w' = map (\<lambda>r. if c r then f r else r) (idem_rows w)"
  using assms unfolding update_records_def by (rule run_idem_stmt) auto

lemma run_update_records_answer:
  "run_state (update_records c f) w = (Inr b, w') \<Longrightarrow> b = list_ex c (idem_rows w)"
  unfolding update_records_def by (erule run_idem_stmt) (auto simp: infra_error_def)

lemma update_records_has:
  assumes "run_state (update_records c f) w = (x, w')" "has_record i s k fp w"
    and "\<And>r. id_ID (f r) = id_ID r" "\<And>r. record_key (f r) = record_key r"
        "\<And>r. id_Fingerprint (f r) = id_Fingerprint r"
  shows "has_record i s k fp w'"
  using run_update_records [OF assms(1)]
proof
  assume rows: "idem_rows w' = map (\<lambda>r. if c r then f r else r) (idem_rows w)"
  from assms(2) obtain r where r: "r \<in> set (idem_rows w)" "id_ID r = i" "record_key r = (s, k)"
    "id_Fingerprint r = fp" unfolding has_record_def by blast
  then have "(if c r then f r else r) \<in> set (idem_rows w')" using rows by auto
  with r assms(3-5) show ?thesis unfolding has_record_def by (metis (full_types))
qed (use assms(2) in \<open>simp add: has_record_def\<close>)

lemma load_existing_has:
  assumes "run_state (load_existing s k fp) w = (Inr r, w')"
  shows "has_record (id_ID r) s k fp w'"
  using run_load_existing [OF assms]
  by (auto simp: has_record_def find_Some_iff same_key_record_key)

lemma by_status_owned:
  assumes "run_state (by_status jc r now l e) w = (Inr (Owned i), w')" "has_record (id_ID r) s k fp w"
  shows "has_record i s k fp w'"
  using assms unfolding by_status_def TryReclaim_def
  by (auto elim!: run_bindE split: if_splits sum.splits option.splits intro: update_records_has)

lemma CreateProcessing_owned:
  assumes "run_state (CreateProcessing r) w = (Inr (Some i), w')"
  shows "has_record i (id_Scope r) (id_KeyHash r) (id_Fingerprint r) w'"
  using assms unfolding CreateProcessing_def
  by (auto elim!: run_idem_stmt simp: Let_def has_record_def record_key_def infra_error_def split: if_splits)

lemma claim_existing_owned:
  assumes "run_state (claim_existing jc s k fp now l e) w = (Inr (Owned i), w')"
  shows "has_record i s k fp w'"
proof -
  from assms obtain r w1 where r: "run_state (load_existing s k fp) w = (Inr r, w1)"
    and rest: "run_state (if \<not> (now < id_ExpiresAt r) then do {
         t \<leftarrow> TryReclaim (id_ID r) (id_Status r) now l e;
         (case t of
             Inl reclaimErr \<Rightarrow> ret (Inl (unavailable reclaimErr))
           | Inr taken \<Rightarrow>
               if taken then ret (Inr (Owned (id_ID r)))
               else do {
                 l' \<leftarrow> load_existing s k fp;
                 chain l' (\<lambda>latest. by_status jc latest now l e) })
       } else by_status jc r now l e) w1 = (Inr (Owned i), w')"
    unfolding claim_existing_def by (elim run_bindE run_chainE) auto
  note has = load_existing_has [OF r]
  show ?thesis
  proof (cases "now < id_ExpiresAt r")
    case True
    with rest have "run_state (by_status jc r now l e) w1 = (Inr (Owned i), w')" by simp
    then show ?thesis using has by (rule by_status_owned)
  next
    case False
    with rest obtain t w2 where t: "run_state (TryReclaim (id_ID r) (id_Status r) now l e) w1 = (Inr t, w2)"
      and k: "run_state (if t then ret (Inr (Owned (id_ID r))) else do {
                 l' \<leftarrow> load_existing s k fp;
                 chain l' (\<lambda>latest. by_status jc latest now l e) }) w2 = (Inr (Owned i), w')"
      by (auto elim!: run_bindE split: sum.splits)
    show ?thesis
    proof (cases t)
      case True
      with k have "i = id_ID r" "w' = w2" by auto
      then show ?thesis using t has unfolding TryReclaim_def by (auto intro: update_records_has)
    next
      case False
      with k obtain latest w3 where "run_state (load_existing s k fp) w2 = (Inr latest, w3)"
        "run_state (by_status jc latest now l e) w3 = (Inr (Owned i), w')"
        by (auto elim!: run_bindE run_chainE)
      then show ?thesis using load_existing_has by_status_owned by blast
    qed
  qed
qed

lemma claim_record_owned:
  assumes "run_state (claim_record jc s k fp now l e) w = (Inr (Owned i), w')"
  shows "has_record i s k fp w'"
  using assms unfolding claim_record_def
  by (auto elim!: run_bindE split: sum.splits option.splits dest!: CreateProcessing_owned claim_existing_owned)

text \<open>The request does not write the table itself.\<close>

definition leaves_records :: "('z idem_db_scheme, 'a) state \<Rightarrow> bool" where
  "leaves_records f \<longleftrightarrow> (\<forall>w. idem_rows (snd (run_state f w)) = idem_rows w \<and>
     next_idem_id (snd (run_state f w)) = next_idem_id w)"

lemma leaves_ok: "leaves_records f \<Longrightarrow> run_state f w = (x, w') \<Longrightarrow>
    idem_rows w' = idem_rows w \<and> next_idem_id w' = next_idem_id w"
  unfolding leaves_records_def by (metis snd_conv)

lemma leaves_time_now: "leaves_records time_now"
  by (simp add: leaves_records_def time_now_def split: list.splits)

lemma idem_ok_cong: "idem_rows w' = idem_rows w \<Longrightarrow> next_idem_id w' = next_idem_id w \<Longrightarrow> idem_ok w' = idem_ok w"
  by (simp add: idem_ok_def)

definition succeeded :: "int \<Rightarrow> string \<Rightarrow> string \<Rightarrow> IdempotencyRecord \<Rightarrow> bool" where
  "succeeded expiresAt fp body r \<longleftrightarrow> id_Status r = IdempotencyStatusSucceeded \<and> id_Fingerprint r = fp \<and>
     id_ResponseBody r = Some body \<and> id_ExpiresAt r = expiresAt"

lemma run_MarkSucceeded_InrD:
  assumes "run_state (MarkSucceeded i st body e) w = (Inr b, w')" "has_record i s k fp w" "idem_ok w"
  obtains r where "find (same_key s k) (idem_rows w') = Some r" "succeeded e fp body r"
proof -
  have ok: "idem_ok w'"
    using stepsD [OF idem_table.succeeded assms(1)] assms(3) by (simp add: keeps_ok_def)
  from assms(2) obtain r where r: "r \<in> set (idem_rows w)" "id_ID r = i" "record_key r = (s, k)"
    "id_Fingerprint r = fp" unfolding has_record_def by blast
  let ?f = "\<lambda>r. r\<lparr>id_Status := IdempotencyStatusSucceeded, id_ResponseStatus := Some st,
              id_ResponseBody := Some body, id_ErrorReason := None, id_LockedUntil := None,
              id_ExpiresAt := e\<rparr>"
  have "idem_rows w' = map (\<lambda>r. if id_ID r = i then ?f r else r) (idem_rows w)"
    using run_update_records [OF assms(1) [unfolded MarkSucceeded_def]] by simp
  with r have "?f r \<in> set (idem_rows w')" by auto
  then have "find (same_key s k) (idem_rows w') = Some (?f r)"
    using r by (simp add: idem_lookup [OF ok])
  then show thesis using r by (intro that [of "?f r"]) (simp_all add: succeeded_def)
qed

lemma run_owned_stores:
  assumes "run_state (run_owned cfg jc i e f) w = (Inr res, w')" "has_record i s k fp w" "idem_ok w"
    "leaves_records f"
  obtains body r where "marshalStoredResponse cfg jc (er_Data res) = Inr body"
    "find (same_key s k) (idem_rows w') = Some r" "succeeded e fp body r"
proof -
  obtain t w1 where t: "run_state time_now w = (t, w1)" by fastforce
  obtain x w2 where x: "run_state f w1 = (x, w2)" by fastforce
  note run = assms(1) [unfolded run_owned_def, simplified run_bind t x prod.case]
  obtain data where data: "x = Inr data"
    using run by (cases x) (auto simp: run_bind Let_def split: prod.splits)
  obtain body where body: "marshalStoredResponse cfg jc data = Inr body"
    using run data by (cases "marshalStoredResponse cfg jc data") auto
  obtain m w3 where m3: "run_state (MarkSucceeded i 200 body e) w2 = (m, w3)" by fastforce
  obtain b where "m = Inr b" "w3 = w'" "res = \<lparr>er_Data = data, er_Replayed = False\<rparr>"
    using run data body m3 by (cases m) (auto simp: run_bind)
  then have m: "run_state (MarkSucceeded i 200 body e) w2 = (Inr b, w')"
    and res: "res = \<lparr>er_Data = data, er_Replayed = False\<rparr>" and f: "run_state f w1 = (Inr data, w2)"
    using m3 x data by simp_all
  have eq: "idem_rows w2 = idem_rows w" "next_idem_id w2 = next_idem_id w"
    using leaves_ok [OF leaves_time_now t] leaves_ok [OF assms(4) f] by simp_all
  have "has_record i s k fp w2" "idem_ok w2"
    using assms(2,3) eq by (simp_all add: has_record_def idem_ok_cong [OF eq])
  then obtain r where "find (same_key s k) (idem_rows w') = Some r" "succeeded e fp body r"
    by (rule run_MarkSucceeded_InrD [OF m])
  then show thesis using body res by (intro that [of body r]) simp_all
qed

lemma Execute_stores:
  assumes ident: "identified d jc c opts keyHash fp" and ok: "idem_ok w" and f: "leaves_records f"
    and run: "run_state (Execute d jc c opts (Some f)) w = (Inr res, w')" "\<not> er_Replayed res"
  obtains body r where "marshalStoredResponse (ic_cfg c) jc (er_Data res) = Inr body"
    "find (same_key (op_Scope opts) keyHash) (idem_rows w') = Some r"
    "succeeded (op_expiry c opts (fst (run_state time_now w))) fp body r"
proof -
  obtain now w0 where now: "run_state time_now w = (now, w0)" by fastforce
  obtain cl w1 where cl: "run_state (claim_record jc (op_Scope opts) keyHash fp now
      (now + ProcessingTimeout (ic_cfg c)) (op_expiry c opts now)) w0 = (cl, w1)" by fastforce
  have "idem_ok w0" using ok now by (metis idem_ok_time_now snd_conv)
  then have "idem_ok w1"
    using stepsD [OF idem_table.claim_record_steps cl] by (simp add: keeps_ok_def)
  from run run_Execute_identified [OF ident now cl, of f] obtain i where i: "cl = Inr (Owned i)"
    and ro: "run_state (run_owned (ic_cfg c) jc i (op_expiry c opts now) f) w1 = (Inr res, w')"
    by (auto split: sum.splits claim.splits if_splits)
  obtain body r where "marshalStoredResponse (ic_cfg c) jc (er_Data res) = Inr body"
    "find (same_key (op_Scope opts) keyHash) (idem_rows w') = Some r" "succeeded (op_expiry c opts now) fp body r"
    by (rule run_owned_stores [OF ro claim_record_owned [OF cl [unfolded i]] \<open>idem_ok w1\<close> f])
  then show thesis using now by (intro that [of body r]) simp_all
qed

lemma fits_processing: "varchar_fits 32 IdempotencyStatusProcessing"
  by code_simp

lemma claim_record_succeeded:
  assumes "faults w = []" "idem_ok w" "find (same_key s k) (idem_rows w) = Some r"
    "succeeded e' fp body r" "now < e'"
  shows "fst (run_state (claim_record jc s k fp now l e) w) =
    (case decodeStoredResponse jc (Some body) of Inl err \<Rightarrow> Inl (unavailable err) | Inr v \<Rightarrow> Inr (Replay v))"
proof -
  have r: "r \<in> set (idem_rows w)" "record_key r = (s, k)"
    using assms(2,3) by (simp_all add: idem_lookup)
  then have "columns_fit r" using assms(2) by (simp add: idem_ok_def)
  then have fits: "varchar_fits 128 s" "varchar_fits 64 k" "varchar_fits 64 fp"
    using r assms(4) by (auto simp: columns_fit_def record_key_def succeeded_def)
  have ex: "list_ex (same_key s k) (idem_rows w)"
    using assms(3) by (auto simp: list_ex_iff find_Some_iff)
  show ?thesis
    using assms fits ex
    by (simp add: claim_record_def CreateProcessing_def claim_existing_def load_existing_def
        GetByScopeAndKeyHash_def idem_stmt_def run_bind Let_def fits_processing by_status_def
        succeeded_def split: sum.splits)
qed

lemma Execute_replays:
  assumes ident: "identified d jc c opts keyHash fp" and "faults w = []" "idem_ok w"
    "find (same_key (op_Scope opts) keyHash) (idem_rows w) = Some r"
    "succeeded e' fp body r" "fst (run_state time_now w) < e'"
  shows "fst (run_state (Execute d jc c opts (Some g)) w) =
    (case decodeStoredResponse jc (Some body) of Inl err \<Rightarrow> Inl (unavailable err)
     | Inr v \<Rightarrow> Inr \<lparr>er_Data = v, er_Replayed = True\<rparr>)"
proof -
  obtain now w0 where now: "run_state time_now w = (now, w0)" by fastforce
  obtain cl w1 where cl: "run_state (claim_record jc (op_Scope opts) keyHash fp now
      (now + ProcessingTimeout (ic_cfg c)) (op_expiry c opts now)) w0 = (cl, w1)" by fastforce
  have "faults w0 = []" using now assms(2) by (auto simp: time_now_def split: list.splits)
  moreover have "idem_rows w0 = idem_rows w" "idem_ok w0"
    using now assms(3) by (metis run_time_now_rows snd_conv, metis idem_ok_time_now snd_conv)
  ultimately have "cl = (case decodeStoredResponse jc (Some body) of Inl err \<Rightarrow> Inl (unavailable err)
      | Inr v \<Rightarrow> Inr (Replay v))"
    using claim_record_succeeded [of w0 "op_Scope opts" keyHash r e' fp body now jc] assms(4-6) cl now
    by (metis fst_conv)
  then show ?thesis
    using run_Execute_identified [OF ident now cl, of g] by (auto split: sum.splits)
qed

text \<open>What \<^verbatim>\<open>encoding/json\<close> promises for the encoding of a value.\<close>

definition round_trips :: "json_codec \<Rightarrow> json \<Rightarrow> string \<Rightarrow> bool" where
  "round_trips jc v raw \<longleftrightarrow> jc_marshal jc v = Inr raw \<and> raw \<noteq> [] \<and> trim_space raw = raw \<and>
     jc_valid jc raw \<and> jc_unmarshal jc raw = Inr v"

lemma RedactText_round_trips:
  "round_trips jc v raw \<Longrightarrow> round_trips jc (redactValueWithDepth v 0) body \<Longrightarrow> RedactText jc raw = body"
  by (simp add: round_trips_def RedactText_def RedactJSON_def)

lemma marshalStored_round_trips:
  "round_trips jc v raw \<Longrightarrow> round_trips jc (redactValueWithDepth v 0) body \<Longrightarrow>
   marshalStoredResponse cfg jc v = Inr (if 0 < MaxStoredResponseLen cfg \<and> MaxStoredResponseLen cfg < int (length body)
     then truncateUTF8 body (MaxStoredResponseLen cfg) @ ''...(truncated)'' else body)"
  using RedactText_round_trips [of jc v raw body]
  by (simp add: marshalStoredResponse_def round_trips_def Let_def)


lemma strip_any_snoc:
  "[] \<notin> set ws \<Longrightarrow> (\<And>w. w \<in> set ws \<Longrightarrow> c \<notin> set w) \<Longrightarrow> \<exists>t. strip_any ws (s @ [c]) = t @ [c]"
proof (induction s rule: length_induct)
  case (1 s)
  obtain x u where xu: "s @ [c] = x # u" by (cases "s @ [c]") auto
  show ?case
  proof (cases "find (\<lambda>w. starts_with w (x # u)) ws")
    case None
    then have "strip_any ws (s @ [c]) = s @ [c]" using xu by simp
    then show ?thesis by blast
  next
    case (Some w)
    then have w: "w \<in> set ws" "take (length w) (s @ [c]) = w"
      using xu by (auto simp: find_Some_iff starts_with_def)
    then have "w \<noteq> []" "c \<notin> set w" using 1(2,3) by auto
    moreover have len: "length w \<le> length s"
    proof (rule ccontr)
      assume "\<not> length w \<le> length s"
      then have "take (length w) (s @ [c]) = s @ [c]" by simp
      then show False using w(2) \<open>c \<notin> set w\<close> by (metis in_set_conv_decomp)
    qed
    ultimately have "drop (length w - 1) u = drop (length w) s @ [c]"
      using xu by (metis Suc_pred' drop_Suc_Cons drop_append length_greater_0_conv diff_is_0_eq' drop0)
    moreover have "length (drop (length w) s) < length s"
      using \<open>w \<noteq> []\<close> len by (cases w) auto
    ultimately show ?thesis using Some xu 1 by auto
  qed
qed

lemma trim_space_snoc: "(\<And>w. w \<in> set go_spaces \<Longrightarrow> c \<notin> set w) \<Longrightarrow> trim_space (s @ [c]) \<noteq> []"
proof -
  assume c: "\<And>w. w \<in> set go_spaces \<Longrightarrow> c \<notin> set w"
  have "[] \<notin> set go_spaces" by code_simp
  with c obtain t where t: "strip_any go_spaces (s @ [c]) = t @ [c]" using strip_any_snoc by blast
  have "\<not> starts_with w (c # rev t)" if w: "w \<in> set (map rev go_spaces)" for w
  proof -
    obtain v where v: "v \<in> set go_spaces" "w = rev v" using w unfolding set_map by blast
    then have "w \<noteq> []" "c \<notin> set w" using c \<open>[] \<notin> set go_spaces\<close> by auto
    then show ?thesis by (cases w) (auto simp: starts_with_def)
  qed
  then have "strip_any (map rev go_spaces) (c # rev t) = c # rev t"
    by (intro strip_any_id) (auto simp: stripped_def)
  then show ?thesis by (simp add: trim_space_def t)
qed

lemma trim_space_truncated: "trim_space (s @ ''...(truncated)'') \<noteq> []"
proof -
  have "\<forall>w \<in> set go_spaces. CHR '')'' \<notin> set w" by code_simp
  then have "trim_space ((s @ ''...(truncated'') @ [CHR '')'']) \<noteq> []" by (intro trim_space_snoc) blast
  then show ?thesis by simp
qed

text \<open>
  A response longer than the limit cannot be replayed: the request succeeded, but every repetition
  before the record expires is answered with 503, because the stored text is cut and no longer JSON.
\<close>

theorem truncated_response_is_not_replayed:
  assumes "identified d jc c opts keyHash fp" "idem_ok w" "leaves_records f"
    and "run_state (Execute d jc c opts (Some f)) w = (Inr res, w1)" "\<not> er_Replayed res"
    and "round_trips jc (er_Data res) raw" "round_trips jc (redactValueWithDepth (er_Data res) 0) body"
    and "0 < MaxStoredResponseLen (ic_cfg c)" "MaxStoredResponseLen (ic_cfg c) < int (length body)"
    and "\<And>s. \<exists>e. jc_unmarshal jc (s @ ''...(truncated)'') = Inl e"
    and "faults w2 = []" "idem_ok w2"
      "find (same_key (op_Scope opts) keyHash) (idem_rows w2) = find (same_key (op_Scope opts) keyHash) (idem_rows w1)"
      "fst (run_state time_now w2) < op_expiry c opts (fst (run_state time_now w))"
  shows "\<exists>e. fst (run_state (Execute d jc c opts (Some g)) w2) = Inl e \<and> Code (Some e) = 503 \<and>
     Reason (Some e) = ''IDEMPOTENCY_STORE_UNAVAILABLE''"
proof -
  obtain b r where b: "marshalStoredResponse (ic_cfg c) jc (er_Data res) = Inr b"
    "find (same_key (op_Scope opts) keyHash) (idem_rows w1) = Some r"
    "succeeded (op_expiry c opts (fst (run_state time_now w))) fp b r"
    using Execute_stores [OF assms(1-5)] by blast
  obtain s where "b = s @ ''...(truncated)''"
    using b(1) marshalStored_round_trips [OF assms(6,7)] assms(8,9) by auto
  moreover obtain e where "jc_unmarshal jc (s @ ''...(truncated)'') = Inl e" using assms(10) by blast
  ultimately have "decodeStoredResponse jc (Some b) = Inl (WrapErr ''decode stored response'' e)"
    by (simp add: decodeStoredResponse_def trim_space_truncated)
  with Execute_replays [OF assms(1,11,12) _ b(3) assms(14), of g] assms(13) b(2)
  show ?thesis
    by (simp add: unavailable_def)
      (simp add: ErrIdempotencyStoreUnavail_def ServiceUnavailable_def New_def Code_def Reason_def FromError_def to_int32_def)
qed

subsection \<open>A claim is exclusive\<close>

text \<open>
  What others do to the table before time \<open>T\<close>: every statement of the repository, except that nobody
  but the owner of record \<open>i\<close> marks or extends it, and that readings of the clock are before \<open>T\<close>.
\<close>

inductive other_step :: "int \<Rightarrow> int \<Rightarrow> 'z idem_db_scheme \<Rightarrow> 'z idem_db_scheme \<Rightarrow> bool" for i T where
  create: "other_step i T w (snd (run_state (CreateProcessing r) w))"
| get: "other_step i T w (snd (run_state (GetByScopeAndKeyHash s k) w))"
| reclaim: "now < T \<Longrightarrow> other_step i T w (snd (run_state (TryReclaim j s now l e) w))"
| extend: "j \<noteq> i \<Longrightarrow> other_step i T w (snd (run_state (ExtendProcessingLock j fp l e) w))"
| succeed: "j \<noteq> i \<Longrightarrow> other_step i T w (snd (run_state (MarkSucceeded j st b e) w))"
| fail: "j \<noteq> i \<Longrightarrow> other_step i T w (snd (run_state (MarkFailedRetryable j reason l e) w))"
| delete: "now < T \<Longrightarrow> other_step i T w (snd (run_state (DeleteExpired now limit) w))"
| elsewhere: "idem_rows w' = idem_rows w \<Longrightarrow> next_idem_id w' = next_idem_id w \<Longrightarrow> other_step i T w w'"

definition claimed :: "IdempotencyRecord \<Rightarrow> int \<Rightarrow> 'z idem_db_scheme \<Rightarrow> bool" where
  "claimed r T w \<longleftrightarrow> idem_ok w \<and> r \<in> set (idem_rows w) \<and> id_Status r = IdempotencyStatusProcessing \<and>
     (\<exists>L. id_LockedUntil r = Some L \<and> T \<le> L) \<and> T \<le> id_ExpiresAt r"

lemma update_records_claim:
  assumes "claimed r T w" "\<not> c r"
  shows "r \<in> set (idem_rows (snd (run_state (update_records c f) w)))"
proof -
  obtain x w' where run: "run_state (update_records c f) w = (x, w')" by fastforce
  have "r \<in> set (idem_rows w)" using assms(1) by (simp add: claimed_def)
  then show ?thesis
    using run_update_records [OF run] assms(2) run by auto
qed

lemma snd_idem_stmt:
  assumes "\<And>fs. P (w\<lparr>faults := fs\<rparr>)" "\<And>fs. P (snd (f (w\<lparr>faults := fs\<rparr>)))"
  shows "P (snd (run_state (idem_stmt f) w))"
proof -
  obtain x w' where run: "run_state (idem_stmt f) w = (x, w')" by fastforce
  then show ?thesis by (rule run_idem_stmt) (use assms run in \<open>auto, metis snd_conv\<close>)
qed

lemma other_step_claimed:
  assumes "other_step (id_ID r) T w w'" "claimed r T w"
  shows "claimed r T w'"
proof -
  have ok: "idem_ok w" and r: "r \<in> set (idem_rows w)" using assms(2) by (simp_all add: claimed_def)
  have "idem_ok w' \<and> r \<in> set (idem_rows w')"
    using assms(1)
  proof cases
    case (create q)
    have "idem_ok w'" using steps_snd [OF CreateProcessing_ok, of w q] ok create by (simp add: keeps_ok_def)
    moreover have "r \<in> set (idem_rows w')"
      unfolding create CreateProcessing_def by (rule snd_idem_stmt) (use r in \<open>auto simp: Let_def\<close>)
    ultimately show ?thesis ..
  next
    case (get s k)
    have "idem_ok w'" using steps_snd [OF idem_table.get, of w] ok get by (simp add: keeps_ok_def)
    moreover have "r \<in> set (idem_rows w')"
      unfolding get GetByScopeAndKeyHash_def by (rule snd_idem_stmt) (use r in auto)
    ultimately show ?thesis ..
  next
    case (reclaim now j s l e)
    have "idem_ok w'" using steps_snd [OF idem_table.reclaim, of w] ok reclaim by (simp add: keeps_ok_def)
    moreover have "r \<in> set (idem_rows w')"
      unfolding reclaim TryReclaim_def
      using assms(2) reclaim(2) by (intro update_records_claim [OF assms(2)]) (auto simp: claimed_def)
    ultimately show ?thesis ..
  next
    case (extend j fp l e)
    have "steps keeps_ok (ExtendProcessingLock j fp l e)"
      unfolding ExtendProcessingLock_def by (intro update_records_ok) simp_all
    from steps_snd [OF this, of w] have "idem_ok w'" using ok extend by (simp add: keeps_ok_def)
    moreover have "r \<in> set (idem_rows w')"
      unfolding extend ExtendProcessingLock_def
      using extend(2) by (intro update_records_claim [OF assms(2)]) auto
    ultimately show ?thesis ..
  next
    case (succeed j st b e)
    have "idem_ok w'" using steps_snd [OF idem_table.succeeded, of w] ok succeed by (simp add: keeps_ok_def)
    moreover have "r \<in> set (idem_rows w')"
      unfolding succeed MarkSucceeded_def
      using succeed(2) by (intro update_records_claim [OF assms(2)]) auto
    ultimately show ?thesis ..
  next
    case (fail j reason l e)
    have "idem_ok w'" using steps_snd [OF idem_table.failed, of w] ok fail by (simp add: keeps_ok_def)
    moreover have "r \<in> set (idem_rows w')"
    proof (cases "varchar_fits 128 reason")
      case True
      then show ?thesis unfolding fail MarkFailedRetryable_def
        using fail(2) by (simp add: update_records_claim [OF assms(2)])
    next
      case False
      show ?thesis
        unfolding fail MarkFailedRetryable_def if_not_P [OF False]
        by (rule snd_idem_stmt) (use r in simp_all)
    qed
    ultimately show ?thesis ..
  next
    case (delete now limit)
    have "idem_ok w'" using steps_snd [OF idem_table.delete, of w] ok delete by (simp add: keeps_ok_def)
    moreover have "r \<in> set (idem_rows w')"
      unfolding delete DeleteExpired_def
    proof (rule snd_idem_stmt)
      fix fs
      have inj: "inj_on id_ID (set (idem_rows w))" using ok by (simp add: idem_ok_def distinct_map)
      have "id_ID r \<notin> id_ID ` set (take n (sort_key id_ExpiresAt
          (filter (\<lambda>r. id_ExpiresAt r \<le> now) (idem_rows w))))" for n
      proof
        assume "id_ID r \<in> id_ID ` set (take n (sort_key id_ExpiresAt
          (filter (\<lambda>r. id_ExpiresAt r \<le> now) (idem_rows w))))"
        then obtain q where q: "id_ID r = id_ID q" "q \<in> set (take n (sort_key id_ExpiresAt
          (filter (\<lambda>r. id_ExpiresAt r \<le> now) (idem_rows w))))" by blast
        from in_set_takeD [OF q(2)] have "q \<in> set (idem_rows w)" "id_ExpiresAt q \<le> now" by simp_all
        with q(1) inj_onD [OF inj] r have "r = q" by blast
        then show False using \<open>id_ExpiresAt q \<le> now\<close> assms(2) delete(2) by (simp add: claimed_def)
      qed
      then show "r \<in> set (idem_rows (snd (let limit = (if limit \<le> 0 then 500 else limit);
         victims = map id_ID (take (nat limit)
           (sort_key id_ExpiresAt (filter (\<lambda>r. id_ExpiresAt r \<le> now) (idem_rows (w\<lparr>faults := fs\<rparr>)))));
         kept = filter (\<lambda>r. id_ID r \<notin> set victims) (idem_rows (w\<lparr>faults := fs\<rparr>)) in
         (Inr (int (length (idem_rows (w\<lparr>faults := fs\<rparr>))) - int (length kept)),
          (w\<lparr>faults := fs\<rparr>)\<lparr>idem_rows := kept\<rparr>))))"
        using r by (simp add: Let_def)
    qed (use r in simp)
    ultimately show ?thesis ..
  next
    case elsewhere
    then show ?thesis using ok r by (simp add: idem_ok_def)
  qed
  then show ?thesis using assms(2) by (simp add: claimed_def)
qed


subsection \<open>Keys\<close>

text \<open>
  A key that is accepted has at most 128 bytes, all printable ASCII without blanks, and normalising it
  again changes nothing; the only other answers are the error for an invalid key and the empty key for a
  blank one.
\<close>

theorem NormalizeIdempotencyKey_spec:
  "case NormalizeIdempotencyKey raw of
     Inl err \<Rightarrow> err = ErrIdempotencyKeyInvalid \<and> trim_space raw \<noteq> []
   | Inr key \<Rightarrow> NormalizeIdempotencyKey key = Inr key \<and> length key \<le> 128 \<and>
       list_all (\<lambda>ch. (of_char ch :: nat) \<in> {33..126}) key \<and> (key = [] \<longleftrightarrow> trim_space raw = [])"
  by (auto simp: NormalizeIdempotencyKey_def Let_def list_all_iff key_char_def)

subsection \<open>Concrete runs\<close>

lemma identified_code [code]:
  "identified d jc c opts keyHash fp \<longleftrightarrow> ic_repo c \<and> op_Scope opts \<noteq> [] \<and>
     (case NormalizeIdempotencyKey (op_IdempotencyKey opts) of Inl _ \<Rightarrow> False
      | Inr key \<Rightarrow> key \<noteq> [] \<and> keyHash = HashIdempotencyKey d key) \<and>
     BuildIdempotencyFingerprint d jc (op_Method opts) (op_Route opts) (op_ActorScope opts)
       (op_Payload opts) = Inr fp"
  by (auto simp: identified_def split: sum.split)

definition sample_driver :: driver where
  "sample_driver = \<lparr>to_numeric = (\<lambda>_. None), of_numeric = (\<lambda>_. NaN), tz_local = (\<lambda>_ t. t),
     tz_utc = (\<lambda>_ t. t), sha256_hex = take 64\<rparr>"

definition sample_response :: json where
  "sample_response = JsonObject [(''code'', JsonString ''A7'')]"

definition sample_redacted :: json where
  "sample_redacted = JsonObject [(''code'', JsonString ''***'')]"

definition sample_texts :: "(json \<times> string) list" where
  \<open>sample_texts = [(JsonNull, ''null''), (sample_response, ''{"code":"A7"}''),
     (sample_redacted, ''{"code":"***"}'')]\<close>

definition sample_codec :: json_codec where
  "sample_codec = \<lparr>
     jc_marshal = (\<lambda>v. case map_of sample_texts v of None \<Rightarrow> Inl infra_error | Some t \<Rightarrow> Inr t),
     jc_unmarshal = (\<lambda>t. case map_of (map (\<lambda>(v, t). (t, v)) sample_texts) t of
        None \<Rightarrow> Inl infra_error | Some v \<Rightarrow> Inr v),
     jc_valid = (\<lambda>t. t \<in> snd ` set sample_texts), jc_redact_plain = (\<lambda>t. t)\<rparr>"

definition sample_coordinator :: "int \<Rightarrow> IdempotencyCoordinator" where
  "sample_coordinator n = \<lparr>ic_repo = True, ic_cfg = DefaultIdempotencyConfig\<lparr>MaxStoredResponseLen := n\<rparr>\<rparr>"

definition sample_opts :: IdempotencyExecuteOptions where
  "sample_opts = \<lparr>op_Scope = ''redeem'', op_ActorScope = ''1'', op_Method = ''post'', op_Route = ''/r'',
     op_IdempotencyKey = '' k1 '', op_Payload = JsonNull, op_TTL = 0, op_RequireKey = True\<rparr>"

definition sample_fp :: string where
  "sample_fp = ''POST'' @ [CHR 0x0A] @ ''/r'' @ [CHR 0x0A] @ ''1'' @ [CHR 0x0A] @ ''null''"

definition sample_db :: idem_db where
  "sample_db = \<lparr>faults = [], clock = 1000, ticks = [], idem_rows = [], next_idem_id = 1\<rparr>"

definition sample_run :: "int \<Rightarrow> (goerr + IdempotencyExecuteResult) \<times> idem_db" where
  "sample_run n = run_state (Execute sample_driver sample_codec (sample_coordinator n) sample_opts
     (Some (ret (Inr sample_response)))) sample_db"

lemma sample_limit: "MaxStoredResponseLen (ic_cfg (sample_coordinator n)) = n"
  by (simp add: sample_coordinator_def)

lemma sample_result: "fst (sample_run 100) = Inr \<lparr>er_Data = sample_response, er_Replayed = False\<rparr>"
  "fst (sample_run 5) = Inr \<lparr>er_Data = sample_response, er_Replayed = False\<rparr>"
  by code_simp+

lemma sample_first:
  assumes "n = 5 \<or> n = 100"
  shows "run_state (Execute sample_driver sample_codec (sample_coordinator n) sample_opts
     (Some (ret (Inr sample_response)))) sample_db =
   (Inr \<lparr>er_Data = sample_response, er_Replayed = False\<rparr>, snd (sample_run n))"
  using assms sample_result by (auto simp: sample_run_def prod_eq_iff)

lemma sample_facts:
  \<open>identified sample_driver sample_codec (sample_coordinator n) sample_opts ''k1'' sample_fp\<close>
  \<open>idem_ok sample_db\<close>
  \<open>round_trips sample_codec sample_response ''{"code":"A7"}''\<close>
  \<open>round_trips sample_codec (redactValueWithDepth sample_response 0) ''{"code":"***"}''\<close>
  \<open>leaves_records (ret (Inr sample_response))\<close>
  by (code_simp, code_simp, code_simp, code_simp, simp add: leaves_records_def)

definition sample_later :: "int \<Rightarrow> idem_db" where
  "sample_later n = (snd (sample_run n))\<lparr>clock := 2000\<rparr>"

lemma sample_later_facts:
  "faults (sample_later 100) = []" "idem_ok (sample_later 100)"
  "faults (sample_later 5) = []" "idem_ok (sample_later 5)"
  "fst (run_state time_now (sample_later 100)) < op_expiry (sample_coordinator 100) sample_opts
     (fst (run_state time_now sample_db))"
  "fst (run_state time_now (sample_later 5)) < op_expiry (sample_coordinator 5) sample_opts
     (fst (run_state time_now sample_db))"
  "find (same_key (op_Scope sample_opts) ''k1'') (idem_rows (sample_later n)) =
   find (same_key (op_Scope sample_opts) ''k1'') (idem_rows (snd (sample_run n)))"
  by (code_simp, code_simp, code_simp, code_simp, code_simp, code_simp, simp add: sample_later_def)


lemma sample_cut: "\<exists>e. jc_unmarshal sample_codec (s @ ''...(truncated)'') = Inl e"
proof -
  have "s @ ''...(truncated)'' \<noteq> t" if "t \<noteq> []" "last t \<noteq> CHR '')''" for t
  proof
    assume "s @ ''...(truncated)'' = t"
    then have "last t = CHR '')''" by auto
    with that show False by blast
  qed
  then have "map_of (map (\<lambda>(v, t). (t, v)) sample_texts) (s @ ''...(truncated)'') = None"
    by (simp add: sample_texts_def)
  then show ?thesis by (simp add: sample_codec_def)
qed

lemma truncated_response_is_not_replayed_witness:
  "\<exists>e. fst (run_state (Execute sample_driver sample_codec (sample_coordinator 5) sample_opts
       (Some (ret (Inr sample_response)))) (sample_later 5)) = Inl e \<and> Code (Some e) = 503 \<and>
     Reason (Some e) = ''IDEMPOTENCY_STORE_UNAVAILABLE''"
  by (rule truncated_response_is_not_replayed [where raw = \<open>''{"code":"A7"}''\<close> and body = \<open>''{"code":"***"}''\<close>,
        OF sample_facts(1,2,5) sample_first [of 5]])
    (simp_all add: sample_facts sample_later_facts sample_cut sample_limit)

lemma live_record_blocks_witness:
  "idem_rows (snd (run_state (Execute sample_driver sample_codec (sample_coordinator 100) sample_opts
     (Some (ret (Inr JsonNull)))) (sample_later 100))) = idem_rows (sample_later 100)"
proof -
  obtain x w' where run: "run_state (Execute sample_driver sample_codec (sample_coordinator 100) sample_opts
     (Some (ret (Inr JsonNull)))) (sample_later 100) = (x, w')" by fastforce
  obtain r where r: "find (same_key (op_Scope sample_opts) ''k1'') (idem_rows (sample_later 100)) = Some r"
    "record_blocks sample_fp (fst (run_state time_now (sample_later 100))) r"
    by (rule that [of "hd (idem_rows (sample_later 100))"]) (code_simp, code_simp)
  from live_record_blocks [OF sample_facts(1) r run] run show ?thesis by simp
qed

definition sample_claim :: IdempotencyRecord where
  "sample_claim = \<lparr>id_ID = 1, id_Scope = ''redeem'', id_KeyHash = ''k1'', id_Fingerprint = sample_fp,
     id_Status = IdempotencyStatusProcessing, id_ResponseStatus = None, id_ResponseBody = None,
     id_ErrorReason = None, id_LockedUntil = Some 5000, id_ExpiresAt = 9000\<rparr>"


lemma Execute_keeps_keys_unique_witness: "idem_ok (snd (sample_run 100))"
  by (rule Execute_keeps_keys_unique [OF sample_facts(2) _ sample_first [of 100]]) simp_all

end
