(* ===== verification/AccountModels.thy ===== *)
theory AccountModels
  imports GoJson "HOL-Library.AList" "HOL-Library.List_Lexorder" "HOL-Library.Char_ord" "HOL-Library.Product_Lexorder"
    "HOL-Library.Multiset"
begin

section \<open>Upstream accounts: credentials and model mapping\<close>

text \<open>
  \<^verbatim>\<open>Account\<close> of \<^verbatim>\<open>service/account.go\<close> with the fields that the modelled code reads, and how an account
  maps the model a client asks for: \<^verbatim>\<open>resolveModelMapping\<close>, \<^verbatim>\<open>IsModelSupported\<close>, \<^verbatim>\<open>ResolveMappedModel\<close> and
  the wildcard match (also \<^verbatim>\<open>service/openai_model_mapping.go\<close>, the tables of \<^verbatim>\<open>domain/constants.go\<close> and
  \<^verbatim>\<open>pkg/xai/models.go\<close>).  A Go map is an association list with distinct keys in the order in which the
  code happens to visit it; the order is arbitrary, and a theorem says that it does not matter.  The memo
  of \<^verbatim>\<open>GetModelMapping\<close> (keyed by pointers) holds what \<^verbatim>\<open>resolveModelMapping\<close> answers and is left out.
\<close>

record Account =
  ac_ID :: int
  ac_Platform :: string
  ac_Type :: string
  ac_Credentials :: "json_object option"
  ac_Extra :: "json_object option"
  ac_Concurrency :: int
  ac_Priority :: int
  ac_RateMultiplier :: "f64 option"
  ac_LoadFactor :: "int option"
  ac_Status :: string
  ac_ExpiresAt :: "int option"
  ac_AutoPauseOnExpired :: bool
  ac_Schedulable :: bool
  ac_RateLimitResetAt :: "int option"
  ac_OverloadUntil :: "int option"
  ac_TempUnschedulableUntil :: "int option"
  ac_SessionWindowStart :: "int option"
  ac_SessionWindowEnd :: "int option"
  ac_ParentAccountID :: "int option"
  ac_QuotaDimension :: string

abbreviation StatusActive :: string where "StatusActive \<equiv> ''active''"
abbreviation PlatformAnthropic :: string where "PlatformAnthropic \<equiv> ''anthropic''"
abbreviation PlatformOpenAI :: string where "PlatformOpenAI \<equiv> ''openai''"
abbreviation PlatformGemini :: string where "PlatformGemini \<equiv> ''gemini''"
abbreviation PlatformAntigravity :: string where "PlatformAntigravity \<equiv> ''antigravity''"
abbreviation PlatformGrok :: string where "PlatformGrok \<equiv> ''grok''"
abbreviation AccountTypeOAuth :: string where "AccountTypeOAuth \<equiv> ''oauth''"
abbreviation AccountTypeSetupToken :: string where "AccountTypeSetupToken \<equiv> ''setup-token''"
abbreviation TypeAPIKey :: string where "TypeAPIKey \<equiv> ''apikey''"
abbreviation TypeBedrock :: string where "TypeBedrock \<equiv> ''bedrock''"

subsection \<open>Reading credentials and extras\<close>

text \<open>\<^verbatim>\<open>m[key]\<close> with \<^verbatim>\<open>ok\<close>, on a map that may be nil.\<close>

definition field :: "json_object option \<Rightarrow> string \<Rightarrow> json option" where
  "field m key = (case m of None \<Rightarrow> None | Some fs \<Rightarrow> map_of fs key)"

definition GetCredential :: "Account \<Rightarrow> string \<Rightarrow> string" where
  "GetCredential a key = (case field (ac_Credentials a) key of
      Some (JsonString val) \<Rightarrow> val
    | Some (JsonNumber val) \<Rightarrow> itoa (f_to_int64 val)
    | _ \<Rightarrow> [])"

definition getExtraString :: "Account \<Rightarrow> string \<Rightarrow> string" where
  "getExtraString a key = (case field (ac_Extra a) key of Some (JsonString s) \<Rightarrow> s | _ \<Rightarrow> [])"

definition getExtraBool :: "Account \<Rightarrow> string \<Rightarrow> bool" where
  "getExtraBool a key = (case field (ac_Extra a) key of Some (JsonBool b) \<Rightarrow> b | _ \<Rightarrow> False)"

definition IsActive :: "Account \<Rightarrow> bool" where
  "IsActive a \<longleftrightarrow> ac_Status a = StatusActive"

definition IsOpenAI :: "Account \<Rightarrow> bool" where
  "IsOpenAI a \<longleftrightarrow> ac_Platform a = PlatformOpenAI"

definition IsOpenAIOAuth :: "Account \<Rightarrow> bool" where
  "IsOpenAIOAuth a \<longleftrightarrow> IsOpenAI a \<and> ac_Type a = AccountTypeOAuth"

definition IsAPIKeyOrBedrock :: "Account \<Rightarrow> bool" where
  "IsAPIKeyOrBedrock a \<longleftrightarrow> ac_Type a = TypeAPIKey \<or> ac_Type a = TypeBedrock"

definition IsOpenAIPassthroughEnabled :: "Account \<Rightarrow> bool" where
  "IsOpenAIPassthroughEnabled a =
     (if \<not> IsOpenAI a \<or> ac_Extra a = None then False
      else (case field (ac_Extra a) ''openai_passthrough'' of
          Some (JsonBool enabled) \<Rightarrow> enabled
        | _ \<Rightarrow> (case field (ac_Extra a) ''openai_oauth_passthrough'' of
            Some (JsonBool enabled) \<Rightarrow> enabled
          | _ \<Rightarrow> False)))"

text \<open>A nil multiplier and a negative one count as 1; on NaN the comparison is false.\<close>

definition BillingRateMultiplier :: "Account \<Rightarrow> f64" where
  "BillingRateMultiplier a = (case ac_RateMultiplier a of
      None \<Rightarrow> Fin 1
    | Some m \<Rightarrow> if f_lt m (Fin 0) then Fin 1 else m)"

definition EffectiveLoadFactor :: "Account \<Rightarrow> int" where
  "EffectiveLoadFactor a = (case ac_LoadFactor a of
      Some l \<Rightarrow> if 0 < l then l else if 0 < ac_Concurrency a then ac_Concurrency a else 1
    | None \<Rightarrow> if 0 < ac_Concurrency a then ac_Concurrency a else 1)"

subsection \<open>Wildcards\<close>

type_synonym model_mapping = "(string \<times> string) list"

definition has_suffix :: "string \<Rightarrow> string \<Rightarrow> bool" where
  "has_suffix s t \<longleftrightarrow> starts_with (rev t) (rev s)"

definition matchWildcard :: "string \<Rightarrow> string \<Rightarrow> bool" where
  "matchWildcard pattern str =
     (if has_suffix pattern ''*'' then has_prefix str (take (length pattern - 1) pattern)
      else pattern = str)"

text \<open>The matches by descending length of the pattern, then by the pattern.\<close>

definition pattern_key :: "string \<times> string \<Rightarrow> int \<times> string" where
  "pattern_key m = (- int (length (fst m)), fst m)"

definition matchWildcardMappingResult :: "model_mapping \<Rightarrow> string \<Rightarrow> string \<times> bool" where
  "matchWildcardMappingResult mapping requestedModel =
     (case sort_key pattern_key (filter (\<lambda>m. matchWildcard (fst m) requestedModel) mapping) of
        [] \<Rightarrow> (requestedModel, False)
      | m # _ \<Rightarrow> (snd m, True))"

definition mappingHasWildcardForModel :: "model_mapping \<Rightarrow> string \<Rightarrow> bool" where
  "mappingHasWildcardForModel mapping model = list_ex (\<lambda>m. matchWildcard (fst m) model) mapping"

definition mappingSupportsRequestedModel :: "model_mapping \<Rightarrow> string \<Rightarrow> bool" where
  "mappingSupportsRequestedModel mapping requestedModel =
     (if requestedModel = [] then False
      else if map_of mapping requestedModel \<noteq> None then True
      else list_ex (\<lambda>m. matchWildcard (fst m) requestedModel) mapping)"

definition resolveRequestedModelInMapping :: "model_mapping \<Rightarrow> string \<Rightarrow> string \<times> bool" where
  "resolveRequestedModelInMapping mapping requestedModel =
     (if requestedModel = [] then ([], False)
      else (case map_of mapping requestedModel of
          Some mappedModel \<Rightarrow> (mappedModel, True)
        | None \<Rightarrow> matchWildcardMappingResult mapping requestedModel))"

subsection \<open>The mapping of an account\<close>

definition AntigravityGemini31ProAgentModel :: string where
  "AntigravityGemini31ProAgentModel = ''gemini-pro-agent''"

definition DefaultAntigravityModelMapping :: model_mapping where
  "DefaultAntigravityModelMapping = [
     (''claude-fable-5'', ''claude-fable-5''), (''claude-opus-4-8'', ''claude-opus-4-8''),
     (''claude-opus-4-7'', ''claude-opus-4-7''),
     (''claude-opus-4-6-thinking'', ''claude-opus-4-6-thinking''),
     (''claude-opus-4-6'', ''claude-opus-4-6-thinking''),
     (''claude-opus-4-5-thinking'', ''claude-opus-4-6-thinking''),
     (''claude-sonnet-4-6'', ''claude-sonnet-4-6''), (''claude-sonnet-4-5'', ''claude-sonnet-4-5''),
     (''claude-sonnet-4-5-thinking'', ''claude-sonnet-4-5-thinking''),
     (''claude-opus-4-5-20251101'', ''claude-opus-4-6-thinking''),
     (''claude-sonnet-4-5-20250929'', ''claude-sonnet-4-5''),
     (''claude-haiku-4-5'', ''claude-sonnet-4-6''),
     (''claude-haiku-4-5-20251001'', ''claude-sonnet-4-6''),
     (''gemini-2.5-flash'', ''gemini-2.5-flash''),
     (''gemini-2.5-flash-image'', ''gemini-2.5-flash-image''),
     (''gemini-2.5-flash-image-preview'', ''gemini-2.5-flash-image''),
     (''gemini-2.5-flash-lite'', ''gemini-2.5-flash-lite''),
     (''gemini-2.5-flash-thinking'', ''gemini-2.5-flash-thinking''),
     (''gemini-2.5-pro'', ''gemini-2.5-pro''), (''gemini-3-flash'', ''gemini-3-flash''),
     (''gemini-3-pro-high'', ''gemini-3-pro-high''), (''gemini-3-pro-low'', ''gemini-3-pro-low''),
     (''gemini-3-flash-preview'', ''gemini-3-flash''),
     (''gemini-3-pro-preview'', ''gemini-3-pro-high''),
     (AntigravityGemini31ProAgentModel, AntigravityGemini31ProAgentModel),
     (''gemini-3.1-pro'', AntigravityGemini31ProAgentModel),
     (''gemini-3.1-pro-high'', AntigravityGemini31ProAgentModel),
     (''gemini-3.1-pro-low'', ''gemini-3.1-pro-low''),
     (''gemini-3.1-pro-preview'', AntigravityGemini31ProAgentModel),
     (''gemini-3.1-flash-image'', ''gemini-3.1-flash-image''),
     (''gemini-3.1-flash-image-preview'', ''gemini-3.1-flash-image''),
     (''gemini-3-pro-image'', ''gemini-3.1-flash-image''),
     (''gemini-3-pro-image-preview'', ''gemini-3.1-flash-image''),
     (''gpt-oss-120b-medium'', ''gpt-oss-120b-medium''),
     (''tab_flash_lite_preview'', ''tab_flash_lite_preview'')]"

definition xai_model_ids :: "string list" where
  "xai_model_ids = [
     ''grok-4.5'', ''grok-4.3'', ''grok-build-0.1'', ''grok-composer-2.5-fast'',
     ''grok-4.20-0309-reasoning'', ''grok-4.20-0309-non-reasoning'', ''grok-4.20-multi-agent-0309'',
     ''grok-imagine'', ''grok-imagine-image'', ''grok-imagine-image-quality'', ''grok-imagine-edit'',
     ''grok-imagine-video'', ''grok-imagine-video-1.5'']"

definition DefaultModelMapping :: model_mapping where
  "DefaultModelMapping = foldl (\<lambda>m kv. AList.update (fst kv) (snd kv) m) []
     (map (\<lambda>i. (i, i)) xai_model_ids @ [
     (''grok'', ''grok-4.5''), (''grok-latest'', ''grok-4.5''), (''grok-4.5-latest'', ''grok-4.5''),
     (''grok-build'', ''grok-build-0.1''), (''grok-build-latest'', ''grok-4.5''),
     (''grok-composer'', ''grok-composer-2.5-fast''), (''composer-2.5'', ''grok-composer-2.5-fast''),
     (''grok-4.20-reasoning'', ''grok-4.20-0309-reasoning''),
     (''grok-4.20-non-reasoning'', ''grok-4.20-0309-non-reasoning'')])"

definition ensureAntigravityDefaultPassthrough :: "model_mapping \<Rightarrow> string \<Rightarrow> model_mapping" where
  "ensureAntigravityDefaultPassthrough mapping model =
     (if model = [] then mapping
      else if map_of mapping model \<noteq> None then mapping
      else if list_ex (\<lambda>m. matchWildcard (fst m) model) mapping then mapping
      else AList.update model model mapping)"

definition ensureAntigravityDefaultPassthroughs :: "model_mapping \<Rightarrow> string list \<Rightarrow> model_mapping" where
  "ensureAntigravityDefaultPassthroughs mapping models = foldl ensureAntigravityDefaultPassthrough mapping models"

definition alias_table :: "(string \<times> string list) list" where
  "alias_table = [
     (''gemini-3.1-pro'', [''gemini-3.1-pro'']),
     (''gemini-3.1-pro-high'', [''gemini-3.1-pro-high'']),
     (''gemini-3.1-pro-preview'', [''gemini-3.1-pro-preview'', ''gemini-3.1-pro-high''])]"

definition apply_alias :: "string \<Rightarrow> model_mapping \<Rightarrow> string \<times> string list \<Rightarrow> model_mapping" where
  "apply_alias target mapping al = (case map_of mapping (fst al) of
      Some current \<Rightarrow> if current \<in> set (snd al) then AList.update (fst al) target mapping else mapping
    | None \<Rightarrow> if mappingHasWildcardForModel mapping (fst al) then mapping
              else AList.update (fst al) target mapping)"

definition applyAntigravityGemini31ProAliases :: "model_mapping \<Rightarrow> model_mapping" where
  "applyAntigravityGemini31ProAliases mapping =
     (let target = trim_space (deref_or [] (map_of mapping AntigravityGemini31ProAgentModel)) in
      if target = [] then mapping else foldl (apply_alias target) mapping alias_table)"

text \<open>The entries of a raw mapping whose value is a string.\<close>

definition string_entries :: "json_object \<Rightarrow> model_mapping" where
  "string_entries m = List.map_filter (\<lambda>k. case map_of m k of Some (JsonString s) \<Rightarrow> Some (k, s) | _ \<Rightarrow> None)
     (remdups (map fst m))"

definition platform_default :: "string \<Rightarrow> model_mapping" where
  "platform_default platform =
     (if platform = PlatformAntigravity then DefaultAntigravityModelMapping
      else if platform = PlatformGrok then DefaultModelMapping
      else [])"

definition resolveModelMapping :: "Account \<Rightarrow> json_object \<Rightarrow> model_mapping" where
  "resolveModelMapping a rawMapping =
     (if ac_Credentials a = None then platform_default (ac_Platform a)
      else if rawMapping = [] then platform_default (ac_Platform a)
      else (let result = string_entries rawMapping in
        if result \<noteq> [] then
          (if ac_Platform a = PlatformAntigravity
           then applyAntigravityGemini31ProAliases (ensureAntigravityDefaultPassthroughs result
                  [''gemini-3-flash'', ''gemini-3.1-pro-high'', ''gemini-3.1-pro-low''])
           else result)
        else platform_default (ac_Platform a)))"

definition GetModelMapping :: "Account \<Rightarrow> model_mapping" where
  "GetModelMapping a = resolveModelMapping a
     (case field (ac_Credentials a) ''model_mapping'' of Some (JsonObject raw) \<Rightarrow> raw | _ \<Rightarrow> [])"

subsection \<open>Which models an account serves\<close>

definition openAIOAuthForeignModelPrefixes :: "string list" where
  "openAIOAuthForeignModelPrefixes = [
     ''deepseek-'', ''glm-'', ''kimi-'', ''moonshot-'', ''qwen-'', ''qwen2-'', ''qwen3-'', ''qwen4-'',
     ''qwq-'', ''minimax-'', ''gemini-'', ''gemma-'', ''grok-'', ''doubao-'', ''hunyuan-'', ''llama-'',
     ''llama2-'', ''llama3-'', ''meta-llama'', ''mistral-'', ''mixtral-'', ''baichuan-'', ''ernie-'',
     ''step-'', ''seed-'', ''yi-'']"

text \<open>The part after the last slash.\<close>

definition lastOpenAIModelSegment :: "string \<Rightarrow> string" where
  "lastOpenAIModelSegment model0 = (let model = trim_space model0 in
     if model = [] then [] else trim_space (rev (takeWhile (\<lambda>c. c \<noteq> CHR ''/'') (rev model))))"

definition isOpenAIOAuthServableModel :: "string \<Rightarrow> bool" where
  "isOpenAIOAuthServableModel requestedModel =
     (let model = to_lower (lastOpenAIModelSegment requestedModel) in
      if model = [] then True else \<not> list_ex (has_prefix model) openAIOAuthForeignModelPrefixes)"

definition normalizeRequestedModelForLookup :: "string \<Rightarrow> string \<Rightarrow> string" where
  "normalizeRequestedModelForLookup platform requestedModel =
     (let trimmed = trim_space requestedModel in
      if trimmed = [] then []
      else if platform \<noteq> PlatformGemini \<and> platform \<noteq> PlatformAntigravity then trimmed
      else if trimmed = ''gemini-3.1-pro-preview-customtools'' then ''gemini-3.1-pro-preview''
      else trimmed)"

definition IsModelSupported :: "Account \<Rightarrow> string \<Rightarrow> bool" where
  "IsModelSupported a requestedModel = (let mapping = GetModelMapping a in
     if mapping = [] then
       (if IsOpenAIOAuth a \<and> \<not> IsOpenAIPassthroughEnabled a then isOpenAIOAuthServableModel requestedModel
        else True)
     else if mappingSupportsRequestedModel mapping requestedModel then True
     else (let normalized = normalizeRequestedModelForLookup (ac_Platform a) requestedModel in
       normalized \<noteq> requestedModel \<and> mappingSupportsRequestedModel mapping normalized))"

definition ResolveMappedModel :: "Account \<Rightarrow> string \<Rightarrow> string \<times> bool" where
  "ResolveMappedModel a requestedModel = (let mapping = GetModelMapping a in
     if mapping = [] then (requestedModel, False)
     else (let r = resolveRequestedModelInMapping mapping requestedModel in
       if snd r then r
       else (let normalized = normalizeRequestedModelForLookup (ac_Platform a) requestedModel in
         if normalized \<noteq> requestedModel then
           (let r = resolveRequestedModelInMapping mapping normalized in
            if snd r then r else (requestedModel, False))
         else (requestedModel, False))))"

definition GetMappedModel :: "Account \<Rightarrow> string \<Rightarrow> string" where
  "GetMappedModel a requestedModel = fst (ResolveMappedModel a requestedModel)"

definition resolveOpenAIForwardModel :: "Account option \<Rightarrow> string \<Rightarrow> string \<Rightarrow> string" where
  "resolveOpenAIForwardModel account requestedModel dispatch0 =
     (let dispatch = trim_space dispatch0 in
      case account of
        None \<Rightarrow> if dispatch \<noteq> [] then dispatch else requestedModel
      | Some a \<Rightarrow> (let r = ResolveMappedModel a requestedModel in
          if \<not> snd r \<and> dispatch \<noteq> [] then dispatch else fst r))"

subsection \<open>The longest matching pattern wins\<close>

text \<open>Patterns that match a model and are not the model itself end in a star: their length identifies them.\<close>

lemma matchWildcard_star:
  assumes "matchWildcard p x" "p \<noteq> x"
  shows "p = take (length p - 1) x @ ''*''" "length p - 1 \<le> length x"
proof -
  have star: "has_suffix p ''*''" and pre: "take (length p - 1) x = take (length p - 1) p"
    using assms by (auto simp: matchWildcard_def has_prefix_def starts_with_def split: if_splits)
  from star have "p \<noteq> []" "last p = CHR ''*''"
    by (cases p rule: rev_cases; simp add: has_suffix_def starts_with_def)+
  then have "p = take (length p - 1) p @ ''*''"
    by (metis append_butlast_last_id butlast_conv_take)
  with pre show "p = take (length p - 1) x @ ''*''" by simp
  from pre have "length (take (length p - 1) x) = length p - 1" by simp
  then show "length p - 1 \<le> length x" by (metis length_take min.cobounded1)
qed

lemma matchWildcard_same_length:
  "matchWildcard p x \<Longrightarrow> matchWildcard q x \<Longrightarrow> p \<noteq> x \<Longrightarrow> q \<noteq> x \<Longrightarrow> length p = length q \<Longrightarrow> p = q"
  using matchWildcard_star by metis

text \<open>The mapping, when the first of the sorted matches is at issue.\<close>

lemma wildcard_result:
  assumes "distinct (map fst m)"
  shows "matchWildcardMappingResult m x = (t, True) \<longleftrightarrow>
    (\<exists>p. (p, t) \<in> set m \<and> matchWildcard p x \<and>
       (\<forall>q u. (q, u) \<in> set m \<and> matchWildcard q x \<longrightarrow> pattern_key (p, t) \<le> pattern_key (q, u)))"
    (is "?l \<longleftrightarrow> ?r")
proof -
  let ?ms = "filter (\<lambda>m. matchWildcard (fst m) x) m"
  let ?s = "sort_key pattern_key ?ms"
  have set: "set ?s = {kv \<in> set m. matchWildcard (fst kv) x}" by auto
  have sorted: "sorted (map pattern_key ?s)" by simp
  show ?thesis
  proof (cases ?s)
    case Nil
    then have "\<not> matchWildcard p x" if "(p, t) \<in> set m" for p using that set by auto
    then show ?thesis using Nil by (auto simp: matchWildcardMappingResult_def)
  next
    case (Cons kv rest)
    have in_m: "kv \<in> set m" "matchWildcard (fst kv) x" using set Cons by auto
    have min: "pattern_key kv \<le> pattern_key (q, u)" if "(q, u) \<in> set m" "matchWildcard q x" for q u
    proof -
      have "(q, u) \<in> set ?s" using that set by auto
      then show ?thesis using sorted Cons by auto
    qed
    have "?l \<longleftrightarrow> snd kv = t" using Cons by (simp add: matchWildcardMappingResult_def)
    moreover have "?r \<longleftrightarrow> snd kv = t"
    proof
      assume ?r
      then obtain p where p: "(p, t) \<in> set m" "matchWildcard p x"
        "\<And>q u. (q, u) \<in> set m \<Longrightarrow> matchWildcard q x \<Longrightarrow> pattern_key (p, t) \<le> pattern_key (q, u)" by blast
      from min [OF p(1,2)] p(3) [of "fst kv" "snd kv"] in_m
      have "pattern_key kv = pattern_key (p, t)" by simp
      then have "fst kv = p" by (simp add: pattern_key_def)
      then show "snd kv = t"
        using assms in_m(1) p(1) by (metis eq_key_imp_eq_value prod.collapse)
    next
      assume "snd kv = t"
      then show ?r using in_m min by (metis prod.collapse)
    qed
    ultimately show ?thesis by simp
  qed
qed

lemma snd_wildcard_result: "snd (matchWildcardMappingResult m x) \<longleftrightarrow> list_ex (\<lambda>kv. matchWildcard (fst kv) x) m"
proof (cases "sort_key pattern_key (filter (\<lambda>kv. matchWildcard (fst kv) x) m)")
  case Nil
  then have "filter (\<lambda>kv. matchWildcard (fst kv) x) m = []" by (metis length_0_conv length_sort)
  then show ?thesis using Nil by (simp add: matchWildcardMappingResult_def list_ex_iff filter_empty_conv)
next
  case (Cons kv rest)
  then have "kv \<in> set (sort_key pattern_key (filter (\<lambda>kv. matchWildcard (fst kv) x) m))" by simp
  then have "kv \<in> set m" "matchWildcard (fst kv) x" by simp_all
  then show ?thesis using Cons by (auto simp: matchWildcardMappingResult_def list_ex_iff)
qed

lemma snd_resolve: "snd (resolveRequestedModelInMapping m x) = mappingSupportsRequestedModel m x"
  by (auto simp: resolveRequestedModelInMapping_def mappingSupportsRequestedModel_def snd_wildcard_result
      split: option.split)

lemma fst_resolve_unmatched:
  "\<not> snd (resolveRequestedModelInMapping m x) \<Longrightarrow> resolveRequestedModelInMapping m x = (x, False)"
  by (cases "x = []"; cases "map_of m x")
    (auto simp: resolveRequestedModelInMapping_def matchWildcardMappingResult_def split: list.splits)

lemma resolve_iff:
  assumes "distinct (map fst m)" "x \<noteq> []"
  shows "resolveRequestedModelInMapping m x = (t, True) \<longleftrightarrow>
    map_of m x = Some t \<or>
    map_of m x = None \<and> (\<exists>p. (p, t) \<in> set m \<and> matchWildcard p x \<and>
        (\<forall>q u. (q, u) \<in> set m \<and> matchWildcard q x \<and> q \<noteq> p \<longrightarrow> length q < length p))"
proof (cases "map_of m x")
  case (Some y)
  then show ?thesis using assms(2) by (auto simp: resolveRequestedModelInMapping_def)
next
  case None
  then have ne: "q \<noteq> x" if "(q, u) \<in> set m" for q u
    using that by (metis map_of_eq_None_iff fst_conv image_eqI)
  have key: "pattern_key (p, t) \<le> pattern_key (q, u) \<longleftrightarrow> (q \<noteq> p \<longrightarrow> length q < length p)"
    if "(p, t) \<in> set m" "matchWildcard p x" "(q, u) \<in> set m" "matchWildcard q x" for p q t u
  proof -
    have "p = q" if "length p = length q"
      using that \<open>matchWildcard p x\<close> \<open>matchWildcard q x\<close> ne [OF \<open>(p, t) \<in> set m\<close>] ne [OF \<open>(q, u) \<in> set m\<close>]
      by (intro matchWildcard_same_length [of p x q])
    then show ?thesis by (auto simp: pattern_key_def less_eq_prod_def order_le_less)
  qed
  have "resolveRequestedModelInMapping m x = (t, True) \<longleftrightarrow>
     (\<exists>p. (p, t) \<in> set m \<and> matchWildcard p x \<and>
        (\<forall>q u. (q, u) \<in> set m \<and> matchWildcard q x \<longrightarrow> pattern_key (p, t) \<le> pattern_key (q, u)))"
    using None assms(2) wildcard_result [OF assms(1)] by (simp add: resolveRequestedModelInMapping_def)
  also have "\<dots> \<longleftrightarrow> (\<exists>p. (p, t) \<in> set m \<and> matchWildcard p x \<and>
        (\<forall>q u. (q, u) \<in> set m \<and> matchWildcard q x \<and> q \<noteq> p \<longrightarrow> length q < length p))"
    by (intro ex_cong1 conj_cong refl) (use key in blast)
  finally show ?thesis using None by simp
qed

text \<open>
  What a mapping does with a model: an exact entry wins; otherwise the entry with the longest pattern
  that matches (there is only one), whatever the order in which the map is visited.
\<close>

theorem resolve_longest_match:
  assumes "distinct (map fst m)" "x \<noteq> []"
  shows "resolveRequestedModelInMapping m x = (t, True) \<longleftrightarrow>
    map_of m x = Some t \<or>
    map_of m x = None \<and> (\<exists>p. (p, t) \<in> set m \<and> matchWildcard p x \<and>
        (\<forall>q u. (q, u) \<in> set m \<and> matchWildcard q x \<and> q \<noteq> p \<longrightarrow> length q < length p))"
  using assms by (rule resolve_iff)

lemma resolve_longest_match_witness:
  "resolveRequestedModelInMapping [(''*'', ''a''), (''claude-*'', ''b''), (''claude-opus'', ''c'')] ''claude-x'' = (''b'', True)"
  by (subst resolve_longest_match) (auto simp: matchWildcard_def has_suffix_def has_prefix_def starts_with_def)

subsection \<open>The order of the entries does not matter\<close>

definition same_map :: "model_mapping \<Rightarrow> model_mapping \<Rightarrow> bool" where
  "same_map m m' \<longleftrightarrow> distinct (map fst m) \<and> distinct (map fst m') \<and> map_of m = map_of m'"

lemma same_map_set: "same_map m m' \<Longrightarrow> set m = set m'"
  by (auto simp: same_map_def) (metis map_of_eq_Some_iff)+

lemma same_map_resolve:
  assumes "same_map m m'"
  shows "resolveRequestedModelInMapping m x = resolveRequestedModelInMapping m' x"
proof (cases "x = []")
  case False
  have d: "distinct (map fst m)" "distinct (map fst m')" using assms by (simp_all add: same_map_def)
  have "resolveRequestedModelInMapping m x = (t, True) \<longleftrightarrow> resolveRequestedModelInMapping m' x = (t, True)" for t
    unfolding resolve_iff [OF d(1) False] resolve_iff [OF d(2) False]
    using assms same_map_set [OF assms] by (simp add: same_map_def)
  then show ?thesis
    using fst_resolve_unmatched [of m x] fst_resolve_unmatched [of m' x] by (metis prod.collapse)
qed (simp add: resolveRequestedModelInMapping_def)

lemma same_map_list_ex: "same_map m m' \<Longrightarrow> list_ex P m = list_ex P m'"
  by (simp add: list_ex_iff same_map_set)

lemma same_map_update: "same_map m m' \<Longrightarrow> same_map (AList.update k v m) (AList.update k v m')"
  by (simp add: same_map_def update_conv' distinct_update)

lemma same_map_ensure:
  "same_map m m' \<Longrightarrow> same_map (ensureAntigravityDefaultPassthrough m x) (ensureAntigravityDefaultPassthrough m' x)"
  using same_map_list_ex [of m m'] same_map_update [of m m' x x]
  by (auto simp: ensureAntigravityDefaultPassthrough_def same_map_def)

lemma same_map_apply_alias: "same_map m m' \<Longrightarrow> same_map (apply_alias t m al) (apply_alias t m' al)"
  using same_map_list_ex [of m m'] same_map_update [of m m' "fst al" t]
  by (auto simp: apply_alias_def mappingHasWildcardForModel_def same_map_def split: option.split)

lemma same_map_foldl:
  "(\<And>m m' x. same_map m m' \<Longrightarrow> same_map (f m x) (f m' x)) \<Longrightarrow> same_map m m' \<Longrightarrow>
   same_map (foldl f m xs) (foldl f m' xs)"
  by (induction xs arbitrary: m m') auto

lemma string_entries_map:
  "distinct (map fst (string_entries m))"
  "map_of (string_entries m) k = (case map_of m k of Some (JsonString s) \<Rightarrow> Some s | _ \<Rightarrow> None)"
proof -
  have map_filter: "map_of (List.map_filter (\<lambda>k. case map_of m k of Some (JsonString s) \<Rightarrow> Some (k, s) | _ \<Rightarrow> None) ks) k =
      (if k \<in> set ks then (case map_of m k of Some (JsonString s) \<Rightarrow> Some s | _ \<Rightarrow> None) else None)" for ks
    by (induction ks) (auto simp: List.map_filter_simps split: option.splits json.splits)
  have fsts: "fst ` set (List.map_filter (\<lambda>k. case map_of m k of Some (JsonString s) \<Rightarrow> Some (k, s) | _ \<Rightarrow> None) ks) \<subseteq> set ks" for ks
    by (induction ks) (auto simp: List.map_filter_simps split: option.splits json.splits)
  have dist: "distinct ks \<Longrightarrow>
    distinct (map fst (List.map_filter (\<lambda>k. case map_of m k of Some (JsonString s) \<Rightarrow> Some (k, s) | _ \<Rightarrow> None) ks))" for ks
  proof (induction ks)
    case (Cons k ks)
    then have "k \<notin> fst ` set (List.map_filter (\<lambda>k. case map_of m k of Some (JsonString s) \<Rightarrow> Some (k, s) | _ \<Rightarrow> None) ks)"
      using fsts [of ks] by auto
    with Cons show ?case by (auto simp: List.map_filter_simps split: option.splits json.splits)
  qed (simp add: List.map_filter_simps)
  show "distinct (map fst (string_entries m))"
    unfolding string_entries_def by (rule dist) simp
  show "map_of (string_entries m) k = (case map_of m k of Some (JsonString s) \<Rightarrow> Some s | _ \<Rightarrow> None)"
    unfolding string_entries_def map_filter
    by (cases "map_of m k") (auto simp: map_of_eq_None_iff [THEN iffD2] dest: map_of_SomeD)
qed

lemma same_map_string_entries: "map_of m = map_of m' \<Longrightarrow> same_map (string_entries m) (string_entries m')"
  by (auto simp: same_map_def string_entries_map)

lemma same_map_aliases: "same_map m m' \<Longrightarrow>
    same_map (applyAntigravityGemini31ProAliases m) (applyAntigravityGemini31ProAliases m')"
  using same_map_foldl [of "apply_alias (trim_space (deref_or [] (map_of m AntigravityGemini31ProAgentModel)))" m m']
  by (simp add: applyAntigravityGemini31ProAliases_def Let_def same_map_apply_alias)
    (auto simp: same_map_def)

lemma same_map_platform_default: "same_map (platform_default p) (platform_default p)"
proof -
  have "distinct (map fst DefaultAntigravityModelMapping)" "distinct (map fst DefaultModelMapping)"
    by code_simp+
  then show ?thesis by (simp add: same_map_def platform_default_def)
qed

lemma map_of_eq_Nil: "map_of m = map_of m' \<Longrightarrow> (m = []) = (m' = [])"
  by (metis map_of_eq_empty_iff)

lemma same_map_resolveModelMapping:
  assumes "map_of raw = map_of raw'" "ac_Platform a = ac_Platform a'"
    "(ac_Credentials a = None) = (ac_Credentials a' = None)"
  shows "same_map (resolveModelMapping a raw) (resolveModelMapping a' raw')"
proof -
  note entries = same_map_string_entries [OF assms(1)]
  have ne: "(raw = []) = (raw' = [])" "(string_entries raw = []) = (string_entries raw' = [])"
    using assms(1) entries by (auto intro!: map_of_eq_Nil simp: same_map_def)
  have anti: "same_map
     (applyAntigravityGemini31ProAliases (ensureAntigravityDefaultPassthroughs (string_entries raw) ms))
     (applyAntigravityGemini31ProAliases (ensureAntigravityDefaultPassthroughs (string_entries raw') ms))" for ms
    unfolding ensureAntigravityDefaultPassthroughs_def
    by (intro same_map_aliases same_map_foldl same_map_ensure entries)
  show ?thesis
    using ne assms(2,3) entries anti same_map_platform_default
    by (auto simp: resolveModelMapping_def Let_def)
qed

text \<open>
  Go visits a map in an arbitrary order: two accounts whose model mappings have the same entries in
  any order serve the same models and map them the same way.
\<close>

theorem mapping_order_irrelevant:
  assumes "field (ac_Credentials a) ''model_mapping'' = Some (JsonObject raw)"
    and "field (ac_Credentials a') ''model_mapping'' = Some (JsonObject raw')"
    and "map_of raw = map_of raw'" "ac_Platform a = ac_Platform a'" "ac_Type a = ac_Type a'" "ac_Extra a = ac_Extra a'"
  shows "ResolveMappedModel a x = ResolveMappedModel a' x \<and> IsModelSupported a x = IsModelSupported a' x"
proof -
  have "(ac_Credentials a = None) = (ac_Credentials a' = None)"
    using assms(1,2) by (auto simp: field_def split: option.splits)
  then have same: "same_map (GetModelMapping a) (GetModelMapping a')"
    using same_map_resolveModelMapping [OF assms(3,4)] by (simp add: GetModelMapping_def assms(1,2))
  then have "(GetModelMapping a = []) = (GetModelMapping a' = [])"
    by (intro map_of_eq_Nil) (simp add: same_map_def)
  moreover have "IsOpenAIOAuth a = IsOpenAIOAuth a'"
      "IsOpenAIPassthroughEnabled a = IsOpenAIPassthroughEnabled a'"
    unfolding IsOpenAIOAuth_def IsOpenAIPassthroughEnabled_def IsOpenAI_def assms(4-6) by (rule refl)+
  ultimately show ?thesis
    by (simp add: ResolveMappedModel_def IsModelSupported_def Let_def snd_resolve [symmetric]
        same_map_resolve [OF same] assms(4))
qed

text \<open>
  Scheduling and forwarding agree: an account that has a model mapping supports exactly the models
  that its mapping resolves, and a model that it does not support is forwarded under its own name.
\<close>

theorem supported_iff_resolved:
  assumes "GetModelMapping a \<noteq> []"
  shows "IsModelSupported a x = snd (ResolveMappedModel a x) \<and>
    (\<not> IsModelSupported a x \<longrightarrow> GetMappedModel a x = x)"
  using assms fst_resolve_unmatched
  by (auto simp: IsModelSupported_def ResolveMappedModel_def GetMappedModel_def Let_def snd_resolve)

subsection \<open>Examples\<close>

definition sample_account :: "string \<Rightarrow> json_object \<Rightarrow> Account" where
  "sample_account platform mapping = \<lparr>ac_ID = 1, ac_Platform = platform, ac_Type = TypeAPIKey,
     ac_Credentials = Some [(''model_mapping'', JsonObject mapping)], ac_Extra = None, ac_Concurrency = 3,
     ac_Priority = 0, ac_RateMultiplier = None, ac_LoadFactor = None, ac_Status = StatusActive,
     ac_ExpiresAt = None, ac_AutoPauseOnExpired = False, ac_Schedulable = True, ac_RateLimitResetAt = None,
     ac_OverloadUntil = None, ac_TempUnschedulableUntil = None, ac_SessionWindowStart = None,
     ac_SessionWindowEnd = None, ac_ParentAccountID = None, ac_QuotaDimension = []\<rparr>"

lemma mapping_order_irrelevant_witness:
  "ResolveMappedModel (sample_account PlatformGemini [(''g-*'', JsonString ''a''), (''g-1*'', JsonString ''b'')]) ''g-12'' =
   ResolveMappedModel (sample_account PlatformGemini [(''g-1*'', JsonString ''b''), (''g-*'', JsonString ''a'')]) ''g-12''"
  by (rule mapping_order_irrelevant [where raw = "[(''g-*'', JsonString ''a''), (''g-1*'', JsonString ''b'')]"
        and raw' = "[(''g-1*'', JsonString ''b''), (''g-*'', JsonString ''a'')]", THEN conjunct1])
    (auto simp: sample_account_def field_def)

lemma supported_iff_resolved_witness:
  "IsModelSupported (sample_account PlatformGemini [(''g-*'', JsonString ''a'')]) ''g-12'' =
   snd (ResolveMappedModel (sample_account PlatformGemini [(''g-*'', JsonString ''a'')]) ''g-12'')"
proof -
  have "GetModelMapping (sample_account PlatformGemini [(''g-*'', JsonString ''a'')]) \<noteq> []" by code_simp
  from supported_iff_resolved [OF this] show ?thesis by blast
qed

end
