(* ===== verification/AccountLimits.thy ===== *)
theory AccountLimits
  imports AccountModels UsageBilling
begin

section \<open>Upstream accounts: quotas, rate tiers and schedulability\<close>

text \<open>
  The limits of an account in \<^verbatim>\<open>service/account.go\<close>: quota windows with rolling or fixed reset, the
  normalisation and validation of their configuration, requests per minute, window cost, and
  \<^verbatim>\<open>IsSchedulable\<close>.  The time zone database, the parser and printer of RFC 3339 times and
  \<^verbatim>\<open>strconv.ParseFloat\<close> are the record \<open>go_env\<close>; a zero \<^verbatim>\<open>time.Time\<close> is \<open>None\<close>.  A zone maps an instant to
  the nanoseconds of its wall clock since 1970-01-01 00:00 (a Thursday) and a wall clock to the instant
  that \<^verbatim>\<open>time.Date\<close> picks.  The sums of rate limits are unbounded integers.
\<close>

record go_zone =
  z_local :: "int \<Rightarrow> int"
  z_instant :: "int \<Rightarrow> int"

record go_env =
  ge_ParseFloat :: "string \<Rightarrow> f64 option"
  ge_ParseTime :: "string \<Rightarrow> int option"
  ge_FormatTime :: "int \<Rightarrow> string"
  ge_LoadLocation :: "string \<Rightarrow> go_zone option"

definition UTC :: go_zone where
  "UTC = \<lparr>z_local = (\<lambda>t. t), z_instant = (\<lambda>w. w)\<rparr>"

subsection \<open>Extras\<close>

definition parseExtraFloat64 :: "go_env \<Rightarrow> json option \<Rightarrow> f64" where
  "parseExtraFloat64 ge v = (case v of
      Some (JsonNumber n) \<Rightarrow> n
    | Some (JsonString s) \<Rightarrow> (case ge_ParseFloat ge (trim_space s) of Some f \<Rightarrow> f | None \<Rightarrow> Fin 0)
    | _ \<Rightarrow> Fin 0)"

definition parseExtraInt :: "json option \<Rightarrow> int" where
  "parseExtraInt v = (case v of
      Some (JsonNumber n) \<Rightarrow> f_to_int64 n
    | Some (JsonString s) \<Rightarrow> deref_or 0 (atoi (trim_space s))
    | _ \<Rightarrow> 0)"

definition parseExtraTime :: "go_env \<Rightarrow> json option \<Rightarrow> int option" where
  "parseExtraTime ge v = (case v of Some (JsonString s) \<Rightarrow> ge_ParseTime ge s | _ \<Rightarrow> None)"

definition getExtraFloat64 :: "go_env \<Rightarrow> Account \<Rightarrow> string \<Rightarrow> f64" where
  "getExtraFloat64 ge a key = parseExtraFloat64 ge (field (ac_Extra a) key)"

definition getExtraInt :: "go_env \<Rightarrow> Account \<Rightarrow> string \<Rightarrow> int" where
  "getExtraInt ge a key = f_to_int64 (getExtraFloat64 ge a key)"

definition getExtraTime :: "go_env \<Rightarrow> Account \<Rightarrow> string \<Rightarrow> int option" where
  "getExtraTime ge a key = parseExtraTime ge (field (ac_Extra a) key)"

text \<open>\<^verbatim>\<open>s, _ := extra[key].(string)\<close>\<close>

definition extra_string :: "json_object \<Rightarrow> string \<Rightarrow> string" where
  "extra_string extra key = (case map_of extra key of Some (JsonString s) \<Rightarrow> s | _ \<Rightarrow> [])"

subsection \<open>Fixed reset times\<close>

text \<open>\<^verbatim>\<open>t.AddDate(0, 0, n)\<close> keeps the wall clock.\<close>

definition add_days :: "go_zone \<Rightarrow> int \<Rightarrow> int \<Rightarrow> int" where
  "add_days z n t = z_instant z (z_local z t + n * day)"

text \<open>\<^verbatim>\<open>time.Date\<close> of the date of \<open>t\<close> at the given hour.\<close>

definition at_hour :: "go_zone \<Rightarrow> int \<Rightarrow> int \<Rightarrow> int" where
  "at_hour z h t = z_instant z (z_local z t - z_local z t mod day + h * hour)"

definition weekday :: "go_zone \<Rightarrow> int \<Rightarrow> int" where
  "weekday z t = (z_local z t div day + 4) mod 7"

definition nextFixedDailyReset :: "int \<Rightarrow> go_zone \<Rightarrow> int \<Rightarrow> int" where
  "nextFixedDailyReset h z after = (let today = at_hour z h after in
     if \<not> after < today then add_days z 1 today else today)"

definition lastFixedDailyReset :: "int \<Rightarrow> go_zone \<Rightarrow> int \<Rightarrow> int" where
  "lastFixedDailyReset h z now = (let today = at_hour z h now in
     if now < today then add_days z (- 1) today else today)"

definition nextFixedWeeklyReset :: "int \<Rightarrow> int \<Rightarrow> go_zone \<Rightarrow> int \<Rightarrow> int" where
  "nextFixedWeeklyReset d h z after = (let todayReset = at_hour z h after;
     daysForward = go_rem (d - weekday z todayReset + 7) 7;
     daysForward = (if daysForward = 0 \<and> \<not> after < todayReset then 7 else daysForward)
     in add_days z daysForward todayReset)"

definition lastFixedWeeklyReset :: "int \<Rightarrow> int \<Rightarrow> go_zone \<Rightarrow> int \<Rightarrow> int" where
  "lastFixedWeeklyReset d h z now = (let todayReset = at_hour z h now;
     daysBack = go_rem (weekday z todayReset - d + 7) 7;
     daysBack = (if daysBack = 0 \<and> now < todayReset then 7 else daysBack)
     in add_days z (- daysBack) todayReset)"

subsection \<open>Quota windows of an account\<close>

definition GetQuotaLimit :: "go_env \<Rightarrow> Account \<Rightarrow> f64" where
  "GetQuotaLimit ge a = getExtraFloat64 ge a ''quota_limit''"
definition GetQuotaUsed :: "go_env \<Rightarrow> Account \<Rightarrow> f64" where
  "GetQuotaUsed ge a = getExtraFloat64 ge a ''quota_used''"
definition GetQuotaDailyLimit :: "go_env \<Rightarrow> Account \<Rightarrow> f64" where
  "GetQuotaDailyLimit ge a = getExtraFloat64 ge a ''quota_daily_limit''"
definition GetQuotaDailyUsed :: "go_env \<Rightarrow> Account \<Rightarrow> f64" where
  "GetQuotaDailyUsed ge a = getExtraFloat64 ge a ''quota_daily_used''"
definition GetQuotaWeeklyLimit :: "go_env \<Rightarrow> Account \<Rightarrow> f64" where
  "GetQuotaWeeklyLimit ge a = getExtraFloat64 ge a ''quota_weekly_limit''"
definition GetQuotaWeeklyUsed :: "go_env \<Rightarrow> Account \<Rightarrow> f64" where
  "GetQuotaWeeklyUsed ge a = getExtraFloat64 ge a ''quota_weekly_used''"

definition reset_mode :: "string \<Rightarrow> string" where
  "reset_mode m = (if m = ''fixed'' then ''fixed'' else ''rolling'')"

definition GetQuotaDailyResetMode :: "Account \<Rightarrow> string" where
  "GetQuotaDailyResetMode a = reset_mode (getExtraString a ''quota_daily_reset_mode'')"
definition GetQuotaDailyResetHour :: "go_env \<Rightarrow> Account \<Rightarrow> int" where
  "GetQuotaDailyResetHour ge a = getExtraInt ge a ''quota_daily_reset_hour''"
definition GetQuotaWeeklyResetMode :: "Account \<Rightarrow> string" where
  "GetQuotaWeeklyResetMode a = reset_mode (getExtraString a ''quota_weekly_reset_mode'')"
definition GetQuotaWeeklyResetHour :: "go_env \<Rightarrow> Account \<Rightarrow> int" where
  "GetQuotaWeeklyResetHour ge a = getExtraInt ge a ''quota_weekly_reset_hour''"

definition GetQuotaWeeklyResetDay :: "go_env \<Rightarrow> Account \<Rightarrow> int" where
  "GetQuotaWeeklyResetDay ge a = (if field (ac_Extra a) ''quota_weekly_reset_day'' = None then 1
     else getExtraInt ge a ''quota_weekly_reset_day'')"

definition GetQuotaResetTimezone :: "Account \<Rightarrow> string" where
  "GetQuotaResetTimezone a = (let tz = getExtraString a ''quota_reset_timezone'' in
     if tz \<noteq> [] then tz else ''UTC'')"

definition load_zone :: "go_env \<Rightarrow> string \<Rightarrow> go_zone" where
  "load_zone ge tz = deref_or UTC (ge_LoadLocation ge tz)"

definition isFixedDailyPeriodExpired :: "go_env \<Rightarrow> Account \<Rightarrow> int option \<Rightarrow> int \<Rightarrow> bool" where
  "isFixedDailyPeriodExpired ge a periodStart now = (case periodStart of
      None \<Rightarrow> True
    | Some t \<Rightarrow> t < lastFixedDailyReset (GetQuotaDailyResetHour ge a) (load_zone ge (GetQuotaResetTimezone a)) now)"

definition isFixedWeeklyPeriodExpired :: "go_env \<Rightarrow> Account \<Rightarrow> int option \<Rightarrow> int \<Rightarrow> bool" where
  "isFixedWeeklyPeriodExpired ge a periodStart now = (case periodStart of
      None \<Rightarrow> True
    | Some t \<Rightarrow> t < lastFixedWeeklyReset (GetQuotaWeeklyResetDay ge a) (GetQuotaWeeklyResetHour ge a)
                 (load_zone ge (GetQuotaResetTimezone a)) now)"

definition isPeriodExpired :: "int option \<Rightarrow> int \<Rightarrow> int \<Rightarrow> bool" where
  "isPeriodExpired periodStart dur now = (case periodStart of None \<Rightarrow> True | Some t \<Rightarrow> dur \<le> now - t)"

definition IsDailyQuotaPeriodExpired :: "go_env \<Rightarrow> Account \<Rightarrow> int \<Rightarrow> bool" where
  "IsDailyQuotaPeriodExpired ge a now = (let start = getExtraTime ge a ''quota_daily_start'' in
     if GetQuotaDailyResetMode a = ''fixed'' then isFixedDailyPeriodExpired ge a start now
     else isPeriodExpired start (24 * hour) now)"

definition IsWeeklyQuotaPeriodExpired :: "go_env \<Rightarrow> Account \<Rightarrow> int \<Rightarrow> bool" where
  "IsWeeklyQuotaPeriodExpired ge a now = (let start = getExtraTime ge a ''quota_weekly_start'' in
     if GetQuotaWeeklyResetMode a = ''fixed'' then isFixedWeeklyPeriodExpired ge a start now
     else isPeriodExpired start (7 * 24 * hour) now)"

definition HasAnyQuotaLimit :: "go_env \<Rightarrow> Account \<Rightarrow> bool" where
  "HasAnyQuotaLimit ge a \<longleftrightarrow> f_lt (Fin 0) (GetQuotaLimit ge a) \<or> f_lt (Fin 0) (GetQuotaDailyLimit ge a) \<or>
     f_lt (Fin 0) (GetQuotaWeeklyLimit ge a)"

text \<open>The clock is read once for each window that has a limit and a recorded start.\<close>

definition window_exceeded :: "f64 \<Rightarrow> f64 \<Rightarrow> bool \<Rightarrow> (int \<Rightarrow> bool) \<Rightarrow> ('z world_scheme, bool) state" where
  "window_exceeded limit used started over =
     (if \<not> f_lt (Fin 0) limit then ret False
      else if \<not> started then ret False
      else do { now \<leftarrow> time_now; ret (\<not> over now \<and> f_le limit used) })"

definition IsQuotaExceeded :: "go_env \<Rightarrow> Account \<Rightarrow> ('z world_scheme, bool) state" where
  "IsQuotaExceeded ge a =
     (if f_lt (Fin 0) (GetQuotaLimit ge a) \<and> f_le (GetQuotaLimit ge a) (GetQuotaUsed ge a) then ret True
      else do {
        d \<leftarrow> window_exceeded (GetQuotaDailyLimit ge a) (GetQuotaDailyUsed ge a)
               (getExtraTime ge a ''quota_daily_start'' \<noteq> None) (IsDailyQuotaPeriodExpired ge a);
        if d then ret True
        else window_exceeded (GetQuotaWeeklyLimit ge a) (GetQuotaWeeklyUsed ge a)
               (getExtraTime ge a ''quota_weekly_start'' \<noteq> None) (IsWeeklyQuotaPeriodExpired ge a) })"

subsection \<open>Schedulability\<close>

definition before :: "int \<Rightarrow> int option \<Rightarrow> bool" where
  "before now t = (case t of None \<Rightarrow> False | Some u \<Rightarrow> now < u)"

definition IsSchedulable :: "go_env \<Rightarrow> Account \<Rightarrow> ('z world_scheme, bool) state" where
  "IsSchedulable ge a =
     (if \<not> IsActive a \<or> \<not> ac_Schedulable a then ret False
      else do {
        now \<leftarrow> time_now;
        if ac_AutoPauseOnExpired a \<and> ac_ExpiresAt a \<noteq> None \<and> \<not> before now (ac_ExpiresAt a) then ret False
        else if before now (ac_OverloadUntil a) then ret False
        else if before now (ac_RateLimitResetAt a) then ret False
        else if before now (ac_TempUnschedulableUntil a) then ret False
        else if IsAPIKeyOrBedrock a then do { q \<leftarrow> IsQuotaExceeded ge a; ret (\<not> q) }
        else ret True })"

definition IsCredentialUsableForShadow :: "Account option \<Rightarrow> int \<Rightarrow> bool" where
  "IsCredentialUsableForShadow a now = (case a of None \<Rightarrow> False
     | Some a \<Rightarrow> IsActive a \<and>
         \<not> (ac_AutoPauseOnExpired a \<and> ac_ExpiresAt a \<noteq> None \<and> \<not> before now (ac_ExpiresAt a)) \<and>
         \<not> before now (ac_TempUnschedulableUntil a))"

definition IsRateLimited :: "Account \<Rightarrow> int \<Rightarrow> bool" where
  "IsRateLimited a now = before now (ac_RateLimitResetAt a)"

definition IsOverloaded :: "Account \<Rightarrow> int \<Rightarrow> bool" where
  "IsOverloaded a now = before now (ac_OverloadUntil a)"

subsection \<open>Requests per minute and window cost\<close>

datatype WindowCostSchedulability = WindowCostSchedulable | WindowCostStickyOnly | WindowCostNotSchedulable

definition GetMaxSessions :: "Account \<Rightarrow> int" where
  "GetMaxSessions a = parseExtraInt (field (ac_Extra a) ''max_sessions'')"

definition GetSessionIdleTimeoutMinutes :: "Account \<Rightarrow> int" where
  "GetSessionIdleTimeoutMinutes a = (let val = parseExtraInt (field (ac_Extra a) ''session_idle_timeout_minutes'') in
     if 0 < val then val else 5)"

definition GetBaseRPM :: "Account \<Rightarrow> int" where
  "GetBaseRPM a = (let val = parseExtraInt (field (ac_Extra a) ''base_rpm'') in if 0 < val then val else 0)"

definition GetRPMStrategy :: "Account \<Rightarrow> string" where
  "GetRPMStrategy a = (if getExtraString a ''rpm_strategy'' = ''sticky_exempt'' then ''sticky_exempt'' else ''tiered'')"

definition GetRPMStickyBuffer :: "Account \<Rightarrow> int" where
  "GetRPMStickyBuffer a =
     (let val = parseExtraInt (field (ac_Extra a) ''rpm_sticky_buffer'') in
      if 0 < val then val
      else (let base = GetBaseRPM a in
        if base \<le> 0 then 0
        else (let conc = max 0 (ac_Concurrency a); sess = max 0 (GetMaxSessions a);
                  buffer = conc + sess; fl = max 1 (go_div base 5)
              in max buffer fl)))"

definition CheckRPMSchedulability :: "Account \<Rightarrow> int \<Rightarrow> WindowCostSchedulability" where
  "CheckRPMSchedulability a currentRPM =
     (let baseRPM = GetBaseRPM a in
      if baseRPM \<le> 0 then WindowCostSchedulable
      else if currentRPM < baseRPM then WindowCostSchedulable
      else if GetRPMStrategy a = ''sticky_exempt'' then WindowCostStickyOnly
      else if currentRPM < baseRPM + GetRPMStickyBuffer a then WindowCostStickyOnly
      else WindowCostNotSchedulable)"

definition GetWindowCostLimit :: "go_env \<Rightarrow> Account \<Rightarrow> f64" where
  "GetWindowCostLimit ge a = getExtraFloat64 ge a ''window_cost_limit''"

definition GetWindowCostStickyReserve :: "go_env \<Rightarrow> Account \<Rightarrow> f64" where
  "GetWindowCostStickyReserve ge a = (let val = getExtraFloat64 ge a ''window_cost_sticky_reserve'' in
     if f_lt (Fin 0) val then val else Fin 10)"

definition CheckWindowCostSchedulability :: "go_env \<Rightarrow> Account \<Rightarrow> f64 \<Rightarrow> WindowCostSchedulability" where
  "CheckWindowCostSchedulability ge a currentWindowCost =
     (let limit = GetWindowCostLimit ge a in
      if f_le limit (Fin 0) then WindowCostSchedulable
      else if f_lt currentWindowCost limit then WindowCostSchedulable
      else if f_lt currentWindowCost (f_add limit (GetWindowCostStickyReserve ge a)) then WindowCostStickyOnly
      else WindowCostNotSchedulable)"

text \<open>The recorded window, or else the current hour of the server's clock.\<close>

definition GetCurrentWindowStartTime :: "go_zone \<Rightarrow> Account \<Rightarrow> int \<Rightarrow> int" where
  "GetCurrentWindowStartTime server a now =
     (case (ac_SessionWindowStart a, ac_SessionWindowEnd a) of
        (Some start, Some e) \<Rightarrow>
          if now < e then start else z_instant server (z_local server now - z_local server now mod hour)
      | _ \<Rightarrow> z_instant server (z_local server now - z_local server now mod hour))"

subsection \<open>Saving the quota configuration\<close>

definition valid_hour :: "int \<Rightarrow> int" where
  "valid_hour h = (if h < 0 \<or> 23 < h then 0 else h)"

definition valid_weekday :: "int \<Rightarrow> int" where
  "valid_weekday d = (if d < 0 \<or> 6 < d then 1 else d)"

definition config_zone :: "go_env \<Rightarrow> json_object \<Rightarrow> go_zone" where
  "config_zone ge extra = (let tzName = extra_string extra ''quota_reset_timezone'' in
     load_zone ge (if tzName = [] then ''UTC'' else tzName))"

definition config_int :: "go_env \<Rightarrow> json_object \<Rightarrow> string \<Rightarrow> int" where
  "config_int ge extra key = f_to_int64 (parseExtraFloat64 ge (map_of extra key))"

definition config_weekday :: "go_env \<Rightarrow> json_object \<Rightarrow> int" where
  "config_weekday ge extra = valid_weekday
     (if map_of extra ''quota_weekly_reset_day'' = None then 1 else config_int ge extra ''quota_weekly_reset_day'')"

definition delete_key :: "string \<Rightarrow> json_object \<Rightarrow> json_object" where
  "delete_key k extra = filter (\<lambda>kv. fst kv \<noteq> k) extra"

definition ComputeQuotaResetAt :: "go_env \<Rightarrow> json_object \<Rightarrow> int \<Rightarrow> json_object" where
  "ComputeQuotaResetAt ge extra now =
     (let tz = config_zone ge extra;
          e1 = (if extra_string extra ''quota_daily_reset_mode'' = ''fixed''
            then AList.update ''quota_daily_reset_at'' (JsonString (ge_FormatTime ge
                   (nextFixedDailyReset (valid_hour (config_int ge extra ''quota_daily_reset_hour'')) tz now))) extra
            else delete_key ''quota_daily_reset_at'' extra)
      in if extra_string e1 ''quota_weekly_reset_mode'' = ''fixed''
         then AList.update ''quota_weekly_reset_at'' (JsonString (ge_FormatTime ge
                (nextFixedWeeklyReset (config_weekday ge e1)
                   (valid_hour (config_int ge e1 ''quota_weekly_reset_hour'')) tz now))) e1
         else delete_key ''quota_weekly_reset_at'' e1)"

text \<open>A window whose start is missing or before its last reset is opened anew at that reset.\<close>

definition normalize_window :: "go_env \<Rightarrow> string \<Rightarrow> string \<Rightarrow> int \<Rightarrow> json_object \<Rightarrow> json_object" where
  "normalize_window ge used_key start_key lastReset extra =
     (if (case parseExtraTime ge (map_of extra start_key) of None \<Rightarrow> True | Some start \<Rightarrow> start < lastReset)
      then AList.update start_key (JsonString (ge_FormatTime ge lastReset))
             (AList.update used_key (JsonNumber (Fin 0)) extra)
      else extra)"

definition NormalizeFixedQuotaWindows :: "go_env \<Rightarrow> json_object \<Rightarrow> int \<Rightarrow> json_object" where
  "NormalizeFixedQuotaWindows ge extra now =
     (let tz = config_zone ge extra;
          e1 = (if extra_string extra ''quota_daily_reset_mode'' = ''fixed'' \<and>
                   f_lt (Fin 0) (parseExtraFloat64 ge (map_of extra ''quota_daily_limit''))
            then normalize_window ge ''quota_daily_used'' ''quota_daily_start''
                   (lastFixedDailyReset (valid_hour (config_int ge extra ''quota_daily_reset_hour'')) tz now) extra
            else extra)
      in if extra_string e1 ''quota_weekly_reset_mode'' = ''fixed'' \<and>
            f_lt (Fin 0) (parseExtraFloat64 ge (map_of e1 ''quota_weekly_limit''))
         then normalize_window ge ''quota_weekly_used'' ''quota_weekly_start''
                (lastFixedWeeklyReset (config_weekday ge e1)
                   (valid_hour (config_int ge e1 ''quota_weekly_reset_hour'')) tz now) e1
         else e1)"

definition quoted :: "string \<Rightarrow> string" where
  "quoted s = [CHR 0x27] @ s @ [CHR 0x27]"

definition mode_error :: "string \<Rightarrow> goerr" where
  "mode_error key = PlainErr (key @ '' must be '' @ quoted ''rolling'' @ '' or '' @ quoted ''fixed'')"

definition mode_invalid :: "json_object \<Rightarrow> string \<Rightarrow> bool" where
  "mode_invalid extra key = (case map_of extra key of
      Some (JsonString mode) \<Rightarrow> mode \<noteq> ''rolling'' \<and> mode \<noteq> ''fixed'' | _ \<Rightarrow> False)"

definition int_invalid :: "go_env \<Rightarrow> json_object \<Rightarrow> string \<Rightarrow> int \<Rightarrow> bool" where
  "int_invalid ge extra key hi = (map_of extra key \<noteq> None \<and>
     (config_int ge extra key < 0 \<or> hi < config_int ge extra key))"

definition ValidateQuotaResetConfig :: "go_env \<Rightarrow> json_object \<Rightarrow> goerr option" where
  "ValidateQuotaResetConfig ge extra =
     (if extra_string extra ''quota_reset_timezone'' \<noteq> [] \<and>
         ge_LoadLocation ge (extra_string extra ''quota_reset_timezone'') = None then
        Some (PlainErr ''invalid quota_reset_timezone: must be a valid IANA timezone name'')
      else if mode_invalid extra ''quota_daily_reset_mode'' then Some (mode_error ''quota_daily_reset_mode'')
      else if int_invalid ge extra ''quota_daily_reset_hour'' 23 then
        Some (PlainErr ''quota_daily_reset_hour must be between 0 and 23'')
      else if mode_invalid extra ''quota_weekly_reset_mode'' then Some (mode_error ''quota_weekly_reset_mode'')
      else if int_invalid ge extra ''quota_weekly_reset_day'' 6 then
        Some (PlainErr ''quota_weekly_reset_day must be between 0 (Sunday) and 6 (Saturday)'')
      else if int_invalid ge extra ''quota_weekly_reset_hour'' 23 then
        Some (PlainErr ''quota_weekly_reset_hour must be between 0 and 23'')
      else None)"

subsection \<open>Arithmetic of reset times\<close>

text \<open>A zone without daylight saving time.\<close>

definition fixed_offset :: "go_zone \<Rightarrow> int \<Rightarrow> bool" where
  "fixed_offset z off \<longleftrightarrow> z_local z = (\<lambda>t. t + off) \<and> z_instant z = (\<lambda>w. w - off)"

lemma hour_day: "0 < hour" "day = 24 * hour" "0 < day"
  by (simp_all add: day_def hour_def minute_def second_def)

lemma mod_sub:
  fixes x H D :: int
  assumes "0 \<le> H" "H < D"
  shows "(x - H) mod D = (if H \<le> x mod D then x mod D - H else x mod D - H + D)"
proof -
  have r: "0 \<le> x mod D" "x mod D < D" using assms by simp_all
  have "(x - H) mod D = (x mod D - H) mod D" by (simp add: mod_diff_left_eq)
  also have "\<dots> = (if H \<le> x mod D then x mod D - H else x mod D - H + D)"
  proof (cases "H \<le> x mod D")
    case True
    then show ?thesis using assms r by simp
  next
    case False
    have "(x mod D - H) mod D = (x mod D - H + D) mod D" by simp
    also have "\<dots> = x mod D - H + D" using False assms r by (intro mod_pos_pos_trivial) simp_all
    finally show ?thesis using False by simp
  qed
  finally show ?thesis .
qed

lemma hour_in_day: "0 \<le> h \<Longrightarrow> h \<le> 23 \<Longrightarrow> 0 \<le> h * hour \<and> h * hour < day"
proof -
  assume h: "0 \<le> h" "h \<le> 23"
  then have "h * hour \<le> 23 * hour" "0 \<le> h * hour"
    using hour_day(1) by (intro mult_right_mono mult_nonneg_nonneg; simp)+
  with hour_day show ?thesis by linarith
qed

lemma at_hour_fixed: "fixed_offset z off \<Longrightarrow> at_hour z h t = t - (t + off) mod day + h * hour"
  by (simp add: at_hour_def fixed_offset_def)

lemma add_days_fixed: "fixed_offset z off \<Longrightarrow> add_days z n t = t + n * day"
  by (simp add: add_days_def fixed_offset_def)

lemma last_daily_fixed:
  assumes "fixed_offset z off" "0 \<le> h" "h \<le> 23"
  shows "lastFixedDailyReset h z now = now - (now + off - h * hour) mod day"
  using mod_sub [of "h * hour" day "now + off"] hour_in_day [OF assms(2,3)]
  by (auto simp: lastFixedDailyReset_def Let_def at_hour_fixed [OF assms(1)] add_days_fixed [OF assms(1)])

lemma next_daily_fixed:
  assumes "fixed_offset z off" "0 \<le> h" "h \<le> 23"
  shows "nextFixedDailyReset h z t = t - (t + off - h * hour) mod day + day"
  using mod_sub [of "h * hour" day "t + off"] hour_in_day [OF assms(2,3)]
  by (auto simp: nextFixedDailyReset_def Let_def at_hour_fixed [OF assms(1)] add_days_fixed [OF assms(1)])

lemma go_rem_nonneg: "0 \<le> a \<Longrightarrow> 0 < b \<Longrightarrow> go_rem a b = a mod b"
  by (cases "a = 0") (auto simp: go_rem_def sgn_if)

text \<open>The wall clock at the last weekly reset, as an offset in the week of the epoch.\<close>

definition week_point :: "int \<Rightarrow> int \<Rightarrow> int" where
  "week_point d h = (d - 4) * day + h * hour"

lemma weekly_residue:
  fixes x :: int
  assumes "0 \<le> h" "h \<le> 23"
  shows "(x - week_point d h) mod (7 * day) =
    (let b = (x div day + 4 - d) mod 7; m = x mod day in
     if b = 0 \<and> m < h * hour then m - h * hour + 7 * day else b * day + m - h * hour)"
proof -
  define b where "b = (x div day + 4 - d) mod 7"
  define m where "m = x mod day"
  define q where "q = (x div day + 4 - d) div 7"
  have x: "x = (x div day) * day + m" by (simp add: m_def)
  have bq: "x div day + 4 - d = 7 * q + b" by (simp add: b_def q_def)
  have b: "0 \<le> b" "b < 7" by (simp_all add: b_def)
  have m: "0 \<le> m" "m < day" using hour_day by (simp_all add: m_def)
  have H: "0 \<le> h * hour" "h * hour < day" using hour_in_day [OF assms] by simp_all
  have "x - week_point d h = (x div day + 4 - d) * day + m - h * hour"
    using x by (simp add: week_point_def algebra_simps)
  also have "\<dots> = q * (7 * day) + (b * day + m - h * hour)"
    unfolding bq by (simp add: algebra_simps)
  finally have eq: "(x - week_point d h) mod (7 * day) = (b * day + m - h * hour) mod (7 * day)"
    by simp
  have up: "b * day \<le> 6 * day" using b hour_day by (intro mult_right_mono) simp_all
  show ?thesis
  proof (cases "b = 0 \<and> m < h * hour")
    case True
    then have "(b * day + m - h * hour) mod (7 * day) = (m - h * hour + 7 * day) mod (7 * day)" by simp
    also have "\<dots> = m - h * hour + 7 * day" using True m H by (intro mod_pos_pos_trivial) simp_all
    finally show ?thesis using True eq by (simp add: Let_def b_def [symmetric] m_def [symmetric])
  next
    case False
    have "0 \<le> b * day + m - h * hour"
    proof (cases "b = 0")
      case True
      then show ?thesis using False by simp
    next
      case False
      then have "1 * day \<le> b * day" using b hour_day by (intro mult_right_mono) simp_all
      then show ?thesis using m H by linarith
    qed
    then have "(b * day + m - h * hour) mod (7 * day) = b * day + m - h * hour"
      using up m H by (intro mod_pos_pos_trivial) linarith+
    then show ?thesis using False eq by (auto simp: Let_def b_def [symmetric] m_def [symmetric])
  qed
qed

lemma weekday_today:
  assumes "fixed_offset z off" "0 \<le> h" "h \<le> 23"
  shows "weekday z (at_hour z h t) = ((t + off) div day + 4) mod 7"
proof -
  have "t - (t + off) mod day + h * hour + off = (t + off) div day * day + h * hour"
    by (simp add: minus_mod_eq_div_mult [symmetric])
  moreover have "z_local z (at_hour z h t) = t - (t + off) mod day + h * hour + off"
    using assms(1) by (simp add: at_hour_fixed [OF assms(1)]) (simp add: fixed_offset_def)
  ultimately have "z_local z (at_hour z h t) div day = (t + off) div day"
    using hour_in_day [OF assms(2,3)] hour_day(3) by (simp only:) simp
  then show ?thesis by (simp add: weekday_def)
qed

lemma last_weekly_fixed:
  assumes "fixed_offset z off" "0 \<le> h" "h \<le> 23" "0 \<le> d" "d \<le> 6"
  shows "lastFixedWeeklyReset d h z now = now - (now + off - week_point d h) mod (7 * day)"
proof -
  have "0 \<le> weekday z (at_hour z h now)" by (simp add: weekday_def)
  then have "go_rem (weekday z (at_hour z h now) - d + 7) 7 = ((now + off) div day + 4 - d) mod 7"
    using assms(5) unfolding weekday_today [OF assms(1-3)]
    by (simp add: go_rem_nonneg) (simp add: mod_diff_left_eq)
  then show ?thesis
    using weekly_residue [OF assms(2,3), of "now + off" d]
    by (auto simp: lastFixedWeeklyReset_def Let_def at_hour_fixed [OF assms(1)] add_days_fixed [OF assms(1)])
qed

lemma next_weekly_fixed:
  assumes "fixed_offset z off" "0 \<le> h" "h \<le> 23" "0 \<le> d" "d \<le> 6"
  shows "nextFixedWeeklyReset d h z t = t - (t + off - week_point d h) mod (7 * day) + 7 * day"
proof -
  define b where "b = ((t + off) div day + 4 - d) mod 7"
  have b: "0 \<le> b" "b < 7" by (simp_all add: b_def)
  have cur: "((t + off) div day + 4) mod 7 = (b + d) mod 7"
    by (simp add: b_def mod_add_left_eq)
  have "go_rem (d - weekday z (at_hour z h t) + 7) 7 = (if b = 0 then 0 else 7 - b)"
  proof -
    have w: "0 \<le> weekday z (at_hour z h t)" "weekday z (at_hour z h t) < 7" by (simp_all add: weekday_def)
    then have "go_rem (d - weekday z (at_hour z h t) + 7) 7 = (d - weekday z (at_hour z h t) + 7) mod 7"
      using assms(4) by (intro go_rem_nonneg) simp_all
    also have "\<dots> = (d - (b + d)) mod 7"
      unfolding weekday_today [OF assms(1-3)] cur by (simp add: mod_diff_right_eq)
    also have "\<dots> = (- b) mod 7" by simp
    also have "\<dots> = (if b = 0 then 0 else 7 - b)" using b by (simp add: zmod_zminus1_eq_if)
    finally show ?thesis .
  qed
  then have fwd: "go_rem (d - weekday z (at_hour z h t) + 7) 7 = (if b = 0 then 0 else 7 - b)" .
  show ?thesis
    using weekly_residue [OF assms(2,3), of "t + off" d]
    unfolding nextFixedWeeklyReset_def Let_def fwd add_days_fixed [OF assms(1)] b_def [symmetric]
    unfolding at_hour_fixed [OF assms(1)]
    using b by (cases "b = 0") (auto simp: left_diff_distrib)
qed

text \<open>Points of a grid: a point lies after \<open>start\<close> and not after \<open>now\<close> exactly when the next one after \<open>start\<close> does.\<close>

lemma grid_passed:
  fixes start now c p :: int
  assumes "0 < p"
  shows "start < now - (now - c) mod p \<longleftrightarrow> start - (start - c) mod p + p \<le> now"
proof -
  define i where "i = (now - c) div p"
  define j where "j = (start - c) div p"
  have n: "now - (now - c) mod p = c + i * p" "start - (start - c) mod p + p = c + (j + 1) * p"
    by (simp_all add: i_def j_def minus_mod_eq_div_mult [symmetric] algebra_simps)
  have mods: "0 \<le> (now - c) mod p" "(now - c) mod p < p" "0 \<le> (start - c) mod p" "(start - c) mod p < p"
    using assms by simp_all
  have now: "c + i * p \<le> now" "now < c + (i + 1) * p"
    using mods(1,2) n(1) by (simp_all add: distrib_right)
  have start: "c + j * p \<le> start" "start < c + (j + 1) * p"
    using mods(3,4) n(2) by (simp_all add: distrib_right)
  show ?thesis
    unfolding n
  proof
    assume "start < c + i * p"
    with start have "j * p < i * p" by linarith
    then have "j + 1 \<le> i" using assms by (simp add: mult_less_cancel_right)
    then have "(j + 1) * p \<le> i * p" using assms by (intro mult_right_mono) simp_all
    then show "c + (j + 1) * p \<le> now" using now by linarith
  next
    assume "c + (j + 1) * p \<le> now"
    with now have "(j + 1) * p < (i + 1) * p" by linarith
    then have "j + 1 \<le> i" using assms by (simp add: mult_less_cancel_right)
    then have "(j + 1) * p \<le> i * p" using assms by (intro mult_right_mono) simp_all
    then show "start < c + i * p" using start by linarith
  qed
qed

subsection \<open>Properties of the reset times\<close>

definition quota_zone :: "go_env \<Rightarrow> Account \<Rightarrow> go_zone" where
  "quota_zone ge a = load_zone ge (GetQuotaResetTimezone a)"

definition quota_config_valid :: "go_env \<Rightarrow> Account \<Rightarrow> bool" where
  "quota_config_valid ge a \<longleftrightarrow> GetQuotaDailyResetHour ge a \<in> {0..23} \<and> GetQuotaWeeklyResetHour ge a \<in> {0..23} \<and>
     GetQuotaWeeklyResetDay ge a \<in> {0..6}"

text \<open>
  In a zone without daylight saving time and with a valid configuration, a fixed quota window that
  began at \<open>start\<close> has expired exactly when the reset that follows \<open>start\<close> is not in the future; this holds for the
  daily and the weekly window.
\<close>

theorem fixed_window_expired_iff:
  assumes "fixed_offset (quota_zone ge a) off" "quota_config_valid ge a"
  shows "(isFixedDailyPeriodExpired ge a (Some start) now \<longleftrightarrow>
      nextFixedDailyReset (GetQuotaDailyResetHour ge a) (quota_zone ge a) start \<le> now) \<and>
    (isFixedWeeklyPeriodExpired ge a (Some start) now \<longleftrightarrow>
      nextFixedWeeklyReset (GetQuotaWeeklyResetDay ge a) (GetQuotaWeeklyResetHour ge a) (quota_zone ge a) start \<le> now)"
proof -
  have z: "fixed_offset (load_zone ge (GetQuotaResetTimezone a)) off"
    using assms(1) by (simp add: quota_zone_def)
  have v: "0 \<le> GetQuotaDailyResetHour ge a" "GetQuotaDailyResetHour ge a \<le> 23"
    "0 \<le> GetQuotaWeeklyResetHour ge a" "GetQuotaWeeklyResetHour ge a \<le> 23"
    "0 \<le> GetQuotaWeeklyResetDay ge a" "GetQuotaWeeklyResetDay ge a \<le> 6"
    using assms(2) by (simp_all add: quota_config_valid_def)
  have grid: "x + off - c = x - (c - off)" for x c :: int by simp
  show ?thesis
    unfolding isFixedDailyPeriodExpired_def isFixedWeeklyPeriodExpired_def option.case quota_zone_def
      last_daily_fixed [OF z v(1,2)] next_daily_fixed [OF z v(1,2)]
      last_weekly_fixed [OF z v(3-6)] next_weekly_fixed [OF z v(3-6)] grid
    using hour_day by (intro conjI grid_passed) simp_all
qed

text \<open>The zone of PostgreSQL's \<^verbatim>\<open>AT TIME ZONE\<close>.\<close>

definition sql_zone :: "'e driver_scheme \<Rightarrow> string \<Rightarrow> go_zone" where
  "sql_zone env tz = \<lparr>z_local = tz_local env tz, z_instant = tz_utc env tz\<rparr>"

definition exists_locally :: "go_zone \<Rightarrow> int \<Rightarrow> bool" where
  "exists_locally z wall \<longleftrightarrow> z_local z (z_instant z wall) = wall"


subsection \<open>Saving a configuration opens the current window\<close>

lemma parseExtraTime_update:
  "map_of (AList.update k v m) k' = (if k' = k then Some v else map_of m k')"
  by (simp add: update_conv')

text \<open>What \<^verbatim>\<open>Format\<close> and \<^verbatim>\<open>Parse\<close> with RFC 3339 promise: they round-trip on whole seconds.\<close>

definition rfc3339_round_trips :: "go_env \<Rightarrow> bool" where
  "rfc3339_round_trips ge \<longleftrightarrow> (\<forall>t. t mod second = 0 \<longrightarrow> ge_ParseTime ge (ge_FormatTime ge t) = Some t)"

lemma normalize_window_opens:
  assumes "rfc3339_round_trips ge" "lastReset mod second = 0" "start_key \<noteq> used_key"
  shows "\<exists>t. parseExtraTime ge (map_of (normalize_window ge used_key start_key lastReset extra) start_key) = Some t \<and>
    lastReset \<le> t"
  using assms
  by (auto simp: normalize_window_def parseExtraTime_update parseExtraTime_def rfc3339_round_trips_def
      split: option.splits json.splits)

lemma normalize_window_other:
  "k \<noteq> used_key \<Longrightarrow> k \<noteq> start_key \<Longrightarrow>
   map_of (normalize_window ge used_key start_key lastReset extra) k = map_of extra k"
  by (simp add: normalize_window_def parseExtraTime_update)

lemma last_resets_whole_seconds:
  assumes "fixed_offset z off" "off mod second = 0" "0 \<le> h" "h \<le> 23" "0 \<le> d" "d \<le> 6"
  shows "lastFixedDailyReset h z now mod second = 0" "lastFixedWeeklyReset d h z now mod second = 0"
proof -
  have dvd: "second dvd hour" "second dvd day" "second dvd off" "second dvd 7 * day"
    using assms(2) by (auto simp: hour_def minute_def day_def)
  have "second dvd now - (now + off - c) mod p" if "second dvd c" "second dvd p" for c p
  proof -
    have "now - (now + off - c) mod p = (now + off - c) div p * p + c - off"
      by (simp add: minus_mod_eq_div_mult [symmetric])
    then show ?thesis using that dvd by simp
  qed
  then show "lastFixedDailyReset h z now mod second = 0" "lastFixedWeeklyReset d h z now mod second = 0"
    unfolding last_daily_fixed [OF assms(1,3,4)] last_weekly_fixed [OF assms(1,3-6)]
    using dvd by (simp_all add: week_point_def)
qed

text \<open>
  Saving a valid configuration leaves the current windows open: after the normalisation no fixed quota
  window with a limit has expired, and nothing but the two usages and the two starts was changed.
\<close>

theorem NormalizeFixedQuotaWindows_opens:
  assumes "ValidateQuotaResetConfig ge extra = None" "fixed_offset (config_zone ge extra) off"
    and "off mod second = 0" "rfc3339_round_trips ge"
    and "extra' = NormalizeFixedQuotaWindows ge extra now" "a' = a\<lparr>ac_Extra := Some extra'\<rparr>"
  shows "(extra_string extra ''quota_daily_reset_mode'' = ''fixed'' \<and> f_lt (Fin 0) (GetQuotaDailyLimit ge a') \<longrightarrow>
      \<not> IsDailyQuotaPeriodExpired ge a' now) \<and>
    (extra_string extra ''quota_weekly_reset_mode'' = ''fixed'' \<and> f_lt (Fin 0) (GetQuotaWeeklyLimit ge a') \<longrightarrow>
      \<not> IsWeeklyQuotaPeriodExpired ge a' now) \<and>
    (\<forall>k. k \<notin> {''quota_daily_used'', ''quota_daily_start'', ''quota_weekly_used'', ''quota_weekly_start''} \<longrightarrow>
      map_of extra' k = map_of extra k)"
proof -
  define z where "z = config_zone ge extra"
  define hd where "hd = config_int ge extra ''quota_daily_reset_hour''"
  define hw where "hw = config_int ge extra ''quota_weekly_reset_hour''"
  define dw where "dw = (if map_of extra ''quota_weekly_reset_day'' = None then 1
    else config_int ge extra ''quota_weekly_reset_day'')"
  have absent: "config_int ge extra k = 0" if "map_of extra k = None" for k
    using that by (simp add: config_int_def parseExtraFloat64_def)
  have ranges: "0 \<le> hd \<and> hd \<le> 23" "0 \<le> hw \<and> hw \<le> 23" "0 \<le> dw \<and> dw \<le> 6"
    using assms(1) absent unfolding hd_def hw_def dw_def
    by (auto simp: ValidateQuotaResetConfig_def int_invalid_def split: if_splits)
  then have valid: "valid_hour hd = hd" "valid_hour hw = hw" "valid_weekday dw = dw"
    by (simp_all add: valid_hour_def valid_weekday_def)
  define daily where "daily \<longleftrightarrow> extra_string extra ''quota_daily_reset_mode'' = ''fixed'' \<and>
    f_lt (Fin 0) (parseExtraFloat64 ge (map_of extra ''quota_daily_limit''))"
  define weekly where "weekly \<longleftrightarrow> extra_string extra ''quota_weekly_reset_mode'' = ''fixed'' \<and>
    f_lt (Fin 0) (parseExtraFloat64 ge (map_of extra ''quota_weekly_limit''))"
  define e1 where "e1 = (if daily then normalize_window ge ''quota_daily_used'' ''quota_daily_start''
    (lastFixedDailyReset hd z now) extra else extra)"
  have e1: "map_of e1 k = map_of extra k" if "k \<noteq> ''quota_daily_used''" "k \<noteq> ''quota_daily_start''" for k
    using that by (simp add: e1_def normalize_window_other)
  have on_e1: "config_weekday ge e1 = dw" "valid_hour (config_int ge e1 ''quota_weekly_reset_hour'') = hw"
    "(extra_string e1 ''quota_weekly_reset_mode'' = ''fixed'' \<and>
      f_lt (Fin 0) (parseExtraFloat64 ge (map_of e1 ''quota_weekly_limit''))) = weekly"
  proof -
    have "config_weekday ge e1 = valid_weekday dw"
      by (simp add: config_weekday_def config_int_def e1 dw_def)
    then show "config_weekday ge e1 = dw" using valid(3) by simp
    show "valid_hour (config_int ge e1 ''quota_weekly_reset_hour'') = hw"
      using valid(2) by (simp add: hw_def config_int_def e1)
    show "(extra_string e1 ''quota_weekly_reset_mode'' = ''fixed'' \<and>
      f_lt (Fin 0) (parseExtraFloat64 ge (map_of e1 ''quota_weekly_limit''))) = weekly"
      by (simp add: weekly_def extra_string_def e1)
  qed
  have extra': "extra' = (if weekly then normalize_window ge ''quota_weekly_used'' ''quota_weekly_start''
      (lastFixedWeeklyReset dw hw z now) e1 else e1)"
    unfolding assms(5) NormalizeFixedQuotaWindows_def Let_def z_def [symmetric] hd_def [symmetric] valid
      daily_def [symmetric] e1_def [symmetric] on_e1 ..
  have rest: "map_of extra' k = map_of e1 k" if "k \<noteq> ''quota_weekly_used''" "k \<noteq> ''quota_weekly_start''" for k
    using that by (simp add: extra' normalize_window_other)
  have whole: "lastFixedDailyReset hd z now mod second = 0" "lastFixedWeeklyReset dw hw z now mod second = 0"
    using last_resets_whole_seconds(1) [OF assms(2,3), of hd dw now]
      last_resets_whole_seconds(2) [OF assms(2,3), of hw dw now] ranges by (simp_all add: z_def)
  have same: "getExtraString a' k = extra_string extra k" "field (ac_Extra a') k = map_of extra k"
    if "k \<notin> {''quota_daily_used'', ''quota_daily_start'', ''quota_weekly_used'', ''quota_weekly_start''}" for k
    using that by (simp_all add: getExtraString_def extra_string_def field_def assms(6) rest e1)
  have conf: "GetQuotaDailyResetHour ge a' = hd" "GetQuotaWeeklyResetHour ge a' = hw" "GetQuotaWeeklyResetDay ge a' = dw"
    by (simp_all add: GetQuotaDailyResetHour_def GetQuotaWeeklyResetHour_def GetQuotaWeeklyResetDay_def
        getExtraInt_def getExtraFloat64_def same hd_def hw_def dw_def config_int_def)
  have zone: "load_zone ge (GetQuotaResetTimezone a') = z"
    by (simp add: GetQuotaResetTimezone_def same z_def config_zone_def Let_def)
  have "\<not> IsDailyQuotaPeriodExpired ge a' now" if on: daily
  proof -
    obtain t where t: "parseExtraTime ge (map_of e1 ''quota_daily_start'') = Some t" "lastFixedDailyReset hd z now \<le> t"
      using on normalize_window_opens [OF assms(4) whole(1), of "''quota_daily_start''" "''quota_daily_used''" extra]
      by (auto simp: e1_def)
    then have "getExtraTime ge a' ''quota_daily_start'' = Some t"
      by (simp add: getExtraTime_def field_def assms(6) rest)
    then show ?thesis
      using on t(2) by (simp add: IsDailyQuotaPeriodExpired_def GetQuotaDailyResetMode_def same reset_mode_def
          daily_def isFixedDailyPeriodExpired_def conf zone)
  qed
  moreover have "\<not> IsWeeklyQuotaPeriodExpired ge a' now" if on: weekly
  proof -
    obtain t where t: "parseExtraTime ge (map_of extra' ''quota_weekly_start'') = Some t" "lastFixedWeeklyReset dw hw z now \<le> t"
      using on normalize_window_opens [OF assms(4) whole(2), of "''quota_weekly_start''" "''quota_weekly_used''" e1]
      by (auto simp: extra')
    then have "getExtraTime ge a' ''quota_weekly_start'' = Some t"
      by (simp add: getExtraTime_def field_def assms(6))
    then show ?thesis
      using on t(2) by (simp add: IsWeeklyQuotaPeriodExpired_def GetQuotaWeeklyResetMode_def same reset_mode_def
          weekly_def isFixedWeeklyPeriodExpired_def conf zone)
  qed
  moreover have "GetQuotaDailyLimit ge a' = parseExtraFloat64 ge (map_of extra ''quota_daily_limit'')"
    "GetQuotaWeeklyLimit ge a' = parseExtraFloat64 ge (map_of extra ''quota_weekly_limit'')"
    by (simp_all add: GetQuotaDailyLimit_def GetQuotaWeeklyLimit_def getExtraFloat64_def same)
  ultimately show ?thesis by (auto simp: daily_def weekly_def rest e1)
qed

subsection \<open>Tiers\<close>

text \<open>The tiers in the order of the Go constants.\<close>

instantiation WindowCostSchedulability :: linorder
begin

fun tier :: "WindowCostSchedulability \<Rightarrow> nat" where
  "tier WindowCostSchedulable = 0"
| "tier WindowCostStickyOnly = 1"
| "tier WindowCostNotSchedulable = 2"

definition less_eq_WindowCostSchedulability :: "WindowCostSchedulability \<Rightarrow> WindowCostSchedulability \<Rightarrow> bool" where
  "x \<le> y \<longleftrightarrow> tier x \<le> tier y"

definition less_WindowCostSchedulability :: "WindowCostSchedulability \<Rightarrow> WindowCostSchedulability \<Rightarrow> bool" where
  "x < y \<longleftrightarrow> tier x < tier y"

instance
proof
  fix x y :: WindowCostSchedulability
  assume "x \<le> y" "y \<le> x"
  then show "x = y" by (cases x; cases y) (simp_all add: less_eq_WindowCostSchedulability_def)
qed (auto simp: less_eq_WindowCostSchedulability_def less_WindowCostSchedulability_def)

end

lemma f_lt_le_trans: "f_le a b \<Longrightarrow> f_lt b c \<Longrightarrow> f_lt a c"
  by (cases a; cases b; cases c) (auto simp: f_le_def)

text \<open>
  More load never makes an account more available: its tier does not improve when the requests per
  minute or the cost of the window grow.
\<close>

lemma tiers_monotone:
  "(rpm \<le> rpm' \<longrightarrow> CheckRPMSchedulability a rpm \<le> CheckRPMSchedulability a rpm') \<and>
   (f_le cost cost' \<longrightarrow> CheckWindowCostSchedulability ge a cost \<le> CheckWindowCostSchedulability ge a cost')"
  using f_lt_le_trans [of cost cost']
  by (auto simp: CheckRPMSchedulability_def CheckWindowCostSchedulability_def Let_def
      less_eq_WindowCostSchedulability_def)

subsection \<open>Examples\<close>

text \<open>An environment with UTC only, whose times are written as decimal nanoseconds.\<close>

definition sample_env :: go_env where
  "sample_env = \<lparr>ge_ParseFloat = (\<lambda>_. None), ge_ParseTime = atoi, ge_FormatTime = itoa,
     ge_LoadLocation = (\<lambda>tz. if tz = ''UTC'' then Some UTC else None)\<rparr>"

definition sample_extra :: json_object where
  "sample_extra = [(''quota_daily_reset_mode'', JsonString ''fixed''), (''quota_daily_limit'', JsonNumber (Fin 5)),
     (''quota_daily_reset_hour'', JsonNumber (Fin 6)), (''quota_daily_used'', JsonNumber (Fin 7))]"

lemma fixed_offset_UTC: "fixed_offset UTC 0"
  by (simp add: fixed_offset_def UTC_def)

lemma fixed_window_expired_iff_witness:
  "isFixedDailyPeriodExpired sample_env ((sample_account PlatformGemini [])\<lparr>ac_Extra := Some sample_extra\<rparr>) (Some 1) day \<longleftrightarrow>
   nextFixedDailyReset 6 UTC 1 \<le> day"
proof -
  let ?a = "(sample_account PlatformGemini [])\<lparr>ac_Extra := Some sample_extra\<rparr>"
  have z: "quota_zone sample_env ?a = UTC"
    by (simp add: quota_zone_def load_zone_def GetQuotaResetTimezone_def getExtraString_def field_def
        sample_extra_def sample_env_def)
  have h: "GetQuotaDailyResetHour sample_env ?a = 6" and "quota_config_valid sample_env ?a"
    by code_simp+
  with fixed_window_expired_iff [of sample_env ?a 0] fixed_offset_UTC z show ?thesis by metis
qed

definition sample_row :: account_row where
  "sample_row = \<lparr>x_quota_used = None, x_quota_limit = None, x_daily_limit = None, x_daily_used = None,
     x_daily_start = None, x_daily_reset_mode = Some ''fixed'', x_daily_reset_hour = Some 6,
     x_daily_reset_at = None, x_weekly_limit = None, x_weekly_used = None, x_weekly_start = None,
     x_weekly_reset_mode = Some ''fixed'', x_weekly_reset_hour = Some 6, x_weekly_reset_day = None,
     x_weekly_reset_at = None, x_reset_timezone = None, x_deleted = False\<rparr>"

definition utc_driver :: driver where
  "utc_driver = \<lparr>to_numeric = (\<lambda>_. None), of_numeric = (\<lambda>_. NaN), tz_local = (\<lambda>_ t. t),
     tz_utc = (\<lambda>_ t. t), sha256_hex = take 64\<rparr>"


definition unary_time :: "int \<Rightarrow> string" where
  "unary_time t = (if t < 0 then CHR ''-'' # replicate (nat (- t)) CHR ''1'' else replicate (nat t) CHR ''1'')"

definition parse_unary :: "string \<Rightarrow> int option" where
  "parse_unary s = (case s of [] \<Rightarrow> Some 0
     | c # r \<Rightarrow> Some (if c = CHR ''-'' then - int (length r) else int (length s)))"

definition unary_env :: go_env where
  "unary_env = sample_env\<lparr>ge_ParseTime := parse_unary, ge_FormatTime := unary_time\<rparr>"

lemma unary_round_trips: "rfc3339_round_trips unary_env"
proof -
  have "parse_unary (unary_time t) = Some t" for t
    by (cases "nat t") (auto simp: unary_time_def parse_unary_def)
  then show ?thesis by (simp add: rfc3339_round_trips_def unary_env_def)
qed

lemma NormalizeFixedQuotaWindows_opens_witness:
  "\<not> IsDailyQuotaPeriodExpired unary_env ((sample_account PlatformGemini [])
    \<lparr>ac_Extra := Some (NormalizeFixedQuotaWindows unary_env sample_extra day)\<rparr>) day"
proof -
  have v: "ValidateQuotaResetConfig unary_env sample_extra = None" by code_simp
  have z: "fixed_offset (config_zone unary_env sample_extra) 0"
    by (simp add: fixed_offset_UTC unary_env_def config_zone_def load_zone_def extra_string_def sample_extra_def sample_env_def)
  have rt: "rfc3339_round_trips unary_env" by (rule unary_round_trips)
  note n = NormalizeFixedQuotaWindows_opens [OF v z _ rt refl refl, where a = "sample_account PlatformGemini []" and now = day]
  have "map_of (NormalizeFixedQuotaWindows unary_env sample_extra day) ''quota_daily_limit'' = Some (JsonNumber (Fin 5))"
    using n by (simp add: sample_extra_def)
  moreover have "extra_string sample_extra ''quota_daily_reset_mode'' = ''fixed''"
    by (simp add: extra_string_def sample_extra_def)
  ultimately show ?thesis
    using n by (simp add: GetQuotaDailyLimit_def getExtraFloat64_def field_def parseExtraFloat64_def)
qed

end
