(* ===== verification/BatchImageRequest.thy ===== *)
theory BatchImageRequest
  imports BatchImageProcessor AccountLimits
begin

section \<open>Batch image requests: validation, price, provider and account\<close>

text \<open>
  The part of \<^verbatim>\<open>service/batch_image_public.go\<close> that looks at a request before any money moves: the
  normalisation and the limits of \<^verbatim>\<open>validateSubmitRequest\<close>, the price of \<^verbatim>\<open>resolvePricingSnapshot\<close>, the
  choice of provider and account, and the hash that tells two requests under one idempotency key apart.
  The account and group repositories are interfaces of the source; their answers are functions of the record
  \<open>BatchImagePublicService\<close>.  A nil map is \<open>None\<close>; a nil slice is the empty list.
\<close>

subsection \<open>Data\<close>

record BatchImageSubmitItem =
  sm_CustomID :: string
  sm_Prompt :: string
  sm_OutputCount :: int
  sm_ReferenceImages :: "BatchImageReference list"

record BatchImageSubmitRequest =
  rq_Model :: string
  rq_TaskName :: string
  rq_ParentBatchID :: string
  rq_Provider :: string
  rq_Items :: "BatchImageSubmitItem list"
  rq_ResponseMimeType :: string
  rq_AspectRatio :: string
  rq_ImageSize :: string
  rq_Metadata :: "(string \<times> string) list option"

record BatchImageOwner =
  ow_UserID :: int
  ow_APIKeyID :: int
  ow_GroupID :: "int option"

text \<open>The settings of \<^verbatim>\<open>config.BatchImage\<close> and the fields of \<^verbatim>\<open>Group\<close> that the service reads.\<close>

record BatchImageConfig =
  cf_Enabled :: bool
  cf_MaxItemsPerJobDefault :: int
  cf_MaxOutputImagesPerJob :: int
  cf_MaxOutputImagesPerItem :: int
  cf_MaxPromptCharsPerItem :: int
  cf_MaxReferenceImagesPerJob :: int
  cf_MaxReferenceInlineBytesPerJob :: int
  cf_DefaultResponseMimeType :: string
  cf_DefaultImageSize :: string
  cf_StaleActiveAfterSeconds :: int

record Group =
  gr_ID :: int
  gr_Platform :: string
  gr_RateMultiplier :: f64
  gr_AllowBatchImageGeneration :: bool
  gr_ImageRateIndependent :: bool
  gr_ImageRateMultiplier :: f64
  gr_ImagePrice1K :: "f64 option"
  gr_ImagePrice2K :: "f64 option"
  gr_ImagePrice4K :: "f64 option"
  gr_BatchImageDiscountMultiplier :: f64
  gr_BatchImageHoldMultiplier :: f64

record BatchImageAccountRepository =
  ar_GetByID :: "int \<Rightarrow> goerr + Account"
  ar_ListSchedulableByPlatform :: "string \<Rightarrow> goerr + Account list"
  ar_ListSchedulableByGroupIDAndPlatform :: "int \<Rightarrow> string \<Rightarrow> goerr + Account list"

text \<open>\<open>pb_Zone\<close> is \<^verbatim>\<open>time.Local\<close>; a queue is the Redis queue with its options.\<close>

record BatchImagePublicService =
  pb_AccountRepo :: "BatchImageAccountRepository option"
  pb_GroupByID :: "(int \<Rightarrow> goerr + Group option) option"
  pb_UserGroupRate :: "(int \<Rightarrow> int \<Rightarrow> goerr + f64 option) option"
  pb_Queue :: "batchImageQueueOptions option"
  pb_Registry :: "Account BatchImageProviderRegistry"
  pb_Pricing :: "(f64 BatchImageJob \<Rightarrow> goerr + f64) option"
  pb_AuthCache :: bool
  pb_Config :: "BatchImageConfig option"
  pb_GoEnv :: go_env
  pb_Zone :: go_zone

record BatchImagePricingSnapshot =
  sn_BaseUnitPrice :: f64
  sn_GroupRateMultiplier :: f64
  sn_AccountRateMultiplier :: f64
  sn_BatchDiscountMultiplier :: f64
  sn_HoldMultiplier :: f64
  sn_BillableUnitPrice :: f64
  sn_HoldUnitPrice :: f64
  sn_EstimatedCost :: f64
  sn_HoldAmount :: f64

definition ErrBatchImageDisabled :: goerr where
  "ErrBatchImageDisabled = New 404 ''BATCH_IMAGE_DISABLED'' ''batch image API is disabled''"
definition ErrBatchImageGroupDisabled :: goerr where
  "ErrBatchImageGroupDisabled = New 403 ''BATCH_IMAGE_GROUP_DISABLED'' ''batch image API is disabled for this group''"
definition ErrBatchImageInvalidModel :: goerr where
  "ErrBatchImageInvalidModel = New 400 ''BATCH_IMAGE_INVALID_MODEL'' ''batch image model is required''"
definition ErrBatchImageNoAccountAvailable :: goerr where
  "ErrBatchImageNoAccountAvailable = New 502 ''BATCH_IMAGE_NO_ACCOUNT_AVAILABLE''
     ''no compatible batch image account is available''"
definition ErrBatchImageInvalidItems :: goerr where
  "ErrBatchImageInvalidItems = New 400 ''BATCH_IMAGE_INVALID_ITEMS'' ''batch image items are invalid''"
definition ErrBatchImageDuplicateCustomIDInRequest :: goerr where
  "ErrBatchImageDuplicateCustomIDInRequest = New 400 ''BATCH_IMAGE_DUPLICATE_CUSTOM_ID''
     ''batch image custom ids must be unique''"
definition ErrBatchImagePromptTooLong :: goerr where
  "ErrBatchImagePromptTooLong = New 400 ''BATCH_IMAGE_PROMPT_TOO_LONG'' ''batch image prompt is too long''"
definition ErrBatchImageInvalidReferenceImage :: goerr where
  "ErrBatchImageInvalidReferenceImage = New 400 ''BATCH_IMAGE_INVALID_REFERENCE_IMAGE''
     ''batch image reference image is invalid''"
definition ErrBatchImageTooManyReferenceImages :: goerr where
  "ErrBatchImageTooManyReferenceImages = New 400 ''BATCH_IMAGE_TOO_MANY_REFERENCE_IMAGES''
     ''too many batch image reference images for this model''"
definition ErrBatchImageReferenceImagesTooLarge :: goerr where
  "ErrBatchImageReferenceImagesTooLarge = New 400 ''BATCH_IMAGE_REFERENCE_IMAGES_TOO_LARGE''
     ''batch image reference images are too large''"
definition ErrBatchImageTooManyOutputImages :: goerr where
  "ErrBatchImageTooManyOutputImages = New 400 ''BATCH_IMAGE_TOO_MANY_OUTPUT_IMAGES''
     ''too many batch image output images''"

subsection \<open>Settings\<close>

definition setting :: "BatchImagePublicService \<Rightarrow> (BatchImageConfig \<Rightarrow> int) \<Rightarrow> int \<Rightarrow> int" where
  "setting s f d = (case pb_Config s of Some c \<Rightarrow> if 0 < f c then f c else d | None \<Rightarrow> d)"

definition text_setting :: "BatchImagePublicService \<Rightarrow> (BatchImageConfig \<Rightarrow> string) \<Rightarrow> string \<Rightarrow> string" where
  "text_setting s f d = (case pb_Config s of
      Some c \<Rightarrow> if trim_space (f c) \<noteq> [] then trim_space (f c) else d | None \<Rightarrow> d)"

definition defaultBatchImageImageSize :: string where "defaultBatchImageImageSize = ''1K''"
definition maxBatchImageReferenceImageBytes :: int where "maxBatchImageReferenceImageBytes = 10 * 1024 * 1024"

definition maxItems :: "BatchImagePublicService \<Rightarrow> int" where
  "maxItems s = setting s cf_MaxItemsPerJobDefault 200"
definition maxOutputImagesPerJob :: "BatchImagePublicService \<Rightarrow> int" where
  "maxOutputImagesPerJob s = setting s cf_MaxOutputImagesPerJob 200"
definition maxOutputImagesPerItem :: "BatchImagePublicService \<Rightarrow> int" where
  "maxOutputImagesPerItem s = setting s cf_MaxOutputImagesPerItem 4"
definition maxPromptChars :: "BatchImagePublicService \<Rightarrow> int" where
  "maxPromptChars s = setting s cf_MaxPromptCharsPerItem 8000"
definition maxReferenceImagesPerJob :: "BatchImagePublicService \<Rightarrow> int" where
  "maxReferenceImagesPerJob s = setting s cf_MaxReferenceImagesPerJob 1000"
definition maxReferenceInlineBytesPerJob :: "BatchImagePublicService \<Rightarrow> int" where
  "maxReferenceInlineBytesPerJob s = setting s cf_MaxReferenceInlineBytesPerJob (128 * 1024 * 1024)"
definition defaultResponseMimeType :: "BatchImagePublicService \<Rightarrow> string" where
  "defaultResponseMimeType s = text_setting s cf_DefaultResponseMimeType ''image/png''"
definition defaultImageSize :: "BatchImagePublicService \<Rightarrow> string" where
  "defaultImageSize s = text_setting s cf_DefaultImageSize defaultBatchImageImageSize"

text \<open>The repository of the jobs is never nil.\<close>

definition enabled :: "BatchImagePublicService \<Rightarrow> bool" where
  "enabled s \<longleftrightarrow> pb_AccountRepo s \<noteq> None \<and> (case pb_Config s of Some c \<Rightarrow> cf_Enabled c | None \<Rightarrow> False)"

definition submitHeartbeatInterval :: "BatchImagePublicService \<Rightarrow> int" where
  "submitHeartbeatInterval s =
     (let staleAfter = (case pb_Config s of
            Some c \<Rightarrow> if 0 < cf_StaleActiveAfterSeconds c then cf_StaleActiveAfterSeconds c * second else 10 * minute
          | None \<Rightarrow> 10 * minute);
          interval = staleAfter div 3
      in if interval < 15 * second then 15 * second else interval)"

subsection \<open>Dates\<close>

text \<open>
  The civil date of a day counted from 1970-01-01 and back, in the proleptic Gregorian calendar, and
  the layout \<^verbatim>\<open>2006-01-02 15:04:05\<close> of \<^verbatim>\<open>Time.Format\<close> on a wall clock.
\<close>

definition civil_of_days :: "int \<Rightarrow> int \<times> int \<times> int" where
  "civil_of_days d = (let z = d + 719468; era = z div 146097; doe = z mod 146097;
     yoe = (doe - doe div 1460 + doe div 36524 - doe div 146096) div 365;
     doy = doe - (365 * yoe + yoe div 4 - yoe div 100);
     mp = (5 * doy + 2) div 153;
     dd = doy - (153 * mp + 2) div 5 + 1;
     m = (if mp < 10 then mp + 3 else mp - 9);
     y = yoe + era * 400
     in (if m \<le> 2 then y + 1 else y, m, dd))"

definition days_of_civil :: "int \<Rightarrow> int \<Rightarrow> int \<Rightarrow> int" where
  "days_of_civil y m d = (let y' = (if m \<le> 2 then y - 1 else y); era = y' div 400; yoe = y' mod 400;
     doy = (153 * (if 2 < m then m - 3 else m + 9) + 2) div 5 + d - 1;
     doe = yoe * 365 + yoe div 4 - yoe div 100 + doy
     in era * 146097 + doe - 719468)"

definition days_in_month :: "int \<Rightarrow> int \<Rightarrow> int" where
  "days_in_month y m = (if m = 2 then (if y mod 4 = 0 \<and> (y mod 100 \<noteq> 0 \<or> y mod 400 = 0) then 29 else 28)
     else if m \<in> {4, 6, 9, 11} then 30 else 31)"

definition format_datetime :: "go_zone \<Rightarrow> int \<Rightarrow> string" where
  "format_datetime z t = (let l = z_local z t; d = l div day; s = (l mod day) div second in
     case civil_of_days d of (y, m, dd) \<Rightarrow>
       pad_left 4 (itoa y) @ ''-'' @ pad_left 2 (itoa m) @ ''-'' @ pad_left 2 (itoa dd) @ '' ''
       @ pad_left 2 (itoa (s div 3600)) @ '':'' @ pad_left 2 (itoa (s div 60 mod 60)) @ '':''
       @ pad_left 2 (itoa (s mod 60)))"

text \<open>The instant of the zero \<^verbatim>\<open>time.Time\<close>, 0001-01-01.\<close>

definition zero_time :: int where "zero_time = - 62135596800 * second"

definition defaultBatchImageTaskName :: "go_zone \<Rightarrow> int \<Rightarrow> ('z world_scheme, string) state" where
  "defaultBatchImageTaskName z t =
     (if t = zero_time then do { now \<leftarrow> time_now; ret (format_datetime z now) }
      else ret (format_datetime z t))"

subsection \<open>Validation\<close>

definition normalizeBatchImageReferenceMimeType :: "string \<Rightarrow> string" where
  "normalizeBatchImageReferenceMimeType v = (let m = to_lower (trim_space v) in
     if m = ''image/jpeg'' \<or> m = ''image/jpg'' then ''image/jpeg''
     else if m = ''image/png'' then ''image/png''
     else if m = ''image/webp'' then ''image/webp''
     else [])"

definition maxBatchImageReferenceImagesForModel :: "string \<Rightarrow> int" where
  "maxBatchImageReferenceImagesForModel model0 = (let model = to_lower (trim_space model0) in
     if contains model ''pro-image'' then 14 else if contains model ''flash-image'' then 3 else 0)"

definition normalize_reference :: "BatchImageReference \<Rightarrow> goerr + BatchImageReference" where
  "normalize_reference ref0 = (let ref = ref0\<lparr>
       br_ID := truncateBatchImageMessage (trim_space (br_ID ref0)) 80,
       br_Type := truncateBatchImageMessage (trim_space (br_Type ref0)) 40,
       br_MimeType := normalizeBatchImageReferenceMimeType (br_MimeType ref0),
       br_FileURI := trim_space (br_FileURI ref0)\<rparr>
     in if br_MimeType ref = [] then Inl ErrBatchImageInvalidReferenceImage
        else if br_Data ref = [] \<and> br_FileURI ref = [] then Inl ErrBatchImageInvalidReferenceImage
        else if br_Data ref \<noteq> [] \<and> br_FileURI ref \<noteq> [] then Inl ErrBatchImageInvalidReferenceImage
        else if maxBatchImageReferenceImageBytes < int (length (br_Data ref)) then
          Inl ErrBatchImageInvalidReferenceImage
        else if br_FileURI ref \<noteq> [] \<and> \<not> has_prefix (br_FileURI ref) ''gs://'' then
          Inl ErrBatchImageInvalidReferenceImage
        else Inr ref)"

fun normalize_references :: "BatchImageReference list \<Rightarrow> goerr + BatchImageReference list" where
  "normalize_references [] = Inr []"
| "normalize_references (r # rs) = sum_bind (normalize_reference r) (\<lambda>r'.
     sum_bind (normalize_references rs) (\<lambda>rs'. Inr (r' # rs')))"

definition inline_bytes :: "BatchImageReference list \<Rightarrow> int" where
  "inline_bytes rs = (\<Sum>r\<leftarrow>rs. int (length (br_Data r)))"

text \<open>The item with its references normalised, their number and their inline bytes.\<close>

definition normalizeBatchImageReferenceInputs :: "string \<Rightarrow> BatchImageSubmitItem \<Rightarrow>
    goerr + BatchImageSubmitItem \<times> int \<times> int" where
  "normalizeBatchImageReferenceInputs model item =
     (if sm_ReferenceImages item = [] then Inr (item, 0, 0)
      else (let maxRefs = maxBatchImageReferenceImagesForModel model in
        if maxRefs \<le> 0 \<or> maxRefs < int (length (sm_ReferenceImages item)) then
          Inl ErrBatchImageTooManyReferenceImages
        else sum_bind (normalize_references (sm_ReferenceImages item)) (\<lambda>out.
          Inr (item\<lparr>sm_ReferenceImages := out\<rparr>, int (length out), inline_bytes out))))"

definition batchImageRepeatSuffixWidth :: "int \<Rightarrow> nat" where
  "batchImageRepeatSuffixWidth n = (if n < 10 then 2 else length (itoa n))"

text \<open>One of the copies of an item that asks for several images.\<close>

definition repeat_item :: "BatchImageSubmitItem \<Rightarrow> int \<Rightarrow> int \<Rightarrow> BatchImageSubmitItem" where
  "repeat_item item outputCount repeatIndex = item\<lparr>sm_OutputCount := 0,
     sm_CustomID := (if 1 < outputCount
       then sm_CustomID item @ ''_'' @ pad_left (batchImageRepeatSuffixWidth outputCount) (itoa repeatIndex)
       else sm_CustomID item)\<rparr>"

text \<open>The set \<^verbatim>\<open>seen\<close> holds the ids of the expanded items.\<close>

fun add_repeats :: "BatchImageSubmitItem \<Rightarrow> int \<Rightarrow> int list \<Rightarrow> BatchImageSubmitItem list \<Rightarrow>
    goerr + BatchImageSubmitItem list" where
  "add_repeats item outputCount [] expandedItems = Inr expandedItems"
| "add_repeats item outputCount (k # ks) expandedItems = (let expanded = repeat_item item outputCount k in
     if sm_CustomID expanded \<in> set (map sm_CustomID expandedItems)
     then Inl ErrBatchImageDuplicateCustomIDInRequest
     else add_repeats item outputCount ks (expandedItems @ [expanded]))"

record submit_totals =
  tt_Output :: int
  tt_References :: int
  tt_InlineBytes :: int

text \<open>The loop over the items; \<open>i\<close> is the index of the first one.\<close>

fun validate_items :: "BatchImagePublicService \<Rightarrow> string \<Rightarrow> int \<Rightarrow> BatchImageSubmitItem list \<Rightarrow> submit_totals \<Rightarrow>
    BatchImageSubmitItem list \<Rightarrow> goerr + BatchImageSubmitItem list" where
  "validate_items s model i [] tot expandedItems = Inr expandedItems"
| "validate_items s model i (it0 # its) tot expandedItems = (let
       customID = (if trim_space (sm_CustomID it0) = [] then ''item_'' @ pad_left 6 (itoa (i + 1))
                   else trim_space (sm_CustomID it0));
       outputCount = (if sm_OutputCount it0 = 0 then 1 else sm_OutputCount it0);
       prompt = trim_space (sm_Prompt it0);
       output = tt_Output tot + outputCount
     in if outputCount < 1 \<or> maxOutputImagesPerItem s < outputCount then Inl ErrBatchImageInvalidItems
     else if maxOutputImagesPerJob s < output then Inl ErrBatchImageTooManyOutputImages
     else if prompt = [] then Inl ErrBatchImageInvalidItems
     else if maxPromptChars s < int (length prompt) then Inl ErrBatchImagePromptTooLong
     else sum_bind (normalizeBatchImageReferenceInputs model (it0\<lparr>sm_CustomID := customID, sm_Prompt := prompt\<rparr>))
       (\<lambda>(item, referenceCount, inlineReferenceBytes). let
            references = tt_References tot + referenceCount * outputCount;
            inline = tt_InlineBytes tot + inlineReferenceBytes * outputCount
          in if maxReferenceImagesPerJob s < references then Inl ErrBatchImageTooManyReferenceImages
          else if maxReferenceInlineBytesPerJob s < inline then Inl ErrBatchImageReferenceImagesTooLarge
          else sum_bind (add_repeats item outputCount [1..outputCount] expandedItems)
            (validate_items s model (i + 1) its
               \<lparr>tt_Output = output, tt_References = references, tt_InlineBytes = inline\<rparr>)))"

text \<open>
  The keys in ascending order; a key that becomes equal to an earlier one when trimmed replaces its value.
\<close>

fun sanitize_entries :: "(string \<times> string) list \<Rightarrow> (string \<times> string) list \<Rightarrow> (string \<times> string) list" where
  "sanitize_entries [] out = out"
| "sanitize_entries ((k, v) # kvs) out = (let key = trim_space k; value = take 256 (trim_space v) in
     if key = [] \<or> 64 < length key then sanitize_entries kvs out
     else (let out' = AList.update key value out in
       if 20 \<le> length out' then out' else sanitize_entries kvs out'))"

definition sanitizeBatchImageMetadata :: "(string \<times> string) list option \<Rightarrow> (string \<times> string) list option" where
  "sanitizeBatchImageMetadata m = (case m of
      None \<Rightarrow> None
    | Some [] \<Rightarrow> None
    | Some kvs \<Rightarrow> Some (sanitize_entries (sort_key fst kvs) []))"

definition trim_request :: "BatchImageSubmitRequest \<Rightarrow> BatchImageSubmitRequest" where
  "trim_request req = req\<lparr>
     rq_Model := trim_space (rq_Model req),
     rq_TaskName := trim_space (rq_TaskName req),
     rq_ParentBatchID := trim_space (rq_ParentBatchID req),
     rq_Provider := trim_space (rq_Provider req),
     rq_ResponseMimeType := trim_space (rq_ResponseMimeType req),
     rq_AspectRatio := trim_space (rq_AspectRatio req),
     rq_ImageSize := trim_space (rq_ImageSize req)\<rparr>"

text \<open>The checks after the task name is filled in.\<close>

definition validate_named :: "BatchImagePublicService \<Rightarrow> BatchImageSubmitRequest \<Rightarrow>
    goerr + BatchImageSubmitRequest" where
  "validate_named s req = (let
       taskName = (if 255 < length (rq_TaskName req) then truncateBatchImageMessage (rq_TaskName req) 255
                   else rq_TaskName req);
       responseMimeType = (if rq_ResponseMimeType req = [] then defaultResponseMimeType s
                           else rq_ResponseMimeType req);
       imageSize = (if rq_ImageSize req = [] then defaultImageSize s else rq_ImageSize req)
     in if rq_Provider req \<noteq> [] \<and> \<not> IsSupportedBatchImageProvider (rq_Provider req) then
          Inl ErrBatchImageUnsupportedProvider
        else if rq_Items req = [] then Inl ErrBatchImageInvalidItems
        else if maxItems s < int (length (rq_Items req)) then Inl ErrBatchImageInvalidItems
        else if \<not> equal_fold imageSize defaultBatchImageImageSize then Inl ErrBatchImageInvalidItems
        else sum_bind (validate_items s (rq_Model req) 0 (rq_Items req)
               \<lparr>tt_Output = 0, tt_References = 0, tt_InlineBytes = 0\<rparr> [])
          (\<lambda>items. Inr (req\<lparr>rq_TaskName := taskName, rq_ResponseMimeType := responseMimeType,
             rq_ImageSize := defaultBatchImageImageSize,
             rq_Metadata := sanitizeBatchImageMetadata (rq_Metadata req), rq_Items := items\<rparr>)))"

definition validateSubmitRequest :: "BatchImagePublicService \<Rightarrow> BatchImageSubmitRequest \<Rightarrow>
    ('z world_scheme, goerr + BatchImageSubmitRequest) state" where
  "validateSubmitRequest s req0 = (let req = trim_request req0 in
     if rq_Model req = [] then ret (Inl ErrBatchImageInvalidModel)
     else if rq_TaskName req = [] then do {
       now \<leftarrow> time_now;
       name \<leftarrow> defaultBatchImageTaskName (pb_Zone s) now;
       ret (validate_named s (req\<lparr>rq_TaskName := name\<rparr>)) }
     else ret (validate_named s req))"

subsection \<open>The hash of a request\<close>

text \<open>
  \<^verbatim>\<open>json.Marshal\<close> on the request: fields in the order of the struct, empty \<^verbatim>\<open>omitempty\<close> fields left out, bytes in
  base64, maps by ascending key.  Strings are quoted with the escapes for HTML; a byte that is not part
  of a valid rune becomes the replacement character.
\<close>

definition in_range :: "nat \<Rightarrow> nat \<Rightarrow> char \<Rightarrow> bool" where
  "in_range a b c \<longleftrightarrow> a \<le> of_char c \<and> of_char c \<le> b"

text \<open>The number of bytes of the valid rune at the head; 0 when there is none.\<close>

definition rune_len :: "string \<Rightarrow> nat" where
  "rune_len s = (case s of
      [] \<Rightarrow> 0
    | c # r \<Rightarrow>
        if in_range 0 0x7F c then 1
        else if in_range 0xC2 0xDF c \<and> list_all (in_range 0x80 0xBF) (take 1 r) \<and> 1 \<le> length r then 2
        else if in_range 0xE0 0xEF c \<and> 2 \<le> length r \<and> list_all (in_range 0x80 0xBF) (take 2 r)
          \<and> (c = CHR 0xE0 \<longrightarrow> in_range 0xA0 0xBF (hd r)) \<and> (c = CHR 0xED \<longrightarrow> in_range 0x80 0x9F (hd r)) then 3
        else if in_range 0xF0 0xF4 c \<and> 3 \<le> length r \<and> list_all (in_range 0x80 0xBF) (take 3 r)
          \<and> (c = CHR 0xF0 \<longrightarrow> in_range 0x90 0xBF (hd r)) \<and> (c = CHR 0xF4 \<longrightarrow> in_range 0x80 0x8F (hd r)) then 4
        else 0)"

definition json_escape :: "char \<Rightarrow> string" where
  "json_escape c =
     (if c = CHR 0x22 \<or> c = CHR 0x5C then [CHR 0x5C, c]
      else if c = CHR 0x08 then [CHR 0x5C, CHR ''b''] else if c = CHR 0x0C then [CHR 0x5C, CHR ''f'']
      else if c = CHR 0x0A then [CHR 0x5C, CHR ''n''] else if c = CHR 0x0D then [CHR 0x5C, CHR ''r'']
      else if c = CHR 0x09 then [CHR 0x5C, CHR ''t'']
      else if in_range 0 0x1F c \<or> c = CHR ''<'' \<or> c = CHR ''>'' \<or> c = CHR ''&'' then
        [CHR 0x5C, CHR ''u'', CHR ''0'', CHR ''0'', hex_digit (of_char c div 16), hex_digit (of_char c mod 16)]
      else [c])"

function json_chars :: "string \<Rightarrow> string" where
  "json_chars s = (case s of
      [] \<Rightarrow> []
    | c # r \<Rightarrow>
        if rune_len s = 0 then CHR 0x5C # ''ufffd'' @ json_chars r
        else if rune_len s = 1 then json_escape c @ json_chars r
        else if take 3 s = [CHR 0xE2, CHR 0x80, CHR 0xA8] then CHR 0x5C # ''u2028'' @ json_chars (drop 3 s)
        else if take 3 s = [CHR 0xE2, CHR 0x80, CHR 0xA9] then CHR 0x5C # ''u2029'' @ json_chars (drop 3 s)
        else take (rune_len s) s @ json_chars (drop (rune_len s) s))"
  by pat_completeness auto
termination
  by (relation "measure length") auto

declare json_chars.simps [simp del]

definition json_quote :: "string \<Rightarrow> string" where
  "json_quote s = CHR 0x22 # json_chars s @ [CHR 0x22]"

definition base64_char :: "nat \<Rightarrow> char" where
  "base64_char n = ''ABCDEFGHIJKLMNOPQRSTUVWXYZabcdefghijklmnopqrstuvwxyz0123456789+/'' ! n"

fun base64 :: "string \<Rightarrow> string" where
  "base64 [] = []"
| "base64 [a] = (let x = of_char a in [base64_char (x div 4), base64_char (x mod 4 * 16)] @ ''=='')"
| "base64 [a, b] = (let x = of_char a; y = of_char b in
     [base64_char (x div 4), base64_char (x mod 4 * 16 + y div 16), base64_char (y mod 16 * 4)] @ ''='')"
| "base64 (a # b # c # s) = (let x = of_char a; y = of_char b; z = of_char c in
     [base64_char (x div 4), base64_char (x mod 4 * 16 + y div 16),
      base64_char (y mod 16 * 4 + z div 64), base64_char (z mod 64)] @ base64 s)"

definition json_member :: "string \<Rightarrow> string \<Rightarrow> string" where
  "json_member key v = json_quote key @ '':'' @ v"

definition omit_empty :: "string \<Rightarrow> string \<Rightarrow> string list" where
  "omit_empty key v = (if v = [] then [] else [json_member key (json_quote v)])"

definition json_braces :: "string list \<Rightarrow> string" where
  "json_braces ms = ''{'' @ join '','' ms @ ''}''"

definition json_brackets :: "string list \<Rightarrow> string" where
  "json_brackets vs = ''['' @ join '','' vs @ '']''"

definition reference_json :: "BatchImageReference \<Rightarrow> string" where
  "reference_json r = json_braces (omit_empty ''id'' (br_ID r) @ omit_empty ''type'' (br_Type r)
     @ [json_member ''mime_type'' (json_quote (br_MimeType r))]
     @ (if br_Data r = [] then [] else [json_member ''data'' (json_quote (base64 (br_Data r)))])
     @ omit_empty ''file_uri'' (br_FileURI r))"

definition item_json :: "BatchImageSubmitItem \<Rightarrow> string" where
  "item_json it = json_braces ([json_member ''custom_id'' (json_quote (sm_CustomID it)),
       json_member ''prompt'' (json_quote (sm_Prompt it))]
     @ (if sm_OutputCount it = 0 then [] else [json_member ''output_count'' (itoa (sm_OutputCount it))])
     @ (if sm_ReferenceImages it = [] then []
        else [json_member ''reference_images'' (json_brackets (map reference_json (sm_ReferenceImages it)))]))"

definition metadata_json :: "(string \<times> string) list option \<Rightarrow> string" where
  "metadata_json m = (case m of None \<Rightarrow> ''null''
     | Some kvs \<Rightarrow> json_braces (map (\<lambda>(k, v). json_member k (json_quote v)) (sort_key fst kvs)))"

definition request_json :: "BatchImageSubmitRequest \<Rightarrow> string" where
  "request_json req = json_braces [
     json_member ''model'' (json_quote (rq_Model req)),
     json_member ''task_name'' (json_quote (rq_TaskName req)),
     json_member ''parent_batch_id'' (json_quote (rq_ParentBatchID req)),
     json_member ''provider'' (json_quote (rq_Provider req)),
     json_member ''items'' (json_brackets (map item_json (rq_Items req))),
     json_member ''response_mime_type'' (json_quote (rq_ResponseMimeType req)),
     json_member ''aspect_ratio'' (json_quote (rq_AspectRatio req)),
     json_member ''image_size'' (json_quote (rq_ImageSize req)),
     json_member ''metadata'' (metadata_json (rq_Metadata req))]"

definition HashBatchImageSubmitRequest :: "'e driver_scheme \<Rightarrow> BatchImageSubmitRequest \<Rightarrow> string" where
  "HashBatchImageSubmitRequest env req =
     sha256_hex env (request_json (req\<lparr>rq_Metadata := sanitizeBatchImageMetadata (rq_Metadata req)\<rparr>))"

subsection \<open>The price\<close>

text \<open>\<^verbatim>\<open>&BatchImageJob{Provider: provider, Model: model}\<close>: the other fields are zero; the zero time stands for itself.\<close>

definition job_for_price :: "string \<Rightarrow> string \<Rightarrow> f64 BatchImageJob" where
  "job_for_price provider model = \<lparr>
     jb_ID = 0, jb_BatchID = [], jb_UserID = 0, jb_APIKeyID = None, jb_AccountID = None,
     jb_Provider = provider, jb_Model = model, jb_TaskName = [], jb_ParentBatchID = None,
     jb_Status = [], jb_ProviderJobName = None, jb_ProviderInputRef = None, jb_ProviderOutputRef = None,
     jb_GCSInputURI = None, jb_GCSOutputURI = None, jb_ItemCount = 0, jb_SuccessCount = 0,
     jb_FailCount = 0, jb_CancelledCount = 0, jb_EstimatedCost = Fin 0, jb_HoldAmount = None,
     jb_ActualCost = None, jb_BaseUnitPrice = Fin 0, jb_GroupRateMultiplier = Fin 0,
     jb_AccountRateMultiplier = Fin 0, jb_BatchDiscountMultiplier = Fin 0, jb_HoldMultiplier = Fin 0,
     jb_BillableUnitPrice = Fin 0, jb_HoldUnitPrice = Fin 0, jb_PricingSnapshotVersion = 0,
     jb_Currency = [], jb_HoldID = None, jb_IdempotencyKey = None, jb_RequestHash = None,
     jb_ManifestHash = None, jb_RetryCount = 0, jb_Version = 0, jb_OutputExpiresAt = None,
     jb_InputDeletedAt = None, jb_OutputDeletedAt = None, jb_DownloadedAt = None,
     jb_UserDeletedAt = None, jb_LastErrorCode = None, jb_LastErrorMessage = None, jb_CreatedAt = zero_time,
     jb_UpdatedAt = zero_time, jb_SubmittedAt = None, jb_StartedAt = None, jb_FinishedAt = None,
     jb_SettledAt = None\<rparr>"

definition GetImagePrice :: "Group \<Rightarrow> string \<Rightarrow> f64 option" where
  "GetImagePrice g imageSize =
     (if imageSize = ''1K'' then gr_ImagePrice1K g
      else if imageSize = ''2K'' then gr_ImagePrice2K g
      else if imageSize = ''4K'' then gr_ImagePrice4K g
      else gr_ImagePrice2K g)"

text \<open>The group of the owner, when there is one.\<close>

definition owner_group :: "BatchImageOwner \<Rightarrow> int option" where
  "owner_group owner = (case ow_GroupID owner of Some g \<Rightarrow> if 0 < g then Some g else None | None \<Rightarrow> None)"

definition group_by_id :: "BatchImagePublicService \<Rightarrow> int \<Rightarrow> goerr + Group" where
  "group_by_id s gid = (case pb_GroupByID s of
      None \<Rightarrow> Inl ErrBatchImageSettlementPricingMissing
    | Some get \<Rightarrow> (case get gid of Inr (Some g) \<Rightarrow> Inr g | _ \<Rightarrow> Inl ErrBatchImageSettlementPricingMissing))"

definition ensureGroupAllowsBatchImage :: "BatchImagePublicService \<Rightarrow> BatchImageOwner \<Rightarrow> goerr + unit" where
  "ensureGroupAllowsBatchImage s owner = (case owner_group owner of
      None \<Rightarrow> Inr ()
    | Some gid \<Rightarrow> sum_bind (group_by_id s gid) (\<lambda>g.
        if \<not> gr_AllowBatchImageGeneration g then Inl ErrBatchImageGroupDisabled
        else if gr_Platform g \<noteq> PlatformGemini then Inl ErrBatchImageGroupDisabled
        else Inr ()))"

definition not_below_zero :: "f64 \<Rightarrow> f64" where
  "not_below_zero x = (if f_lt x (Fin 0) then Fin 0 else x)"

record price_factors =
  pf_Unit :: f64
  pf_Group :: f64
  pf_Discount :: f64
  pf_Hold :: f64

text \<open>What the group says; without a group the defaults, and a negative unit price stands for none.\<close>

definition default_factors :: price_factors where
  "default_factors = \<lparr>pf_Unit = Fin (- 1), pf_Group = Fin 1, pf_Discount = round64 (1/2), pf_Hold = round64 (3/5)\<rparr>"

definition group_factors :: "BatchImagePublicService \<Rightarrow> BatchImageOwner \<Rightarrow> BatchImageSubmitRequest \<Rightarrow> goerr + price_factors" where
  "group_factors s owner req = (case owner_group owner of
      None \<Rightarrow> Inr default_factors
    | Some gid \<Rightarrow> sum_bind (group_by_id s gid) (\<lambda>g.
        if \<not> gr_AllowBatchImageGeneration g then Inl ErrBatchImageGroupDisabled
        else sum_bind (case pb_UserGroupRate s of
              None \<Rightarrow> Inr (not_below_zero (gr_RateMultiplier g))
            | Some get \<Rightarrow> (case get (ow_UserID owner) (gr_ID g) of
                Inl e \<Rightarrow> Inl ErrBatchImageSettlementPricingMissing
              | Inr userRate \<Rightarrow> Inr (deref_or (not_below_zero (gr_RateMultiplier g)) userRate)))
          (\<lambda>effectiveGroupMultiplier. Inr \<lparr>
             pf_Unit = (case GetImagePrice g (rq_ImageSize req) of
                 Some u \<Rightarrow> if f_le (Fin 0) u then u else pf_Unit default_factors
               | None \<Rightarrow> pf_Unit default_factors),
             pf_Group = not_below_zero (if gr_ImageRateIndependent g then gr_ImageRateMultiplier g
                                        else effectiveGroupMultiplier),
             pf_Discount = not_below_zero (gr_BatchImageDiscountMultiplier g),
             pf_Hold = (if f_le (Fin 0) (gr_BatchImageHoldMultiplier g) then gr_BatchImageHoldMultiplier g
                        else pf_Hold default_factors)\<rparr>)))"

definition unit_price :: "BatchImagePublicService \<Rightarrow> string \<Rightarrow> string \<Rightarrow> f64 \<Rightarrow> goerr + f64" where
  "unit_price s provider model unit =
     (if f_lt unit (Fin 0) then
        (case pb_Pricing s of
           None \<Rightarrow> Inl ErrBatchImageSettlementPricingMissing
         | Some resolver \<Rightarrow> (case resolver (job_for_price provider model) of
             Inl e \<Rightarrow> Inl ErrBatchImageSettlementPricingMissing
           | Inr u \<Rightarrow> if f_lt u (Fin 0) then Inl ErrBatchImageSettlementPricingMissing else Inr u))
      else Inr unit)"

definition resolvePricingSnapshot :: "BatchImagePublicService \<Rightarrow> BatchImageOwner \<Rightarrow> BatchImageSubmitRequest \<Rightarrow>
    string \<Rightarrow> Account option \<Rightarrow> goerr + BatchImagePricingSnapshot" where
  "resolvePricingSnapshot s owner req provider account =
     sum_bind (group_factors s owner req) (\<lambda>f.
     sum_bind (unit_price s provider (rq_Model req) (pf_Unit f)) (\<lambda>unit.
       let discount = pf_Discount f;
           hold = (if f_lt (pf_Hold f) discount then discount else pf_Hold f);
           accountMultiplier = not_below_zero (case account of Some a \<Rightarrow> BillingRateMultiplier a | None \<Rightarrow> Fin 1);
           standard = f_mul (f_mul unit (pf_Group f)) accountMultiplier;
           billable = f_mul standard discount;
           holdUnit = f_mul standard hold;
           n = f_of_int (int (length (rq_Items req)))
       in Inr \<lparr>sn_BaseUnitPrice = unit, sn_GroupRateMultiplier = pf_Group f,
            sn_AccountRateMultiplier = accountMultiplier, sn_BatchDiscountMultiplier = discount,
            sn_HoldMultiplier = hold, sn_BillableUnitPrice = billable, sn_HoldUnitPrice = holdUnit,
            sn_EstimatedCost = f_mul billable n, sn_HoldAmount = f_mul holdUnit n\<rparr>))"

subsection \<open>Provider and account\<close>

definition batchImageProviderSelectionOrder :: "string \<Rightarrow> string list" where
  "batchImageProviderSelectionOrder requestedProvider =
     (if trim_space requestedProvider \<noteq> [] then [trim_space requestedProvider]
      else [BatchImageProviderGeminiAPI, BatchImageProviderVertex])"

definition batchImageProviderPlatform :: "string \<Rightarrow> string" where
  "batchImageProviderPlatform provider = PlatformGemini"

definition listCandidateAccounts :: "BatchImagePublicService \<Rightarrow> BatchImageOwner \<Rightarrow> string \<Rightarrow> goerr + Account list" where
  "listCandidateAccounts s owner platform = (case pb_AccountRepo s of
      None \<Rightarrow> Inl ErrBatchImageNoAccountAvailable
    | Some r \<Rightarrow> (case owner_group owner of
         Some gid \<Rightarrow> ar_ListSchedulableByGroupIDAndPlatform r gid platform
       | None \<Rightarrow> ar_ListSchedulableByPlatform r platform))"

text \<open>\<^verbatim>\<open>sort.SliceStable\<close>: the greater \<^verbatim>\<open>Priority\<close> first, then the smaller id.\<close>

definition account_order :: "Account \<Rightarrow> int \<times> int" where
  "account_order a = (- ac_Priority a, ac_ID a)"

fun first_account :: "go_env \<Rightarrow> (Account \<Rightarrow> bool) \<Rightarrow> string \<Rightarrow> Account list \<Rightarrow> ('z world_scheme, Account option) state" where
  "first_account ge supports model [] = ret None"
| "first_account ge supports model (a # as) = do {
     schedulable \<leftarrow> IsSchedulable ge a;
     if \<not> schedulable \<or> \<not> IsModelSupported a model then first_account ge supports model as
     else if supports a then ret (Some a)
     else first_account ge supports model as }"

fun select_provider :: "BatchImagePublicService \<Rightarrow> BatchImageOwner \<Rightarrow> string \<Rightarrow> string list \<Rightarrow>
    ('z world_scheme, goerr + Account BatchImageProvider \<times> Account) state" where
  "select_provider s owner model [] = ret (Inl ErrBatchImageNoAccountAvailable)"
| "select_provider s owner model (name # names) = (case pb_Registry s name of
      None \<Rightarrow> select_provider s owner model names
    | Some provider \<Rightarrow> (case listCandidateAccounts s owner (batchImageProviderPlatform name) of
        Inl err \<Rightarrow> ret (Inl err)
      | Inr cands \<Rightarrow> do {
          a \<leftarrow> first_account (pb_GoEnv s) (pv_SupportsAccount provider) model (sort_key account_order cands);
          case a of
            Some account \<Rightarrow> ret (Inr (provider, account))
          | None \<Rightarrow> select_provider s owner model names }))"

definition selectProviderAndAccount :: "BatchImagePublicService \<Rightarrow> BatchImageOwner \<Rightarrow> string \<Rightarrow> string \<Rightarrow>
    ('z world_scheme, goerr + Account BatchImageProvider \<times> Account) state" where
  "selectProviderAndAccount s owner requestedProvider model =
     select_provider s owner model (batchImageProviderSelectionOrder requestedProvider)"

subsection \<open>An accepted request\<close>

text \<open>What the rest of the program may rely on once a request is accepted.\<close>

definition valid_reference :: "BatchImageReference \<Rightarrow> bool" where
  "valid_reference r \<longleftrightarrow> br_MimeType r \<in> {''image/jpeg'', ''image/png'', ''image/webp''}
     \<and> (br_Data r = [] \<longleftrightarrow> br_FileURI r \<noteq> []) \<and> int (length (br_Data r)) \<le> maxBatchImageReferenceImageBytes
     \<and> (br_FileURI r \<noteq> [] \<longrightarrow> has_prefix (br_FileURI r) ''gs://'')
     \<and> length (br_ID r) \<le> 80 \<and> length (br_Type r) \<le> 40"

definition valid_item :: "BatchImagePublicService \<Rightarrow> string \<Rightarrow> BatchImageSubmitItem \<Rightarrow> bool" where
  "valid_item s model it \<longleftrightarrow> sm_CustomID it \<noteq> [] \<and> sm_OutputCount it = 0
     \<and> sm_Prompt it \<noteq> [] \<and> int (length (sm_Prompt it)) \<le> maxPromptChars s
     \<and> int (length (sm_ReferenceImages it)) \<le> maxBatchImageReferenceImagesForModel model
     \<and> list_all valid_reference (sm_ReferenceImages it)"

definition totals :: "BatchImageSubmitItem list \<Rightarrow> submit_totals" where
  "totals its = \<lparr>tt_Output = int (length its),
     tt_References = (\<Sum>it\<leftarrow>its. int (length (sm_ReferenceImages it))),
     tt_InlineBytes = (\<Sum>it\<leftarrow>its. inline_bytes (sm_ReferenceImages it))\<rparr>"

definition valid_items :: "BatchImagePublicService \<Rightarrow> string \<Rightarrow> BatchImageSubmitItem list \<Rightarrow> bool" where
  "valid_items s model its \<longleftrightarrow> distinct (map sm_CustomID its) \<and> list_all (valid_item s model) its
     \<and> tt_Output (totals its) \<le> maxOutputImagesPerJob s
     \<and> tt_References (totals its) \<le> maxReferenceImagesPerJob s
     \<and> tt_InlineBytes (totals its) \<le> maxReferenceInlineBytesPerJob s"

definition valid_metadata :: "(string \<times> string) list \<Rightarrow> bool" where
  "valid_metadata m \<longleftrightarrow> distinct (map fst m) \<and> length m \<le> 20
     \<and> list_all (\<lambda>(k, v). k \<noteq> [] \<and> length k \<le> 64 \<and> length v \<le> 256) m"

definition valid_request :: "BatchImagePublicService \<Rightarrow> BatchImageSubmitRequest \<Rightarrow> bool" where
  "valid_request s r \<longleftrightarrow> rq_Model r \<noteq> [] \<and> length (rq_TaskName r) \<le> 255
     \<and> (rq_Provider r \<noteq> [] \<longrightarrow> IsSupportedBatchImageProvider (rq_Provider r))
     \<and> rq_Items r \<noteq> [] \<and> valid_items s (rq_Model r) (rq_Items r)
     \<and> rq_ResponseMimeType r \<noteq> [] \<and> rq_ImageSize r = defaultBatchImageImageSize
     \<and> (case rq_Metadata r of None \<Rightarrow> True | Some m \<Rightarrow> valid_metadata m)"

lemma settings_positive: "0 < maxItems s" "0 < maxOutputImagesPerJob s" "0 < maxOutputImagesPerItem s"
  "0 < maxPromptChars s" "0 < maxReferenceImagesPerJob s" "0 < maxReferenceInlineBytesPerJob s"
  by (auto simp: maxItems_def maxOutputImagesPerJob_def maxOutputImagesPerItem_def maxPromptChars_def
      maxReferenceImagesPerJob_def maxReferenceInlineBytesPerJob_def setting_def split: option.splits)

lemma text_setting_nonempty: "d \<noteq> [] \<Longrightarrow> text_setting s f d \<noteq> []"
  by (auto simp: text_setting_def split: option.splits)

lemma maxReferences_nonneg: "0 \<le> maxBatchImageReferenceImagesForModel model"
  by (simp add: maxBatchImageReferenceImagesForModel_def Let_def)

lemma length_truncate: "0 < n \<Longrightarrow> length (truncateBatchImageMessage m n) \<le> nat n"
  by (auto simp: truncateBatchImageMessage_def Let_def)

lemma normalize_reference_valid: "normalize_reference r = Inr r' \<Longrightarrow> valid_reference r'"
  using length_truncate [of 80] length_truncate [of 40]
  by (auto simp: normalize_reference_def valid_reference_def Let_def
      normalizeBatchImageReferenceMimeType_def split: if_splits)

lemma normalize_references_valid:
  "normalize_references rs = Inr out \<Longrightarrow> length out = length rs \<and> list_all valid_reference out"
  by (induction rs arbitrary: out) (auto simp: sum_bind_Inr dest: normalize_reference_valid)

lemma normalize_item:
  assumes "normalizeBatchImageReferenceInputs model it = Inr (it', rc, ib)"
  shows "sm_CustomID it' = sm_CustomID it" "sm_Prompt it' = sm_Prompt it"
    "rc = int (length (sm_ReferenceImages it'))" "ib = inline_bytes (sm_ReferenceImages it')"
    "int (length (sm_ReferenceImages it')) \<le> maxBatchImageReferenceImagesForModel model"
    "list_all valid_reference (sm_ReferenceImages it')"
  using assms maxReferences_nonneg [of model]
  by (auto simp: normalizeBatchImageReferenceInputs_def Let_def sum_bind_Inr inline_bytes_def
      dest: normalize_references_valid split: if_splits)

text \<open>The copies are appended, and no id occurs twice.\<close>

lemma add_repeats_Inr:
  "add_repeats it n ks acc = Inr out \<Longrightarrow> distinct (map sm_CustomID acc) \<Longrightarrow>
     out = acc @ map (repeat_item it n) ks \<and> distinct (map sm_CustomID out)"
proof (induction ks arbitrary: acc)
  case (Cons k ks)
  from Cons.prems have "sm_CustomID (repeat_item it n k) \<notin> set (map sm_CustomID acc)"
    "add_repeats it n ks (acc @ [repeat_item it n k]) = Inr out"
    by (auto simp: Let_def split: if_splits)
  moreover from this(1) Cons.prems(2) have "distinct (map sm_CustomID (acc @ [repeat_item it n k]))" by simp
  ultimately have "out = (acc @ [repeat_item it n k]) @ map (repeat_item it n) ks \<and> distinct (map sm_CustomID out)"
    by (intro Cons.IH)
  moreover have "(acc @ [repeat_item it n k]) @ map (repeat_item it n) ks = acc @ map (repeat_item it n) (k # ks)"
    by simp
  ultimately show ?case by argo
qed simp

lemma add_repeats_length: "add_repeats it n ks acc = Inr out \<Longrightarrow> length out = length acc + length ks"
proof (induction ks arbitrary: acc)
  case (Cons k ks)
  then show ?case using Cons.IH [of "acc @ [repeat_item it n k]"] by (auto simp: Let_def split: if_splits)
qed simp

lemma repeat_item_simps [simp]:
  "sm_Prompt (repeat_item it n k) = sm_Prompt it" "sm_OutputCount (repeat_item it n k) = 0"
  "sm_ReferenceImages (repeat_item it n k) = sm_ReferenceImages it"
  by (simp_all add: repeat_item_def)

lemma repeat_item_id: "sm_CustomID it \<noteq> [] \<Longrightarrow> sm_CustomID (repeat_item it n k) \<noteq> []"
  by (simp add: repeat_item_def)

lemma totals_append: "totals (xs @ ys) = \<lparr>tt_Output = tt_Output (totals xs) + tt_Output (totals ys),
    tt_References = tt_References (totals xs) + tt_References (totals ys),
    tt_InlineBytes = tt_InlineBytes (totals xs) + tt_InlineBytes (totals ys)\<rparr>"
  by (simp add: totals_def)

lemma totals_repeats: "totals (map (repeat_item it n) ks) = \<lparr>tt_Output = int (length ks),
    tt_References = int (length (sm_ReferenceImages it)) * int (length ks),
    tt_InlineBytes = inline_bytes (sm_ReferenceImages it) * int (length ks)\<rparr>"
  by (simp add: totals_def o_def sum_list_triv)

text \<open>One round of the loop that is passed.\<close>

lemma validate_items_ConsE:
  assumes "validate_items s model i (it0 # its) tot acc = Inr out"
  obtains cid n prompt it acc' tot' where
    "cid \<noteq> []" "prompt \<noteq> []" "int (length prompt) \<le> maxPromptChars s" "1 \<le> n"
    "normalizeBatchImageReferenceInputs model (it0\<lparr>sm_CustomID := cid, sm_Prompt := prompt\<rparr>) =
       Inr (it, int (length (sm_ReferenceImages it)), inline_bytes (sm_ReferenceImages it))"
    "add_repeats it n [1..n] acc = Inr acc'"
    "tot' = \<lparr>tt_Output = tt_Output tot + n,
       tt_References = tt_References tot + int (length (sm_ReferenceImages it)) * n,
       tt_InlineBytes = tt_InlineBytes tot + inline_bytes (sm_ReferenceImages it) * n\<rparr>"
    "tt_Output tot' \<le> maxOutputImagesPerJob s" "tt_References tot' \<le> maxReferenceImagesPerJob s"
    "tt_InlineBytes tot' \<le> maxReferenceInlineBytesPerJob s"
    "validate_items s model (i + 1) its tot' acc' = Inr out"
proof -
  define cid where "cid = (if trim_space (sm_CustomID it0) = [] then ''item_'' @ pad_left 6 (itoa (i + 1))
                   else trim_space (sm_CustomID it0))"
  define n where "n = (if sm_OutputCount it0 = 0 then 1 else sm_OutputCount it0)"
  define prompt where "prompt = trim_space (sm_Prompt it0)"
  note defs = cid_def [symmetric] n_def [symmetric] prompt_def [symmetric]
  have b: "1 \<le> n" "tt_Output tot + n \<le> maxOutputImagesPerJob s" "prompt \<noteq> []"
    "int (length prompt) \<le> maxPromptChars s"
    using assms by (auto simp: Let_def defs split: if_splits)
  have c: "cid \<noteq> []" by (simp add: cid_def)
  from assms obtain it rc ib acc' where
    it: "normalizeBatchImageReferenceInputs model (it0\<lparr>sm_CustomID := cid, sm_Prompt := prompt\<rparr>) = Inr (it, rc, ib)" and
    lim: "tt_References tot + rc * n \<le> maxReferenceImagesPerJob s"
      "tt_InlineBytes tot + ib * n \<le> maxReferenceInlineBytesPerJob s" and
    acc': "add_repeats it n [1..n] acc = Inr acc'" and
    rest: "validate_items s model (i + 1) its \<lparr>tt_Output = tt_Output tot + n,
      tt_References = tt_References tot + rc * n, tt_InlineBytes = tt_InlineBytes tot + ib * n\<rparr> acc' = Inr out"
    by (auto simp: Let_def defs sum_bind_Inr split: if_splits)
  note item = normalize_item [OF it]
  show thesis
    using that [OF c b(3,4,1) _ acc' refl _ _ _ rest [unfolded item(3,4)]] it lim b(2)
    unfolding item(3,4) by simp
qed

lemma validate_items_valid:
  "validate_items s model i its tot acc = Inr out \<Longrightarrow> tot = totals acc \<Longrightarrow> valid_items s model acc \<Longrightarrow>
     valid_items s model out"
proof (induction its arbitrary: i tot acc)
  case (Cons it0 its)
  from Cons.prems(1) show ?case
  proof (cases rule: validate_items_ConsE)
    case (1 cid n prompt it acc' tot')
    note item = normalize_item [OF 1 (5), simplified]
    have new: "acc' = acc @ map (repeat_item it n) [1..n]" "distinct (map sm_CustomID acc')"
      using add_repeats_Inr [OF 1 (6)] Cons.prems(3) unfolding valid_items_def by blast+
    have "int (length [1..n]) = n" using 1 (4) by simp
    then have tot': "tot' = totals acc'"
      by (simp add: new(1) totals_append totals_repeats Cons.prems(2) 1 (7) del: length_upto)
    have "valid_item s model (repeat_item it n k)" for k
      using item 1 (1-3) repeat_item_id [of it n k] by (simp add: valid_item_def)
    then have "list_all (valid_item s model) acc'"
      using Cons.prems(3) new(1) by (auto simp: valid_items_def list_all_iff)
    then have "valid_items s model acc'"
      using new(2) 1 (8-10) unfolding valid_items_def tot' by simp
    with 1 (11) tot' show ?thesis by (rule Cons.IH)
  qed
qed simp

lemma validate_items_grow: "validate_items s model i its tot acc = Inr out \<Longrightarrow> length acc + length its \<le> length out"
proof (induction its arbitrary: i tot acc)
  case (Cons it0 its)
  from Cons.prems show ?case
  proof (cases rule: validate_items_ConsE)
    case (1 cid n prompt it acc' tot')
    have "length acc + 1 \<le> length acc'" using 1 (4) add_repeats_length [OF 1 (6)] by simp
    with Cons.IH [OF 1 (11)] show ?thesis by simp
  qed
qed simp

lemma sanitize_entries_valid:
  "valid_metadata out \<Longrightarrow> length out < 20 \<Longrightarrow> valid_metadata (sanitize_entries kvs out)"
proof (induction kvs out rule: sanitize_entries.induct)
  case (2 k v kvs out)
  let ?k = "trim_space k" and ?v = "take 256 (trim_space v)"
  show ?case
  proof (cases "?k = [] \<or> 64 < length ?k")
    case False
    have len: "length (AList.update ?k ?v out) \<le> Suc (length out)" by (induction out) auto
    have "set (AList.update ?k ?v out) \<subseteq> insert (?k, ?v) (set out)"
      by (induction out) auto
    then have "valid_metadata (AList.update ?k ?v out)"
      using 2 (3,4) False len by (auto simp: valid_metadata_def list_all_iff distinct_update)
    then show ?thesis using 2 (2) [OF refl refl False refl] len False by (auto simp: Let_def)
  qed (use 2 in \<open>auto simp: Let_def\<close>)
qed simp

lemma sanitize_valid:
  "case sanitizeBatchImageMetadata m of None \<Rightarrow> True | Some kvs \<Rightarrow> valid_metadata kvs"
proof -
  have "valid_metadata (sanitize_entries kvs [])" for kvs
    by (rule sanitize_entries_valid) (simp_all add: valid_metadata_def)
  then show ?thesis
    by (auto simp: sanitizeBatchImageMetadata_def simp del: sort_key_simps split: option.splits list.splits)
qed

lemma validate_named_valid:
  assumes "validate_named s r = Inr r'" "rq_Model r \<noteq> []"
  shows "valid_request s r'"
proof -
  let ?zero = "\<lparr>tt_Output = 0, tt_References = 0, tt_InlineBytes = 0\<rparr>"
  from assms obtain items where
    items: "validate_items s (rq_Model r) 0 (rq_Items r) ?zero [] = Inr items" and
    r': "rq_Model r' = rq_Model r" "rq_Provider r' = rq_Provider r" "rq_Items r' = items"
      "rq_ImageSize r' = defaultBatchImageImageSize" "length (rq_TaskName r') \<le> 255"
      "rq_Metadata r' = sanitizeBatchImageMetadata (rq_Metadata r)" "rq_ResponseMimeType r' \<noteq> []" and
    ne: "rq_Items r \<noteq> []" "rq_Provider r \<noteq> [] \<Longrightarrow> IsSupportedBatchImageProvider (rq_Provider r)"
    using length_truncate [of 255 "rq_TaskName r"]
    by (auto simp: validate_named_def Let_def sum_bind_Inr defaultResponseMimeType_def text_setting_nonempty
        split: if_splits)
  have zero: "?zero = totals []" by (simp add: totals_def)
  have "valid_items s (rq_Model r) []"
    using settings_positive [of s] by (simp add: valid_items_def totals_def less_imp_le)
  with items zero have valid: "valid_items s (rq_Model r) items" by (blast intro: validate_items_valid)
  obtain it its where "rq_Items r = it # its" using ne(1) by (cases "rq_Items r") auto
  with validate_items_grow [OF items] have "items \<noteq> []" by auto
  then show ?thesis
    using valid r' ne assms(2) sanitize_valid [of "rq_Metadata r"] by (simp add: valid_request_def)
qed

text \<open>
  C23: A request that is accepted is well formed, whatever was sent: it has items, their ids are distinct and
  not empty, every prompt is present and within its limit, every reference image is of a known type and has
  either data or a gs:// address, and the images, references and inline bytes of all copies together are
  within the limits of a job.
\<close>
theorem accepted_request_is_valid:
  assumes "fst (run_state (validateSubmitRequest s req) w) = Inr req'"
  shows "valid_request s req'"
  using assms unfolding validateSubmitRequest_def Let_def
  by (auto simp: run_bind defaultBatchImageTaskName_def split: if_splits prod.splits
      intro!: validate_named_valid)

subsection \<open>The hold covers the cost\<close>

text \<open>Not negative, or not a number.\<close>

definition no_sign :: "f64 \<Rightarrow> bool" where
  "no_sign x \<longleftrightarrow> x = NaN \<or> f_nonneg x"

lemma no_sign_clamp: "no_sign (not_below_zero x)"
  by (cases x) (auto simp: no_sign_def not_below_zero_def)

lemma f_mul_NaN [simp]: "f_mul a NaN = NaN"
  by (cases a) auto

lemma no_sign_mul: "no_sign a \<Longrightarrow> no_sign b \<Longrightarrow> no_sign (f_mul a b)"
  using f_mul_nonneg [of a b] by (auto simp: no_sign_def)

text \<open>The clamp of the hold multiplier is what makes the hold enough for any number of images.\<close>

lemma hold_enough:
  assumes "no_sign standard" "no_sign discount" "no_sign hold" "\<not> f_lt hold discount"
    and "f_nonneg k" "f_le k n"
  shows "\<not> f_lt (f_mul (f_mul standard hold) n) (f_mul k (f_mul standard discount))"
proof (cases "f_mul (f_mul standard hold) n = NaN \<or> f_mul k (f_mul standard discount) = NaN")
  case True
  then show ?thesis by (cases "f_mul (f_mul standard hold) n") auto
next
  case False
  then have num: "f_mul standard hold \<noteq> NaN" "f_mul standard discount \<noteq> NaN" "standard \<noteq> NaN" "hold \<noteq> NaN"
    "discount \<noteq> NaN" by auto
  then have nn: "f_nonneg standard" "f_nonneg discount" "f_nonneg hold" using assms by (auto simp: no_sign_def)
  have "f_le discount hold" using num assms(4) not_f_lt by blast
  then have le: "f_le (f_mul standard discount) (f_mul standard hold)"
    using nn num by (intro f_mul_mono)
  have "f_le (f_mul k (f_mul standard discount)) (f_mul n (f_mul standard hold))"
    using nn num le assms(5,6) False
    by (intro f_mul_mono2 [OF _ _ assms(6) le] f_mul_nonneg) (simp_all add: f_mul_comm [of n])
  then show ?thesis using False not_f_lt f_mul_comm by metis
qed

lemma f_of_int_order: "0 \<le> k \<Longrightarrow> k \<le> n \<Longrightarrow> f_nonneg (f_of_int k) \<and> f_le (f_of_int k) (f_of_int n)"
  by (auto simp: f_of_int_def intro: f_nonneg_round64 round64_mono_nonneg)

lemma unit_price_no_sign: "unit_price s p m u = Inr v \<Longrightarrow> no_sign v"
  by (cases v) (auto simp: unit_price_def no_sign_def split: if_splits option.splits sum.splits)

lemma group_factors_no_sign:
  assumes "group_factors s owner req = Inr f"
  shows "no_sign (pf_Group f)" "no_sign (pf_Discount f)" "no_sign (pf_Hold f)"
proof -
  have d: "no_sign (Fin 1)" "no_sign (round64 (1/2))" "no_sign (round64 (3/5))"
    by (auto simp: no_sign_def intro: f_nonneg_round64)
  have h: "f_le (Fin 0) x \<Longrightarrow> no_sign x" for x by (simp add: no_sign_def f_nonneg_def)
  show "no_sign (pf_Group f)" "no_sign (pf_Discount f)" "no_sign (pf_Hold f)"
    using assms d h
    by (auto simp: group_factors_def default_factors_def no_sign_clamp sum_bind_Inr
        split: option.splits if_splits)
qed

text \<open>
  C24: The money held for a request covers what it can cost: however many of its images succeed, the product
  of their number and the billable unit price does not exceed the hold, in the float arithmetic of the
  code, for every price and every multiplier, also those a group sets below zero or the hold below the discount.
\<close>
theorem hold_covers_cost:
  assumes "resolvePricingSnapshot s owner req provider account = Inr snap"
    and "0 \<le> k" "k \<le> int (length (rq_Items req))"
  shows "\<not> f_lt (sn_HoldAmount snap) (f_mul (f_of_int k) (sn_BillableUnitPrice snap))"
proof -
  from assms(1) obtain f unit where
    f: "group_factors s owner req = Inr f" and u: "unit_price s provider (rq_Model req) (pf_Unit f) = Inr unit"
    and snap: "sn_HoldAmount snap = f_mul (f_mul (f_mul (f_mul unit (pf_Group f)) (sn_AccountRateMultiplier snap))
        (sn_HoldMultiplier snap)) (f_of_int (int (length (rq_Items req))))"
      "sn_BillableUnitPrice snap = f_mul (f_mul (f_mul unit (pf_Group f)) (sn_AccountRateMultiplier snap)) (pf_Discount f)"
      "no_sign (sn_AccountRateMultiplier snap)"
      "sn_HoldMultiplier snap = (if f_lt (pf_Hold f) (pf_Discount f) then pf_Discount f else pf_Hold f)"
    by (auto simp: resolvePricingSnapshot_def sum_bind_Inr Let_def no_sign_clamp)
  note signs = group_factors_no_sign [OF f] unit_price_no_sign [OF u]
  have "\<not> f_lt x x" for x by (cases x) auto
  then show ?thesis
    unfolding snap(1,2) using signs snap(3,4) f_of_int_order [OF assms(2,3)]
    by (intro hold_enough no_sign_mul) auto
qed

subsection \<open>Which account is chosen\<close>

text \<open>An account that can take the request, at the time of the clock.\<close>

definition eligible :: "go_env \<Rightarrow> (Account \<Rightarrow> bool) \<Rightarrow> string \<Rightarrow> 'z world_scheme \<Rightarrow> Account \<Rightarrow> bool" where
  "eligible ge supports model w a \<longleftrightarrow>
     fst (run_state (IsSchedulable ge a) w) \<and> IsModelSupported a model \<and> supports a"

lemma IsSchedulable_still: "ticks w = [] \<Longrightarrow> snd (run_state (IsSchedulable ge a) w) = w"
  by (simp add: IsSchedulable_def IsQuotaExceeded_def window_exceeded_def time_now_def run_bind)

lemma first_account_still:
  assumes "ticks w = []"
  shows "run_state (first_account ge supports model as) w = (find (eligible ge supports model w) as, w)"
proof (induction as)
  case (Cons a as)
  obtain b where "run_state (IsSchedulable ge a) w = (b, w)"
    using IsSchedulable_still [OF assms, of ge a] by (metis prod.collapse)
  then show ?case using Cons by (simp add: run_bind eligible_def)
qed simp

lemma find_sorted:
  "find P xs = Some a \<Longrightarrow> sorted (map f xs) \<Longrightarrow> b \<in> set xs \<Longrightarrow> P b \<Longrightarrow> f a \<le> f b"
  by (induction xs) (auto split: if_splits)

lemma find_SomeD: "find P xs = Some a \<Longrightarrow> a \<in> set xs \<and> P a"
  by (induction xs) (auto split: if_splits)

lemma select_provider_first:
  assumes "fst (run_state (select_provider s owner model names) w) = Inr (p, a)" "ticks w = []"
  shows "\<exists>name \<in> set names. pb_Registry s name = Some p \<and> (\<exists>cs.
    listCandidateAccounts s owner (batchImageProviderPlatform name) = Inr cs \<and> a \<in> set cs
    \<and> eligible (pb_GoEnv s) (pv_SupportsAccount p) model w a
    \<and> (\<forall>b \<in> set cs. eligible (pb_GoEnv s) (pv_SupportsAccount p) model w b \<longrightarrow> account_order a \<le> account_order b))"
  using assms(1)
proof (induction names)
  case (Cons name names)
  show ?case
  proof (cases "pb_Registry s name")
    case None
    then show ?thesis using Cons by auto
  next
    case (Some provider)
    show ?thesis
    proof (cases "listCandidateAccounts s owner (batchImageProviderPlatform name)")
      case (Inl e)
      then show ?thesis using Cons.prems Some by simp
    next
      case (Inr cs)
      let ?ok = "eligible (pb_GoEnv s) (pv_SupportsAccount provider) model w"
      let ?sorted = "sort_key account_order cs"
      show ?thesis
      proof (cases "find ?ok ?sorted")
        case None
        then show ?thesis
          using Cons Some Inr assms(2) by (auto simp: run_bind first_account_still)
      next
        case found: (Some a')
        then have "p = provider" "a' = a"
          using Cons.prems Some Inr assms(2) by (auto simp: run_bind first_account_still)
        moreover have "a' \<in> set cs \<and> ?ok a'" using find_SomeD [OF found] by simp
        moreover have "\<forall>b \<in> set cs. ?ok b \<longrightarrow> account_order a' \<le> account_order b"
          using find_sorted [OF found, of account_order] by simp
        ultimately show ?thesis using Some Inr by auto
      qed
    qed
  qed
qed simp

text \<open>
  The account that is chosen can take the request and, among the candidates of its provider that can,
  has the greatest priority number, and among those the smallest id.
\<close>
theorem chosen_account_first:
  assumes "fst (run_state (selectProviderAndAccount s owner requested model) w) = Inr (p, a)" "ticks w = []"
  shows "\<exists>name cs. pb_Registry s name = Some p
    \<and> listCandidateAccounts s owner (batchImageProviderPlatform name) = Inr cs \<and> a \<in> set cs
    \<and> eligible (pb_GoEnv s) (pv_SupportsAccount p) model w a
    \<and> list_all (\<lambda>b. eligible (pb_GoEnv s) (pv_SupportsAccount p) model w b \<longrightarrow>
         ac_Priority b < ac_Priority a \<or> ac_Priority b = ac_Priority a \<and> ac_ID a \<le> ac_ID b) cs"
  using select_provider_first [OF assms(1) [unfolded selectProviderAndAccount_def] assms(2)]
  by (force simp: list_all_iff account_order_def less_eq_prod_def)

subsection \<open>Examples\<close>

definition image_account :: "int \<Rightarrow> int \<Rightarrow> Account" where
  "image_account i priority = (sample_account PlatformGemini
     [(''gemini-2.5-flash-image'', JsonString ''gemini-2.5-flash-image'')])\<lparr>ac_ID := i, ac_Priority := priority\<rparr>"

definition image_provider :: "Account BatchImageProvider" where
  "image_provider = \<lparr>pv_Name = BatchImageProviderVertex, pv_SupportsAccount = (\<lambda>_. True),
     pv_Submit = (\<lambda>_ _ _. Inr (Some \<lparr>pj_ProviderJobName = ''jobs/1'', pj_ProviderInputRef = ''gs://in'',
       pj_ProviderOutputRef = ''gs://out'', pj_RawState = ''JOB_STATE_PENDING''\<rparr>)),
     pv_Get = (\<lambda>_ _. Inr None), pv_Cancel = (\<lambda>_ _. Inr ()),
     pv_OpenResult = (\<lambda>_ _. Inr \<lparr>rd_Content = [], rd_Err = None\<rparr>), pv_Cleanup = (\<lambda>_ _ _. Inr ())\<rparr>"

definition image_group :: Group where
  "image_group = \<lparr>gr_ID = 4, gr_Platform = PlatformGemini, gr_RateMultiplier = Fin 2,
     gr_AllowBatchImageGeneration = True, gr_ImageRateIndependent = False, gr_ImageRateMultiplier = Fin 1,
     gr_ImagePrice1K = Some (Fin 1), gr_ImagePrice2K = None, gr_ImagePrice4K = None,
     gr_BatchImageDiscountMultiplier = Fin (1/2), gr_BatchImageHoldMultiplier = Fin (1/4)\<rparr>"

definition image_config :: BatchImageConfig where
  "image_config = \<lparr>cf_Enabled = True, cf_MaxItemsPerJobDefault = 10, cf_MaxOutputImagesPerJob = 20,
     cf_MaxOutputImagesPerItem = 4, cf_MaxPromptCharsPerItem = 100, cf_MaxReferenceImagesPerJob = 10,
     cf_MaxReferenceInlineBytesPerJob = 1000, cf_DefaultResponseMimeType = ''image/png'',
     cf_DefaultImageSize = ''1k'', cf_StaleActiveAfterSeconds = 600\<rparr>"

definition image_service :: BatchImagePublicService where
  "image_service = \<lparr>
     pb_AccountRepo = Some \<lparr>ar_GetByID = (\<lambda>i. Inr (image_account i 0)),
       ar_ListSchedulableByPlatform = (\<lambda>_. Inr []),
       ar_ListSchedulableByGroupIDAndPlatform = (\<lambda>_ _. Inr [image_account 1 1, image_account 2 50])\<rparr>,
     pb_GroupByID = Some (\<lambda>i. Inr (Some image_group)), pb_UserGroupRate = None,
     pb_Queue = Some default_queue_options,
     pb_Registry = [BatchImageProviderVertex \<mapsto> image_provider], pb_Pricing = None, pb_AuthCache = True,
     pb_Config = Some image_config, pb_GoEnv = sample_env, pb_Zone = UTC\<rparr>"

definition image_owner :: BatchImageOwner where
  "image_owner = \<lparr>ow_UserID = 1, ow_APIKeyID = 7, ow_GroupID = Some 4\<rparr>"

definition image_request :: BatchImageSubmitRequest where
  "image_request = \<lparr>rq_Model = '' gemini-2.5-flash-image'', rq_TaskName = ''t'', rq_ParentBatchID = [], rq_Provider = [],
     rq_Items = [
       \<lparr>sm_CustomID = ''a'', sm_Prompt = ''cat '', sm_OutputCount = 2, sm_ReferenceImages =
         [\<lparr>br_ID = [], br_Type = [], br_MimeType = ''image/JPG'', br_Data = [], br_FileURI = '' gs://b/x''\<rparr>]\<rparr>,
       \<lparr>sm_CustomID = [], sm_Prompt = ''dog'', sm_OutputCount = 0, sm_ReferenceImages = []\<rparr>],
     rq_ResponseMimeType = [], rq_AspectRatio = [], rq_ImageSize = ''1K'',
     rq_Metadata = Some [(''k '', '' v''), ('' '', ''x'')]\<rparr>"

lemma accepted_request_is_valid_witness:
  "\<exists>r. fst (run_state (validateSubmitRequest image_service image_request) demo_world) = Inr r
     \<and> map sm_CustomID (rq_Items r) = [''a_01'', ''a_02'', ''item_000002''] \<and> valid_request image_service r"
proof -
  let ?r = "fst (run_state (validateSubmitRequest image_service image_request) demo_world)"
  have "case ?r of Inl _ \<Rightarrow> False | Inr r \<Rightarrow> map sm_CustomID (rq_Items r) = [''a_01'', ''a_02'', ''item_000002'']"
    by code_simp
  then show ?thesis using accepted_request_is_valid [of image_service image_request demo_world]
    by (cases ?r) auto
qed

lemma hold_covers_cost_witness:
  "\<exists>snap. resolvePricingSnapshot image_service image_owner image_request ''vertex'' None = Inr snap
     \<and> sn_HoldAmount snap = Fin 2 \<and> \<not> f_lt (sn_HoldAmount snap) (f_mul (f_of_int 2) (sn_BillableUnitPrice snap))"
proof -
  let ?r = "resolvePricingSnapshot image_service image_owner image_request ''vertex'' None"
  have "case ?r of Inl _ \<Rightarrow> False | Inr snap \<Rightarrow> sn_HoldAmount snap = Fin 2" by code_simp
  then show ?thesis
    using hold_covers_cost [of image_service image_owner image_request "''vertex''" None _ 2]
    by (cases ?r) (auto simp: image_request_def)
qed

text \<open>Of two accounts, the one with priority number 50 is preferred to the one with 1.\<close>

lemma chosen_account_first_witness:
  "\<exists>p a. fst (run_state (selectProviderAndAccount image_service image_owner [] ''gemini-2.5-flash-image'') demo_world) = Inr (p, a)
     \<and> ac_Priority a = 50
     \<and> (\<exists>name cs. listCandidateAccounts image_service image_owner (batchImageProviderPlatform name) = Inr cs \<and> a \<in> set cs)"
proof -
  let ?r = "fst (run_state (selectProviderAndAccount image_service image_owner [] ''gemini-2.5-flash-image'') demo_world)"
  have "case ?r of Inl _ \<Rightarrow> False | Inr (p, a) \<Rightarrow> ac_Priority a = 50" by code_simp
  moreover have "ticks demo_world = []" by (simp add: demo_world_def)
  ultimately show ?thesis
    using chosen_account_first [of image_service image_owner "[]" "''gemini-2.5-flash-image''" demo_world]
    by (cases ?r) (fastforce split: prod.splits)+
qed

end
