(* ===== verification/GoStrings.thy ===== *)
theory GoStrings
  imports BatchImageRequest
begin

section \<open>More of package strings\<close>

text \<open>
  \<^verbatim>\<open>strings.Trim\<close>, \<^verbatim>\<open>TrimLeft\<close> and \<^verbatim>\<open>TrimRight\<close> with an ASCII cutset, \<^verbatim>\<open>ReplaceAll\<close> of a non-empty text, and
  the runes that \<^verbatim>\<open>for range\<close> visits.
\<close>

definition trim_left :: "char set \<Rightarrow> string \<Rightarrow> string" where
  "trim_left cs s = dropWhile (\<lambda>c. c \<in> cs) s"

definition trim_right :: "char set \<Rightarrow> string \<Rightarrow> string" where
  "trim_right cs s = rev (dropWhile (\<lambda>c. c \<in> cs) (rev s))"

definition trim_set :: "char set \<Rightarrow> string \<Rightarrow> string" where
  "trim_set cs s = trim_right cs (trim_left cs s)"

function replace_all :: "string \<Rightarrow> string \<Rightarrow> string \<Rightarrow> string" where
  "replace_all old new [] = []"
| "replace_all old new (c # s) =
     (if old \<noteq> [] \<and> starts_with old (c # s) then new @ replace_all old new (drop (length old) (c # s))
      else c # replace_all old new s)"
  by pat_completeness auto
termination
  by (relation "measure (\<lambda>(_, _, s). length s)") (auto simp: neq_Nil_conv)

text \<open>The runes of a string, each as its bytes; a byte that is not part of a valid rune is \<open>None\<close>.\<close>

function runes :: "string \<Rightarrow> string option list" where
  "runes [] = []"
| "runes (c # s) = (let n = rune_len (c # s) in
     if n = 0 then None # runes s else Some (take n (c # s)) # runes (drop n (c # s)))"
  by pat_completeness auto
termination
  by (relation "measure length") auto

declare runes.simps [simp del] replace_all.simps [simp del]

lemma replace_all_Nil [simp]: "replace_all old new [] = []"
  by (simp add: replace_all.simps)

lemma set_trim_right: "set (trim_right cs s) \<subseteq> set s"
  by (auto simp: trim_right_def dest: set_dropWhileD)

lemma set_trim_set: "set (trim_set cs s) \<subseteq> set s"
  using set_trim_right [of cs "trim_left cs s"] by (auto simp: trim_set_def trim_left_def dest: set_dropWhileD)

lemma last_trim_right: "trim_right cs s \<noteq> [] \<Longrightarrow> last (trim_right cs s) \<notin> cs"
  using hd_dropWhile [of "\<lambda>c. c \<in> cs" "rev s"] by (auto simp: trim_right_def last_rev)

lemma trim_right_prefix: "\<exists>t. s = trim_right cs s @ t"
  by (rule exI [of _ "rev (takeWhile (\<lambda>c. c \<in> cs) (rev s))"])
    (simp add: trim_right_def flip: rev_append)

lemma last_trim_set: "trim_set cs s \<noteq> [] \<Longrightarrow> last (trim_set cs s) \<notin> cs"
  unfolding trim_set_def by (rule last_trim_right)

lemma hd_trim_set: "trim_set cs s \<noteq> [] \<Longrightarrow> hd (trim_set cs s) \<notin> cs"
proof -
  assume ne: "trim_set cs s \<noteq> []"
  obtain t where t: "trim_left cs s = trim_set cs s @ t"
    using trim_right_prefix [of "trim_left cs s" cs] by (auto simp: trim_set_def)
  with ne have "hd (trim_left cs s) = hd (trim_set cs s)" "trim_left cs s \<noteq> []" by auto
  then show ?thesis using hd_dropWhile [of "\<lambda>c. c \<in> cs" s] by (simp add: trim_left_def)
qed

lemma starts_with_length: "starts_with p s \<Longrightarrow> length p \<le> length s"
  unfolding starts_with_def by (metis length_take min.cobounded1 min.commute)

lemma length_replace_le: "length new \<le> length old \<Longrightarrow> length (replace_all old new s) \<le> length s"
proof (induction old new s rule: replace_all.induct)
  case (2 old new c s)
  then show ?case using starts_with_length [of old "c # s"] by (auto simp: replace_all.simps)
qed simp

lemma length_replace_shrinks:
  assumes "length new < length old" "contains s old"
  shows "length (replace_all old new s) < length s"
  using assms
proof (induction old new s rule: replace_all.induct)
  case (2 old new c s)
  then show ?case
    using length_replace_le [of new old "drop (length old) (c # s)"] starts_with_length [of old "c # s"]
    by (auto simp: replace_all.simps)
qed auto

lemma contains_append: "contains (a @ p @ b) p"
proof -
  have "starts_with p (p @ b)" by (simp add: starts_with_def)
  then have "contains (p @ b) p" by (cases "p @ b") auto
  then show ?thesis by (induction a) auto
qed

lemma contains_iff: "contains s p \<longleftrightarrow> (\<exists>a b. s = a @ p @ b)"
proof
  show "contains s p \<Longrightarrow> \<exists>a b. s = a @ p @ b"
  proof (induction s p rule: contains.induct)
    case (2 c s p)
    then show ?case
    proof (cases "starts_with p (c # s)")
      case True
      then have "c # s = [] @ p @ drop (length p) (c # s)"
        unfolding starts_with_def by (metis append_Nil append_take_drop_id)
      then show ?thesis by blast
    next
      case False
      with 2 obtain a b where "s = a @ p @ b" by auto
      then have "c # s = (c # a) @ p @ b" by simp
      then show ?thesis by blast
    qed
  qed simp
qed (auto intro: contains_append)

end
