(* ===== verification/DownloadFiles.thy ===== *)
theory DownloadFiles
  imports GoStrings
begin

section \<open>Images and file names of a download\<close>

text \<open>
  The pure part of \<^verbatim>\<open>service/batch_image_download.go\<close>: the images of a result line and the names under which
  they are served.  \<open>letter\<close> says which runes outside ASCII \<^verbatim>\<open>unicode.IsLetter\<close> or \<^verbatim>\<open>IsDigit\<close> accept.
\<close>

subsection \<open>File names\<close>

definition ascii_alnum :: "char \<Rightarrow> bool" where
  "ascii_alnum c \<longleftrightarrow> in_range 48 57 c \<or> in_range 65 90 c \<or> in_range 97 122 c"

definition letter_or_digit :: "(string \<Rightarrow> bool) \<Rightarrow> string \<Rightarrow> bool" where
  "letter_or_digit letter u = (case u of [c] \<Rightarrow> ascii_alnum c | _ \<Rightarrow> letter u)"

definition control_rune :: "string \<Rightarrow> bool" where
  "control_rune u = (case u of [c] \<Rightarrow> in_range 0 0x1F c \<or> c = CHR 0x7F
     | [a, b] \<Rightarrow> a = CHR 0xC2 \<and> in_range 0x80 0x9F b | _ \<Rightarrow> False)"

definition filename_rune :: "(string \<Rightarrow> bool) \<Rightarrow> string option \<Rightarrow> string" where
  "filename_rune letter r = (case r of
      None \<Rightarrow> ''_''
    | Some u \<Rightarrow> if u \<in> {''/'', [CHR 0x5C], '':'', [CHR 0x00]} then ''_''
        else if control_rune u then ''_''
        else if letter_or_digit letter u \<or> u \<in> {''_'', ''-'', ''.''} then u
        else ''_'')"

function squeeze_dots :: "string \<Rightarrow> string" where
  "squeeze_dots s = (if contains s ''..'' then squeeze_dots (replace_all ''..'' ''_'' s) else s)"
  by pat_completeness auto
termination
  by (relation "measure length") (auto intro: length_replace_shrinks)

declare squeeze_dots.simps [simp del]

abbreviation dot_space :: "char set" where "dot_space \<equiv> {CHR ''.'', CHR '' ''}"

definition sanitizeBatchImageFilenameBase :: "(string \<Rightarrow> bool) \<Rightarrow> string \<Rightarrow> string" where
  "sanitizeBatchImageFilenameBase letter value0 = (let value = trim_space value0 in
     if value = [] then ''image''
     else let out = trim_set dot_space (concat (map (filename_rune letter) (runes value)));
              out = trim_set dot_space (squeeze_dots out);
              out = (if out = [] then ''image'' else out);
              out = (if 120 < length out then trim_right dot_space (take 120 out) else out)
          in if out = [] then ''image'' else out)"

text \<open>Extensions are ASCII here, since they are \<open>bin\<close> or come from \<^verbatim>\<open>batchImageFileExtension\<close>.\<close>

definition extension_runes :: "(string \<Rightarrow> bool) \<Rightarrow> string \<Rightarrow> string" where
  "extension_runes letter e = concat (map (\<lambda>r. case r of None \<Rightarrow> [] | Some u \<Rightarrow> if letter_or_digit letter u then u else []) (runes e))"

definition sanitizeBatchImageFilenameExtension :: "(string \<Rightarrow> bool) \<Rightarrow> string \<Rightarrow> string" where
  "sanitizeBatchImageFilenameExtension letter extension = (let
       e0 = trim_space (to_lower extension);
       e = (if has_prefix e0 ''.'' then drop 1 e0 else e0);
       out = extension_runes letter e
     in if 12 < length out then take 12 out else out)"

definition BatchImageSafeDownloadFilename :: "(string \<Rightarrow> bool) \<Rightarrow> string \<Rightarrow> string \<Rightarrow> string" where
  "BatchImageSafeDownloadFilename letter customID extension = (let
       base = sanitizeBatchImageFilenameBase letter customID;
       ext = sanitizeBatchImageFilenameExtension letter extension
     in base @ ''.'' @ (if ext = [] then ''bin'' else ext))"

definition batchImageZipImageFilename :: "(string \<Rightarrow> bool) \<Rightarrow> string \<Rightarrow> nat \<Rightarrow> string \<Rightarrow> string" where
  "batchImageZipImageFilename letter customID imageIndex extension = (let
       base = sanitizeBatchImageFilenameBase letter customID;
       base = (if 0 < imageIndex then base @ ''_'' @ itoa (int imageIndex + 1) else base)
     in ''images/'' @ BatchImageSafeDownloadFilename letter base extension)"

text \<open>\<^verbatim>\<open>filepath.Ext\<close>: from the last dot of the last element of the path.\<close>

definition file_ext :: "string \<Rightarrow> string" where
  "file_ext name = (let e = rev (takeWhile (\<lambda>c. c \<noteq> CHR ''/'') (rev name)) in
     if CHR ''.'' \<in> set e then CHR ''.'' # rev (takeWhile (\<lambda>c. c \<noteq> CHR ''.'') (rev e)) else [])"

definition BatchImageContentDispositionAttachment :: "(string \<Rightarrow> bool) \<Rightarrow> string \<Rightarrow> string" where
  "BatchImageContentDispositionAttachment letter name0 = (let
       name = map (\<lambda>c. if c = CHR 0x5C then CHR ''_'' else c) name0;
       name = map (\<lambda>c. if c = CHR 0x22 then CHR ''_'' else c) name;
       name = sanitizeBatchImageFilenameBase letter (take (length name - length (file_ext name)) name) @ file_ext name
     in ''attachment; filename='' @ [CHR 0x22] @ name @ [CHR 0x22])"

subsection \<open>The images of a result line\<close>

record BatchImageInlineImage =
  im_MimeType :: string
  im_Extension :: string
  im_Base64Data :: string

record BatchImageLineImages =
  li_CustomID :: string
  li_Images :: "BatchImageInlineImage list"
  li_ErrorCode :: string
  li_ErrorMessage :: string

definition inline_part :: "json \<Rightarrow> BatchImageInlineImage list" where
  "inline_part partRaw = (case partRaw of
      JsonObject part \<Rightarrow> (case firstMap [obj_get part ''inlineData'', obj_get part ''inline_data''] of
          None \<Rightarrow> []
        | Some inline \<Rightarrow>
            let data = trim_space (batchImageMapString inline ''data'');
                mime = trim_space (batchImageFirstNonEmptyString
                  [batchImageMapString inline ''mimeType'', batchImageMapString inline ''mime_type''])
            in if data = [] \<or> \<not> has_prefix (to_lower mime) ''image/'' then []
               else [\<lparr>im_MimeType = mime, im_Extension = batchImageFileExtension mime, im_Base64Data = data\<rparr>])
    | _ \<Rightarrow> [])"

definition candidate_parts :: "json \<Rightarrow> BatchImageInlineImage list" where
  "candidate_parts candidateRaw = (case candidateRaw of
      JsonObject candidate \<Rightarrow> (case batchImageNestedAny candidate [''content'', ''parts''] of
          JsonArray parts \<Rightarrow> concat (map inline_part parts)
        | _ \<Rightarrow> [])
    | _ \<Rightarrow> [])"

definition extractBatchImageInlineImages :: "json \<Rightarrow> BatchImageInlineImage list" where
  "extractBatchImageInlineImages raw = (case raw of
      JsonArray candidates \<Rightarrow> concat (map candidate_parts candidates)
    | _ \<Rightarrow> [])"

definition object_images :: "json_object \<Rightarrow> BatchImageInlineImage list" where
  "object_images obj = extractBatchImageInlineImages (batchImageNestedAny obj [''response'', ''candidates''])
     @ extractBatchImageInlineImages (obj_get obj ''candidates'')"

definition line_of_object :: "json_object \<Rightarrow> goerr + BatchImageLineImages" where
  "line_of_object obj = (let customID = result_custom_id obj;
       out = \<lparr>li_CustomID = customID, li_Images = object_images obj, li_ErrorCode = [], li_ErrorMessage = []\<rparr>
     in if customID = [] then Inl (WithCause ErrBatchImageIndexParseFailed (PlainErr ''missing custom id''))
        else if li_Images out \<noteq> [] then Inr out
        else (case batchImageFailureFromProviderFields obj of
            Some (code, message) \<Rightarrow> Inr (out\<lparr>li_ErrorCode := code,
              li_ErrorMessage := truncateBatchImageMessage message batchImageMaxErrorMessageLength\<rparr>)
          | None \<Rightarrow>
              if map_of obj ''response'' \<noteq> None \<or> batchImageHasCandidates obj then
                Inr (out\<lparr>li_ErrorCode := ''EMPTY_IMAGE_OUTPUT'',
                  li_ErrorMessage := ''provider response contained no image output''\<rparr>)
              else Inr (out\<lparr>li_ErrorCode := ''PROVIDER_ITEM_FAILED'',
                  li_ErrorMessage := ''provider result line contained no image output''\<rparr>)))"

definition ExtractBatchImagePartsFromResultLine :: "(string \<Rightarrow> goerr + json_object) \<Rightarrow> string \<Rightarrow>
    goerr + BatchImageLineImages" where
  "ExtractBatchImagePartsFromResultLine unmarshal line = (case unmarshal line of
      Inl err \<Rightarrow> Inl (WithCause ErrBatchImageIndexParseFailed err)
    | Inr obj \<Rightarrow> line_of_object obj)"

subsection \<open>The indexer and the download read a line alike\<close>

lemma inline_part_mimes: "map im_MimeType (inline_part p) = (case inline_image p of None \<Rightarrow> [] | Some m \<Rightarrow> [m])"
  by (auto simp: inline_part_def inline_image_def Let_def split: json.split option.split)

lemma candidate_parts_mimes: "map im_MimeType (candidate_parts c) = candidate_images c"
proof -
  have "map im_MimeType (concat (map inline_part ps)) = List.map_filter inline_image ps" for ps
    by (induction ps) (auto simp: inline_part_mimes map_filter_simps split: option.split)
  then show ?thesis by (simp add: candidate_parts_def candidate_images_def split: json.split)
qed

lemma extract_mimes: "map im_MimeType (extractBatchImageInlineImages raw) = images raw"
  by (auto simp: extractBatchImageInlineImages_def images_def map_concat candidate_parts_mimes comp_def split: json.split)

text \<open>What the indexer stored of a line and what a download finds in it.\<close>

definition agrees :: "ParsedBatchImageResult \<Rightarrow> BatchImageLineImages \<Rightarrow> bool" where
  "agrees r l \<longleftrightarrow> pb_CustomID r = li_CustomID l
     \<and> (pb_Status r = BatchImageParsedStatusSucceeded \<longleftrightarrow> li_Images l \<noteq> [])
     \<and> pb_ImageCount r \<le> int (length (li_Images l))
     \<and> (li_Images l \<noteq> [] \<longrightarrow> pb_MimeType r = im_MimeType (hd (li_Images l))
          \<and> pb_FileExtension r = im_Extension (hd (li_Images l)))
     \<and> (li_Images l = [] \<longrightarrow> pb_ErrorCode r = li_ErrorCode l \<and> pb_ErrorMessage r = li_ErrorMessage l)"

lemma image_extension:
  "im \<in> set (extractBatchImageInlineImages raw) \<Longrightarrow> im_Extension im = batchImageFileExtension (im_MimeType im)"
  by (auto simp: extractBatchImageInlineImages_def candidate_parts_def inline_part_def Let_def
      split: json.splits option.splits if_splits)

lemma find_image_parts: "batchImageFindImageParts obj = (let nested = images (batchImageNestedAny obj [''response'', ''candidates'']);
    all = (if nested \<noteq> [] then nested else images (obj_get obj ''candidates''))
  in (int (length all), case all of [] \<Rightarrow> [] | m # _ \<Rightarrow> m))"
  by (simp add: batchImageFindImageParts_def FindImageParts Let_def)

text \<open>
  C29: The indexer and the download read every result line alike: both reject it or both accept it, with the same
  custom id; it counts as succeeded exactly when it has an image to serve, every image that was counted can be served,
  the stored type and extension are those of the first one, and a line without an image has the same error.
\<close>
theorem index_and_download_agree:
  "rel_sum (\<lambda>_ _. True) agrees (ParseBatchImageResultLine unmarshal line n)
     (ExtractBatchImagePartsFromResultLine unmarshal line)"
proof (cases "unmarshal line")
  case (Inr obj)
  let ?nested = "extractBatchImageInlineImages (batchImageNestedAny obj [''response'', ''candidates''])"
  let ?top = "extractBatchImageInlineImages (obj_get obj ''candidates'')"
  have found: "batchImageFindImageParts obj = (let all = (if ?nested \<noteq> [] then ?nested else ?top)
      in (int (length all), case all of [] \<Rightarrow> [] | im # _ \<Rightarrow> im_MimeType im))"
    unfolding find_image_parts Let_def extract_mimes [symmetric] by (auto split: list.split)
  have ext: "im \<in> set (object_images obj) \<Longrightarrow> batchImageFileExtension (im_MimeType im) = im_Extension im" for im
    using image_extension by (auto simp: object_images_def)
  show ?thesis
    using Inr found ext [of "hd (object_images obj)"]
    unfolding ParseBatchImageResultLine_def ExtractBatchImagePartsFromResultLine_def parse_object_def
      line_of_object_def failed_result_def Let_def
    by (cases ?nested; cases ?top) (auto simp: agrees_def object_images_def split: option.split)
qed (simp add: ParseBatchImageResultLine_def ExtractBatchImagePartsFromResultLine_def)

subsection \<open>Names are safe\<close>

text \<open>A letter, a digit, one of \<open>_ - .\<close>, or a byte of a rune outside ASCII.\<close>

definition safe_byte :: "char \<Rightarrow> bool" where
  "safe_byte c \<longleftrightarrow> ascii_alnum c \<or> c \<in> {CHR ''_'', CHR ''-'', CHR ''.''} \<or> in_range 0x80 0xFF c"

definition safe_name :: "string \<Rightarrow> bool" where
  "safe_name s \<longleftrightarrow> s \<noteq> [] \<and> hd s \<noteq> CHR ''.'' \<and> list_all safe_byte s \<and> \<not> contains s ''..''"

lemma rune_len_cases:
  obtains "rune_len (c # r) \<le> 1"
  | k where "rune_len (c # r) = Suc k" "1 \<le> k" "k \<le> length r" "in_range 0x80 0xFF c"
      "list_all (in_range 0x80 0xBF) (take k r)"
proof -
  have lead: "in_range 0x80 0xFF c"
    if "in_range 0xC2 0xDF c \<or> in_range 0xE0 0xEF c \<or> in_range 0xF0 0xF4 c"
    using that by (auto simp: in_range_def)
  have "rune_len (c # r) \<le> 1 \<or> (\<exists>k. rune_len (c # r) = Suc k \<and> 1 \<le> k \<and> k \<le> length r
      \<and> in_range 0x80 0xFF c \<and> list_all (in_range 0x80 0xBF) (take k r))"
    using lead by (auto simp: rune_len_def)
  then show ?thesis using that by blast
qed

lemma rune_bytes:
  assumes "u = take (rune_len (c # r)) (c # r)" "rune_len (c # r) \<noteq> 0"
  shows "(\<exists>c. u = [c]) \<or> 2 \<le> length u \<and> list_all (in_range 0x80 0xFF) u"
proof (cases rule: rune_len_cases [of c r])
  case 1
  with assms show ?thesis by (simp add: le_Suc_eq)
next
  case (2 k)
  then have "list_all (in_range 0x80 0xFF) (take k r)" by (auto simp: list_all_iff in_range_def)
  with 2 assms(1) show ?thesis by simp
qed

lemma runes_bytes: "Some u \<in> set (runes s) \<Longrightarrow> (\<exists>c. u = [c]) \<or> 2 \<le> length u \<and> list_all (in_range 0x80 0xFF) u"
proof (induction s rule: runes.induct)
  case (2 c s)
  then show ?case
    using rune_bytes [of u c s] by (auto simp: runes.simps(2) [of c s] Let_def split: if_splits)
qed (simp add: runes.simps)

lemma safe_rune:
  assumes "r \<in> set (runes s)" "c \<in> set (filename_rune letter r)"
  shows "safe_byte c"
proof (cases r)
  case (Some u)
  with assms(1) runes_bytes [of u s] have "(\<exists>c. u = [c]) \<or> 2 \<le> length u \<and> list_all (in_range 0x80 0xFF) u" by simp
  then show ?thesis
    using assms(2) Some
    by (auto simp: filename_rune_def letter_or_digit_def safe_byte_def list_all_iff split: if_splits list.splits)
qed (use assms in \<open>auto simp: filename_rune_def safe_byte_def\<close>)

lemma set_replace_all: "set (replace_all old new s) \<subseteq> set s \<union> set new"
proof (induction old new s rule: replace_all.induct)
  case (2 old new c s)
  have "set (drop (length old) (c # s)) \<subseteq> set (c # s)" by (rule set_drop_subset)
  with 2 show ?case by (auto simp: replace_all.simps)
qed simp

lemma squeeze_dots_safe: "list_all safe_byte s \<Longrightarrow> list_all safe_byte (squeeze_dots s) \<and> \<not> contains (squeeze_dots s) ''..''"
proof (induction s rule: squeeze_dots.induct)
  case (1 s)
  have "list_all safe_byte (replace_all ''..'' ''_'' s)"
    using 1(2) set_replace_all [of "''..''" "''_''" s] by (auto simp: list_all_iff safe_byte_def)
  with 1 show ?case by (subst (1 2) squeeze_dots.simps) auto
qed

text \<open>A base: a safe name without a dot at its ends.\<close>

definition safe_base :: "string \<Rightarrow> bool" where
  "safe_base s \<longleftrightarrow> safe_name s \<and> last s \<noteq> CHR ''.'' \<and> length s \<le> 120"

lemma contains_part: "contains (take n s) p \<Longrightarrow> contains s p" "contains t p \<Longrightarrow> contains (s @ t @ u) p"
proof -
  assume "contains (take n s) p"
  then obtain a b where "take n s = a @ p @ b" by (auto simp: contains_iff)
  then have "s = a @ p @ (b @ drop n s)" by (metis append.assoc append_take_drop_id)
  then show "contains s p" unfolding contains_iff by blast
next
  assume "contains t p"
  then obtain a b where "s @ t @ u = (s @ a) @ p @ (b @ u)" by (auto simp: contains_iff)
  then show "contains (s @ t @ u) p" unfolding contains_iff by blast
qed

lemma trim_set_part: "\<exists>a b. s = a @ trim_set cs s @ b"
proof -
  obtain b where "trim_left cs s = trim_set cs s @ b"
    using trim_right_prefix [of "trim_left cs s" cs] by (auto simp: trim_set_def)
  then have "s = takeWhile (\<lambda>c. c \<in> cs) s @ trim_set cs s @ b"
    by (metis takeWhile_dropWhile_id trim_left_def)
  then show ?thesis by blast
qed

lemma image_base: "safe_base ''image''"
  by code_simp

lemma trimmed_base:
  assumes "list_all safe_byte s" "\<not> contains s ''..''" "trim_set dot_space s \<noteq> []" "length (trim_set dot_space s) \<le> 120"
  shows "safe_base (trim_set dot_space s)"
proof -
  let ?t = "trim_set dot_space s"
  obtain a b where "s = a @ ?t @ b" using trim_set_part by blast
  then have "\<not> contains ?t ''..''" using assms(2) contains_part(2) by metis
  moreover have "list_all safe_byte ?t" using assms(1) set_trim_set by (auto simp: list_all_iff)
  ultimately show ?thesis
    using assms(3,4) hd_trim_set [of dot_space s] last_trim_set [of dot_space s]
    by (auto simp: safe_base_def safe_name_def)
qed

lemma cut_base:
  assumes "list_all safe_byte s" "\<not> contains s ''..''" "s \<noteq> []" "hd s \<notin> dot_space" "120 < length s"
  shows "safe_base (trim_right dot_space (take 120 s))"
proof -
  let ?u = "take 120 s" let ?t = "trim_right dot_space ?u"
  obtain b where u: "?u = ?t @ b" using trim_right_prefix by blast
  have "hd ?u = hd s" using assms(3) by (simp add: hd_take)
  then have "\<not> set ?u \<subseteq> dot_space" using assms(3-5) by (metis hd_in_set subsetD take_eq_Nil2 zero_neq_numeral)
  then have ne: "?t \<noteq> []" by (auto simp: trim_right_def dropWhile_eq_Nil_conv)
  have "\<not> contains ?t ''..''"
    using assms(2) contains_part(1) [of 120 s "''..''"] contains_part(2) [of ?t "''..''" "[]" b] u by auto
  moreover have "list_all safe_byte ?t"
    using assms(1) set_trim_right [of dot_space ?u] by (auto simp: list_all_iff dest: in_set_takeD)
  moreover have "hd ?t = hd s" using u ne \<open>hd ?u = hd s\<close> by (metis hd_append2)
  moreover have "length ?t \<le> 120" using arg_cong [OF u, of length] by simp
  ultimately show ?thesis
    using ne assms(4) last_trim_right [of dot_space ?u] by (auto simp: safe_base_def safe_name_def)
qed

lemma filename_base_safe: "safe_base (sanitizeBatchImageFilenameBase letter value)"
proof (cases "trim_space value = []")
  case False
  let ?o = "concat (map (filename_rune letter) (runes (trim_space value)))"
  let ?q = "squeeze_dots (trim_set dot_space ?o)" let ?t = "trim_set dot_space ?q"
  have "list_all safe_byte ?o" by (auto simp: list_all_iff intro: safe_rune)
  then have "list_all safe_byte (trim_set dot_space ?o)"
    using set_trim_set [of dot_space ?o] by (auto simp: list_all_iff)
  then have q: "list_all safe_byte ?q" "\<not> contains ?q ''..''" using squeeze_dots_safe by auto
  show ?thesis
  proof (cases "?t = [] \<or> length ?t \<le> 120")
    case True
    then show ?thesis
      using False image_base trimmed_base [OF q] by (auto simp: sanitizeBatchImageFilenameBase_def Let_def)
  next
    case long: False
    obtain a b where "?q = a @ ?t @ b" using trim_set_part by blast
    then have "\<not> contains ?t ''..''" using q(2) contains_part(2) by metis
    moreover have "list_all safe_byte ?t" using q(1) set_trim_set [of dot_space ?q] by (auto simp: list_all_iff)
    ultimately have cut: "safe_base (trim_right dot_space (take 120 ?t))"
      using long hd_trim_set [of dot_space ?q] by (intro cut_base) auto
    then have "trim_right dot_space (take 120 ?t) \<noteq> []" by (auto simp: safe_base_def safe_name_def)
    then show ?thesis using False long cut by (auto simp: sanitizeBatchImageFilenameBase_def Let_def)
  qed
qed (use image_base in \<open>simp add: sanitizeBatchImageFilenameBase_def\<close>)

lemma no_dots_append:
  "a \<noteq> [] \<Longrightarrow> last a \<noteq> CHR ''.'' \<Longrightarrow> \<not> contains a ''..'' \<Longrightarrow> \<not> contains b ''..'' \<Longrightarrow> \<not> contains (a @ b) ''..''"
proof (induction a)
  case (Cons c a)
  then show ?case by (cases a) (auto simp: starts_with_def split: if_splits)
qed simp

lemma dotless: "CHR ''.'' \<notin> set s \<Longrightarrow> \<not> contains (CHR ''.'' # s) ''..''"
  by (auto simp: contains_iff Cons_eq_append_conv)

lemma extension_safe:
  "list_all safe_byte (sanitizeBatchImageFilenameExtension letter e) \<and> CHR ''.'' \<notin> set (sanitizeBatchImageFilenameExtension letter e)
    \<and> length (sanitizeBatchImageFilenameExtension letter e) \<le> 12"
proof -
  let ?keep = "\<lambda>r. case r of None \<Rightarrow> [] | Some u \<Rightarrow> if letter_or_digit letter u then u else []"
  have keep: "safe_byte c \<and> c \<noteq> CHR ''.''" if "r \<in> set (runes s)" "c \<in> set (?keep r)" for r s c
  proof -
    from that(2) obtain u where u: "r = Some u" "letter_or_digit letter u" "c \<in> set u"
      by (cases r) (auto split: if_splits)
    with that(1) runes_bytes [of u s] have "(\<exists>c. u = [c]) \<or> 2 \<le> length u \<and> list_all (in_range 0x80 0xFF) u" by simp
    then show ?thesis
    proof
      assume "\<exists>c. u = [c]"
      with u show ?thesis by (auto simp: letter_or_digit_def safe_byte_def ascii_alnum_def in_range_def)
    next
      assume "2 \<le> length u \<and> list_all (in_range 0x80 0xFF) u"
      with u(3) show ?thesis by (auto simp: safe_byte_def list_all_iff in_range_def)
    qed
  qed
  have "list_all safe_byte (extension_runes letter s) \<and> CHR ''.'' \<notin> set (extension_runes letter s)" for s
    using keep by (auto simp: extension_runes_def list_all_iff)
  then show ?thesis
    unfolding sanitizeBatchImageFilenameExtension_def Let_def
    by (auto simp: list_all_iff dest: in_set_takeD)
qed

lemma download_names_safe:
  "safe_name (BatchImageSafeDownloadFilename letter i e)" "length (BatchImageSafeDownloadFilename letter i e) \<le> 133"
proof -
  let ?b = "sanitizeBatchImageFilenameBase letter i" let ?x = "sanitizeBatchImageFilenameExtension letter e"
  define x where "x = (if ?x = [] then ''bin'' else ?x)"
  have x: "list_all safe_byte x" "CHR ''.'' \<notin> set x" "length x \<le> 12"
    using extension_safe [of letter e] by (auto simp: x_def safe_byte_def ascii_alnum_def in_range_def)
  have b: "?b \<noteq> []" "hd ?b \<noteq> CHR ''.''" "last ?b \<noteq> CHR ''.''" "list_all safe_byte ?b" "length ?b \<le> 120"
      "\<not> contains ?b ''..''"
    using filename_base_safe [of letter i] by (auto simp: safe_base_def safe_name_def)
  have "\<not> contains (?b @ CHR ''.'' # x) ''..''" using b x by (intro no_dots_append dotless) auto
  with b x show "safe_name (BatchImageSafeDownloadFilename letter i e)" "length (BatchImageSafeDownloadFilename letter i e) \<le> 133"
    by (simp_all add: BatchImageSafeDownloadFilename_def safe_name_def Let_def safe_byte_def flip: x_def)
qed

text \<open>
  C30: A download is always served under a harmless name: a file name is not empty, does not start with a dot, holds
  no two dots in a row and nothing but letters, digits, \<open>_ - .\<close> and runes outside ASCII (so no path separator, quote or
  control character), and is at most 133 bytes long; a name in the ZIP archive is such a name in the directory
  \<open>images\<close>.
\<close>
theorem download_names_are_safe:
  "safe_name (BatchImageSafeDownloadFilename letter customID extension)
   \<and> length (BatchImageSafeDownloadFilename letter customID extension) \<le> 133
   \<and> (\<exists>name. batchImageZipImageFilename letter customID n extension = ''images/'' @ name \<and> safe_name name
        \<and> length name \<le> 133)"
  by (simp add: download_names_safe batchImageZipImageFilename_def Let_def)

subsection \<open>Names are not distinct\<close>

text \<open>Sanitising merges ids, and it cuts the number of an image off a long id.\<close>

lemma different_ids_same_name:
  "batchImageZipImageFilename (\<lambda>_. False) ''a/b'' 0 ''png'' = batchImageZipImageFilename (\<lambda>_. False) ''a:b'' 0 ''png''"
  by code_simp

definition plain :: "char \<Rightarrow> bool" where
  "plain c \<longleftrightarrow> ascii_alnum c \<or> c = CHR ''_'' \<or> c = CHR ''-''"

lemma spaces_not_plain: "list_all (\<lambda>w. w \<noteq> [] \<and> \<not> plain (hd w) \<and> \<not> plain (last w)) go_spaces"
  by code_simp

lemma plain_kept: "list_all (\<lambda>w. w \<noteq> [] \<and> \<not> plain (hd w)) ws \<Longrightarrow> list_all plain s \<Longrightarrow> strip_any ws s = s"
proof (cases s)
  case (Cons c t)
  assume "list_all (\<lambda>w. w \<noteq> [] \<and> \<not> plain (hd w)) ws" "list_all plain s"
  then have "find (\<lambda>w. starts_with w (c # t)) ws = None"
    using Cons by (fastforce simp: find_None_iff list_all_iff starts_with_def neq_Nil_conv)
  then show ?thesis using Cons by simp
qed simp

lemma trim_space_plain: "list_all plain s \<Longrightarrow> trim_space s = s"
proof -
  assume s: "list_all plain s"
  have "strip_any go_spaces s = s"
    using s spaces_not_plain by (intro plain_kept) (auto simp: list_all_iff)
  moreover have "strip_any (map rev go_spaces) (rev s) = rev s"
    using s spaces_not_plain by (intro plain_kept) (auto simp: list_all_iff hd_rev)
  ultimately show ?thesis by (simp add: trim_space_def)
qed

lemma runes_plain: "list_all plain s \<Longrightarrow> concat (map (filename_rune letter) (runes s)) = s"
proof (induction s)
  case (Cons c s)
  then have "in_range 0 0x7F c" "filename_rune letter (Some [c]) = [c]"
    by (auto simp: plain_def filename_rune_def letter_or_digit_def control_rune_def ascii_alnum_def in_range_def)
  with Cons show ?case by (simp add: runes.simps rune_len_def)
qed (simp add: runes.simps)

lemma plain_not_dot_space: "plain c \<Longrightarrow> c \<notin> dot_space"
  by (auto simp: plain_def ascii_alnum_def in_range_def)

lemma trim_right_plain: "list_all plain s \<Longrightarrow> trim_right dot_space s = s"
  using plain_not_dot_space by (cases s rule: rev_cases) (auto simp: trim_right_def)

lemma trim_set_plain: "list_all plain s \<Longrightarrow> trim_set dot_space s = s"
  using plain_not_dot_space trim_right_plain [of s] by (cases s) (auto simp: trim_set_def trim_left_def)

lemma squeeze_dots_plain: "list_all plain s \<Longrightarrow> squeeze_dots s = s"
proof -
  assume "list_all plain s"
  then have "\<not> contains s ''..''" using plain_not_dot_space [of "CHR ''.''"] by (auto simp: contains_iff)
  then show ?thesis by (subst squeeze_dots.simps) simp
qed

lemma plain_base: "list_all plain s \<Longrightarrow> s \<noteq> [] \<Longrightarrow> sanitizeBatchImageFilenameBase letter s = take 120 s"
proof -
  assume s: "list_all plain s" "s \<noteq> []"
  then have "list_all plain (take 120 s)" by (auto simp: list_all_iff dest: in_set_takeD)
  with s show ?thesis
    by (simp add: sanitizeBatchImageFilenameBase_def trim_space_plain runes_plain trim_set_plain squeeze_dots_plain
        trim_right_plain)
qed

lemma digit_plain: "k < 10 \<Longrightarrow> plain (char_of (48 + k :: nat))"
  by (simp add: plain_def ascii_alnum_def in_range_def)

lemma idigits_plain: "0 \<le> i \<Longrightarrow> list_all plain (idigits i)"
proof (induction i rule: idigits.induct)
  case (1 i)
  then show ?case using digit_plain [of "nat (i mod 10)"] digit_plain [of "nat i"] by (subst idigits.simps) auto
qed

lemma long_id_images_same_name:
  assumes "list_all plain s" "120 \<le> length s"
  shows "batchImageZipImageFilename letter s n e = batchImageZipImageFilename letter s 0 e"
proof -
  have base: "sanitizeBatchImageFilenameBase letter s = take 120 s" using assms by (intro plain_base) auto
  have plain: "list_all plain (take 120 s)" using assms(1) by (auto simp: list_all_iff dest: in_set_takeD)
  then have "list_all plain (take 120 s @ CHR ''_'' # itoa (int n + 1))"
    using idigits_plain by (simp add: itoa_code) (simp add: plain_def)
  then have "sanitizeBatchImageFilenameBase letter (take 120 s @ CHR ''_'' # itoa (int n + 1)) = take 120 s"
    using assms(2) by (simp add: plain_base)
  moreover have "sanitizeBatchImageFilenameBase letter (take 120 s) = take 120 s"
    using plain assms(2) by (subst plain_base) auto
  ultimately show ?thesis
    by (simp add: batchImageZipImageFilename_def BatchImageSafeDownloadFilename_def base Let_def)
qed

end
