(* ===== verification/BatchImagePublic.thy ===== *)
theory BatchImagePublic
  imports BatchImageRequest
begin

section \<open>The public batch image service\<close>

text \<open>
  \<^verbatim>\<open>BatchImagePublicService\<close> of \<^verbatim>\<open>service/batch_image_public.go\<close>: submission, cancellation, listing and
  deletion of batch image jobs by their owner.  The state is that of the batch image tables, the
  billing tables and the Redis queue.  Log lines are left out.  A submission runs for as long as the provider
  takes; what other processes do in that time is the argument \<open>meanwhile\<close> of \<open>Submit\<close>, a program on
  the same state, and \<open>beats\<close> is the number of heartbeats.
\<close>

definition ErrBatchImageProviderSubmitFailed :: goerr where
  "ErrBatchImageProviderSubmitFailed = New 502 ''BATCH_IMAGE_PROVIDER_SUBMIT_FAILED''
     ''batch image provider submit failed''"
definition ErrBatchImageQueueFailed :: goerr where
  "ErrBatchImageQueueFailed = New 502 ''BATCH_IMAGE_QUEUE_FAILED'' ''batch image queue failed''"
definition ErrBatchImageIdempotencyConflict :: goerr where
  "ErrBatchImageIdempotencyConflict = New 409 ''BATCH_IMAGE_IDEMPOTENCY_CONFLICT''
     ''idempotency key reused with different batch image request''"
definition ErrBatchImageCancelFailed :: goerr where
  "ErrBatchImageCancelFailed = New 502 ''BATCH_IMAGE_CANCEL_FAILED'' ''batch image cancel failed''"
definition ErrBatchImageVertexGCSBucketMissing :: goerr where
  "ErrBatchImageVertexGCSBucketMissing = New 502 ''BATCH_IMAGE_VERTEX_GCS_BUCKET_MISSING''
     ''Vertex managed GCS bucket is not configured''"
definition ErrBatchImageProviderMissingAPIKey :: goerr where
  "ErrBatchImageProviderMissingAPIKey = New 400 ''BATCH_IMAGE_PROVIDER_MISSING_API_KEY''
     ''batch image provider account is missing api key''"
definition ErrBatchImageProviderMissingServiceAccount :: goerr where
  "ErrBatchImageProviderMissingServiceAccount = New 400 ''BATCH_IMAGE_PROVIDER_MISSING_SERVICE_ACCOUNT''
     ''batch image provider account is missing service account credentials''"

subsection \<open>What the owner sees\<close>

record BatchImagePublicBatch =
  pu_ID :: string
  pu_Object :: string
  pu_TaskName :: string
  pu_ParentBatchID :: "string option"
  pu_Status :: string
  pu_Model :: string
  pu_Provider :: string
  pu_ItemCount :: int
  pu_SuccessCount :: int
  pu_FailCount :: int
  pu_EstimatedCost :: f64
  pu_HoldAmount :: f64
  pu_ActualCost :: "f64 option"
  pu_CreatedAt :: int
  pu_SubmittedAt :: "int option"
  pu_SettledAt :: "int option"
  pu_DownloadedAt :: "int option"
  pu_OutputDeletedAt :: "int option"

record BatchImagePublicError =
  pe_Code :: string
  pe_Message :: string
  pe_Source :: string

record BatchImagePublicItem =
  pi_CustomID :: string
  pi_Status :: string
  pi_PromptPreview :: "string option"
  pi_MimeType :: "string option"
  pi_FileExtension :: "string option"
  pi_ImageCount :: int
  pi_Error :: "BatchImagePublicError option"

definition PublicBatchImageStatus :: "string \<Rightarrow> string" where
  "PublicBatchImageStatus status =
     (if status \<in> {BatchImageJobStatusCreated, BatchImageJobStatusUploading, BatchImageJobStatusSubmitted} then ''queued''
      else if status = BatchImageJobStatusRunning then ''running''
      else if status = BatchImageJobStatusIndexing then ''processing_results''
      else if status = BatchImageJobStatusSettling then ''settling''
      else if status = BatchImageJobStatusCompleted then ''completed''
      else if status = BatchImageJobStatusFailed then ''failed''
      else if status = BatchImageJobStatusCancelled then ''cancelled''
      else if status = BatchImageJobStatusOutputDeleted then ''output_deleted''
      else status)"

definition sanitizeBatchImagePublicMessage :: "string \<Rightarrow> string" where
  "sanitizeBatchImagePublicMessage message0 = (let message = trim_space message0;
     message = (if list_ex (contains message) [''gs://'', ''files/'', ''projects/'']
                then ''upstream provider operation failed'' else message)
     in if 500 < length message then take 500 message else message)"

text \<open>\<^verbatim>\<open>t.Unix()\<close> on nanoseconds.\<close>

definition unix :: "int \<Rightarrow> int" where
  "unix t = t div second"

definition batchImageUnixPtr :: "int option \<Rightarrow> int option" where
  "batchImageUnixPtr t = map_option unix t"

definition batchImagePublicTaskName :: "go_zone \<Rightarrow> f64 BatchImageJob \<Rightarrow> ('z world_scheme, string) state" where
  "batchImagePublicTaskName z job =
     (if trim_space (jb_TaskName job) \<noteq> [] then ret (trim_space (jb_TaskName job))
      else defaultBatchImageTaskName z (jb_CreatedAt job))"

definition BatchImageJobToPublic :: "go_zone \<Rightarrow> f64 BatchImageJob \<Rightarrow> ('z world_scheme, BatchImagePublicBatch) state" where
  "BatchImageJobToPublic z job = do {
     name \<leftarrow> batchImagePublicTaskName z job;
     ret \<lparr>pu_ID = jb_BatchID job, pu_Object = ''image.batch'', pu_TaskName = name, pu_ParentBatchID = jb_ParentBatchID job,
        pu_Status = PublicBatchImageStatus (jb_Status job), pu_Model = jb_Model job,
        pu_Provider = jb_Provider job, pu_ItemCount = jb_ItemCount job,
        pu_SuccessCount = jb_SuccessCount job, pu_FailCount = jb_FailCount job,
        pu_EstimatedCost = jb_EstimatedCost job,
        pu_HoldAmount = deref_or (jb_EstimatedCost job) (jb_HoldAmount job),
        pu_ActualCost = jb_ActualCost job, pu_CreatedAt = unix (jb_CreatedAt job),
        pu_SubmittedAt = batchImageUnixPtr (jb_SubmittedAt job),
        pu_SettledAt = batchImageUnixPtr (jb_SettledAt job),
        pu_DownloadedAt = batchImageUnixPtr (jb_DownloadedAt job),
        pu_OutputDeletedAt = batchImageUnixPtr (jb_OutputDeletedAt job)\<rparr> }"

definition batchImageItemErrorSource :: "f64 BatchImageItem \<Rightarrow> string" where
  "batchImageItemErrorSource item = (case it_ErrorCode item of
      None \<Rightarrow> []
    | Some c \<Rightarrow> let code = trim_space c in
        if batchImageDerefString (it_ProviderSourceObject item) \<noteq> [] then ''provider''
        else if code \<in> {''EMPTY_IMAGE_OUTPUT'', ''PROVIDER_ITEM_FAILED''} then ''provider''
        else if code \<in> {''INDEX_OUTPUT_MISSING'', ''INDEX_PARSE_FAILED'', ''DUPLICATE_CUSTOM_ID_IN_OUTPUT''}
        then ''system'' else [])"

definition BatchImageItemToPublic :: "f64 BatchImageItem \<Rightarrow> BatchImagePublicItem" where
  "BatchImageItemToPublic item = (let out = \<lparr>pi_CustomID = it_CustomID item, pi_Status = ''failed'',
       pi_PromptPreview = it_PromptPreview item, pi_MimeType = it_MimeType item,
       pi_FileExtension = it_FileExtension item, pi_ImageCount = it_ImageCount item, pi_Error = None\<rparr>
     in if it_Status item = BatchImageItemStatusPending then out\<lparr>pi_Status := ''pending''\<rparr>
        else if it_Status item = BatchImageItemStatusSuccess then out\<lparr>pi_Status := ''succeeded''\<rparr>
        else out\<lparr>pi_Error := Some \<lparr>
          pe_Code = batchImageDerefString (it_ErrorCode item),
          pe_Message = sanitizeBatchImagePublicMessage (batchImageDerefString (it_ErrorMessage item)),
          pe_Source = batchImageItemErrorSource item\<rparr>\<rparr>)"

text \<open>The answer to a job that was read or an error.\<close>

definition public_answer :: "BatchImagePublicService \<Rightarrow> goerr + f64 BatchImageJob \<Rightarrow>
    ('z world_scheme, goerr + BatchImagePublicBatch) state" where
  "public_answer s r = chain r (\<lambda>job. do {
     p \<leftarrow> BatchImageJobToPublic (pb_Zone s) job;
     ret (Inr p) })"

subsection \<open>Steps of a submission\<close>

definition batchImageGCSRef :: "string \<Rightarrow> string \<Rightarrow> string" where
  "batchImageGCSRef provider ref =
     (if provider = BatchImageProviderVertex \<and> has_prefix (trim_space ref) ''gs://'' then trim_space ref else [])"

definition batchImageProviderSubmitPublicError :: "goerr \<Rightarrow> goerr" where
  "batchImageProviderSubmitPublicError err = (let reason = trim_space (Reason (Some err)) in
     if reason = ''VERTEX_MANAGED_GCS_BUCKET_MISSING'' then ErrBatchImageVertexGCSBucketMissing
     else if reason = ''BATCH_IMAGE_PROVIDER_MISSING_API_KEY'' then ErrBatchImageProviderMissingAPIKey
     else if reason = ''BATCH_IMAGE_PROVIDER_MISSING_SERVICE_ACCOUNT'' then ErrBatchImageProviderMissingServiceAccount
     else if reason = ''BATCH_IMAGE_PROVIDER_UNSUPPORTED_ACCOUNT'' then ErrBatchImageProviderUnsupportedAccount
     else ErrBatchImageProviderSubmitFailed)"

definition batchImageProviderSubmitRecordCode :: "goerr \<Rightarrow> string" where
  "batchImageProviderSubmitRecordCode err = (let reason = trim_space (Reason (Some err)) in
     if reason = [] \<or> reason = ''BATCH_IMAGE_PROVIDER_SUBMIT_FAILED'' then ''PROVIDER_SUBMIT_FAILED'' else reason)"

text \<open>Put a job on the queue, if there is one; a job that is queued already is fine.\<close>

definition enqueue_job :: "BatchImagePublicService \<Rightarrow> string \<Rightarrow> ('z batch_sys_scheme, goerr + unit) state" where
  "enqueue_job s batchID = (case pb_Queue s of
      None \<Rightarrow> ret (Inr ())
    | Some opts \<Rightarrow> do {
        r \<leftarrow> Enqueue opts batchID;
        ret (case r of
            Inl e \<Rightarrow> if err_is e ErrBatchImageAlreadyQueued then Inr () else Inl e
          | Inr _ \<Rightarrow> Inr ()) })"

definition enqueueBillingRetry :: "BatchImagePublicService \<Rightarrow> string \<Rightarrow> ('z batch_sys_scheme, unit) state" where
  "enqueueBillingRetry s batchID = do {
     r \<leftarrow> enqueue_job s batchID;
     case r of
       Inr _ \<Rightarrow> ret ()
     | Inl err \<Rightarrow> do {
         e \<leftarrow> AppendBatchImageEvent batchID ''billing_retry_enqueue_failed''
               (Some [(''batch_id'', JStr batchID), (''error'', JStr (sanitizeBatchImagePublicMessage (error_text err)))]);
         ret () } }"

definition record_failure :: "string \<Rightarrow> string \<Rightarrow> goerr \<Rightarrow> bool \<Rightarrow> ('z batch_db_scheme, unit) state" where
  "record_failure batchID code err final = do {
     r \<leftarrow> RecordBatchImageJobSubmitFailure batchID code (sanitizeBatchImagePublicMessage (error_text err)) final;
     ret () }"

definition releaseFailedSubmitHold :: "'e driver_scheme \<Rightarrow> BatchImagePublicService \<Rightarrow> f64 BatchImageJob \<Rightarrow> string \<Rightarrow>
    ('z batch_sys_scheme, goerr + unit) state" where
  "releaseFailedSubmitHold env s job requestHash = do {
     r \<leftarrow> releaseBatchImageBalanceHold env job requestHash;
     case r of
       Inl err \<Rightarrow> do {
         f \<leftarrow> record_failure (jb_BatchID job) ''BILLING_RELEASE_FAILED'' err True;
         q \<leftarrow> enqueueBillingRetry s (jb_BatchID job);
         ret (Inl ErrBatchImageBillingHoldFailed) }
     | Inr _ \<Rightarrow> do {
         i \<leftarrow> invalidateAuthCache (pb_AuthCache s) (jb_UserID job);
         ret (Inr ()) } }"

definition hidePreUpstreamSubmitFailure :: "BatchImageOwner \<Rightarrow> f64 BatchImageJob \<Rightarrow> ('z batch_db_scheme, unit) state" where
  "hidePreUpstreamSubmitFailure owner job =
     (if jb_ProviderJobName job \<noteq> None then ret ()
      else do {
        now \<leftarrow> time_now;
        r \<leftarrow> MarkBatchImageJobUserDeleted (ow_UserID owner) (ow_APIKeyID owner) (jb_BatchID job) now;
        ret () })"

text \<open>
  A submission that fails before the provider took it: give the hold back, record the failure, and hide
  the job from its owner; the answer is \<open>err\<close> unless the hold cannot be given back.
\<close>

definition fail_submission :: "'e driver_scheme \<Rightarrow> BatchImagePublicService \<Rightarrow> BatchImageOwner \<Rightarrow> f64 BatchImageJob \<Rightarrow>
    string \<Rightarrow> string \<Rightarrow> goerr \<Rightarrow> goerr \<Rightarrow> ('z batch_sys_scheme, goerr + 'b) state" where
  "fail_submission env s owner job requestHash code cause err = do {
     r \<leftarrow> releaseFailedSubmitHold env s job requestHash;
     chain r (\<lambda>_. do {
       f \<leftarrow> record_failure (jb_BatchID job) code cause True;
       h \<leftarrow> hidePreUpstreamSubmitFailure owner job;
       ret (Inl err) }) }"

definition pending_item :: "BatchImagePublicService \<Rightarrow> string \<Rightarrow> string \<Rightarrow> BatchImageSubmitItem \<Rightarrow> CreateBatchImageItemParams" where
  "pending_item s batchID requestHash item = \<lparr>
     ci_JobID = batchID, ci_CustomID = sm_CustomID item, ci_Status = BatchImageItemStatusPending,
     ci_RequestHash = Some requestHash,
     ci_PromptPreview = Some (truncateBatchImageMessage (sm_Prompt item) (maxPromptChars s)),
     ci_ProviderSourceObject = None, ci_SourceLineNumber = None, ci_SourceByteOffset = None,
     ci_SourceByteLength = None, ci_MimeType = None, ci_FileExtension = None, ci_ImageCount = 0,
     ci_ErrorCode = None, ci_ErrorMessage = None, ci_BilledAmount = None, ci_IndexedAt = None\<rparr>"

definition createPendingItems :: "'e driver_scheme \<Rightarrow> BatchImagePublicService \<Rightarrow> string \<Rightarrow> string \<Rightarrow>
    BatchImageSubmitItem list \<Rightarrow> ('z batch_db_scheme, goerr + unit) state" where
  "createPendingItems env s batchID requestHash its =
     (if its = [] then ret (Inr ())
      else BulkCreateBatchImageItems env (map (pending_item s batchID requestHash) its))"

fun heartbeats :: "string \<Rightarrow> nat \<Rightarrow> ('z batch_db_scheme, unit) state" where
  "heartbeats batchID 0 = ret ()"
| "heartbeats batchID (Suc n) = do {
     r \<leftarrow> TouchBatchImageJobSubmitting batchID;
     heartbeats batchID n }"

subsection \<open>Submission\<close>

text \<open>
  A request whose idempotency key was used before: \<open>Some\<close> answer ends the submission.
\<close>

definition existing_submission :: "'e driver_scheme \<Rightarrow> BatchImagePublicService \<Rightarrow> BatchImageOwner \<Rightarrow> string \<Rightarrow> string \<Rightarrow>
    ('z batch_sys_scheme, (goerr + BatchImagePublicBatch) option) state" where
  "existing_submission env s owner idempotencyKey requestHash =
     (if idempotencyKey = [] then ret None
      else do {
        r \<leftarrow> GetBatchImageJobByIdempotencyKey env (ow_UserID owner) (ow_APIKeyID owner) idempotencyKey;
        case r of
          Inl err \<Rightarrow> ret (if err_is err ErrBatchImageJobNotFound then None else Some (Inl err))
        | Inr existing \<Rightarrow>
            if batchImageDerefString (jb_RequestHash existing) \<noteq> requestHash then
              ret (Some (Inl ErrBatchImageIdempotencyConflict))
            else do {
              q \<leftarrow> (if jb_Status existing = BatchImageJobStatusSubmitted then enqueue_job s (jb_BatchID existing)
                    else ret (Inr ()));
              case q of
                Inl enqueueErr \<Rightarrow> do {
                  f \<leftarrow> record_failure (jb_BatchID existing) ''QUEUE_FAILED'' enqueueErr False;
                  ret (Some (Inl ErrBatchImageQueueFailed)) }
              | Inr _ \<Rightarrow> do {
                  a \<leftarrow> public_answer s (Inr existing);
                  ret (Some a) } } })"

definition resolve_parent :: "'e driver_scheme \<Rightarrow> BatchImageOwner \<Rightarrow> string \<Rightarrow>
    ('z batch_db_scheme, goerr + string option) state" where
  "resolve_parent env owner parentID = (case batchImageOptionalStringPtr parentID of
      None \<Rightarrow> ret (Inr None)
    | Some p \<Rightarrow> do {
        r \<leftarrow> GetBatchImageJobByBatchIDForOwner env (ow_UserID owner) (ow_APIKeyID owner) p;
        chain r (\<lambda>parent. ret (Inr (case jb_ParentBatchID parent of
            Some g \<Rightarrow> if trim_space g \<noteq> [] then batchImageOptionalStringPtr g else Some p
          | None \<Rightarrow> Some p))) })"

definition create_params :: "BatchImageOwner \<Rightarrow> BatchImageSubmitRequest \<Rightarrow> string \<Rightarrow> string \<Rightarrow> Account \<Rightarrow>
    BatchImagePricingSnapshot \<Rightarrow> string option \<Rightarrow> string \<Rightarrow> string \<Rightarrow> CreateBatchImageJobParams" where
  "create_params owner normalized batchID provider account snap parent idempotencyKey requestHash = \<lparr>
     cj_BatchID = batchID, cj_UserID = ow_UserID owner, cj_APIKeyID = Some (ow_APIKeyID owner),
     cj_AccountID = Some (ac_ID account), cj_Provider = provider, cj_Model = rq_Model normalized,
     cj_TaskName = rq_TaskName normalized, cj_ParentBatchID = parent, cj_Status = BatchImageJobStatusCreated,
     cj_ProviderJobName = None, cj_ProviderInputRef = None, cj_ProviderOutputRef = None,
     cj_GCSInputURI = None, cj_GCSOutputURI = None, cj_ItemCount = int (length (rq_Items normalized)),
     cj_SuccessCount = 0, cj_FailCount = 0, cj_CancelledCount = 0,
     cj_EstimatedCost = sn_EstimatedCost snap, cj_HoldAmount = Some (sn_HoldAmount snap), cj_ActualCost = None,
     cj_BaseUnitPrice = sn_BaseUnitPrice snap, cj_GroupRateMultiplier = sn_GroupRateMultiplier snap,
     cj_AccountRateMultiplier = sn_AccountRateMultiplier snap,
     cj_BatchDiscountMultiplier = sn_BatchDiscountMultiplier snap, cj_HoldMultiplier = sn_HoldMultiplier snap,
     cj_BillableUnitPrice = sn_BillableUnitPrice snap, cj_HoldUnitPrice = sn_HoldUnitPrice snap,
     cj_PricingSnapshotVersion = 1, cj_Currency = ''USD'', cj_HoldID = Some (BatchImageHoldRequestID batchID),
     cj_IdempotencyKey = batchImageOptionalStringPtr idempotencyKey, cj_RequestHash = Some requestHash,
     cj_ManifestHash = None, cj_RetryCount = 0, cj_OutputExpiresAt = None\<rparr>"

definition submit_input :: "f64 BatchImageJob \<Rightarrow> BatchImageSubmitRequest \<Rightarrow> BatchImageInput" where
  "submit_input job normalized = \<lparr>
     bn_BatchID = jb_BatchID job, bn_Model = rq_Model normalized, bn_DisplayName = jb_BatchID job,
     bn_Items = map (\<lambda>it. \<lparr>bi_CustomID = sm_CustomID it, bi_Prompt = sm_Prompt it,
                          bi_ReferenceImages = sm_ReferenceImages it\<rparr>) (rq_Items normalized),
     bn_ResponseMimeType = rq_ResponseMimeType normalized, bn_AspectRatio = rq_AspectRatio normalized,
     bn_ImageSize = rq_ImageSize normalized, bn_Metadata = deref_or [] (rq_Metadata normalized)\<rparr>"

text \<open>From the row of the job to its state \<^verbatim>\<open>uploading\<close>: the money, the items, the transition.\<close>

definition submit_hold :: "'e driver_scheme \<Rightarrow> BatchImagePublicService \<Rightarrow> BatchImageOwner \<Rightarrow> BatchImageSubmitRequest \<Rightarrow>
    string \<Rightarrow> f64 BatchImageJob \<Rightarrow> ('z batch_sys_scheme, goerr + unit) state" where
  "submit_hold env s owner normalized requestHash job = do {
     h \<leftarrow> reserveBatchImageBalanceHold env job requestHash;
     case h of
       Inl err \<Rightarrow> do {
         f \<leftarrow> record_failure (jb_BatchID job) (if err_is err ErrBatchImageInsufficientBalance
                then ''INSUFFICIENT_BALANCE'' else ''BILLING_HOLD_FAILED'') err True;
         d \<leftarrow> hidePreUpstreamSubmitFailure owner job;
         ret (Inl err) }
     | Inr _ \<Rightarrow> do {
         i \<leftarrow> invalidateAuthCache (pb_AuthCache s) (ow_UserID owner);
         c \<leftarrow> createPendingItems env s (jb_BatchID job) requestHash (rq_Items normalized);
         case c of
           Inl err \<Rightarrow> fail_submission env s owner job requestHash ''ITEM_CREATE_FAILED'' err ErrBatchImageQueueFailed
         | Inr _ \<Rightarrow> do {
             t \<leftarrow> TransitionBatchImageJobStatus (jb_BatchID job) BatchImageJobStatusUploading
                   (no_options ''upload_started'' [(''batch_id'', JStr (jb_BatchID job))]);
             case t of
               Inl err \<Rightarrow>
                 if err_is err ErrBatchImageInvalidTransition then do {
                   r \<leftarrow> releaseFailedSubmitHold env s job requestHash;
                   chain r (\<lambda>_. ret (Inl err)) }
                 else fail_submission env s owner job requestHash ''UPLOAD_TRANSITION_FAILED'' err err
             | Inr _ \<Rightarrow> ret (Inr ()) } } }"

text \<open>Everything before the provider is called.\<close>

definition submit_prepare :: "'e driver_scheme \<Rightarrow> BatchImagePublicService \<Rightarrow> BatchImageOwner \<Rightarrow> BatchImageSubmitRequest \<Rightarrow>
    string \<Rightarrow> string \<Rightarrow> ('z batch_sys_scheme, goerr + Account BatchImageProvider \<times> Account \<times> f64 BatchImageJob) state" where
  "submit_prepare env s owner normalized idempotencyKey requestHash = do {
     sel \<leftarrow> selectProviderAndAccount s owner (rq_Provider normalized) (rq_Model normalized);
     chain sel (\<lambda>(provider, account).
       chain (resolvePricingSnapshot s owner normalized (pv_Name provider) (Some account)) (\<lambda>snap. do {
         par \<leftarrow> resolve_parent env owner (rq_ParentBatchID normalized);
         chain par (\<lambda>parent. do {
           idr \<leftarrow> NewBatchImageID;
           chain idr (\<lambda>batchID. do {
             cr \<leftarrow> CreateBatchImageJob env (create_params owner normalized batchID (pv_Name provider) account snap
                    parent idempotencyKey requestHash);
             chain cr (\<lambda>job. do {
               h \<leftarrow> submit_hold env s owner normalized requestHash job;
               chain h (\<lambda>_. ret (Inr (provider, account, job\<lparr>jb_Status := BatchImageJobStatusUploading\<rparr>))) }) }) }) })) }"

definition abortOrphanProviderJob :: "Account BatchImageProvider \<Rightarrow> f64 BatchImageJob \<Rightarrow> Account \<Rightarrow> BatchProviderJob \<Rightarrow>
    ('z batch_db_scheme, (goerr + unit) \<times> (goerr + unit)) state" where
  "abortOrphanProviderJob provider job account providerJob = (let orphan = job\<lparr>
       jb_ProviderJobName := batchImageOptionalStringPtr (pj_ProviderJobName providerJob),
       jb_ProviderInputRef := batchImageOptionalStringPtr (pj_ProviderInputRef providerJob),
       jb_GCSInputURI := batchImageOptionalStringPtr (batchImageGCSRef (pv_Name provider) (pj_ProviderInputRef providerJob))\<rparr>;
       cancelled = pv_Cancel provider orphan account;
       cleaned = pv_Cleanup provider orphan account CleanupTargetInput
     in do {
       e \<leftarrow> AppendBatchImageEvent (jb_BatchID job) ''provider_job_aborted_after_submit''
             (Some [(''batch_id'', JStr (jb_BatchID job)), (''provider'', JStr (pv_Name provider))]);
       ret (cancelled, cleaned) })"

text \<open>Everything after the provider answered.\<close>

definition submit_finish :: "'e driver_scheme \<Rightarrow> BatchImagePublicService \<Rightarrow> BatchImageOwner \<Rightarrow> Account BatchImageProvider \<Rightarrow>
    Account \<Rightarrow> f64 BatchImageJob \<Rightarrow> string \<Rightarrow> goerr + BatchProviderJob option \<Rightarrow>
    ('z batch_sys_scheme, goerr + BatchImagePublicBatch) state" where
  "submit_finish env s owner provider account job requestHash answer = (case answer of
      Inl err \<Rightarrow> (let publicErr = batchImageProviderSubmitPublicError err in
        fail_submission env s owner job requestHash (batchImageProviderSubmitRecordCode publicErr) err publicErr)
    | Inr None \<Rightarrow> fail_submission env s owner job requestHash ''PROVIDER_SUBMIT_FAILED''
        (PlainErr ''provider job name missing'') ErrBatchImageProviderSubmitFailed
    | Inr (Some providerJob) \<Rightarrow>
        if trim_space (pj_ProviderJobName providerJob) = [] then
          fail_submission env s owner job requestHash ''PROVIDER_SUBMIT_FAILED''
            (PlainErr ''provider job name missing'') ErrBatchImageProviderSubmitFailed
        else do {
          u \<leftarrow> UpdateBatchImageJobProviderSubmit \<lparr>
                 ps_BatchID = jb_BatchID job,
                 ps_ProviderJobName = pj_ProviderJobName providerJob,
                 ps_ProviderInputRef = pj_ProviderInputRef providerJob,
                 ps_ProviderOutputRef = pj_ProviderOutputRef providerJob,
                 ps_GCSInputURI = batchImageGCSRef (pv_Name provider) (pj_ProviderInputRef providerJob),
                 ps_GCSOutputURI = batchImageGCSRef (pv_Name provider) (pj_ProviderOutputRef providerJob),
                 ps_EventPayload = Some [(''provider'', JStr (pv_Name provider))]\<rparr>;
          case u of
            Inl err \<Rightarrow> do {
              a \<leftarrow> abortOrphanProviderJob provider job account providerJob;
              ret (Inl err) }
          | Inr _ \<Rightarrow> do {
              q \<leftarrow> enqueue_job s (jb_BatchID job);
              case q of
                Inl err \<Rightarrow> do {
                  f \<leftarrow> record_failure (jb_BatchID job) ''QUEUE_FAILED'' err False;
                  ret (Inl ErrBatchImageQueueFailed) }
              | Inr _ \<Rightarrow> do {
                  created \<leftarrow> GetBatchImageJobByBatchID env (jb_BatchID job);
                  public_answer s created } } })"

definition Submit :: "'e driver_scheme \<Rightarrow> BatchImagePublicService \<Rightarrow> nat \<Rightarrow> ('z batch_sys_scheme, unit) state \<Rightarrow>
    BatchImageOwner \<Rightarrow> BatchImageSubmitRequest \<Rightarrow> string \<Rightarrow> ('z batch_sys_scheme, goerr + BatchImagePublicBatch) state" where
  "Submit env s beats meanwhile owner req key0 =
     (if \<not> enabled s then ret (Inl ErrBatchImageDisabled)
      else do {
        v \<leftarrow> validateSubmitRequest s req;
        chain v (\<lambda>normalized. chain (ensureGroupAllowsBatchImage s owner) (\<lambda>_.
          let requestHash = HashBatchImageSubmitRequest env normalized; idempotencyKey = trim_space key0
          in do {
            ex \<leftarrow> existing_submission env s owner idempotencyKey requestHash;
            case ex of
              Some answer \<Rightarrow> ret answer
            | None \<Rightarrow> do {
                pr \<leftarrow> submit_prepare env s owner normalized idempotencyKey requestHash;
                chain pr (\<lambda>(provider, account, job). do {
                  h \<leftarrow> heartbeats (jb_BatchID job) beats;
                  m \<leftarrow> meanwhile;
                  submit_finish env s owner provider account job requestHash
                    (pv_Submit provider job account (submit_input job normalized)) }) } })) })"

subsection \<open>Reading, listing, deleting\<close>

definition get_public :: "'e driver_scheme \<Rightarrow> BatchImagePublicService \<Rightarrow> BatchImageOwner \<Rightarrow> string \<Rightarrow>
    ('z batch_db_scheme, goerr + BatchImagePublicBatch) state" where
  "get_public env s owner batchID = do {
     r \<leftarrow> GetBatchImageJobByBatchIDForOwner env (ow_UserID owner) (ow_APIKeyID owner) batchID;
     public_answer s r }"

definition MarkDownloaded :: "'e driver_scheme \<Rightarrow> BatchImageOwner \<Rightarrow> string \<Rightarrow> ('z batch_db_scheme, goerr + unit) state" where
  "MarkDownloaded env owner batchID = do {
     r \<leftarrow> GetBatchImageJobByBatchIDForOwner env (ow_UserID owner) (ow_APIKeyID owner) batchID;
     chain r (\<lambda>job. do {
       now \<leftarrow> time_now;
       MarkBatchImageDownloaded (jb_BatchID job) now }) }"

definition DeleteRecord :: "'e driver_scheme \<Rightarrow> BatchImageOwner \<Rightarrow> string \<Rightarrow> ('z batch_db_scheme, goerr + unit) state" where
  "DeleteRecord env owner batchID = do {
     r \<leftarrow> GetBatchImageJobByBatchIDForOwner env (ow_UserID owner) (ow_APIKeyID owner) batchID;
     chain r (\<lambda>job.
       if \<not> isBatchImageProcessorDoneStatus (jb_Status job) then ret (Inl ErrBatchImageRecordDeleteNotReady)
       else do {
         now \<leftarrow> time_now;
         MarkBatchImageJobUserDeleted (ow_UserID owner) (ow_APIKeyID owner) (jb_BatchID job) now }) }"

definition parseBatchImageCursor :: "string \<Rightarrow> int" where
  "parseBatchImageCursor cursor = (case atoi (trim_space cursor) of
      None \<Rightarrow> 0 | Some offset \<Rightarrow> if offset < 0 then 0 else offset)"

text \<open>\<^verbatim>\<open>time.Parse("2006-01-02", raw)\<close>: ten characters, two digits each for month and day, a date that exists.\<close>

definition parse_date :: "string \<Rightarrow> int option" where
  "parse_date raw =
     (if length raw \<noteq> 10 \<or> raw ! 4 \<noteq> CHR ''-'' \<or> raw ! 7 \<noteq> CHR ''-'' then None
      else (case (parse_digits 0 (take 4 raw), parse_digits 0 (take 2 (drop 5 raw)), parse_digits 0 (drop 8 raw)) of
          (Some y, Some m, Some d) \<Rightarrow>
            if 1 \<le> m \<and> m \<le> 12 \<and> 1 \<le> d \<and> d \<le> days_in_month y m
            then Some (days_of_civil y m d * day) else None
        | _ \<Rightarrow> None))"

definition parseBatchImageListTime :: "go_env \<Rightarrow> string \<Rightarrow> int option" where
  "parseBatchImageListTime ge raw0 = (let raw = trim_space raw0;
       later = (case ge_ParseTime ge raw of Some t \<Rightarrow> Some t | None \<Rightarrow> parse_date raw)
     in if raw = [] then None
     else (case atoi raw of Some u \<Rightarrow> if 0 < u then Some (u * second) else later | None \<Rightarrow> later))"

record BatchImageJobsQuery =
  qj_Status :: string
  qj_TaskName :: string
  qj_Downloaded :: string
  qj_From :: string
  qj_To :: string
  qj_Limit :: int
  qj_Cursor :: string

record BatchImageItemsQuery =
  qi_Status :: string
  qi_Limit :: int
  qi_Cursor :: string

definition status_filter :: "string \<Rightarrow> string" where
  "status_filter q0 = (let q = trim_space q0 in
     if q = [] \<or> q = ''all'' then []
     else if q = ''queued'' then BatchImageJobStatusSubmitted
     else if q = ''processing_results'' then BatchImageJobStatusIndexing
     else if q = ''completed'' then BatchImageJobStatusCompleted
     else if q = ''failed'' then BatchImageJobStatusFailed
     else if q = ''cancelled'' then BatchImageJobStatusCancelled
     else if q = ''output_deleted'' then BatchImageJobStatusOutputDeleted
     else q)"

definition downloaded_filter :: "string \<Rightarrow> goerr + bool option" where
  "downloaded_filter q0 = (let q = trim_space (to_lower q0) in
     if q \<in> {[], ''all''} then Inr None
     else if q \<in> {''true'', ''1'', ''yes'', ''downloaded''} then Inr (Some True)
     else if q \<in> {''false'', ''0'', ''no'', ''not_downloaded''} then Inr (Some False)
     else Inl ErrBatchImageInvalidItems)"

fun public_jobs :: "go_zone \<Rightarrow> f64 BatchImageJob list \<Rightarrow> ('z world_scheme, BatchImagePublicBatch list) state" where
  "public_jobs z [] = ret []"
| "public_jobs z (j # js) = do {
     p \<leftarrow> BatchImageJobToPublic z j;
     ps \<leftarrow> public_jobs z js;
     ret (p # ps) }"

text \<open>The page and whether there may be another one.\<close>

definition list_public :: "'e driver_scheme \<Rightarrow> BatchImagePublicService \<Rightarrow> BatchImageOwner \<Rightarrow> BatchImageJobsQuery \<Rightarrow>
    ('z batch_db_scheme, goerr + BatchImagePublicBatch list \<times> bool) state" where
  "list_public env s owner q = chain (downloaded_filter (qj_Downloaded q)) (\<lambda>downloaded.
     let limit = (if qj_Limit q \<le> 0 \<or> 100 < qj_Limit q then 20 else qj_Limit q) in do {
       r \<leftarrow> ListBatchImageJobsForOwner env (ow_UserID owner) (ow_APIKeyID owner) \<lparr>
              jf_Status = status_filter (qj_Status q), jf_TaskNameLike = trim_space (qj_TaskName q),
              jf_Downloaded = downloaded,
              jf_CreatedAfter = parseBatchImageListTime (pb_GoEnv s) (qj_From q),
              jf_CreatedBefore = parseBatchImageListTime (pb_GoEnv s) (qj_To q),
              jf_ExcludeDeleted = True, jf_Limit = limit, jf_Offset = parseBatchImageCursor (qj_Cursor q)\<rparr>;
       chain r (\<lambda>js. do {
         data \<leftarrow> public_jobs (pb_Zone s) js;
         ret (Inr (data, int (length data) = limit)) }) })"

definition ListItems :: "'e driver_scheme \<Rightarrow> BatchImageOwner \<Rightarrow> string \<Rightarrow> BatchImageItemsQuery \<Rightarrow>
    ('z batch_db_scheme, goerr + BatchImagePublicItem list \<times> bool) state" where
  "ListItems env owner batchID q = (let st = trim_space (qi_Status q);
       status = (if st \<in> {[], ''all''} then Inr []
         else if st \<in> {''succeeded'', ''success''} then Inr BatchImageItemStatusSuccess
         else if st = ''pending'' then Inr BatchImageItemStatusPending
         else if st = ''failed'' then Inr BatchImageItemStatusFailed
         else Inl ErrBatchImageInvalidItems);
       limit = (if qi_Limit q \<le> 0 \<or> 500 < qi_Limit q then 100 else qi_Limit q)
     in chain status (\<lambda>status. do {
       r \<leftarrow> ListBatchImageItemsForOwner env (ow_UserID owner) (ow_APIKeyID owner) batchID
              \<lparr>itf_Status = status, itf_Limit = limit, itf_Offset = parseBatchImageCursor (qi_Cursor q)\<rparr>;
       chain r (\<lambda>its. ret (Inr (map BatchImageItemToPublic its, int (length its) = limit))) }))"

definition defaultBatchImageModelCandidates :: "string list" where
  "defaultBatchImageModelCandidates = [
     ''gemini-2.0-flash-exp-image-generation'', ''gemini-2.5-flash-image'', ''gemini-3-pro-image'',
     ''gemini-3-pro-image-preview'', ''gemini-3.1-flash-image'', ''gemini-3.1-flash-image-preview'',
     ''gemini-3.1-flash-lite-image'']"

definition batchImageModelsFromAccountMapping :: "Account \<Rightarrow> string list" where
  "batchImageModelsFromAccountMapping a = sort (remdups (concat (map (\<lambda>kv. let model = trim_space (fst kv) in
     if model = [] then []
     else if list_ex (\<lambda>c. c = CHR ''*'' \<or> c = CHR ''?'') model
     then filter (matchWildcard model) defaultBatchImageModelCandidates
     else [model]) (GetModelMapping a))))"

definition priced :: "(f64 BatchImageJob \<Rightarrow> goerr + f64) \<Rightarrow> string \<Rightarrow> string \<Rightarrow> bool" where
  "priced resolver providerName model \<longleftrightarrow>
     (case resolver (job_for_price providerName model) of Inr _ \<Rightarrow> True | Inl _ \<Rightarrow> False)"

fun account_models :: "BatchImagePublicService \<Rightarrow> (f64 BatchImageJob \<Rightarrow> goerr + f64) \<Rightarrow> string \<Rightarrow>
    Account BatchImageProvider \<Rightarrow> Account list \<Rightarrow> ('z world_scheme, string list) state" where
  "account_models s resolver providerName provider [] = ret []"
| "account_models s resolver providerName provider (a # as) = do {
     schedulable \<leftarrow> IsSchedulable (pb_GoEnv s) a;
     rest \<leftarrow> account_models s resolver providerName provider as;
     ret ((if \<not> schedulable \<or> \<not> pv_SupportsAccount provider a then []
           else filter (\<lambda>m. priced resolver providerName m \<and> IsModelSupported a m)
                  (batchImageModelsFromAccountMapping a)) @ rest) }"

text \<open>The models of each provider in the order of the providers, each with its provider.\<close>

fun provider_models :: "BatchImagePublicService \<Rightarrow> (f64 BatchImageJob \<Rightarrow> goerr + f64) \<Rightarrow> BatchImageOwner \<Rightarrow>
    string list \<Rightarrow> ('z world_scheme, goerr + (string \<times> string) list) state" where
  "provider_models s resolver owner [] = ret (Inr [])"
| "provider_models s resolver owner (name # names) = (case pb_Registry s name of
      None \<Rightarrow> provider_models s resolver owner names
    | Some provider \<Rightarrow> chain (listCandidateAccounts s owner (batchImageProviderPlatform name)) (\<lambda>cands. do {
        ms \<leftarrow> account_models s resolver name provider cands;
        r \<leftarrow> provider_models s resolver owner names;
        chain r (\<lambda>rest. ret (Inr (map (\<lambda>m. (m, name)) (sort (remdups ms)) @ rest))) }))"

definition ListModels :: "BatchImagePublicService \<Rightarrow> BatchImageOwner \<Rightarrow>
    ('z world_scheme, goerr + (string \<times> string) list) state" where
  "ListModels s owner =
     (if \<not> enabled s then ret (Inl ErrBatchImageDisabled)
      else (case pb_Pricing s of
          None \<Rightarrow> ret (Inl ErrBatchImageSettlementPricingMissing)
        | Some resolver \<Rightarrow> chain (ensureGroupAllowsBatchImage s owner) (\<lambda>_.
            provider_models s resolver owner (batchImageProviderSelectionOrder []))))"

subsection \<open>Cancellation\<close>

text \<open>Give back the hold of a job that is failed or cancelled; \<open>Inl\<close> is the answer when that fails.\<close>

definition cancel_release :: "'e driver_scheme \<Rightarrow> BatchImagePublicService \<Rightarrow> BatchImageOwner \<Rightarrow> f64 BatchImageJob \<Rightarrow>
    ('z batch_sys_scheme, goerr + unit) state" where
  "cancel_release env s owner job = do {
     r \<leftarrow> releaseBatchImageBalanceHold env job (batchImageDerefString (jb_RequestHash job));
     case r of
       Inl err \<Rightarrow> do {
         q \<leftarrow> enqueueBillingRetry s (jb_BatchID job);
         ret (Inl ErrBatchImageCancelFailed) }
     | Inr _ \<Rightarrow> do {
         i \<leftarrow> invalidateAuthCache (pb_AuthCache s) (ow_UserID owner);
         ret (Inr ()) } }"

text \<open>The account repository is there whenever the service is enabled.\<close>

definition cancel_submitted :: "'e driver_scheme \<Rightarrow> BatchImagePublicService \<Rightarrow> BatchImageOwner \<Rightarrow> string \<Rightarrow> f64 BatchImageJob \<Rightarrow>
    ('z batch_sys_scheme, goerr + BatchImagePublicBatch) state" where
  "cancel_submitted env s owner batchID job = (case pb_Registry s (jb_Provider job) of
      None \<Rightarrow> ret (Inl ErrBatchImageUnsupportedProvider)
    | Some provider \<Rightarrow> (case (jb_AccountID job, pb_AccountRepo s) of
        (Some accountID, Some accountRepo) \<Rightarrow>
          (case sum_bind (ar_GetByID accountRepo accountID) (pv_Cancel provider job) of
             Inl err \<Rightarrow> ret (Inl ErrBatchImageCancelFailed)
           | Inr _ \<Rightarrow> do {
               e \<leftarrow> AppendBatchImageEvent (jb_BatchID job) ''job_cancel_requested''
                     (Some [(''batch_id'', JStr (jb_BatchID job))]);
               q \<leftarrow> enqueue_job s (jb_BatchID job);
               case q of
                 Inl err \<Rightarrow> ret (Inl ErrBatchImageCancelFailed)
               | Inr _ \<Rightarrow> get_public env s owner batchID })
      | _ \<Rightarrow> ret (Inl ErrBatchImageCancelFailed)))"

definition Cancel :: "'e driver_scheme \<Rightarrow> BatchImagePublicService \<Rightarrow> BatchImageOwner \<Rightarrow> string \<Rightarrow>
    ('z batch_sys_scheme, goerr + BatchImagePublicBatch) state" where
  "Cancel env s owner batchID = do {
     r \<leftarrow> GetBatchImageJobByBatchIDForOwner env (ow_UserID owner) (ow_APIKeyID owner) batchID;
     chain r (\<lambda>job.
       if isBatchImageProcessorDoneStatus (jb_Status job) then do {
         rel \<leftarrow> (if jb_Status job = BatchImageJobStatusFailed \<or> jb_Status job = BatchImageJobStatusCancelled
                then cancel_release env s owner job else ret (Inr ()));
         chain rel (\<lambda>_. public_answer s (Inr job)) }
       else if batchImageDerefString (jb_ProviderJobName job) \<noteq> [] then cancel_submitted env s owner batchID job
       else do {
         t \<leftarrow> TransitionBatchImageJobStatus (jb_BatchID job) BatchImageJobStatusCancelled
               (no_options ''job_cancelled'' [(''batch_id'', JStr (jb_BatchID job))]);
         chain t (\<lambda>_. do {
           rel \<leftarrow> cancel_release env s owner job;
           chain rel (\<lambda>_. get_public env s owner batchID) }) }) }"

end
