(* ===== verification/BatchImageSubmission.thy ===== *)
theory BatchImageSubmission
  imports BatchImagePublic
begin

section \<open>What a submission does to the tables\<close>

text \<open>
  The provider is only called for a job whose row, hold and pending items are in the database; a used
  idempotency key never charges again; a job that others ended while the provider was being called stays
  ended, and the job of the provider is given up.
\<close>

subsection \<open>The steps before the provider is called\<close>

lemma select_steps:
  assumes "timeless R" "reflp R" "transp R"
  shows "steps R (selectProviderAndAccount s owner p model)"
proof -
  have sched: "steps R (IsSchedulable ge a)" for ge a
    unfolding IsSchedulable_def IsQuotaExceeded_def window_exceeded_def by (intro steps_intro assms)
  have first: "steps R (first_account ge supports model as)" for ge supports as
    by (induction as) (auto intro!: steps_intro assms sched)
  have "steps R (select_provider s owner model names)" for names
    by (induction names) (auto intro!: steps_intro assms first split: option.split sum.split)
  then show ?thesis by (simp add: selectProviderAndAccount_def)
qed

lemma job_reads_keep_jobs: "steps keeps_jobs (GetBatchImageJobByBatchIDForOwner env u k b)"
    "steps keeps_jobs (GetBatchImageJobByBatchID env b)" "steps keeps_jobs (GetBatchImageJobByIdempotencyKey env u k key)"
    "steps keeps_jobs NewBatchImageID"
proof -
  show "steps keeps_jobs NewBatchImageID"
    by (auto simp: steps_def NewBatchImageID_def keeps_jobs_def split: list.splits)
qed (unfold GetBatchImageJobByBatchIDForOwner_def GetBatchImageJobByBatchID_def read_job_def select_job_def
    GetBatchImageJobByIdempotencyKey_def, (intro steps_intro steps_stmt jobs_of_billing.props; simp add: keeps_jobs_def)+)

lemma CreateBatchImageJob_InrD:
  assumes "run_state (CreateBatchImageJob env p) w = (Inr job, w')" and "cj_BatchID p \<noteq> []" "cj_Status p \<noteq> []"
  obtains now j where "find_job w (cj_BatchID p) = None" "job = scanBatchImageJob env j"
    "job_row env now (next_job_id w) (p\<lparr>cj_Currency := (if cj_Currency p = [] then ''USD'' else cj_Currency p)\<rparr>) = Inr j"
    "jobs w' = jobs w @ [j]" "items w' = items w"
proof -
  let ?p = "p\<lparr>cj_Currency := (if cj_Currency p = [] then ''USD'' else cj_Currency p)\<rparr>"
  from assms have "run_state (createBatchImageJobWithSQL env ?p) w = (Inr job, w')"
    unfolding CreateBatchImageJob_def by (auto elim!: run_elims split: sum.splits)
  then obtain t w1 fs where t: "run_state time_now w = (t, w1)" and
    ins: "(case job_row env t (next_job_id (w1\<lparr>faults := fs\<rparr>)) ?p of
         Inl e \<Rightarrow> (Inl e, w1\<lparr>faults := fs\<rparr>)
       | Inr j \<Rightarrow>
           if \<not> job_columns_fit ?p then (Inl sql_too_long, w1\<lparr>faults := fs\<rparr>)
           else if find_job (w1\<lparr>faults := fs\<rparr>) (cj_BatchID ?p) \<noteq> None
              \<or> deref_or [] (cj_ManifestHash ?p) \<noteq> []
                \<and> (\<exists>j \<in> set (jobs (w1\<lparr>faults := fs\<rparr>)). jb_ManifestHash j = cj_ManifestHash ?p)
           then (Inl sql_unique, w1\<lparr>faults := fs\<rparr>)
           else (Inr (scanBatchImageJob env j),
                 (w1\<lparr>faults := fs\<rparr>)\<lparr>jobs := jobs (w1\<lparr>faults := fs\<rparr>) @ [j],
                    next_job_id := next_job_id (w1\<lparr>faults := fs\<rparr>) + 1\<rparr>)) = (Inr job, w')"
    unfolding createBatchImageJobWithSQL_def by (auto elim!: run_bindE stmt_InrE)
  from t obtain c ts where w1: "w1 = w\<lparr>clock := c, ticks := ts\<rparr>" by (rule run_time_now_eq)
  from ins w1 obtain j where "job_row env t (next_job_id w) ?p = Inr j" "find_job w (cj_BatchID p) = None"
    "job = scanBatchImageJob env j" "jobs w' = jobs w @ [j]" "items w' = items w"
    by (auto simp: find_job_def split: sum.splits if_splits)
  then show ?thesis using that by blast
qed

definition hold_reserved :: "'e driver_scheme \<Rightarrow> 'z batch_db_scheme \<Rightarrow> f64 BatchImageJob \<Rightarrow> bool" where
  "hold_reserved env w job \<longleftrightarrow> claimed w (trim_space (BatchImageHoldRequestID (jb_BatchID job)), deref_or 0 (jb_APIKeyID job))
     \<or> f_le (hold_amount job) (Fin 0)"

lemma reserve_hold_InrD:
  assumes "run_state (reserveBatchImageBalanceHold env job h) w = (Inr (), w')"
  shows "hold_reserved env w' job" and "keeps_jobs w w'"
proof -
  from assms obtain cmd where
    cmd: "buildBatchImageHoldCommand job (BatchImageHoldRequestID (jb_BatchID job)) (Fin 0) h = Inr cmd"
    unfolding reserveBatchImageBalanceHold_def by (auto elim!: run_elims)
  have amount: "f_le (bh_HoldAmount cmd) (Fin 0) \<Longrightarrow> f_le (hold_amount job) (Fin 0)"
    using cmd by (auto simp: buildBatchImageHoldCommand_def hold_amount_def Let_def f_le_def
        split: option.splits if_splits)
  have ok: "claimed w' (trim_space (BatchImageHoldRequestID (jb_BatchID job)), deref_or 0 (jb_APIKeyID job))"
    if "run_state (ReserveBatchImageBalance env (Some cmd)) w = (Inr r, w')" for r
    using hold_operation_claims [OF that [unfolded ReserveBatchImageBalance_def] steps_hold_effects(1)]
      build_hold_InrD(1) [OF cmd] by simp
  show "hold_reserved env w' job"
    using assms cmd amount unfolding reserveBatchImageBalanceHold_def hold_reserved_def
    by (auto elim!: run_elims split: sum.splits if_splits dest: ok)
  have "steps keeps_jobs (reserveBatchImageBalanceHold env job h)"
    unfolding reserveBatchImageBalanceHold_def
    by (intro steps_intro jobs_of_billing.hold_operations jobs_of_billing.props)
  with assms show "keeps_jobs w w'" by (blast dest: stepsD)
qed

definition keeps_items :: "'z batch_db_scheme \<Rightarrow> 'z batch_db_scheme \<Rightarrow> bool" where
  "keeps_items w w' \<longleftrightarrow> items w' = items w"

lemma keeps_items_props: "reflp keeps_items" "transp keeps_items" "timeless keeps_items"
  by (auto simp: keeps_items_def reflp_def transp_def timeless_def)

lemma Transition_keeps_items: "steps keeps_items (TransitionBatchImageJobStatus b st opts)"
  unfolding TransitionBatchImageJobStatus_def transitionBatchImageJobStatusWithSQL_def Let_def in_tx_def
    select_status_for_update_def exec_job_def appendBatchImageEventWithSQL_def
  by (intro steps_with_tx steps_intro steps_stmt keeps_items_props)
    (auto simp: keeps_items_def put_job_def split: option.split sum.split)

lemma createPendingItems_InrD:
  assumes "run_state (createPendingItems env s b h its) w = (Inr (), w')"
  obtains new where "jobs w' = jobs w" "items w' = items w @ new"
    "map (\<lambda>i. (it_JobID i, it_CustomID i, it_Status i)) new
       = map (\<lambda>it. (b, sm_CustomID it, BatchImageItemStatusPending)) its"
proof (cases "its = []")
  case True
  then show ?thesis using that [of "[]"] assms by (auto simp: createPendingItems_def)
next
  case False
  let ?ps = "map (pending_item s b h) its"
  from assms False obtain fs w2 fs' where "run_state (insert_items env ?ps) (w\<lparr>faults := fs\<rparr>) = (Inr (), w2)"
    and "w' = w2\<lparr>faults := fs'\<rparr>"
    unfolding createPendingItems_def BulkCreateBatchImageItems_def in_tx_def
    by (auto elim!: run_elims elim: with_tx_cases)
  with insert_items_InrD [of env ?ps "w\<lparr>faults := fs\<rparr>" w2] obtain new where
    "jobs w' = jobs w" "items w' = items w @ new"
    "map (\<lambda>i. (it_JobID i, it_CustomID i, it_Status i)) new
       = map (\<lambda>p. (ci_JobID p, ci_CustomID p, ci_Status p)) ?ps" by auto
  then show ?thesis using that by (simp add: pending_item_def comp_def)
qed

lemma hold_reserved_billing: "keeps_billing w w' \<Longrightarrow> hold_reserved env w' job = hold_reserved env w job"
  by (simp add: hold_reserved_def keeps_billing_claimed)

lemma hold_reserved_identity:
  "job_identity j' = job_identity j \<Longrightarrow>
    hold_reserved env w (scanBatchImageJob env j') = hold_reserved env w (scanBatchImageJob env j)"
  by (simp add: hold_reserved_def job_identity_def hold_amount_def scanBatchImageJob_def)

lemma submit_hold_InrD:
  assumes run: "run_state (submit_hold env s owner req h job) w = (Inr (), w')"
    and row: "find_job w (jb_BatchID job) = Some j" "job = scanBatchImageJob env j"
  obtains j' new where "find_job w' (jb_BatchID job) = Some j'" "jb_Status j' = BatchImageJobStatusUploading"
    "job_identity j' = job_identity j" "hold_reserved env w' (scanBatchImageJob env j')"
    "items w' = items w @ new" "map (\<lambda>i. (it_JobID i, it_CustomID i, it_Status i)) new
       = map (\<lambda>it. (jb_BatchID job, sm_CustomID it, BatchImageItemStatusPending)) (rq_Items req)"
proof -
  let ?b = "jb_BatchID job"
  let ?opts = "no_options ''upload_started'' [(''batch_id'', JStr ?b)]"
  have failed: False if "run_state (fail_submission env s owner job h c e1 e2) v = (Inr x, v')" for c e1 e2 v v' x
    using that unfolding fail_submission_def by (auto elim!: run_elims)
  from run obtain w1 w2 w3 where
    res: "run_state (reserveBatchImageBalanceHold env job h) w = (Inr (), w1)" and
    inv: "run_state (invalidateAuthCache (pb_AuthCache s) (ow_UserID owner)) w1 = ((), w2)" and
    its: "run_state (createPendingItems env s ?b h (rq_Items req)) w2 = (Inr (), w3)" and
    tr: "run_state (TransitionBatchImageJobStatus ?b BatchImageJobStatusUploading ?opts) w3 = (Inr (), w')"
    unfolding submit_hold_def by (auto elim!: run_elims dest: failed)
  have w2: "keeps_jobs w w2"
    using reserve_hold_InrD(2) [OF res] stepsD [OF usage_log_keeps_jobs(2) inv] by (simp add: keeps_jobs_def)
  from its obtain new where new: "jobs w3 = jobs w2" "items w3 = items w2 @ new"
    "map (\<lambda>i. (it_JobID i, it_CustomID i, it_Status i)) new
       = map (\<lambda>it. (?b, sm_CustomID it, BatchImageItemStatusPending)) (rq_Items req)"
    by (rule createPendingItems_InrD)
  have j: "find_job w3 ?b = Some j" using row(1) w2 new(1) by (simp add: find_job_def keeps_jobs_def)
  with tr obtain j' where j': "find_job w' ?b = Some j'" "jb_Status j' = BatchImageJobStatusUploading"
    "job_identity j' = job_identity j"
    by (elim Transition_InrD) auto
  have "items w' = items w @ new"
    using stepsD [OF Transition_keeps_items tr] w2 new(2) by (simp add: keeps_items_def keeps_jobs_def)
  moreover have "hold_reserved env w' (scanBatchImageJob env j')"
  proof -
    have "steps keeps_billing (createPendingItems env s ?b h (rq_Items req))"
      unfolding createPendingItems_def by (intro steps_intro billing_of_jobs.items_ops billing_of_jobs.props)
    with its have "keeps_billing w2 w3" by (blast dest: stepsD)
    moreover have "keeps_billing w1 w2" using billing_of_jobs.side_effects(1) inv by (rule stepsD)
    moreover have "keeps_billing w3 w'" using billing_of_jobs.status_ops(1) tr by (rule stepsD)
    ultimately show ?thesis
      using reserve_hold_InrD(1) [OF res] row(2) by (simp add: hold_reserved_billing hold_reserved_identity [OF j'(3)])
  qed
  ultimately show ?thesis using that j' new(3) by blast
qed

lemma resolve_parent_keeps_jobs: "steps keeps_jobs (resolve_parent env owner p)"
  unfolding resolve_parent_def by (intro steps_intro job_reads_keep_jobs jobs_of_billing.props)

lemma find_last: "find P xs = None \<Longrightarrow> P x \<Longrightarrow> find P (xs @ [x]) = Some x"
  by (induction xs) (auto split: if_splits)

lemma job_row_InrD:
  assumes "job_row env now i p = Inr j"
  shows "jb_BatchID j = cj_BatchID p" "jb_UserID j = cj_UserID p" "jb_APIKeyID j = cj_APIKeyID p"
    "jb_IdempotencyKey j = cj_IdempotencyKey p" "jb_RequestHash j = cj_RequestHash p"
  using assms by (auto simp: job_row_def sum_bind_Inr)

text \<open>
  C4: The provider is only called for a job that is fully recorded: its row is new, belongs to the caller,
  carries the idempotency key and the hash of the request and is uploading; its hold is reserved, or there is
  nothing to hold; and every item of the request has its pending row.  This holds whatever calls failed or
  lost their answers before.
\<close>
theorem upstream_only_with_hold:
  assumes "run_state (submit_prepare env s owner req key h) w = (Inr (provider, account, job), w')"
  shows "\<exists>j new. find_job w (jb_BatchID job) = None \<and> find_job w' (jb_BatchID job) = Some j
    \<and> jb_Status j = BatchImageJobStatusUploading
    \<and> jb_UserID j = ow_UserID owner \<and> jb_APIKeyID j = Some (ow_APIKeyID owner)
    \<and> jb_IdempotencyKey j = batchImageOptionalStringPtr key \<and> jb_RequestHash j = Some h
    \<and> hold_reserved env w' (scanBatchImageJob env j)
    \<and> items w' = items w @ new \<and> map (\<lambda>i. (it_JobID i, it_CustomID i, it_Status i)) new
        = map (\<lambda>it. (jb_BatchID job, sm_CustomID it, BatchImageItemStatusPending)) (rq_Items req)"
proof -
  note props = jobs_of_billing.props
  from assms obtain p a w1 snap par w2 b w3 job0 w4 where
    sel: "run_state (selectProviderAndAccount s owner (rq_Provider req) (rq_Model req)) w = (Inr (p, a), w1)" and
    par: "run_state (resolve_parent env owner (rq_ParentBatchID req)) w1 = (Inr par, w2)" and
    b: "run_state NewBatchImageID w2 = (Inr b, w3)" and
    cr: "run_state (CreateBatchImageJob env (create_params owner req b (pv_Name p) a snap par key h)) w3 = (Inr job0, w4)" and
    hold: "run_state (submit_hold env s owner req h job0) w4 = (Inr (), w')" and
    job: "job = job0\<lparr>jb_Status := BatchImageJobStatusUploading\<rparr>"
    unfolding submit_prepare_def by (auto elim!: run_elims)
  let ?p = "create_params owner req b (pv_Name p) a snap par key h"
  have b_nonempty: "b \<noteq> []" using b by (auto simp: NewBatchImageID_def split: list.splits)
  have "keeps_jobs w w1" using select_steps [OF props(3,1,2)] sel by (rule stepsD)
  moreover have "keeps_jobs w1 w2" using resolve_parent_keeps_jobs par by (rule stepsD)
  moreover have "keeps_jobs w2 w3" using job_reads_keep_jobs(4) b by (rule stepsD)
  ultimately have w3: "jobs w3 = jobs w" "items w3 = items w" by (simp_all add: keeps_jobs_def)
  from cr obtain now j0 where j0: "find_job w3 b = None" "job0 = scanBatchImageJob env j0"
    "job_row env now (next_job_id w3) ?p = Inr j0" "jobs w4 = jobs w3 @ [j0]" "items w4 = items w3"
    by (rule CreateBatchImageJob_InrD) (auto simp: create_params_def b_nonempty)
  have ids: "jb_BatchID j0 = b" "jb_BatchID job = b" "jb_BatchID job0 = b"
    using job_row_InrD(1) [OF j0(3)] by (simp_all add: create_params_def job j0(2) scanBatchImageJob_def)
  have row: "find_job w4 (jb_BatchID job0) = Some j0"
    using j0(1,4) ids by (simp add: find_job_def find_last)
  from hold row j0(2) obtain j new where j: "find_job w' b = Some j" "jb_Status j = BatchImageJobStatusUploading"
    "job_identity j = job_identity j0" "hold_reserved env w' (scanBatchImageJob env j)"
    "items w' = items w4 @ new" "map (\<lambda>i. (it_JobID i, it_CustomID i, it_Status i)) new
       = map (\<lambda>it. (b, sm_CustomID it, BatchImageItemStatusPending)) (rq_Items req)"
    by (elim submit_hold_InrD) (use ids in auto)
  moreover have "find_job w b = None" using j0(1) w3 by (simp add: find_job_def)
  moreover have "jb_UserID j = ow_UserID owner" "jb_APIKeyID j = Some (ow_APIKeyID owner)"
    "jb_IdempotencyKey j = batchImageOptionalStringPtr key" "jb_RequestHash j = Some h"
    using j(3) job_row_InrD [OF j0(3)] by (simp_all add: job_identity_def create_params_def)
  ultimately show ?thesis using w3(2) j0(5) ids by auto
qed

subsection \<open>The steps after the provider answered\<close>

lemma event_result:
  assumes "run_state (appendBatchImageEventWithSQL b t p) w = (r, w')"
  shows "\<exists>fs. w' = w\<lparr>faults := fs\<rparr> \<or> w' = w\<lparr>faults := fs, events := events w @ [(b, t, p)]\<rparr>"
  using assms unfolding appendBatchImageEventWithSQL_def
  by (elim run_ifE run_retE stmt_cases) (auto split: if_splits intro: exI [of _ "faults w"])

lemma abort_logs:
  assumes "run_state (abortOrphanProviderJob provider job account pj) w = (r, w')"
  shows "jobs w' = jobs w \<and> items w' = items w \<and> keeps_billing w w' \<and> queued w' = queued w
    \<and> (events w' = events w \<or> events w' = events w @ [(jb_BatchID job, ''provider_job_aborted_after_submit'',
        Some [(''batch_id'', JStr (jb_BatchID job)), (''provider'', JStr (pv_Name provider))])])"
proof -
  from assms obtain x where "run_state (appendBatchImageEventWithSQL (jb_BatchID job) ''provider_job_aborted_after_submit''
      (Some [(''batch_id'', JStr (jb_BatchID job)), (''provider'', JStr (pv_Name provider))])) w = (x, w')"
    unfolding abortOrphanProviderJob_def AppendBatchImageEvent_def Let_def by (elim run_bindE run_retE) simp
  from event_result [OF this] show ?thesis
    by (auto simp: keeps_billing_def ledger_def queued_def)
qed

lemma same_db_world: "same_db w w' \<Longrightarrow> w' = w\<lparr>faults := faults w', clock := clock w', ticks := ticks w'\<rparr>"
  by (elim same_dbE)


text \<open>Giving the hold of a failed submission back.\<close>

lemma submit_marks_keep_billing: "steps keeps_billing (record_failure b c e final)"
    "steps keeps_billing (hidePreUpstreamSubmitFailure owner job)"
  unfolding record_failure_def hidePreUpstreamSubmitFailure_def
  by (intro steps_intro billing_of_jobs.failure_ops billing_of_jobs.cleanup_ops billing_of_jobs.props)+

lemma fail_submission_returns:
  assumes "run_state (fail_submission env s owner job h code cause err) w = (r, w')" "same_hold env job j"
  shows "\<exists>e. r = Inl e \<and> (hold_returned env w' j \<or> e = ErrBatchImageBillingHoldFailed)"
proof -
  from assms(1) obtain x w1 where x: "run_state (releaseFailedSubmitHold env s job h) w = (x, w1)"
    and rest: "run_state (chain x (\<lambda>_. do {
       f \<leftarrow> record_failure (jb_BatchID job) code cause True;
       g \<leftarrow> hidePreUpstreamSubmitFailure owner job;
       ret (Inl err) })) w1 = (r, w')"
    unfolding fail_submission_def by (auto elim!: run_bindE)
  show ?thesis
  proof (cases x)
    case (Inl e)
    then have "e = ErrBatchImageBillingHoldFailed"
      using x unfolding releaseFailedSubmitHold_def by (auto elim!: run_elims)
    with Inl rest show ?thesis by auto
  next
    case (Inr u)
    with x obtain w0 where rel: "run_state (releaseBatchImageBalanceHold env job h) w = (Inr (), w0)" and
      i: "run_state (invalidateAuthCache (pb_AuthCache s) (jb_UserID job)) w0 = ((), w1)"
      unfolding releaseFailedSubmitHold_def by (auto elim!: run_elims)
    have "hold_returned env w0 j"
      using release_hold_InrD [OF rel] assms(2) by (auto simp: hold_returned_def same_hold_def release_key_def)
    moreover have "keeps_billing w0 w1" using billing_of_jobs.side_effects(1) i by (rule stepsD)
    moreover from rest Inr obtain w2 where f: "run_state (record_failure (jb_BatchID job) code cause True) w1 = ((), w2)"
      and g: "run_state (hidePreUpstreamSubmitFailure owner job) w2 = ((), w')" and "r = Inl err"
      by (auto elim!: run_elims)
    moreover have "keeps_billing w1 w2" using submit_marks_keep_billing(1) f by (rule stepsD)
    moreover have "keeps_billing w2 w'" using submit_marks_keep_billing(2) g by (rule stepsD)
    ultimately show ?thesis by (auto simp: hold_returned_def keeps_billing_claimed)
  qed
qed

text \<open>
  C13: When the provider does not take the job, the submission fails and the hold of the job is returned, unless
  the answer is the error that says that it could not be returned.
\<close>
theorem rejected_submission_returns_hold:
  assumes "run_state (submit_finish env s owner provider account job h answer) w = (r, w')"
    and "same_hold env job j"
    and "\<And>pj. answer = Inr (Some pj) \<Longrightarrow> trim_space (pj_ProviderJobName pj) = []"
  shows "\<exists>e. r = Inl e \<and> (hold_returned env w' j \<or> e = ErrBatchImageBillingHoldFailed)"
  using assms(1,3) fail_submission_returns [OF _ assms(2)]
  unfolding submit_finish_def Let_def by (auto elim!: run_elims)

subsection \<open>A repeated submission\<close>

text \<open>No money moves, no job and no item is added.\<close>

definition charges_nothing :: "'z batch_db_scheme \<Rightarrow> 'z batch_db_scheme \<Rightarrow> bool" where
  "charges_nothing w w' \<longleftrightarrow> keeps_billing w w' \<and> items w' = items w \<and> map jb_BatchID (jobs w') = map jb_BatchID (jobs w)"

lemma charges_nothing_props: "reflp charges_nothing" "transp charges_nothing" "timeless charges_nothing"
  by (auto simp: charges_nothing_def keeps_billing_def reflp_def transp_def timeless_def ledger_def)

lemma charges_nothing_refl [simp]: "charges_nothing w w"
  using charges_nothing_props(1) by (rule reflpD)

lemma rows_charge_nothing: "steps charges_nothing (exec_job b p f)"
    "steps charges_nothing (appendBatchImageEventWithSQL b t pl)"
  unfolding exec_job_def appendBatchImageEventWithSQL_def
  by (intro steps_intro steps_stmt charges_nothing_props;
      auto simp: charges_nothing_def keeps_billing_def ledger_def put_job_def split: option.split sum.split)+

lemma failure_charges_nothing: "steps charges_nothing (record_failure b c e final)"
  unfolding record_failure_def RecordBatchImageJobSubmitFailure_def
  by (intro steps_intro rows_charge_nothing charges_nothing_props)

lemma enqueue_charges_nothing: "steps charges_nothing (enqueue_job s b)"
proof -
  have "steps charges_nothing (Enqueue opts b)" for opts
    using tables.simple_ops(1) [of opts b]
    by (auto simp: steps_def keeps_tables_def keeps_jobs_def charges_nothing_def)
  then show ?thesis unfolding enqueue_job_def by (intro steps_intro charges_nothing_props)
qed

lemma answer_charges_nothing: "steps charges_nothing (public_answer s r)"
    "steps charges_nothing (validateSubmitRequest s req)"
  unfolding public_answer_def BatchImageJobToPublic_def batchImagePublicTaskName_def defaultBatchImageTaskName_def
    validateSubmitRequest_def Let_def
  by (intro steps_intro charges_nothing_props)+

lemma existing_charges_nothing: "steps charges_nothing (existing_submission env s owner key h)"
proof -
  have "steps charges_nothing (GetBatchImageJobByIdempotencyKey env u k key)" for u k
    using job_reads_keep_jobs(3) [of env u k key] billing_of_jobs.reads(3) [of env u k key]
    by (auto simp: steps_def keeps_jobs_def charges_nothing_def)
  then show ?thesis
    unfolding existing_submission_def
    by (intro steps_intro charges_nothing_props failure_charges_nothing enqueue_charges_nothing answer_charges_nothing)
qed

lemma scan_id [simp]: "jb_BatchID (scanBatchImageJob env j) = jb_BatchID j"
    "jb_RequestHash (scanBatchImageJob env j) = jb_RequestHash j"
  by (simp_all add: scanBatchImageJob_def)

lemma job_to_public_id: "run_state (BatchImageJobToPublic z j) w = (p, w') \<Longrightarrow> pu_ID p = jb_BatchID j"
  unfolding BatchImageJobToPublic_def by (auto elim!: run_elims)

definition key_used :: "'z batch_db_scheme \<Rightarrow> BatchImageOwner \<Rightarrow> string \<Rightarrow> rat BatchImageJob \<Rightarrow> bool" where
  "key_used w owner key j \<longleftrightarrow> j \<in> set (jobs w) \<and> jb_UserID j = ow_UserID owner
     \<and> jb_APIKeyID j = Some (ow_APIKeyID owner) \<and> jb_IdempotencyKey j = Some key"

lemma existing_submission_used:
  assumes "run_state (existing_submission env s owner key h) w = (r, w')" and "key_used w owner key j" "key \<noteq> []"
  shows "\<exists>a. r = Some a \<and> (\<forall>p. a = Inr p \<longrightarrow>
    (\<exists>i. key_used w owner key i \<and> pu_ID p = jb_BatchID i \<and> batchImageDerefString (jb_RequestHash i) = h))"
proof -
  let ?get = "GetBatchImageJobByIdempotencyKey env (ow_UserID owner) (ow_APIKeyID owner) key"
  obtain x w1 where x: "run_state ?get w = (x, w1)" by fastforce
  let ?q = "\<lambda>j. jb_UserID j = ow_UserID owner \<and> jb_APIKeyID j = Some (ow_APIKeyID owner) \<and> jb_IdempotencyKey j = Some key"
  have "find ?q (rev (jobs w)) \<noteq> None"
    using assms(2) by (auto simp: key_used_def find_None_iff)
  then obtain i where i: "find ?q (rev (jobs w)) = Some i" by blast
  then have used: "key_used w owner key i"
    using find_SomeD [OF i] by (simp add: key_used_def)
  have "(\<exists>e. x = Inl e \<and> \<not> err_is e ErrBatchImageJobNotFound) \<or> (\<exists>i. x = Inr (scanBatchImageJob env i) \<and> key_used w owner key i)"
    using x i used unfolding GetBatchImageJobByIdempotencyKey_def
    by (auto elim!: run_elims stmt_cases simp: translatePersistenceError_def infra_error_def sql_no_rows_def
        ErrBatchImageJobNotFound_def New_def)
  then show ?thesis
  proof (elim disjE exE conjE)
    fix e assume "x = Inl e" "\<not> err_is e ErrBatchImageJobNotFound"
    then show ?thesis using assms(1,3) x unfolding existing_submission_def by (auto simp: run_bind)
  next
    fix i assume xi: "x = Inr (scanBatchImageJob env i)" and i: "key_used w owner key i"
    have "\<exists>a. r = Some a \<and> (\<forall>p. a = Inr p \<longrightarrow> pu_ID p = jb_BatchID i \<and> batchImageDerefString (jb_RequestHash i) = h)"
      using assms(1,3) x xi unfolding existing_submission_def public_answer_def
      by (auto elim!: run_elims dest!: job_to_public_id)
    with i show ?thesis by blast
  qed
qed

text \<open>
  C7: Repeating a submission with an idempotency key that the caller has used moves no money and adds no job and no
  item, whatever calls fail; a successful answer shows the job of that key, which was made for the same request.
\<close>
theorem replay_charges_nothing:
  assumes "run_state (Submit env s beats meanwhile owner req key) w = (r, w')"
    and "key_used w owner (trim_space key) j" "trim_space key \<noteq> []"
  shows "charges_nothing w w' \<and> (\<forall>p. r = Inr p \<longrightarrow> (\<exists>i req'. key_used w owner (trim_space key) i \<and> pu_ID p = jb_BatchID i
    \<and> fst (run_state (validateSubmitRequest s req) w) = Inr req'
    \<and> batchImageDerefString (jb_RequestHash i) = HashBatchImageSubmitRequest env req'))"
proof -
  obtain v w1 where v: "run_state (validateSubmitRequest s req) w = (v, w1)" by fastforce
  have w1: "charges_nothing w w1" "jobs w1 = jobs w"
  proof -
    show "charges_nothing w w1" using answer_charges_nothing(2) v by (rule stepsD)
    have "steps (\<lambda>w w'. jobs w' = jobs w) (validateSubmitRequest s req)"
      unfolding validateSubmitRequest_def defaultBatchImageTaskName_def Let_def
      by (intro steps_intro) (auto simp: reflp_def transp_def timeless_def)
    with v show "jobs w1 = jobs w" by (rule stepsD [rotated])
  qed
  show ?thesis
  proof (cases "enabled s \<and> (\<exists>req'. v = Inr req') \<and> ensureGroupAllowsBatchImage s owner = Inr ()")
    case False
    then have "(\<exists>e. r = Inl e) \<and> (w' = w \<or> w' = w1)"
      using assms(1) v unfolding Submit_def by (auto elim!: run_elims)
    then show ?thesis using w1 by auto
  next
    case True
    then obtain req' where req': "v = Inr req'" by blast
    let ?h = "HashBatchImageSubmitRequest env req'"
    obtain x w2 where x: "run_state (existing_submission env s owner (trim_space key) ?h) w1 = (x, w2)" by fastforce
    have "key_used w1 owner (trim_space key) j" using assms(2) w1(2) by (simp add: key_used_def)
    from existing_submission_used [OF x this assms(3)] obtain a where "x = Some a" and
      a: "\<forall>p. a = Inr p \<longrightarrow> (\<exists>i. key_used w1 owner (trim_space key) i \<and> pu_ID p = jb_BatchID i
        \<and> batchImageDerefString (jb_RequestHash i) = ?h)" by blast
    then have "r = a" "w' = w2"
      using assms(1) v x True req' by (simp_all add: Submit_def run_bind Let_def)
    moreover have "charges_nothing w w2"
      using stepsD [OF existing_charges_nothing x] w1(1) charges_nothing_props(2) by (blast dest: transpD)
    moreover have "key_used w1 owner k i = key_used w owner k i" for k i using w1(2) by (simp add: key_used_def)
    ultimately show ?thesis using a v req' by simp
  qed
qed

subsection \<open>Examples\<close>

lemma select_provider_still:
  assumes "ticks w = []"
  shows "snd (run_state (select_provider s owner model names) w) = w"
  by (induction names)
    (auto simp: run_bind first_account_still [OF assms] split: option.split sum.split)

definition submit_system :: batch_sys where
  "submit_system = (batch_system (batch_world demo_world []))\<lparr>entropy := [''01'', ''02'']\<rparr>"

definition one_item_request :: BatchImageSubmitRequest where
  "one_item_request = \<lparr>rq_Model = ''gemini-2.5-flash-image'', rq_TaskName = ''t'', rq_ParentBatchID = [], rq_Provider = [],
     rq_Items = [\<lparr>sm_CustomID = ''a'', sm_Prompt = ''cat'', sm_OutputCount = 0, sm_ReferenceImages = []\<rparr>],
     rq_ResponseMimeType = ''image/png'', rq_AspectRatio = [], rq_ImageSize = ''1K'', rq_Metadata = None\<rparr>"

definition one_item_params :: "BatchImagePricingSnapshot \<Rightarrow> string \<Rightarrow> CreateBatchImageJobParams" where
  "one_item_params snap key = create_params image_owner one_item_request ''imgbatch_01'' BatchImageProviderVertex
     (image_account 2 50) snap None key ''h''"

definition one_item_snapshot :: BatchImagePricingSnapshot where
  "one_item_snapshot = \<lparr>sn_BaseUnitPrice = Fin 1, sn_GroupRateMultiplier = Fin 2, sn_AccountRateMultiplier = Fin 1,
     sn_BatchDiscountMultiplier = Fin (1/2), sn_HoldMultiplier = Fin (1/2), sn_BillableUnitPrice = Fin 1,
     sn_HoldUnitPrice = Fin 1, sn_EstimatedCost = Fin 1, sn_HoldAmount = Fin 1\<rparr>"

definition created_run where
  "created_run = run_state (CreateBatchImageJob exact_driver (one_item_params one_item_snapshot ''k1''))
     (submit_system\<lparr>entropy := [''02'']\<rparr>)"

lemma succeeded:
  assumes "\<not> isl (fst r)"
  obtains x w where "r = (Inr x, w)"
  using assms by (metis prod.collapse sum.collapse(2))

lemma one_item_selection:
  obtains p where "run_state (selectProviderAndAccount image_service image_owner [] ''gemini-2.5-flash-image'') submit_system
    = (Inr (p, image_account 2 50), submit_system)" "pv_Name p = BatchImageProviderVertex"
proof -
  let ?r = "run_state (selectProviderAndAccount image_service image_owner [] ''gemini-2.5-flash-image'') submit_system"
  have "case fst ?r of Inl _ \<Rightarrow> False | Inr (p, a) \<Rightarrow> pv_Name p = BatchImageProviderVertex \<and> a = image_account 2 50"
    by code_simp
  moreover have "ticks submit_system = []" by code_simp
  then have "snd ?r = submit_system" by (simp add: selectProviderAndAccount_def select_provider_still)
  ultimately show ?thesis using that by (cases ?r) (auto split: sum.splits)
qed

lemma upstream_only_with_hold_witness:
  "\<exists>p a job w'. run_state (submit_prepare exact_driver image_service image_owner one_item_request ''k1'' ''h'') submit_system
       = (Inr (p, a, job), w')
     \<and> (\<exists>j. find_job w' (jb_BatchID job) = Some j \<and> hold_reserved exact_driver w' (scanBatchImageJob exact_driver j))"
proof -
  obtain p where sel: "run_state (selectProviderAndAccount image_service image_owner [] ''gemini-2.5-flash-image'') submit_system
    = (Inr (p, image_account 2 50), submit_system)" "pv_Name p = BatchImageProviderVertex"
    by (rule one_item_selection)
  have snap: "resolvePricingSnapshot image_service image_owner one_item_request BatchImageProviderVertex
      (Some (image_account 2 50)) = Inr one_item_snapshot" by code_simp
  have id: "run_state NewBatchImageID submit_system = (Inr ''imgbatch_01'', submit_system\<lparr>entropy := [''02'']\<rparr>)"
    by (simp add: NewBatchImageID_def submit_system_def)
  have "\<not> isl (fst created_run)" by code_simp
  then obtain job0 w4 where create: "created_run = (Inr job0, w4)" by (rule succeeded)
  have "case created_run of (Inl _, _) \<Rightarrow> False | (Inr job, w) \<Rightarrow>
      \<not> isl (fst (run_state (submit_hold exact_driver image_service image_owner one_item_request ''h'' job) w))"
    by code_simp
  then obtain w' where hold:
    "run_state (submit_hold exact_driver image_service image_owner one_item_request ''h'' job0) w4 = (Inr (), w')"
    by (auto simp: create elim: succeeded)
  have run: "run_state (submit_prepare exact_driver image_service image_owner one_item_request ''k1'' ''h'') submit_system
      = (Inr (p, image_account 2 50, job0\<lparr>jb_Status := BatchImageJobStatusUploading\<rparr>), w')"
    using sel snap id create hold
    by (simp add: submit_prepare_def run_bind one_item_request_def created_run_def one_item_params_def
        resolve_parent_def batchImageOptionalStringPtr_def)
  from upstream_only_with_hold [OF run] run show ?thesis by blast
qed

definition provider_answer :: BatchProviderJob where
  "provider_answer = \<lparr>pj_ProviderJobName = ''jobs/1'', pj_ProviderInputRef = ''gs://in'', pj_ProviderOutputRef = ''gs://out'',
     pj_RawState = ''JOB_STATE_PENDING''\<rparr>"

definition system_with :: "rat BatchImageJob \<Rightarrow> batch_sys" where
  "system_with j = batch_system (batch_world demo_world [j])"

lemma system_with_simps: "jobs (system_with j) = [j]"
  by (simp add: system_with_def batch_system_def batch_world_def batch_db.defs billing.defs)


lemma rejected_submission_returns_hold_witness:
  "\<exists>e. fst (run_state (submit_finish exact_driver image_service image_owner image_provider (image_account 2 50)
      (scanBatchImageJob exact_driver (demo_job ''b1'' ''uploading'')) ''h'' (Inl ErrBatchImageProviderMissingAPIKey))
      (system_with (demo_job ''b1'' ''uploading''))) = Inl e"
proof -
  have "same_hold exact_driver (scanBatchImageJob exact_driver (demo_job ''b1'' ''uploading'')) (demo_job ''b1'' ''uploading'')"
    by (simp add: same_hold_def scanBatchImageJob_def)
  from rejected_submission_returns_hold [where answer = "Inl ErrBatchImageProviderMissingAPIKey",
      OF prod.collapse [symmetric] this] show ?thesis by fastforce
qed

lemma replay_charges_nothing_witness:
  "charges_nothing (system_with (demo_job ''b1'' ''running''\<lparr>jb_IdempotencyKey := Some ''k1''\<rparr>))
     (snd (run_state (Submit exact_driver image_service 1 (ret ()) \<lparr>ow_UserID = 1, ow_APIKeyID = 7, ow_GroupID = Some 4\<rparr>
        image_request '' k1'') (system_with (demo_job ''b1'' ''running''\<lparr>jb_IdempotencyKey := Some ''k1''\<rparr>))))"
proof -
  let ?j = "demo_job ''b1'' ''running''\<lparr>jb_IdempotencyKey := Some ''k1''\<rparr>"
  have key: "trim_space '' k1'' = ''k1''" "trim_space '' k1'' \<noteq> []" by code_simp+
  from key(1) have "key_used (system_with ?j) \<lparr>ow_UserID = 1, ow_APIKeyID = 7, ow_GroupID = Some 4\<rparr> (trim_space '' k1'') ?j"
    by (simp add: key_used_def system_with_simps demo_job_def)
  from replay_charges_nothing [OF prod.collapse [symmetric] this key(2)] show ?thesis by (rule conjunct1)
qed

end
