(* ===== verification/BatchImagePublicProperties.thy ===== *)
theory BatchImagePublicProperties
  imports BatchImageSubmission
begin

section \<open>What the public batch image service guarantees\<close>

text \<open>
  The provider is only called for a job whose row, hold and items are in the database; a used idempotency
  key never charges again; a job that others ended while the provider was being called stays ended; a
  cancelled job has its hold returned; and nobody reaches the jobs of another owner.
\<close>

subsection \<open>Strangers\<close>

text \<open>The batch belongs to this user and API key and was not deleted.\<close>

definition owned :: "'z batch_db_scheme \<Rightarrow> BatchImageOwner \<Rightarrow> string \<Rightarrow> bool" where
  "owned w owner b \<longleftrightarrow> list_ex (\<lambda>j. jb_BatchID j = b \<and> jb_UserID j = ow_UserID owner
     \<and> jb_APIKeyID j = Some (ow_APIKeyID owner) \<and> jb_UserDeletedAt j = None) (jobs w)"

text \<open>An error and no effect, but for the calls that were made.\<close>

definition refused :: "('z world_scheme, goerr + 'a) state \<Rightarrow> 'z world_scheme \<Rightarrow> bool" where
  "refused m w \<longleftrightarrow> (\<exists>e fs. run_state m w = (Inl e, w\<lparr>faults := fs\<rparr>))"

lemma refused_chain: "refused m w \<Longrightarrow> refused (do { r \<leftarrow> m; chain r k }) w"
  by (auto simp: refused_def run_bind)

lemma refused_guard: "(\<And>x. refused (k x) w) \<Longrightarrow> refused (chain r k) w"
  by (cases r) (auto simp: refused_def intro!: exI [of _ "faults w"])

lemma find_None: "\<not> list_ex P xs \<Longrightarrow> find P xs = None"
  by (induction xs) auto

lemma refused_read:
  assumes "\<not> owned w owner b"
  shows "refused (GetBatchImageJobByBatchIDForOwner env (ow_UserID owner) (ow_APIKeyID owner) b) w"
proof -
  let ?get = "GetBatchImageJobByBatchIDForOwner env (ow_UserID owner) (ow_APIKeyID owner) b"
  obtain r w' where run: "run_state ?get w = (r, w')" by fastforce
  have "find (\<lambda>j. jb_BatchID j = b \<and> jb_UserID j = ow_UserID owner \<and> jb_APIKeyID j = Some (ow_APIKeyID owner)
      \<and> jb_UserDeletedAt j = None) (jobs w) = None"
    using assms by (intro find_None) (simp add: owned_def)
  with run have "(\<exists>e. r = Inl e) \<and> (\<exists>fs. w' = w\<lparr>faults := fs\<rparr>)"
    unfolding GetBatchImageJobByBatchIDForOwner_def read_job_def select_job_def
    by (auto elim!: run_elims stmt_cases)
  with run show ?thesis by (auto simp: refused_def)
qed

lemma public_jobs_ids: "run_state (public_jobs z js) w = (ps, w') \<Longrightarrow> map pu_ID ps = map jb_BatchID js"
  by (induction js arbitrary: ps w w') (auto elim!: run_elims dest: job_to_public_id)

lemma matches_not_deleted: "job_matches f j \<Longrightarrow> jf_ExcludeDeleted f \<Longrightarrow> jb_UserDeletedAt j = None"
  by (simp add: job_matches_def)

lemma listed_are_owned:
  assumes "run_state (ListBatchImageJobsForOwner env (ow_UserID owner) (ow_APIKeyID owner) f) w = (Inr js, w')"
    and del: "jf_ExcludeDeleted f"
  shows "list_all (\<lambda>j. owned w owner (jb_BatchID j)) js"
proof -
  let ?sel = "filter (\<lambda>j. jb_UserID j = ow_UserID owner \<and> jb_APIKeyID j = Some (ow_APIKeyID owner)
      \<and> job_matches f j) (jobs w)"
  from assms(1) obtain xs where js: "js = map (scanBatchImageJob env) xs" and xs: "set xs \<subseteq> set ?sel"
    unfolding ListBatchImageJobsForOwner_def select_jobs_def
    by (fastforce elim!: run_elims stmt_cases dest: in_set_takeD in_set_dropD split: sum.splits)
  have "owned w owner (jb_BatchID j)" if "j \<in> set ?sel" for j
    using that matches_not_deleted [OF _ del, of j] by (auto simp: owned_def list_ex_iff)
  then show ?thesis using xs by (auto simp: js list_all_iff)
qed

lemma list_public_owned:
  assumes "run_state (list_public env s owner q) w = (Inr (data, hasMore), w')"
  shows "list_all (\<lambda>p. owned w owner (pu_ID p)) data"
proof -
  from assms obtain f js w1 w2 where
    js: "run_state (ListBatchImageJobsForOwner env (ow_UserID owner) (ow_APIKeyID owner) f) w = (Inr js, w1)" and
    f: "jf_ExcludeDeleted f" and data: "run_state (public_jobs (pb_Zone s) js) w1 = (data, w2)"
    unfolding list_public_def Let_def by (fastforce elim!: run_elims)
  have "map pu_ID data = map jb_BatchID js" using data by (rule public_jobs_ids)
  moreover have "list_all (owned w owner) (map jb_BatchID js)"
    using listed_are_owned [OF js f] by (simp add: list_all_iff)
  ultimately have "list_all (owned w owner) (map pu_ID data)" by simp
  then show ?thesis by (simp add: list_all_iff)
qed

text \<open>
  C22: Nobody reaches a batch of another user or API key, nor one that its owner deleted: reading it,
  listing its items, marking it downloaded, cancelling and deleting it are refused and change nothing,
  and no listing shows it.
\<close>
theorem strangers_are_refused:
  assumes "\<not> owned w owner b"
  shows "refused (get_public env s owner b) w \<and> refused (ListItems env owner b iq) w
    \<and> refused (MarkDownloaded env owner b) w \<and> refused (DeleteRecord env owner b) w
    \<and> refused (Cancel env s owner b) w
    \<and> (fst (run_state (list_public env s owner jq) w) = Inr (data, hasMore) \<longrightarrow> list_all (\<lambda>p. pu_ID p \<noteq> b) data)"
proof (intro conjI impI)
  note read = refused_read [OF assms]
  show "refused (get_public env s owner b) w" "refused (MarkDownloaded env owner b) w"
    "refused (DeleteRecord env owner b) w" "refused (Cancel env s owner b) w"
    unfolding get_public_def public_answer_def MarkDownloaded_def DeleteRecord_def Cancel_def
    by (rule refused_chain [OF read])+
  have items: "refused (ListBatchImageItemsForOwner env (ow_UserID owner) (ow_APIKeyID owner) b f) w" for f
    unfolding ListBatchImageItemsForOwner_def by (rule refused_chain [OF read])
  show "refused (ListItems env owner b iq) w"
    unfolding ListItems_def Let_def by (intro refused_guard refused_chain [OF items])
  assume "fst (run_state (list_public env s owner jq) w) = Inr (data, hasMore)"
  then show "list_all (\<lambda>p. pu_ID p \<noteq> b) data"
    using list_public_owned [of env s owner jq w data hasMore] assms
    by (metis (mono_tags, lifting) list.pred_mono_strong prod.collapse)
qed

subsection \<open>Cancellation\<close>

lemma owner_read_InrD:
  assumes "run_state (GetBatchImageJobByBatchIDForOwner env u k b) w = (Inr job, w')"
    and "distinct (map jb_BatchID (jobs w))" "find_job w b = Some j"
  shows "job = scanBatchImageJob env j" "\<exists>fs. w' = w\<lparr>faults := fs\<rparr>"
proof -
  let ?q = "\<lambda>j. jb_BatchID j = b \<and> jb_UserID j = u \<and> jb_APIKeyID j = Some k \<and> jb_UserDeletedAt j = None"
  from assms(1) obtain i fs where i: "find ?q (jobs w) = Some i" "job = scanBatchImageJob env i" "w' = w\<lparr>faults := fs\<rparr>"
    unfolding GetBatchImageJobByBatchIDForOwner_def read_job_def select_job_def
    by (auto elim!: run_elims stmt_cases split: option.splits)
  have "i \<in> set (jobs w)" "jb_BatchID i = b" using find_SomeD [OF i(1)] by auto
  moreover have "j \<in> set (jobs w)" "jb_BatchID j = b" using find_SomeD [OF assms(3) [unfolded find_job_def]] by auto
  ultimately have "i = j" using assms(2) by (simp add: distinct_map inj_on_def)
  with i show "job = scanBatchImageJob env j" "\<exists>fs. w' = w\<lparr>faults := fs\<rparr>" by auto
qed

lemma cancel_release_InrD:
  assumes "run_state (cancel_release env s owner job) w = (Inr (), w')" "same_hold env job j"
  shows "hold_returned env w' j" "keeps_jobs w w'"
proof -
  let ?h = "batchImageDerefString (jb_RequestHash job)"
  from assms(1) obtain w1 where rel: "run_state (releaseBatchImageBalanceHold env job ?h) w = (Inr (), w1)"
    and i: "run_state (invalidateAuthCache (pb_AuthCache s) (ow_UserID owner)) w1 = ((), w')"
    unfolding cancel_release_def by (auto elim!: run_elims)
  have "hold_returned env w1 j"
    using release_hold_InrD [OF rel] assms(2) by (auto simp: hold_returned_def same_hold_def release_key_def)
  then show "hold_returned env w' j"
    using keeps_billing_claimed [OF stepsD [OF billing_of_jobs.side_effects(1) i]] by (simp add: hold_returned_def)
  have "steps keeps_jobs (releaseBatchImageBalanceHold env job ?h)"
    unfolding releaseBatchImageBalanceHold_def
    by (intro steps_intro jobs_of_billing.hold_operations jobs_of_billing.props)
  with rel have "keeps_jobs w w1" by (blast dest: stepsD)
  then show "keeps_jobs w w'" using stepsD [OF usage_log_keeps_jobs(2) i] by (simp add: keeps_jobs_def)
qed

lemma keeps_tables_props: "reflp keeps_tables" "transp keeps_tables" "timeless keeps_tables"
  by (auto simp: keeps_tables_def keeps_jobs_def keeps_billing_def ledger_def reflp_def transp_def timeless_def)

lemma answers_keep_tables: "steps keeps_tables (public_answer s r)" "steps keeps_tables (get_public env s owner b)"
proof -
  show "steps keeps_tables (public_answer s r)" for r
    unfolding public_answer_def BatchImageJobToPublic_def batchImagePublicTaskName_def defaultBatchImageTaskName_def
    by (intro steps_intro keeps_tables_props)
  moreover have "steps keeps_tables (GetBatchImageJobByBatchIDForOwner env u k b)" for u k
    using job_reads_keep_jobs(1) [of env u k b] billing_of_jobs.reads(2) [of env u k b]
    by (auto simp: steps_def keeps_tables_def)
  ultimately show "steps keeps_tables (get_public env s owner b)"
    unfolding get_public_def by (intro steps_intro keeps_tables_props)
qed


lemma strangers_are_refused_witness:
  "refused (Cancel exact_driver image_service \<lparr>ow_UserID = 2, ow_APIKeyID = 7, ow_GroupID = None\<rparr> ''b1'')
     (system_with (demo_job ''b1'' ''running''))"
proof -
  have "\<not> owned (system_with (demo_job ''b1'' ''running'')) \<lparr>ow_UserID = 2, ow_APIKeyID = 7, ow_GroupID = None\<rparr> ''b1''"
    by code_simp
  from strangers_are_refused [OF this] show ?thesis by blast
qed


subsection \<open>Two weaknesses\<close>

text \<open>
  Nothing in the tables keeps an idempotency key from being used twice: the check is a read before the
  insert, and the index on the column is not unique.  Two submissions that both read before either inserts
  create two jobs and reserve two holds.
\<close>

definition second_run where
  "second_run w = run_state (CreateBatchImageJob exact_driver ((one_item_params one_item_snapshot ''k1'')\<lparr>cj_BatchID := ''imgbatch_02''\<rparr>)) w"

lemma same_key_created_twice:
  "map (\<lambda>j. (jb_BatchID j, jb_IdempotencyKey j)) (jobs (snd (second_run (snd created_run))))
    = [(''imgbatch_01'', Some ''k1''), (''imgbatch_02'', Some ''k1'')]"
  by code_simp

text \<open>
  When the commit of the reservation succeeds but its answer is lost, the submission takes the hold for
  failed: the job is marked failed and hidden, the money stays frozen.  The recovery pass looks only at
  jobs that are created or uploading, and the owner cannot cancel a hidden job.
\<close>

definition lost_reserve where
  "lost_reserve = run_state (submit_hold exact_driver image_service image_owner one_item_request ''h''
     (scanBatchImageJob exact_driver (demo_job ''b1'' ''created'')))
     (system_with (demo_job ''b1'' ''created'')\<lparr>faults := [Answered, Answered, Answered, Answered, AnswerLost]\<rparr>)"


lemma lost_reserve_answer_leaks_hold:
  "case lost_reserve of (r, w) \<Rightarrow> isl r \<and> map_option u_frozen (users w 1) = Some 4
      \<and> map (\<lambda>j. (jb_Status j, jb_UserDeletedAt j)) (jobs w) = [(''failed'', Some 0)]
      \<and> \<not> hold_returned exact_driver w (demo_job ''b1'' ''created'')"
  by code_simp

end
