(* ===== verification/BatchImageCleanup.thy ===== *)
theory BatchImageCleanup
  imports BatchImagePublicProperties
begin

section \<open>Deleting inputs and outputs at the provider\<close>

text \<open>
  \<^verbatim>\<open>service/batch_image_cleanup.go\<close>: the inputs of ended jobs and the outputs of jobs that expired or whose
  owner asked for it are deleted at the provider, and the row records it.  The background loop is a sequence of
  \<open>RunOnce_cleanup\<close>; log lines are left out.
\<close>

definition ErrBatchImageOutputDeleteNotReady :: goerr where
  "ErrBatchImageOutputDeleteNotReady = New 409 ''BATCH_IMAGE_OUTPUT_DELETE_NOT_READY''
     ''batch image output can only be deleted after completion''"
definition ErrBatchImageCleanupFailed :: goerr where
  "ErrBatchImageCleanupFailed = New 502 ''BATCH_IMAGE_CLEANUP_FAILED'' ''batch image cleanup failed''"
definition ErrBatchImageCleanupUnsafePath :: goerr where
  "ErrBatchImageCleanupUnsafePath = New 400 ''BATCH_IMAGE_CLEANUP_UNSAFE_PATH'' ''batch image cleanup path is unsafe''"
definition ErrBatchImageProviderCleanupFailed :: goerr where
  "ErrBatchImageProviderCleanupFailed = New 502 ''BATCH_IMAGE_PROVIDER_CLEANUP_FAILED''
     ''batch image provider cleanup failed''"
definition ErrBatchImageProviderUnsafeCleanupPath :: goerr where
  "ErrBatchImageProviderUnsafeCleanupPath = New 400 ''VERTEX_UNSAFE_CLEANUP_PATH'' ''unsafe batch image cleanup path''"
definition ErrUnsupportedCleanupTarget :: goerr where
  "ErrUnsupportedCleanupTarget = New 400 ''BATCH_IMAGE_PROVIDER_UNSUPPORTED_CLEANUP_TARGET''
     ''unsupported batch image cleanup target''"

record cleanup_config =
  cc_Enabled :: bool
  cc_InputRetentionAfterTerminalHours :: int
  cc_CleanupIntervalMinutes :: int
  cc_CleanupBatchSize :: int

record 'a BatchImageCleanupService =
  cu_Registry :: "'a BatchImageProviderRegistry option"
  cu_ResolveAccount :: "(int \<Rightarrow> goerr + 'a) option"
  cu_Config :: "cleanup_config option"
  cu_Zone :: go_zone

record BatchImageCleanupRunResult =
  cl_InputCleaned :: int
  cl_OutputCleaned :: int
  cl_Failures :: int

definition inputRetentionAfterTerminal :: "'a BatchImageCleanupService \<Rightarrow> int" where
  "inputRetentionAfterTerminal s = (case cu_Config s of
      Some c \<Rightarrow> if 0 < cc_InputRetentionAfterTerminalHours c then cc_InputRetentionAfterTerminalHours c * hour
                else 24 * hour
    | None \<Rightarrow> 24 * hour)"

definition cleanupInterval :: "'a BatchImageCleanupService \<Rightarrow> int" where
  "cleanupInterval s = (case cu_Config s of
      Some c \<Rightarrow> if 0 < cc_CleanupIntervalMinutes c then cc_CleanupIntervalMinutes c * minute else 30 * minute
    | None \<Rightarrow> 30 * minute)"

definition cleanupBatchSize :: "'a BatchImageCleanupService \<Rightarrow> int" where
  "cleanupBatchSize s = (case cu_Config s of
      Some c \<Rightarrow> if 0 < cc_CleanupBatchSize c then cc_CleanupBatchSize c else 100
    | None \<Rightarrow> 100)"

text \<open>
  \<^verbatim>\<open>strings.ToUpper\<close> on ASCII letters; the result is only searched for texts without \<open>I\<close> and \<open>S\<close>, the two ASCII
  letters that are the upper case of other runes.
\<close>

definition upper_char :: "char \<Rightarrow> char" where
  "upper_char c = (let n = (of_char c :: nat) in if 97 \<le> n \<and> n \<le> 122 then char_of (n - 32) else c)"

text \<open>The same on the bits of the character, for evaluation.\<close>

lemma upper_char_code [code]: "upper_char (Char b0 b1 b2 b3 b4 b5 b6 b7) =
   (if \<not> b7 \<and> b6 \<and> b5 \<and> (b0 \<or> b1 \<or> b2 \<or> b3 \<or> b4) \<and> \<not> (b4 \<and> b3 \<and> (b2 \<or> b1 \<and> b0))
    then Char b0 b1 b2 b3 b4 False b6 b7 else Char b0 b1 b2 b3 b4 b5 b6 b7)"
  by (cases b0; cases b1; cases b2; cases b3; cases b4; cases b5; cases b6; cases b7;
      simp add: upper_char_def Let_def of_char_Char char_of_def bit_0)

definition cleanupErrorIsNotFound :: "goerr \<Rightarrow> bool" where
  "cleanupErrorIsNotFound err = (let reason = map upper_char (Reason (Some err)); msg = map upper_char (error_text err)
     in contains reason ''NOT_FOUND'' \<or> contains msg ''NOT FOUND'' \<or> contains msg ''404'')"

definition cleanupFailureCode :: "goerr \<Rightarrow> string" where
  "cleanupFailureCode err =
     (if err_is err ErrBatchImageProviderUnsafeCleanupPath then ''BATCH_IMAGE_CLEANUP_UNSAFE_PATH''
      else if trim_space (Reason (Some err)) \<noteq> [] then trim_space (Reason (Some err))
      else ''BATCH_IMAGE_PROVIDER_CLEANUP_FAILED'')"

definition appendCleanupEvent :: "string \<Rightarrow> string \<Rightarrow> payload option \<Rightarrow> ('z batch_db_scheme, unit) state" where
  "appendCleanupEvent batchID eventType payload = do {
     e \<leftarrow> AppendBatchImageEvent batchID eventType payload;
     ret () }"

definition cleanupEventPayload :: "string \<Rightarrow> string \<Rightarrow> string \<Rightarrow> payload" where
  "cleanupEventPayload batchID target reason =
     [(''batch_id'', JStr batchID), (''cleanup_target'', JStr target), (''reason'', JStr reason)]"

definition callProviderCleanup :: "'a BatchImageCleanupService \<Rightarrow> f64 BatchImageJob \<Rightarrow> string \<Rightarrow> goerr + unit" where
  "callProviderCleanup s job target = (case (cu_Registry s, cu_ResolveAccount s) of
      (Some registry, Some resolve) \<Rightarrow> (case registry (jb_Provider job) of
          None \<Rightarrow> Inl ErrBatchImageUnsupportedProvider
        | Some provider \<Rightarrow> (case jb_AccountID job of
              None \<Rightarrow> Inl ErrBatchImageMissingAccountID
            | Some accountID \<Rightarrow> if accountID \<le> 0 then Inl ErrBatchImageMissingAccountID
                else sum_bind (resolve accountID) (\<lambda>account.
                  (case pv_Cleanup provider job account target of
                     Inl err \<Rightarrow> if cleanupErrorIsNotFound err then Inr () else Inl err
                   | Inr _ \<Rightarrow> Inr ()))))
    | _ \<Rightarrow> Inl ErrBatchImageCleanupFailed)"

text \<open>From the call of the provider to the end.\<close>

definition delete_at_provider :: "'a BatchImageCleanupService \<Rightarrow> f64 BatchImageJob \<Rightarrow> string \<Rightarrow> string \<Rightarrow>
    ('z batch_db_scheme, goerr + unit) state" where
  "delete_at_provider s job target reason = (case callProviderCleanup s job target of
      Inl err \<Rightarrow> do {
        r \<leftarrow> RecordBatchImageCleanupFailure (jb_BatchID job) (cleanupFailureCode err)
               (sanitizeBatchImagePublicMessage (error_text err));
        e \<leftarrow> appendCleanupEvent (jb_BatchID job) (target @ ''_cleanup_failed'')
               (Some (cleanupEventPayload (jb_BatchID job) target reason @ [(''error_code'', JStr (cleanupFailureCode err))]));
        ret (Inl (if err_is err ErrBatchImageProviderUnsafeCleanupPath then ErrBatchImageCleanupUnsafePath
                  else ErrBatchImageProviderCleanupFailed)) }
    | Inr _ \<Rightarrow> do {
        deletedAt \<leftarrow> time_now;
        if target = CleanupTargetInput then MarkBatchImageInputDeleted (jb_BatchID job) deletedAt
        else MarkBatchImageOutputDeleted (jb_BatchID job) deletedAt })"

definition cleanupJob :: "'a BatchImageCleanupService \<Rightarrow> f64 BatchImageJob \<Rightarrow> string \<Rightarrow> string \<Rightarrow>
    ('z batch_db_scheme, goerr + unit) state" where
  "cleanupJob s job target reason =
     (if target = CleanupTargetInput then
        if jb_InputDeletedAt job \<noteq> None then ret (Inr ())
        else if \<not> IsTerminalBatchImageJobStatus (jb_Status job) then ret (Inl ErrBatchImageCleanupFailed)
        else do {
          e \<leftarrow> appendCleanupEvent (jb_BatchID job) ''input_cleanup_started''
                 (Some (cleanupEventPayload (jb_BatchID job) target reason));
          delete_at_provider s job target reason }
      else if target = CleanupTargetOutput then
        if jb_OutputDeletedAt job \<noteq> None \<or> jb_Status job = BatchImageJobStatusOutputDeleted then ret (Inr ())
        else if jb_Status job \<notin> {BatchImageJobStatusCompleted, BatchImageJobStatusFailed, BatchImageJobStatusCancelled}
        then ret (Inl ErrBatchImageOutputDeleteNotReady)
        else do {
          e \<leftarrow> appendCleanupEvent (jb_BatchID job) ''output_cleanup_started''
                 (Some (cleanupEventPayload (jb_BatchID job) target reason));
          delete_at_provider s job target reason }
      else ret (Inl ErrUnsupportedCleanupTarget))"

definition DeleteOutputsForOwner :: "'e driver_scheme \<Rightarrow> 'a BatchImageCleanupService \<Rightarrow> BatchImageOwner \<Rightarrow> string \<Rightarrow>
    ('z batch_db_scheme, goerr + BatchImagePublicBatch) state" where
  "DeleteOutputsForOwner env s owner batchID = do {
     r \<leftarrow> GetBatchImageJobByBatchIDForOwner env (ow_UserID owner) (ow_APIKeyID owner) batchID;
     chain r (\<lambda>job.
       if jb_Status job = BatchImageJobStatusOutputDeleted \<or> jb_OutputDeletedAt job \<noteq> None then do {
         p \<leftarrow> BatchImageJobToPublic (cu_Zone s) job;
         ret (Inr p) }
       else if jb_Status job \<noteq> BatchImageJobStatusCompleted then ret (Inl ErrBatchImageOutputDeleteNotReady)
       else do {
         e \<leftarrow> appendCleanupEvent (jb_BatchID job) ''manual_output_delete_requested''
                (Some (cleanupEventPayload (jb_BatchID job) CleanupTargetOutput ''manual''));
         c \<leftarrow> cleanupJob s job CleanupTargetOutput ''manual'';
         chain c (\<lambda>_. do {
           u \<leftarrow> GetBatchImageJobByBatchIDForOwner env (ow_UserID owner) (ow_APIKeyID owner) batchID;
           chain u (\<lambda>updated. do {
             p \<leftarrow> BatchImageJobToPublic (cu_Zone s) updated;
             ret (Inr p) }) }) }) }"

definition CleanupInput :: "'e driver_scheme \<Rightarrow> 'a BatchImageCleanupService \<Rightarrow> string \<Rightarrow>
    ('z batch_db_scheme, goerr + unit) state" where
  "CleanupInput env s batchID = do {
     r \<leftarrow> GetBatchImageJobByBatchID env batchID;
     chain r (\<lambda>job. cleanupJob s job CleanupTargetInput ''ttl'') }"

definition CleanupOutput :: "'e driver_scheme \<Rightarrow> 'a BatchImageCleanupService \<Rightarrow> string \<Rightarrow> string \<Rightarrow>
    ('z batch_db_scheme, goerr + unit) state" where
  "CleanupOutput env s batchID reason = do {
     r \<leftarrow> GetBatchImageJobByBatchID env batchID;
     chain r (\<lambda>job. cleanupJob s job CleanupTargetOutput reason) }"

text \<open>The loop over the due jobs: how many were cleaned and how many failed.\<close>

fun cleanup_jobs :: "'a BatchImageCleanupService \<Rightarrow> string \<Rightarrow> string \<Rightarrow> f64 BatchImageJob list \<Rightarrow>
    ('z batch_db_scheme, int \<times> int) state" where
  "cleanup_jobs s target reason [] = ret (0, 0)"
| "cleanup_jobs s target reason (job # js) = do {
     r \<leftarrow> cleanupJob s job target reason;
     (ok, failed) \<leftarrow> cleanup_jobs s target reason js;
     ret (case r of Inl _ \<Rightarrow> (ok, failed + 1) | Inr _ \<Rightarrow> (ok + 1, failed)) }"

definition RunOnce_cleanup :: "'e driver_scheme \<Rightarrow> 'a BatchImageCleanupService \<Rightarrow> int \<Rightarrow>
    ('z batch_db_scheme, BatchImageCleanupRunResult \<times> goerr option) state" where
  "RunOnce_cleanup env s now0 = do {
     now \<leftarrow> (if now0 = zero_time then time_now else ret now0);
     inputs \<leftarrow> ListBatchImageJobsDueForInputCleanup env (now - inputRetentionAfterTerminal s) (cleanupBatchSize s);
     case inputs of
       Inl err \<Rightarrow> ret (\<lparr>cl_InputCleaned = 0, cl_OutputCleaned = 0, cl_Failures = 0\<rparr>, Some err)
     | Inr inputJobs \<Rightarrow> do {
         (inputCleaned, inputFailures) \<leftarrow> cleanup_jobs s CleanupTargetInput ''ttl'' inputJobs;
         outputs \<leftarrow> ListBatchImageJobsDueForOutputCleanup env now (cleanupBatchSize s);
         case outputs of
           Inl err \<Rightarrow> ret (\<lparr>cl_InputCleaned = inputCleaned, cl_OutputCleaned = 0, cl_Failures = inputFailures\<rparr>, Some err)
         | Inr outputJobs \<Rightarrow> do {
             (outputCleaned, outputFailures) \<leftarrow> cleanup_jobs s CleanupTargetOutput ''expired'' outputJobs;
             ret (\<lparr>cl_InputCleaned = inputCleaned, cl_OutputCleaned = outputCleaned,
                   cl_Failures = inputFailures + outputFailures\<rparr>, None) } } }"

subsection \<open>What a cleanup may change\<close>

text \<open>
  \<open>cleaned s w w'\<close>: the tables of the billing are as before, and every job is still there; its status is as
  before, or it was completed and its output is deleted now; and a deletion that is recorded now was answered by the
  provider.
\<close>

definition deletion_ok :: "'a BatchImageCleanupService \<Rightarrow> string \<Rightarrow> string \<Rightarrow> bool" where
  "deletion_ok s b target \<longleftrightarrow> (\<exists>job. jb_BatchID job = b \<and> callProviderCleanup s job target = Inr ())"

definition job_cleaned :: "'a BatchImageCleanupService \<Rightarrow> rat BatchImageJob \<Rightarrow> rat BatchImageJob \<Rightarrow> bool" where
  "job_cleaned s j j' \<longleftrightarrow> job_identity j' = job_identity j
     \<and> (jb_Status j' = jb_Status j \<or> jb_Status j = BatchImageJobStatusCompleted
          \<and> jb_Status j' = BatchImageJobStatusOutputDeleted \<and> deletion_ok s (jb_BatchID j) CleanupTargetOutput)
     \<and> (jb_InputDeletedAt j' = jb_InputDeletedAt j \<or> jb_InputDeletedAt j = None \<and> deletion_ok s (jb_BatchID j) CleanupTargetInput)
     \<and> (jb_OutputDeletedAt j' = jb_OutputDeletedAt j \<or> jb_OutputDeletedAt j = None \<and> deletion_ok s (jb_BatchID j) CleanupTargetOutput)"

definition cleaned :: "'a BatchImageCleanupService \<Rightarrow> 'z batch_db_scheme \<Rightarrow> 'z batch_db_scheme \<Rightarrow> bool" where
  "cleaned s w w' \<longleftrightarrow> keeps_billing w w'
     \<and> (\<forall>b j. find_job w b = Some j \<longrightarrow> (\<exists>j'. find_job w' b = Some j' \<and> job_cleaned s j j'))"

lemma job_cleaned_refl [simp]: "job_cleaned s j j"
  by (simp add: job_cleaned_def)

lemma job_cleaned_trans: "job_cleaned s j k \<Longrightarrow> job_cleaned s k l \<Longrightarrow> job_cleaned s j l"
  by (auto simp: job_cleaned_def job_identity_def)

lemma cleaned_props: "reflp (cleaned s)" "transp (cleaned s)" "timeless (cleaned s)"
proof -
  show "reflp (cleaned s)" by (auto simp: reflp_def cleaned_def keeps_billing_def)
  show "transp (cleaned s)"
    unfolding transp_def cleaned_def keeps_billing_def by (auto intro: job_cleaned_trans) (metis job_cleaned_trans)
  show "timeless (cleaned s)" by (auto simp: timeless_def cleaned_def keeps_billing_def ledger_def)
qed

lemma cleaned_put:
  assumes "find_job w b = Some j" "job_cleaned s j j'"
  shows "cleaned s w (put_job j' w)"
proof -
  have "jb_BatchID j = b" "jb_BatchID j' = b"
    using find_job_id [OF assms(1)] assms(2) by (simp_all add: job_cleaned_def job_identity_def)
  moreover have "keeps_billing w (put_job j' w)" by (simp add: keeps_billing_def ledger_def put_job_def)
  ultimately show ?thesis using assms by (auto simp: cleaned_def find_put_job)
qed

lemma cleaned_refl: "cleaned s w w"
  using cleaned_props(1) by (rule reflpD)

lemma cleaned_exec:
  assumes "\<And>j j'. jb_BatchID j = b \<Longrightarrow> f j = Inr j' \<Longrightarrow> job_cleaned s j j'"
  shows "steps (cleaned s) (exec_job b p f)"
  unfolding exec_job_def using assms
  by (intro steps_stmt cleaned_props)
    (auto simp: cleaned_refl find_job_id split: option.splits sum.splits intro: cleaned_put)

lemma cleaned_event: "steps (cleaned s) (appendBatchImageEventWithSQL b t p)"
  unfolding appendBatchImageEventWithSQL_def
  by (intro steps_intro steps_stmt cleaned_props) (auto simp: cleaned_def keeps_billing_def ledger_def)

lemma cleaned_marks:
  shows "steps (cleaned s) (RecordBatchImageCleanupFailure b c m)"
    and "deletion_ok s b CleanupTargetInput \<Longrightarrow> steps (cleaned s) (MarkBatchImageInputDeleted b t)"
    and "deletion_ok s b CleanupTargetOutput \<Longrightarrow> steps (cleaned s) (MarkBatchImageOutputDeleted b t)"
  unfolding RecordBatchImageCleanupFailure_def MarkBatchImageInputDeleted_def MarkBatchImageOutputDeleted_def
    require_row_def
  by (intro steps_intro cleaned_exec cleaned_event cleaned_props;
      auto simp: job_cleaned_def job_identity_def touch_def coalesce_def sum_bind_Inr set_error_def
        split: option.splits if_splits)+

lemma cleaned_cleanup_event: "steps (cleaned s) (appendCleanupEvent b t p)"
  unfolding appendCleanupEvent_def AppendBatchImageEvent_def by (intro steps_intro cleaned_event cleaned_props)

lemma cleanupJob_cleaned: "steps (cleaned s) (cleanupJob s job target reason)"
proof -
  note event = cleaned_cleanup_event
  have "deletion_ok s (jb_BatchID job) t" if "callProviderCleanup s job t = Inr u" for t u
    using that by (auto simp: deletion_ok_def)
  then have "steps (cleaned s) (delete_at_provider s job t reason)" if "t \<in> {CleanupTargetInput, CleanupTargetOutput}" for t
    unfolding delete_at_provider_def using that
    by (cases "callProviderCleanup s job t") (auto intro!: steps_intro cleaned_marks cleaned_props event)
  then show ?thesis
    unfolding cleanupJob_def by (intro steps_intro cleaned_props event) auto
qed

lemma cleanup_jobs_cleaned: "steps (cleaned s) (cleanup_jobs s target reason js)"
  by (induction js) (auto intro!: steps_intro cleaned_props cleanupJob_cleaned split: prod.split)

lemma due_lists_clean: "steps (cleaned s) (ListBatchImageJobsDueForInputCleanup env c n)"
    "steps (cleaned s) (ListBatchImageJobsDueForOutputCleanup env c n)"
  unfolding ListBatchImageJobsDueForInputCleanup_def ListBatchImageJobsDueForOutputCleanup_def list_jobs_def select_jobs_def
  by (intro steps_intro steps_stmt cleaned_props; simp add: cleaned_refl)+


lemma output_deleted_InrD:
  assumes "run_state (MarkBatchImageOutputDeleted b t) w = (Inr (), w')"
  shows "\<exists>j. find_job w' b = Some j \<and> jb_OutputDeletedAt j \<noteq> None"
proof -
  from assms obtain n w1 where
    upd: "run_state (exec_job b (\<lambda>_. True) (\<lambda>j. Inr ((touch t j)\<lparr>
            jb_Status := (if jb_Status j = BatchImageJobStatusCompleted
                          then BatchImageJobStatusOutputDeleted else jb_Status j),
            jb_OutputDeletedAt := coalesce (jb_OutputDeletedAt j) t,
            jb_FinishedAt := (if jb_Status j = BatchImageJobStatusCompleted
                              then coalesce (jb_FinishedAt j) t else jb_FinishedAt j)\<rparr>))) w = (Inr n, w1)" "n \<noteq> 0" and
    ev: "\<exists>e p. run_state (appendBatchImageEventWithSQL b e p) w1 = (Inr (), w')"
    unfolding MarkBatchImageOutputDeleted_def require_row_def by (auto elim!: run_elims)
  from upd obtain j j' fs where j: "find_job w b = Some j" and w1: "w1 = put_job j' (w\<lparr>faults := fs\<rparr>)" and
    "j' = (touch t j)\<lparr>jb_Status := (if jb_Status j = BatchImageJobStatusCompleted
                          then BatchImageJobStatusOutputDeleted else jb_Status j),
            jb_OutputDeletedAt := coalesce (jb_OutputDeletedAt j) t,
            jb_FinishedAt := (if jb_Status j = BatchImageJobStatusCompleted
                              then coalesce (jb_FinishedAt j) t else jb_FinishedAt j)\<rparr>"
    by (elim exec_job_InrD) auto
  then have j': "jb_BatchID j' = jb_BatchID j" "jb_OutputDeletedAt j' \<noteq> None"
    by (auto simp: touch_def coalesce_def split: option.split)
  have "find_job w1 b = Some j'" using j j'(1) find_job_id [OF j] w1 by (simp add: find_put_job)
  then show ?thesis using ev j'(2) event_keeps_jobs(1) by metis
qed


definition cleanup_service :: "(f64 BatchImageJob \<Rightarrow> goerr + unit) \<Rightarrow> unit BatchImageCleanupService" where
  "cleanup_service answer = \<lparr>cu_Registry = Some [BatchImageProviderVertex \<mapsto>
       (demo_provider [])\<lparr>pv_Cleanup := (\<lambda>job _ _. answer job)\<rparr>],
     cu_ResolveAccount = Some (\<lambda>_. Inr ()), cu_Config = None, cu_Zone = UTC\<rparr>"


text \<open>
  The answer "not found" is looked for in the text of the error, which for an error of the network holds the URL and
  with it the id of the batch: when the id has the digits 404 in it, a deletion that never reached the provider is
  recorded as done.
\<close>

definition unreachable :: "f64 BatchImageJob \<Rightarrow> goerr" where
  "unreachable job = WithCause (New 502 ''VERTEX_INVALID_RESPONSE'' ''Vertex API request failed'')
     (PlainErr (''Delete '' @ jb_BatchID job @ '': connection refused''))"

lemma unreachable_provider_counts_as_deleted:
  "map (\<lambda>b. case run_state (CleanupOutput exact_driver (cleanup_service (\<lambda>job. Inl (unreachable job))) b ''expired'')
        (system_with (demo_job b ''completed'')) of (r, w) \<Rightarrow> (isl r, map jb_Status (jobs w)))
      [''imgbatch_a405'', ''imgbatch_a404'']
    = [(True, [''completed'']), (False, [''output_deleted''])]"
  by code_simp

end
