(* ===== verification/DownloadLimiter.thy ===== *)
theory DownloadLimiter
  imports DownloadFiles BatchImageCleanup
begin

section \<open>How many downloads a user may run\<close>

text \<open>
  \<^verbatim>\<open>repository/batch_image_download_limiter.go\<close>: a counter for every user in Redis.  A Lua script is one step, as
  Redis runs it; a counter that expired reads as zero.
\<close>

record batch_site = batch_sys +
  downloads :: "string \<Rightarrow> (int \<times> int) option"

record download_config =
  dc_MaxDownloadItemsZip :: int
  dc_MaxDownloadBytesPerRequest :: int
  dc_MaxDownloadDurationSeconds :: int
  dc_MaxDownloadConcurrencyPerUser :: int

definition ErrBatchImageDownloadLimited :: goerr where
  "ErrBatchImageDownloadLimited = New 429 ''BATCH_IMAGE_DOWNLOAD_LIMITED'' ''too many batch image downloads''"

record batchImageDownloadLimiter =
  dl_activePrefix :: string
  dl_maxActive :: int
  dl_ttl :: int

definition NewBatchImageDownloadLimiter :: "download_config option \<Rightarrow> batchImageDownloadLimiter" where
  "NewBatchImageDownloadLimiter cfg = \<lparr>dl_activePrefix = ''batch_image:download:active:'',
     dl_maxActive = (case cfg of Some c \<Rightarrow> positive_or 2 (dc_MaxDownloadConcurrencyPerUser c) | None \<Rightarrow> 2),
     dl_ttl = (case cfg of Some c \<Rightarrow> positive_or (10 * minute) (dc_MaxDownloadDurationSeconds c * second)
       | None \<Rightarrow> 10 * minute)\<rparr>"

definition activeKey :: "batchImageDownloadLimiter \<Rightarrow> string \<Rightarrow> string" where
  "activeKey l userID = dl_activePrefix l @ userID"

text \<open>\<^verbatim>\<open>tonumber(GET key or "0")\<close>\<close>

definition active_count :: "'z batch_site_scheme \<Rightarrow> string \<Rightarrow> int" where
  "active_count w key = (case downloads w key of None \<Rightarrow> 0 | Some (n, e) \<Rightarrow> if e \<le> clock w then 0 else n)"

text \<open>\<^verbatim>\<open>EXPIRE\<close> with a time that is not positive deletes the key.\<close>

definition acquire_script :: "string \<Rightarrow> int \<Rightarrow> int \<Rightarrow> 'z batch_site_scheme \<Rightarrow> (goerr + int) \<times> 'z batch_site_scheme" where
  "acquire_script key mx seconds w = (let current = active_count w key in
     if mx \<le> current then (Inr 0, w)
     else (Inr 1, w\<lparr>downloads := (downloads w)(key :=
       (if seconds \<le> 0 then None else Some (current + 1, clock w + seconds * second)))\<rparr>))"

definition release_script :: "string \<Rightarrow> 'z batch_site_scheme \<Rightarrow> (goerr + int) \<times> 'z batch_site_scheme" where
  "release_script key w = (let current = active_count w key in
     if current \<le> 1 then (Inr 0, w\<lparr>downloads := (downloads w)(key := None)\<rparr>)
     else (Inr (current - 1), w\<lparr>downloads := (downloads w)(key :=
       map_option (\<lambda>(n, e). (current - 1, e)) (downloads w key))\<rparr>))"

text \<open>\<^verbatim>\<open>sync.Once\<close> with the error it keeps: the first call runs, every other one has its answer.\<close>

definition once :: "('w, goerr + unit) state \<Rightarrow> (goerr + unit) option \<Rightarrow> ('w, (goerr + unit) \<times> (goerr + unit) option) state" where
  "once run kept = (case kept of
      Some r \<Rightarrow> ret (r, kept)
    | None \<Rightarrow> do { r \<leftarrow> run; ret (r, Some r) })"

text \<open>A permit is the call that returns it.\<close>

record 'w BatchImageDownloadPermit =
  pm_release :: "('w, goerr + unit) state"

record 'w BatchImageDownloadLimiter =
  lm_Acquire :: "string \<Rightarrow> string \<Rightarrow> ('w, goerr + 'w BatchImageDownloadPermit) state"

definition permit_Release :: "'w BatchImageDownloadPermit \<Rightarrow> (goerr + unit) option \<Rightarrow>
    ('w, (goerr + unit) \<times> (goerr + unit) option) state" where
  "permit_Release p = once (pm_release p)"

definition redis_permit :: "string \<Rightarrow> 'z batch_site_scheme BatchImageDownloadPermit" where
  "redis_permit key = \<lparr>pm_release = (if key = [] then ret (Inr ()) else do {
     r \<leftarrow> stmt (release_script key);
     ret (case r of Inl err \<Rightarrow> Inl err | Inr _ \<Rightarrow> Inr ()) })\<rparr>"

definition limiter_Acquire :: "batchImageDownloadLimiter \<Rightarrow> string \<Rightarrow> string \<Rightarrow>
    ('z batch_site_scheme, goerr + 'z batch_site_scheme BatchImageDownloadPermit) state" where
  "limiter_Acquire l userID kind = do {
     ok \<leftarrow> stmt (acquire_script (activeKey l userID) (dl_maxActive l) (go_div (dl_ttl l) second));
     chain ok (\<lambda>ok. ret (if ok \<noteq> 1 then Inl ErrBatchImageDownloadLimited
                       else Inr (redis_permit (activeKey l userID)))) }"

definition redis_limiter :: "batchImageDownloadLimiter \<Rightarrow> 'z batch_site_scheme BatchImageDownloadLimiter" where
  "redis_limiter l = \<lparr>lm_Acquire = limiter_Acquire l\<rparr>"

subsection \<open>Never more than the limit\<close>

text \<open>
  The clients of the limiter in any order: the permits that are out, with the time each was handed out.  Calls may
  fail or lose their answers.  No download outlives the time to live of the counter, which is the longest duration that
  is configured for one.
\<close>

definition lifetime :: "batchImageDownloadLimiter \<Rightarrow> int" where
  "lifetime l = go_div (dl_ttl l) second * second"

inductive limiter_run :: "batchImageDownloadLimiter \<Rightarrow> batch_site \<Rightarrow> (string \<times> int) list \<Rightarrow> bool"
  for l where
  start: "downloads w = Map.empty \<Longrightarrow> limiter_run l w []"
| granted: "limiter_run l w ps \<Longrightarrow> run_state (limiter_Acquire l u kind) w = (Inr p, w') \<Longrightarrow>
    limiter_run l w' ((u, clock w) # ps)"
| refused: "limiter_run l w ps \<Longrightarrow> run_state (limiter_Acquire l u kind) w = (Inl err, w') \<Longrightarrow> limiter_run l w' ps"
| returned: "limiter_run l w ps \<Longrightarrow> (u, t) \<in> set ps \<Longrightarrow>
    run_state (pm_release (redis_permit (activeKey l u))) w = (r, w') \<Longrightarrow> limiter_run l w' (remove1 (u, t) ps)"
| passes: "limiter_run l w ps \<Longrightarrow> downloads w' = downloads w \<Longrightarrow> clock w \<le> clock w' \<Longrightarrow>
    (\<And>u t. (u, t) \<in> set ps \<Longrightarrow> clock w' < t + lifetime l) \<Longrightarrow> limiter_run l w' ps"

definition held :: "string \<Rightarrow> (string \<times> int) list \<Rightarrow> int" where
  "held u ps = int (length (filter (\<lambda>p. fst p = u) ps))"

text \<open>The counter of a user: at least the permits that are out, at most the limit, and it outlives the permits.\<close>

definition counted :: "batchImageDownloadLimiter \<Rightarrow> batch_site \<Rightarrow> (string \<times> int) list \<Rightarrow> string \<Rightarrow> bool" where
  "counted l w ps u \<longleftrightarrow> (case downloads w (activeKey l u) of
      None \<Rightarrow> u \<notin> fst ` set ps
    | Some (n, e) \<Rightarrow> held u ps \<le> n \<and> n \<le> dl_maxActive l
        \<and> (\<forall>t. (u, t) \<in> set ps \<longrightarrow> t + lifetime l \<le> e))"

definition limiter_inv :: "batchImageDownloadLimiter \<Rightarrow> batch_site \<Rightarrow> (string \<times> int) list \<Rightarrow> bool" where
  "limiter_inv l w ps \<longleftrightarrow> (\<forall>u. counted l w ps u)
     \<and> (\<forall>(u, t) \<in> set ps. t \<le> clock w \<and> clock w < t + lifetime l)"

lemma activeKey_inj [simp]: "activeKey l u = activeKey l v \<longleftrightarrow> u = v" "activeKey l u \<noteq> [] \<or> dl_activePrefix l = []"
  by (simp_all add: activeKey_def)

lemma held_simps [simp]: "held u [] = 0" "held u ((v, t) # ps) = held u ps + (if u = v then 1 else 0)"
  by (auto simp: held_def)

lemma held_none: "u \<notin> fst ` set ps \<Longrightarrow> held u ps = 0"
  by (auto simp: held_def filter_empty_conv)

lemma held_remove: "(v, t) \<in> set ps \<Longrightarrow> held u (remove1 (v, t) ps) = held u ps - (if u = v then 1 else 0)"
  by (induction ps) (auto simp: held_def)

lemma held_pos: "(u, t) \<in> set ps \<Longrightarrow> 1 \<le> held u ps"
  by (induction ps) (auto simp: held_def)

text \<open>What a step of the scripts does to the counter of its user; the counters of the others stay.\<close>

lemma counted_other:
  assumes "downloads w' (activeKey l u) = downloads w (activeKey l u)"
    "filter (\<lambda>p. fst p = u) ps' = filter (\<lambda>p. fst p = u) ps" "counted l w ps u"
  shows "counted l w' ps' u"
proof -
  have "(u, t) \<in> set ps' \<longleftrightarrow> (u, t) \<in> set ps" for t
    using arg_cong [OF assms(2), of "\<lambda>qs. (u, t) \<in> set qs"] by simp
  then have same: "\<And>t. (u, t) \<in> set ps' \<longleftrightarrow> (u, t) \<in> set ps" "u \<in> fst ` set ps' \<longleftrightarrow> u \<in> fst ` set ps" by force+
  then show ?thesis
    using assms unfolding counted_def held_def same assms(1,2) by simp
qed

lemma acquire_counted:
  assumes f: "acquire_script (activeKey l u) (dl_maxActive l) (go_div (dl_ttl l) second) w = (r, w')"
    and inv: "limiter_inv l w ps" and ttl: "0 < go_div (dl_ttl l) second" and mx: "0 < dl_maxActive l"
  shows "limiter_inv l w' ps \<and> (r = Inr 1 \<longrightarrow> limiter_inv l w' ((u, clock w) # ps)) \<and> clock w' = clock w"
proof (cases "dl_maxActive l \<le> active_count w (activeKey l u)")
  case True
  then show ?thesis using f inv by (auto simp: acquire_script_def)
next
  case False
  let ?n = "active_count w (activeKey l u) + 1" and ?e = "clock w + lifetime l"
  have pos: "0 < lifetime l" using ttl by (simp add: lifetime_def second_def)
  have w': "w' = w\<lparr>downloads := (downloads w)(activeKey l u \<mapsto> (?n, ?e))\<rparr>"
    using f False ttl by (simp add: acquire_script_def Let_def lifetime_def)
  have young: "t \<le> clock w" "clock w < t + lifetime l" if "(v, t) \<in> set ps" for v t
    using inv that by (auto simp: limiter_inv_def)
  have "counted l w ps u" using inv by (simp add: limiter_inv_def)
  then have held: "held u ps + 1 \<le> ?n"
  proof (cases "\<exists>t. (u, t) \<in> set ps")
    case True
    then obtain t where "(u, t) \<in> set ps" by blast
    with \<open>counted l w ps u\<close> young [of u t] show ?thesis
      by (auto simp: counted_def active_count_def image_iff split: option.splits)
  next
    case none: False
    then have "held u ps = 0" by (auto intro: held_none)
    with \<open>counted l w ps u\<close> show ?thesis
      by (auto simp: counted_def active_count_def split: option.splits)
  qed
  have "t + lifetime l \<le> ?e" if "(u, t) \<in> set ps" for t using young [OF that] by simp
  then have own: "counted l w' ps u" "counted l w' ((u, clock w) # ps) u"
    using held False by (auto simp: counted_def w')
  have "counted l w' ps v \<and> counted l w' ((u, clock w) # ps) v" for v
  proof (cases "v = u")
    case False
    moreover have "counted l w ps v" using inv by (simp add: limiter_inv_def)
    ultimately show ?thesis by (auto intro: counted_other [where w = w and ps = ps] simp: w')
  qed (use own in simp)
  then show ?thesis using young pos w' by (auto simp: limiter_inv_def)
qed

lemma release_counted:
  assumes f: "release_script (activeKey l u) w = (r, w')" and inv: "limiter_inv l w ps" and out: "(u, t) \<in> set ps"
  shows "limiter_inv l w' (remove1 (u, t) ps) \<and> clock w' = clock w"
proof -
  have own: "counted l w ps u" and young: "\<And>v s. (v, s) \<in> set ps \<Longrightarrow> s \<le> clock w \<and> clock w < s + lifetime l"
    using inv by (auto simp: limiter_inv_def)
  have "u \<in> fst ` set ps" using out by force
  with own obtain n e where d: "downloads w (activeKey l u) = Some (n, e)" "held u ps \<le> n" "n \<le> dl_maxActive l"
      "\<And>t. (u, t) \<in> set ps \<Longrightarrow> t + lifetime l \<le> e"
    by (auto simp: counted_def split: option.splits)
  have live: "clock w < e" using d(4) [OF out] young [OF out] by simp
  have sub: "(v, s) \<in> set ps" if "(v, s) \<in> set (remove1 (u, t) ps)" for v s
    using that notin_set_remove1 by metis
  have clock: "clock w' = clock w" using f by (auto simp: release_script_def Let_def split: if_splits)
  have own: "counted l w' (remove1 (u, t) ps) u"
  proof (cases "n \<le> 1")
    case True
    then have "held u (remove1 (u, t) ps) = 0" using d(2) held_pos [OF out] held_remove [OF out, of u] by simp
    then have "(u, s) \<notin> set (remove1 (u, t) ps)" for s using held_pos [of u s "remove1 (u, t) ps"] by auto
    then have "u \<notin> fst ` set (remove1 (u, t) ps)" by auto
    then show ?thesis using f True d(1) live by (auto simp: release_script_def active_count_def counted_def)
  next
    case False
    then have w': "w' = w\<lparr>downloads := (downloads w)(activeKey l u \<mapsto> (n - 1, e))\<rparr>"
      using f d(1) live by (auto simp: release_script_def active_count_def)
    show ?thesis using d held_remove [OF out, of u] sub by (auto simp: counted_def w')
  qed
  have "counted l w' (remove1 (u, t) ps) v" for v
  proof (cases "v = u")
    case False
    then have "downloads w' (activeKey l v) = downloads w (activeKey l v)"
      using f by (auto simp: release_script_def Let_def split: if_splits)
    moreover have "filter (\<lambda>p. fst p = v) (remove1 (u, t) ps) = filter (\<lambda>p. fst p = v) ps"
      using False by (simp add: filter_remove1)
    moreover have "counted l w ps v" using inv by (simp add: limiter_inv_def)
    ultimately show ?thesis by (rule counted_other)
  qed (use own in simp)
  then show ?thesis using young [OF sub] clock by (auto simp: limiter_inv_def)
qed

lemma limiter_inv_faults [simp]: "limiter_inv l (w\<lparr>faults := fs\<rparr>) ps = limiter_inv l w ps"
  by (simp add: limiter_inv_def counted_def)

lemma acquire_inv:
  assumes run: "run_state (limiter_Acquire l u kind) w = (a, w')" and inv: "limiter_inv l w ps"
    and l: "0 < go_div (dl_ttl l) second" "0 < dl_maxActive l"
  shows "limiter_inv l w' ps \<and> (\<not> isl a \<longrightarrow> limiter_inv l w' ((u, clock w) # ps))"
proof -
  let ?f = "acquire_script (activeKey l u) (dl_maxActive l) (go_div (dl_ttl l) second)"
  from run obtain r w1 where st: "run_state (stmt ?f) w = (r, w1)" and w1: "w' = w1" and a: "\<not> isl a \<Longrightarrow> r = Inr 1"
    unfolding limiter_Acquire_def by (auto elim!: run_elims split: if_splits)
  from st show ?thesis
  proof (cases rule: stmt_cases)
    case (not_sent fs)
    then show ?thesis using inv w1 a by auto
  next
    case (lost fs)
    moreover obtain r' w2 where f: "?f (w\<lparr>faults := fs\<rparr>) = (r', w2)" by fastforce
    ultimately show ?thesis using acquire_counted [OF f _ l, of ps] inv w1 a by auto
  next
    case (answered fs)
    then show ?thesis using acquire_counted [OF answered _ l, of ps] inv w1 a by auto
  qed
qed

lemma release_inv:
  assumes run: "run_state (pm_release (redis_permit (activeKey l u))) w = (a, w')" and inv: "limiter_inv l w ps"
    and out: "(u, t) \<in> set ps" and prefix: "dl_activePrefix l \<noteq> []"
  shows "limiter_inv l w' (remove1 (u, t) ps)"
proof -
  let ?f = "release_script (activeKey l u)"
  have "activeKey l u \<noteq> []" using prefix by (simp add: activeKey_def)
  with run obtain r where st: "run_state (stmt ?f) w = (r, w')"
    unfolding redis_permit_def by (auto elim!: run_elims)
  have fewer: "limiter_inv l w (remove1 (u, t) ps)"
  proof -
    obtain r' w2 where f: "?f w = (r', w2)" by fastforce
    have sub: "(v, s) \<in> set ps" if "(v, s) \<in> set (remove1 (u, t) ps)" for v s using that notin_set_remove1 by metis
    have "counted l w (remove1 (u, t) ps) v" for v
    proof -
      have "counted l w ps v" using inv by (simp add: limiter_inv_def)
      moreover have "v \<notin> fst ` set (remove1 (u, t) ps)" if "v \<notin> fst ` set ps" using that sub by force
      ultimately show ?thesis using sub held_remove [OF out, of v] by (auto simp: counted_def split: option.splits)
    qed
    moreover have "s \<le> clock w \<and> clock w < s + lifetime l" if "(v, s) \<in> set (remove1 (u, t) ps)" for v s
      using inv sub [OF that] by (auto simp: limiter_inv_def)
    ultimately show ?thesis by (auto simp: limiter_inv_def)
  qed
  from st show ?thesis
  proof (cases rule: stmt_cases)
    case (not_sent fs)
    then show ?thesis using fewer by simp
  next
    case (lost fs)
    moreover obtain r' w2 where f: "?f (w\<lparr>faults := fs\<rparr>) = (r', w2)" by fastforce
    ultimately show ?thesis using release_counted [OF f _ out] inv by auto
  next
    case (answered fs)
    then show ?thesis using release_counted [OF answered _ out] inv by auto
  qed
qed

lemma limiter_run_inv:
  assumes "limiter_run l w ps" "0 < go_div (dl_ttl l) second" "0 < dl_maxActive l" "dl_activePrefix l \<noteq> []"
  shows "limiter_inv l w ps"
  using assms(1)
proof induction
  case (start w)
  then show ?case by (simp add: limiter_inv_def counted_def)
next
  case (granted w ps u kind p w')
  then show ?case using acquire_inv [OF granted(2,3) assms(2,3)] by simp
next
  case (refused w ps u kind err w')
  then show ?case using acquire_inv [OF refused(2,3) assms(2,3)] by simp
next
  case (returned w ps u t r w')
  then show ?case using release_inv assms(4) by blast
next
  case (passes w ps w')
  have "s \<le> clock w' \<and> clock w' < s + lifetime l" if "(v, s) \<in> set ps" for v s
    using passes that by (force simp: limiter_inv_def)
  with passes show ?case by (auto simp: limiter_inv_def counted_def)
qed

lemma held_counted: "counted l w ps u \<Longrightarrow> 0 < dl_maxActive l \<Longrightarrow> held u ps \<le> dl_maxActive l"
  by (auto simp: counted_def held_none split: option.splits)

text \<open>
  C34: However the users start and end downloads, with any calls of Redis failing or losing their answers, no user has
  more downloads running than the configured number, as long as a download ends within the configured duration.
\<close>
theorem downloads_are_limited:
  assumes "limiter_run (NewBatchImageDownloadLimiter cfg) w ps"
  shows "held u ps \<le> dl_maxActive (NewBatchImageDownloadLimiter cfg)"
proof -
  let ?l = "NewBatchImageDownloadLimiter cfg"
  have pos: "0 < dl_maxActive ?l" "dl_activePrefix ?l \<noteq> []"
    by (auto simp: NewBatchImageDownloadLimiter_def positive_or_def split: option.splits)
  have "0 < go_div (dl_ttl ?l) second"
    by (auto simp: NewBatchImageDownloadLimiter_def positive_or_def go_div_def second_def minute_def zero_less_mult_iff
        split: option.splits)
  with assms pos have "limiter_inv ?l w ps" by (intro limiter_run_inv)
  then have "counted ?l w ps u" by (simp add: limiter_inv_def)
  then show ?thesis using pos(1) by (rule held_counted)
qed

text \<open>Of three downloads of one user the last one is refused with the default limit of two.\<close>

definition site_of :: "batch_sys \<Rightarrow> batch_site" where
  "site_of s = batch_sys.extend s (batch_site.fields Map.empty)"

abbreviation default_limiter :: batchImageDownloadLimiter where
  "default_limiter \<equiv> NewBatchImageDownloadLimiter None"

definition with_one :: batch_site where
  "with_one = snd (run_state (limiter_Acquire default_limiter ''1'' ''zip'') (site_of demo_system))"

definition with_two :: batch_site where
  "with_two = snd (run_state (limiter_Acquire default_limiter ''1'' ''item'') with_one)"

lemma downloads_are_limited_witness:
  "held ''1'' [(''1'', clock with_one), (''1'', clock (site_of demo_system))] \<le> dl_maxActive default_limiter
   \<and> isl (fst (run_state (limiter_Acquire default_limiter ''1'' ''zip'') with_two))"
proof -
  let ?a = "run_state (limiter_Acquire default_limiter ''1'' ''zip'') (site_of demo_system)"
  let ?b = "run_state (limiter_Acquire default_limiter ''1'' ''item'') with_one"
  have "\<not> isl (fst ?a)" by code_simp
  then obtain p w where a: "?a = (Inr p, w)" by (rule succeeded)
  have "\<not> isl (fst ?b)" by code_simp
  then obtain q v where b: "?b = (Inr q, v)" by (rule succeeded)
  have "downloads (site_of demo_system) = Map.empty" by (simp add: site_of_def batch_site.defs batch_sys.defs)
  then have "limiter_run default_limiter (site_of demo_system) []" by (rule limiter_run.start)
  then have "limiter_run default_limiter with_one [(''1'', clock (site_of demo_system))]"
    using a by (auto intro: limiter_run.granted simp: with_one_def)
  then have "limiter_run default_limiter with_two [(''1'', clock with_one), (''1'', clock (site_of demo_system))]"
    using b by (auto intro: limiter_run.granted simp: with_two_def)
  from downloads_are_limited [OF this] have "held ''1'' [(''1'', clock with_one), (''1'', clock (site_of demo_system))]
      \<le> dl_maxActive default_limiter" .
  moreover have "isl (fst (run_state (limiter_Acquire default_limiter ''1'' ''zip'') with_two))" by code_simp
  ultimately show ?thesis by simp
qed

end
