(* ===== verification/DownloadZip.thy ===== *)
theory DownloadZip
  imports DownloadLimiter
begin

section \<open>The ZIP archive of a batch\<close>

text \<open>
  Writing the archive in \<^verbatim>\<open>service/batch_image_download.go\<close>.  The archive is the sequence of its entries; what the
  underlying writer answers to the calls is a list, like the faults of the database.  \<open>download_lib\<close> holds the
  functions of other packages: \<^verbatim>\<open>json.Unmarshal\<close> of a line, reading a Base64 text to its end, and the letters of
  package \<^verbatim>\<open>unicode\<close>.
\<close>

record download_lib =
  dv_unmarshal :: "string \<Rightarrow> goerr + json_object"
  dv_base64 :: "string \<Rightarrow> goerr + string"
  dv_letter :: "string \<Rightarrow> bool"

definition errBatchImageDownloadSizeExceeded :: goerr where
  "errBatchImageDownloadSizeExceeded = PlainErr ''batch image download size limit exceeded''"
definition ErrBatchImageDownloadFailed :: goerr where
  "ErrBatchImageDownloadFailed = New 500 ''BATCH_IMAGE_DOWNLOAD_FAILED'' ''batch image download failed''"
definition ErrBatchImageDownloadTooLarge :: goerr where
  "ErrBatchImageDownloadTooLarge = New 400 ''BATCH_IMAGE_DOWNLOAD_TOO_LARGE'' ''batch image download is too large''"

record batchImageZipManifestFile =
  mf_CustomID :: string
  mf_Filename :: string
  mf_MimeType :: string
  mf_ImageIndex :: int

record batchImageZipManifest =
  mn_BatchID :: string
  mn_Model :: string
  mn_ItemCount :: int
  mn_SuccessCount :: int
  mn_FailCount :: int
  mn_Files :: "batchImageZipManifestFile list"

record batchImageZipError =
  ze_CustomID :: string
  ze_Code :: string
  ze_Message :: string

record BatchImageZipResult =
  zp_FileCount :: int
  zp_ErrorCount :: int

subsection \<open>The writer\<close>

text \<open>An entry that was created and not written to its end is broken.\<close>

datatype zip_content =
    ZipBroken
  | ZipImage string
  | ZipManifest batchImageZipManifest
  | ZipErrors "batchImageZipError list"

record zip_sink =
  zk_Entries :: "(string \<times> zip_content) list"
  zk_Answers :: "goerr option list"

definition zip_call :: "zip_sink \<Rightarrow> goerr option \<times> zip_sink" where
  "zip_call z = (case zk_Answers z of [] \<Rightarrow> (None, z) | e # es \<Rightarrow> (e, z\<lparr>zk_Answers := es\<rparr>))"

definition zip_create :: "string \<Rightarrow> zip_sink \<Rightarrow> goerr option \<times> zip_sink" where
  "zip_create name z = (case zip_call z of
      (Some err, z1) \<Rightarrow> (Some err, z1)
    | (None, z1) \<Rightarrow> (None, z1\<lparr>zk_Entries := zk_Entries z1 @ [(name, ZipBroken)]\<rparr>))"

definition zip_fill :: "string \<Rightarrow> zip_content \<Rightarrow> zip_sink \<Rightarrow> goerr option \<times> zip_sink" where
  "zip_fill name c z = (case zip_call z of
      (Some err, z1) \<Rightarrow> (Some err, z1)
    | (None, z1) \<Rightarrow> (None, z1\<lparr>zk_Entries := butlast (zk_Entries z1) @ [(name, c)]\<rparr>))"

text \<open>\<^verbatim>\<open>io.Copy(entry, decoder)\<close>\<close>

definition zip_copy :: "string \<Rightarrow> (goerr + string) \<Rightarrow> zip_sink \<Rightarrow> goerr option \<times> zip_sink" where
  "zip_copy name decoded z = (case decoded of
      Inl err \<Rightarrow> (Some err, snd (zip_call z))
    | Inr bytes \<Rightarrow> zip_fill name (ZipImage bytes) z)"

definition writeBatchImageZipJSON :: "string \<Rightarrow> zip_content \<Rightarrow> zip_sink \<Rightarrow> goerr option \<times> zip_sink" where
  "writeBatchImageZipJSON name value z = (case zip_create name z of
      (Some err, z1) \<Rightarrow> (Some err, z1)
    | (None, z1) \<Rightarrow> zip_fill name value z1)"

text \<open>\<^verbatim>\<open>batchImageDownloadLimitWriter.Write\<close> over the answer of the writer below it: the bytes taken and the error.\<close>

record batchImageDownloadLimitWriter =
  lw_limit :: int
  lw_written :: int

definition limit_Write :: "(string \<Rightarrow> int \<times> goerr option) \<Rightarrow> string \<Rightarrow> batchImageDownloadLimitWriter \<Rightarrow>
    (int \<times> goerr option) \<times> batchImageDownloadLimitWriter" where
  "limit_Write below p w =
     (if 0 < lw_limit w \<and> lw_limit w < lw_written w + int (length p)
      then ((0, Some errBatchImageDownloadSizeExceeded), w)
      else (case below p of (n, err) \<Rightarrow> ((n, err), w\<lparr>lw_written := lw_written w + n\<rparr>)))"

subsection \<open>The images\<close>

record zip_run =
  zr_FileCount :: int
  zr_Manifest :: "batchImageZipManifestFile list"
  zr_Errors :: "batchImageZipError list"
  zr_Missing :: "string list"
  zr_Zip :: zip_sink

fun write_images :: "download_lib \<Rightarrow> string \<Rightarrow> nat \<Rightarrow> BatchImageInlineImage list \<Rightarrow> zip_run \<Rightarrow>
    goerr option \<times> zip_run" where
  "write_images lib customID idx [] st = (None, st)"
| "write_images lib customID idx (im # rest) st = (let
       extension = (if im_Extension im = [] then ''bin'' else im_Extension im);
       filename = batchImageZipImageFilename (dv_letter lib) customID idx extension
     in case zip_create filename (zr_Zip st) of
       (Some err, z) \<Rightarrow> (Some err, st\<lparr>zr_Zip := z\<rparr>)
     | (None, z) \<Rightarrow> (case zip_copy filename (dv_base64 lib (im_Base64Data im)) z of
         (Some err, z1) \<Rightarrow> write_images lib customID (Suc idx) rest (st\<lparr>zr_Zip := z1,
            zr_Errors := zr_Errors st @ [\<lparr>ze_CustomID = customID, ze_Code = ''IMAGE_DECODE_FAILED'',
              ze_Message = ''image data could not be decoded''\<rparr>]\<rparr>)
       | (None, z1) \<Rightarrow> write_images lib customID (Suc idx) rest (st\<lparr>zr_Zip := z1,
            zr_FileCount := zr_FileCount st + 1,
            zr_Manifest := zr_Manifest st @ [\<lparr>mf_CustomID = customID, mf_Filename = filename,
              mf_MimeType = im_MimeType im, mf_ImageIndex = int idx\<rparr>]\<rparr>)))"

definition success_by_id :: "f64 BatchImageItem list \<Rightarrow> string \<Rightarrow> f64 BatchImageItem option" where
  "success_by_id is = map_of (rev (map (\<lambda>i. (it_CustomID i, i)) is))"

text \<open>\<open>over n\<close> is \<^verbatim>\<open>ctx.Err()\<close> when the \<open>n\<close>-th line has been read.\<close>

fun write_lines :: "download_lib \<Rightarrow> (nat \<Rightarrow> goerr option) \<Rightarrow> (string \<Rightarrow> f64 BatchImageItem option) \<Rightarrow> nat \<Rightarrow>
    string list \<Rightarrow> zip_run \<Rightarrow> goerr option \<times> zip_run" where
  "write_lines lib over success n [] st = (None, st)"
| "write_lines lib over success n (token # tokens) st = (case over n of
      Some err \<Rightarrow> (Some err, st)
    | None \<Rightarrow> (let line = trim_space token in
        if line = [] then write_lines lib over success (Suc n) tokens st
        else (case ExtractBatchImagePartsFromResultLine (dv_unmarshal lib) line of
            Inl err \<Rightarrow> (Some err, st)
          | Inr found \<Rightarrow> (case success (li_CustomID found) of
              None \<Rightarrow> write_lines lib over success (Suc n) tokens st
            | Some item \<Rightarrow> (let st1 = st\<lparr>zr_Missing := removeAll (li_CustomID found) (zr_Missing st)\<rparr> in
                if li_Images found = [] then
                  write_lines lib over success (Suc n) tokens (st1\<lparr>zr_Errors := zr_Errors st1 @
                    [\<lparr>ze_CustomID = li_CustomID found, ze_Code = ''EMPTY_IMAGE_OUTPUT'',
                      ze_Message = ''provider response contained no image output''\<rparr>]\<rparr>)
                else (case write_images lib (it_CustomID item) 0 (li_Images found) st1 of
                    (Some err, st2) \<Rightarrow> (Some err, st2)
                  | (None, st2) \<Rightarrow> write_lines lib over success (Suc n) tokens st2))))))"

definition missing_error :: "string \<Rightarrow> batchImageZipError" where
  "missing_error customID = \<lparr>ze_CustomID = customID, ze_Code = ''RESULT_MISSING'',
     ze_Message = ''provider result was not found for item''\<rparr>"

definition zip_start :: "f64 BatchImageItem list \<Rightarrow> zip_sink \<Rightarrow> zip_run" where
  "zip_start is z = \<lparr>zr_FileCount = 0, zr_Manifest = [], zr_Errors = [],
     zr_Missing = remdups (map it_CustomID is), zr_Zip = z\<rparr>"

definition writeZipImages :: "download_lib \<Rightarrow> (nat \<Rightarrow> goerr option) \<Rightarrow> result_stream \<Rightarrow> f64 BatchImageItem list \<Rightarrow>
    zip_sink \<Rightarrow> goerr option \<times> zip_run" where
  "writeZipImages lib over stream successItems z = (case scan_tokens stream of (tokens, scanErr) \<Rightarrow>
     (case write_lines lib over (success_by_id successItems) 0 tokens (zip_start successItems z) of
        (Some err, st) \<Rightarrow> (Some err, st)
      | (None, st) \<Rightarrow> (case scanErr of
          Some err \<Rightarrow> (Some err, st)
        | None \<Rightarrow> (None, st\<lparr>zr_Errors := zr_Errors st @ map missing_error (sort (zr_Missing st))\<rparr>))))"

definition batchImageZipErrorsFromItems :: "f64 BatchImageItem list \<Rightarrow> batchImageZipError list" where
  "batchImageZipErrorsFromItems is = map (\<lambda>item. \<lparr>ze_CustomID = it_CustomID item,
     ze_Code = batchImageDerefString (it_ErrorCode item),
     ze_Message = sanitizeBatchImagePublicMessage (batchImageDerefString (it_ErrorMessage item))\<rparr>) is"

definition zip_failure :: "goerr \<Rightarrow> goerr" where
  "zip_failure err = (if err_is err errBatchImageDownloadSizeExceeded then WithCause ErrBatchImageDownloadTooLarge err
     else WithCause ErrBatchImageDownloadFailed err)"

text \<open>\<^verbatim>\<open>StreamZip\<close> from the first write on.\<close>

definition zip_archive :: "download_lib \<Rightarrow> (nat \<Rightarrow> goerr option) \<Rightarrow> result_stream \<Rightarrow> f64 BatchImageJob \<Rightarrow>
    f64 BatchImageItem list \<Rightarrow> f64 BatchImageItem list \<Rightarrow> zip_sink \<Rightarrow>
    BatchImageZipResult \<times> goerr option \<times> zip_sink" where
  "zip_archive lib over stream job successItems failedItems z =
     (case writeZipImages lib over stream successItems z of (werr, st) \<Rightarrow> (let
        result = \<lparr>zp_FileCount = zr_FileCount st, zp_ErrorCount = 0\<rparr>;
        zipErrors = zr_Errors st @ batchImageZipErrorsFromItems failedItems
      in case werr of
         Some err \<Rightarrow> (result, Some (zip_failure err), snd (zip_call (zr_Zip st)))
       | None \<Rightarrow> (case writeBatchImageZipJSON ''manifest.json'' (ZipManifest \<lparr>mn_BatchID = jb_BatchID job,
             mn_Model = jb_Model job, mn_ItemCount = jb_ItemCount job, mn_SuccessCount = jb_SuccessCount job,
             mn_FailCount = jb_FailCount job, mn_Files = zr_Manifest st\<rparr>) (zr_Zip st) of
           (Some err, z1) \<Rightarrow> (result, Some (zip_failure err), snd (zip_call z1))
         | (None, z1) \<Rightarrow> (case writeBatchImageZipJSON ''errors.json'' (ZipErrors zipErrors) z1 of
             (Some err, z2) \<Rightarrow> (result, Some (zip_failure err), snd (zip_call z2))
           | (None, z2) \<Rightarrow> (let result = result\<lparr>zp_ErrorCount := int (length zipErrors)\<rparr> in
               case zip_call z2 of
                 (Some err, z3) \<Rightarrow> (result, Some (zip_failure err), z3)
               | (None, z3) \<Rightarrow> (result, None, z3))))))"

subsection \<open>Every item is accounted for\<close>

text \<open>The lines of a result, and when a file of the manifest is an image of one of them.\<close>

definition result_lines :: "download_lib \<Rightarrow> string set \<Rightarrow> BatchImageLineImages set" where
  "result_lines lib T = {l. \<exists>token \<in> T. ExtractBatchImagePartsFromResultLine (dv_unmarshal lib) (trim_space token) = Inr l}"

definition serves :: "download_lib \<Rightarrow> string set \<Rightarrow> (string \<times> zip_content) list \<Rightarrow> batchImageZipManifestFile \<Rightarrow> bool" where
  "serves lib T entries f \<longleftrightarrow> (\<exists>l \<in> result_lines lib T. \<exists>k bytes. li_CustomID l = mf_CustomID f \<and> mf_ImageIndex f = int k
     \<and> k < length (li_Images l) \<and> mf_MimeType f = im_MimeType (li_Images l ! k)
     \<and> dv_base64 lib (im_Base64Data (li_Images l ! k)) = Inr bytes \<and> (mf_Filename f, ZipImage bytes) \<in> set entries)"

definition files_ok :: "download_lib \<Rightarrow> string set \<Rightarrow> string set \<Rightarrow> zip_run \<Rightarrow> bool" where
  "files_ok lib T ids st \<longleftrightarrow> zr_FileCount st = int (length (zr_Manifest st))
     \<and> (\<forall>f \<in> set (zr_Manifest st). serves lib T (zk_Entries (zr_Zip st)) f \<and> mf_CustomID f \<in> ids)"

definition accounted :: "zip_run \<Rightarrow> string set" where
  "accounted st = mf_CustomID ` set (zr_Manifest st) \<union> ze_CustomID ` set (zr_Errors st)"

lemma zip_call_entries [simp]: "zip_call z = (e, z') \<Longrightarrow> zk_Entries z' = zk_Entries z"
  by (auto simp: zip_call_def split: list.splits)

lemma zip_create_entries:
  "zip_create name z = (e, z') \<Longrightarrow> zk_Entries z' = (if e = None then zk_Entries z @ [(name, ZipBroken)] else zk_Entries z)"
  by (auto simp: zip_create_def split: prod.splits option.splits)

lemma zip_fill_entries:
  "zip_fill name c z = (e, z') \<Longrightarrow>
     zk_Entries z' = (if e = None then butlast (zk_Entries z) @ [(name, c)] else zk_Entries z)"
  by (auto simp: zip_fill_def split: prod.splits option.splits)

lemma zip_copy_entries:
  assumes "zip_copy name d z = (e, z')"
  shows "e = None \<Longrightarrow> \<exists>bytes. d = Inr bytes \<and> zk_Entries z' = butlast (zk_Entries z) @ [(name, ZipImage bytes)]"
    "e \<noteq> None \<Longrightarrow> zk_Entries z' = zk_Entries z"
  using assms zip_call_entries [of z "fst (zip_call z)" "snd (zip_call z)"]
  by (auto simp: zip_copy_def split: sum.splits dest: zip_fill_entries)

lemma json_entries:
  "writeBatchImageZipJSON name c z = (None, z') \<Longrightarrow> zk_Entries z' = zk_Entries z @ [(name, c)]"
  by (auto simp: writeBatchImageZipJSON_def split: prod.splits option.splits dest!: zip_create_entries zip_fill_entries)

lemma serves_more: "serves lib T es f \<Longrightarrow> set es \<subseteq> set es' \<Longrightarrow> serves lib T es' f"
  unfolding serves_def by blast

lemma write_images_files:
  assumes "l \<in> result_lines lib T" "li_CustomID l = customID" "customID \<in> ids"
    and "write_images lib customID idx ims st = (err, st')" "drop idx (li_Images l) = ims" "files_ok lib T ids st"
  shows "files_ok lib T ids st' \<and> zr_Missing st' = zr_Missing st \<and> accounted st \<subseteq> accounted st'
    \<and> (err = None \<and> ims \<noteq> [] \<longrightarrow> customID \<in> accounted st')"
  using assms(4-)
proof (induction ims arbitrary: idx st)
  case (Cons im rest)
  let ?name = "batchImageZipImageFilename (dv_letter lib) customID idx
    (if im_Extension im = [] then ''bin'' else im_Extension im)"
  have im: "idx < length (li_Images l)" "li_Images l ! idx = im" "drop (Suc idx) (li_Images l) = rest"
    using Cons(3) by (metis drop_eq_Nil linorder_not_le list.discI)
      (metis Cons(3) drop_eq_Nil hd_drop_conv_nth linorder_not_le list.discI list.sel(1),
       metis Cons(3) drop_Suc list.sel(3) tl_drop)
  obtain e z where create: "zip_create ?name (zr_Zip st) = (e, z)" by fastforce
  obtain e1 z1 where copy: "zip_copy ?name (dv_base64 lib (im_Base64Data im)) z = (e1, z1)" by fastforce
  show ?case
  proof (cases e)
    case (Some x)
    then show ?thesis using Cons(2,4) create zip_create_entries [OF create]
      by (auto simp: Let_def files_ok_def accounted_def)
  next
    case None
    then have z: "zk_Entries z = zk_Entries (zr_Zip st) @ [(?name, ZipBroken)]" using zip_create_entries [OF create] by simp
    show ?thesis
    proof (cases e1)
      case (Some x)
      let ?st = "st\<lparr>zr_Zip := z1, zr_Errors := zr_Errors st @ [\<lparr>ze_CustomID = customID, ze_Code = ''IMAGE_DECODE_FAILED'',
              ze_Message = ''image data could not be decoded''\<rparr>]\<rparr>"
      have "files_ok lib T ids ?st"
        using Cons(4) zip_copy_entries(2) [OF copy] Some z by (auto simp: files_ok_def intro: serves_more)
      moreover have "customID \<in> accounted ?st" "accounted st \<subseteq> accounted ?st" by (auto simp: accounted_def)
      moreover have "write_images lib customID (Suc idx) rest ?st = (err, st')"
        using Cons(2) create copy None Some by (simp add: Let_def)
      ultimately show ?thesis using Cons(1) [of "Suc idx" ?st] im(3) by auto
    next
      case copied: None
      let ?f = "\<lparr>mf_CustomID = customID, mf_Filename = ?name, mf_MimeType = im_MimeType im, mf_ImageIndex = int idx\<rparr>"
      let ?st = "st\<lparr>zr_Zip := z1, zr_FileCount := zr_FileCount st + 1, zr_Manifest := zr_Manifest st @ [?f]\<rparr>"
      obtain bytes where bytes: "dv_base64 lib (im_Base64Data im) = Inr bytes"
        "zk_Entries z1 = zk_Entries (zr_Zip st) @ [(?name, ZipImage bytes)]"
        using zip_copy_entries(1) [OF copy copied] z by auto
      have "serves lib T (zk_Entries z1) ?f"
        unfolding serves_def using assms(1,2) im(1,2) bytes by (intro bexI [of _ l] exI [of _ idx] exI [of _ bytes]) auto
      then have "files_ok lib T ids ?st"
        using assms(3) Cons(4) bytes(2) by (auto simp: files_ok_def intro: serves_more)
      moreover have "customID \<in> accounted ?st" "accounted st \<subseteq> accounted ?st" by (auto simp: accounted_def)
      moreover have "write_images lib customID (Suc idx) rest ?st = (err, st')"
        using Cons(2) create copy None copied by (simp add: Let_def)
      ultimately show ?thesis using Cons(1) [of "Suc idx" ?st] im(3) by auto
    qed
  qed
qed auto

lemma write_lines_files:
  assumes "write_lines lib over success n tokens st = (None, st')" "set tokens \<subseteq> T"
    "\<And>c i. success c = Some i \<Longrightarrow> it_CustomID i = c \<and> c \<in> ids"
    "files_ok lib T ids st" "ids \<subseteq> set (zr_Missing st) \<union> accounted st"
  shows "files_ok lib T ids st' \<and> ids \<subseteq> set (zr_Missing st') \<union> accounted st'"
  using assms(1,2,4,5)
proof (induction tokens arbitrary: n st)
  case (Cons token tokens)
  let ?line = "trim_space token"
  show ?case
  proof (cases "?line = []")
    case True
    then show ?thesis using Cons by (auto split: option.splits)
  next
    case False
    with Cons(2) obtain l where l: "ExtractBatchImagePartsFromResultLine (dv_unmarshal lib) ?line = Inr l"
      by (auto split: option.splits sum.splits)
    then have lines: "l \<in> result_lines lib T" using Cons(3) by (auto simp: result_lines_def)
    show ?thesis
    proof (cases "success (li_CustomID l)")
      case None
      then show ?thesis using Cons False l by (auto split: option.splits)
    next
      case (Some item)
      have item: "it_CustomID item = li_CustomID l" "li_CustomID l \<in> ids" using assms(3) [OF Some] by auto
      let ?st1 = "st\<lparr>zr_Missing := removeAll (li_CustomID l) (zr_Missing st)\<rparr>"
      have ok1: "files_ok lib T ids ?st1" using Cons(4) by (simp add: files_ok_def)
      have rest: "write_lines lib over success (Suc n) tokens st2 = (None, st') \<Longrightarrow> files_ok lib T ids st2 \<Longrightarrow>
          zr_Missing st2 = zr_Missing ?st1 \<Longrightarrow> accounted st \<subseteq> accounted st2 \<Longrightarrow> li_CustomID l \<in> accounted st2 \<Longrightarrow> ?thesis" for st2
        using Cons(1) [of "Suc n" st2] Cons(3,5) by auto
      show ?thesis
      proof (cases "li_Images l = []")
        case True
        let ?e = "\<lparr>ze_CustomID = li_CustomID l, ze_Code = ''EMPTY_IMAGE_OUTPUT'',
            ze_Message = ''provider response contained no image output''\<rparr>"
        let ?st2 = "?st1\<lparr>zr_Errors := zr_Errors st @ [?e]\<rparr>"
        have "write_lines lib over success (Suc n) tokens ?st2 = (None, st')"
          using Cons(2) False l Some True by (auto simp: Let_def split: option.splits)
        then show ?thesis by (rule rest) (use ok1 in \<open>auto simp: files_ok_def accounted_def\<close>)
      next
        case ne: False
        obtain e st2 where w: "write_images lib (it_CustomID item) 0 (li_Images l) ?st1 = (e, st2)" by fastforce
        then have "e = None" "write_lines lib over success (Suc n) tokens st2 = (None, st')"
          using Cons(2) False l Some ne by (auto simp: Let_def split: option.splits)
        then show ?thesis
          using rest [of st2] write_images_files [OF lines _ _ w, of ids] item ok1 ne by (auto simp: accounted_def)
      qed
    qed
  qed
qed simp

lemma success_by_id: "success_by_id is c = Some i \<Longrightarrow> it_CustomID i = c \<and> c \<in> it_CustomID ` set is"
  by (auto simp: success_by_id_def dest!: map_of_SomeD)

lemma writeZipImages_files:
  assumes "writeZipImages lib over stream is z = (None, st)"
  shows "files_ok lib (set (fst (scan_tokens stream))) (it_CustomID ` set is) st" "it_CustomID ` set is \<subseteq> accounted st"
proof -
  let ?T = "set (fst (scan_tokens stream))" and ?ids = "it_CustomID ` set is"
  from assms obtain st0 where w: "write_lines lib over (success_by_id is) 0 (fst (scan_tokens stream)) (zip_start is z) = (None, st0)"
    and st: "st = st0\<lparr>zr_Errors := zr_Errors st0 @ map missing_error (sort (zr_Missing st0))\<rparr>"
    by (auto simp: writeZipImages_def split: prod.splits option.splits)
  have "files_ok lib ?T ?ids (zip_start is z)" "?ids \<subseteq> set (zr_Missing (zip_start is z)) \<union> accounted (zip_start is z)"
    by (auto simp: files_ok_def zip_start_def accounted_def)
  then have "files_ok lib ?T ?ids st0 \<and> ?ids \<subseteq> set (zr_Missing st0) \<union> accounted st0"
    using success_by_id by (intro write_lines_files [OF w]) auto
  then show "files_ok lib ?T ?ids st" "?ids \<subseteq> accounted st"
    by (auto simp: st files_ok_def accounted_def missing_error_def image_Un image_image)
qed

text \<open>
  A ZIP archive that is answered without an error is complete: after the images come a manifest and a list of
  errors; every successful item is in one of them, every failed item is in the errors; every file of the manifest is
  the named image of the result line of its item, decoded, and stored under the file name; and the answer counts the
  files and the errors.
\<close>
lemma zip_accounts_for_items:
  assumes "zip_archive lib over stream job successItems failedItems z = (result, None, z')"
  shows "\<exists>es m errs. zk_Entries z' = es @ [(''manifest.json'', ZipManifest m), (''errors.json'', ZipErrors errs)]
    \<and> (\<forall>i \<in> set successItems. it_CustomID i \<in> mf_CustomID ` set (mn_Files m) \<union> ze_CustomID ` set errs)
    \<and> (\<forall>i \<in> set failedItems. it_CustomID i \<in> ze_CustomID ` set errs)
    \<and> (\<forall>f \<in> set (mn_Files m). mf_CustomID f \<in> it_CustomID ` set successItems
         \<and> serves lib (set (fst (scan_tokens stream))) es f)
    \<and> mn_BatchID m = jb_BatchID job
    \<and> zp_FileCount result = int (length (mn_Files m)) \<and> zp_ErrorCount result = int (length errs)"
proof -
  obtain werr st where w: "writeZipImages lib over stream successItems z = (werr, st)" by fastforce
  with assms have none: "werr = None" by (auto simp: zip_archive_def Let_def split: option.splits)
  let ?m = "\<lparr>mn_BatchID = jb_BatchID job, mn_Model = jb_Model job, mn_ItemCount = jb_ItemCount job,
    mn_SuccessCount = jb_SuccessCount job, mn_FailCount = jb_FailCount job, mn_Files = zr_Manifest st\<rparr>"
  let ?errs = "zr_Errors st @ batchImageZipErrorsFromItems failedItems"
  from assms w none obtain z1 z2 where
    z: "writeBatchImageZipJSON ''manifest.json'' (ZipManifest ?m) (zr_Zip st) = (None, z1)"
      "writeBatchImageZipJSON ''errors.json'' (ZipErrors ?errs) z1 = (None, z2)" "zip_call z2 = (None, z')"
    and result: "result = \<lparr>zp_FileCount = zr_FileCount st, zp_ErrorCount = int (length ?errs)\<rparr>"
    by (auto simp: zip_archive_def Let_def split: prod.splits option.splits)
  have "zk_Entries z' = zk_Entries (zr_Zip st) @ [(''manifest.json'', ZipManifest ?m), (''errors.json'', ZipErrors ?errs)]"
    using z json_entries [OF z(1)] json_entries [OF z(2)] by simp
  moreover have "ze_CustomID ` set (batchImageZipErrorsFromItems failedItems) = it_CustomID ` set failedItems"
    by (simp add: batchImageZipErrorsFromItems_def image_image)
  ultimately show ?thesis
    using writeZipImages_files [OF w [unfolded none]] result
    by (intro exI [of _ "zk_Entries (zr_Zip st)"] exI [of _ ?m] exI [of _ ?errs])
      (auto simp: files_ok_def accounted_def image_Un)
qed

text \<open>The writer below never gets more bytes than the limit, whatever it answers.\<close>

lemma limit_Write_bound:
  assumes "limit_Write below p lw = (a, lw')" "\<And>q. 0 \<le> fst (below q) \<and> fst (below q) \<le> int (length q)"
    "0 < lw_limit lw" "lw_written lw \<le> lw_limit lw"
  shows "lw_written lw \<le> lw_written lw' \<and> lw_written lw' \<le> lw_limit lw' \<and> lw_limit lw' = lw_limit lw"
  using assms(1,3,4) assms(2) [of p] by (auto simp: limit_Write_def split: if_splits prod.splits)

end
