(* ===== verification/DownloadService.thy ===== *)
theory DownloadService
  imports DownloadZip
begin

section \<open>Serving the images of a batch\<close>

text \<open>
  The operations of \<^verbatim>\<open>service/batch_image_download.go\<close>.  The service is a record with the limiter it was given as a
  record of operations; a locale states what a download relies on from a limiter, and the limiter in Redis keeps it.
\<close>

definition ErrBatchImageNotReady :: goerr where
  "ErrBatchImageNotReady = New 409 ''BATCH_IMAGE_NOT_READY'' ''batch image job is not completed''"
definition ErrBatchImageOutputDeleted :: goerr where
  "ErrBatchImageOutputDeleted = New 410 ''BATCH_IMAGE_OUTPUT_DELETED'' ''batch image output has been deleted''"
definition ErrBatchImageItemFailed :: goerr where
  "ErrBatchImageItemFailed = New 409 ''BATCH_IMAGE_ITEM_FAILED'' ''batch image item did not succeed''"
definition ErrBatchImageResultMissing :: goerr where
  "ErrBatchImageResultMissing = New 500 ''BATCH_IMAGE_RESULT_MISSING'' ''batch image result is missing''"
definition ErrBatchImageItemImageIndexOutOfRange :: goerr where
  "ErrBatchImageItemImageIndexOutOfRange = New 400 ''BATCH_IMAGE_ITEM_IMAGE_INDEX_OUT_OF_RANGE''
     ''batch image item image index is out of range''"
definition ErrBatchImageZipTooManyItems :: goerr where
  "ErrBatchImageZipTooManyItems = New 400 ''BATCH_IMAGE_ZIP_TOO_MANY_ITEMS''
     ''batch image ZIP contains too many items; use single item downloads''"

record ('a, 'w) BatchImageDownloadService =
  ds_Registry :: "'a BatchImageProviderRegistry option"
  ds_ResolveAccount :: "(int \<Rightarrow> goerr + 'a) option"
  ds_Limiter :: "'w BatchImageDownloadLimiter option"
  ds_Config :: "download_config option"
  ds_Lib :: download_lib

definition maxZipItems :: "('a, 'w) BatchImageDownloadService \<Rightarrow> int" where
  "maxZipItems s = (case ds_Config s of Some c \<Rightarrow> positive_or 200 (dc_MaxDownloadItemsZip c) | None \<Rightarrow> 200)"

definition maxDownloadBytes :: "('a, 'w) BatchImageDownloadService \<Rightarrow> int" where
  "maxDownloadBytes s = (case ds_Config s of
      Some c \<Rightarrow> positive_or (512 * 1024 * 1024) (dc_MaxDownloadBytesPerRequest c) | None \<Rightarrow> 512 * 1024 * 1024)"

definition maxDownloadDuration :: "('a, 'w) BatchImageDownloadService \<Rightarrow> int" where
  "maxDownloadDuration s = (case ds_Config s of
      Some c \<Rightarrow> if 0 < dc_MaxDownloadDurationSeconds c then dc_MaxDownloadDurationSeconds c * second else 10 * minute
    | None \<Rightarrow> 10 * minute)"

definition getCompletedJob :: "'e driver_scheme \<Rightarrow> BatchImageOwner \<Rightarrow> string \<Rightarrow>
    ('z batch_db_scheme, goerr + f64 BatchImageJob) state" where
  "getCompletedJob env owner batchID = do {
     r \<leftarrow> GetBatchImageJobByBatchIDForOwner env (ow_UserID owner) (ow_APIKeyID owner) batchID;
     chain r (\<lambda>job. ret (
       if jb_Status job = BatchImageJobStatusCompleted then Inr job
       else if jb_Status job = BatchImageJobStatusOutputDeleted then Inl ErrBatchImageOutputDeleted
       else Inl ErrBatchImageNotReady)) }"

definition download_provider :: "('a, 'w) BatchImageDownloadService \<Rightarrow> f64 BatchImageJob \<Rightarrow>
    goerr + 'a BatchImageProvider \<times> 'a" where
  "download_provider s job = (case (ds_Registry s, ds_ResolveAccount s) of
      (Some registry, Some resolve) \<Rightarrow> (case registry (jb_Provider job) of
          None \<Rightarrow> Inl ErrBatchImageUnsupportedProvider
        | Some provider \<Rightarrow> (case jb_AccountID job of
              None \<Rightarrow> Inl ErrBatchImageMissingAccountID
            | Some accountID \<Rightarrow> if accountID \<le> 0 then Inl ErrBatchImageMissingAccountID
                else (case resolve accountID of
                    Inl _ \<Rightarrow> Inl ErrBatchImageDownloadFailed
                  | Inr account \<Rightarrow> if pv_SupportsAccount provider account then Inr (provider, account)
                      else Inl ErrBatchImageProviderUnsupportedAccount)))
    | _ \<Rightarrow> Inl ErrBatchImageDownloadFailed)"

definition acquirePermit :: "('a, 'w) BatchImageDownloadService \<Rightarrow> int \<Rightarrow> string \<Rightarrow>
    ('w, goerr + 'w BatchImageDownloadPermit option) state" where
  "acquirePermit s userID kind = (case ds_Limiter s of
      None \<Rightarrow> ret (Inr None)
    | Some limiter \<Rightarrow> do {
        r \<leftarrow> lm_Acquire limiter (itoa userID) kind;
        ret (case r of
          Inl err \<Rightarrow> Inl (if Code (Some err) = 429 then ErrBatchImageDownloadLimited
                         else WithCause ErrBatchImageDownloadLimited err)
        | Inr permit \<Rightarrow> Inr (Some permit)) })"

definition release_permit :: "'w BatchImageDownloadPermit option \<Rightarrow> ('w, unit) state" where
  "release_permit p = (case p of
      None \<Rightarrow> ret ()
    | Some permit \<Rightarrow> do { r \<leftarrow> permit_Release permit None; ret () })"

text \<open>\<^verbatim>\<open>providerAndAccount\<close>, then \<^verbatim>\<open>OpenResult\<close>.\<close>

definition open_result :: "('a, 'w) BatchImageDownloadService \<Rightarrow> f64 BatchImageJob \<Rightarrow> goerr + result_stream" where
  "open_result s job = sum_bind (download_provider s job) (\<lambda>(provider, account).
     case pv_OpenResult provider job account of
       Inl err \<Rightarrow> Inl (WithCause ErrBatchImageResultMissing err)
     | Inr r \<Rightarrow> Inr r)"

subsection \<open>One item\<close>

fun find_line :: "download_lib \<Rightarrow> string \<Rightarrow> string list \<Rightarrow> goerr option \<Rightarrow> goerr + BatchImageLineImages" where
  "find_line lib customID [] scanErr = (case scanErr of
      Some err \<Rightarrow> Inl (WithCause ErrBatchImageDownloadFailed err)
    | None \<Rightarrow> Inl ErrBatchImageResultMissing)"
| "find_line lib customID (token # tokens) scanErr = (let line = trim_space token in
     if line = [] then find_line lib customID tokens scanErr
     else (case ExtractBatchImagePartsFromResultLine (dv_unmarshal lib) line of
         Inl err \<Rightarrow> Inl err
       | Inr parsed \<Rightarrow>
           if li_CustomID parsed \<noteq> customID then find_line lib customID tokens scanErr
           else if li_Images parsed = [] then
             Inl (if li_ErrorCode parsed \<noteq> [] then ErrBatchImageItemFailed else ErrBatchImageResultMissing)
           else Inr parsed))"

definition findBatchImageLineImages :: "download_lib \<Rightarrow> result_stream \<Rightarrow> string \<Rightarrow> goerr + BatchImageLineImages" where
  "findBatchImageLineImages lib r customID = (case scan_tokens r of (tokens, scanErr) \<Rightarrow>
     find_line lib customID tokens scanErr)"

text \<open>What is sent to the client: the Base64 text that the reader decodes, the permit its \<^verbatim>\<open>Close\<close> returns.\<close>

record 'w BatchImageContentStream =
  cs_Base64 :: string
  cs_Permit :: "'w BatchImageDownloadPermit option"
  cs_ContentType :: string
  cs_Filename :: string

definition content_Close :: "'w BatchImageContentStream \<Rightarrow> (goerr + unit) option \<Rightarrow>
    ('w, (goerr + unit) \<times> (goerr + unit) option) state" where
  "content_Close c = once (case cs_Permit c of
      None \<Rightarrow> ret (Inr ())
    | Some permit \<Rightarrow> do { (r, kept) \<leftarrow> permit_Release permit None; ret r })"

text \<open>\<^verbatim>\<open>OpenItemContent\<close> after the permit: what is sent, without the permit.\<close>

definition item_content :: "('a, 'w) BatchImageDownloadService \<Rightarrow> f64 BatchImageJob \<Rightarrow> string \<Rightarrow> int \<Rightarrow>
    goerr + string \<times> string \<times> string" where
  "item_content s job customID imageIndex = sum_bind (open_result s job) (\<lambda>r.
     sum_bind (findBatchImageLineImages (ds_Lib s) r customID) (\<lambda>line.
       if int (length (li_Images line)) \<le> imageIndex then Inl ErrBatchImageItemImageIndexOutOfRange
       else (let im = li_Images line ! nat imageIndex in
         if trim_space (im_Base64Data im) = [] then Inl ErrBatchImageResultMissing
         else (let
             contentType = (if trim_space (im_MimeType im) = [] then ''application/octet-stream'' else trim_space (im_MimeType im));
             extension = trim_space (im_Extension im);
             extension = (if extension = [] then batchImageFileExtension contentType else extension);
             extension = (if extension = [] then ''bin'' else extension)
           in Inr (im_Base64Data im, contentType,
                BatchImageSafeDownloadFilename (dv_letter (ds_Lib s)) customID extension)))))"

definition downloadable_item :: "'e driver_scheme \<Rightarrow> BatchImageOwner \<Rightarrow> string \<Rightarrow> string \<Rightarrow> int \<Rightarrow>
    ('z batch_db_scheme, goerr + f64 BatchImageJob \<times> f64 BatchImageItem) state" where
  "downloadable_item env owner batchID customID imageIndex =
     (if imageIndex < 0 then ret (Inl ErrBatchImageItemImageIndexOutOfRange)
      else do {
        j \<leftarrow> getCompletedJob env owner batchID;
        chain j (\<lambda>job. do {
          i \<leftarrow> GetBatchImageItemForDownload env (jb_BatchID job) customID;
          chain i (\<lambda>item. ret (
            if it_Status item \<noteq> BatchImageItemStatusSuccess then Inl ErrBatchImageItemFailed
            else if it_ImageCount item \<le> imageIndex then Inl ErrBatchImageItemImageIndexOutOfRange
            else Inr (job, item))) }) })"

definition OpenItemContent :: "'e driver_scheme \<Rightarrow> ('a, 'z batch_db_scheme) BatchImageDownloadService \<Rightarrow>
    BatchImageOwner \<Rightarrow> string \<Rightarrow> string \<Rightarrow> int \<Rightarrow>
    ('z batch_db_scheme, goerr + 'z batch_db_scheme BatchImageContentStream) state" where
  "OpenItemContent env s owner batchID customID imageIndex = do {
     d \<leftarrow> downloadable_item env owner batchID customID imageIndex;
     chain d (\<lambda>(job, item). do {
       p \<leftarrow> acquirePermit s (ow_UserID owner) ''item'';
       chain p (\<lambda>permit. case item_content s job (it_CustomID item) imageIndex of
           Inl err \<Rightarrow> do { u \<leftarrow> release_permit permit; ret (Inl err) }
         | Inr (text, contentType, filename) \<Rightarrow> ret (Inr \<lparr>cs_Base64 = text, cs_Permit = permit,
             cs_ContentType = contentType, cs_Filename = filename\<rparr>)) }) }"

subsection \<open>The archive\<close>

text \<open>The job and its items, before the permit.\<close>

definition zip_plan :: "'e driver_scheme \<Rightarrow> ('a, 'w) BatchImageDownloadService \<Rightarrow> BatchImageOwner \<Rightarrow> string \<Rightarrow> int \<Rightarrow>
    ('z batch_db_scheme, goerr + f64 BatchImageJob \<times> f64 BatchImageItem list \<times> f64 BatchImageItem list) state" where
  "zip_plan env s owner batchID optMaxItems = do {
     j \<leftarrow> getCompletedJob env owner batchID;
     chain j (\<lambda>job. (let cap = maxZipItems s;
         maxItems = (if optMaxItems \<le> 0 \<or> cap < optMaxItems then cap else optMaxItems)
       in if maxItems < jb_SuccessCount job then ret (Inl ErrBatchImageZipTooManyItems)
       else do {
         a \<leftarrow> ListBatchImageItemsForDownload env (jb_BatchID job) BatchImageItemStatusSuccess (maxItems + 1);
         chain a (\<lambda>successItems.
           if maxItems < int (length successItems) then ret (Inl ErrBatchImageZipTooManyItems)
           else do {
             b \<leftarrow> ListBatchImageItemsForDownload env (jb_BatchID job) BatchImageItemStatusFailed maxItems;
             chain b (\<lambda>failedItems. ret (Inr (job, successItems, failedItems))) }) })) }"

text \<open>
  The deadline of the stream, \<^verbatim>\<open>maxDownloadDuration\<close> after its start, and a client that goes away show as \<open>over\<close>;
  the limit on the bytes shows as an answer of the writer.
\<close>

definition StreamZip :: "'e driver_scheme \<Rightarrow> ('a, 'z batch_db_scheme) BatchImageDownloadService \<Rightarrow> BatchImageOwner \<Rightarrow>
    string \<Rightarrow> int \<Rightarrow> (nat \<Rightarrow> goerr option) \<Rightarrow> zip_sink \<Rightarrow>
    ('z batch_db_scheme, BatchImageZipResult option \<times> goerr option \<times> zip_sink) state" where
  "StreamZip env s owner batchID optMaxItems over z = do {
     plan \<leftarrow> zip_plan env s owner batchID optMaxItems;
     case plan of
       Inl err \<Rightarrow> ret (None, Some err, z)
     | Inr (job, successItems, failedItems) \<Rightarrow> do {
         p \<leftarrow> acquirePermit s (ow_UserID owner) ''zip'';
         case p of
           Inl err \<Rightarrow> ret (None, Some err, z)
         | Inr permit \<Rightarrow> (case open_result s job of
               Inl err \<Rightarrow> do { u \<leftarrow> release_permit permit; ret (None, Some err, z) }
             | Inr stream \<Rightarrow> (case zip_archive (ds_Lib s) over stream job successItems failedItems z of
                 (result, err, z1) \<Rightarrow> do { u \<leftarrow> release_permit permit; ret (Some result, err, z1) })) } }"

subsection \<open>Permits come back\<close>

lemma calm_stmt: "faults w = [] \<Longrightarrow> run_state (stmt f) w = f w"
  by (simp add: stmt_def io_def)

lemma calm_job: "run_state (getCompletedJob env owner b) w = (r, w') \<Longrightarrow> faults w = [] \<Longrightarrow> w' = w"
  unfolding getCompletedJob_def GetBatchImageJobByBatchIDForOwner_def read_job_def select_job_def
  by (auto elim!: run_elims simp: calm_stmt split: option.splits sum.splits)

lemma calm_items: "run_state (ListBatchImageItemsForDownload env b st n) w = (r, w') \<Longrightarrow> faults w = [] \<Longrightarrow> w' = w"
  unfolding ListBatchImageItemsForDownload_def ListBatchImageItems_def by (auto simp: calm_stmt)

lemma calm_item: "run_state (GetBatchImageItemForDownload env b c) w = (r, w') \<Longrightarrow> faults w = [] \<Longrightarrow> w' = w"
  unfolding GetBatchImageItemForDownload_def by (auto elim!: run_elims simp: calm_stmt split: option.splits sum.splits)

lemma zip_plan_calm: "run_state (zip_plan env s owner b n) w = (r, w') \<Longrightarrow> faults w = [] \<Longrightarrow> w' = w"
  unfolding zip_plan_def Let_def
  by (auto elim!: run_elims split: sum.splits if_splits dest!: calm_job calm_items)

lemma downloadable_item_calm: "run_state (downloadable_item env owner b c k) w = (r, w') \<Longrightarrow> faults w = [] \<Longrightarrow> w' = w"
  unfolding downloadable_item_def
  by (auto elim!: run_elims split: sum.splits if_splits dest!: calm_job calm_item)


text \<open>What a download relies on from a limiter when calls are answered: \<open>used\<close> counts the permits of a user.\<close>

locale download_permits =
  fixes limiter :: "'z batch_db_scheme BatchImageDownloadLimiter"
    and used :: "'z batch_db_scheme \<Rightarrow> string \<Rightarrow> int"
    and permit_of :: "string \<Rightarrow> 'z batch_db_scheme BatchImageDownloadPermit \<Rightarrow> bool"
  assumes refused: "run_state (lm_Acquire limiter u kind) w = (Inl err, w') \<Longrightarrow> faults w = [] \<Longrightarrow>
      used w' = used w \<and> faults w' = []"
    and granted: "run_state (lm_Acquire limiter u kind) w = (Inr p, w') \<Longrightarrow> faults w = [] \<Longrightarrow>
      used w' = (used w)(u := used w u + 1) \<and> faults w' = [] \<and> permit_of u p"
    and given_back: "run_state (pm_release p) w = (r, w') \<Longrightarrow> permit_of u p \<Longrightarrow> faults w = [] \<Longrightarrow>
      used w' = (used w)(u := max 0 (used w u - 1)) \<and> r = Inr ()"
begin

lemma acquired:
  assumes "run_state (acquirePermit s user kind) w = (p, w')" "ds_Limiter s = Some limiter" "faults w = []"
  shows "faults w' = []" "p = Inl err \<Longrightarrow> used w' = used w"
    "p = Inr q \<Longrightarrow> \<exists>permit. q = Some permit \<and> permit_of (itoa user) permit
       \<and> used w' = (used w)(itoa user := used w (itoa user) + 1)"
  using assms unfolding acquirePermit_def
  by (auto elim!: run_elims split: sum.splits dest: refused granted)

lemma released:
  assumes "run_state (release_permit (Some permit)) w = (u, w')" "permit_of user permit" "faults w = []"
  shows "used w' = (used w)(user := max 0 (used w user - 1))"
  using assms unfolding release_permit_def permit_Release_def once_def
  by (auto elim!: run_elims dest: given_back)

lemma zip_returns_permit:
  assumes run: "run_state (StreamZip env s owner b n over z) w = (a, w')" and lim: "ds_Limiter s = Some limiter"
    and calm: "faults w = []" and pos: "0 \<le> used w (itoa (ow_UserID owner))"
  shows "used w' = used w"
proof -
  let ?u = "itoa (ow_UserID owner)"
  obtain plan w1 where plan: "run_state (zip_plan env s owner b n) w = (plan, w1)" by fastforce
  have w1: "w1 = w" using zip_plan_calm [OF plan calm] .
  show ?thesis
  proof (cases plan)
    case (Inl err)
    then show ?thesis using run plan w1 by (auto simp: StreamZip_def elim!: run_elims)
  next
    case (Inr x)
    obtain p w2 where acq: "run_state (acquirePermit s (ow_UserID owner) ''zip'') w = (p, w2)" by fastforce
    show ?thesis
    proof (cases p)
      case Inl: (Inl err)
      then show ?thesis using run plan w1 Inr acq acquired(2) [OF acq lim calm]
        by (auto simp: StreamZip_def elim!: run_elims split: prod.splits)
    next
      case p: (Inr q)
      obtain permit where q: "q = Some permit" "permit_of ?u permit" "used w2 = (used w)(?u := used w ?u + 1)"
        using acquired(3) [OF acq lim calm p] by blast
      obtain v where "run_state (release_permit (Some permit)) w2 = (v, w')"
        using run plan w1 Inr acq p q(1)
        by (auto simp: StreamZip_def elim!: run_elims split: prod.splits sum.splits)
      from released [OF this q(2) acquired(1) [OF acq lim calm]] show ?thesis using q(3) pos by simp
    qed
  qed
qed

lemma item_returns_permit:
  assumes run: "run_state (OpenItemContent env s owner b c k) w = (a, w')" and lim: "ds_Limiter s = Some limiter"
    and calm: "faults w = []" and pos: "0 \<le> used w (itoa (ow_UserID owner))"
  shows "a = Inl err \<Longrightarrow> used w' = used w"
    "a = Inr content \<Longrightarrow> used w' = (used w)(itoa (ow_UserID owner) := used w (itoa (ow_UserID owner)) + 1)
       \<and> (\<exists>permit. cs_Permit content = Some permit \<and> permit_of (itoa (ow_UserID owner)) permit)"
proof -
  let ?u = "itoa (ow_UserID owner)"
  obtain d w1 where d: "run_state (downloadable_item env owner b c k) w = (d, w1)" by fastforce
  have w1: "w1 = w" using downloadable_item_calm [OF d calm] .
  obtain p w2 where acq: "run_state (acquirePermit s (ow_UserID owner) ''item'') w = (p, w2)" by fastforce
  have balanced: "used w' = used w" if "run_state (release_permit (Some permit)) w2 = (v, w')" "permit_of ?u permit"
      "used w2 = (used w)(?u := used w ?u + 1)" for permit v
    using released [OF that(1,2) acquired(1) [OF acq lim calm]] that(3) pos by simp
  show "a = Inl err \<Longrightarrow> used w' = used w"
    using run d w1 acq acquired(2,3) [OF acq lim calm] balanced unfolding OpenItemContent_def
    by (auto elim!: run_elims split: sum.splits prod.splits)
  show "a = Inr content \<Longrightarrow> used w' = (used w)(?u := used w ?u + 1)
       \<and> (\<exists>permit. cs_Permit content = Some permit \<and> permit_of ?u permit)"
    using run d w1 acq acquired(3) [OF acq lim calm] unfolding OpenItemContent_def
    by (auto elim!: run_elims split: sum.splits prod.splits)
qed

lemma close_returns_permit:
  assumes "run_state (content_Close content None) w = ((r, kept), w')" "cs_Permit content = Some permit"
    "permit_of user permit" "faults w = []"
  shows "used w' = (used w)(user := max 0 (used w user - 1)) \<and> run_state (content_Close content kept) w' = ((r, kept), w')"
  using assms unfolding content_Close_def permit_Release_def once_def
  by (auto elim!: run_elims dest: given_back)

end

text \<open>The limiter in Redis keeps the contract, with the counter of the user's key.\<close>

lemma active_count_upd: "active_count (w\<lparr>downloads := (downloads w)(k := v)\<rparr>) k' = (if k' = k then
    (case v of None \<Rightarrow> 0 | Some (n, e) \<Rightarrow> if e \<le> clock w then 0 else n) else active_count w k')"
  by (simp add: active_count_def split: option.splits)

lemma acquire_script_count:
  assumes "acquire_script key mx seconds w = (r, w')" "0 < seconds"
  shows "(r = Inr 0 \<and> w' = w \<or> r = Inr 1 \<and> faults w' = faults w
    \<and> (\<forall>k. active_count w' k = (if k = key then active_count w key + 1 else active_count w k)))"
  using assms by (auto simp: acquire_script_def Let_def active_count_upd second_def split: if_splits)

lemma release_script_count:
  assumes "release_script key w = (r, w')"
  shows "(\<exists>n. r = Inr n) \<and> (\<forall>k. active_count w' k = (if k = key then max 0 (active_count w key - 1) else active_count w k))"
proof (cases "active_count w key \<le> 1")
  case True
  then show ?thesis using assms by (auto simp: release_script_def active_count_upd)
next
  case False
  then obtain n e where "downloads w key = Some (n, e)" "\<not> e \<le> clock w" "active_count w key = n"
    by (auto simp: active_count_def split: option.splits if_splits)
  with False show ?thesis using assms by (auto simp: release_script_def active_count_upd)
qed

lemma ttl_positive: "0 < go_div (dl_ttl (NewBatchImageDownloadLimiter cfg)) second"
  by (auto simp: NewBatchImageDownloadLimiter_def positive_or_def go_div_def second_def minute_def zero_less_mult_iff
      split: option.splits)

lemma key_not_empty: "activeKey (NewBatchImageDownloadLimiter cfg) u \<noteq> []"
  by (simp add: activeKey_def NewBatchImageDownloadLimiter_def)

interpretation redis_permits: download_permits "redis_limiter (NewBatchImageDownloadLimiter cfg)"
  "\<lambda>w u. active_count w (activeKey (NewBatchImageDownloadLimiter cfg) u)"
  "\<lambda>u p. p = redis_permit (activeKey (NewBatchImageDownloadLimiter cfg) u)" for cfg
proof
  let ?l = "NewBatchImageDownloadLimiter cfg"
  fix u kind and w w' :: "'c batch_site_scheme"
  show "(\<lambda>u. active_count w' (activeKey ?l u)) = (\<lambda>u. active_count w (activeKey ?l u)) \<and> faults w' = []"
    if "run_state (lm_Acquire (redis_limiter ?l) u kind) w = (Inl err, w')" "faults w = []" for err
    using that ttl_positive unfolding redis_limiter_def limiter_Acquire_def
    by (auto elim!: run_elims simp: calm_stmt fun_eq_iff dest!: acquire_script_count split: if_splits)
  show "(\<lambda>v. active_count w' (activeKey ?l v)) = (\<lambda>v. active_count w (activeKey ?l v))(u := active_count w (activeKey ?l u) + 1)
      \<and> faults w' = [] \<and> p = redis_permit (activeKey ?l u)"
    if "run_state (lm_Acquire (redis_limiter ?l) u kind) w = (Inr p, w')" "faults w = []" for p
    using that ttl_positive unfolding redis_limiter_def limiter_Acquire_def
    by (auto elim!: run_elims simp: calm_stmt fun_eq_iff dest!: acquire_script_count split: if_splits)
  show "(\<lambda>v. active_count w' (activeKey ?l v)) = (\<lambda>v. active_count w (activeKey ?l v))(u := max 0 (active_count w (activeKey ?l u) - 1))
      \<and> r = Inr ()"
    if "run_state (pm_release p) w = (r, w')" "p = redis_permit (activeKey ?l u)" "faults w = []" for p r
    using that unfolding redis_permit_def
    by (auto elim!: run_elims simp: calm_stmt fun_eq_iff key_not_empty dest!: release_script_count split: if_splits)
qed

definition site_limiter :: "download_config option \<Rightarrow> 'z batch_site_scheme BatchImageDownloadLimiter" where
  "site_limiter cfg = redis_limiter (NewBatchImageDownloadLimiter cfg)"

text \<open>The downloads of a user that are counted.\<close>

definition running :: "download_config option \<Rightarrow> 'z batch_site_scheme \<Rightarrow> int \<Rightarrow> int" where
  "running cfg w user = active_count w (activeKey (NewBatchImageDownloadLimiter cfg) (itoa user))"

lemma running_cong:
  "(\<lambda>u. active_count w' (activeKey (NewBatchImageDownloadLimiter cfg) u))
     = (\<lambda>u. active_count w (activeKey (NewBatchImageDownloadLimiter cfg) u)) \<Longrightarrow> running cfg w' u = running cfg w u"
  unfolding running_def by (rule fun_cong)

text \<open>
  C33: When the calls are answered, no download keeps a permit that it does not need: an archive, complete or not, and
  a refused image leave the counter of every user as it was; an image that is served counts as one download until the
  client closes it.
\<close>
theorem downloads_return_permits:
  fixes w :: "'z batch_site_scheme"
  assumes calm: "faults w = []" and pos: "0 \<le> running cfg w (ow_UserID owner)"
    and lim: "ds_Limiter s = Some (site_limiter cfg)"
  shows "running cfg (snd (run_state (StreamZip env s owner b n over z) w)) u = running cfg w u
    \<and> (case run_state (OpenItemContent env s owner b c k) w of
        (Inl err, w') \<Rightarrow> running cfg w' u = running cfg w u
      | (Inr content, w') \<Rightarrow> running cfg w' (ow_UserID owner) = running cfg w (ow_UserID owner) + 1
          \<and> (\<forall>v. faults v = [] \<and> 0 < running cfg v (ow_UserID owner) \<longrightarrow>
               running cfg (snd (run_state (content_Close content None) v)) (ow_UserID owner)
                 = running cfg v (ow_UserID owner) - 1))"
proof -
  note lim' = lim [unfolded site_limiter_def]
  have pos': "0 \<le> active_count w (activeKey (NewBatchImageDownloadLimiter cfg) (itoa (ow_UserID owner)))"
    using pos by (simp add: running_def)
  obtain a w1 where zip: "run_state (StreamZip env s owner b n over z) w = (a, w1)" by fastforce
  obtain r w2 where item: "run_state (OpenItemContent env s owner b c k) w = (r, w2)" by fastforce
  have "running cfg w1 u = running cfg w u"
    using redis_permits.zip_returns_permit [OF zip lim' calm pos'] by (rule running_cong)
  moreover have "running cfg w2 u = running cfg w u" if "r = Inl err" for err
    using redis_permits.item_returns_permit(1) [OF item lim' calm pos' that] by (rule running_cong)
  moreover have "running cfg w2 (ow_UserID owner) = running cfg w (ow_UserID owner) + 1
      \<and> (\<forall>v. faults v = [] \<and> 0 < running cfg v (ow_UserID owner) \<longrightarrow>
           running cfg (snd (run_state (content_Close content None) v)) (ow_UserID owner) = running cfg v (ow_UserID owner) - 1)"
    if r: "r = Inr content" for content
  proof (intro conjI allI impI)
    note open_item = redis_permits.item_returns_permit(2) [OF item lim' calm pos' r]
    show "running cfg w2 (ow_UserID owner) = running cfg w (ow_UserID owner) + 1"
      unfolding running_def using fun_cong [OF conjunct1 [OF open_item], of "itoa (ow_UserID owner)"] by simp
    fix v :: "'z batch_site_scheme"
    assume v: "faults v = [] \<and> 0 < running cfg v (ow_UserID owner)"
    from open_item obtain p where p: "cs_Permit content = Some p"
      "p = redis_permit (activeKey (NewBatchImageDownloadLimiter cfg) (itoa (ow_UserID owner)))" by blast
    obtain x v' where close: "run_state (content_Close content None) v = (x, v')" by fastforce
    then have "run_state (content_Close content None) v = ((fst x, snd x), v')" by simp
    from redis_permits.close_returns_permit [OF this p] v
    have "(\<lambda>u. active_count v' (activeKey (NewBatchImageDownloadLimiter cfg) u))
        = (\<lambda>u. active_count v (activeKey (NewBatchImageDownloadLimiter cfg) u))
          (itoa (ow_UserID owner) := max 0 (active_count v (activeKey (NewBatchImageDownloadLimiter cfg) (itoa (ow_UserID owner))) - 1))"
      by blast
    from fun_cong [OF this, of "itoa (ow_UserID owner)"] v
    show "running cfg (snd (run_state (content_Close content None) v)) (ow_UserID owner) = running cfg v (ow_UserID owner) - 1"
      unfolding close running_def by simp
  qed
  ultimately show ?thesis using zip item by (auto split: sum.splits)
qed

subsection \<open>An archive is complete\<close>

lemma getCompletedJob_InrD:
  assumes "run_state (getCompletedJob env owner b) w = (Inr job, w')"
  shows "owned w owner b" "jb_BatchID job = b" "jb_Status job = BatchImageJobStatusCompleted" "\<exists>fs. w' = w\<lparr>faults := fs\<rparr>"
    "\<exists>j. j \<in> set (jobs w) \<and> job = scanBatchImageJob env j"
proof -
  let ?q = "\<lambda>j. jb_BatchID j = b \<and> jb_UserID j = ow_UserID owner \<and> jb_APIKeyID j = Some (ow_APIKeyID owner)
    \<and> jb_UserDeletedAt j = None"
  from assms obtain i fs where i: "find ?q (jobs w) = Some i" "job = scanBatchImageJob env i" "w' = w\<lparr>faults := fs\<rparr>"
    and st: "jb_Status job = BatchImageJobStatusCompleted"
    unfolding getCompletedJob_def GetBatchImageJobByBatchIDForOwner_def read_job_def select_job_def
    by (auto elim!: run_elims stmt_cases split: option.splits if_splits)
  have "i \<in> set (jobs w)" "?q i" using find_SomeD [OF i(1)] by auto
  with i st show "owned w owner b" "jb_BatchID job = b" "jb_Status job = BatchImageJobStatusCompleted"
    "\<exists>fs. w' = w\<lparr>faults := fs\<rparr>" "\<exists>j. j \<in> set (jobs w) \<and> job = scanBatchImageJob env j"
    by (auto simp: owned_def list_ex_iff scanBatchImageJob_def)
qed

definition rows :: "'z batch_db_scheme \<Rightarrow> string \<Rightarrow> string \<Rightarrow> rat BatchImageItem list" where
  "rows w b st = filter (\<lambda>i. it_JobID i = b \<and> it_Status i = st) (items w)"

lemma items_InrD:
  assumes "run_state (ListBatchImageItemsForDownload env b st n) w = (Inr is, w')" "st \<noteq> []"
  shows "is = map (scanBatchImageItem env) (take (clamp_limit n 500 100) (rows w b st)) \<and> (\<exists>fs. w' = w\<lparr>faults := fs\<rparr>)"
  using assms unfolding ListBatchImageItemsForDownload_def ListBatchImageItems_def rows_def
  by (auto elim!: stmt_cases simp: clamp_offset_def)

lemma rows_faults [simp]: "rows (w\<lparr>faults := fs\<rparr>) b st = rows w b st"
  by (simp add: rows_def)

lemma scan_ids [simp]: "it_CustomID (scanBatchImageItem env i) = it_CustomID i"
  by (simp add: scanBatchImageItem_def)

lemma zip_plan_InrD:
  assumes "run_state (zip_plan env s owner b n) w = (Inr (job, successItems, failedItems), w')"
  shows "owned w owner b" "jb_BatchID job = b" "\<exists>j. j \<in> set (jobs w) \<and> job = scanBatchImageJob env j"
    "maxZipItems s < 500 \<Longrightarrow> successItems = map (scanBatchImageItem env) (rows w b BatchImageItemStatusSuccess)"
    "set failedItems \<subseteq> scanBatchImageItem env ` set (rows w b BatchImageItemStatusFailed)"
proof -
  define m where "m = (if n \<le> 0 \<or> maxZipItems s < n then maxZipItems s else n)"
  have m: "0 < m" "m \<le> maxZipItems s" by (auto simp: m_def maxZipItems_def positive_or_def split: option.splits)
  from assms obtain w1 w2 where job: "run_state (getCompletedJob env owner b) w = (Inr job, w1)"
    and a: "run_state (ListBatchImageItemsForDownload env (jb_BatchID job) BatchImageItemStatusSuccess (m + 1)) w1 = (Inr successItems, w2)"
      "int (length successItems) \<le> m"
    and f: "run_state (ListBatchImageItemsForDownload env (jb_BatchID job) BatchImageItemStatusFailed m) w2 = (Inr failedItems, w')"
    unfolding zip_plan_def Let_def m_def [symmetric] by (auto elim!: run_elims split: if_splits)
  note job = getCompletedJob_InrD [OF job]
  from job(4) obtain fs where w1: "w1 = w\<lparr>faults := fs\<rparr>" by blast
  have sl: "successItems = map (scanBatchImageItem env) (take (clamp_limit (m + 1) 500 100) (rows w b BatchImageItemStatusSuccess))"
    and w2: "\<exists>fs. w2 = w\<lparr>faults := fs\<rparr>"
    using items_InrD [OF a(1)] w1 job(2) by auto
  show "owned w owner b" "jb_BatchID job = b" "\<exists>j. j \<in> set (jobs w) \<and> job = scanBatchImageJob env j"
    by (fact job)+
  show "set failedItems \<subseteq> scanBatchImageItem env ` set (rows w b BatchImageItemStatusFailed)"
    using items_InrD [OF f] w2 job(2) by (auto dest: in_set_takeD)
  show "successItems = map (scanBatchImageItem env) (rows w b BatchImageItemStatusSuccess)" if "maxZipItems s < 500"
  proof -
    have "clamp_limit (m + 1) 500 100 = nat (m + 1)" using m that by (simp add: clamp_limit_def)
    then have "length (rows w b BatchImageItemStatusSuccess) \<le> clamp_limit (m + 1) 500 100"
      using a(2) sl m by (auto simp: min_def split: if_splits)
    then show ?thesis using sl by simp
  qed
qed


text \<open>A limit of 500 or more makes the repository fall back to 100 rows, and the check for too many passes.\<close>

lemma large_limit_lists_100:
  assumes "run_state (ListBatchImageItemsForDownload env b st (m + 1)) w = (Inr is, w')" "500 \<le> m" "st \<noteq> []"
  shows "length is \<le> 100"
  using items_InrD [OF assms(1,3)] assms(2) by (auto simp: clamp_limit_def)

subsection \<open>An image is the stored one\<close>

lemma find_line_InrD:
  "find_line lib c tokens e = Inr l \<Longrightarrow> l \<in> result_lines lib (set tokens) \<and> li_CustomID l = c \<and> li_Images l \<noteq> []"
  by (induction tokens) (auto simp: result_lines_def Let_def split: option.splits sum.splits if_splits)

lemma image_mime: "im \<in> set (object_images obj) \<Longrightarrow> im_MimeType im \<noteq> [] \<and> trim_space (im_MimeType im) = im_MimeType im"
  by (auto simp: object_images_def extractBatchImageInlineImages_def candidate_parts_def inline_part_def Let_def
      has_prefix_def starts_with_def split: json.splits option.splits if_splits)

lemma line_images: "line_of_object obj = Inr l \<Longrightarrow> li_Images l = object_images obj"
  by (auto simp: line_of_object_def Let_def split: if_splits option.splits)

lemma line_mime:
  assumes "l \<in> result_lines lib T" "im \<in> set (li_Images l)"
  shows "im_MimeType im \<noteq> [] \<and> trim_space (im_MimeType im) = im_MimeType im"
proof -
  from assms(1) obtain token where "ExtractBatchImagePartsFromResultLine (dv_unmarshal lib) (trim_space token) = Inr l"
    by (auto simp: result_lines_def)
  then obtain obj where "line_of_object obj = Inr l"
    by (cases "dv_unmarshal lib (trim_space token)") (auto simp: ExtractBatchImagePartsFromResultLine_def)
  with assms(2) show ?thesis using image_mime line_images by auto
qed

lemma item_content_InrD:
  assumes "item_content s job c k = Inr (text, contentType, filename)" "0 \<le> k"
  shows "\<exists>stream. open_result s job = Inr stream \<and> (\<exists>l \<in> result_lines (ds_Lib s) (set (fst (scan_tokens stream))).
      li_CustomID l = c \<and> k < int (length (li_Images l)) \<and> text = im_Base64Data (li_Images l ! nat k)
      \<and> contentType = im_MimeType (li_Images l ! nat k)) \<and> safe_name filename"
proof -
  from assms(1) obtain stream l where st: "open_result s job = Inr stream"
    and l: "findBatchImageLineImages (ds_Lib s) stream c = Inr l" "k < int (length (li_Images l))"
    and r: "text = im_Base64Data (li_Images l ! nat k)" "safe_name filename"
      "contentType = (if trim_space (im_MimeType (li_Images l ! nat k)) = [] then ''application/octet-stream''
        else trim_space (im_MimeType (li_Images l ! nat k)))"
    by (auto simp: item_content_def Let_def sum_bind_def download_names_safe split: sum.splits if_splits)
  have "l \<in> result_lines (ds_Lib s) (set (fst (scan_tokens stream)))" "li_CustomID l = c"
    using l(1) find_line_InrD by (auto simp: findBatchImageLineImages_def split: prod.splits)
  moreover from this(1) have "contentType = im_MimeType (li_Images l ! nat k)"
    using r(3) line_mime [of l _ _ "li_Images l ! nat k"] l(2) assms(2) by (auto simp: nat_less_iff)
  ultimately show ?thesis using st l(2) r(1,2) by blast
qed


subsection \<open>A batch of one image\<close>

definition stored_item :: "rat BatchImageItem" where
  "stored_item = \<lparr>it_ID = 1, it_JobID = ''b1'', it_CustomID = ''item-1'', it_Status = BatchImageItemStatusSuccess,
     it_RequestHash = None, it_PromptPreview = None, it_ProviderSourceObject = None, it_SourceLineNumber = None,
     it_SourceByteOffset = None, it_SourceByteLength = None, it_MimeType = None, it_FileExtension = None,
     it_ImageCount = 1, it_ErrorCode = None, it_ErrorMessage = None, it_BilledAmount = None, it_CreatedAt = 0,
     it_IndexedAt = None\<rparr>"

definition download_site :: batch_site where
  "download_site = site_of ((system_with (demo_job ''b1'' ''completed''))\<lparr>items := [stored_item]\<rparr>)"

definition download_service :: "(unit, batch_site) BatchImageDownloadService" where
  "download_service = \<lparr>ds_Registry = Some [BatchImageProviderVertex \<mapsto> demo_provider ''{}''],
     ds_ResolveAccount = Some (\<lambda>_. Inr ()), ds_Limiter = Some (site_limiter None), ds_Config = None,
     ds_Lib = \<lparr>dv_unmarshal = (\<lambda>_. Inr demo_line), dv_base64 = (\<lambda>_. Inr ''hi''), dv_letter = (\<lambda>_. False)\<rparr>\<rparr>"

abbreviation zip_run_one where
  "zip_run_one \<equiv> run_state (StreamZip exact_driver download_service image_owner ''b1'' 0 (\<lambda>_. None)
     \<lparr>zk_Entries = [], zk_Answers = []\<rparr>) download_site"


abbreviation item_run_one where
  "item_run_one \<equiv> run_state (OpenItemContent exact_driver download_service image_owner ''b1'' ''item-1'' 0) download_site"


lemma downloads_return_permits_witness:
  "running None (snd zip_run_one) 1 = running None download_site 1"
proof -
  have "faults download_site = []" "0 \<le> running None download_site (ow_UserID image_owner)" by code_simp+
  moreover have "ds_Limiter download_service = Some (site_limiter None)" by (simp add: download_service_def)
  ultimately show ?thesis using downloads_return_permits [of download_site None image_owner download_service] by blast
qed

end
