(* ===== verification/HttpCalls.thy ===== *)
theory HttpCalls
  imports DownloadService
begin

section \<open>Calls over HTTP\<close>

text \<open>
  What the clients of the batch providers share: the escapes of package \<^verbatim>\<open>net/url\<close>, one request through
  \<^verbatim>\<open>http.Client\<close>, and the helpers \<^verbatim>\<open>doVertexDecodeJSON\<close>, \<^verbatim>\<open>doVertexNoBody\<close> and \<^verbatim>\<open>readVertexAPIError\<close> of
  \<^verbatim>\<open>service/batch_image_provider_vertex.go\<close> (\<^verbatim>\<open>doJSON\<close>, \<^verbatim>\<open>doNoBody\<close> and \<^verbatim>\<open>readGeminiAPIError\<close> of
  \<^verbatim>\<open>service/batch_image_provider_gemini.go\<close> are the same functions).
  The state records the requests that were sent, and how many more calls are made before the context of the
  caller is cancelled; what the other side answers is a function of everything it was sent.
\<close>

abbreviation newline :: string where "newline \<equiv> [CHR 0x0A]"

subsection \<open>Escapes\<close>

definition upper_hex :: "nat \<Rightarrow> char" where
  "upper_hex n = (if n < 10 then char_of (48 + n) else char_of (55 + n))"

definition percent :: "char \<Rightarrow> string" where
  "percent c = [CHR ''%'', upper_hex (of_char c div 16), upper_hex (of_char c mod 16)]"

definition unreserved :: "char \<Rightarrow> bool" where
  "unreserved c \<longleftrightarrow> ascii_alnum c \<or> c \<in> set ''-_.~''"

text \<open>\<^verbatim>\<open>url.PathEscape\<close> (one segment of a path) and \<^verbatim>\<open>url.QueryEscape\<close>.\<close>

definition path_escape :: "string \<Rightarrow> string" where
  "path_escape s = concat (map (\<lambda>c. if unreserved c \<or> c \<in> set ''$&+:=@'' then [c] else percent c) s)"

definition query_escape :: "string \<Rightarrow> string" where
  "query_escape s = concat (map (\<lambda>c. if unreserved c then [c] else if c = CHR '' '' then ''+'' else percent c) s)"

subsection \<open>Requests and answers\<close>

record http_request =
  hq_Method :: string
  hq_URL :: string
  hq_Header :: "(string \<times> string) list"
  hq_Body :: string

record http_response =
  hr_StatusCode :: int
  hr_Header :: "(string \<times> string) list"
  hr_Body :: string

record go_url =
  ul_Scheme :: string
  ul_Hostname :: string

text \<open>
  \<^verbatim>\<open>url.Parse\<close> (which \<^verbatim>\<open>http.NewRequestWithContext\<close> calls, too), the other side, and \<^verbatim>\<open>json.Unmarshal\<close> into the
  shape of an error body: its message and status.
\<close>

record http_env =
  hv_ParseURL :: "string \<Rightarrow> goerr + go_url"
  hv_Serve :: "http_request list \<Rightarrow> http_request \<Rightarrow> goerr + http_response"
  hv_DecodeError :: "string \<Rightarrow> (string \<times> string) option"

record net = world +
  nt_Sent :: "http_request list"
  nt_CallsLeft :: nat

text \<open>
  The errors of a client: \<^verbatim>\<open>*VertexAPIError\<close> or \<^verbatim>\<open>*GeminiAPIError\<close>, which have the same fields, and any other.
\<close>

datatype call_error =
    APIError (ce_StatusCode: int) (ce_Code: string) (ce_Message: string)
  | OtherError goerr

definition context_canceled :: goerr where "context_canceled = PlainErr ''context canceled''"

text \<open>An early return with the error passed through \<open>f\<close>.\<close>

definition attempt :: "('e + 'a) \<Rightarrow> ('e \<Rightarrow> 'f) \<Rightarrow> ('a \<Rightarrow> ('s, 'f + 'b) state) \<Rightarrow> ('s, 'f + 'b) state" where
  "attempt r f k = (case r of Inl err \<Rightarrow> ret (Inl (f err)) | Inr x \<Rightarrow> k x)"

text \<open>\<^verbatim>\<open>http.NewRequestWithContext\<close>, the headers, \<^verbatim>\<open>client.Do\<close>.\<close>

definition send :: "http_env \<Rightarrow> http_request \<Rightarrow> ('z net_scheme, call_error + http_response) state" where
  "send env q = State (\<lambda>w. case hv_ParseURL env (hq_URL q) of
      Inl err \<Rightarrow> (Inl (OtherError err), w)
    | Inr _ \<Rightarrow>
        if nt_CallsLeft w = 0 then (Inl (OtherError context_canceled), w)
        else ((case hv_Serve env (nt_Sent w) q of Inl err \<Rightarrow> Inl (OtherError err) | Inr resp \<Rightarrow> Inr resp),
              w\<lparr>nt_Sent := nt_Sent w @ [q], nt_CallsLeft := nt_CallsLeft w - 1\<rparr>))"

definition header_value :: "http_response \<Rightarrow> string \<Rightarrow> string" where
  "header_value resp key = deref_or [] (map_of (hr_Header resp) key)"

definition succeeded_status :: "http_response \<Rightarrow> bool" where
  "succeeded_status resp \<longleftrightarrow> 200 \<le> hr_StatusCode resp \<and> hr_StatusCode resp < 300"

text \<open>\<^verbatim>\<open>io.ReadAll(io.LimitReader(body, limit))\<close>.\<close>

definition read_limited :: "int \<Rightarrow> string \<Rightarrow> string" where
  "read_limited limit body = (if int (length body) \<le> limit then body else take (nat limit) body)"

definition readAPIError :: "http_env \<Rightarrow> http_response \<Rightarrow> call_error" where
  "readAPIError env resp = (let body = read_limited 8192 (hr_Body resp) in
     case hv_DecodeError env body of
       Some (message, status) \<Rightarrow>
         if message \<noteq> [] then APIError (hr_StatusCode resp) status message
         else APIError (hr_StatusCode resp) [] body
     | None \<Rightarrow> APIError (hr_StatusCode resp) [] body)"

text \<open>A call whose answer has a status of success.\<close>

definition send_ok :: "http_env \<Rightarrow> http_request \<Rightarrow> ('z net_scheme, call_error + http_response) state" where
  "send_ok env q = do {
     r \<leftarrow> send env q;
     attempt r id (\<lambda>resp. ret (if succeeded_status resp then Inr resp else Inl (readAPIError env resp))) }"

definition doDecodeJSON :: "http_env \<Rightarrow> (string \<Rightarrow> goerr + 'a) \<Rightarrow> http_request \<Rightarrow>
    ('z net_scheme, call_error + 'a) state" where
  "doDecodeJSON env decode q = do {
     r \<leftarrow> send_ok env q;
     attempt r id (\<lambda>resp. ret (case decode (hr_Body resp) of Inl err \<Rightarrow> Inl (OtherError err) | Inr x \<Rightarrow> Inr x)) }"

definition doNoBody :: "http_env \<Rightarrow> http_request \<Rightarrow> ('z net_scheme, call_error + unit) state" where
  "doNoBody env q = do {
     r \<leftarrow> send_ok env q;
     attempt r id (\<lambda>resp. ret (Inr ())) }"

subsection \<open>Lemmas on escapes\<close>

text \<open>An escaped path names one text.\<close>

lemma upper_hex_inj: "m < 16 \<Longrightarrow> n < 16 \<Longrightarrow> upper_hex m = upper_hex n \<Longrightarrow> m = n"
  by (auto simp: upper_hex_def char_of_eq_iff take_bit_eq_mod split: if_splits)

lemma percent_inj: "percent c = percent d \<Longrightarrow> c = d"
proof -
  assume "percent c = percent d"
  then have "(of_char c :: nat) div 16 = of_char d div 16" "(of_char c :: nat) mod 16 = of_char d mod 16"
    using upper_hex_inj [of "of_char c div 16" "of_char d div 16"] upper_hex_inj [of "of_char c mod 16" "of_char d mod 16"]
      less_mult_imp_div_less [of "of_char c" 16 16] less_mult_imp_div_less [of "of_char d" 16 16]
    by (auto simp: percent_def)
  then have "(of_char c :: nat) = of_char d" by (metis div_mult_mod_eq)
  then show ?thesis by simp
qed

lemma path_escape_inj: "path_escape s = path_escape t \<Longrightarrow> s = t"
proof (induction s arbitrary: t)
  case Nil
  then show ?case by (cases t) (auto simp: path_escape_def percent_def split: if_splits)
next
  case (Cons c s)
  then obtain d t' where t: "t = d # t'"
    by (cases t) (auto simp: path_escape_def percent_def split: if_splits)
  have pct: "\<not> unreserved (CHR ''%'')" by code_simp
  from Cons.prems t pct have "c = d \<and> path_escape s = path_escape t'"
    using percent_inj [of c d] by (auto simp: path_escape_def percent_def split: if_splits)
  with Cons.IH t show ?case by blast
qed

subsection \<open>What a program sends\<close>

text \<open>Every request that a run adds satisfies \<open>P\<close>.\<close>

definition sends :: "(http_request \<Rightarrow> bool) \<Rightarrow> 'z net_scheme \<Rightarrow> 'z net_scheme \<Rightarrow> bool" where
  "sends P w w' \<longleftrightarrow> (\<exists>new. nt_Sent w' = nt_Sent w @ new \<and> list_all P new)"

lemma sends_reflp [steps_intro]: "reflp (sends P)"
  by (auto simp: reflp_def sends_def)

lemma sends_transp [steps_intro]: "transp (sends P)"
  by (fastforce simp: transp_def sends_def)

lemma sends_timeless [steps_intro]: "timeless (sends P)"
  by (auto simp: timeless_def sends_def)

lemma sends_mono: "sends P w w' \<Longrightarrow> (\<And>q. P q \<Longrightarrow> Q q) \<Longrightarrow> sends Q w w'"
  by (auto simp: sends_def list_all_iff)

lemma steps_sends_mono: "steps (sends P) m \<Longrightarrow> (\<And>q. P q \<Longrightarrow> Q q) \<Longrightarrow> steps (sends Q) m"
  by (auto simp: steps_def intro: sends_mono)

lemma attempt_simps [simp]: "attempt (Inl e) f k = ret (Inl (f e))" "attempt (Inr x) f k = k x"
  by (simp_all add: attempt_def)

lemma steps_attempt [steps_intro]:
  "reflp R \<Longrightarrow> (\<And>x. r = Inr x \<Longrightarrow> steps R (k x)) \<Longrightarrow> steps R (attempt r f k)"
  by (cases r) (auto intro: steps_ret)

lemma run_attemptE [run_elims]:
  assumes "run_state (attempt r f k) s = t"
  obtains e where "r = Inl e" "t = (Inl (f e), s)" | x where "r = Inr x" "run_state (k x) s = t"
  using assms by (cases r) auto

lemma steps_send [steps_intro]: "P q \<Longrightarrow> steps (sends P) (send env q)"
  by (auto simp: steps_def send_def sends_def split: sum.splits)

lemma steps_calls [steps_intro]:
  assumes "P q"
  shows "steps (sends P) (send_ok env q)" "steps (sends P) (doDecodeJSON env decode q)" "steps (sends P) (doNoBody env q)"
  unfolding send_ok_def doDecodeJSON_def doNoBody_def
  by (intro steps_intro; (rule assms)?)+

text \<open>A call that is answered was sent, and one call less is left.\<close>

lemma send_ok_Inr:
  assumes "run_state (send_ok env q) w = (Inr resp, w')"
  shows "hv_Serve env (nt_Sent w) q = Inr resp" "succeeded_status resp" "nt_CallsLeft w = Suc (nt_CallsLeft w')"
    "nt_Sent w' = nt_Sent w @ [q]"
  using assms by (auto simp: send_ok_def send_def elim!: run_elims split: sum.splits if_splits)

lemma doDecodeJSON_Inr:
  assumes "run_state (doDecodeJSON env decode q) w = (Inr x, w')"
  obtains resp where "hv_Serve env (nt_Sent w) q = Inr resp" "succeeded_status resp" "decode (hr_Body resp) = Inr x"
    "nt_CallsLeft w = Suc (nt_CallsLeft w')" "nt_Sent w' = nt_Sent w @ [q]"
proof -
  obtain resp where "run_state (send_ok env q) w = (Inr resp, w')" "decode (hr_Body resp) = Inr x"
    using assms unfolding doDecodeJSON_def by (auto elim!: run_elims split: sum.splits)
  then show thesis using that send_ok_Inr [of env q w resp w'] by blast
qed

end
