(* ===== verification/TrimLemmas.thy ===== *)
theory TrimLemmas
  imports HttpCalls
begin

section \<open>Texts that trimming leaves alone\<close>

text \<open>Lemmas on \<^verbatim>\<open>strings.TrimSpace\<close> around bytes that belong to no white space.\<close>

definition solid :: "char \<Rightarrow> bool" where
  "solid c \<longleftrightarrow> list_all (\<lambda>w. c \<notin> set w) go_spaces"

lemma spaces_nonempty: "w \<in> set go_spaces \<Longrightarrow> w \<noteq> []"
  by (auto simp: go_spaces_def)

lemma plain_solid: "plain c \<Longrightarrow> solid c"
proof -
  have "list_all (\<lambda>w. list_all (\<lambda>d. \<not> plain d) w) go_spaces" by code_simp
  then show "plain c \<Longrightarrow> solid c" by (auto simp: solid_def list_all_iff)
qed

lemma solid_marks: "solid (CHR ''/'')" "solid (CHR ''.'')" "solid (CHR ''g'')" "solid (CHR ''l'')" "solid (CHR ''-'')"
  "solid (CHR ''_'')"
  by code_simp+

lemma strip_any_stops:
  "\<forall>w \<in> set ws. w \<noteq> [] \<and> c \<notin> set w \<Longrightarrow> \<exists>a'. strip_any ws (a @ c # b) = a' @ c # b"
proof (induction "length a" arbitrary: a rule: less_induct)
  case less
  show ?case
  proof (cases a)
    case Nil
    have "find (\<lambda>w. starts_with w (c # b)) ws = None"
      using less.prems by (fastforce simp: find_None_iff starts_with_def neq_Nil_conv)
    with Nil show ?thesis by simp
  next
    case (Cons x a')
    show ?thesis
    proof (cases "find (\<lambda>w. starts_with w (a @ c # b)) ws")
      case None
      with Cons show ?thesis by auto
    next
      case (Some w)
      then have w: "w \<in> set ws" "starts_with w (a @ c # b)" by (auto simp: find_Some_iff)
      have "length w \<le> length a"
      proof (rule ccontr)
        assume "\<not> length w \<le> length a"
        then have "take (length w) (a @ c # b) = a @ c # take (length w - length a - 1) b"
          by (cases "length w - length a") auto
        with w less.prems show False by (metis in_set_conv_decomp starts_with_def)
      qed
      moreover have "w \<noteq> []" using w less.prems by blast
      ultimately have "drop (length w - 1) (a' @ c # b) = drop (length w - 1) a' @ c # b"
        "length (drop (length w - 1) a') < length a"
        using Cons by (auto simp: Suc_le_eq)
      then show ?thesis using less.hyps [of "drop (length w - 1) a'"] less.prems Some Cons by auto
    qed
  qed
qed

text \<open>Trimming keeps a prefix that begins and ends with solid bytes.\<close>

lemma trim_left_solid: "s \<noteq> [] \<Longrightarrow> solid (hd s) \<Longrightarrow> strip_any go_spaces s = s"
proof (cases s)
  case (Cons c t)
  assume "solid (hd s)"
  then have "find (\<lambda>w. starts_with w (c # t)) go_spaces = None"
    using Cons spaces_nonempty by (fastforce simp: find_None_iff starts_with_def neq_Nil_conv solid_def list_all_iff)
  with Cons show ?thesis by simp
qed simp

lemma trim_space_keeps:
  assumes "p \<noteq> []" "solid (hd p)" "solid (last p)"
  shows "\<exists>r'. trim_space (p @ r) = p @ r'"
proof -
  have "strip_any go_spaces (p @ r) = p @ r" using assms by (intro trim_left_solid) auto
  moreover obtain q c where p: "p = q @ [c]" using assms(1) by (metis rev_exhaust)
  moreover have "\<forall>w \<in> set (map rev go_spaces). w \<noteq> [] \<and> c \<notin> set w"
    using assms(3) p spaces_nonempty by (auto simp: solid_def list_all_iff)
  then obtain a' where "strip_any (map rev go_spaces) (rev r @ c # rev q) = a' @ c # rev q"
    using strip_any_stops by blast
  ultimately have "trim_space (p @ r) = p @ rev a'" by (simp add: trim_space_def)
  then show ?thesis by blast
qed

lemma trim_space_solid: "s \<noteq> [] \<Longrightarrow> solid (hd s) \<Longrightarrow> solid (last s) \<Longrightarrow> trim_space s = s"
  using trim_space_keeps [of s "[]"] length_trim_space [of s] by fastforce

lemma trim_space_stripped: "trim_space s = s \<Longrightarrow> stripped go_spaces s"
proof -
  assume t: "trim_space s = s"
  obtain n where n: "strip_any go_spaces s = drop n s" using strip_any_drop by blast
  have "length s \<le> length (strip_any go_spaces s)"
    using arg_cong [OF t, of length] length_strip_any [of "map rev go_spaces" "rev (strip_any go_spaces s)"]
    by (simp add: trim_space_def)
  with n have "strip_any go_spaces s = s" by (cases n; cases s) auto
  with strip_any_stripped [of go_spaces s] show ?thesis by simp
qed

lemma trim_space_plain_end: "stripped go_spaces s \<Longrightarrow> s \<noteq> [] \<Longrightarrow> plain (last s) \<Longrightarrow> trim_space s = s"
proof -
  assume s: "stripped go_spaces s" "s \<noteq> []" "plain (last s)"
  have "stripped (map rev go_spaces) (rev s)"
    unfolding stripped_def
  proof (intro ballI impI notI)
    fix w assume "w \<in> set (map rev go_spaces)" and sw: "starts_with w (rev s)"
    then obtain v where v: "v \<in> set go_spaces" "w = rev v" by auto
    then have "w \<noteq> []" using spaces_nonempty by simp
    with sw have "hd w = hd (rev s)" unfolding starts_with_def by (metis hd_take length_greater_0_conv)
    then have "plain (last v)" using s(2,3) v(2) by (simp add: hd_rev)
    with v(1) spaces_not_plain show False by (simp add: list_all_iff)
  qed
  then have "strip_any (map rev go_spaces) (rev s) = rev s" by (rule strip_any_id)
  moreover have "strip_any go_spaces s = s" using s(1) by (rule strip_any_id)
  ultimately show ?thesis by (simp add: trim_space_def)
qed

text \<open>Only the part up to a solid byte decides whether a text begins with white space.\<close>

lemma stripped_front:
  assumes "stripped go_spaces (s @ r)" "s \<noteq> []" "solid d"
  shows "stripped go_spaces (s @ d # u)"
  unfolding stripped_def
proof (intro ballI impI notI)
  fix w assume w: "w \<in> set go_spaces" "starts_with w (s @ d # u)"
  show False
  proof (cases "length w \<le> length s")
    case True
    with w(2) have "starts_with w (s @ r)" by (simp add: starts_with_def)
    with w(1) assms(1,2) show False by (simp add: stripped_def)
  next
    case False
    then have "w = s @ d # take (length w - length s - 1) u"
      using w(2) by (cases "length w - length s") (auto simp: starts_with_def)
    then have "d \<in> set w" by (metis in_set_conv_decomp)
    with w(1) assms(3) show False by (simp add: solid_def list_all_iff)
  qed
qed

text \<open>A trimmed text stays trimmed when plain bytes are appended.\<close>

lemma trim_space_suffix:
  assumes "trim_space s = s" "s \<noteq> []" "u \<noteq> []" "list_all plain u"
  shows "trim_space (s @ u) = s @ u"
proof (rule trim_space_plain_end)
  obtain d v where u: "u = d # v" using assms(3) by (cases u) auto
  with assms(4) have "solid d" by (simp add: plain_solid)
  then show "stripped go_spaces (s @ u)"
    unfolding u using stripped_front [of s "[]"] trim_space_stripped [OF assms(1)] assms(2) by simp
  show "plain (last (s @ u))" using assms(3,4) by (simp add: list_all_iff)
qed (use assms in simp)

end
