(* ===== verification/ProviderRequests.thy ===== *)
theory ProviderRequests
  imports TrimLemmas
begin

section \<open>What a batch sends to its provider\<close>

text \<open>
  The helpers of \<^verbatim>\<open>service/batch_image_provider.go\<close> that both providers use, and the input file of a batch:
  \<^verbatim>\<open>BuildGeminiBatchJSONL\<close> (\<^verbatim>\<open>service/batch_image_provider_gemini.go\<close>) and \<^verbatim>\<open>BuildVertexBatchJSONL\<close>
  (\<^verbatim>\<open>service/batch_image_provider_vertex.go\<close>), one line of JSON per item.
\<close>

definition ErrBatchImageProviderMissingJobName :: goerr where
  "ErrBatchImageProviderMissingJobName = New 400 ''BATCH_IMAGE_PROVIDER_MISSING_JOB_NAME''
     ''batch image provider job name is missing''"
definition ErrBatchImageProviderMissingResultRef :: goerr where
  "ErrBatchImageProviderMissingResultRef = New 400 ''BATCH_IMAGE_PROVIDER_MISSING_RESULT_REF''
     ''batch image provider result reference is missing''"
definition ErrBatchImageProviderInlineResultUnsupported :: goerr where
  "ErrBatchImageProviderInlineResultUnsupported = New 400 ''GEMINI_INLINE_BATCH_RESULT_UNSUPPORTED''
     ''Gemini inline batch result is not supported''"
definition ErrBatchImageProviderInvalidInput :: goerr where
  "ErrBatchImageProviderInvalidInput = New 400 ''BATCH_IMAGE_PROVIDER_INVALID_INPUT''
     ''invalid batch image provider input''"

definition batchImageProviderJobName :: "'m BatchImageJob \<Rightarrow> string" where
  "batchImageProviderJobName job = (case jb_ProviderJobName job of None \<Rightarrow> [] | Some v \<Rightarrow> trim_space v)"

definition batchImageProviderInputRef :: "'m BatchImageJob \<Rightarrow> string" where
  "batchImageProviderInputRef job = (case jb_ProviderInputRef job of None \<Rightarrow> [] | Some v \<Rightarrow> trim_space v)"

definition batchImageProviderOutputRef :: "'m BatchImageJob \<Rightarrow> string" where
  "batchImageProviderOutputRef job = (case jb_ProviderOutputRef job of None \<Rightarrow> [] | Some v \<Rightarrow> trim_space v)"

definition batchImageProviderAPIKey :: "Account \<Rightarrow> string" where
  "batchImageProviderAPIKey account = trim_space (GetCredential account ''api_key'')"

definition batchImageProviderInputError :: "string \<Rightarrow> goerr" where
  "batchImageProviderInputError text = WithCause ErrBatchImageProviderInvalidInput (PlainErr text)"

abbreviation AccountTypeServiceAccount :: string where "AccountTypeServiceAccount \<equiv> ''service_account''"

text \<open>The states that both providers report, with whether the batch has ended.\<close>

record provider_status = BatchProviderStatus +
  ps_Done :: bool

text \<open>\<^verbatim>\<open>strings.ToUpper\<close>, to be compared with ASCII texts: U+0131 and U+017F are the runes outside ASCII whose upper
  case is an ASCII letter.\<close>

fun to_upper :: "string \<Rightarrow> string" where
  "to_upper [] = []"
| "to_upper (c # s) =
     (if starts_with [CHR 0xC4, CHR 0xB1] (c # s) then CHR ''I'' # to_upper (drop 1 s)
      else if starts_with [CHR 0xC5, CHR 0xBF] (c # s) then CHR ''S'' # to_upper (drop 1 s)
      else upper_char c # to_upper s)"

subsection \<open>The parts of a request\<close>

definition image_member :: "string \<Rightarrow> BatchImageReference \<Rightarrow> string \<Rightarrow> string" where
  "image_member mimeType ref fileURI =
     (if br_Data ref \<noteq> [] then json_member ''inlineData'' (json_braces [
          json_member ''mimeType'' (json_quote mimeType), json_member ''data'' (json_quote (base64 (br_Data ref)))])
      else json_member ''fileData'' (json_braces [
          json_member ''mimeType'' (json_quote mimeType), json_member ''fileUri'' (json_quote fileURI)]))"

text \<open>In a Go map the members are written by ascending key.\<close>

definition image_member_sorted :: "string \<Rightarrow> BatchImageReference \<Rightarrow> string \<Rightarrow> string" where
  "image_member_sorted mimeType ref fileURI =
     (if br_Data ref \<noteq> [] then json_member ''inlineData'' (json_braces [
          json_member ''data'' (json_quote (base64 (br_Data ref))), json_member ''mimeType'' (json_quote mimeType)])
      else json_member ''fileData'' (json_braces [
          json_member ''fileUri'' (json_quote fileURI), json_member ''mimeType'' (json_quote mimeType)]))"

text \<open>\<^verbatim>\<open>batchImageGeminiParts\<close> and \<^verbatim>\<open>vertexBatchImageParts\<close>: the loop over the references, and how one is written.\<close>

fun reference_parts :: "(string \<Rightarrow> BatchImageReference \<Rightarrow> string \<Rightarrow> string) \<Rightarrow> BatchImageReference list \<Rightarrow>
    goerr + string list" where
  "reference_parts write [] = Inr []"
| "reference_parts write (ref # refs) = (let
       mimeType = normalizeBatchImageReferenceMimeType (br_MimeType ref);
       fileURI = trim_space (br_FileURI ref)
     in if mimeType = [] then Inl (batchImageProviderInputError ''reference image mime_type is required'')
        else if (br_Data ref \<noteq> [] \<and> fileURI = []) \<or> (br_Data ref = [] \<and> fileURI \<noteq> []) then
          sum_bind (reference_parts write refs) (\<lambda>parts. Inr (json_braces [write mimeType ref fileURI] # parts))
        else Inl (batchImageProviderInputError ''reference image must contain exactly one of data or file_uri''))"

definition batchImageGeminiParts :: "string \<Rightarrow> BatchImageReference list \<Rightarrow> goerr + string list" where
  "batchImageGeminiParts prompt refs = sum_bind (reference_parts image_member refs) (\<lambda>parts.
     Inr (json_braces (omit_empty ''text'' prompt) # parts))"

definition vertexBatchImageParts :: "string \<Rightarrow> BatchImageReference list \<Rightarrow> goerr + string list" where
  "vertexBatchImageParts prompt refs = sum_bind (reference_parts image_member_sorted refs) (\<lambda>parts.
     Inr (json_braces [json_member ''text'' (json_quote prompt)] # parts))"

subsection \<open>The lines\<close>

definition modalities :: string where
  "modalities = json_member ''generationConfig'' (json_braces [
     json_member ''responseModalities'' (json_brackets [json_quote ''TEXT'', json_quote ''IMAGE''])])"

definition geminiJSONLLine :: "string \<Rightarrow> string list \<Rightarrow> string" where
  "geminiJSONLLine customID parts = json_braces [json_member ''key'' (json_quote customID),
     json_member ''request'' (json_braces [
       json_member ''contents'' (json_brackets [json_braces [json_member ''parts'' (json_brackets parts)]]),
       modalities])]"

definition vertexJSONLLine :: "string \<Rightarrow> string list \<Rightarrow> string" where
  "vertexJSONLLine customID parts = json_braces [json_member ''key'' (json_quote customID),
     json_member ''request'' (json_braces [
       json_member ''contents'' (json_brackets [json_braces [
         json_member ''parts'' (json_brackets parts), json_member ''role'' (json_quote ''user'')]]),
       modalities])]"

text \<open>The loop over the items; \<^verbatim>\<open>json.Encoder\<close> ends every value with a newline.\<close>

fun jsonl_lines :: "(string \<Rightarrow> BatchImageReference list \<Rightarrow> goerr + string list) \<Rightarrow>
    (string \<Rightarrow> string list \<Rightarrow> string) \<Rightarrow> string list \<Rightarrow> BatchImageInputItem list \<Rightarrow> goerr + string list" where
  "jsonl_lines parts_of write seen [] = Inr []"
| "jsonl_lines parts_of write seen (item # its) = (let
       customID = trim_space (bi_CustomID item);
       prompt = trim_space (bi_Prompt item)
     in if customID = [] then Inl (batchImageProviderInputError ''custom_id is required'')
        else if customID \<in> set seen then
          Inl (batchImageProviderInputError (''duplicate custom_id '' @ go_quote customID))
        else if prompt = [] then
          Inl (batchImageProviderInputError (''prompt is required for custom_id '' @ go_quote customID))
        else sum_bind (parts_of prompt (bi_ReferenceImages item)) (\<lambda>parts.
          sum_bind (jsonl_lines parts_of write (customID # seen) its) (\<lambda>ls.
            Inr (write customID parts # ls))))"

definition encode_lines :: "string list \<Rightarrow> string" where
  "encode_lines ls = concat (map (\<lambda>l. l @ newline) ls)"

definition build_jsonl :: "(string \<Rightarrow> BatchImageReference list \<Rightarrow> goerr + string list) \<Rightarrow>
    (string \<Rightarrow> string list \<Rightarrow> string) \<Rightarrow> BatchImageInput \<Rightarrow> goerr + string" where
  "build_jsonl parts_of write input =
     (if trim_space (bn_Model input) = [] then Inl (batchImageProviderInputError ''model is required'')
      else if bn_Items input = [] then Inl (batchImageProviderInputError ''at least one item is required'')
      else sum_bind (jsonl_lines parts_of write [] (bn_Items input)) (\<lambda>ls. Inr (encode_lines ls)))"

definition BuildGeminiBatchJSONL :: "BatchImageInput \<Rightarrow> goerr + string" where
  "BuildGeminiBatchJSONL input = build_jsonl batchImageGeminiParts geminiJSONLLine input"

definition BuildVertexBatchJSONL :: "BatchImageInput \<Rightarrow> goerr + string" where
  "BuildVertexBatchJSONL input = build_jsonl vertexBatchImageParts vertexJSONLLine input"

text \<open>The batch id and the model of the job are used when the input has none.\<close>

definition fill_input :: "f64 BatchImageJob \<Rightarrow> BatchImageInput \<Rightarrow> BatchImageInput" where
  "fill_input job input = input\<lparr>
     bn_BatchID := (if bn_BatchID input = [] then jb_BatchID job else bn_BatchID input),
     bn_Model := (if bn_Model input = [] then jb_Model job else bn_Model input)\<rparr>"

subsection \<open>Accepted requests\<close>

text \<open>
  The ids and prompts that validation lets through are trimmed, and so are the addresses of the references, so the
  builders leave them as they are.
\<close>

definition sendable_item :: "BatchImageSubmitItem \<Rightarrow> bool" where
  "sendable_item it \<longleftrightarrow> sm_CustomID it \<noteq> [] \<and> trim_space (sm_CustomID it) = sm_CustomID it
     \<and> sm_Prompt it \<noteq> [] \<and> trim_space (sm_Prompt it) = sm_Prompt it
     \<and> list_all (\<lambda>r. normalizeBatchImageReferenceMimeType (br_MimeType r) = br_MimeType r \<and> br_MimeType r \<noteq> []
          \<and> trim_space (br_FileURI r) = br_FileURI r \<and> (br_Data r = [] \<longleftrightarrow> br_FileURI r \<noteq> []))
         (sm_ReferenceImages it)"

lemma mime_types_stay: "list_all (\<lambda>m. normalizeBatchImageReferenceMimeType m = m)
    [''image/jpeg'', ''image/png'', ''image/webp'', []]"
  by code_simp

lemma normalize_mime_idem [simp]:
  "normalizeBatchImageReferenceMimeType (normalizeBatchImageReferenceMimeType v) = normalizeBatchImageReferenceMimeType v"
proof -
  have "normalizeBatchImageReferenceMimeType v \<in> set [''image/jpeg'', ''image/png'', ''image/webp'', []]"
    by (simp add: normalizeBatchImageReferenceMimeType_def Let_def)
  then show ?thesis using mime_types_stay unfolding list_all_iff by blast
qed

lemma normalize_references_sendable: "normalize_references rs = Inr out \<Longrightarrow>
    list_all (\<lambda>r. normalizeBatchImageReferenceMimeType (br_MimeType r) = br_MimeType r \<and> br_MimeType r \<noteq> []
      \<and> trim_space (br_FileURI r) = br_FileURI r \<and> (br_Data r = [] \<longleftrightarrow> br_FileURI r \<noteq> [])) out"
  by (induction rs arbitrary: out) (auto simp: sum_bind_Inr normalize_reference_def Let_def split: if_splits)

lemma digits_plain: "list_all plain (digits_of_nat n)"
  by (induction n rule: digits_of_nat.induct) (subst digits_of_nat.simps, simp add: digit_plain)

lemma zero_plain: "plain (CHR ''0'')"
  by code_simp

lemma pad_digits_plain: "0 \<le> i \<Longrightarrow> list_all plain (pad_left n (itoa i)) \<and> pad_left n (itoa i) \<noteq> []"
  using digits_plain [of "nat i"] zero_plain
  by (auto simp: pad_left_def itoa_def list_all_iff digits_of_nat.simps [of "nat i"])

lemma repeat_item_sendable: "sendable_item it \<Longrightarrow> 0 \<le> k \<Longrightarrow> sendable_item (repeat_item it n k)"
  using pad_digits_plain [of k "batchImageRepeatSuffixWidth n"]
    trim_space_suffix [of "sm_CustomID it" "CHR ''_'' # pad_left (batchImageRepeatSuffixWidth n) (itoa k)"]
  by (auto simp: sendable_item_def repeat_item_def plain_def)

lemma add_repeats_sendable:
  "add_repeats it n ks acc = Inr out \<Longrightarrow> sendable_item it \<Longrightarrow> list_all (\<lambda>k. 0 \<le> k) ks \<Longrightarrow>
     list_all sendable_item acc \<Longrightarrow> list_all sendable_item out"
proof (induction ks arbitrary: acc)
  case (Cons k ks)
  then show ?case using repeat_item_sendable [of it k n] by (auto simp: Let_def split: if_splits)
qed simp

lemma item_number_trimmed: "trim_space (''item_'' @ pad_left 6 (itoa (int n + 1))) = ''item_'' @ pad_left 6 (itoa (int n + 1))"
proof -
  have "list_all plain ''item_''" by code_simp
  then show ?thesis using pad_digits_plain [of "int n + 1" 6] by (intro trim_space_plain) simp
qed

lemma normalize_item_sendable:
  assumes "normalizeBatchImageReferenceInputs model it0 = Inr (it, rc, ib)"
    and "sm_CustomID it0 \<noteq> []" "trim_space (sm_CustomID it0) = sm_CustomID it0"
    and "sm_Prompt it0 \<noteq> []" "trim_space (sm_Prompt it0) = sm_Prompt it0"
  shows "sendable_item it"
  using assms by (auto simp: normalizeBatchImageReferenceInputs_def sendable_item_def Let_def sum_bind_Inr
      dest!: normalize_references_sendable split: if_splits)

lemma validate_items_sendable:
  "validate_items s model (int n) its tot acc = Inr out \<Longrightarrow> list_all sendable_item acc \<Longrightarrow>
     list_all sendable_item out"
proof (induction its arbitrary: n tot acc)
  case (Cons it0 its)
  define cid where "cid = (if trim_space (sm_CustomID it0) = [] then ''item_'' @ pad_left 6 (itoa (int n + 1))
                   else trim_space (sm_CustomID it0))"
  define k where "k = (if sm_OutputCount it0 = 0 then 1 else sm_OutputCount it0)"
  define prompt where "prompt = trim_space (sm_Prompt it0)"
  note defs = cid_def [symmetric] k_def [symmetric] prompt_def [symmetric]
  from Cons.prems(1) obtain it rc ib acc' tot' where
    it: "normalizeBatchImageReferenceInputs model (it0\<lparr>sm_CustomID := cid, sm_Prompt := prompt\<rparr>) = Inr (it, rc, ib)" and
    acc': "add_repeats it k [1..k] acc = Inr acc'" and p: "prompt \<noteq> []" and
    rest: "validate_items s model (int (Suc n)) its tot' acc' = Inr out"
    by (auto simp: Let_def defs sum_bind_Inr add.commute split: if_splits)
  have "cid \<noteq> []" "trim_space cid = cid" using item_number_trimmed [of n] by (auto simp: cid_def)
  then have "sendable_item it" using normalize_item_sendable [OF it] p by (simp add: prompt_def)
  then have "list_all sendable_item acc'"
    using add_repeats_sendable [OF acc'] Cons.prems(2) by (auto simp: list_all_iff)
  with rest show ?case by (rule Cons.IH)
qed simp

lemma accepted_sendable:
  assumes "fst (run_state (validateSubmitRequest s req) w) = Inr r"
  shows "list_all sendable_item (rq_Items r)" "trim_space (rq_Model r) = rq_Model r" "valid_request s r"
proof -
  have named: "list_all sendable_item (rq_Items r) \<and> rq_Model r = rq_Model r0"
    if "validate_named s r0 = Inr r" for r0
    using that validate_items_sendable [of s _ 0 _ _ "[]"] by (auto simp: validate_named_def Let_def sum_bind_Inr split: if_splits)
  obtain r0 where "validate_named s r0 = Inr r" "trim_space (rq_Model r0) = rq_Model r0" "rq_Model r0 \<noteq> []"
    using assms by (auto simp: validateSubmitRequest_def Let_def run_bind trim_request_def split: if_splits prod.splits)
  with named validate_named_valid show "list_all sendable_item (rq_Items r)" "trim_space (rq_Model r) = rq_Model r"
    "valid_request s r" by auto
qed

text \<open>What such items become.\<close>

lemma reference_parts_sendable:
  "list_all (\<lambda>r. normalizeBatchImageReferenceMimeType (br_MimeType r) = br_MimeType r \<and> br_MimeType r \<noteq> []
      \<and> trim_space (br_FileURI r) = br_FileURI r \<and> (br_Data r = [] \<longleftrightarrow> br_FileURI r \<noteq> [])) rs \<Longrightarrow>
    reference_parts write rs = Inr (map (\<lambda>r. json_braces [write (br_MimeType r) r (br_FileURI r)]) rs)"
  by (induction rs) (auto simp: Let_def sum_bind_def)

lemma jsonl_lines_sendable:
  assumes "\<And>it. sendable_item it \<Longrightarrow> parts_of (sm_Prompt it) (sm_ReferenceImages it) = Inr (parts it)"
  shows "list_all sendable_item its \<Longrightarrow> distinct (map sm_CustomID its) \<Longrightarrow>
    set (map sm_CustomID its) \<inter> set seen = {} \<Longrightarrow>
    jsonl_lines parts_of write seen (map (\<lambda>it. \<lparr>bi_CustomID = sm_CustomID it, bi_Prompt = sm_Prompt it,
        bi_ReferenceImages = sm_ReferenceImages it\<rparr>) its)
      = Inr (map (\<lambda>it. write (sm_CustomID it) (parts it)) its)"
proof (induction its arbitrary: seen)
  case (Cons it its)
  then have "sm_CustomID it \<noteq> []" "trim_space (sm_CustomID it) = sm_CustomID it" "sm_Prompt it \<noteq> []"
    "trim_space (sm_Prompt it) = sm_Prompt it" by (auto simp: sendable_item_def)
  with Cons assms [of it] show ?case by (auto simp: Let_def sum_bind_def)
qed simp

definition gemini_parts :: "BatchImageSubmitItem \<Rightarrow> string list" where
  "gemini_parts it = json_braces [json_member ''text'' (json_quote (sm_Prompt it))]
     # map (\<lambda>r. json_braces [image_member (br_MimeType r) r (br_FileURI r)]) (sm_ReferenceImages it)"

definition vertex_parts :: "BatchImageSubmitItem \<Rightarrow> string list" where
  "vertex_parts it = json_braces [json_member ''text'' (json_quote (sm_Prompt it))]
     # map (\<lambda>r. json_braces [image_member_sorted (br_MimeType r) r (br_FileURI r)]) (sm_ReferenceImages it)"

text \<open>
  C35: Every request that the public service accepts can be sent to both providers, and nothing of it is lost on
  the way: the input file has one line per accepted item, in their order, with the id of the item as its key (the
  ids under which the results are looked up), its prompt and its reference images; no builder rejects what the
  validation let through.
\<close>
theorem accepted_request_is_sent_whole:
  assumes "fst (run_state (validateSubmitRequest s req) w) = Inr normalized"
  shows "BuildGeminiBatchJSONL (submit_input job normalized) =
      Inr (encode_lines (map (\<lambda>it. geminiJSONLLine (sm_CustomID it) (gemini_parts it)) (rq_Items normalized)))
   \<and> BuildVertexBatchJSONL (submit_input job normalized) =
      Inr (encode_lines (map (\<lambda>it. vertexJSONLLine (sm_CustomID it) (vertex_parts it)) (rq_Items normalized)))"
proof -
  note ok = accepted_sendable [OF assms]
  have v: "rq_Model normalized \<noteq> []" "rq_Items normalized \<noteq> []" "distinct (map sm_CustomID (rq_Items normalized))"
    using ok(3) by (auto simp: valid_request_def valid_items_def)
  have parts: "batchImageGeminiParts (sm_Prompt it) (sm_ReferenceImages it) = Inr (gemini_parts it)"
    "vertexBatchImageParts (sm_Prompt it) (sm_ReferenceImages it) = Inr (vertex_parts it)" if "sendable_item it" for it
    using that by (auto simp: sendable_item_def batchImageGeminiParts_def vertexBatchImageParts_def omit_empty_def
        reference_parts_sendable sum_bind_def gemini_parts_def vertex_parts_def)
  have "BuildGeminiBatchJSONL (submit_input job normalized) =
      Inr (encode_lines (map (\<lambda>it. geminiJSONLLine (sm_CustomID it) (gemini_parts it)) (rq_Items normalized)))"
    using v ok jsonl_lines_sendable [of batchImageGeminiParts gemini_parts, OF parts(1) ok(1) v(3), of "[]" geminiJSONLLine]
    by (simp add: BuildGeminiBatchJSONL_def build_jsonl_def submit_input_def sum_bind_def)
  moreover have "BuildVertexBatchJSONL (submit_input job normalized) =
      Inr (encode_lines (map (\<lambda>it. vertexJSONLLine (sm_CustomID it) (vertex_parts it)) (rq_Items normalized)))"
    using v ok jsonl_lines_sendable [of vertexBatchImageParts vertex_parts, OF parts(2) ok(1) v(3), of "[]" vertexJSONLLine]
    by (simp add: BuildVertexBatchJSONL_def build_jsonl_def submit_input_def sum_bind_def)
  ultimately show ?thesis by blast
qed

lemma accepted_request_is_sent_whole_witness:
  "\<exists>r b. fst (run_state (validateSubmitRequest image_service image_request) demo_world) = Inr r
     \<and> map sm_CustomID (rq_Items r) = [''a_01'', ''a_02'', ''item_000002'']
     \<and> BuildVertexBatchJSONL (submit_input (job_for_price ''vertex'' ''m'') r) = Inr b"
proof -
  let ?r = "fst (run_state (validateSubmitRequest image_service image_request) demo_world)"
  have "case ?r of Inl _ \<Rightarrow> False | Inr r \<Rightarrow> map sm_CustomID (rq_Items r) = [''a_01'', ''a_02'', ''item_000002'']"
    by code_simp
  then show ?thesis
    using accepted_request_is_sent_whole [of image_service image_request demo_world _ "job_for_price ''vertex'' ''m''"]
    by (cases ?r) auto
qed

end
