(* ===== verification/VertexAuth.thy ===== *)
theory VertexAuth
  imports ProviderRequests
begin

section \<open>Service accounts of Vertex AI\<close>

text \<open>
  \<^verbatim>\<open>service/vertex_service_account.go\<close>: the key of a service account, its project and location, and the access token
  that it is exchanged for.  The JWT library, JSON, SHA-256 and the proxy of an account are parameters.
\<close>

record vertexServiceAccountKey =
  sk_Type :: string
  sk_ProjectID :: string
  sk_PrivateKeyID :: string
  sk_PrivateKey :: string
  sk_ClientEmail :: string
  sk_TokenURI :: string

record vertexTokenResponse =
  tr_AccessToken :: string
  tr_ExpiresIn :: int
  tr_Error :: string
  tr_ErrorDesc :: string

record jwt_claims =
  jc_Iss :: string
  jc_Scope :: string
  jc_Aud :: string
  jc_Iat :: int
  jc_Exp :: int

text \<open>
  \<open>al_Sign\<close> signs claims under an optional key id; \<open>al_DecodeToken\<close> is what a body leaves in the struct, also when it
  is not JSON; \<open>al_Client\<close> is the client for the proxy of an account.
\<close>

record vertex_auth_lib =
  al_UnmarshalKey :: "string \<Rightarrow> goerr + vertexServiceAccountKey"
  al_Marshal :: "json_object \<Rightarrow> string"
  al_Sha256Hex :: "string \<Rightarrow> string"
  al_ParseRSAPrivateKeyFromPEM :: "string \<Rightarrow> goerr + string"
  al_Sign :: "string option \<Rightarrow> jwt_claims \<Rightarrow> string \<Rightarrow> goerr + string"
  al_DecodeToken :: "string \<Rightarrow> vertexTokenResponse"
  al_Client :: "Account \<Rightarrow> goerr + http_env"

record 's GeminiTokenCache =
  tc_GetAccessToken :: "string \<Rightarrow> ('s, goerr + string) state"
  tc_SetAccessToken :: "string \<Rightarrow> string \<Rightarrow> int \<Rightarrow> ('s, goerr + unit) state"
  tc_AcquireRefreshLock :: "string \<Rightarrow> int \<Rightarrow> ('s, goerr + bool) state"
  tc_ReleaseRefreshLock :: "string \<Rightarrow> ('s, goerr + unit) state"

definition vertexDefaultLocation :: string where "vertexDefaultLocation = ''us-central1''"
definition vertexDefaultTokenURL :: string where "vertexDefaultTokenURL = ''https://oauth2.googleapis.com/token''"
definition vertexCloudPlatformScope :: string where
  "vertexCloudPlatformScope = ''https://www.googleapis.com/auth/cloud-platform''"
definition vertexServiceAccountCacheSkew :: int where "vertexServiceAccountCacheSkew = 5 * minute"

subsection \<open>The key\<close>

definition parseVertexServiceAccountJSON :: "vertex_auth_lib \<Rightarrow> string \<Rightarrow> goerr + vertexServiceAccountKey" where
  "parseVertexServiceAccountJSON lib raw = (case al_UnmarshalKey lib raw of
      Inl err \<Rightarrow> Inl (WrapErr ''invalid service account json'' err)
    | Inr key \<Rightarrow>
        if trim_space (sk_ClientEmail key) = [] then Inl (PlainErr ''service account json missing client_email'')
        else if trim_space (sk_PrivateKey key) = [] then Inl (PlainErr ''service account json missing private_key'')
        else if trim_space (sk_ProjectID key) = [] then Inl (PlainErr ''service account json missing project_id'')
        else Inr (key\<lparr>sk_TokenURI := vertexDefaultTokenURL\<rparr>))"

definition parseVertexServiceAccountKey :: "vertex_auth_lib \<Rightarrow> Account \<Rightarrow> goerr + vertexServiceAccountKey" where
  "parseVertexServiceAccountKey lib account = (let
       raw1 = trim_space (GetCredential account ''service_account_json'');
       raw2 = trim_space (GetCredential account ''service_account'')
     in if ac_Credentials account = None then Inl (PlainErr ''service account credentials not configured'')
        else if raw1 \<noteq> [] then parseVertexServiceAccountJSON lib raw1
        else if raw2 \<noteq> [] then parseVertexServiceAccountJSON lib raw2
        else (case field (ac_Credentials account) ''service_account_json'' of
            Some (JsonObject nested) \<Rightarrow> parseVertexServiceAccountJSON lib (al_Marshal lib nested)
          | _ \<Rightarrow> (case field (ac_Credentials account) ''service_account'' of
              Some (JsonObject nested) \<Rightarrow> parseVertexServiceAccountJSON lib (al_Marshal lib nested)
            | _ \<Rightarrow> Inl (PlainErr ''service_account_json not found in credentials''))))"

definition VertexProjectID :: "vertex_auth_lib \<Rightarrow> Account \<Rightarrow> string" where
  "VertexProjectID lib a = (let v = trim_space (GetCredential a ''project_id'') in
     if v \<noteq> [] then v
     else (case parseVertexServiceAccountKey lib a of Inr key \<Rightarrow> trim_space (sk_ProjectID key) | Inl _ \<Rightarrow> []))"

definition model_location :: "Account \<Rightarrow> string \<Rightarrow> string" where
  "model_location a model = (if model = [] then [] else
     (case field (ac_Credentials a) ''vertex_model_locations'' of
        Some (JsonObject raw) \<Rightarrow> (case map_of raw model of Some (JsonString loc) \<Rightarrow> trim_space loc | _ \<Rightarrow> [])
      | _ \<Rightarrow> []))"

definition VertexLocation :: "Account \<Rightarrow> string \<Rightarrow> string" where
  "VertexLocation a model =
     (if model_location a model \<noteq> [] then model_location a model
      else if trim_space (GetCredential a ''location'') \<noteq> [] then trim_space (GetCredential a ''location'')
      else if trim_space (GetCredential a ''vertex_location'') \<noteq> [] then trim_space (GetCredential a ''vertex_location'')
      else vertexDefaultLocation)"

subsection \<open>The token\<close>

definition vertexServiceAccountCacheKey :: "vertex_auth_lib \<Rightarrow> vertexServiceAccountKey \<Rightarrow> string" where
  "vertexServiceAccountCacheKey lib key = ''vertex:service_account:''
     @ take 16 (al_Sha256Hex lib (sk_ClientEmail key @ [CHR 0x00] @ sk_PrivateKeyID key))"

definition form_body :: "string \<Rightarrow> string" where
  "form_body assertion = ''assertion='' @ query_escape assertion
     @ ''&grant_type='' @ query_escape ''urn:ietf:params:oauth:grant-type:jwt-bearer''"

definition wrap64 :: "int \<Rightarrow> int" where
  "wrap64 n = (n + 2 ^ 63) mod 2 ^ 64 - 2 ^ 63"

text \<open>The answer of the token endpoint; the product of the duration wraps.\<close>

definition token_of_response :: "vertex_auth_lib \<Rightarrow> http_response \<Rightarrow> goerr + string \<times> int" where
  "token_of_response lib resp = (let body = read_limited (2 ^ 20) (hr_Body resp); parsed = al_DecodeToken lib body in
     if \<not> succeeded_status resp then
       (let msg1 = trim_space (tr_ErrorDesc parsed);
            msg2 = (if msg1 = [] then trim_space (tr_Error parsed) else msg1);
            msg = (if msg2 = [] then trim_space body else msg2)
        in Inl (PlainErr (''service account token request returned '' @ itoa (hr_StatusCode resp) @ '': '' @ msg)))
     else if trim_space (tr_AccessToken parsed) = [] then
       Inl (PlainErr ''service account token response missing access_token'')
     else (let ttl1 = wrap64 (tr_ExpiresIn parsed * second);
               ttl2 = (if ttl1 \<le> 0 then hour else ttl1);
               ttl = (if vertexServiceAccountCacheSkew < ttl2 then ttl2 - vertexServiceAccountCacheSkew else ttl2)
           in Inr (tr_AccessToken parsed, ttl)))"

definition exchangeVertexServiceAccountToken :: "vertex_auth_lib \<Rightarrow> Account \<Rightarrow> vertexServiceAccountKey \<Rightarrow>
    ('z net_scheme, goerr + string \<times> int) state" where
  "exchangeVertexServiceAccountToken lib account key = do {
     now \<leftarrow> time_now;
     let claims = \<lparr>jc_Iss = sk_ClientEmail key, jc_Scope = vertexCloudPlatformScope, jc_Aud = sk_TokenURI key,
                   jc_Iat = now div second, jc_Exp = (now + hour) div second\<rparr>;
     let kid = (if trim_space (sk_PrivateKeyID key) \<noteq> [] then Some (sk_PrivateKeyID key) else None);
     attempt (al_ParseRSAPrivateKeyFromPEM lib (sk_PrivateKey key)) (WrapErr ''parse service account private key'')
       (\<lambda>privateKey. attempt (al_Sign lib kid claims privateKey) (WrapErr ''sign service account assertion'')
         (\<lambda>assertion. attempt (al_Client lib account) (WrapErr ''configure service account token proxy'')
           (\<lambda>env. do {
              r \<leftarrow> send env \<lparr>hq_Method = ''POST'', hq_URL = sk_TokenURI key,
                     hq_Header = [(''Content-Type'', ''application/x-www-form-urlencoded'')],
                     hq_Body = form_body assertion\<rparr>;
              attempt r (\<lambda>err. WrapErr ''service account token request failed''
                  (case err of OtherError e \<Rightarrow> e | APIError _ _ _ \<Rightarrow> context_canceled))
                (\<lambda>resp. ret (token_of_response lib resp)) }))) }"

text \<open>A token of the cache that is not blank.\<close>

definition cached_token :: "'s GeminiTokenCache option \<Rightarrow> string \<Rightarrow> ('s, string option) state" where
  "cached_token cache cacheKey = (case cache of
      None \<Rightarrow> ret None
    | Some c \<Rightarrow> do {
        r \<leftarrow> tc_GetAccessToken c cacheKey;
        ret (case r of Inr token \<Rightarrow> if trim_space token \<noteq> [] then Some token else None | Inl _ \<Rightarrow> None) })"

text \<open>The lock: whether it is held, and whether another one holds it.\<close>

definition refresh_lock :: "'s GeminiTokenCache option \<Rightarrow> string \<Rightarrow> ('s, bool \<times> bool) state" where
  "refresh_lock cache cacheKey = (case cache of
      None \<Rightarrow> ret (False, False)
    | Some c \<Rightarrow> do {
        r \<leftarrow> tc_AcquireRefreshLock c cacheKey (30 * second);
        ret (case r of Inr locked \<Rightarrow> (locked, \<not> locked) | Inl _ \<Rightarrow> (False, False)) })"

definition exchange_and_store :: "vertex_auth_lib \<Rightarrow> 'z net_scheme GeminiTokenCache option \<Rightarrow> Account \<Rightarrow>
    vertexServiceAccountKey \<Rightarrow> string \<Rightarrow> ('z net_scheme, goerr + string) state" where
  "exchange_and_store lib cache account key cacheKey = do {
     r \<leftarrow> exchangeVertexServiceAccountToken lib account key;
     attempt r id (\<lambda>(accessToken, ttl). case cache of
         None \<Rightarrow> ret (Inr accessToken)
       | Some c \<Rightarrow> do { u \<leftarrow> tc_SetAccessToken c cacheKey accessToken ttl; ret (Inr accessToken) }) }"

text \<open>
  \<^verbatim>\<open>getVertexServiceAccountAccessToken\<close>.  When another process holds the lock, it waits and looks again; a lock that
  this call holds is released when it returns.
\<close>

definition getVertexServiceAccountAccessToken :: "vertex_auth_lib \<Rightarrow> 'z net_scheme GeminiTokenCache option \<Rightarrow> Account \<Rightarrow>
    ('z net_scheme, goerr + string) state" where
  "getVertexServiceAccountAccessToken lib cache account =
     attempt (parseVertexServiceAccountKey lib account) id (\<lambda>key. let cacheKey = vertexServiceAccountCacheKey lib key in do {
       first \<leftarrow> cached_token cache cacheKey;
       case first of
         Some token \<Rightarrow> ret (Inr token)
       | None \<Rightarrow> do {
           (locked, busy) \<leftarrow> refresh_lock cache cacheKey;
           again \<leftarrow> (if busy then cached_token cache cacheKey else ret None);
           case again of
             Some token \<Rightarrow> ret (Inr token)
           | None \<Rightarrow> do {
               r \<leftarrow> exchange_and_store lib cache account key cacheKey;
               case cache of
                 Some c \<Rightarrow> if locked then do { u \<leftarrow> tc_ReleaseRefreshLock c cacheKey; ret r } else ret r
               | None \<Rightarrow> ret r } } })"

subsection \<open>Where a key is sent\<close>

lemma parsed_token_uri: "parseVertexServiceAccountKey lib account = Inr key \<Longrightarrow> sk_TokenURI key = vertexDefaultTokenURL"
  by (auto simp: parseVertexServiceAccountKey_def parseVertexServiceAccountJSON_def Let_def
      split: if_splits sum.splits option.splits json.splits)

definition quiet_cache :: "'z net_scheme GeminiTokenCache \<Rightarrow> bool" where
  "quiet_cache c \<longleftrightarrow> (\<forall>k. steps (sends (\<lambda>_. False)) (tc_GetAccessToken c k))
     \<and> (\<forall>k t ttl. steps (sends (\<lambda>_. False)) (tc_SetAccessToken c k t ttl))
     \<and> (\<forall>k ttl. steps (sends (\<lambda>_. False)) (tc_AcquireRefreshLock c k ttl))
     \<and> (\<forall>k. steps (sends (\<lambda>_. False)) (tc_ReleaseRefreshLock c k))"

lemma quiet_steps:
  assumes "quiet_cache c"
  shows "steps (sends P) (tc_GetAccessToken c k)" "steps (sends P) (tc_SetAccessToken c k t ttl)"
    "steps (sends P) (tc_AcquireRefreshLock c k l)" "steps (sends P) (tc_ReleaseRefreshLock c k)"
  using assms unfolding quiet_cache_def by (auto elim!: steps_sends_mono allE)

lemma token_requests:
  assumes "case cache of None \<Rightarrow> True | Some c \<Rightarrow> quiet_cache c"
  shows "steps (sends (\<lambda>q. hq_URL q = vertexDefaultTokenURL \<and> hq_Method q = ''POST''))
    (getVertexServiceAccountAccessToken lib cache account)"
  using assms
  unfolding getVertexServiceAccountAccessToken_def cached_token_def refresh_lock_def exchange_and_store_def
      exchangeVertexServiceAccountToken_def Let_def
  by (cases cache) (auto intro!: steps_intro quiet_steps dest: parsed_token_uri)

end
