(* ===== verification/VertexStore.thy ===== *)
theory VertexStore
  imports TrimLemmas
begin

section \<open>The clients of Vertex AI and of Cloud Storage\<close>

text \<open>
  The interfaces \<^verbatim>\<open>VertexBatchClient\<close> and \<^verbatim>\<open>VertexBatchObjectStore\<close> of
  \<^verbatim>\<open>service/batch_image_provider_vertex.go\<close> as records of operations, their implementations
  \<^verbatim>\<open>VertexBatchHTTPClient\<close> and \<^verbatim>\<open>VertexGCSObjectStore\<close>, and the reader that joins the objects of a result.  The
  locale at the end states what the provider relies on when it deletes.
\<close>

subsection \<open>The interfaces\<close>

record VertexCreateBatchPredictionJobRequest =
  vr_ProjectID :: string
  vr_Location :: string
  vr_DisplayName :: string
  vr_Model :: string
  vr_InstancesFormat :: string
  vr_URIs :: "string list"
  vr_PredictionsFormat :: string
  vr_OutputURIPrefix :: string
  vr_KeyField :: "string option"

text \<open>The code of an error is never read.\<close>

record VertexBatchJobError =
  vx_Message :: string
  vx_Status :: string

record VertexBatchPredictionJob =
  vj_Name :: string
  vj_DisplayName :: string
  vj_State :: string
  vj_OutputURIPrefix :: string
  vj_Error :: "VertexBatchJobError option"

text \<open>
  A body that is read piece by piece: its chunks, the error it ends with (none: end of file), and whether the end
  is reported together with the last chunk.
\<close>

record object_reader =
  or_Chunks :: "string list"
  or_Err :: "goerr option"
  or_Eager :: bool

record 's VertexBatchClient =
  vc_CreateBatchPredictionJob :: "string \<Rightarrow> VertexCreateBatchPredictionJobRequest \<Rightarrow>
    ('s, call_error + VertexBatchPredictionJob option) state"
  vc_GetBatchPredictionJob :: "string \<Rightarrow> string \<Rightarrow> ('s, call_error + VertexBatchPredictionJob option) state"
  vc_CancelBatchPredictionJob :: "string \<Rightarrow> string \<Rightarrow> ('s, call_error + unit) state"

record 's VertexBatchObjectStore =
  vo_UploadJSONL :: "string \<Rightarrow> string \<Rightarrow> string \<Rightarrow> ('s, call_error + unit) state"
  vo_ListJSONLObjects :: "string \<Rightarrow> string \<Rightarrow> ('s, call_error + string list) state"
  vo_OpenObject :: "string \<Rightarrow> string \<Rightarrow> ('s, call_error + object_reader \<times> string) state"
  vo_DeleteObject :: "string \<Rightarrow> string \<Rightarrow> ('s, call_error + unit) state"
  vo_DeletePrefix :: "string \<Rightarrow> string \<Rightarrow> ('s, call_error + unit) state"

subsection \<open>Vertex AI\<close>

record VertexBatchHTTPClient =
  vb_BaseURL :: string
  vb_Env :: http_env
  vb_DecodeJob :: "string \<Rightarrow> goerr + VertexBatchPredictionJob"

definition NewVertexBatchHTTPClient :: "string \<Rightarrow> http_env \<Rightarrow> (string \<Rightarrow> goerr + VertexBatchPredictionJob) \<Rightarrow>
    VertexBatchHTTPClient" where
  "NewVertexBatchHTTPClient baseURL env decode =
     \<lparr>vb_BaseURL = trim_right {CHR ''/''} (trim_space baseURL), vb_Env = env, vb_DecodeJob = decode\<rparr>"

definition defaultVertexBatchLocation :: string where "defaultVertexBatchLocation = ''global''"

definition vertexLocationPattern :: "string \<Rightarrow> bool" where
  "vertexLocationPattern s \<longleftrightarrow> s \<noteq> [] \<and>
     list_all (\<lambda>c. in_range 0x61 0x7A c \<or> in_range 0x30 0x39 c \<or> c = CHR ''-'') s"

definition BuildVertexBatchPredictionJobsEndpoint :: "string \<Rightarrow> string \<Rightarrow> string \<Rightarrow> goerr + string" where
  "BuildVertexBatchPredictionJobsEndpoint baseURL projectID0 location0 = (let
       projectID = trim_space projectID0;
       location = (if trim_space location0 = [] then defaultVertexBatchLocation else trim_space location0);
       path = ''/v1/projects/'' @ path_escape projectID @ ''/locations/'' @ path_escape location @ ''/batchPredictionJobs''
     in if projectID = [] then Inl (PlainErr ''vertex project_id is required'')
        else if \<not> vertexLocationPattern location then Inl (PlainErr (''invalid vertex location: '' @ location))
        else if trim_space baseURL \<noteq> [] then Inr (trim_right {CHR ''/''} (trim_space baseURL) @ path)
        else Inr (''https://'' @ (if location = ''global'' then ''aiplatform.googleapis.com''
                                 else location @ ''-aiplatform.googleapis.com'') @ path))"

definition bearer :: "string \<Rightarrow> string \<times> string" where
  "bearer accessToken = (''Authorization'', ''Bearer '' @ accessToken)"

definition create_request_json :: "VertexCreateBatchPredictionJobRequest \<Rightarrow> string" where
  "create_request_json r = json_braces ([
     json_member ''displayName'' (json_quote (vr_DisplayName r)),
     json_member ''model'' (json_quote (vr_Model r)),
     json_member ''inputConfig'' (json_braces [
       json_member ''instancesFormat'' (json_quote (vr_InstancesFormat r)),
       json_member ''gcsSource'' (json_braces [json_member ''uris'' (json_brackets (map json_quote (vr_URIs r)))])]),
     json_member ''outputConfig'' (json_braces [
       json_member ''predictionsFormat'' (json_quote (vr_PredictionsFormat r)),
       json_member ''gcsDestination'' (json_braces [json_member ''outputUriPrefix'' (json_quote (vr_OutputURIPrefix r))])])]
     @ (case vr_KeyField r of None \<Rightarrow> []
        | Some k \<Rightarrow> [json_member ''instanceConfig'' (json_braces [json_member ''keyField'' (json_quote k)])]))"

definition CreateBatchPredictionJob :: "VertexBatchHTTPClient \<Rightarrow> string \<Rightarrow> VertexCreateBatchPredictionJobRequest \<Rightarrow>
    ('z net_scheme, call_error + VertexBatchPredictionJob option) state" where
  "CreateBatchPredictionJob c accessToken req =
     attempt (BuildVertexBatchPredictionJobsEndpoint (vb_BaseURL c) (vr_ProjectID req) (vr_Location req)) OtherError
       (\<lambda>endpoint. do {
          r \<leftarrow> doDecodeJSON (vb_Env c) (vb_DecodeJob c)
                 \<lparr>hq_Method = ''POST'', hq_URL = endpoint,
                  hq_Header = [(''Content-Type'', ''application/json''), bearer accessToken],
                  hq_Body = create_request_json req\<rparr>;
          attempt r id (\<lambda>job. ret (Inr (Some job))) })"

definition vertexResourceURL :: "VertexBatchHTTPClient \<Rightarrow> string \<Rightarrow> string" where
  "vertexResourceURL c name0 = (let name = trim_left {CHR ''/''} (trim_space name0) in
     if vb_BaseURL c \<noteq> [] then vb_BaseURL c @ ''/v1/'' @ name else ''https://aiplatform.googleapis.com/v1/'' @ name)"

definition GetBatchPredictionJob :: "VertexBatchHTTPClient \<Rightarrow> string \<Rightarrow> string \<Rightarrow>
    ('z net_scheme, call_error + VertexBatchPredictionJob option) state" where
  "GetBatchPredictionJob c accessToken name = do {
     r \<leftarrow> doDecodeJSON (vb_Env c) (vb_DecodeJob c)
            \<lparr>hq_Method = ''GET'', hq_URL = vertexResourceURL c name, hq_Header = [bearer accessToken], hq_Body = []\<rparr>;
     attempt r id (\<lambda>job. ret (Inr (Some job))) }"

definition CancelBatchPredictionJob :: "VertexBatchHTTPClient \<Rightarrow> string \<Rightarrow> string \<Rightarrow>
    ('z net_scheme, call_error + unit) state" where
  "CancelBatchPredictionJob c accessToken name =
     doNoBody (vb_Env c) \<lparr>hq_Method = ''POST'', hq_URL = vertexResourceURL c name @ '':cancel'',
       hq_Header = [bearer accessToken], hq_Body = []\<rparr>"

definition vertex_http_client :: "VertexBatchHTTPClient \<Rightarrow> 'z net_scheme VertexBatchClient" where
  "vertex_http_client c = \<lparr>vc_CreateBatchPredictionJob = CreateBatchPredictionJob c,
     vc_GetBatchPredictionJob = GetBatchPredictionJob c, vc_CancelBatchPredictionJob = CancelBatchPredictionJob c\<rparr>"

subsection \<open>Cloud Storage\<close>

text \<open>A page of a listing; the answer is decoded by \<^verbatim>\<open>encoding/json\<close>.\<close>

record gcs_page =
  gp_Items :: "string list"
  gp_NextPageToken :: string

record VertexGCSObjectStore =
  gs_BaseURL :: string
  gs_Env :: http_env
  gs_DecodePage :: "string \<Rightarrow> goerr + gcs_page"
  gs_Body :: "http_response \<Rightarrow> object_reader"

definition NewVertexGCSObjectStore :: "string \<Rightarrow> http_env \<Rightarrow> (string \<Rightarrow> goerr + gcs_page) \<Rightarrow>
    (http_response \<Rightarrow> object_reader) \<Rightarrow> VertexGCSObjectStore" where
  "NewVertexGCSObjectStore baseURL env decode body = (let b = trim_right {CHR ''/''} (trim_space baseURL) in
     \<lparr>gs_BaseURL = (if b = [] then ''https://storage.googleapis.com'' else b), gs_Env = env,
      gs_DecodePage = decode, gs_Body = body\<rparr>)"

definition invalid_gcs_uri :: goerr where "invalid_gcs_uri = PlainErr ''invalid gcs uri''"

definition parseGCSURI :: "string \<Rightarrow> goerr + string \<times> string" where
  "parseGCSURI uri0 = (let uri = trim_space uri0; rest = drop 5 uri;
       bucket = takeWhile (\<lambda>c. c \<noteq> CHR ''/'') rest; object = drop (length bucket + 1) rest
     in if \<not> has_prefix uri ''gs://'' then Inl invalid_gcs_uri
        else if bucket = rest \<or> trim_space bucket = [] \<or> trim_space object = [] then Inl invalid_gcs_uri
        else Inr (bucket, object))"

definition bucket_url :: "VertexGCSObjectStore \<Rightarrow> string \<Rightarrow> string" where
  "bucket_url s bucket = gs_BaseURL s @ ''/storage/v1/b/'' @ path_escape bucket @ ''/o''"

definition object_url :: "VertexGCSObjectStore \<Rightarrow> string \<Rightarrow> string \<Rightarrow> string" where
  "object_url s bucket object = bucket_url s bucket @ ''/'' @ path_escape object"

definition UploadJSONL :: "VertexGCSObjectStore \<Rightarrow> string \<Rightarrow> string \<Rightarrow> string \<Rightarrow>
    ('z net_scheme, call_error + unit) state" where
  "UploadJSONL s accessToken uri content = attempt (parseGCSURI uri) OtherError (\<lambda>(bucket, object).
     doNoBody (gs_Env s) \<lparr>hq_Method = ''POST'',
       hq_URL = gs_BaseURL s @ ''/upload/storage/v1/b/'' @ path_escape bucket @ ''/o?uploadType=media&name=''
         @ query_escape object,
       hq_Header = [bearer accessToken, (''Content-Type'', ''application/jsonl'')], hq_Body = content\<rparr>)"

definition list_request :: "VertexGCSObjectStore \<Rightarrow> string \<Rightarrow> string \<Rightarrow> string \<Rightarrow> string \<Rightarrow> http_request" where
  "list_request s accessToken bucket prefix pageToken = \<lparr>hq_Method = ''GET'',
     hq_URL = bucket_url s bucket @ ''?prefix='' @ query_escape prefix
       @ (if pageToken \<noteq> [] then ''&pageToken='' @ query_escape pageToken else []),
     hq_Header = [bearer accessToken], hq_Body = []\<rparr>"

definition page_objects :: "string \<Rightarrow> bool \<Rightarrow> gcs_page \<Rightarrow> string list" where
  "page_objects bucket jsonlOnly page =
     [''gs://'' @ bucket @ ''/'' @ name. name \<leftarrow> gp_Items page, \<not> jsonlOnly \<or> has_suffix name ''.jsonl'']"

text \<open>
  The loop of \<^verbatim>\<open>listObjects\<close>.  The other side may return a next page for ever; the loop then ends when the context
  of the caller is cancelled.
\<close>

function list_pages :: "VertexGCSObjectStore \<Rightarrow> string \<Rightarrow> string \<Rightarrow> string \<Rightarrow> bool \<Rightarrow> string \<Rightarrow> string list \<Rightarrow>
    'z net_scheme \<Rightarrow> (call_error + string list) \<times> 'z net_scheme" where
  "list_pages s accessToken bucket prefix jsonlOnly pageToken objects w =
     (case run_state (doDecodeJSON (gs_Env s) (gs_DecodePage s) (list_request s accessToken bucket prefix pageToken)) w of
        (Inl err, w') \<Rightarrow> (Inl err, w')
      | (Inr page, w') \<Rightarrow>
          if gp_NextPageToken page = [] then (Inr (objects @ page_objects bucket jsonlOnly page), w')
          else list_pages s accessToken bucket prefix jsonlOnly (gp_NextPageToken page)
                 (objects @ page_objects bucket jsonlOnly page) w')"
  by pat_completeness auto
termination
  by (relation "measure (\<lambda>(_, _, _, _, _, _, _, w). nt_CallsLeft w)") (auto elim: doDecodeJSON_Inr [OF sym])

declare list_pages.simps [simp del]

definition listObjects :: "VertexGCSObjectStore \<Rightarrow> string \<Rightarrow> string \<Rightarrow> bool \<Rightarrow>
    ('z net_scheme, call_error + string list) state" where
  "listObjects s accessToken prefixURI jsonlOnly = attempt (parseGCSURI prefixURI) OtherError (\<lambda>(bucket, prefix).
     State (list_pages s accessToken bucket prefix jsonlOnly [] []))"

definition ListJSONLObjects :: "VertexGCSObjectStore \<Rightarrow> string \<Rightarrow> string \<Rightarrow>
    ('z net_scheme, call_error + string list) state" where
  "ListJSONLObjects s accessToken prefixURI = listObjects s accessToken prefixURI True"

definition OpenObject :: "VertexGCSObjectStore \<Rightarrow> string \<Rightarrow> string \<Rightarrow>
    ('z net_scheme, call_error + object_reader \<times> string) state" where
  "OpenObject s accessToken uri = attempt (parseGCSURI uri) OtherError (\<lambda>(bucket, object). do {
     r \<leftarrow> send_ok (gs_Env s) \<lparr>hq_Method = ''GET'', hq_URL = object_url s bucket object @ ''?alt=media'',
            hq_Header = [bearer accessToken], hq_Body = []\<rparr>;
     attempt r id (\<lambda>resp. ret (Inr (gs_Body s resp,
       if header_value resp ''Content-Type'' = [] then ''application/jsonl'' else header_value resp ''Content-Type''))) })"

definition delete_request :: "VertexGCSObjectStore \<Rightarrow> string \<Rightarrow> string \<Rightarrow> string \<Rightarrow> http_request" where
  "delete_request s accessToken bucket object = \<lparr>hq_Method = ''DELETE'', hq_URL = object_url s bucket object,
     hq_Header = [bearer accessToken], hq_Body = []\<rparr>"

definition DeleteObject :: "VertexGCSObjectStore \<Rightarrow> string \<Rightarrow> string \<Rightarrow> ('z net_scheme, call_error + unit) state" where
  "DeleteObject s accessToken uri = attempt (parseGCSURI uri) OtherError (\<lambda>(bucket, object).
     doNoBody (gs_Env s) (delete_request s accessToken bucket object))"

fun delete_objects :: "VertexGCSObjectStore \<Rightarrow> string \<Rightarrow> string list \<Rightarrow> ('z net_scheme, call_error + unit) state" where
  "delete_objects s accessToken [] = ret (Inr ())"
| "delete_objects s accessToken (uri # uris) = do {
     r \<leftarrow> DeleteObject s accessToken uri;
     attempt r id (\<lambda>_. delete_objects s accessToken uris) }"

definition DeletePrefix :: "VertexGCSObjectStore \<Rightarrow> string \<Rightarrow> string \<Rightarrow> ('z net_scheme, call_error + unit) state" where
  "DeletePrefix s accessToken prefixURI = do {
     r \<leftarrow> listObjects s accessToken prefixURI False;
     attempt r id (\<lambda>objects. delete_objects s accessToken objects) }"

definition gcs_store :: "VertexGCSObjectStore \<Rightarrow> 'z net_scheme VertexBatchObjectStore" where
  "gcs_store s = \<lparr>vo_UploadJSONL = UploadJSONL s, vo_ListJSONLObjects = ListJSONLObjects s,
     vo_OpenObject = OpenObject s, vo_DeleteObject = DeleteObject s, vo_DeletePrefix = DeletePrefix s\<rparr>"

subsection \<open>What a deletion reaches\<close>

text \<open>
  The provider deletes objects of a bucket that other batches share, so it relies on this of a store: deleting an
  object deletes no other one, deleting a prefix deletes nothing outside \<open>below prefix\<close>, and the other operations
  delete nothing.  \<open>deletes U\<close> relates two states when only objects of \<open>U\<close> were deleted between them.
\<close>

locale deletion_store =
  fixes deletes :: "string set \<Rightarrow> 's \<Rightarrow> 's \<Rightarrow> bool"
    and below :: "string \<Rightarrow> string set"
    and store :: "'s VertexBatchObjectStore"
  assumes deletes_refl: "reflp (deletes U)"
    and deletes_trans: "transp (deletes U)"
    and deletes_mono: "U \<subseteq> V \<Longrightarrow> deletes U w w' \<Longrightarrow> deletes V w w'"
    and delete_object: "steps (deletes {uri}) (vo_DeleteObject store token uri)"
    and delete_prefix: "steps (deletes (below uri)) (vo_DeletePrefix store token uri)"
    and upload: "steps (deletes {}) (vo_UploadJSONL store token uri content)"
    and listing: "steps (deletes {}) (vo_ListJSONLObjects store token uri)"
    and open_object: "steps (deletes {}) (vo_OpenObject store token uri)"
begin

lemma steps_mono: "steps (deletes U) m \<Longrightarrow> U \<subseteq> V \<Longrightarrow> steps (deletes V) m"
  by (auto simp: steps_def intro: deletes_mono)

lemma harmless: "steps (deletes {}) m \<Longrightarrow> steps (deletes U) m"
  by (erule steps_mono) simp

lemmas store_steps = delete_object [THEN steps_mono] delete_prefix [THEN steps_mono] upload [THEN harmless]
  listing [THEN harmless] open_object [THEN harmless]

end

text \<open>
  For Cloud Storage: every DELETE request is for an object of \<open>U\<close>.  What a prefix reaches is what the listing names;
  \<open>lists_below\<close> is the documented behaviour of the listing, that it names objects with the prefix.
\<close>

definition deletes_only :: "VertexGCSObjectStore \<Rightarrow> string set \<Rightarrow> 'z net_scheme \<Rightarrow> 'z net_scheme \<Rightarrow> bool" where
  "deletes_only s U = sends (\<lambda>q. hq_Method q = ''DELETE'' \<longrightarrow>
     (\<exists>uri token bucket object. uri \<in> U \<and> parseGCSURI uri = Inr (bucket, object)
        \<and> q = delete_request s token bucket object))"

definition lists_below :: "VertexGCSObjectStore \<Rightarrow> string \<Rightarrow> string \<Rightarrow> bool" where
  "lists_below s bucket prefix \<longleftrightarrow> (\<forall>sent token pageToken resp page name.
     hv_Serve (gs_Env s) sent (list_request s token bucket prefix pageToken) = Inr resp \<longrightarrow>
     gs_DecodePage s (hr_Body resp) = Inr page \<longrightarrow> name \<in> set (gp_Items page) \<longrightarrow> starts_with prefix name)"

definition gcs_below :: "VertexGCSObjectStore \<Rightarrow> string \<Rightarrow> string set" where
  "gcs_below s uri = {uri'. \<exists>bucket prefix. parseGCSURI uri = Inr (bucket, prefix)
     \<and> (lists_below s bucket prefix \<longrightarrow> (\<exists>name. uri' = ''gs://'' @ bucket @ ''/'' @ name \<and> starts_with prefix name))}"

lemma steps_silent:
  "hq_Method q \<noteq> ''DELETE'' \<Longrightarrow> steps (deletes_only s U) (doNoBody env q)"
  "hq_Method q \<noteq> ''DELETE'' \<Longrightarrow> steps (deletes_only s U) (doDecodeJSON env decode q)"
  "hq_Method q \<noteq> ''DELETE'' \<Longrightarrow> steps (deletes_only s U) (send_ok env q)"
  unfolding deletes_only_def by (auto intro!: steps_calls)

lemma deletes_only_order [steps_intro]: "reflp (deletes_only s U)" "transp (deletes_only s U)" "timeless (deletes_only s U)"
  by (simp_all add: deletes_only_def sends_reflp sends_transp sends_timeless)

lemma list_pages_sends:
  assumes "\<And>pageToken. P (list_request s token bucket prefix pageToken)"
  shows "list_pages s token bucket prefix jsonlOnly pageToken objects w = (r, w') \<Longrightarrow> sends P w w'"
  using assms
proof (induction s token bucket prefix jsonlOnly pageToken objects w rule: list_pages.induct)
  case (1 s token bucket prefix jsonlOnly pageToken objects w)
  obtain p w1 where p: "run_state (doDecodeJSON (gs_Env s) (gs_DecodePage s) (list_request s token bucket prefix pageToken)) w
      = (p, w1)" by fastforce
  have one: "sends P w w1"
    by (rule stepsD [OF _ p]) (rule steps_calls, rule 1 (3))
  from 1 (2) p have cases: "w' = w1 \<or> (\<exists>page. p = Inr page \<and> gp_NextPageToken page \<noteq> [] \<and>
      list_pages s token bucket prefix jsonlOnly (gp_NextPageToken page)
        (objects @ page_objects bucket jsonlOnly page) w1 = (r, w'))"
    by (subst (asm) list_pages.simps) (auto split: sum.splits if_splits)
  then show ?case
  proof (elim disjE exE conjE)
    fix page assume "p = Inr page" "gp_NextPageToken page \<noteq> []"
      and rest: "list_pages s token bucket prefix jsonlOnly (gp_NextPageToken page)
        (objects @ page_objects bucket jsonlOnly page) w1 = (r, w')"
    then have "sends P w1 w'" using 1 (1) [OF p [symmetric]] 1 (3) by blast
    with one show ?case using sends_transp unfolding transp_def by blast
  qed (use one in simp)
qed

lemma steps_list_pages:
  "(\<And>pageToken. P (list_request s token bucket prefix pageToken)) \<Longrightarrow>
     steps (sends P) (State (list_pages s token bucket prefix jsonlOnly pageToken objects))"
  by (rule stepsI) (simp add: list_pages_sends [OF _ prod.collapse [symmetric]])

lemma list_pages_below:
  "list_pages s token bucket prefix jsonlOnly pageToken objects w = (Inr out, w') \<Longrightarrow> lists_below s bucket prefix \<Longrightarrow>
     uri \<in> set out \<Longrightarrow> uri \<in> set objects \<or> (\<exists>name. uri = ''gs://'' @ bucket @ ''/'' @ name \<and> starts_with prefix name)"
proof (induction s token bucket prefix jsonlOnly pageToken objects w rule: list_pages.induct)
  case (1 s token bucket prefix jsonlOnly pageToken objects w)
  obtain p w1 where p: "run_state (doDecodeJSON (gs_Env s) (gs_DecodePage s) (list_request s token bucket prefix pageToken)) w
      = (p, w1)" by fastforce
  from 1 (2) p obtain page where page: "p = Inr page"
    by (subst (asm) list_pages.simps) (auto split: sum.splits)
  obtain resp where "hv_Serve (gs_Env s) (nt_Sent w) (list_request s token bucket prefix pageToken) = Inr resp"
    "gs_DecodePage s (hr_Body resp) = Inr page"
    using p page by (auto elim: doDecodeJSON_Inr)
  then have names: "starts_with prefix name" if "name \<in> set (gp_Items page)" for name
    using 1 (3) that unfolding lists_below_def by blast
  then have new: "u \<in> set (page_objects bucket jsonlOnly page) \<Longrightarrow>
      \<exists>name. u = ''gs://'' @ bucket @ ''/'' @ name \<and> starts_with prefix name" for u
    by (auto simp: page_objects_def split: if_splits)
  show ?case
  proof (cases "gp_NextPageToken page = []")
    case True
    then have "out = objects @ page_objects bucket jsonlOnly page"
      using 1 (2) p page by (subst (asm) list_pages.simps) auto
    with 1 (4) new show ?thesis by auto
  next
    case False
    then have "list_pages s token bucket prefix jsonlOnly (gp_NextPageToken page)
        (objects @ page_objects bucket jsonlOnly page) w1 = (Inr out, w')"
      using 1 (2) p page by (subst (asm) list_pages.simps) auto
    with 1 (1) [OF p [symmetric] page False] 1 (3,4) new show ?thesis by fastforce
  qed
qed

lemma deletes_only_mono: "U \<subseteq> V \<Longrightarrow> deletes_only s U w w' \<Longrightarrow> deletes_only s V w w'"
  unfolding deletes_only_def by (erule sends_mono) blast

lemma listObjects_steps: "steps (deletes_only s U) (listObjects s token uri jsonlOnly)"
proof -
  have "steps (deletes_only s U) (State (list_pages s token bucket prefix jsonlOnly [] []))" for bucket prefix
    unfolding deletes_only_def by (rule steps_list_pages) (simp add: list_request_def)
  then show ?thesis
    unfolding listObjects_def by (intro steps_attempt deletes_only_order steps_case_prod)
qed

lemma DeleteObject_steps: "uri \<in> U \<Longrightarrow> steps (deletes_only s U) (DeleteObject s token uri)"
  unfolding DeleteObject_def deletes_only_def
  by (intro steps_attempt sends_reflp steps_case_prod steps_calls) blast

lemma delete_objects_steps: "set uris \<subseteq> U \<Longrightarrow> steps (deletes_only s U) (delete_objects s token uris)"
  by (induction uris) (auto intro!: steps_bind steps_attempt deletes_only_order steps_ret DeleteObject_steps)

lemma DeletePrefix_steps: "steps (deletes_only s (gcs_below s uri)) (DeletePrefix s token uri)"
proof (rule stepsI)
  fix w :: "'z net_scheme"
  let ?D = "deletes_only s (gcs_below s uri)"
  obtain r w1 where r: "run_state (listObjects s token uri False) w = (r, w1)" by fastforce
  have one: "?D w w1" by (rule stepsD [OF listObjects_steps r])
  show "?D w (snd (run_state (DeletePrefix s token uri) w))"
  proof (cases r)
    case (Inl err)
    with one r show ?thesis by (simp add: DeletePrefix_def run_bind)
  next
    case (Inr uris)
    have "set uris \<subseteq> gcs_below s uri"
    proof
      fix u assume u: "u \<in> set uris"
      obtain bucket prefix where parsed: "parseGCSURI uri = Inr (bucket, prefix)" and
        pages: "list_pages s token bucket prefix False [] [] w = (Inr uris, w1)"
        using r Inr by (auto simp: listObjects_def elim!: run_elims)
      show "u \<in> gcs_below s uri"
        using list_pages_below [OF pages _ u] by (simp add: gcs_below_def parsed)
    qed
    then have "?D w1 (snd (run_state (delete_objects s token uris) w1))"
      by (rule steps_snd [OF delete_objects_steps])
    then have "?D w (snd (run_state (delete_objects s token uris) w1))"
      by (rule transpD [OF deletes_only_order(2) one])
    then show ?thesis using r Inr by (simp add: DeletePrefix_def run_bind)
  qed
qed

interpretation gcs: deletion_store "deletes_only s" "gcs_below s" "gcs_store s"
  for s :: VertexGCSObjectStore
proof unfold_locales
  show "steps (deletes_only s {uri}) (vo_DeleteObject (gcs_store s) token uri)" for uri token
    by (simp add: gcs_store_def DeleteObject_steps)
  show "steps (deletes_only s (gcs_below s uri)) (vo_DeletePrefix (gcs_store s) token uri)" for uri token
    by (simp add: gcs_store_def DeletePrefix_steps)
  show "steps (deletes_only s {}) (vo_UploadJSONL (gcs_store s) token uri content)" for uri token content
    by (auto simp: gcs_store_def UploadJSONL_def intro!: steps_attempt deletes_only_order steps_case_prod steps_silent)
  show "steps (deletes_only s {}) (vo_ListJSONLObjects (gcs_store s) token uri)" for uri token
    by (simp add: gcs_store_def ListJSONLObjects_def listObjects_steps)
  show "steps (deletes_only s {}) (vo_OpenObject (gcs_store s) token uri)" for uri token
    by (auto simp: gcs_store_def OpenObject_def
        intro!: steps_attempt deletes_only_order steps_case_prod steps_bind steps_silent steps_ret)
qed (auto simp: deletes_only_order intro: deletes_only_mono)

end
