(* ===== verification/CombinedReader.thy ===== *)
theory CombinedReader
  imports VertexStore
begin

section \<open>Reading the objects of a result as one stream\<close>

text \<open>
  \<^verbatim>\<open>vertexCombinedJSONLReadCloser\<close> of \<^verbatim>\<open>service/batch_image_provider_vertex.go\<close>: the objects of a result are opened one
  after the other and joined by newlines.  A read may return any number of bytes up to the size of the buffer.
\<close>

datatype read_end = EndOfFile | Failed call_error

record vertexCombinedJSONLReadCloser =
  cr_Objects :: "string list"
  cr_Current :: "object_reader option"
  cr_NeedBoundary :: bool
  cr_Closed :: bool

definition io_closed_pipe :: goerr where "io_closed_pipe = PlainErr ''io: read/write on closed pipe''"

definition reader_end :: "object_reader \<Rightarrow> read_end" where
  "reader_end r = (case or_Err r of None \<Rightarrow> EndOfFile | Some err \<Rightarrow> Failed (OtherError err))"

text \<open>One read of a body with a buffer of \<open>n\<close> bytes.\<close>

definition read_object :: "nat \<Rightarrow> object_reader \<Rightarrow> (string \<times> read_end option) \<times> object_reader" where
  "read_object n r = (case or_Chunks r of
      [] \<Rightarrow> (([], Some (reader_end r)), r)
    | c # cs \<Rightarrow>
        if length c \<le> n then ((c, if or_Eager r \<and> cs = [] then Some (reader_end r) else None), r\<lparr>or_Chunks := cs\<rparr>)
        else ((take n c, None), r\<lparr>or_Chunks := drop n c # cs\<rparr>))"

text \<open>The read of the current object; \<^verbatim>\<open>continue\<close> finds no further object and returns the end of file.\<close>

definition read_current :: "nat \<Rightarrow> object_reader \<Rightarrow> vertexCombinedJSONLReadCloser \<Rightarrow>
    (string \<times> read_end option) \<times> vertexCombinedJSONLReadCloser" where
  "read_current n r rd = (case read_object n r of ((out, e), r') \<Rightarrow>
     if e = Some EndOfFile then
       (if cr_Objects rd \<noteq> [] then
          (if out \<noteq> [] then ((out, None), rd\<lparr>cr_Current := None, cr_NeedBoundary := True\<rparr>)
           else if n = 0 then (([], None), rd\<lparr>cr_Current := None\<rparr>)
           else ((newline, None), rd\<lparr>cr_Current := None\<rparr>))
        else if out \<noteq> [] then ((out, None), rd\<lparr>cr_Current := None\<rparr>)
        else (([], Some EndOfFile), rd\<lparr>cr_Current := None\<rparr>))
     else ((out, e), rd\<lparr>cr_Current := Some r'\<rparr>))"

definition combined_Read :: "'s VertexBatchObjectStore \<Rightarrow> string \<Rightarrow> nat \<Rightarrow> vertexCombinedJSONLReadCloser \<Rightarrow>
    ('s, (string \<times> read_end option) \<times> vertexCombinedJSONLReadCloser) state" where
  "combined_Read store accessToken n rd =
     (if cr_Closed rd then ret (([], Some (Failed (OtherError io_closed_pipe))), rd)
      else if cr_NeedBoundary rd then
        (if n = 0 then ret (([], None), rd) else ret ((newline, None), rd\<lparr>cr_NeedBoundary := False\<rparr>))
      else (case cr_Current rd of
          Some r \<Rightarrow> ret (read_current n r rd)
        | None \<Rightarrow> (case cr_Objects rd of
              [] \<Rightarrow> ret (([], Some EndOfFile), rd)
            | obj # objs \<Rightarrow> do {
                opened \<leftarrow> vo_OpenObject store accessToken obj;
                case opened of
                  Inl err \<Rightarrow> ret (([], Some (Failed err)), rd\<lparr>cr_Objects := objs\<rparr>)
                | Inr (r, _) \<Rightarrow> ret (read_current n r (rd\<lparr>cr_Objects := objs\<rparr>)) })))"

definition combined_Close :: "vertexCombinedJSONLReadCloser \<Rightarrow> vertexCombinedJSONLReadCloser" where
  "combined_Close rd = rd\<lparr>cr_Closed := True\<rparr>"

definition new_reader :: "string list \<Rightarrow> vertexCombinedJSONLReadCloser" where
  "new_reader objects = \<lparr>cr_Objects = objects, cr_Current = None, cr_NeedBoundary = False, cr_Closed = False\<rparr>"

text \<open>A caller that reads with buffers of the given sizes until an end is reported.\<close>

fun read_sizes :: "'s VertexBatchObjectStore \<Rightarrow> string \<Rightarrow> nat list \<Rightarrow> vertexCombinedJSONLReadCloser \<Rightarrow>
    ('s, string \<times> read_end option) state" where
  "read_sizes store accessToken [] rd = ret ([], None)"
| "read_sizes store accessToken (n # ns) rd = do {
     (res, rd') \<leftarrow> combined_Read store accessToken n rd;
     case snd res of
       Some _ \<Rightarrow> ret res
     | None \<Rightarrow> do {
         res' \<leftarrow> read_sizes store accessToken ns rd';
         ret (fst res @ fst res', snd res') } }"

subsection \<open>The stream is the objects, joined\<close>

definition content :: "object_reader \<Rightarrow> string" where
  "content r = concat (or_Chunks r)"

text \<open>What is still to be delivered, and how many reads that takes at most.\<close>

definition remaining :: "(string \<Rightarrow> object_reader) \<Rightarrow> vertexCombinedJSONLReadCloser \<Rightarrow> string" where
  "remaining body rd = (if cr_NeedBoundary rd then newline else [])
     @ (case cr_Current rd of None \<Rightarrow> [] | Some r \<Rightarrow> content r @ (if cr_Objects rd = [] then [] else newline))
     @ join newline (map (\<lambda>obj. content (body obj)) (cr_Objects rd))"

definition chunk_cost :: "object_reader \<Rightarrow> nat" where
  "chunk_cost r = (\<Sum>c\<leftarrow>or_Chunks r. Suc (length c))"

definition read_cost :: "(string \<Rightarrow> object_reader) \<Rightarrow> vertexCombinedJSONLReadCloser \<Rightarrow> nat" where
  "read_cost body rd = (if cr_NeedBoundary rd then 1 else 0)
     + (case cr_Current rd of None \<Rightarrow> 0 | Some r \<Rightarrow> chunk_cost r + 1)
     + (\<Sum>obj\<leftarrow>cr_Objects rd. chunk_cost (body obj) + 2)"

text \<open>The reader between two reads: a boundary is only pending between two objects.\<close>

definition reader_ok :: "vertexCombinedJSONLReadCloser \<Rightarrow> bool" where
  "reader_ok rd \<longleftrightarrow> \<not> cr_Closed rd
     \<and> (cr_NeedBoundary rd \<longrightarrow> cr_Current rd = None \<and> cr_Objects rd \<noteq> [])
     \<and> (case cr_Current rd of None \<Rightarrow> True | Some r \<Rightarrow> or_Err r = None)"

text \<open>One read that makes progress: it delivers the next bytes, or reports the end when nothing is left.\<close>

definition progress :: "(string \<Rightarrow> object_reader) \<Rightarrow> vertexCombinedJSONLReadCloser \<Rightarrow>
    (string \<times> read_end option) \<times> vertexCombinedJSONLReadCloser \<Rightarrow> bool" where
  "progress body rd res \<longleftrightarrow> (case res of ((out, e), rd') \<Rightarrow>
     remaining body rd = out @ remaining body rd' \<and> reader_ok rd' \<and>
     (case e of None \<Rightarrow> read_cost body rd' < read_cost body rd
      | Some e' \<Rightarrow> e' = EndOfFile \<and> out = [] \<and> remaining body rd' = []))"

lemma read_object_step:
  assumes "read_object n r = ((out, e), r')" "or_Err r = None"
  shows "content r = out @ content r'" "or_Err r' = None"
    "e = Some EndOfFile \<Longrightarrow> or_Chunks r' = []" "e = None \<or> e = Some EndOfFile"
    "0 < n \<Longrightarrow> e = None \<Longrightarrow> chunk_cost r' < chunk_cost r"
    "or_Chunks r \<noteq> [] \<Longrightarrow> 0 < n \<Longrightarrow> chunk_cost r' < chunk_cost r"
  using assms by (auto simp: read_object_def reader_end_def content_def chunk_cost_def split: list.splits if_splits)

lemma chunk_cost_pos: "content r \<noteq> [] \<Longrightarrow> 0 < chunk_cost r"
  by (cases "or_Chunks r") (auto simp: content_def chunk_cost_def)

lemma join_Cons: "join sep (x # xs) = x @ (if xs = [] then [] else sep @ join sep xs)"
  by (cases xs) auto

lemma read_current_progress:
  assumes "or_Err r = None" "0 < n" "\<not> cr_Closed rd" "\<not> cr_NeedBoundary rd"
  shows "progress body (rd\<lparr>cr_Current := Some r\<rparr>) (read_current n r rd)"
proof -
  obtain out e r' where o: "read_object n r = ((out, e), r')" by (metis surj_pair)
  note step = read_object_step [OF o assms(1)]
  show ?thesis
  proof (cases "e = Some EndOfFile")
    case True
    then have "content r = out" using step(1,3) by (simp add: content_def)
    with True o assms chunk_cost_pos [of r] show ?thesis
      by (auto simp: progress_def read_current_def remaining_def read_cost_def reader_ok_def)
  next
    case False
    with step(4) have "e = None" by blast
    with o step assms show ?thesis
      by (auto simp: progress_def read_current_def remaining_def read_cost_def reader_ok_def)
  qed
qed

lemma read_current_objects: "cr_Objects (snd (read_current n r rd)) = cr_Objects rd"
  by (auto simp: read_current_def split: prod.splits)

text \<open>A store that can open the objects, with bodies that end without an error.\<close>

definition serves_object :: "'s VertexBatchObjectStore \<Rightarrow> string \<Rightarrow> (string \<Rightarrow> object_reader) \<Rightarrow> string \<Rightarrow> bool" where
  "serves_object store accessToken body obj \<longleftrightarrow> or_Err (body obj) = None
     \<and> (\<forall>s. \<exists>contentType s'. run_state (vo_OpenObject store accessToken obj) s = (Inr (body obj, contentType), s'))"

lemma progress_from:
  assumes "progress body rd1 res" "remaining body rd1 = remaining body rd" "read_cost body rd1 < read_cost body rd"
  shows "progress body rd res"
proof -
  obtain out e rd' where "res = ((out, e), rd')" by (metis surj_pair)
  with assms show ?thesis by (cases e) (simp_all add: progress_def)
qed

lemma combined_Read_progress:
  assumes ok: "reader_ok rd" "0 < n" and srv: "list_all (serves_object store token body) (cr_Objects rd)"
    and run: "run_state (combined_Read store token n rd) s = (res, s')"
  shows "progress body rd res \<and> list_all (serves_object store token body) (cr_Objects (snd res))"
proof (cases "cr_NeedBoundary rd")
  case True
  then have "res = ((newline, None), rd\<lparr>cr_NeedBoundary := False\<rparr>)"
    using ok run by (simp add: combined_Read_def reader_ok_def)
  with True ok srv show ?thesis
    by (simp add: reader_ok_def progress_def remaining_def read_cost_def)
next
  case n: False
  show ?thesis
  proof (cases "cr_Current rd")
    case (Some r)
    then have "res = read_current n r rd" "or_Err r = None" "\<not> cr_Closed rd" "rd\<lparr>cr_Current := Some r\<rparr> = rd"
      using ok run n by (simp_all add: combined_Read_def reader_ok_def)
    with ok(2) n srv read_current_progress [of r n rd body] show ?thesis by (simp add: read_current_objects)
  next
    case c: None
    show ?thesis
    proof (cases "cr_Objects rd")
      case Nil
      then have "res = (([], Some EndOfFile), rd)" using ok run n c by (simp add: combined_Read_def reader_ok_def)
      with Nil ok n c show ?thesis by (simp add: progress_def remaining_def)
    next
      case objs: (Cons obj objs)
      have srv1: "serves_object store token body obj" using srv objs by simp
      then obtain ct s1 where open_obj: "run_state (vo_OpenObject store token obj) s = (Inr (body obj, ct), s1)"
        unfolding serves_object_def by blast
      have err: "or_Err (body obj) = None" using srv1 by (simp add: serves_object_def)
      have res: "res = read_current n (body obj) (rd\<lparr>cr_Objects := objs\<rparr>)"
        using run ok n c objs open_obj by (simp add: combined_Read_def reader_ok_def run_bind)
      have "progress body (rd\<lparr>cr_Objects := objs, cr_Current := Some (body obj)\<rparr>) res"
        unfolding res using err ok n by (intro read_current_progress) (auto simp: reader_ok_def)
      moreover have "remaining body (rd\<lparr>cr_Objects := objs, cr_Current := Some (body obj)\<rparr>) = remaining body rd"
        using n c objs by (simp add: remaining_def join_Cons)
      moreover have "read_cost body (rd\<lparr>cr_Objects := objs, cr_Current := Some (body obj)\<rparr>) < read_cost body rd"
        using n c objs by (simp add: read_cost_def)
      ultimately have "progress body rd res" by (rule progress_from)
      moreover have "list_all (serves_object store token body) (cr_Objects (snd res))"
        using srv objs unfolding res by (simp add: read_current_objects)
      ultimately show ?thesis by blast
    qed
  qed
qed

lemma read_sizes_remaining:
  assumes "run_state (read_sizes store token ns rd) s = ((out, e), s')" "reader_ok rd" "list_all (\<lambda>n. 0 < n) ns"
    "list_all (serves_object store token body) (cr_Objects rd)"
  shows "(\<exists>rest. remaining body rd = out @ rest \<and> (e \<noteq> None \<longrightarrow> rest = [])) \<and> e \<in> {None, Some EndOfFile}
    \<and> (read_cost body rd < length ns \<longrightarrow> e = Some EndOfFile)"
  using assms
proof (induction ns arbitrary: rd s s' out e)
  case (Cons n ns)
  obtain o1 e1 rd1 s1 where r: "run_state (combined_Read store token n rd) s = (((o1, e1), rd1), s1)" by (metis surj_pair)
  from Cons.prems have "progress body rd ((o1, e1), rd1) \<and> list_all (serves_object store token body) (cr_Objects rd1)"
    using combined_Read_progress [OF _ _ _ r] by auto
  then have p: "remaining body rd = o1 @ remaining body rd1" "reader_ok rd1" "list_all (serves_object store token body) (cr_Objects rd1)"
    "e1 = None \<Longrightarrow> read_cost body rd1 < read_cost body rd"
    "e1 \<noteq> None \<Longrightarrow> e1 = Some EndOfFile \<and> o1 = [] \<and> remaining body rd1 = []"
    by (auto simp: progress_def split: option.splits)
  show ?case
  proof (cases e1)
    case None
    obtain o2 e2 s2 where r2: "run_state (read_sizes store token ns rd1) s1 = ((o2, e2), s2)" by (metis surj_pair)
    have oe: "out = o1 @ o2" "e = e2" using Cons.prems(1) r r2 None by (auto simp: run_bind)
    have "(\<exists>rest. remaining body rd1 = o2 @ rest \<and> (e2 \<noteq> None \<longrightarrow> rest = [])) \<and> e2 \<in> {None, Some EndOfFile}
        \<and> (read_cost body rd1 < length ns \<longrightarrow> e2 = Some EndOfFile)"
      using Cons.IH [OF r2] p Cons.prems by simp
    with p(1,4) None oe show ?thesis by auto
  next
    case (Some x)
    then have "out = o1" "e = e1" using Cons.prems(1) r by (auto simp: run_bind)
    with p Some show ?thesis by auto
  qed
qed auto


definition sample_body :: "string \<Rightarrow> object_reader" where
  "sample_body obj = (if obj = ''gs://b/1'' then \<lparr>or_Chunks = [''ab'', [], ''c''], or_Err = None, or_Eager = True\<rparr>
     else \<lparr>or_Chunks = [''de''], or_Err = None, or_Eager = False\<rparr>)"

definition sample_store :: "unit VertexBatchObjectStore" where
  "sample_store = \<lparr>vo_UploadJSONL = \<lambda>_ _ _. ret (Inr ()), vo_ListJSONLObjects = \<lambda>_ _. ret (Inr []),
     vo_OpenObject = \<lambda>_ obj. ret (Inr (sample_body obj, ''application/jsonl'')),
     vo_DeleteObject = \<lambda>_ _. ret (Inr ()), vo_DeletePrefix = \<lambda>_ _. ret (Inr ())\<rparr>"


text \<open>A read with an empty buffer at the end of an object swallows the newline: two lines become one.\<close>

lemma empty_read_loses_newline:
  "fst (run_state (read_sizes sample_store [] [2, 0, 2, 2] (new_reader [''gs://b/2'', ''gs://b/2''])) ())
     = (''dede'', Some EndOfFile)"
  by (simp add: new_reader_def combined_Read_def sample_store_def sample_body_def read_current_def read_object_def
      reader_end_def run_bind)

end
