(* ===== verification/VertexProvider.thy ===== *)
theory VertexProvider
  imports VertexAuth CombinedReader
begin

section \<open>The Vertex provider\<close>

text \<open>
  \<^verbatim>\<open>VertexBatchImageProvider\<close> of \<^verbatim>\<open>service/batch_image_provider_vertex.go\<close>: input files and results lie in a bucket of
  the operator, under a prefix that names the batch.
\<close>

record VertexBatchImageProviderOptions =
  vo_ProjectID :: string
  vo_Location :: string
  vo_ManagedGCSBucket :: string
  vo_ManagedGCSPrefix :: string
  vo_Environment :: string
  vo_BatchPredictionBaseURL :: string
  vo_GCSBaseURL :: string

definition defaultVertexBatchRequeueAfter :: int where "defaultVertexBatchRequeueAfter = 30 * second"

definition defaultVertexManagedGCSPrefix :: string where
  "defaultVertexManagedGCSPrefix = ''batch-image/{env}/{batch_id}''"

abbreviation slash :: "char set" where "slash \<equiv> {CHR ''/''}"

definition normalizeVertexBatchImageProviderOptions ::
    "VertexBatchImageProviderOptions \<Rightarrow> VertexBatchImageProviderOptions" where
  "normalizeVertexBatchImageProviderOptions opts = (let
       location = trim_space (vo_Location opts);
       prefix = trim_set slash (trim_space (vo_ManagedGCSPrefix opts));
       environment = trim_space (vo_Environment opts)
     in \<lparr>vo_ProjectID = trim_space (vo_ProjectID opts),
         vo_Location = (if location = [] then defaultVertexBatchLocation else location),
         vo_ManagedGCSBucket = trim_set slash (trim_space (vo_ManagedGCSBucket opts)),
         vo_ManagedGCSPrefix = (if prefix = [] then defaultVertexManagedGCSPrefix else prefix),
         vo_Environment = (if environment = [] then ''default'' else environment),
         vo_BatchPredictionBaseURL = trim_right slash (trim_space (vo_BatchPredictionBaseURL opts)),
         vo_GCSBaseURL = trim_right slash (trim_space (vo_GCSBaseURL opts))\<rparr>)"

record 's VertexBatchImageProvider =
  vp_Opts :: VertexBatchImageProviderOptions
  vp_Client :: "'s VertexBatchClient"
  vp_ObjectStore :: "'s VertexBatchObjectStore"
  vp_TokenCache :: "'s GeminiTokenCache option"
  vp_Lib :: vertex_auth_lib

definition NewVertexBatchImageProvider :: "VertexBatchImageProviderOptions \<Rightarrow> http_env \<Rightarrow>
    (string \<Rightarrow> goerr + VertexBatchPredictionJob) \<Rightarrow> (string \<Rightarrow> goerr + gcs_page) \<Rightarrow> (http_response \<Rightarrow> object_reader) \<Rightarrow>
    'z net_scheme GeminiTokenCache option \<Rightarrow> vertex_auth_lib \<Rightarrow> 'z net_scheme VertexBatchImageProvider" where
  "NewVertexBatchImageProvider opts0 env decodeJob decodePage body cache lib = (let
       opts = normalizeVertexBatchImageProviderOptions opts0
     in \<lparr>vp_Opts = opts,
         vp_Client = vertex_http_client (NewVertexBatchHTTPClient (vo_BatchPredictionBaseURL opts) env decodeJob),
         vp_ObjectStore = gcs_store (NewVertexGCSObjectStore (vo_GCSBaseURL opts) env decodePage body),
         vp_TokenCache = cache, vp_Lib = lib\<rparr>)"

subsection \<open>Errors\<close>

definition vertexProviderError :: "string \<Rightarrow> string \<Rightarrow> goerr option \<Rightarrow> goerr" where
  "vertexProviderError reason message cause = (case cause of
      None \<Rightarrow> New 502 reason message | Some c \<Rightarrow> WithCause (New 502 reason message) c)"

definition mapVertexClientError :: "call_error \<Rightarrow> goerr" where
  "mapVertexClientError err = (case err of
      OtherError e \<Rightarrow>
        if err_is e ErrBatchImageProviderMissingServiceAccount \<or> err_is e ErrBatchImageProviderMissingJobName
          \<or> err_is e ErrBatchImageProviderMissingResultRef \<or> err_is e ErrBatchImageProviderUnsafeCleanupPath
          \<or> err_is e ErrUnsupportedCleanupTarget then e
        else vertexProviderError ''VERTEX_INVALID_RESPONSE'' ''Vertex API request failed'' (Some e)
    | APIError statusCode _ _ \<Rightarrow>
        if statusCode = 401 then vertexProviderError ''VERTEX_AUTH_FAILED'' ''Vertex authentication failed'' None
        else if statusCode = 403 then vertexProviderError ''VERTEX_PERMISSION_DENIED'' ''Vertex permission denied'' None
        else if statusCode = 429 then vertexProviderError ''VERTEX_RATE_LIMITED'' ''Vertex rate limit exceeded'' None
        else if statusCode = 404 then
          vertexProviderError ''VERTEX_BATCH_NOT_FOUND'' ''Vertex batch resource was not found'' None
        else vertexProviderError ''VERTEX_INVALID_RESPONSE'' ''Vertex API request failed'' None)"

subsection \<open>Where the files of a batch lie\<close>

definition segment_char :: "char \<Rightarrow> bool" where
  "segment_char c \<longleftrightarrow> ascii_alnum c \<or> c = CHR ''-'' \<or> c = CHR ''_'' \<or> c = CHR ''.''"

text \<open>Every rune that is not one of these characters, and every invalid byte, becomes one hyphen.\<close>

definition segment_rune :: "string option \<Rightarrow> string" where
  "segment_rune r = (case r of Some [c] \<Rightarrow> if segment_char c then [c] else ''-'' | _ \<Rightarrow> ''-'')"

definition sanitizeVertexGCSPathSegment :: "string \<Rightarrow> string" where
  "sanitizeVertexGCSPathSegment v0 = (let v = trim_space v0 in
     if v = [] then ''default''
     else concat (map segment_rune (runes v)))"

definition buildVertexManagedGCSPrefix :: "string \<Rightarrow> string \<Rightarrow> string \<Rightarrow> string" where
  "buildVertexManagedGCSPrefix template0 env batchID = (let
       template1 = trim_set slash (trim_space template0);
       template = (if template1 = [] then defaultVertexManagedGCSPrefix else template1);
       prefix = replace_all ''{env}'' (sanitizeVertexGCSPathSegment env) template;
       prefix = replace_all ''{batch_id}'' (sanitizeVertexGCSPathSegment batchID) prefix
     in trim_set slash prefix)"

record vertexManagedRefs =
  mr_Prefix :: string
  mr_InputURI :: string
  mr_OutputPrefixURI :: string

definition managedRefs :: "VertexBatchImageProviderOptions \<Rightarrow> string \<Rightarrow> goerr + vertexManagedRefs" where
  "managedRefs opts batchID0 = (let
       batchID = trim_space batchID0;
       bucket = trim_set slash (trim_space (vo_ManagedGCSBucket opts));
       prefix = buildVertexManagedGCSPrefix (vo_ManagedGCSPrefix opts) (vo_Environment opts) batchID;
       base = ''gs://'' @ bucket @ ''/'' @ trim_set slash prefix
     in if \<not> IsValidBatchImageID batchID then Inl (batchImageProviderInputError ''valid batch_id is required'')
        else if bucket = [] \<or> contains bucket ''://'' then
          Inl (vertexProviderError ''VERTEX_MANAGED_GCS_BUCKET_MISSING'' ''Vertex managed GCS bucket is not configured'' None)
        else if \<not> contains prefix batchID then
          Inl (batchImageProviderInputError ''managed GCS prefix must contain batch_id'')
        else Inr \<lparr>mr_Prefix = trim_set slash prefix, mr_InputURI = base @ ''/input/requests.jsonl'',
                   mr_OutputPrefixURI = base @ ''/output/''\<rparr>)"

subsection \<open>Operations\<close>

definition vertex_validateAccount :: "'s VertexBatchImageProvider \<Rightarrow> Account \<Rightarrow> goerr + unit" where
  "vertex_validateAccount p account =
     (if ac_Platform account \<noteq> PlatformGemini \<or> ac_Type account \<noteq> AccountTypeServiceAccount then
        Inl ErrBatchImageProviderUnsupportedAccount
      else (case parseVertexServiceAccountKey (vp_Lib p) account of
          Inl _ \<Rightarrow> Inl ErrBatchImageProviderMissingServiceAccount | Inr _ \<Rightarrow> Inr ()))"

definition vertex_SupportsAccount :: "'s VertexBatchImageProvider \<Rightarrow> Account \<Rightarrow> bool" where
  "vertex_SupportsAccount p account \<longleftrightarrow> ac_Platform account = PlatformGemini
     \<and> ac_Type account = AccountTypeServiceAccount
     \<and> (case parseVertexServiceAccountKey (vp_Lib p) account of Inl _ \<Rightarrow> False | Inr _ \<Rightarrow> True)"

text \<open>The access token, with its error mapped.\<close>

definition with_token :: "'z net_scheme VertexBatchImageProvider \<Rightarrow> Account \<Rightarrow>
    (string \<Rightarrow> ('z net_scheme, goerr + 'b) state) \<Rightarrow> ('z net_scheme, goerr + 'b) state" where
  "with_token p account k = do {
     token \<leftarrow> getVertexServiceAccountAccessToken (vp_Lib p) (vp_TokenCache p) account;
     attempt token (\<lambda>err. mapVertexClientError (OtherError err)) k }"

definition vertexBatchDisplayName :: "BatchImageInput \<Rightarrow> string" where
  "vertexBatchDisplayName input =
     (if trim_space (bn_DisplayName input) \<noteq> [] then trim_space (bn_DisplayName input)
      else if trim_space (bn_BatchID input) \<noteq> [] then ''sub2api-'' @ trim_space (bn_BatchID input)
      else ''sub2api-image-batch'')"

definition NormalizeVertexBatchModelPath :: "string \<Rightarrow> string" where
  "NormalizeVertexBatchModelPath model0 = (let model = trim_set slash (trim_space model0) in
     if has_prefix model ''publishers/'' \<or> has_prefix model ''projects/'' then model
     else ''publishers/google/models/'' @ model)"

text \<open>From the upload of the input file to the end.\<close>

definition vertex_create :: "'z net_scheme VertexBatchImageProvider \<Rightarrow> Account \<Rightarrow> BatchImageInput \<Rightarrow> vertexManagedRefs \<Rightarrow>
    string \<Rightarrow> ('z net_scheme, goerr + BatchProviderJob option) state" where
  "vertex_create p account input refs accessToken = (let
       projectID1 = trim_space (vo_ProjectID (vp_Opts p));
       projectID = (if projectID1 = [] then VertexProjectID (vp_Lib p) account else projectID1);
       location1 = trim_space (vo_Location (vp_Opts p));
       location = (if location1 = [] then VertexLocation account (bn_Model input) else location1)
     in if projectID = [] then
          ret (Inl (vertexProviderError ''VERTEX_PROJECT_ID_MISSING'' ''Vertex project id is not configured'' None))
        else do {
          created \<leftarrow> vc_CreateBatchPredictionJob (vp_Client p) accessToken
            \<lparr>vr_ProjectID = projectID, vr_Location = location, vr_DisplayName = vertexBatchDisplayName input,
             vr_Model = NormalizeVertexBatchModelPath (bn_Model input), vr_InstancesFormat = ''jsonl'',
             vr_URIs = [mr_InputURI refs], vr_PredictionsFormat = ''jsonl'',
             vr_OutputURIPrefix = mr_OutputPrefixURI refs, vr_KeyField = Some ''key''\<rparr>;
          attempt created mapVertexClientError (\<lambda>job. ret (case job of
              None \<Rightarrow> Inl (vertexProviderError ''VERTEX_INVALID_RESPONSE'' ''Vertex batch response is missing job name'' None)
            | Some j \<Rightarrow>
                if trim_space (vj_Name j) = [] then
                  Inl (vertexProviderError ''VERTEX_INVALID_RESPONSE'' ''Vertex batch response is missing job name'' None)
                else Inr (Some \<lparr>pj_ProviderJobName = vj_Name j, pj_ProviderInputRef = mr_InputURI refs,
                  pj_ProviderOutputRef = mr_OutputPrefixURI refs, pj_RawState = vj_State j\<rparr>))) })"

definition vertex_Submit :: "'z net_scheme VertexBatchImageProvider \<Rightarrow> f64 BatchImageJob \<Rightarrow> Account \<Rightarrow> BatchImageInput \<Rightarrow>
    ('z net_scheme, goerr + BatchProviderJob option) state" where
  "vertex_Submit p job account input0 = attempt (vertex_validateAccount p account) id (\<lambda>_.
     if trim_space (vo_ManagedGCSBucket (vp_Opts p)) = [] then
       ret (Inl (vertexProviderError ''VERTEX_MANAGED_GCS_BUCKET_MISSING'' ''Vertex managed GCS bucket is not configured'' None))
     else (let input = fill_input job input0 in
       attempt (BuildVertexBatchJSONL input) id (\<lambda>jsonl.
         attempt (managedRefs (vp_Opts p) (bn_BatchID input)) id (\<lambda>refs.
           with_token p account (\<lambda>accessToken. do {
             uploaded \<leftarrow> vo_UploadJSONL (vp_ObjectStore p) accessToken (mr_InputURI refs) jsonl;
             attempt uploaded (\<lambda>_. vertexProviderError ''VERTEX_GCS_UPLOAD_FAILED'' ''Vertex managed GCS upload failed'' None)
               (\<lambda>_. vertex_create p account input refs accessToken) })))))"

definition set_state :: "provider_status \<Rightarrow> string \<Rightarrow> bool \<Rightarrow> string \<Rightarrow> int \<Rightarrow> provider_status" where
  "set_state status internal ended code requeue = status\<lparr>ps_InternalState := internal, ps_Done := ended,
     ps_ErrorCode := code, ps_SuggestedRequeueAfter := requeue\<rparr>"

definition mapVertexBatchState :: "VertexBatchPredictionJob \<Rightarrow> provider_status" where
  "mapVertexBatchState job = (let
       state = trim_space (vj_State job);
       upper = to_upper state;
       start = \<lparr>ps_RawState = state, ps_InternalState = BatchProviderStateRunning, ps_ProviderOutputRef = [],
                ps_ErrorCode = [], ps_ErrorMessage = [],
                ps_SuggestedRequeueAfter = defaultVertexBatchRequeueAfter, ps_Done = False\<rparr>;
       status =
        (if upper = ''JOB_STATE_PENDING'' \<or> upper = ''JOB_STATE_QUEUED'' then
           start\<lparr>ps_InternalState := BatchProviderStateQueued\<rparr>
         else if upper = ''JOB_STATE_RUNNING'' \<or> upper = ''JOB_STATE_PAUSED'' then
           start\<lparr>ps_InternalState := BatchProviderStateRunning\<rparr>
         else if upper = ''JOB_STATE_SUCCEEDED'' then set_state start BatchProviderStateSucceeded True [] 0
         else if upper = ''JOB_STATE_FAILED'' then set_state start BatchProviderStateFailed True ''VERTEX_BATCH_FAILED'' 0
         else if upper = ''JOB_STATE_CANCELLED'' then
           set_state start BatchProviderStateCancelled True ''VERTEX_BATCH_CANCELLED'' 0
         else if upper = ''JOB_STATE_EXPIRED'' then set_state start BatchProviderStateExpired True ''VERTEX_BATCH_EXPIRED'' 0
         else (case vj_Error job of
             Some err \<Rightarrow> if trim_space (vx_Message err) \<noteq> [] then
                 set_state start BatchProviderStateFailed True ''VERTEX_BATCH_FAILED'' 0 else start
           | None \<Rightarrow> start))
     in (case vj_Error job of
          None \<Rightarrow> status
        | Some err \<Rightarrow> (let code = trim_space (vx_Status err) in
            status\<lparr>ps_ErrorCode := (if code \<noteq> [] then code else ps_ErrorCode status),
                   ps_ErrorMessage := trim_space (vx_Message err)\<rparr>)))"

definition gcs_or :: "string \<Rightarrow> string option \<Rightarrow> string" where
  "gcs_or ref uri = (if ref = [] then (case uri of None \<Rightarrow> [] | Some u \<Rightarrow> trim_space u) else ref)"

definition vertex_Get :: "'z net_scheme VertexBatchImageProvider \<Rightarrow> f64 BatchImageJob \<Rightarrow> Account \<Rightarrow>
    ('z net_scheme, goerr + provider_status option) state" where
  "vertex_Get p job account = attempt (vertex_validateAccount p account) id (\<lambda>_.
     if batchImageProviderJobName job = [] then ret (Inl ErrBatchImageProviderMissingJobName)
     else with_token p account (\<lambda>accessToken. do {
       r \<leftarrow> vc_GetBatchPredictionJob (vp_Client p) accessToken (batchImageProviderJobName job);
       attempt r mapVertexClientError (\<lambda>vertexJob. ret (case vertexJob of
           None \<Rightarrow> Inl (vertexProviderError ''VERTEX_INVALID_RESPONSE'' ''Vertex batch response is empty'' None)
         | Some j \<Rightarrow> (let
               ref1 = trim_space (vj_OutputURIPrefix j);
               ref2 = (if ref1 = [] then batchImageProviderOutputRef job else ref1)
             in Inr (Some ((mapVertexBatchState j)\<lparr>ps_ProviderOutputRef := gcs_or ref2 (jb_GCSOutputURI job)\<rparr>))))) }))"

definition vertex_Cancel :: "'z net_scheme VertexBatchImageProvider \<Rightarrow> f64 BatchImageJob \<Rightarrow> Account \<Rightarrow>
    ('z net_scheme, goerr + unit) state" where
  "vertex_Cancel p job account = attempt (vertex_validateAccount p account) id (\<lambda>_.
     if batchImageProviderJobName job = [] then ret (Inl ErrBatchImageProviderMissingJobName)
     else with_token p account (\<lambda>accessToken. do {
       r \<leftarrow> vc_CancelBatchPredictionJob (vp_Client p) accessToken (batchImageProviderJobName job);
       attempt r mapVertexClientError (\<lambda>_. ret (Inr ())) }))"

text \<open>The access token goes into the reader, which opens the objects later.\<close>

definition vertex_OpenResult :: "'z net_scheme VertexBatchImageProvider \<Rightarrow> f64 BatchImageJob \<Rightarrow> Account \<Rightarrow>
    ('z net_scheme, goerr + (vertexCombinedJSONLReadCloser \<times> string) \<times> string) state" where
  "vertex_OpenResult p job account = attempt (vertex_validateAccount p account) id (\<lambda>_. let
       outputRef = gcs_or (batchImageProviderOutputRef job) (jb_GCSOutputURI job)
     in if outputRef = [] then ret (Inl ErrBatchImageProviderMissingResultRef)
     else with_token p account (\<lambda>accessToken. do {
       r \<leftarrow> vo_ListJSONLObjects (vp_ObjectStore p) accessToken outputRef;
       attempt r (\<lambda>_. vertexProviderError ''VERTEX_GCS_LIST_FAILED'' ''Vertex managed GCS list failed'' None)
         (\<lambda>objects. ret (
            if objects = [] then
              Inl (vertexProviderError ''VERTEX_RESULT_OBJECTS_MISSING'' ''Vertex result objects are missing'' None)
            else Inr ((new_reader (sort objects), accessToken), ''application/jsonl''))) }))"

subsection \<open>Cleanup\<close>

definition isSafeManagedInput :: "'s VertexBatchImageProvider \<Rightarrow> f64 BatchImageJob \<Rightarrow> string \<Rightarrow> bool" where
  "isSafeManagedInput p job uri \<longleftrightarrow> trim_space (jb_BatchID job) \<noteq> []
     \<and> (case managedRefs (vp_Opts p) (jb_BatchID job) of
          Inl _ \<Rightarrow> False | Inr refs \<Rightarrow> trim_space uri = mr_InputURI refs)"

definition isSafeManagedOutput :: "'s VertexBatchImageProvider \<Rightarrow> f64 BatchImageJob \<Rightarrow> string \<Rightarrow> bool" where
  "isSafeManagedOutput p job uri \<longleftrightarrow> trim_space (jb_BatchID job) \<noteq> []
     \<and> (case managedRefs (vp_Opts p) (jb_BatchID job) of
          Inl _ \<Rightarrow> False | Inr refs \<Rightarrow> has_prefix (trim_space uri) (mr_OutputPrefixURI refs))"

definition deleteManagedInput :: "'s VertexBatchImageProvider \<Rightarrow> string \<Rightarrow> f64 BatchImageJob \<Rightarrow> string \<Rightarrow>
    ('s, goerr + unit) state" where
  "deleteManagedInput p accessToken job uri =
     (if trim_space uri = [] then ret (Inr ())
      else if \<not> isSafeManagedInput p job uri then ret (Inl ErrBatchImageProviderUnsafeCleanupPath)
      else do {
        r \<leftarrow> vo_DeleteObject (vp_ObjectStore p) accessToken uri;
        attempt r mapVertexClientError (\<lambda>_. ret (Inr ())) })"

definition deleteManagedOutput :: "'s VertexBatchImageProvider \<Rightarrow> string \<Rightarrow> f64 BatchImageJob \<Rightarrow> string \<Rightarrow>
    ('s, goerr + unit) state" where
  "deleteManagedOutput p accessToken job uri =
     (if trim_space uri = [] then ret (Inr ())
      else if \<not> isSafeManagedOutput p job uri then ret (Inl ErrBatchImageProviderUnsafeCleanupPath)
      else do {
        r \<leftarrow> vo_DeletePrefix (vp_ObjectStore p) accessToken uri;
        attempt r mapVertexClientError (\<lambda>_. ret (Inr ())) })"

definition vertex_Cleanup :: "'z net_scheme VertexBatchImageProvider \<Rightarrow> f64 BatchImageJob \<Rightarrow> Account \<Rightarrow> string \<Rightarrow>
    ('z net_scheme, goerr + unit) state" where
  "vertex_Cleanup p job account target = attempt (vertex_validateAccount p account) id (\<lambda>_.
     with_token p account (\<lambda>accessToken. let
         inputRef = gcs_or (batchImageProviderInputRef job) (jb_GCSInputURI job);
         outputRef = gcs_or (batchImageProviderOutputRef job) (jb_GCSOutputURI job)
       in if target = CleanupTargetInput then deleteManagedInput p accessToken job inputRef
       else if target = CleanupTargetOutput then deleteManagedOutput p accessToken job outputRef
       else if target = CleanupTargetAll then do {
         r \<leftarrow> deleteManagedInput p accessToken job inputRef;
         attempt r id (\<lambda>_. deleteManagedOutput p accessToken job outputRef) }
       else ret (Inl ErrUnsupportedCleanupTarget)))"

end
