(* ===== verification/VertexPaths.thy ===== *)
theory VertexPaths
  imports VertexProvider
begin

section \<open>The paths of the Vertex provider\<close>

text \<open>
  Facts on the prefixes of \<^verbatim>\<open>managedRefs\<close>: what \<^verbatim>\<open>strings.ReplaceAll\<close> keeps of a template, and that different
  batches lie in different places.
\<close>

subsection \<open>Replacing a placeholder\<close>

text \<open>The pieces between the occurrences of a text; putting anything between them is replacing the text.\<close>

function pieces :: "string \<Rightarrow> string \<Rightarrow> string list" where
  "pieces old [] = [[]]"
| "pieces old (c # s) =
     (if old \<noteq> [] \<and> starts_with old (c # s) then [] # pieces old (drop (length old) (c # s))
      else (case pieces old s of [] \<Rightarrow> [] | p # ps \<Rightarrow> (c # p) # ps))"
  by pat_completeness auto
termination
  by (relation "measure (\<lambda>(_, s). length s)") (auto simp: neq_Nil_conv)

declare pieces.simps [simp del]

lemma pieces_nonempty: "pieces old s \<noteq> []"
  by (induction old s rule: pieces.induct) (auto simp: pieces.simps split: list.splits)

lemma pieces_hit: "old \<noteq> [] \<Longrightarrow> starts_with old (c # s) \<Longrightarrow>
    pieces old (c # s) = [] # pieces old (drop (length old) (c # s))"
  by (subst pieces.simps) simp

lemma pieces_miss: "old \<noteq> [] \<Longrightarrow> \<not> starts_with old (c # s) \<Longrightarrow>
    pieces old (c # s) = (c # hd (pieces old s)) # tl (pieces old s)"
  using pieces_nonempty [of old s] by (subst pieces.simps) (simp split: list.split)

lemma replace_hit: "old \<noteq> [] \<Longrightarrow> starts_with old (c # s) \<Longrightarrow>
    replace_all old new (c # s) = new @ replace_all old new (drop (length old) (c # s))"
  by (subst replace_all.simps) simp

lemma replace_miss: "old \<noteq> [] \<Longrightarrow> \<not> starts_with old (c # s) \<Longrightarrow>
    replace_all old new (c # s) = c # replace_all old new s"
  by (subst replace_all.simps) simp

lemma join_front: "ps \<noteq> [] \<Longrightarrow> join sep ((c # hd ps) # tl ps) = c # join sep ps"
  by (cases ps) (auto simp: join_Cons)

lemma replace_all_pieces: "old \<noteq> [] \<Longrightarrow> replace_all old new s = join new (pieces old s)"
proof (induction old s rule: pieces.induct)
  case (2 old c s)
  show ?case
  proof (cases "starts_with old (c # s)")
    case True
    with 2 show ?thesis by (simp add: replace_hit pieces_hit join_Cons pieces_nonempty)
  next
    case False
    with 2 show ?thesis by (simp add: replace_miss pieces_miss join_front pieces_nonempty)
  qed
qed (simp add: pieces.simps)

lemma join_pieces: "old \<noteq> [] \<Longrightarrow> join old (pieces old s) = s"
proof (induction old s rule: pieces.induct)
  case (2 old c s)
  show ?case
  proof (cases "starts_with old (c # s)")
    case True
    then have "old @ drop (length old) (c # s) = c # s"
      unfolding starts_with_def by (metis append_take_drop_id)
    with True 2 show ?thesis by (simp add: pieces_hit join_Cons pieces_nonempty)
  next
    case False
    with 2 show ?thesis by (simp add: pieces_miss join_front pieces_nonempty)
  qed
qed (simp add: pieces.simps)

lemma pieces_contains: "contains s old \<Longrightarrow> old \<noteq> [] \<Longrightarrow> 2 \<le> length (pieces old s)"
proof (induction old s rule: pieces.induct)
  case (2 old c s)
  show ?case
  proof (cases "starts_with old (c # s)")
    case True
    with 2 (4) pieces_nonempty [of old "drop (length old) (c # s)"] show ?thesis
      by (simp add: pieces_hit Suc_le_eq)
  next
    case False
    with 2 (2-4) show ?thesis by (simp add: pieces_miss)
  qed
qed simp

lemma join_inj:
  assumes "join a ps = join b ps" "2 \<le> length ps"
  shows "a = b"
proof -
  have len: "length (join x ps) = sum_list (map length ps) + (length ps - 1) * length x" for x
    by (induction ps) (auto simp: join_Cons neq_Nil_conv)
  have "(length ps - 1) * length a = (length ps - 1) * length b" by (metis assms(1) len add_left_cancel)
  moreover have "0 < length ps - 1" using assms(2) by linarith
  ultimately have "length a = length b" by (metis mult_cancel1 not_less0)
  moreover obtain p q qs where "ps = p # q # qs" using assms(2) by (cases ps; cases "tl ps") auto
  ultimately show ?thesis using assms(1) by simp
qed

text \<open>The number of slashes does not depend on what is filled in, when that has none.\<close>

lemma slashes_join: "CHR ''/'' \<notin> set a \<Longrightarrow> count_list (join a ps) (CHR ''/'') = (\<Sum>p\<leftarrow>ps. count_list p (CHR ''/''))"
  by (induction ps) (auto simp: join_Cons count_list_0_iff)

text \<open>A text with no slash at either end.\<close>

definition trimmed_path :: "string \<Rightarrow> bool" where
  "trimmed_path s \<longleftrightarrow> s \<noteq> [] \<and> hd s \<noteq> CHR ''/'' \<and> last s \<noteq> CHR ''/''"

lemma dropWhile_stays: "xs \<noteq> [] \<Longrightarrow> \<not> P (hd xs) \<Longrightarrow> dropWhile P xs = xs"
  by (cases xs) auto

lemma trimmed_path_trim: "trimmed_path s \<Longrightarrow> trim_set slash s = s"
  by (simp add: trimmed_path_def trim_set_def trim_left_def trim_right_def dropWhile_stays hd_rev)

lemma trim_trimmed_path: "trim_set slash s \<noteq> [] \<Longrightarrow> trimmed_path (trim_set slash s)"
  using hd_trim_set [of slash s] last_trim_set [of slash s] by (simp add: trimmed_path_def)

lemma join_edges:
  assumes "ps \<noteq> []" "a \<noteq> []" "CHR ''/'' \<notin> set a"
  shows "trimmed_path (join a ps) \<longleftrightarrow> ps \<noteq> [[]]
    \<and> (hd ps = [] \<or> hd (hd ps) \<noteq> CHR ''/'') \<and> (last ps = [] \<or> last (last ps) \<noteq> CHR ''/'')"
proof -
  have h: "join a ps \<noteq> [] \<longleftrightarrow> ps \<noteq> [[]]" using assms(1,2) by (cases ps) (auto simp: join_Cons)
  have "hd a \<noteq> CHR ''/''" "last a \<noteq> CHR ''/''" using assms(2,3) by (auto dest: hd_in_set last_in_set)
  moreover from this(1) have "ps \<noteq> [[]] \<Longrightarrow> hd (join a ps) \<noteq> CHR ''/'' \<longleftrightarrow> hd ps = [] \<or> hd (hd ps) \<noteq> CHR ''/''"
    using assms(1,2) by (cases ps) (auto simp: join_Cons hd_append)
  moreover have "qs \<noteq> [] \<Longrightarrow> qs \<noteq> [[]] \<Longrightarrow> last (join a qs) \<noteq> CHR ''/'' \<longleftrightarrow> last qs = [] \<or> last (last qs) \<noteq> CHR ''/''" for qs
  proof (induction qs)
    case (Cons q qs)
    then show ?case
      using assms(2) calculation(2) by (cases "qs = []"; cases "qs = [[]]") (auto simp: join_Cons last_append neq_Nil_conv)
  qed simp
  ultimately show ?thesis using h assms(1) by (auto simp: trimmed_path_def)
qed

lemma trimmed_path_replace:
  assumes "trimmed_path s" "old \<noteq> []" "CHR ''/'' \<notin> set old" "new \<noteq> []" "CHR ''/'' \<notin> set new"
  shows "trimmed_path (replace_all old new s)"
proof -
  have "trimmed_path (join old (pieces old s))" using assms(1,2) by (simp add: join_pieces)
  then show ?thesis
    using assms by (simp add: join_edges pieces_nonempty replace_all_pieces)
qed

text \<open>A segment that is filled in.\<close>

lemma segment_sanitized: "sanitizeVertexGCSPathSegment v \<noteq> [] \<and> list_all segment_char (sanitizeVertexGCSPathSegment v)"
proof (cases "trim_space v = []")
  case False
  have r: "segment_rune r \<noteq> [] \<and> list_all segment_char (segment_rune r)" for r
    by (auto simp: segment_rune_def segment_char_def split: option.splits list.splits)
  have "runes (trim_space v) \<noteq> []" using False by (cases "trim_space v") (auto simp: runes.simps Let_def)
  then obtain x xs where "runes (trim_space v) = x # xs" by (auto simp: neq_Nil_conv)
  with r show ?thesis
    using False by (auto simp: sanitizeVertexGCSPathSegment_def Let_def list_all_iff)
next
  case True
  have "list_all segment_char ''default''" by code_simp
  with True show ?thesis by (simp add: sanitizeVertexGCSPathSegment_def)
qed

lemma no_slash_segment: "list_all segment_char s \<Longrightarrow> CHR ''/'' \<notin> set s"
proof -
  have "\<not> segment_char (CHR ''/'')" by code_simp
  then show "list_all segment_char s \<Longrightarrow> CHR ''/'' \<notin> set s" by (auto simp: list_all_iff)
qed

lemmas sanitized_no_slash = segment_sanitized [THEN conjunct2, THEN no_slash_segment]

subsection \<open>The prefix of a batch\<close>

definition managed_template :: "VertexBatchImageProviderOptions \<Rightarrow> string" where
  "managed_template opts = (let template = trim_set slash (trim_space (vo_ManagedGCSPrefix opts)) in
     replace_all ''{env}'' (sanitizeVertexGCSPathSegment (vo_Environment opts))
       (if template = [] then defaultVertexManagedGCSPrefix else template))"

definition managed_path :: "VertexBatchImageProviderOptions \<Rightarrow> string \<Rightarrow> string" where
  "managed_path opts segment = replace_all ''{batch_id}'' segment (managed_template opts)"

definition managed_base :: "VertexBatchImageProviderOptions \<Rightarrow> string \<Rightarrow> string" where
  "managed_base opts batchID = ''gs://'' @ trim_set slash (trim_space (vo_ManagedGCSBucket opts)) @ ''/''
     @ managed_path opts (sanitizeVertexGCSPathSegment (trim_space batchID))"

lemma managed_template_trimmed: "trimmed_path (managed_template opts)"
proof -
  have d: "trimmed_path defaultVertexManagedGCSPrefix"
    by (simp add: trimmed_path_def defaultVertexManagedGCSPrefix_def)
  have "trimmed_path (if trim_set slash (trim_space (vo_ManagedGCSPrefix opts)) = [] then defaultVertexManagedGCSPrefix
      else trim_set slash (trim_space (vo_ManagedGCSPrefix opts)))"
    using d trim_trimmed_path by auto
  then show ?thesis
    unfolding managed_template_def Let_def
    by (rule trimmed_path_replace) (use segment_sanitized sanitized_no_slash in auto)
qed

lemma managed_path_trimmed: "segment \<noteq> [] \<Longrightarrow> CHR ''/'' \<notin> set segment \<Longrightarrow> trimmed_path (managed_path opts segment)"
  unfolding managed_path_def by (rule trimmed_path_replace [OF managed_template_trimmed]) auto

lemma buildPrefix_path: "buildVertexManagedGCSPrefix (vo_ManagedGCSPrefix opts) (vo_Environment opts) batchID
    = managed_path opts (sanitizeVertexGCSPathSegment batchID)"
  using managed_path_trimmed [of "sanitizeVertexGCSPathSegment batchID" opts] segment_sanitized sanitized_no_slash
  by (simp add: buildVertexManagedGCSPrefix_def Let_def trimmed_path_trim managed_path_def managed_template_def)

lemma managedRefs_Inr:
  assumes "managedRefs opts batchID = Inr refs"
  shows "mr_InputURI refs = managed_base opts batchID @ ''/input/requests.jsonl''"
    "mr_OutputPrefixURI refs = managed_base opts batchID @ ''/output/''"
    "trim_space batchID \<noteq> []"
    "trim_set slash (trim_space (vo_ManagedGCSBucket opts)) \<noteq> []"
  using assms managed_path_trimmed [of "sanitizeVertexGCSPathSegment (trim_space batchID)" opts]
    segment_sanitized sanitized_no_slash
  by (auto simp: managedRefs_def Let_def buildPrefix_path trimmed_path_trim managed_base_def IsValidBatchImageID_def
      split: if_splits)

subsection \<open>Different batches, different places\<close>

definition belongs_to :: "vertexManagedRefs \<Rightarrow> string \<Rightarrow> bool" where
  "belongs_to refs uri \<longleftrightarrow> uri = mr_InputURI refs \<or> starts_with (mr_OutputPrefixURI refs) uri"

lemma split_at_slash:
  assumes "a @ CHR ''/'' # x = b @ CHR ''/'' # y" "count_list a (CHR ''/'') = count_list b (CHR ''/'')"
  shows "a = b"
  using assms
proof (induction a arbitrary: b)
  case Nil
  then show ?case by (cases b) (auto split: if_splits)
next
  case (Cons c a)
  then obtain d b' where b: "b = d # b'" by (cases b) (auto split: if_splits)
  with Cons.prems have "c = d" "a @ CHR ''/'' # x = b' @ CHR ''/'' # y"
    "count_list a (CHR ''/'') = count_list b' (CHR ''/'')" by (auto split: if_splits)
  with Cons.IH b show ?case by blast
qed

lemma belongs_base:
  assumes "managedRefs opts batchID = Inr refs" "belongs_to refs uri"
  shows "\<exists>x. uri = managed_base opts batchID @ CHR ''/'' # x"
proof -
  note refs = managedRefs_Inr [OF assms(1)]
  have "\<exists>x. uri = mr_OutputPrefixURI refs @ x" if "starts_with (mr_OutputPrefixURI refs) uri"
    using that unfolding starts_with_def by (metis append_take_drop_id)
  with assms(2) refs(1,2) show ?thesis by (auto simp: belongs_to_def)
qed

lemma managed_base_inj:
  assumes "managed_base opts a = managed_base opts b" "contains (managed_template opts) ''{batch_id}''"
  shows "sanitizeVertexGCSPathSegment (trim_space a) = sanitizeVertexGCSPathSegment (trim_space b)"
  using assms(1) join_inj [OF _ pieces_contains [OF assms(2)]]
  by (simp add: managed_base_def managed_path_def replace_all_pieces)

lemma managed_base_slashes: "count_list (managed_base opts a) (CHR ''/'') = count_list (managed_base opts b) (CHR ''/'')"
  using sanitized_no_slash
  by (simp add: managed_base_def managed_path_def replace_all_pieces slashes_join)

end
