(* ===== verification/VertexProperties.thy ===== *)
theory VertexProperties
  imports VertexPaths
begin

section \<open>What the Vertex provider guarantees\<close>

subsection \<open>Batches lie apart\<close>

lemma runes_segment: "list_all plain s \<Longrightarrow> concat (map segment_rune (runes s)) = s"
proof (induction s)
  case (Cons c s)
  then have "in_range 0 0x7F c" "segment_rune (Some [c]) = [c]"
    by (auto simp: plain_def segment_rune_def segment_char_def ascii_alnum_def in_range_def)
  with Cons show ?case by (simp add: runes.simps rune_len_def)
qed (simp add: runes.simps)

lemma sanitize_plain: "list_all plain s \<Longrightarrow> s \<noteq> [] \<Longrightarrow> sanitizeVertexGCSPathSegment s = s"
  by (simp add: sanitizeVertexGCSPathSegment_def trim_space_plain runes_segment)

text \<open>
  C38: The files of different batches never share a place: for two ids of the form that the program makes (letters,
  digits, hyphens and underscores), no address is both the input or below the output of the one and the input or
  below the output of the other, whatever the environment and wherever the configured prefix names the batch.
\<close>
theorem vertex_batches_lie_apart:
  assumes "managedRefs opts a = Inr refs_a" "managedRefs opts b = Inr refs_b"
    and "contains (managed_template opts) ''{batch_id}''"
    and "list_all plain a" "list_all plain b" "a \<noteq> b"
  shows "\<not> (belongs_to refs_a uri \<and> belongs_to refs_b uri)"
proof
  assume "belongs_to refs_a uri \<and> belongs_to refs_b uri"
  then obtain x y where "managed_base opts a @ CHR ''/'' # x = managed_base opts b @ CHR ''/'' # y"
    using belongs_base [OF assms(1)] belongs_base [OF assms(2)] by metis
  then have "managed_base opts a = managed_base opts b" using managed_base_slashes by (rule split_at_slash)
  then have "sanitizeVertexGCSPathSegment (trim_space a) = sanitizeVertexGCSPathSegment (trim_space b)"
    using assms(3) by (rule managed_base_inj)
  moreover have "a \<noteq> []" "b \<noteq> []"
    using managedRefs_Inr(3) [OF assms(1)] managedRefs_Inr(3) [OF assms(2)] by auto
  ultimately show False using assms(4-6) by (simp add: trim_space_plain sanitize_plain)
qed

definition sample_options :: VertexBatchImageProviderOptions where
  "sample_options = normalizeVertexBatchImageProviderOptions
     \<lparr>vo_ProjectID = ''p'', vo_Location = [], vo_ManagedGCSBucket = ''gs-bucket/'', vo_ManagedGCSPrefix = [],
      vo_Environment = ''prod/eu'', vo_BatchPredictionBaseURL = [], vo_GCSBaseURL = []\<rparr>"

lemma sample_refs:
  "managedRefs sample_options ''imgbatch_a1'' =
     Inr \<lparr>mr_Prefix = ''batch-image/prod-eu/imgbatch_a1'',
          mr_InputURI = ''gs://gs-bucket/batch-image/prod-eu/imgbatch_a1/input/requests.jsonl'',
          mr_OutputPrefixURI = ''gs://gs-bucket/batch-image/prod-eu/imgbatch_a1/output/''\<rparr>"
  "managedRefs sample_options ''imgbatch_a12'' =
     Inr \<lparr>mr_Prefix = ''batch-image/prod-eu/imgbatch_a12'',
          mr_InputURI = ''gs://gs-bucket/batch-image/prod-eu/imgbatch_a12/input/requests.jsonl'',
          mr_OutputPrefixURI = ''gs://gs-bucket/batch-image/prod-eu/imgbatch_a12/output/''\<rparr>"
  by code_simp+

lemma vertex_batches_lie_apart_witness:
  "\<not> (\<exists>refs_b. managedRefs sample_options ''imgbatch_a12'' = Inr refs_b
        \<and> belongs_to refs_b ''gs://gs-bucket/batch-image/prod-eu/imgbatch_a1/output/x.jsonl'')"
proof -
  have own: "belongs_to \<lparr>mr_Prefix = ''batch-image/prod-eu/imgbatch_a1'',
          mr_InputURI = ''gs://gs-bucket/batch-image/prod-eu/imgbatch_a1/input/requests.jsonl'',
          mr_OutputPrefixURI = ''gs://gs-bucket/batch-image/prod-eu/imgbatch_a1/output/''\<rparr>
      ''gs://gs-bucket/batch-image/prod-eu/imgbatch_a1/output/x.jsonl''" by code_simp
  have t: "contains (managed_template sample_options) ''{batch_id}''" by code_simp
  have p: "list_all plain ''imgbatch_a1''" "list_all plain ''imgbatch_a12''" by code_simp+
  from own vertex_batches_lie_apart [OF sample_refs(1) _ t p] show ?thesis by auto
qed

subsection \<open>Cleanup\<close>

lemma parseGCSURI_text: "parseGCSURI uri = Inr (bucket, object) \<Longrightarrow> trim_space uri = ''gs://'' @ bucket @ ''/'' @ object"
proof -
  assume p: "parseGCSURI uri = Inr (bucket, object)"
  define rest where "rest = drop 5 (trim_space uri)"
  have b: "bucket = takeWhile (\<lambda>c. c \<noteq> CHR ''/'') rest" "object = drop (length bucket + 1) rest" "bucket \<noteq> rest"
    and g: "has_prefix (trim_space uri) ''gs://''"
    using p by (auto simp: parseGCSURI_def Let_def rest_def split: if_splits)
  have "take 5 (trim_space uri) = ''gs://''" using g by (simp add: has_prefix_def starts_with_def numeral_eq_Suc)
  then have "trim_space uri = ''gs://'' @ rest" unfolding rest_def by (metis append_take_drop_id)
  moreover have "rest = bucket @ dropWhile (\<lambda>c. c \<noteq> CHR ''/'') rest" by (simp add: b(1))
  moreover obtain c cs where c: "dropWhile (\<lambda>c. c \<noteq> CHR ''/'') rest = c # cs"
    using b calculation(2) by (cases "dropWhile (\<lambda>c. c \<noteq> CHR ''/'') rest") auto
  moreover from c have "c = CHR ''/''" using hd_dropWhile [of "\<lambda>c. c \<noteq> CHR ''/''" rest] by simp
  ultimately have r: "rest = bucket @ CHR ''/'' # cs" by simp
  then have "object = cs" unfolding b(2) by simp
  with r \<open>trim_space uri = ''gs://'' @ rest\<close> show ?thesis by simp
qed

lemma starts_with_append: "starts_with p s \<longleftrightarrow> (\<exists>t. s = p @ t)"
  unfolding starts_with_def by (metis append_eq_conv_conj append_take_drop_id)

text \<open>A name that trimming could change keeps the prefix of the batch.\<close>

lemma output_prefix_kept:
  assumes "managedRefs opts batchID = Inr refs" "starts_with (mr_OutputPrefixURI refs) uri"
  shows "starts_with (mr_OutputPrefixURI refs) (trim_space uri)"
proof -
  obtain x where x: "mr_OutputPrefixURI refs = ''gs://'' @ x @ ''/output/''"
    using managedRefs_Inr [OF assms(1)] by (auto simp: managed_base_def)
  have "solid (hd (mr_OutputPrefixURI refs))" "solid (last (mr_OutputPrefixURI refs))" "mr_OutputPrefixURI refs \<noteq> []"
    using solid_marks by (simp_all add: x)
  with assms(2) trim_space_keeps [of "mr_OutputPrefixURI refs"] show ?thesis
    by (metis starts_with_append)
qed

lemma below_output:
  assumes refs: "managedRefs opts batchID = Inr refs"
    and safe: "starts_with (mr_OutputPrefixURI refs) (trim_space uri)"
    and listing: "\<And>bucket prefix. parseGCSURI uri = Inr (bucket, prefix) \<Longrightarrow> lists_below s bucket prefix"
    and u: "u \<in> gcs_below s uri"
  shows "starts_with (mr_OutputPrefixURI refs) (trim_space u)"
proof -
  obtain bucket prefix name where p: "parseGCSURI uri = Inr (bucket, prefix)"
    and n: "u = ''gs://'' @ bucket @ ''/'' @ name" "starts_with prefix name"
    using u listing by (auto simp: gcs_below_def)
  have "\<exists>t. u = trim_space uri @ t"
    using n parseGCSURI_text [OF p] by (auto simp: starts_with_append)
  with safe have "starts_with (mr_OutputPrefixURI refs) u" by (auto simp: starts_with_append)
  with refs show ?thesis by (rule output_prefix_kept)
qed

text \<open>The addresses that cleanup hands to the store.\<close>

definition cleanup_targets :: "VertexGCSObjectStore \<Rightarrow> 's VertexBatchImageProvider \<Rightarrow> f64 BatchImageJob \<Rightarrow> string set" where
  "cleanup_targets s p job =
     {uri. isSafeManagedInput p job uri}
     \<union> (let uri = gcs_or (batchImageProviderOutputRef job) (jb_GCSOutputURI job) in
        if isSafeManagedOutput p job uri then gcs_below s uri else {})"

lemma token_steps:
  assumes "case vp_TokenCache p of None \<Rightarrow> True | Some c \<Rightarrow> quiet_cache c" "\<And>token. steps (deletes_only s U) (k token)"
  shows "steps (deletes_only s U) (with_token p account k)"
proof -
  have "steps (deletes_only s U) (getVertexServiceAccountAccessToken (vp_Lib p) (vp_TokenCache p) account)"
    unfolding deletes_only_def by (rule steps_sends_mono [OF token_requests [OF assms(1)]]) auto
  then show ?thesis
    unfolding with_token_def by (intro steps_bind steps_attempt deletes_only_order assms(2))
qed

lemma cleanup_steps:
  assumes "case vp_TokenCache p of None \<Rightarrow> True | Some c \<Rightarrow> quiet_cache c" "vp_ObjectStore p = gcs_store s"
  shows "steps (deletes_only s (cleanup_targets s p job)) (vertex_Cleanup p job account target)"
proof -
  let ?U = "cleanup_targets s p job"
  have inp: "steps (deletes_only s ?U) (deleteManagedInput p token job uri)" for token uri
    unfolding deleteManagedInput_def assms(2)
    by (intro steps_if steps_bind steps_attempt deletes_only_order steps_ret gcs.store_steps(1))
      (auto simp: cleanup_targets_def)
  have out: "steps (deletes_only s ?U) (deleteManagedOutput p token job
      (gcs_or (batchImageProviderOutputRef job) (jb_GCSOutputURI job)))" for token
    unfolding deleteManagedOutput_def assms(2)
    by (intro steps_if steps_bind steps_attempt deletes_only_order steps_ret gcs.store_steps(2))
      (auto simp: cleanup_targets_def Let_def)
  show ?thesis
    unfolding vertex_Cleanup_def Let_def
    by (intro steps_attempt deletes_only_order token_steps assms(1) steps_if steps_bind steps_ret inp out)
qed

text \<open>
  C37: Cleanup only ever deletes files of its own batch: whatever addresses the row of the job holds and whatever the
  services answer (as long as a listing names objects with the prefix that it was asked for, as Cloud Storage
  documents), every DELETE request is for the input object of the batch or an object below its output prefix in the
  managed bucket.
\<close>
theorem vertex_cleanup_stays_in_batch:
  assumes "managedRefs (vp_Opts p) (jb_BatchID job) = Inr refs"
    and "vp_ObjectStore p = gcs_store s"
    and "case vp_TokenCache p of None \<Rightarrow> True | Some c \<Rightarrow> quiet_cache c"
    and "\<And>bucket prefix. parseGCSURI (gcs_or (batchImageProviderOutputRef job) (jb_GCSOutputURI job)) = Inr (bucket, prefix)
      \<Longrightarrow> lists_below s bucket prefix"
  shows "\<exists>new. nt_Sent (snd (run_state (vertex_Cleanup p job account target) w)) = nt_Sent w @ new
    \<and> (\<forall>q \<in> set new. hq_Method q = ''DELETE'' \<longrightarrow>
        (\<exists>token bucket object. q = delete_request s token bucket object
           \<and> belongs_to refs (''gs://'' @ bucket @ ''/'' @ object)))"
proof -
  have target: "belongs_to refs (trim_space u)" if "u \<in> cleanup_targets s p job" for u
    using that assms(1) below_output [OF assms(1) _ assms(4)]
    by (auto simp: cleanup_targets_def Let_def isSafeManagedInput_def isSafeManagedOutput_def has_prefix_def
        belongs_to_def split: if_splits)
  have "deletes_only s (cleanup_targets s p job) w (snd (run_state (vertex_Cleanup p job account target) w))"
    by (rule steps_snd [OF cleanup_steps [OF assms(3,2)]])
  then obtain new where new: "nt_Sent (snd (run_state (vertex_Cleanup p job account target) w)) = nt_Sent w @ new"
    and del: "list_all (\<lambda>q. hq_Method q = ''DELETE'' \<longrightarrow> (\<exists>uri token bucket object. uri \<in> cleanup_targets s p job
      \<and> parseGCSURI uri = Inr (bucket, object) \<and> q = delete_request s token bucket object)) new"
    unfolding deletes_only_def sends_def by blast
  have "\<exists>token bucket object. q = delete_request s token bucket object
      \<and> belongs_to refs (''gs://'' @ bucket @ ''/'' @ object)" if "q \<in> set new" "hq_Method q = ''DELETE''" for q
    using del that target parseGCSURI_text unfolding list_all_iff by metis
  with new show ?thesis by blast
qed

text \<open>A bucket with one result of the batch, and an account.\<close>

definition small_options :: VertexBatchImageProviderOptions where
  "small_options = normalizeVertexBatchImageProviderOptions
     \<lparr>vo_ProjectID = ''p'', vo_Location = [], vo_ManagedGCSBucket = ''b'', vo_ManagedGCSPrefix = ''{batch_id}'',
      vo_Environment = [], vo_BatchPredictionBaseURL = [], vo_GCSBaseURL = []\<rparr>"

lemma small_refs: "managedRefs small_options ''imgbatch_1'' =
    Inr \<lparr>mr_Prefix = ''imgbatch_1'', mr_InputURI = ''gs://b/imgbatch_1/input/requests.jsonl'',
         mr_OutputPrefixURI = ''gs://b/imgbatch_1/output/''\<rparr>"
  by code_simp

definition sample_net :: net where
  "sample_net = \<lparr>faults = [], clock = 0, ticks = [], nt_Sent = [], nt_CallsLeft = 10\<rparr>"

definition answer :: "int \<Rightarrow> string \<Rightarrow> http_response" where
  "answer code body = \<lparr>hr_StatusCode = code, hr_Header = [], hr_Body = body\<rparr>"

definition sample_http :: "(http_request list \<Rightarrow> http_request \<Rightarrow> goerr + http_response) \<Rightarrow> http_env" where
  "sample_http serve = \<lparr>hv_ParseURL = \<lambda>_. Inr \<lparr>ul_Scheme = ''https'', ul_Hostname = ''h''\<rparr>, hv_Serve = serve,
     hv_DecodeError = \<lambda>_. None\<rparr>"

definition sample_lib :: vertex_auth_lib where
  "sample_lib = \<lparr>al_UnmarshalKey = \<lambda>_. Inr \<lparr>sk_Type = [], sk_ProjectID = ''p'', sk_PrivateKeyID = [], sk_PrivateKey = ''k'',
       sk_ClientEmail = ''e'', sk_TokenURI = ''http://evil/''\<rparr>,
     al_Marshal = \<lambda>_. [], al_Sha256Hex = id, al_ParseRSAPrivateKeyFromPEM = Inr, al_Sign = \<lambda>_ _ _. Inr ''jwt'',
     al_DecodeToken = \<lambda>_. \<lparr>tr_AccessToken = ''tok'', tr_ExpiresIn = 3600, tr_Error = [], tr_ErrorDesc = []\<rparr>,
     al_Client = \<lambda>_. Inr (sample_http (\<lambda>_ _. Inr (answer 200 [])))\<rparr>"

definition sample_gcs :: "(http_request list \<Rightarrow> http_request \<Rightarrow> goerr + http_response) \<Rightarrow> string list \<Rightarrow> VertexGCSObjectStore" where
  "sample_gcs serve names = NewVertexGCSObjectStore [] (sample_http serve)
     (\<lambda>_. Inr \<lparr>gp_Items = names, gp_NextPageToken = []\<rparr>) (\<lambda>_. \<lparr>or_Chunks = [], or_Err = None, or_Eager = True\<rparr>)"

definition sample_vertex :: "(http_request list \<Rightarrow> http_request \<Rightarrow> goerr + http_response) \<Rightarrow> string list \<Rightarrow>
    net VertexBatchImageProvider" where
  "sample_vertex serve names = \<lparr>vp_Opts = small_options,
     vp_Client = vertex_http_client (NewVertexBatchHTTPClient [] (sample_http serve)
       (\<lambda>_. Inr \<lparr>vj_Name = ''jobs/1'', vj_DisplayName = [], vj_State = ''JOB_STATE_PENDING'', vj_OutputURIPrefix = [],
                vj_Error = None\<rparr>)),
     vp_ObjectStore = gcs_store (sample_gcs serve names), vp_TokenCache = None, vp_Lib = sample_lib\<rparr>"

definition vertex_account :: Account where
  "vertex_account = (sample_account PlatformGemini [])\<lparr>ac_Type := AccountTypeServiceAccount,
     ac_Credentials := Some [(''service_account'', JsonString ''{}'')]\<rparr>"

definition vertex_job :: "f64 BatchImageJob" where
  "vertex_job = (job_for_price ''vertex'' ''m'')\<lparr>jb_BatchID := ''imgbatch_1'',
     jb_ProviderInputRef := Some ''gs://b/imgbatch_1/input/requests.jsonl'',
     jb_ProviderOutputRef := Some ''gs://b/imgbatch_1/output/''\<rparr>"

definition sample_objects :: "string list" where
  "sample_objects = [''imgbatch_1/output/1.jsonl'', ''imgbatch_1/output/2.jsonl'']"

lemma vertex_cleanup_stays_in_batch_witness:
  "let sent = nt_Sent (snd (run_state (vertex_Cleanup (sample_vertex (\<lambda>_ _. Inr (answer 200 [])) sample_objects)
       vertex_job vertex_account CleanupTargetAll) sample_net))
   in map hq_Method sent = [''POST'', ''DELETE'', ''GET'', ''DELETE'', ''DELETE'']
     \<and> (\<forall>q \<in> set sent. hq_Method q = ''DELETE'' \<longrightarrow> (\<exists>token bucket object.
          q = delete_request (sample_gcs (\<lambda>_ _. Inr (answer 200 [])) sample_objects) token bucket object))"
proof -
  let ?s = "sample_gcs (\<lambda>_ _. Inr (answer 200 [])) sample_objects"
  let ?p = "sample_vertex (\<lambda>_ _. Inr (answer 200 [])) sample_objects"
  have p: "vp_Opts ?p = small_options" "vp_ObjectStore ?p = gcs_store ?s" "vp_TokenCache ?p = None"
    by (simp_all add: sample_vertex_def)
  have b: "jb_BatchID vertex_job = ''imgbatch_1''" by (simp add: vertex_job_def)
  have out: "parseGCSURI (gcs_or (batchImageProviderOutputRef vertex_job) (jb_GCSOutputURI vertex_job))
      = Inr (''b'', ''imgbatch_1/output/'')" by code_simp
  have "list_all (starts_with ''imgbatch_1/output/'') sample_objects" by code_simp
  then have "lists_below ?s ''b'' ''imgbatch_1/output/''"
    by (auto simp: lists_below_def sample_gcs_def NewVertexGCSObjectStore_def Let_def list_all_iff)
  with out have "\<exists>new. nt_Sent (snd (run_state (vertex_Cleanup ?p vertex_job vertex_account CleanupTargetAll) sample_net))
      = nt_Sent sample_net @ new
    \<and> (\<forall>q \<in> set new. hq_Method q = ''DELETE'' \<longrightarrow>
        (\<exists>token bucket object. q = delete_request ?s token bucket object
           \<and> belongs_to \<lparr>mr_Prefix = ''imgbatch_1'',
          mr_InputURI = ''gs://b/imgbatch_1/input/requests.jsonl'',
          mr_OutputPrefixURI = ''gs://b/imgbatch_1/output/''\<rparr>
             (''gs://'' @ bucket @ ''/'' @ object)))"
    by (intro vertex_cleanup_stays_in_batch) (auto simp: p b small_refs)
  moreover have "nt_Sent sample_net = []" by (simp add: sample_net_def)
  ultimately have "\<forall>q \<in> set (nt_Sent (snd (run_state (vertex_Cleanup ?p vertex_job vertex_account CleanupTargetAll) sample_net))).
      hq_Method q = ''DELETE'' \<longrightarrow> (\<exists>token bucket object. q = delete_request ?s token bucket object)"
    by (metis append_Nil)
  moreover have "map hq_Method (nt_Sent (snd (run_state (vertex_Cleanup ?p vertex_job vertex_account CleanupTargetAll) sample_net)))
      = [''POST'', ''DELETE'', ''GET'', ''DELETE'', ''DELETE'']" by code_simp
  ultimately show ?thesis unfolding Let_def by blast
qed

subsection \<open>What was submitted can be deleted\<close>

lemma refs_trimmed:
  assumes "managedRefs opts batchID = Inr refs"
  shows "trim_space (mr_InputURI refs) = mr_InputURI refs" "mr_InputURI refs \<noteq> []"
    "trim_space (mr_OutputPrefixURI refs) = mr_OutputPrefixURI refs" "mr_OutputPrefixURI refs \<noteq> []"
proof -
  obtain x y where x: "mr_InputURI refs = ''gs://'' @ x @ ''/input/requests.jsonl''" "mr_OutputPrefixURI refs = ''gs://'' @ y @ ''/output/''"
    using managedRefs_Inr [OF assms] by (auto simp: managed_base_def)
  show "trim_space (mr_InputURI refs) = mr_InputURI refs"
    by (rule trim_space_solid) (use x solid_marks in simp_all)
  show "trim_space (mr_OutputPrefixURI refs) = mr_OutputPrefixURI refs"
    by (rule trim_space_solid) (use x solid_marks in simp_all)
qed (use managedRefs_Inr [OF assms] in \<open>auto simp: managed_base_def\<close>)

lemma Submit_refs:
  assumes "run_state (vertex_Submit p job account input) w = (Inr (Some pj), w')"
  obtains refs where "managedRefs (vp_Opts p) (if bn_BatchID input = [] then jb_BatchID job else bn_BatchID input) = Inr refs"
    "pj_ProviderInputRef pj = mr_InputURI refs" "pj_ProviderOutputRef pj = mr_OutputPrefixURI refs"
    "trim_space (pj_ProviderJobName pj) \<noteq> []"
proof -
  obtain refs s1 s2 token where refs: "managedRefs (vp_Opts p) (bn_BatchID (fill_input job input)) = Inr refs"
    and c: "run_state (vertex_create p account (fill_input job input) refs token) s1 = (Inr (Some pj), s2)"
    using assms by (auto simp: vertex_Submit_def Let_def with_token_def elim!: run_elims)
  from c have "pj_ProviderInputRef pj = mr_InputURI refs" "pj_ProviderOutputRef pj = mr_OutputPrefixURI refs"
    "trim_space (pj_ProviderJobName pj) \<noteq> []"
    by (auto simp: vertex_create_def Let_def elim!: run_elims split: option.splits if_splits)
  with refs that show thesis by (simp add: fill_input_def)
qed


definition one_item_input :: BatchImageInput where
  "one_item_input = \<lparr>bn_BatchID = [], bn_Model = ''m'', bn_DisplayName = [],
     bn_Items = [\<lparr>bi_CustomID = ''a'', bi_Prompt = ''p'', bi_ReferenceImages = []\<rparr>],
     bn_ResponseMimeType = [], bn_AspectRatio = [], bn_ImageSize = [], bn_Metadata = []\<rparr>"


subsection \<open>A deletion that stops half way\<close>

text \<open>
  Deleting a prefix stops at the first object that cannot be deleted.  When that object is already gone, the answer 404
  becomes an error that the cleanup pass takes for success: the output counts as deleted although the second object is
  still there and was never asked for.
\<close>

definition first_gone :: "http_request list \<Rightarrow> http_request \<Rightarrow> goerr + http_response" where
  "first_gone sent q = Inr (answer (if hq_Method q = ''DELETE'' then 404 else 200) [])"

lemma missing_object_hides_the_rest:
  "case run_state (vertex_Cleanup (sample_vertex first_gone sample_objects) vertex_job vertex_account CleanupTargetOutput)
       sample_net of
     (Inl err, w) \<Rightarrow> cleanupErrorIsNotFound err \<and> map hq_Method (nt_Sent w) = [''POST'', ''GET'', ''DELETE'']
   | (Inr _, w) \<Rightarrow> False"
  by code_simp

end
