(* ===== verification/GeminiProvider.thy ===== *)
theory GeminiProvider
  imports ProviderRequests
begin

section \<open>The Gemini provider\<close>

text \<open>
  \<^verbatim>\<open>service/batch_image_provider_gemini.go\<close>: the provider, which sees its client as a record of operations, and the
  client over HTTP.  Decoders of \<^verbatim>\<open>encoding/json\<close>, the random boundary of a multipart body and the body of a download
  are parameters of the client.
\<close>

definition defaultGeminiBatchRequeueAfter :: int where "defaultGeminiBatchRequeueAfter = 30 * second"

record GeminiUploadedFile =
  gu_Name :: string
  gu_DisplayName :: string
  gu_URI :: string
  gu_MimeType :: string

record GeminiBatchDest =
  gd_FileName :: string
  gd_FileNameSnake :: string

text \<open>Of inlined responses only the number is read.\<close>

record GeminiBatchResponse =
  gr_ResponsesFile :: string
  gr_ResponsesFileSnake :: string
  gr_InlinedResponses :: nat
  gr_InlinedResponsesAlt :: nat

record GeminiBatchError =
  ge_Code :: string
  ge_Message :: string
  ge_Status :: string

record GeminiBatchJob =
  gj_Name :: string
  gj_State :: string
  gj_Dest :: "GeminiBatchDest option"
  gj_Response :: "GeminiBatchResponse option"
  gj_Error :: "GeminiBatchError option"

record 's GeminiBatchClient =
  gc_UploadJSONL :: "string \<Rightarrow> string \<Rightarrow> string \<Rightarrow> ('s, call_error + GeminiUploadedFile option) state"
  gc_CreateBatch :: "string \<Rightarrow> string \<Rightarrow> string \<Rightarrow> string \<Rightarrow> ('s, call_error + GeminiBatchJob option) state"
  gc_GetBatch :: "string \<Rightarrow> string \<Rightarrow> ('s, call_error + GeminiBatchJob option) state"
  gc_CancelBatch :: "string \<Rightarrow> string \<Rightarrow> ('s, call_error + unit) state"
  gc_DownloadFile :: "string \<Rightarrow> string \<Rightarrow> ('s, call_error + result_stream \<times> string) state"
  gc_DeleteFile :: "string \<Rightarrow> string \<Rightarrow> ('s, call_error + unit) state"

subsection \<open>Errors and states\<close>

definition geminiProviderError :: "string \<Rightarrow> string \<Rightarrow> goerr option \<Rightarrow> goerr" where
  "geminiProviderError reason message cause = (case cause of
      None \<Rightarrow> New 502 reason message | Some c \<Rightarrow> WithCause (New 502 reason message) c)"

definition mapGeminiClientError :: "call_error \<Rightarrow> goerr" where
  "mapGeminiClientError err = (case err of
      APIError statusCode _ _ \<Rightarrow>
        if statusCode = 401 \<or> statusCode = 403 then
          geminiProviderError ''GEMINI_AUTH_FAILED'' ''Gemini authentication failed'' None
        else if statusCode = 429 then geminiProviderError ''GEMINI_RATE_LIMITED'' ''Gemini rate limit exceeded'' None
        else if statusCode = 404 then
          geminiProviderError ''GEMINI_BATCH_NOT_FOUND'' ''Gemini batch resource was not found'' None
        else geminiProviderError ''GEMINI_INVALID_RESPONSE'' ''Gemini API request failed'' None
    | OtherError _ \<Rightarrow> geminiProviderError ''GEMINI_INVALID_RESPONSE'' ''Gemini API request failed'' None)"

definition mapGeminiBatchState :: "GeminiBatchJob \<Rightarrow> provider_status" where
  "mapGeminiBatchState batch = (let
       state = trim_space (gj_State batch);
       normalized = to_upper state;
       start = \<lparr>ps_RawState = state, ps_InternalState = BatchProviderStateRunning, ps_ProviderOutputRef = [],
                ps_ErrorCode = [], ps_ErrorMessage = [],
                ps_SuggestedRequeueAfter = defaultGeminiBatchRequeueAfter, ps_Done = False\<rparr>;
       ended = (\<lambda>internal code. start\<lparr>ps_InternalState := internal, ps_Done := True, ps_ErrorCode := code\<rparr>);
       status =
        (if normalized = ''JOB_STATE_PENDING'' \<or> normalized = ''JOB_STATE_QUEUED'' then
           start\<lparr>ps_InternalState := BatchProviderStateQueued\<rparr>
         else if normalized = ''JOB_STATE_RUNNING'' then start\<lparr>ps_InternalState := BatchProviderStateRunning\<rparr>
         else if normalized = ''JOB_STATE_SUCCEEDED'' then ended BatchProviderStateSucceeded []
         else if normalized = ''JOB_STATE_FAILED'' then ended BatchProviderStateFailed ''GEMINI_BATCH_FAILED''
         else if normalized = ''JOB_STATE_CANCELLED'' then ended BatchProviderStateCancelled ''GEMINI_BATCH_CANCELLED''
         else if normalized = ''JOB_STATE_EXPIRED'' then ended BatchProviderStateExpired ''GEMINI_BATCH_EXPIRED''
         else (case gj_Error batch of
             Some err \<Rightarrow> if trim_space (ge_Message err) \<noteq> [] \<or> trim_space (ge_Code err) \<noteq> [] then
                 ended BatchProviderStateFailed ''GEMINI_BATCH_FAILED'' else start
           | None \<Rightarrow> start))
     in (case gj_Error batch of
          None \<Rightarrow> status
        | Some err \<Rightarrow> status\<lparr>
            ps_ErrorCode := (if trim_space (ge_Code err) \<noteq> [] then trim_space (ge_Code err)
              else if ps_ErrorCode status = [] \<and> trim_space (ge_Status err) \<noteq> [] then trim_space (ge_Status err)
              else ps_ErrorCode status),
            ps_ErrorMessage := trim_space (ge_Message err)\<rparr>))"

fun first_text :: "string list \<Rightarrow> string" where
  "first_text [] = []"
| "first_text (v # vs) = (if trim_space v \<noteq> [] then trim_space v else first_text vs)"

definition geminiBatchOutputRef :: "GeminiBatchJob \<Rightarrow> string" where
  "geminiBatchOutputRef batch = first_text (
     (case gj_Dest batch of None \<Rightarrow> [] | Some d \<Rightarrow> [gd_FileName d, gd_FileNameSnake d])
     @ (case gj_Response batch of None \<Rightarrow> [] | Some r \<Rightarrow> [gr_ResponsesFile r, gr_ResponsesFileSnake r]))"

definition geminiBatchHasInlineResults :: "GeminiBatchJob \<Rightarrow> bool" where
  "geminiBatchHasInlineResults batch \<longleftrightarrow> (case gj_Response batch of
      None \<Rightarrow> False | Some r \<Rightarrow> 0 < gr_InlinedResponses r \<or> 0 < gr_InlinedResponsesAlt r)"

subsection \<open>The provider\<close>

text \<open>The checks that every operation starts with.\<close>

definition gemini_key :: "Account \<Rightarrow> goerr + string" where
  "gemini_key account =
     (if ac_Platform account \<noteq> PlatformGemini \<or> ac_Type account \<noteq> AccountTypeAPIKey then
        Inl ErrBatchImageProviderUnsupportedAccount
      else if batchImageProviderAPIKey account = [] then Inl ErrBatchImageProviderMissingAPIKey
      else Inr (batchImageProviderAPIKey account))"

definition gemini_SupportsAccount :: "Account \<Rightarrow> bool" where
  "gemini_SupportsAccount account \<longleftrightarrow> ac_Platform account = PlatformGemini \<and> ac_Type account = AccountTypeAPIKey
     \<and> batchImageProviderAPIKey account \<noteq> []"

definition gemini_Submit :: "'s GeminiBatchClient \<Rightarrow> f64 BatchImageJob \<Rightarrow> Account \<Rightarrow> BatchImageInput \<Rightarrow>
    ('s, goerr + BatchProviderJob option) state" where
  "gemini_Submit client job account input0 = attempt (gemini_key account) id (\<lambda>apiKey. let
       input = fill_input job input0;
       displayName = (if trim_space (bn_DisplayName input) = [] then trim_space (bn_BatchID input)
                      else trim_space (bn_DisplayName input))
     in attempt (BuildGeminiBatchJSONL input) id (\<lambda>jsonl. do {
       up \<leftarrow> gc_UploadJSONL client apiKey displayName jsonl;
       attempt up mapGeminiClientError (\<lambda>uploaded. case uploaded of
           None \<Rightarrow> ret (Inl (geminiProviderError ''GEMINI_INVALID_RESPONSE'' ''Gemini upload response is missing file name'' None))
         | Some file \<Rightarrow>
             if trim_space (gu_Name file) = [] then
               ret (Inl (geminiProviderError ''GEMINI_INVALID_RESPONSE'' ''Gemini upload response is missing file name'' None))
             else do {
               cr \<leftarrow> gc_CreateBatch client apiKey (bn_Model input) (gu_Name file) displayName;
               attempt cr mapGeminiClientError (\<lambda>created. ret (case created of
                   None \<Rightarrow> Inl (geminiProviderError ''GEMINI_INVALID_RESPONSE'' ''Gemini batch response is missing job name'' None)
                 | Some batch \<Rightarrow>
                     if trim_space (gj_Name batch) = [] then
                       Inl (geminiProviderError ''GEMINI_INVALID_RESPONSE'' ''Gemini batch response is missing job name'' None)
                     else Inr (Some \<lparr>pj_ProviderJobName = gj_Name batch, pj_ProviderInputRef = gu_Name file,
                       pj_ProviderOutputRef = [], pj_RawState = gj_State batch\<rparr>))) }) }))"

definition gemini_Get :: "'s GeminiBatchClient \<Rightarrow> f64 BatchImageJob \<Rightarrow> Account \<Rightarrow>
    ('s, goerr + provider_status option) state" where
  "gemini_Get client job account = attempt (gemini_key account) id (\<lambda>apiKey.
     if batchImageProviderJobName job = [] then ret (Inl ErrBatchImageProviderMissingJobName)
     else do {
       r \<leftarrow> gc_GetBatch client apiKey (batchImageProviderJobName job);
       attempt r mapGeminiClientError (\<lambda>answer. ret (case answer of
           None \<Rightarrow> Inl (geminiProviderError ''GEMINI_INVALID_RESPONSE'' ''Gemini batch response is empty'' None)
         | Some batch \<Rightarrow> (let status = mapGeminiBatchState batch; outputRef = geminiBatchOutputRef batch in
             if ps_InternalState status \<noteq> BatchProviderStateSucceeded then Inr (Some status)
             else if geminiBatchHasInlineResults batch then Inl ErrBatchImageProviderInlineResultUnsupported
             else if outputRef = [] then Inr (Some (status\<lparr>ps_InternalState := BatchProviderStateFailed, ps_Done := True,
               ps_ErrorCode := ''GEMINI_RESULT_FILE_MISSING'',
               ps_ErrorMessage := ''Gemini batch succeeded without a result file reference'',
               ps_ProviderOutputRef := []\<rparr>))
             else Inr (Some (status\<lparr>ps_ProviderOutputRef := outputRef\<rparr>))))) })"

definition gemini_Cancel :: "'s GeminiBatchClient \<Rightarrow> f64 BatchImageJob \<Rightarrow> Account \<Rightarrow> ('s, goerr + unit) state" where
  "gemini_Cancel client job account = attempt (gemini_key account) id (\<lambda>apiKey.
     if batchImageProviderJobName job = [] then ret (Inl ErrBatchImageProviderMissingJobName)
     else do {
       r \<leftarrow> gc_CancelBatch client apiKey (batchImageProviderJobName job);
       attempt r mapGeminiClientError (\<lambda>_. ret (Inr ())) })"

definition gemini_OpenResult :: "'s GeminiBatchClient \<Rightarrow> f64 BatchImageJob \<Rightarrow> Account \<Rightarrow>
    ('s, goerr + result_stream \<times> string) state" where
  "gemini_OpenResult client job account = attempt (gemini_key account) id (\<lambda>apiKey.
     if batchImageProviderOutputRef job = [] then ret (Inl ErrBatchImageProviderMissingResultRef)
     else do {
       r \<leftarrow> gc_DownloadFile client apiKey (batchImageProviderOutputRef job);
       attempt r mapGeminiClientError (\<lambda>x. ret (Inr x)) })"

definition deleteGeminiFileIfPresent :: "'s GeminiBatchClient \<Rightarrow> string \<Rightarrow> string \<Rightarrow> ('s, goerr + unit) state" where
  "deleteGeminiFileIfPresent client apiKey fileName =
     (if trim_space fileName = [] then ret (Inr ())
      else do {
        r \<leftarrow> gc_DeleteFile client apiKey fileName;
        attempt r mapGeminiClientError (\<lambda>_. ret (Inr ())) })"

definition gemini_Cleanup :: "'s GeminiBatchClient \<Rightarrow> f64 BatchImageJob \<Rightarrow> Account \<Rightarrow> string \<Rightarrow>
    ('s, goerr + unit) state" where
  "gemini_Cleanup client job account target = attempt (gemini_key account) id (\<lambda>apiKey.
     if target = CleanupTargetInput then deleteGeminiFileIfPresent client apiKey (batchImageProviderInputRef job)
     else if target = CleanupTargetOutput then deleteGeminiFileIfPresent client apiKey (batchImageProviderOutputRef job)
     else if target = CleanupTargetAll then do {
       r \<leftarrow> deleteGeminiFileIfPresent client apiKey (batchImageProviderInputRef job);
       attempt r id (\<lambda>_. deleteGeminiFileIfPresent client apiKey (batchImageProviderOutputRef job)) }
     else ret (Inl ErrUnsupportedCleanupTarget))"

subsection \<open>The client\<close>

record gemini_metadata =
  gm_DownloadURI :: string
  gm_DownloadURL :: string
  gm_MimeType :: string

text \<open>The answer of an upload has a member \<^verbatim>\<open>file\<close>, or the members of a file; a file that is not there is none.\<close>

record GeminiBatchHTTPClient =
  gb_BaseURL :: string
  gb_Env :: http_env
  gb_Boundary :: string
  gb_DecodeUpload :: "string \<Rightarrow> goerr + GeminiUploadedFile option \<times> GeminiUploadedFile option"
  gb_DecodeJob :: "string \<Rightarrow> goerr + GeminiBatchJob"
  gb_DecodeMetadata :: "string \<Rightarrow> goerr + gemini_metadata"
  gb_Body :: "http_response \<Rightarrow> result_stream"

definition AIStudioBaseURL :: string where "AIStudioBaseURL = ''https://generativelanguage.googleapis.com''"

definition normalized_base :: "string \<Rightarrow> string" where
  "normalized_base baseURL = (let b = trim_right {CHR ''/''} (trim_space baseURL) in
     if b = [] then AIStudioBaseURL else b)"

definition NewGeminiBatchHTTPClient :: "string \<Rightarrow> GeminiBatchHTTPClient \<Rightarrow> GeminiBatchHTTPClient" where
  "NewGeminiBatchHTTPClient baseURL libraries = libraries\<lparr>gb_BaseURL := normalized_base baseURL\<rparr>"

definition key_header :: "string \<Rightarrow> string \<times> string" where
  "key_header apiKey = (''x-goog-api-key'', apiKey)"

definition gemini_newRequest :: "GeminiBatchHTTPClient \<Rightarrow> string \<Rightarrow> string \<Rightarrow> string \<Rightarrow> (string \<times> string) list \<Rightarrow>
    string \<Rightarrow> call_error + http_request" where
  "gemini_newRequest c verb path apiKey header body =
     (if trim_space apiKey = [] then Inl (OtherError ErrBatchImageProviderMissingAPIKey)
      else Inr \<lparr>hq_Method = verb, hq_URL = gb_BaseURL c @ path, hq_Header = key_header apiKey # header, hq_Body = body\<rparr>)"

definition crlf :: string where "crlf = [CHR 0x0D, CHR 0x0A]"

definition multipart_part :: "string \<Rightarrow> string \<Rightarrow> string \<Rightarrow> string" where
  "multipart_part disposition contentType body =
     ''Content-Disposition: form-data; '' @ disposition @ crlf @ ''Content-Type: '' @ contentType @ crlf @ crlf @ body"

definition upload_body :: "string \<Rightarrow> string \<Rightarrow> string \<Rightarrow> string" where
  "upload_body boundary displayName jsonl = (let q = [CHR 0x22] in
     ''--'' @ boundary @ crlf
     @ multipart_part (''name='' @ q @ ''metadata'' @ q) ''application/json; charset=utf-8''
         (json_braces [json_member ''file'' (json_braces [json_member ''displayName'' (json_quote displayName),
            json_member ''mimeType'' (json_quote ''application/jsonl'')])] @ newline)
     @ crlf @ ''--'' @ boundary @ crlf
     @ multipart_part (''name='' @ q @ ''file'' @ q @ ''; filename='' @ q @ ''batch.jsonl'' @ q) ''application/jsonl'' jsonl
     @ crlf @ ''--'' @ boundary @ ''--'' @ crlf)"

definition gemini_UploadJSONL :: "GeminiBatchHTTPClient \<Rightarrow> string \<Rightarrow> string \<Rightarrow> string \<Rightarrow>
    ('z net_scheme, call_error + GeminiUploadedFile option) state" where
  "gemini_UploadJSONL c apiKey displayName jsonl =
     attempt (gemini_newRequest c ''POST'' ''/upload/v1beta/files?uploadType=multipart'' apiKey
         [(''Content-Type'', ''multipart/form-data; boundary='' @ gb_Boundary c)]
         (upload_body (gb_Boundary c) displayName jsonl)) id
       (\<lambda>q. do {
          r \<leftarrow> doDecodeJSON (gb_Env c) (gb_DecodeUpload c) q;
          attempt r id (\<lambda>(file, embedded). ret (Inr (if file \<noteq> None then file else embedded))) })"

definition gemini_CreateBatch :: "GeminiBatchHTTPClient \<Rightarrow> string \<Rightarrow> string \<Rightarrow> string \<Rightarrow> string \<Rightarrow>
    ('z net_scheme, call_error + GeminiBatchJob option) state" where
  "gemini_CreateBatch c apiKey model fileName displayName =
     attempt (gemini_newRequest c ''POST''
         (''/v1beta/models/'' @ path_escape (trim_space model) @ '':batchGenerateContent'') apiKey
         [(''Content-Type'', ''application/json'')]
         (json_braces [json_member ''batch'' (json_braces [
            json_member ''displayName'' (json_quote displayName),
            json_member ''inputConfig'' (json_braces [json_member ''fileName'' (json_quote fileName)])])])) id
       (\<lambda>q. do {
          r \<leftarrow> doDecodeJSON (gb_Env c) (gb_DecodeJob c) q;
          attempt r id (\<lambda>job. ret (Inr (Some job))) })"

definition resource_path :: "string \<Rightarrow> string" where
  "resource_path name = ''/v1beta/'' @ trim_left {CHR ''/''} name"

definition gemini_GetBatch :: "GeminiBatchHTTPClient \<Rightarrow> string \<Rightarrow> string \<Rightarrow>
    ('z net_scheme, call_error + GeminiBatchJob option) state" where
  "gemini_GetBatch c apiKey batchName =
     attempt (gemini_newRequest c ''GET'' (resource_path batchName) apiKey [] []) id
       (\<lambda>q. do {
          r \<leftarrow> doDecodeJSON (gb_Env c) (gb_DecodeJob c) q;
          attempt r id (\<lambda>job. ret (Inr (Some job))) })"

definition gemini_CancelBatch :: "GeminiBatchHTTPClient \<Rightarrow> string \<Rightarrow> string \<Rightarrow>
    ('z net_scheme, call_error + unit) state" where
  "gemini_CancelBatch c apiKey batchName =
     attempt (gemini_newRequest c ''POST'' (resource_path batchName @ '':cancel'') apiKey [] []) id (doNoBody (gb_Env c))"

definition gemini_DeleteFile :: "GeminiBatchHTTPClient \<Rightarrow> string \<Rightarrow> string \<Rightarrow>
    ('z net_scheme, call_error + unit) state" where
  "gemini_DeleteFile c apiKey fileName =
     attempt (gemini_newRequest c ''DELETE'' (resource_path fileName) apiKey [] []) id (doNoBody (gb_Env c))"

text \<open>The host of a download; host names are compared in ASCII.\<close>

definition validateGeminiDownloadHost :: "http_env \<Rightarrow> string \<Rightarrow> string \<Rightarrow> goerr + unit" where
  "validateGeminiDownloadHost env downloadURL baseURL = (case hv_ParseURL env downloadURL of
      Inl err \<Rightarrow> Inl (geminiProviderError ''GEMINI_INVALID_RESPONSE'' ''Gemini download uri is invalid'' (Some err))
    | Inr parsed \<Rightarrow>
        if ul_Scheme parsed \<noteq> ''https'' then
          Inl (geminiProviderError ''GEMINI_INVALID_RESPONSE'' ''Gemini download uri must use https'' None)
        else (let host = to_lower (ul_Hostname parsed) in
          if host = ''googleapis.com'' \<or> has_suffix host ''.googleapis.com'' then Inr ()
          else (case hv_ParseURL env baseURL of
              Inr base \<Rightarrow> if equal_fold (ul_Hostname base) host then Inr ()
                else Inl (geminiProviderError ''GEMINI_INVALID_RESPONSE'' ''Gemini download uri host is not allowed'' None)
            | Inl _ \<Rightarrow> Inl (geminiProviderError ''GEMINI_INVALID_RESPONSE'' ''Gemini download uri host is not allowed'' None))))"

definition download_url :: "GeminiBatchHTTPClient \<Rightarrow> string \<Rightarrow> gemini_metadata \<Rightarrow> string" where
  "download_url c fileName metadata =
     (if trim_space (gm_DownloadURI metadata) \<noteq> [] then trim_space (gm_DownloadURI metadata)
      else if trim_space (gm_DownloadURL metadata) \<noteq> [] then trim_space (gm_DownloadURL metadata)
      else gb_BaseURL c @ resource_path fileName @ '':download'')"

definition gemini_DownloadFile :: "GeminiBatchHTTPClient \<Rightarrow> string \<Rightarrow> string \<Rightarrow>
    ('z net_scheme, call_error + result_stream \<times> string) state" where
  "gemini_DownloadFile c apiKey fileName =
     attempt (gemini_newRequest c ''GET'' (resource_path fileName) apiKey [] []) id (\<lambda>metaReq. do {
       m \<leftarrow> doDecodeJSON (gb_Env c) (gb_DecodeMetadata c) metaReq;
       attempt m id (\<lambda>metadata. let downloadURL = download_url c fileName metadata in
         attempt (validateGeminiDownloadHost (gb_Env c) downloadURL (gb_BaseURL c)) OtherError (\<lambda>_. do {
           r \<leftarrow> send_ok (gb_Env c) \<lparr>hq_Method = ''GET'', hq_URL = downloadURL, hq_Header = [key_header apiKey], hq_Body = []\<rparr>;
           attempt r id (\<lambda>resp. ret (Inr (gb_Body c resp,
             if header_value resp ''Content-Type'' \<noteq> [] then header_value resp ''Content-Type''
             else if gm_MimeType metadata \<noteq> [] then gm_MimeType metadata
             else ''application/octet-stream''))) })) })"

definition gemini_http_client :: "GeminiBatchHTTPClient \<Rightarrow> 'z net_scheme GeminiBatchClient" where
  "gemini_http_client c = \<lparr>gc_UploadJSONL = gemini_UploadJSONL c, gc_CreateBatch = gemini_CreateBatch c,
     gc_GetBatch = gemini_GetBatch c, gc_CancelBatch = gemini_CancelBatch c, gc_DownloadFile = gemini_DownloadFile c,
     gc_DeleteFile = gemini_DeleteFile c\<rparr>"

subsection \<open>Where the key goes\<close>

text \<open>The addresses that may see the key of an account.\<close>

definition trusted :: "GeminiBatchHTTPClient \<Rightarrow> string \<Rightarrow> bool" where
  "trusted c url \<longleftrightarrow> starts_with (gb_BaseURL c @ ''/'') url
     \<or> (\<exists>u. hv_ParseURL (gb_Env c) url = Inr u \<and> ul_Scheme u = ''https''
          \<and> (to_lower (ul_Hostname u) = ''googleapis.com'' \<or> has_suffix (to_lower (ul_Hostname u)) ''.googleapis.com''
             \<or> (\<exists>base. hv_ParseURL (gb_Env c) (gb_BaseURL c) = Inr base
                  \<and> equal_fold (ul_Hostname base) (to_lower (ul_Hostname u)))))"

lemma newRequest_trusted:
  "gemini_newRequest c verb path apiKey header body = Inr q \<Longrightarrow> starts_with ''/'' path \<Longrightarrow> trusted c (hq_URL q)"
  by (auto simp: gemini_newRequest_def trusted_def starts_with_def split: if_splits)

lemma resource_path_absolute: "starts_with ''/'' (resource_path name @ s)"
  by (simp add: resource_path_def starts_with_def)

lemma download_trusted:
  "validateGeminiDownloadHost (gb_Env c) url (gb_BaseURL c) = Inr () \<Longrightarrow> trusted c url"
  by (auto simp: validateGeminiDownloadHost_def trusted_def Let_def split: sum.splits if_splits)

text \<open>
  What the provider relies on of a client: its operations relate the states before and after by \<open>R\<close>.  Then so do the
  operations of the provider, since it does nothing else.
\<close>

locale batch_client =
  fixes R :: "'s \<Rightarrow> 's \<Rightarrow> bool" and client :: "'s GeminiBatchClient"
  assumes R_refl: "reflp R" and R_trans: "transp R"
    and upload: "steps R (gc_UploadJSONL client key displayName jsonl)"
    and create: "steps R (gc_CreateBatch client key model fileName displayName)"
    and get: "steps R (gc_GetBatch client key name)"
    and cancel: "steps R (gc_CancelBatch client key name)"
    and download: "steps R (gc_DownloadFile client key fileName)"
    and delete: "steps R (gc_DeleteFile client key fileName)"
begin

lemmas client_steps = R_refl R_trans upload create get cancel download delete

lemma delete_present: "steps R (deleteGeminiFileIfPresent client key fileName)"
  unfolding deleteGeminiFileIfPresent_def by (intro steps_intro client_steps)

lemma operations:
  "steps R (gemini_Submit client job account input)" "steps R (gemini_Get client job account)"
  "steps R (gemini_Cancel client job account)" "steps R (gemini_OpenResult client job account)"
  "steps R (gemini_Cleanup client job account target)"
  unfolding gemini_Submit_def gemini_Get_def gemini_Cancel_def gemini_OpenResult_def gemini_Cleanup_def
  by (intro steps_intro client_steps delete_present)+

end

interpretation gemini: batch_client "sends (\<lambda>q. trusted c (hq_URL q))" "gemini_http_client c"
  for c :: GeminiBatchHTTPClient
proof unfold_locales
  let ?R = "sends (\<lambda>q. trusted c (hq_URL q)) :: 'z net_scheme \<Rightarrow> 'z net_scheme \<Rightarrow> bool"
  note absolute = resource_path_absolute [of _ "[]", simplified] resource_path_absolute
  show "steps ?R (gc_UploadJSONL (gemini_http_client c) key displayName jsonl)" for key displayName jsonl
    unfolding gemini_http_client_def GeminiBatchClient.simps gemini_UploadJSONL_def
    by (intro steps_intro, erule newRequest_trusted) (simp add: starts_with_def)
  show "steps ?R (gc_CreateBatch (gemini_http_client c) key model fileName displayName)" for key model fileName displayName
    unfolding gemini_http_client_def GeminiBatchClient.simps gemini_CreateBatch_def
    by (intro steps_intro, erule newRequest_trusted) (simp add: starts_with_def)
  show "steps ?R (gc_GetBatch (gemini_http_client c) key name)" for key name
    unfolding gemini_http_client_def GeminiBatchClient.simps gemini_GetBatch_def
    by (intro steps_intro, erule newRequest_trusted) (rule absolute)
  show "steps ?R (gc_CancelBatch (gemini_http_client c) key name)" for key name
    unfolding gemini_http_client_def GeminiBatchClient.simps gemini_CancelBatch_def
    by (intro steps_intro, erule newRequest_trusted) (rule absolute)
  show "steps ?R (gc_DownloadFile (gemini_http_client c) key fileName)" for key fileName
    unfolding gemini_http_client_def GeminiBatchClient.simps gemini_DownloadFile_def Let_def
    by (intro steps_intro; (erule newRequest_trusted, rule absolute | simp add: download_trusted))
  show "steps ?R (gc_DeleteFile (gemini_http_client c) key fileName)" for key fileName
    unfolding gemini_http_client_def GeminiBatchClient.simps gemini_DeleteFile_def
    by (intro steps_intro, erule newRequest_trusted) (rule absolute)
qed (rule steps_intro)+


text \<open>Without a configured address the base is Google's.\<close>

lemma default_base: "gb_BaseURL (NewGeminiBatchHTTPClient [] libraries) = ''https://generativelanguage.googleapis.com''"
proof -
  have "normalized_base [] = ''https://generativelanguage.googleapis.com''" by code_simp
  then show ?thesis by (simp add: NewGeminiBatchHTTPClient_def)
qed

end
