(* ===== verification/BatchProviders.thy ===== *)
theory BatchProviders
  imports VertexProperties GeminiProvider
begin

section \<open>The providers behind the interface\<close>

text \<open>
  Both providers as values of the interface \<open>BatchImageProvider\<close> that the processor, the public service, the downloads
  and the cleanup use.  The interface holds the answer of one call, so each operation is run from a state of the
  network.
\<close>

definition answer_of :: "('s, 'a) state \<Rightarrow> 's \<Rightarrow> 'a" where
  "answer_of m w = fst (run_state m w)"

definition plain_status :: "goerr + provider_status option \<Rightarrow> goerr + BatchProviderStatus option" where
  "plain_status r = map_sum id (map_option BatchProviderStatus.truncate) r"

definition gemini_provider :: "'s GeminiBatchClient \<Rightarrow> 's \<Rightarrow> Account BatchImageProvider" where
  "gemini_provider client w = \<lparr>pv_Name = BatchImageProviderGeminiAPI, pv_SupportsAccount = gemini_SupportsAccount,
     pv_Submit = \<lambda>job account input. answer_of (gemini_Submit client job account input) w,
     pv_Get = \<lambda>job account. plain_status (answer_of (gemini_Get client job account) w),
     pv_Cancel = \<lambda>job account. answer_of (gemini_Cancel client job account) w,
     pv_OpenResult = \<lambda>job account. map_sum id fst (answer_of (gemini_OpenResult client job account) w),
     pv_Cleanup = \<lambda>job account target. answer_of (gemini_Cleanup client job account target) w\<rparr>"

text \<open>\<^verbatim>\<open>VertexAPIError.Error\<close>.\<close>

definition call_error_text :: "call_error \<Rightarrow> goerr" where
  "call_error_text err = (case err of
      OtherError e \<Rightarrow> e
    | APIError status code message \<Rightarrow> PlainErr (''vertex api error: status='' @ itoa status
        @ (if code \<noteq> [] then '' code='' @ code else []) @ '' message='' @ message))"

text \<open>What a caller reads from the combined reader: the objects up to the first one that fails.\<close>

fun joined_stream :: "'s VertexBatchObjectStore \<Rightarrow> string \<Rightarrow> string list \<Rightarrow> ('s, result_stream) state" where
  "joined_stream store token [] = ret \<lparr>rd_Content = [], rd_Err = None\<rparr>"
| "joined_stream store token (obj # objs) = do {
     opened \<leftarrow> vo_OpenObject store token obj;
     case opened of
       Inl err \<Rightarrow> ret \<lparr>rd_Content = [], rd_Err = Some (call_error_text err)\<rparr>
     | Inr (r, _) \<Rightarrow>
         if or_Err r \<noteq> None \<or> objs = [] then ret \<lparr>rd_Content = content r, rd_Err = or_Err r\<rparr>
         else do {
           rest \<leftarrow> joined_stream store token objs;
           ret (rest\<lparr>rd_Content := content r @ newline @ rd_Content rest\<rparr>) } }"

definition vertex_result :: "'z net_scheme VertexBatchImageProvider \<Rightarrow> f64 BatchImageJob \<Rightarrow> Account \<Rightarrow>
    ('z net_scheme, goerr + result_stream) state" where
  "vertex_result p job account = do {
     r \<leftarrow> vertex_OpenResult p job account;
     attempt r id (\<lambda>((reader, token), _). do {
       stream \<leftarrow> joined_stream (vp_ObjectStore p) token (cr_Objects reader);
       ret (Inr stream) }) }"

definition vertex_provider :: "'z net_scheme VertexBatchImageProvider \<Rightarrow> 'z net_scheme \<Rightarrow> Account BatchImageProvider" where
  "vertex_provider p w = \<lparr>pv_Name = BatchImageProviderVertex, pv_SupportsAccount = vertex_SupportsAccount p,
     pv_Submit = \<lambda>job account input. answer_of (vertex_Submit p job account input) w,
     pv_Get = \<lambda>job account. plain_status (answer_of (vertex_Get p job account) w),
     pv_Cancel = \<lambda>job account. answer_of (vertex_Cancel p job account) w,
     pv_OpenResult = \<lambda>job account. answer_of (vertex_result p job account) w,
     pv_Cleanup = \<lambda>job account target. answer_of (vertex_Cleanup p job account target) w\<rparr>"

definition NewDefaultBatchImageProviderRegistry :: "'s GeminiBatchClient \<Rightarrow> 's \<Rightarrow> 'z net_scheme VertexBatchImageProvider \<Rightarrow>
    'z net_scheme \<Rightarrow> Account BatchImageProviderRegistry" where
  "NewDefaultBatchImageProviderRegistry client w p w' =
     NewBatchImageProviderRegistry [gemini_provider client w, vertex_provider p w']"

subsection \<open>The stream is what reading gives\<close>

lemma joined_stream_content:
  "list_all (serves_object store token body) objs \<Longrightarrow>
     fst (run_state (joined_stream store token objs) s)
       = \<lparr>rd_Content = join newline (map (\<lambda>obj. content (body obj)) objs), rd_Err = None\<rparr>"
proof (induction objs arbitrary: s)
  case (Cons obj objs)
  then have srv: "serves_object store token body obj" "list_all (serves_object store token body) objs" by simp_all
  from srv(1) obtain ct s1 where o1: "run_state (vo_OpenObject store token obj) s = (Inr (body obj, ct), s1)"
    unfolding serves_object_def by blast
  have e: "or_Err (body obj) = None" using srv(1) by (simp add: serves_object_def)
  show ?case
  proof (cases "objs = []")
    case False
    obtain st s2 where r: "run_state (joined_stream store token objs) s1 = (st, s2)" by fastforce
    with Cons.IH [OF srv(2), of s1] have "st = \<lparr>rd_Content = join newline (map (\<lambda>obj. content (body obj)) objs), rd_Err = None\<rparr>"
      by simp
    with False o1 e r show ?thesis by (simp add: run_bind join_Cons)
  qed (use o1 e in \<open>simp add: run_bind\<close>)
qed simp

subsection \<open>What a provider reports\<close>

definition consistent_status :: "provider_status \<Rightarrow> bool" where
  "consistent_status st \<longleftrightarrow>
     ps_InternalState st \<in> {BatchProviderStateQueued, BatchProviderStateRunning, BatchProviderStateSucceeded,
       BatchProviderStateFailed, BatchProviderStateCancelled, BatchProviderStateExpired}
     \<and> (ps_Done st \<longleftrightarrow> ps_InternalState st \<notin> {BatchProviderStateQueued, BatchProviderStateRunning})
     \<and> (ps_InternalState st \<in> {BatchProviderStateFailed, BatchProviderStateCancelled, BatchProviderStateExpired}
          \<longrightarrow> ps_ErrorCode st \<noteq> [])"

lemma vertex_state_consistent: "consistent_status (mapVertexBatchState job)"
  by (auto simp: mapVertexBatchState_def Let_def consistent_status_def set_state_def split: option.split)

lemma gemini_state_consistent: "consistent_status (mapGeminiBatchState batch)"
  by (auto simp: mapGeminiBatchState_def Let_def consistent_status_def split: option.split)

lemma consistent_output: "consistent_status st \<Longrightarrow> consistent_status (st\<lparr>ps_ProviderOutputRef := ref\<rparr>)"
  by (simp add: consistent_status_def)

lemma vertex_Get_status:
  "fst (run_state (vertex_Get p job account) w) = Inr (Some st) \<Longrightarrow> consistent_status st"
  by (cases "run_state (vertex_Get p job account) w")
    (auto simp: vertex_Get_def with_token_def Let_def consistent_output vertex_state_consistent
      elim!: run_elims split: option.splits)

lemma gemini_Get_status:
  "fst (run_state (gemini_Get client job account) w) = Inr (Some st) \<Longrightarrow>
     consistent_status st \<and> (ps_InternalState st = BatchProviderStateSucceeded \<longrightarrow> ps_ProviderOutputRef st \<noteq> [])"
  by (cases "run_state (gemini_Get client job account) w")
    (auto simp: gemini_Get_def Let_def consistent_output gemini_state_consistent elim!: run_elims
      split: option.splits if_splits, auto simp: consistent_status_def)

text \<open>
  Whatever a provider's service answers, what the provider reports about a batch can be acted on: the state is
  one of the six that the processor knows, the batch counts as ended exactly in the four final ones, a batch that
  failed, was cancelled or expired comes with an error code; and a Gemini batch that succeeded names its result file.
\<close>
theorem provider_reports_are_consistent:
  "(fst (run_state (vertex_Get p job account) w) = Inr (Some st) \<longrightarrow> consistent_status st)
   \<and> (fst (run_state (gemini_Get client job' account') w') = Inr (Some st') \<longrightarrow>
        consistent_status st'
        \<and> (ps_InternalState st' = BatchProviderStateSucceeded \<longrightarrow> ps_ProviderOutputRef st' \<noteq> []))"
  using vertex_Get_status [of p job account w st] gemini_Get_status [of client job' account' w' st']
    by blast

definition gemini_account :: Account where
  "gemini_account = (sample_account PlatformGemini [])\<lparr>ac_Type := AccountTypeAPIKey,
     ac_Credentials := Some [(''api_key'', JsonString ''k'')]\<rparr>"

text \<open>A batch that succeeded without a result file.\<close>

definition sample_gemini :: GeminiBatchHTTPClient where
  "sample_gemini = NewGeminiBatchHTTPClient [] \<lparr>gb_BaseURL = [], gb_Env = sample_http (\<lambda>_ _. Inr (answer 200 [])),
     gb_Boundary = ''B'', gb_DecodeUpload = \<lambda>_. Inr (None, None),
     gb_DecodeJob = \<lambda>_. Inr \<lparr>gj_Name = ''batches/1'', gj_State = ''job_state_succeeded'', gj_Dest = None,
       gj_Response = None, gj_Error = None\<rparr>,
     gb_DecodeMetadata = \<lambda>_. Inr \<lparr>gm_DownloadURI = [], gm_DownloadURL = [], gm_MimeType = []\<rparr>,
     gb_Body = \<lambda>_. \<lparr>rd_Content = [], rd_Err = None\<rparr>\<rparr>"

definition running_job :: "f64 BatchImageJob" where
  "running_job = vertex_job\<lparr>jb_ProviderJobName := Some ''batches/1''\<rparr>"

lemma provider_reports_are_consistent_witness:
  "\<exists>st. fst (run_state (gemini_Get (gemini_http_client sample_gemini) running_job gemini_account) sample_net)
      = Inr (Some st) \<and> ps_InternalState st = BatchProviderStateFailed \<and> ps_ErrorCode st \<noteq> [] \<and> ps_Done st"
proof -
  let ?r = "fst (run_state (gemini_Get (gemini_http_client sample_gemini) running_job gemini_account) sample_net)"
  have "case ?r of Inr (Some st) \<Rightarrow> ps_InternalState st = BatchProviderStateFailed | _ \<Rightarrow> False" by code_simp
  then obtain st where st: "?r = Inr (Some st)" "ps_InternalState st = BatchProviderStateFailed"
    by (auto split: sum.splits option.splits)
  from provider_reports_are_consistent [THEN conjunct2, THEN mp, OF this(1)] have "consistent_status st" by blast
  with st show ?thesis by (auto simp: consistent_status_def)
qed

subsection \<open>Where the Vertex provider sends its requests\<close>

text \<open>The contract of the two clients, and what follows for the provider.\<close>

locale vertex_backend =
  fixes R :: "'z net_scheme \<Rightarrow> 'z net_scheme \<Rightarrow> bool" and client :: "'z net_scheme VertexBatchClient"
    and store :: "'z net_scheme VertexBatchObjectStore"
  assumes R_refl: "reflp R" and R_trans: "transp R"
    and create: "steps R (vc_CreateBatchPredictionJob client token req)"
    and get: "steps R (vc_GetBatchPredictionJob client token name)"
    and cancel: "steps R (vc_CancelBatchPredictionJob client token name)"
    and upload: "steps R (vo_UploadJSONL store token uri jsonl)"
    and listing: "steps R (vo_ListJSONLObjects store token uri)"
    and open_object: "steps R (vo_OpenObject store token uri)"
    and delete: "steps R (vo_DeleteObject store token uri)" "steps R (vo_DeletePrefix store token uri)"
begin

lemmas backend_steps = R_refl R_trans create get cancel upload listing open_object delete

lemma operations:
  assumes "vp_Client p = client" "vp_ObjectStore p = store"
    and "steps R (getVertexServiceAccountAccessToken (vp_Lib p) (vp_TokenCache p) account)"
  shows "steps R (vertex_Submit p job account input)" "steps R (vertex_Get p job account)"
    "steps R (vertex_Cancel p job account)" "steps R (vertex_OpenResult p job account)"
    "steps R (vertex_Cleanup p job account target)" "steps R (combined_Read (vp_ObjectStore p) token n reader)"
  unfolding vertex_Submit_def vertex_create_def vertex_Get_def vertex_Cancel_def vertex_OpenResult_def vertex_Cleanup_def
    with_token_def deleteManagedInput_def deleteManagedOutput_def combined_Read_def assms(1,2)
  by (intro steps_intro backend_steps assms(3))+

end

definition vertex_prefixes :: "VertexBatchHTTPClient \<Rightarrow> VertexGCSObjectStore \<Rightarrow> string set" where
  "vertex_prefixes c s = {gs_BaseURL s @ ''/'', ''https://aiplatform.googleapis.com/v1/''}
     \<union> {''https://'' @ location @ ''-aiplatform.googleapis.com/v1/'' |location. vertexLocationPattern location}
     \<union> (if vb_BaseURL c = [] then {}
        else {vb_BaseURL c @ ''/v1/'', trim_right {CHR ''/''} (trim_space (vb_BaseURL c)) @ ''/v1/''})"

definition vertex_address :: "VertexBatchHTTPClient \<Rightarrow> VertexGCSObjectStore \<Rightarrow> string \<Rightarrow> bool" where
  "vertex_address c s url \<longleftrightarrow> url = vertexDefaultTokenURL \<or> (\<exists>prefix \<in> vertex_prefixes c s. starts_with prefix url)"

lemma vertex_addressI: "prefix \<in> vertex_prefixes c s \<Longrightarrow> url = prefix @ path \<Longrightarrow> vertex_address c s url"
  by (auto simp: vertex_address_def starts_with_append)

lemma endpoint_address:
  "BuildVertexBatchPredictionJobsEndpoint (vb_BaseURL c) projectID location = Inr url \<Longrightarrow> vertex_address c s url"
  by (auto simp: BuildVertexBatchPredictionJobsEndpoint_def Let_def vertex_address_def vertex_prefixes_def starts_with_append
      split: if_splits)

lemma resource_address: "vertex_address c s (vertexResourceURL c name)" "vertex_address c s (vertexResourceURL c name @ path)"
  by (auto simp: vertexResourceURL_def Let_def vertex_address_def vertex_prefixes_def starts_with_append)

lemma store_address: "vertex_address c s (gs_BaseURL s @ CHR ''/'' # path)"
  by (auto simp: vertex_address_def vertex_prefixes_def starts_with_append)

interpretation vertex: vertex_backend "sends (\<lambda>q. vertex_address c s (hq_URL q))" "vertex_http_client c" "gcs_store s"
  for c :: VertexBatchHTTPClient and s :: VertexGCSObjectStore
proof unfold_locales
  let ?R = "sends (\<lambda>q. vertex_address c s (hq_URL q)) :: 'z net_scheme \<Rightarrow> 'z net_scheme \<Rightarrow> bool"
  note urls = bucket_url_def object_url_def list_request_def delete_request_def store_address
  show "steps ?R (vc_CreateBatchPredictionJob (vertex_http_client c) token req)" for token req
    unfolding vertex_http_client_def VertexBatchClient.simps CreateBatchPredictionJob_def
    by (intro steps_intro) (simp add: endpoint_address)
  show "steps ?R (vc_GetBatchPredictionJob (vertex_http_client c) token name)" for token name
    unfolding vertex_http_client_def VertexBatchClient.simps GetBatchPredictionJob_def
    by (intro steps_intro) (simp add: resource_address)
  show "steps ?R (vc_CancelBatchPredictionJob (vertex_http_client c) token name)" for token name
    unfolding vertex_http_client_def VertexBatchClient.simps CancelBatchPredictionJob_def
    by (intro steps_intro) (simp add: resource_address)
  show "steps ?R (vo_UploadJSONL (gcs_store s) token uri jsonl)" for token uri jsonl
    unfolding gcs_store_def VertexBatchObjectStore.simps UploadJSONL_def
    by (intro steps_intro) (simp add: urls)
  show "steps ?R (vo_OpenObject (gcs_store s) token uri)" for token uri
    unfolding gcs_store_def VertexBatchObjectStore.simps OpenObject_def
    by (intro steps_intro) (simp add: urls)
  have del: "steps ?R (DeleteObject s token uri)" for token uri
    unfolding DeleteObject_def by (intro steps_intro) (simp add: urls)
  then show "steps ?R (vo_DeleteObject (gcs_store s) token uri)" for token uri
    by (simp add: gcs_store_def)
  have pages: "steps ?R (listObjects s token uri jsonlOnly)" for token uri jsonlOnly
    unfolding listObjects_def
    by (intro steps_attempt steps_case_prod sends_reflp steps_list_pages) (simp add: urls)
  then show "steps ?R (vo_ListJSONLObjects (gcs_store s) token uri)" for token uri
    by (simp add: gcs_store_def ListJSONLObjects_def)
  have "steps ?R (delete_objects s token uris)" for token uris
    by (induction uris) (auto intro!: steps_intro del)
  then show "steps ?R (vo_DeletePrefix (gcs_store s) token uri)" for token uri
    unfolding gcs_store_def VertexBatchObjectStore.simps DeletePrefix_def by (intro steps_intro pages)
qed (rule steps_intro)+

text \<open>
  The key of a service account is only exchanged at Google's token endpoint, whatever token address its JSON names,
  and the access token only goes to the configured or Google's own addresses of Vertex AI and Cloud Storage: every
  request of every operation of the provider, and of reading a result, has one of these addresses.
\<close>
theorem vertex_credentials_stay_with_google:
  assumes "vp_Client p = vertex_http_client c" "vp_ObjectStore p = gcs_store s"
    and "case vp_TokenCache p of None \<Rightarrow> True | Some cache \<Rightarrow> quiet_cache cache"
  shows "steps (sends (\<lambda>q. vertex_address c s (hq_URL q))) (vertex_Submit p job account input)
    \<and> steps (sends (\<lambda>q. vertex_address c s (hq_URL q))) (vertex_Get p job account)
    \<and> steps (sends (\<lambda>q. vertex_address c s (hq_URL q))) (vertex_Cancel p job account)
    \<and> steps (sends (\<lambda>q. vertex_address c s (hq_URL q))) (vertex_OpenResult p job account)
    \<and> steps (sends (\<lambda>q. vertex_address c s (hq_URL q))) (vertex_Cleanup p job account target)
    \<and> steps (sends (\<lambda>q. vertex_address c s (hq_URL q))) (combined_Read (vp_ObjectStore p) token n reader)"
proof -
  have "steps (sends (\<lambda>q. vertex_address c s (hq_URL q)))
      (getVertexServiceAccountAccessToken (vp_Lib p) (vp_TokenCache p) account)"
    by (rule steps_sends_mono [OF token_requests [OF assms(3)]]) (simp add: vertex_address_def)
  from vertex.operations [OF assms(1,2) this] show ?thesis by blast
qed

lemma default_addresses:
  "vertex_prefixes (NewVertexBatchHTTPClient [] env decodeJob) (NewVertexGCSObjectStore [] env' decodePage body) =
     {''https://storage.googleapis.com/'', ''https://aiplatform.googleapis.com/v1/''}
     \<union> {''https://'' @ location @ ''-aiplatform.googleapis.com/v1/'' |location. vertexLocationPattern location}"
  by (simp add: vertex_prefixes_def NewVertexBatchHTTPClient_def NewVertexGCSObjectStore_def trim_right_def)

lemma sample_submission_addresses:
  "list_all (\<lambda>q. vertex_address (NewVertexBatchHTTPClient [] (sample_http serve)
       (\<lambda>_. Inr \<lparr>vj_Name = ''jobs/1'', vj_DisplayName = [], vj_State = ''JOB_STATE_PENDING'', vj_OutputURIPrefix = [],
                vj_Error = None\<rparr>)) (sample_gcs serve names) (hq_URL q))
     (nt_Sent (snd (run_state (vertex_Submit (sample_vertex serve names) vertex_job vertex_account one_item_input) sample_net)))"
proof -
  have "sends (\<lambda>q. vertex_address (NewVertexBatchHTTPClient [] (sample_http serve)
       (\<lambda>_. Inr \<lparr>vj_Name = ''jobs/1'', vj_DisplayName = [], vj_State = ''JOB_STATE_PENDING'', vj_OutputURIPrefix = [],
                vj_Error = None\<rparr>)) (sample_gcs serve names) (hq_URL q)) sample_net
     (snd (run_state (vertex_Submit (sample_vertex serve names) vertex_job vertex_account one_item_input) sample_net))"
    by (rule steps_snd [OF conjunct1 [OF vertex_credentials_stay_with_google]]) (simp_all add: sample_vertex_def)
  then show ?thesis by (simp add: sends_def sample_net_def)
qed

subsection \<open>The cleanup pass with the Vertex provider\<close>

text \<open>The run of \<open>missing_object_hides_the_rest\<close>, seen by the cleanup pass: the output counts as deleted.\<close>

definition vertex_cleanup_service :: "(http_request list \<Rightarrow> http_request \<Rightarrow> goerr + http_response) \<Rightarrow> Account BatchImageCleanupService" where
  "vertex_cleanup_service serve = \<lparr>
     cu_Registry = Some (NewDefaultBatchImageProviderRegistry (gemini_http_client sample_gemini) sample_net
       (sample_vertex serve sample_objects) sample_net),
     cu_ResolveAccount = Some (\<lambda>_. Inr vertex_account), cu_Config = None, cu_Zone = UTC\<rparr>"

lemma half_deleted_output_counts_as_deleted:
  "callProviderCleanup (vertex_cleanup_service first_gone) (vertex_job\<lparr>jb_AccountID := Some 1\<rparr>) CleanupTargetOutput = Inr ()"
  by code_simp

end
