(* ===== verification/VertexLive.thy ===== *)
theory VertexLive
  imports VertexAuth VertexStore
begin

section \<open>Addresses and bodies of live Vertex requests\<close>

text \<open>
  The rest of \<^verbatim>\<open>service/vertex_service_account.go\<close>: the address of a Gemini or Anthropic model at Vertex AI, the name that
  Vertex gives to a dated Anthropic model, and the body that it expects.
\<close>

definition IsVertexServiceAccount :: "Account \<Rightarrow> bool" where
  "IsVertexServiceAccount a \<longleftrightarrow> ac_Type a = AccountTypeServiceAccount"

definition vertexAnthropicVersion :: string where "vertexAnthropicVersion = ''vertex-2023-10-16''"

text \<open>The host and the path up to the publisher, after the checks that both builders make.\<close>

definition vertex_host_path :: "string \<Rightarrow> string \<Rightarrow> string \<Rightarrow> string" where
  "vertex_host_path projectID location publisher =
     ''https://'' @ (if location = ''global'' then ''aiplatform.googleapis.com'' else location @ ''-aiplatform.googleapis.com'')
     @ ''/v1/projects/'' @ path_escape projectID @ ''/locations/'' @ path_escape location
     @ ''/publishers/'' @ publisher @ ''/models/''"

definition or_default_location :: "string \<Rightarrow> string" where
  "or_default_location location0 = (let location = trim_space location0 in
     if location = [] then vertexDefaultLocation else location)"

definition vertex_url_checks :: "string \<Rightarrow> string \<Rightarrow> string \<Rightarrow> goerr + unit" where
  "vertex_url_checks projectID location model =
     (if projectID = [] then Inl (PlainErr ''vertex project_id is required'')
      else if \<not> vertexLocationPattern location then Inl (PlainErr (''invalid vertex location: '' @ location))
      else if model = [] then Inl (PlainErr ''vertex model is required'')
      else Inr ())"

definition buildVertexGeminiURL :: "string \<Rightarrow> string \<Rightarrow> string \<Rightarrow> string \<Rightarrow> bool \<Rightarrow> goerr + string" where
  "buildVertexGeminiURL projectID0 location0 model0 action0 stream = (let
       projectID = trim_space projectID0; location = or_default_location location0;
       model = trim_space model0; action = trim_space action0
     in sum_bind (vertex_url_checks projectID location model) (\<lambda>_.
       if action \<notin> {''generateContent'', ''streamGenerateContent'', ''countTokens''} then
         Inl (PlainErr (''unsupported vertex gemini action: '' @ action))
       else Inr (vertex_host_path projectID location ''google'' @ path_escape model @ '':'' @ action
              @ (if stream then ''?alt=sse'' else []))))"

definition buildVertexAnthropicURL :: "string \<Rightarrow> string \<Rightarrow> string \<Rightarrow> bool \<Rightarrow> goerr + string" where
  "buildVertexAnthropicURL projectID0 location0 model0 stream = (let
       projectID = trim_space projectID0; location = or_default_location location0; model = trim_space model0;
       action = (if stream then ''streamRawPredict'' else ''rawPredict'')
     in sum_bind (vertex_url_checks projectID location model) (\<lambda>_.
       Inr (vertex_host_path projectID location ''anthropic'' @ replace_all ''%40'' ''@'' (path_escape model) @ '':'' @ action)))"

text \<open>
  The patterns \<^verbatim>\<open>^.+@[0-9]{8}$\<close> and \<^verbatim>\<open>^(.+)-([0-9]{8})$\<close>: the text before the mark, when the mark and eight digits follow it.
\<close>

definition dated_with :: "char \<Rightarrow> string \<Rightarrow> (string \<times> string) option" where
  "dated_with mark s = (let n = length s - 9; digits = drop (n + 1) s in
     if 10 \<le> length s \<and> s ! n = mark \<and> list_all (in_range 0x30 0x39) digits \<and> CHR 0x0A \<notin> set (take n s)
     then Some (take n s, digits) else None)"

definition normalizeVertexAnthropicModelID :: "string \<Rightarrow> string" where
  "normalizeVertexAnthropicModelID model0 = (let model = trim_space model0 in
     if model = [] \<or> dated_with (CHR ''@'') model \<noteq> None then model
     else (case dated_with (CHR ''-'') model of
         Some (name, date) \<Rightarrow> name @ ''@'' @ date
       | None \<Rightarrow> model))"

text \<open>The JSON decoder and encoder are parameters; a body that is \<^verbatim>\<open>null\<close> leaves a nil map, and assigning to it panics: None.\<close>

definition buildVertexAnthropicRequestBody :: "(string \<Rightarrow> goerr + json_object option) \<Rightarrow> (json_object \<Rightarrow> goerr + string) \<Rightarrow>
    string \<Rightarrow> (goerr + string) option" where
  "buildVertexAnthropicRequestBody unmarshal marshal body = (case unmarshal body of
      Inl err \<Rightarrow> Some (Inl (WrapErr ''parse anthropic vertex request body'' err))
    | Inr None \<Rightarrow> None
    | Inr (Some payload) \<Rightarrow> Some (marshal (AList.update ''anthropic_version'' (JsonString vertexAnthropicVersion)
        (AList.delete ''model'' payload))))"

subsection \<open>Lemmas\<close>

text \<open>Whatever the project, location and model are, the request goes to Google.\<close>

definition google_live_url :: "string \<Rightarrow> bool" where
  "google_live_url url \<longleftrightarrow> (\<exists>host path. url = ''https://'' @ host @ ''/v1/projects/'' @ path
     \<and> (host = ''aiplatform.googleapis.com''
        \<or> (\<exists>l. vertexLocationPattern l \<and> host = l @ ''-aiplatform.googleapis.com'')))"

lemma host_path_google: "vertexLocationPattern l \<Longrightarrow> google_live_url (vertex_host_path p l publisher @ rest)"
  unfolding google_live_url_def vertex_host_path_def
  by (intro exI [of _ "if l = ''global'' then ''aiplatform.googleapis.com'' else l @ ''-aiplatform.googleapis.com''"]
      exI [of _ "path_escape p @ ''/locations/'' @ path_escape l @ ''/publishers/'' @ publisher @ ''/models/'' @ rest"])
    auto

lemma checks_Inr: "vertex_url_checks p l m = Inr u \<longleftrightarrow> p \<noteq> [] \<and> vertexLocationPattern l \<and> m \<noteq> []"
  by (simp add: vertex_url_checks_def)

lemma live_urls_stay_with_google:
  "buildVertexGeminiURL projectID location model action stream = Inr url \<Longrightarrow> google_live_url url"
  "buildVertexAnthropicURL projectID location model stream = Inr url \<Longrightarrow> google_live_url url"
  by (auto simp: buildVertexGeminiURL_def buildVertexAnthropicURL_def Let_def sum_bind_Inr checks_Inr host_path_google
      simp del: append.simps split: if_splits)

lemma dated_name: "dated_with mark s = Some (name, date) \<Longrightarrow>
    s = name @ mark # date \<and> name \<noteq> [] \<and> length date = 8 \<and> list_all (in_range 0x30 0x39) date \<and> CHR 0x0A \<notin> set name"
  by (auto simp: dated_with_def Let_def id_take_nth_drop [symmetric] split: if_splits)

lemma dated_intro:
  "name \<noteq> [] \<Longrightarrow> length date = 8 \<Longrightarrow> list_all (in_range 0x30 0x39) date \<Longrightarrow> CHR 0x0A \<notin> set name \<Longrightarrow>
     dated_with mark (name @ mark # date) = Some (name, date)"
  by (cases name) (auto simp: dated_with_def Let_def nth_append)

text \<open>A name that was normalised stays as it is.\<close>

lemma digit_byte_plain: "in_range 0x30 0x39 c \<Longrightarrow> plain c"
  by (simp add: plain_def ascii_alnum_def)

lemma at_solid: "solid (CHR ''@'')"
  by code_simp

lemma normalized_model_stays:
  "normalizeVertexAnthropicModelID (normalizeVertexAnthropicModelID model) = normalizeVertexAnthropicModelID model"
proof (cases "dated_with (CHR ''@'') (trim_space model) = None \<and> dated_with (CHR ''-'') (trim_space model) \<noteq> None")
  case True
  then obtain name date where d: "dated_with (CHR ''-'') (trim_space model) = Some (name, date)" by auto
  note n = dated_name [OF d]
  have "trim_space (name @ ''@'' @ date) = name @ ''@'' @ date"
  proof (rule trim_space_plain_end)
    have "trim_space (trim_space model) = trim_space model" by simp
    then have "stripped go_spaces (name @ CHR ''-'' # date)" using trim_space_stripped n by metis
    then show "stripped go_spaces (name @ ''@'' @ date)" using stripped_front [of name _ "CHR ''@''" date] n at_solid by simp
    show "plain (last (name @ ''@'' @ date))" using n digit_byte_plain by (cases date) (auto simp: list_all_iff)
  qed simp
  then show ?thesis
    using True d n dated_intro [of name date "CHR ''@''"]
    by (simp add: normalizeVertexAnthropicModelID_def Let_def)
next
  case False
  then show ?thesis by (auto simp: normalizeVertexAnthropicModelID_def Let_def split: option.splits)
qed

end
