(* ===== verification/Spec2Isabelle.thy ===== *)
theory Spec2Isabelle
  imports SettlementProperties BatchImageProcessor IdempotencyProperties DownloadService BatchProviders VertexLive
begin

text \<open>
  Verification library of the sub2api backend, a gateway that resells access to model providers (Go, under
  \<^verbatim>\<open>src/backend/\<close>; the file names below are relative to \<^verbatim>\<open>src/backend/internal/\<close>).

  \<^bold>\<open>The program and the part that is modelled.\<close>  Users call the gateway with an API key; the gateway picks a provider
  account, forwards the request and charges the user.  The library models the code that decides about money and about
  the jobs that money is held for: the usage billing, the batch image subsystem from the request to the download, the
  idempotency of write requests, and the account rules (model mapping, quotas, schedulability) that these use.

  A batch image job lives like this.  The public service checks and prices a request (\<open>BatchImageRequest\<close>), records the
  job with its items, reserves the hold and hands the job to the provider (\<open>BatchImagePublic\<close>); the job is queued in
  Redis (\<open>BatchImageQueue\<close>); workers reserve it, under a lock (\<open>BatchImageWorker\<close>), and the processor polls the provider,
  indexes the result lines and moves the status (\<open>BatchImageProcessor\<close>, \<open>BatchImageIndexer\<close>, \<open>BatchImageResults\<close>);
  the settlement captures the cost and returns the rest of the hold (\<open>BatchImageSettlement\<close>); a recovery pass ends jobs
  whose submission died; the owner downloads images one by one or as a ZIP archive (\<open>DownloadService\<close>); and a cleanup
  pass deletes inputs and outputs at the provider (\<open>BatchImageCleanup\<close>).  All of them meet in the tables that
  \<open>BatchImageRepo\<close> and \<open>UsageBilling\<close> write.

  \<^bold>\<open>Foundations.\<close>
  \<^item> \<open>Prelude\<close>: Go strings as lists of bytes, integers, pointers as options; the monad of the effects.  A state has a
    list of faults that says of every call whether it is answered, not sent, or applied with its answer lost, so a
    theorem without an assumption on the faults holds for every pattern of failures.  \<open>steps R\<close> says that an operation
    relates the states before and after by \<open>R\<close>; the frame lemmas are of this form.
  \<^item> \<open>GoErrors\<close> (\<^verbatim>\<open>pkg/errors\<close>), \<open>GoJson\<close>, \<open>GoStrings\<close>, \<open>Float64\<close> (float64 as the rationals that it can hold, with
    rounding, infinities and NaN), \<open>Database\<close> (numeric and varchar columns, transactions).

  \<^bold>\<open>Components.\<close>
  \<^item> \<open>UsageBilling\<close>: \<^verbatim>\<open>service/usage_billing.go\<close>, \<^verbatim>\<open>repository/usage_billing_repo.go\<close>.  A request id charges at most
    once; every operation refines a step of a wallet with a balance and a frozen part; frozen money is never negative;
    the effect of a charge, a reservation, a capture and a release on every branch.
  \<^item> \<open>BatchImageJob\<close>, \<open>BatchImageRepo\<close>: \<^verbatim>\<open>service/batch_image.go\<close>, \<^verbatim>\<open>repository/batch_image_repo.go\<close>.  Jobs follow the
    transition relation and keep their identity whatever statements run; a job is settled once.
  \<^item> \<open>BatchImageWorker\<close>, \<open>BatchImageQueue\<close>: \<^verbatim>\<open>service/batch_image_queue.go\<close>, \<^verbatim>\<open>service/batch_image_worker.go\<close>,
    \<^verbatim>\<open>repository/batch_image_queue.go\<close>.  No job is lost, locks exclude, stale jobs come back.  The worker relies on the
    locale of a queue, which the queue in Redis interprets.
  \<^item> \<open>BatchImageSettlement\<close>, \<open>ServiceFrames\<close>, \<open>SettlementProperties\<close>: \<^verbatim>\<open>service/batch_image_billing_hold.go\<close>,
    \<^verbatim>\<open>service/batch_image_settlement.go\<close>, \<^verbatim>\<open>service/batch_image_billing_recovery.go\<close>.  The frames of the money tables
    and of the job tables are locales that the relations of the proofs interpret.
  \<^item> \<open>BatchImageResults\<close>, \<open>BatchImageIndexer\<close>, \<open>BatchImageProcessor\<close>: \<^verbatim>\<open>service/batch_image_processor.go\<close>,
    \<^verbatim>\<open>service/batch_image_provider.go\<close>.  An index run leaves exactly the items that the job had; worker, queue, processor
    and settlement composed never drop a job from the queue with its hold open.
  \<^item> \<open>BatchImageRequest\<close>, \<open>BatchImagePublic\<close>, \<open>BatchImageSubmission\<close>, \<open>BatchImagePublicProperties\<close>:
    \<^verbatim>\<open>service/batch_image_public.go\<close>.  Accepted requests are well formed and their hold covers their cost; the
    provider is called only for recorded and paid jobs; replays charge nothing; strangers are refused.
  \<^item> \<open>DownloadFiles\<close>, \<open>DownloadLimiter\<close>, \<open>DownloadZip\<close>, \<open>DownloadService\<close>: \<^verbatim>\<open>service/batch_image_download.go\<close>,
    \<^verbatim>\<open>repository/batch_image_download_limiter.go\<close>.  Names are harmless, archives complete, permits come back and are
    never more than configured.  The service relies on the locale of permits, which the limiter in Redis interprets.
  \<^item> \<open>BatchImageCleanup\<close>: \<^verbatim>\<open>service/batch_image_cleanup.go\<close>.  A deletion is recorded only when it happened.
  \<^item> \<open>HttpCalls\<close>, \<open>TrimLemmas\<close>, \<open>ProviderRequests\<close>: what both batch providers share, that is the HTTP exchanges with
    the other side, and the checks and the JSONL lines of \<^verbatim>\<open>service/batch_image_provider.go\<close>.  A request that is accepted
    is sent whole and in order.
  \<^item> \<open>VertexAuth\<close>, \<open>VertexStore\<close>, \<open>CombinedReader\<close>, \<open>VertexProvider\<close>, \<open>VertexPaths\<close>, \<open>VertexProperties\<close>:
    \<^verbatim>\<open>service/batch_image_provider_vertex.go\<close>, \<^verbatim>\<open>service/vertex_service_account.go\<close>.  A cleanup deletes only
    objects of its own batch and can delete what the submission wrote; two batches never share an object; the objects of
    a result are read as one text.  The deletions rely on the locale of a store, which Cloud Storage interprets.
  \<^item> \<open>GeminiProvider\<close>, \<open>BatchProviders\<close>: \<^verbatim>\<open>service/batch_image_provider_gemini.go\<close> and both providers behind the
    interface of the processor.  An API key is sent to Google's hosts and the configured one only.  The provider relies
    on the locale of a batch client, which the HTTP client interprets.
  \<^item> \<open>VertexLive\<close>: the URLs and credentials of live requests with a service account.
  \<^item> \<open>Idempotency\<close>, \<open>IdempotencyProperties\<close>: \<^verbatim>\<open>service/idempotency.go\<close>, \<^verbatim>\<open>repository/idempotency_repo.go\<close>,
    \<^verbatim>\<open>service/idempotency_cleanup_service.go\<close> and the log redaction \<^verbatim>\<open>util/logredact\<close> that stored responses pass
    through.  Claims exclude each other, live records block, responses are replayed.
  \<^item> \<open>AccountModels\<close>, \<open>AccountLimits\<close>: the model mapping, the quota windows and the schedulability of
    \<^verbatim>\<open>service/account.go\<close>, and the reset times that the Go code and the SQL statements compute.

  \<^bold>\<open>Bounds.\<close>  Loops over pages end because a short page ends them and \<open>offset\<close> grows; the reserve loop of the queue ends at
  its deadline; string loops shrink their argument.  Each has a termination proof, and no fuel is used.  The
  listing of objects follows the page tokens of the other side, which may never end: it runs until the caller's context
  is cancelled, and \<open>nt_CallsLeft\<close>, the number of calls until then, is arbitrary and bounds it.  Go's 64-bit
  integers are unbounded here, except where the code relies on wrapping or on a bound; durations below 292 years.

  \<^bold>\<open>Parameters.\<close>  What the repository only calls is an argument of the model: the conversion between float64 and NUMERIC,
  time zones, SHA-256, \<^verbatim>\<open>encoding/json\<close> on texts, Base64, the Unicode tables, \<^verbatim>\<open>time.Parse\<close> and \<^verbatim>\<open>strconv.ParseFloat\<close>,
  \<^verbatim>\<open>url.Parse\<close>, the signing of JSON web tokens, proxies, and the answers of writers and of contexts.  The other side of
  the HTTP calls is a function \<open>hv_Serve\<close> of all requests sent so far, so it may answer differently every time;
  redirects are part of its answer.  The processor and the public service see a provider as a record of operations.

  \<^bold>\<open>Not modelled.\<close>  Instants are exact (PostgreSQL keeps microseconds).  Log lines, metrics and the tickers around the
  passes are left out; contexts show only as failing calls.  The code generated by ent is not modelled: the hand-written
  SQL is modelled on the tables directly.  The HTTP handlers, middleware and wiring, the gateway's forwarding and
  scheduling of live requests, authentication, payments, announcements, channel monitoring, the OAuth clients and the
  administration services are separate subsystems that the modelled ones do not rely on; the manifest lists them.
\<close>

end
